(* ===== verification/Prelude.thy ===== *)
theory Prelude
  imports Main "HOL-Library.Word"
begin

text \<open>
  What the components of the development share: the widths of the machine integers of the
  C and Go sources, two's complement wrap-around on \<open>int\<close>, rounding up to an alignment,
  little-endian byte strings, and Go's \<open>time.Time\<close> and \<open>time.Duration\<close>.
  The collection \<open>ksize\<close> holds the computed sizes and alignments of the C types
  of the kernel header; \<open>endian\<close> holds the facts that evaluate byte strings.
\<close>

named_theorems ksize
named_theorems endian

type_synonym byte = "8 word"
type_synonym u16 = "16 word"
type_synonym u32 = "32 word"
type_synonym u64 = "64 word"


section \<open>Rounding up to an alignment\<close>

definition align_up :: "nat \<Rightarrow> nat \<Rightarrow> nat" where
  "align_up n a = (if a = 0 then n else (n + (a - 1)) div a * a)"

lemma align_up_dvd [simp]: "0 < a \<Longrightarrow> a dvd align_up n a"
  by (simp add: align_up_def)

lemma align_up_ge [simp, intro]: "n \<le> align_up n a"
proof (cases "a = 0")
  case False
  have "n + (a - 1) = (n + (a - 1)) div a * a + (n + (a - 1)) mod a"
    by (rule div_mult_mod_eq [symmetric])
  moreover have "(n + (a - 1)) mod a \<le> a - 1"
    using False mod_less_divisor [of a "n + (a - 1)"] by linarith
  ultimately have "n \<le> (n + (a - 1)) div a * a"
    by linarith
  then show ?thesis
    using False by (simp add: align_up_def)
qed (simp add: align_up_def)

lemma align_up_dvd_id: "a dvd n \<Longrightarrow> align_up n a = n"
proof (cases "a = 0")
  case False
  assume "a dvd n"
  then obtain k where "n = a * k" ..
  then have n: "n = k * a"
    by simp
  have "(a - 1 + k * a) div a = k + (a - 1) div a"
    using False by (rule div_mult_self1)
  also have "(a - 1) div a = 0"
    using False by simp
  finally have "(n + (a - 1)) div a = k"
    by (simp only: n add.commute add_0_right)
  with n False show ?thesis
    by (simp add: align_up_def)
qed (simp add: align_up_def)

lemma align_up_dvd_trans: "0 < a \<Longrightarrow> b dvd a \<Longrightarrow> b dvd align_up n a"
  using align_up_dvd dvd_trans by blast

lemma align_up_mono: "m \<le> n \<Longrightarrow> align_up m a \<le> align_up n a"
  by (auto simp: align_up_def intro: div_le_mono)

lemma align_up_least: "a dvd m \<Longrightarrow> n \<le> m \<Longrightarrow> align_up n a \<le> m"
  using align_up_mono [of n m a] by (simp add: align_up_dvd_id)

lemma dvd_mult_trans: "a dvd b \<Longrightarrow> k * b dvd c \<Longrightarrow> k * a dvd (c :: nat)"
  by (meson dvd_refl dvd_trans mult_dvd_mono)


section \<open>Little-endian byte strings\<close>

fun le_bytes :: "nat \<Rightarrow> nat \<Rightarrow> byte list" where
  "le_bytes 0 v = []"
| "le_bytes (Suc n) v = of_nat (v mod 256) # le_bytes n (v div 256)"

fun le_nat :: "byte list \<Rightarrow> nat" where
  "le_nat [] = 0"
| "le_nat (b # bs) = unat b + 256 * le_nat bs"

lemma length_le_bytes [simp, endian]: "length (le_bytes n v) = n"
  by (induction n arbitrary: v) auto

lemma unat_of_nat_byte [simp]: "unat (of_nat (v mod 256) :: byte) = v mod 256"
  by (simp add: unat_of_nat take_bit_eq_mod)

lemma unat_byte_less [simp]: "unat (b :: byte) < 256"
  using unsigned_less [of b] by simp

lemma le_nat_le_bytes: "le_nat (le_bytes n v) = v mod 256 ^ n"
proof (induction n arbitrary: v)
  case (Suc n)
  have "v mod 256 ^ Suc n = v mod 256 + 256 * (v div 256 mod 256 ^ n)"
    by (simp add: mod_mult2_eq)
  then show ?case using Suc by simp
qed simp

lemma le_nat_bound: "le_nat bs < 256 ^ length bs"
proof (induction bs)
  case (Cons b bs)
  have "unat b + 256 * le_nat bs < 256 + 256 * le_nat bs"
    by simp
  also have "\<dots> \<le> 256 * 256 ^ length bs"
    using Cons by (metis Suc_leI mult_Suc_right mult_le_mono2)
  finally show ?case by simp
qed simp

lemma le_nat_append: "le_nat (xs @ ys) = le_nat xs + 256 ^ length xs * le_nat ys"
  by (induction xs) (auto simp: algebra_simps)

lemma le_bytes_le_nat [simp]: "le_bytes (length bs) (le_nat bs) = bs"
proof (induction bs)
  case (Cons b bs)
  have b: "unat b < 256"
    by simp
  then have "(unat b + 256 * le_nat bs) mod 256 = unat b"
    "(unat b + 256 * le_nat bs) div 256 = le_nat bs"
    by simp_all
  then show ?case using Cons by simp
qed simp

lemma le_bytes_numeral:
  "le_bytes (numeral k) v = of_nat (v mod 256) # le_bytes (pred_numeral k) (v div 256)"
  by (simp only: numeral_eq_Suc [of k] le_bytes.simps)

lemma take_le_bytes: "k \<le> n \<Longrightarrow> take k (le_bytes n v) = le_bytes k v"
proof (induction n arbitrary: k v)
  case (Suc n)
  then show ?case by (cases k) auto
qed simp

lemma le_nat_replicate_0 [simp]: "le_nat (replicate n 0) = 0"
  by (induction n) auto

lemma le_bytes_zero: "le_bytes n 0 = replicate n 0"
  by (induction n) auto

text \<open>A word of \<open>8 * n\<close> bits is recovered from its \<open>n\<close> bytes.\<close>

lemma le_word_roundtrip:
  fixes w :: "'a::len word"
  assumes "LENGTH('a) = 8 * n"
  shows "of_nat (le_nat (le_bytes n (unat w))) = w"
proof -
  have "unat w < 2 ^ LENGTH('a)"
    by (rule unsigned_less)
  also have "(2::nat) ^ LENGTH('a) = 256 ^ n"
    using assms by (simp add: power_mult)
  finally show ?thesis
    by (simp add: le_nat_le_bytes)
qed

definition word16_bytes :: "u16 \<Rightarrow> byte list" where
  "word16_bytes w = le_bytes 2 (unat w)"

definition word32_bytes :: "u32 \<Rightarrow> byte list" where
  "word32_bytes w = le_bytes 4 (unat w)"

definition word64_bytes :: "u64 \<Rightarrow> byte list" where
  "word64_bytes w = le_bytes 8 (unat w)"

definition bytes_word16 :: "byte list \<Rightarrow> u16" where
  "bytes_word16 bs = of_nat (le_nat (take 2 bs))"

definition bytes_word32 :: "byte list \<Rightarrow> u32" where
  "bytes_word32 bs = of_nat (le_nat (take 4 bs))"

definition bytes_word64 :: "byte list \<Rightarrow> u64" where
  "bytes_word64 bs = of_nat (le_nat (take 8 bs))"

lemma length_word_bytes [simp, endian]:
  "length (word16_bytes a) = 2" "length (word32_bytes b) = 4" "length (word64_bytes c) = 8"
  by (simp_all add: word16_bytes_def word32_bytes_def word64_bytes_def)

lemma unat_of_le_nat:
  assumes "length bs \<le> n" "LENGTH('a) = 8 * n"
  shows "unat (of_nat (le_nat bs) :: 'a::len word) = le_nat bs"
proof -
  have "le_nat bs < 256 ^ length bs"
    by (rule le_nat_bound)
  also have "\<dots> \<le> 256 ^ n"
    using assms(1) by (simp add: power_increasing)
  also have "(256::nat) ^ n = 2 ^ LENGTH('a)"
    using assms(2) by (simp add: power_mult)
  finally show ?thesis
    by (simp only: unat_of_nat mod_less)
qed

lemma unat_bytes_word:
  "unat (bytes_word16 bs) = le_nat (take 2 bs)"
  "unat (bytes_word32 bs) = le_nat (take 4 bs)"
  "unat (bytes_word64 bs) = le_nat (take 8 bs)"
  unfolding bytes_word16_def bytes_word32_def bytes_word64_def
  by (rule unat_of_le_nat [where n = 2] unat_of_le_nat [where n = 4] unat_of_le_nat [where n = 8];
      simp)+

lemma bytes_word_bytes [simp, endian]:
  "bytes_word16 (word16_bytes a @ bs) = a"
  "bytes_word32 (word32_bytes b @ bs) = b"
  "bytes_word64 (word64_bytes c @ bs) = c"
  by (simp_all add: bytes_word16_def bytes_word32_def bytes_word64_def
      word16_bytes_def word32_bytes_def word64_bytes_def le_word_roundtrip)

lemma bytes_word_bytes_Nil [simp, endian]:
  "bytes_word16 (word16_bytes a) = a"
  "bytes_word32 (word32_bytes b) = b"
  "bytes_word64 (word64_bytes c) = c"
  using bytes_word_bytes [where bs = "[]"] by simp_all


section \<open>Two's complement integers and Go's clock types\<close>

text \<open>
  Go's \<open>int64\<close> wraps around; \<open>wrap64\<close> is its reduction of an exact integer.
  A \<open>time.Time\<close> is its instant in nanoseconds since the Unix epoch; the zero value of the
  type is the first of January of year 1. \<open>Time.Sub\<close> saturates at the bounds of
  \<open>time.Duration\<close>, which is an \<open>int64\<close>.
\<close>

definition max_int64 :: int where
  "max_int64 = 9223372036854775807"

definition min_int64 :: int where
  "min_int64 = - 9223372036854775808"

definition wrap64 :: "int \<Rightarrow> int" where
  "wrap64 x = (x + 9223372036854775808) mod 18446744073709551616 - 9223372036854775808"

lemma wrap64_range: "min_int64 \<le> wrap64 x" "wrap64 x \<le> max_int64"
  using pos_mod_bound [of 18446744073709551616 "x + 9223372036854775808"]
    pos_mod_sign [of 18446744073709551616 "x + 9223372036854775808"]
  by (simp_all add: wrap64_def min_int64_def max_int64_def)

lemma wrap64_id: "min_int64 \<le> x \<Longrightarrow> x \<le> max_int64 \<Longrightarrow> wrap64 x = x"
  by (simp add: wrap64_def min_int64_def max_int64_def)

lemma wrap64_add_wrap [simp]: "wrap64 (wrap64 x + y) = wrap64 (x + y)"
proof -
  have "wrap64 x + y + 9223372036854775808
      = (x + 9223372036854775808) mod 18446744073709551616 + y"
    by (simp add: wrap64_def)
  then have "(wrap64 x + y + 9223372036854775808) mod 18446744073709551616
      = (x + 9223372036854775808 + y) mod 18446744073709551616"
    by (simp only: mod_add_left_eq)
  also have "x + 9223372036854775808 + y = x + y + 9223372036854775808"
    by simp
  finally show ?thesis
    by (simp only: wrap64_def)
qed

type_synonym gotime = int
type_synonym duration = int

definition zero_time :: gotime where
  "zero_time = - 62135596800000000000"

definition IsZero :: "gotime \<Rightarrow> bool" where
  "IsZero t \<longleftrightarrow> t = zero_time"

definition time_sub :: "gotime \<Rightarrow> gotime \<Rightarrow> duration" where
  "time_sub t u = max min_int64 (min max_int64 (t - u))"

definition UnixMilli :: "gotime \<Rightarrow> int" where
  "UnixMilli t = t div 1000000"

lemma time_sub_mono: "t \<le> t' \<Longrightarrow> time_sub t u \<le> time_sub t' u"
  by (auto simp: time_sub_def)

lemma time_sub_ge: "d \<le> max_int64 \<Longrightarrow> u + d \<le> t \<Longrightarrow> d \<le> time_sub t u"
  by (auto simp: time_sub_def)

end
