(* ===== verification/CLayout.thy ===== *)
theory CLayout
  imports Prelude
begin

text \<open>
  C types as the compiler lays them out for the System V x86-64 ABI, which is also the layout of
  clang's \<open>-target bpf\<close>: \<open>sizeof\<close>, \<open>alignof\<close>, the placement of structure members and
  bit-fields, and the resolution of a member path through nested and anonymous aggregates
  (\<open>BPF_CORE_READ(sk, __sk_common.skc_family)\<close> resolves the path
  \<open>__sk_common.skc_family\<close> in \<open>struct sock\<close>).
  Positions are counted in bits, so that bit-fields are placed by the same rule as the other
  members. The lemmas show that the layout is sound: members of a structure do not overlap, lie
  inside the structure, and are aligned unless the structure is packed.
\<close>

datatype ctype =
    CInt nat bool                 \<comment> \<open>integer type: size in bytes, signed\<close>
  | CBool
  | CEnum
  | CPtr string                   \<comment> \<open>object or function pointer, with the pointee's name\<close>
  | CArray ctype nat
  | CStruct bool "cmember list"   \<comment> \<open>packed flag, members\<close>
  | CUnion bool "cmember list"
and cmember = Member string ctype "nat option"
  \<comment> \<open>name (empty for an anonymous member), type, bit-field width\<close>

fun alignof :: "ctype \<Rightarrow> nat" and members_align :: "cmember list \<Rightarrow> nat" where
  "alignof (CInt n s) = n"
| "alignof CBool = 1"
| "alignof CEnum = 4"
| "alignof (CPtr s) = 8"
| "alignof (CArray t n) = alignof t"
| "alignof (CStruct p ms) = (if p then 1 else members_align ms)"
| "alignof (CUnion p ms) = (if p then 1 else members_align ms)"
| "members_align [] = 1"
| "members_align (Member n t w # ms) =
     max (if n = [] \<and> w \<noteq> None then 1 else alignof t) (members_align ms)"

text \<open>
  Where a member of alignment \<open>a\<close> and size \<open>s\<close> (bytes) starts when the members before it end
  at bit \<open>pos\<close>: an ordinary member at the next multiple of its alignment (of one byte in a packed
  aggregate), a bit-field right at \<open>pos\<close> unless it would cross the boundary of a storage unit of
  its type, a zero-width bit-field at the next unit.
\<close>

fun bit_start :: "bool \<Rightarrow> nat \<Rightarrow> nat \<Rightarrow> nat option \<Rightarrow> nat \<Rightarrow> nat" where
  "bit_start p a s None pos = align_up pos (if p then 8 else 8 * a)"
| "bit_start p a s (Some w) pos =
     (if w = 0 then align_up pos (8 * a)
      else if p \<or> pos mod (8 * s) + w \<le> 8 * s then pos
      else align_up pos (8 * a))"

fun bit_len :: "nat \<Rightarrow> nat option \<Rightarrow> nat" where
  "bit_len s None = 8 * s"
| "bit_len s (Some w) = w"

fun sizeof :: "ctype \<Rightarrow> nat"
  and struct_end :: "bool \<Rightarrow> nat \<Rightarrow> cmember list \<Rightarrow> nat"
  and union_end :: "cmember list \<Rightarrow> nat" where
  "sizeof (CInt n s) = n"
| "sizeof CBool = 1"
| "sizeof CEnum = 4"
| "sizeof (CPtr s) = 8"
| "sizeof (CArray t n) = n * sizeof t"
| "sizeof (CStruct p ms) = align_up ((struct_end p 0 ms + 7) div 8) (alignof (CStruct p ms))"
| "sizeof (CUnion p ms) = align_up ((union_end ms + 7) div 8) (alignof (CUnion p ms))"
| "struct_end p pos [] = pos"
| "struct_end p pos (Member n t w # ms) =
     struct_end p (bit_start p (alignof t) (sizeof t) w pos + bit_len (sizeof t) w) ms"
| "union_end [] = 0"
| "union_end (Member n t w # ms) = max (bit_len (sizeof t) w) (union_end ms)"

fun struct_layout :: "bool \<Rightarrow> nat \<Rightarrow> cmember list \<Rightarrow> (cmember \<times> nat) list" where
  "struct_layout p pos [] = []"
| "struct_layout p pos (Member n t w # ms) =
     (let st = bit_start p (alignof t) (sizeof t) w pos
      in (Member n t w, st) # struct_layout p (st + bit_len (sizeof t) w) ms)"

fun member_len :: "cmember \<Rightarrow> nat" where
  "member_len (Member n t w) = bit_len (sizeof t) w"

text \<open>
  The member a name denotes: its bit offset, its type and, for a bit-field, its width. The members
  of an anonymous structure or union are members of the aggregate around it.
\<close>

type_synonym place = "nat \<times> ctype \<times> nat option"

fun lookup_field :: "ctype \<Rightarrow> string \<Rightarrow> place option"
  and lookup_struct :: "bool \<Rightarrow> nat \<Rightarrow> cmember list \<Rightarrow> string \<Rightarrow> place option"
  and lookup_union :: "cmember list \<Rightarrow> string \<Rightarrow> place option" where
  "lookup_field (CStruct p ms) f = lookup_struct p 0 ms f"
| "lookup_field (CUnion p ms) f = lookup_union ms f"
| "lookup_field _ f = None"
| "lookup_struct p pos [] f = None"
| "lookup_struct p pos (Member n t w # ms) f =
     (let st = bit_start p (alignof t) (sizeof t) w pos in
      if n = f \<and> f \<noteq> [] then Some (st, t, w)
      else case (if n = [] \<and> w = None then lookup_field t f else None) of
             Some (off, t', w') \<Rightarrow> Some (st + off, t', w')
           | None \<Rightarrow> lookup_struct p (st + bit_len (sizeof t) w) ms f)"
| "lookup_union [] f = None"
| "lookup_union (Member n t w # ms) f =
     (if n = f \<and> f \<noteq> [] then Some (0, t, w)
      else case (if n = [] \<and> w = None then lookup_field t f else None) of
             Some x \<Rightarrow> Some x
           | None \<Rightarrow> lookup_union ms f)"

fun resolve :: "ctype \<Rightarrow> string list \<Rightarrow> place option" where
  "resolve t [] = Some (0, t, None)"
| "resolve t (f # fs) =
     (case lookup_field t f of
        None \<Rightarrow> None
      | Some (off, t', w) \<Rightarrow>
          (if fs = [] then Some (off, t', w)
           else if w \<noteq> None then None
           else case resolve t' fs of
                  None \<Rightarrow> None
                | Some (off', t'', w') \<Rightarrow> Some (off + off', t'', w')))"

text \<open>
  Well-formed descriptions: integer sizes of the ABI, bit-fields only of integer, boolean and
  enumeration types and no wider than their type, no zero-width bit-field with a name.
\<close>

fun bitfield_type :: "ctype \<Rightarrow> bool" where
  "bitfield_type (CInt n s) = True"
| "bitfield_type CBool = True"
| "bitfield_type CEnum = True"
| "bitfield_type _ = False"

fun wf_ctype :: "ctype \<Rightarrow> bool" and wf_members :: "cmember list \<Rightarrow> bool" where
  "wf_ctype (CInt n s) = (n \<in> {1, 2, 4, 8, 16})"
| "wf_ctype CBool = True"
| "wf_ctype CEnum = True"
| "wf_ctype (CPtr s) = True"
| "wf_ctype (CArray t n) = wf_ctype t"
| "wf_ctype (CStruct p ms) = wf_members ms"
| "wf_ctype (CUnion p ms) = wf_members ms"
| "wf_members [] = True"
| "wf_members (Member n t w # ms) =
     (wf_ctype t \<and> wf_members ms \<and>
      (case w of None \<Rightarrow> True
       | Some k \<Rightarrow> bitfield_type t \<and> k \<le> 8 * sizeof t \<and> (k = 0 \<longrightarrow> n = [])))"

text \<open>No aggregate of the description is packed.\<close>

fun unpacked :: "ctype \<Rightarrow> bool" and unpacked_members :: "cmember list \<Rightarrow> bool" where
  "unpacked (CArray t n) = unpacked t"
| "unpacked (CStruct p ms) = (\<not> p \<and> unpacked_members ms)"
| "unpacked (CUnion p ms) = (\<not> p \<and> unpacked_members ms)"
| "unpacked _ = True"
| "unpacked_members [] = True"
| "unpacked_members (Member n t w # ms) = (unpacked t \<and> unpacked_members ms)"


section \<open>Alignments\<close>

abbreviation abi_align :: "nat set" where
  "abi_align \<equiv> {1, 2, 4, 8, 16}"

lemma abi_align_dvd: "a \<in> abi_align \<Longrightarrow> b \<in> abi_align \<Longrightarrow> a \<le> b \<Longrightarrow> a dvd b"
  by auto

lemma alignof_abi:
  "wf_ctype t \<Longrightarrow> alignof t \<in> abi_align"
  "wf_members ms \<Longrightarrow> members_align ms \<in> abi_align"
proof (induction t and ms rule: wf_ctype_wf_members.induct)
  case (9 n t w ms)
  then have "alignof t \<in> abi_align" "members_align ms \<in> abi_align"
    by auto
  then show ?case
    by (auto simp: max_def)
qed auto

lemma alignof_pos: "wf_ctype t \<Longrightarrow> 0 < alignof t"
  using alignof_abi(1) [of t] by auto

lemma members_align_pos: "0 < members_align ms"
proof (induction ms)
  case (Cons m ms)
  then show ?case by (cases m) simp
qed simp

lemma members_align_ge:
  "Member n t None \<in> set ms \<Longrightarrow> alignof t \<le> members_align ms"
  by (induction ms rule: alignof_members_align.induct(2) [where P = "\<lambda>_. True"]) auto

text \<open>The size of a type is a multiple of its alignment, so that arrays of it stay aligned.\<close>

lemma alignof_dvd_sizeof: "wf_ctype t \<Longrightarrow> alignof t dvd sizeof t"
proof (induction t rule: wf_ctype_wf_members.induct(1) [where Q = "\<lambda>_. True"])
  case (6 p ms)
  then show ?case
    using alignof_pos [of "CStruct p ms"] by (simp del: alignof.simps)
next
  case (7 p ms)
  then show ?case
    using alignof_pos [of "CUnion p ms"] by (simp del: alignof.simps)
qed auto


section \<open>Placement\<close>

lemma bit_start_ge [simp, intro]: "pos \<le> bit_start p a s w pos"
  by (cases w) auto

lemma bit_start_aligned: "0 < a \<Longrightarrow> 8 * a dvd bit_start False a s None pos"
  by simp

declare bit_start.simps [simp del]

lemma struct_end_ge: "pos \<le> struct_end p pos ms"
proof (induction ms arbitrary: pos)
  case (Cons m ms)
  obtain n t w where m: "m = Member n t w"
    by (cases m)
  have "pos \<le> bit_start p (alignof t) (sizeof t) w pos + bit_len (sizeof t) w"
    by (simp add: trans_le_add1)
  also have "\<dots> \<le> struct_end p (bit_start p (alignof t) (sizeof t) w pos + bit_len (sizeof t) w) ms"
    by (rule Cons.IH)
  finally show ?case
    by (simp add: m)
qed simp

lemma struct_end_le_sizeof: "struct_end p 0 ms \<le> 8 * sizeof (CStruct p ms)"
proof -
  have "(struct_end p 0 ms + 7) div 8 \<le> sizeof (CStruct p ms)"
    by (simp del: alignof.simps)
  then show ?thesis by linarith
qed

lemma union_end_le_sizeof: "union_end ms \<le> 8 * sizeof (CUnion p ms)"
proof -
  have "(union_end ms + 7) div 8 \<le> sizeof (CUnion p ms)"
    by (simp del: alignof.simps)
  then show ?thesis by linarith
qed


section \<open>Member lookup\<close>

text \<open>
  One induction rule for all facts on nested aggregates, and the three ways a lookup in a member
  list succeeds: at the first member, inside the first member when that is anonymous, or later.
\<close>

lemma ctype_induct:
  assumes scalar: "\<And>n s. P (CInt n s)" "P CBool" "P CEnum" "\<And>s. P (CPtr s)"
    and arr: "\<And>t n. P t \<Longrightarrow> P (CArray t n)"
    and str: "\<And>p ms. Q ms \<Longrightarrow> P (CStruct p ms)"
    and uni: "\<And>p ms. Q ms \<Longrightarrow> P (CUnion p ms)"
    and nil: "Q []"
    and cons: "\<And>n t w ms. P t \<Longrightarrow> Q ms \<Longrightarrow> Q (Member n t w # ms)"
  shows "P t" "Q ms"
proof -
  have Q: "Q xs" if "\<And>m. m \<in> set xs \<Longrightarrow> (case m of Member n t w \<Rightarrow> P t)" for xs
    using that
  proof (induction xs)
    case (Cons m xs)
    obtain n t w where m: "m = Member n t w"
      by (cases m)
    from Cons.prems [of m] m have "P t"
      by simp
    moreover from Cons have "Q xs"
      by simp
    ultimately show ?case
      by (simp add: m cons)
  qed (rule nil)
  show P: "P t" for t
    by (induction t rule: ctype.induct [where ?P2.0 = "\<lambda>m. case m of Member n t w \<Rightarrow> P t"])
      (auto intro: scalar arr str uni Q)
  show "Q ms"
    by (rule Q) (auto intro: P split: cmember.split)
qed

lemma lookup_struct_ConsE:
  assumes "lookup_struct p pos (Member n t wd # ms) f = Some (off, t', w)"
  obtains (hit) "n = f" "f \<noteq> []" "off = bit_start p (alignof t) (sizeof t) wd pos" "t' = t" "w = wd"
  | (anon) o1 where "n = []" "wd = None" "lookup_field t f = Some (o1, t', w)"
      "off = bit_start p (alignof t) (sizeof t) wd pos + o1"
  | (skip) "lookup_struct p (bit_start p (alignof t) (sizeof t) wd pos + bit_len (sizeof t) wd) ms f
        = Some (off, t', w)"
proof (cases "n = f \<and> f \<noteq> []")
  case True
  then show thesis
    using assms by (intro hit) (auto simp: Let_def)
next
  case False
  define inner where "inner = (if n = [] \<and> wd = None then lookup_field t f else None)"
  have eq: "(case inner of
       Some (o1, t1, w1) \<Rightarrow> Some (bit_start p (alignof t) (sizeof t) wd pos + o1, t1, w1)
     | None \<Rightarrow> lookup_struct p
         (bit_start p (alignof t) (sizeof t) wd pos + bit_len (sizeof t) wd) ms f)
     = Some (off, t', w)"
    using assms False by (simp only: lookup_struct.simps Let_def inner_def if_False)
  show thesis
  proof (cases inner)
    case None
    with eq show thesis
      by (intro skip) simp
  next
    case (Some a)
    then have "n = []" "wd = None" "lookup_field t f = Some a"
      by (auto simp: inner_def split: if_splits)
    with eq Some show thesis
      by (cases a) (auto intro: anon)
  qed
qed

lemma lookup_union_ConsE:
  assumes "lookup_union (Member n t wd # ms) f = Some (off, t', w)"
  obtains (hit) "n = f" "f \<noteq> []" "off = 0" "t' = t" "w = wd"
  | (anon) "n = []" "wd = None" "lookup_field t f = Some (off, t', w)"
  | (skip) "lookup_union ms f = Some (off, t', w)"
proof (cases "n = f \<and> f \<noteq> []")
  case True
  then show thesis
    using assms by (intro hit) auto
next
  case False
  define inner where "inner = (if n = [] \<and> wd = None then lookup_field t f else None)"
  have eq: "(case inner of Some x \<Rightarrow> Some x | None \<Rightarrow> lookup_union ms f) = Some (off, t', w)"
    using assms False by (simp only: lookup_union.simps inner_def if_False)
  show thesis
  proof (cases inner)
    case None
    with eq show thesis
      by (intro skip) simp
  next
    case (Some a)
    then have "n = []" "wd = None" "lookup_field t f = Some a"
      by (auto simp: inner_def split: if_splits)
    with eq Some show thesis
      by (intro anon) auto
  qed
qed

declare lookup_struct.simps(2) [simp del] lookup_union.simps(2) [simp del]

lemma lookup_field_scalar [simp]:
  "lookup_field (CInt n s) f = None" "lookup_field CBool f = None" "lookup_field CEnum f = None"
  "lookup_field (CPtr p) f = None" "lookup_field (CArray t n) f = None"
  by simp_all

lemma lookup_bounds:
  "lookup_field t f = Some (off, t', w) \<Longrightarrow> off + bit_len (sizeof t') w \<le> 8 * sizeof t"
  "(lookup_struct p pos ms f = Some (off, t', w) \<longrightarrow>
      pos \<le> off \<and> off + bit_len (sizeof t') w \<le> struct_end p pos ms) \<and>
   (lookup_union ms f = Some (off, t', w) \<longrightarrow> off + bit_len (sizeof t') w \<le> union_end ms)"
proof (induction t and ms arbitrary: off and p pos off rule: ctype_induct)
  case (6 p ms)
  then have "off + bit_len (sizeof t') w \<le> struct_end p 0 ms"
    by simp
  then show ?case
    using struct_end_le_sizeof le_trans by blast
next
  case (7 p ms)
  then have "off + bit_len (sizeof t') w \<le> union_end ms"
    by simp
  then show ?case
    using union_end_le_sizeof le_trans by blast
next
  case (9 n t wd ms)
  have ge: "pos \<le> bit_start p (alignof t) (sizeof t) wd pos"
    by simp
  have "pos \<le> off \<and> off + bit_len (sizeof t') w \<le> struct_end p pos (Member n t wd # ms)"
    if "lookup_struct p pos (Member n t wd # ms) f = Some (off, t', w)"
    using that
  proof (cases rule: lookup_struct_ConsE)
    case hit
    then show ?thesis
      using ge struct_end_ge by simp
  next
    case (anon o1)
    then have "o1 + bit_len (sizeof t') w \<le> bit_len (sizeof t) wd"
      using 9(1) by simp
    with anon ge show ?thesis
      using struct_end_ge [of "bit_start p (alignof t) (sizeof t) wd pos + bit_len (sizeof t) wd" p ms]
      by (simp add: trans_le_add1)
  next
    case skip
    with 9(2) ge show ?thesis
      by (metis add_leE le_trans struct_end.simps(2))
  qed
  moreover have "off + bit_len (sizeof t') w \<le> union_end (Member n t wd # ms)"
    if "lookup_union (Member n t wd # ms) f = Some (off, t', w)"
    using that 9 by (cases rule: lookup_union_ConsE) (auto simp: le_max_iff_disj)
  ultimately show ?case
    by blast
qed auto

lemma resolve_bounds:
  "resolve t fs = Some (off, t', w) \<Longrightarrow> off + bit_len (sizeof t') w \<le> 8 * sizeof t"
proof (induction t fs arbitrary: off t' w rule: resolve.induct)
  case (2 t f fs)
  then obtain o1 t1 w1 where l: "lookup_field t f = Some (o1, t1, w1)"
    by (auto split: option.splits)
  note b1 = lookup_bounds(1) [OF l]
  show ?case
  proof (cases "fs = []")
    case True
    with "2.prems" l b1 show ?thesis by simp
  next
    case False
    with "2.prems" l obtain o2
      where r: "resolve t1 fs = Some (o2, t', w)" and off: "off = o1 + o2" and "w1 = None"
      by (auto split: option.splits if_splits)
    with b1 have "o1 + 8 * sizeof t1 \<le> 8 * sizeof t"
      by simp
    moreover have "o2 + bit_len (sizeof t') w \<le> 8 * sizeof t1"
      using "2.IH" l False r \<open>w1 = None\<close> by simp
    ultimately show ?thesis
      by (simp add: off)
  qed
qed auto

lemma lookup_wf:
  "lookup_field t f = Some (off, t', w) \<Longrightarrow> wf_ctype t \<Longrightarrow> unpacked t \<Longrightarrow>
     wf_ctype t' \<and> unpacked t'"
  "wf_members ms \<Longrightarrow> unpacked_members ms \<Longrightarrow>
     (lookup_struct p pos ms f = Some (off, t', w) \<longrightarrow> wf_ctype t' \<and> unpacked t') \<and>
     (lookup_union ms f = Some (off, t', w) \<longrightarrow> wf_ctype t' \<and> unpacked t')"
proof (induction t and ms arbitrary: off and p pos off rule: ctype_induct)
  case (9 n t wd ms)
  then show ?case
    by (auto elim!: lookup_struct_ConsE lookup_union_ConsE)
qed auto

text \<open>
  In a description without packed aggregates an ordinary member starts at a multiple of its own
  alignment, also when it is reached through anonymous aggregates.
\<close>

lemma lookup_aligned:
  "lookup_field t f = Some (off, t', None) \<Longrightarrow> wf_ctype t \<Longrightarrow> unpacked t \<Longrightarrow>
     8 * alignof t' dvd off \<and> alignof t' \<le> alignof t"
  "wf_members ms \<Longrightarrow> unpacked_members ms \<Longrightarrow>
     (lookup_struct False pos ms f = Some (off, t', None) \<longrightarrow>
        8 * alignof t' dvd off \<and> alignof t' \<le> members_align ms) \<and>
     (lookup_union ms f = Some (off, t', None) \<longrightarrow>
        8 * alignof t' dvd off \<and> alignof t' \<le> members_align ms)"
proof (induction t and ms arbitrary: off and pos off rule: ctype_induct)
  case (9 n t wd ms)
  have wf: "wf_ctype t" "unpacked t" "wf_members ms" "unpacked_members ms"
    using 9 by auto
  have "8 * alignof t' dvd off \<and> alignof t' \<le> members_align (Member n t wd # ms)"
    if "lookup_struct False pos (Member n t wd # ms) f = Some (off, t', None)"
    using that
  proof (cases rule: lookup_struct_ConsE)
    case (anon o1)
    with 9(1) wf have IH: "8 * alignof t' dvd o1" "alignof t' \<le> alignof t"
      by blast+
    moreover have "wf_ctype t'"
      using lookup_wf(1) anon wf by blast
    ultimately have "alignof t' dvd alignof t"
      using abi_align_dvd [OF alignof_abi(1) alignof_abi(1)] wf by simp
    moreover have "8 * alignof t dvd bit_start False (alignof t) (sizeof t) None pos"
      using wf by (simp add: alignof_pos bit_start_aligned)
    ultimately have "8 * alignof t' dvd bit_start False (alignof t) (sizeof t) None pos"
      by (rule dvd_mult_trans)
    then show ?thesis
      using IH anon by (auto simp: le_max_iff_disj)
  qed (use 9 wf in \<open>auto simp: alignof_pos bit_start_aligned le_max_iff_disj\<close>)
  moreover have "8 * alignof t' dvd off \<and> alignof t' \<le> members_align (Member n t wd # ms)"
    if "lookup_union (Member n t wd # ms) f = Some (off, t', None)"
    using that 9 wf by (cases rule: lookup_union_ConsE) (auto simp: le_max_iff_disj)
  ultimately show ?case
    by blast
qed auto

lemma resolve_aligned:
  "resolve t fs = Some (off, t', None) \<Longrightarrow> wf_ctype t \<Longrightarrow> unpacked t \<Longrightarrow>
     8 * alignof t' dvd off \<and> alignof t' dvd alignof t \<and> wf_ctype t' \<and> unpacked t'"
proof (induction t fs arbitrary: off t' rule: resolve.induct)
  case (2 t f fs)
  then obtain o1 t1 w1 where l: "lookup_field t f = Some (o1, t1, w1)"
    by (auto split: option.splits)
  with "2.prems" have wf1: "wf_ctype t1" "unpacked t1"
    using lookup_wf(1) by blast+
  have w1: "w1 = None"
    using "2.prems" l by (auto split: option.splits if_splits)
  have a1: "8 * alignof t1 dvd o1" "alignof t1 dvd alignof t"
    using lookup_aligned(1) l w1 "2.prems" wf1 abi_align_dvd alignof_abi(1) by blast+
  show ?case
  proof (cases "fs = []")
    case True
    with "2.prems" l a1 wf1 show ?thesis by simp
  next
    case False
    with "2.prems" l w1 obtain o2
      where r: "resolve t1 fs = Some (o2, t', None)" and off: "off = o1 + o2"
      by (auto split: option.splits)
    have IH: "8 * alignof t' dvd o2 \<and> alignof t' dvd alignof t1 \<and> wf_ctype t' \<and> unpacked t'"
      using "2.IH" l False w1 r wf1 by simp
    then have "8 * alignof t' dvd o1"
      using a1(1) by (blast intro: dvd_mult_trans)
    moreover have "alignof t' dvd alignof t"
      using IH a1(2) by (blast intro: dvd_trans)
    ultimately show ?thesis
      using IH by (simp add: off)
  qed
qed auto

text \<open>An ordinary member starts at a byte, also in a packed aggregate.\<close>

lemma bit_start_byte: "0 < a \<Longrightarrow> 8 dvd bit_start p a s None pos"
  by (simp add: bit_start.simps align_up_dvd_trans)

lemma lookup_byte:
  "lookup_field t f = Some (off, t', None) \<Longrightarrow> wf_ctype t \<Longrightarrow> 8 dvd off \<and> wf_ctype t'"
  "wf_members ms \<Longrightarrow>
     (lookup_struct p pos ms f = Some (off, t', None) \<longrightarrow> 8 dvd off \<and> wf_ctype t') \<and>
     (lookup_union ms f = Some (off, t', None) \<longrightarrow> 8 dvd off \<and> wf_ctype t')"
proof (induction t and ms arbitrary: off and p pos off rule: ctype_induct)
  case (9 n t wd ms)
  then show ?case
    by (auto elim!: lookup_struct_ConsE lookup_union_ConsE simp: alignof_pos bit_start_byte dvd_add)
qed auto

lemma resolve_byte:
  "resolve t fs = Some (off, t', None) \<Longrightarrow> wf_ctype t \<Longrightarrow> 8 dvd off"
proof (induction t fs arbitrary: off t' rule: resolve.induct)
  case (2 t f fs)
  then obtain o1 t1 w1 where l: "lookup_field t f = Some (o1, t1, w1)"
    by (auto split: option.splits)
  have w1: "w1 = None"
    using "2.prems" l by (auto split: option.splits if_splits)
  have b1: "8 dvd o1 \<and> wf_ctype t1"
    using lookup_byte(1) l w1 "2.prems" by blast
  show ?case
    using "2.prems" "2.IH" [OF l _ refl] l w1 b1
    by (auto split: option.splits if_splits intro: dvd_add)
qed auto


section \<open>Members of a structure do not overlap\<close>

lemma struct_layout_bounds:
  "(m, st) \<in> set (struct_layout p pos ms) \<Longrightarrow> pos \<le> st \<and> st + member_len m \<le> struct_end p pos ms"
proof (induction p pos ms rule: struct_layout.induct)
  case (2 p pos n t w ms)
  define s where "s = bit_start p (alignof t) (sizeof t) w pos"
  have s: "pos \<le> s"
    by (simp add: s_def)
  consider "(m, st) = (Member n t w, s)"
    | "(m, st) \<in> set (struct_layout p (s + bit_len (sizeof t) w) ms)"
    using "2.prems" by (auto simp: s_def Let_def)
  then show ?case
  proof cases
    case 1
    with s struct_end_ge [of "s + bit_len (sizeof t) w" p ms] show ?thesis
      by (simp add: s_def)
  next
    case 2
    with "2.IH" [OF s_def] have "s + bit_len (sizeof t) w \<le> st"
      "st + member_len m \<le> struct_end p (s + bit_len (sizeof t) w) ms"
      by auto
    moreover from this s have "pos \<le> st"
      by linarith
    ultimately show ?thesis
      by (simp add: s_def)
  qed
qed simp

lemma struct_layout_sorted:
  "sorted_wrt (\<lambda>(m, st) (m', st'). st + member_len m \<le> st') (struct_layout p pos ms)"
proof (induction p pos ms rule: struct_layout.induct)
  case (2 p pos n t w ms)
  then show ?case
    using struct_layout_bounds by (fastforce simp: Let_def)
qed simp


section \<open>Evaluation\<close>

text \<open>Facts that compute the layout of a concrete description.\<close>

lemmas layout_eval = bit_start.simps align_up_def max_def

lemmas lookup_eval = layout_eval lookup_struct.simps lookup_union.simps Let_def

end
