(* ===== verification/Kernel_Sock.thy ===== *)
theory Kernel_Sock
  imports CLayout
begin

text \<open>
  Types of the kernel header \<open>src/agent/ebpf/bpf/vmlinux.h\<close>:
  the types that \<open>tcp_metrics.bpf.c\<close> names and everything they hold by value:
  \<open>struct pt_regs\<close> (the probe context), \<open>struct sockaddr\<close>, \<open>struct sockaddr_in\<close>,
  \<open>struct sock_common\<close> and \<open>struct sock\<close>.
  One definition per declaration, member by member in the order of the header, and one lemma per
  definition with what the layout of \<open>CLayout\<close> computes for it; small declarations that
  are used in few places are abbreviations.
\<close>

abbreviation typedef___u16 :: ctype where
  "typedef___u16 \<equiv> CInt 2 False"

abbreviation typedef_u16 :: ctype where
  "typedef_u16 \<equiv> typedef___u16"

abbreviation typedef___u64 :: ctype where
  "typedef___u64 \<equiv> CInt 8 False"

abbreviation typedef_u64 :: ctype where
  "typedef_u64 \<equiv> typedef___u64"

abbreviation struct_fred_cs :: ctype where
  "struct_fred_cs \<equiv> CStruct False [
     Member ''cs'' typedef_u64 (Some 16),
     Member ''sl'' typedef_u64 (Some 2),
     Member ''wfe'' typedef_u64 (Some 1)]"

definition struct_fred_ss :: ctype where
  "struct_fred_ss = CStruct False [
     Member ''ss'' typedef_u64 (Some 16),
     Member ''sti'' typedef_u64 (Some 1),
     Member ''swevent'' typedef_u64 (Some 1),
     Member ''nmi'' typedef_u64 (Some 1),
     Member '''' (CInt 4 True) (Some 13),
     Member ''vector'' typedef_u64 (Some 8),
     Member '''' (CInt 2 True) (Some 8),
     Member ''type'' typedef_u64 (Some 4),
     Member '''' (CInt 1 True) (Some 4),
     Member ''enclave'' typedef_u64 (Some 1),
     Member ''lm'' typedef_u64 (Some 1),
     Member ''nested'' typedef_u64 (Some 1),
     Member '''' (CInt 1 True) (Some 1),
     Member ''insnlen'' typedef_u64 (Some 4)]"

lemma struct_fred_ss_layout [ksize]:
  "sizeof struct_fred_ss = 8" "alignof struct_fred_ss = 8" "wf_ctype struct_fred_ss" "unpacked struct_fred_ss"
  by (simp_all add: struct_fred_ss_def layout_eval ksize)

definition struct_pt_regs :: ctype where
  "struct_pt_regs = CStruct False [
     Member ''r15'' (CInt 8 False) None,
     Member ''r14'' (CInt 8 False) None,
     Member ''r13'' (CInt 8 False) None,
     Member ''r12'' (CInt 8 False) None,
     Member ''bp'' (CInt 8 False) None,
     Member ''bx'' (CInt 8 False) None,
     Member ''r11'' (CInt 8 False) None,
     Member ''r10'' (CInt 8 False) None,
     Member ''r9'' (CInt 8 False) None,
     Member ''r8'' (CInt 8 False) None,
     Member ''ax'' (CInt 8 False) None,
     Member ''cx'' (CInt 8 False) None,
     Member ''dx'' (CInt 8 False) None,
     Member ''si'' (CInt 8 False) None,
     Member ''di'' (CInt 8 False) None,
     Member ''orig_ax'' (CInt 8 False) None,
     Member ''ip'' (CInt 8 False) None,
     Member '''' (CUnion False [
       Member ''cs'' typedef_u16 None,
       Member ''csx'' typedef_u64 None,
       Member ''fred_cs'' struct_fred_cs None]) None,
     Member ''flags'' (CInt 8 False) None,
     Member ''sp'' (CInt 8 False) None,
     Member '''' (CUnion False [
       Member ''ss'' typedef_u16 None,
       Member ''ssx'' typedef_u64 None,
       Member ''fred_ss'' struct_fred_ss None]) None]"

lemma struct_pt_regs_layout [ksize]:
  "sizeof struct_pt_regs = 168" "alignof struct_pt_regs = 8" "wf_ctype struct_pt_regs" "unpacked struct_pt_regs"
  by (simp_all add: struct_pt_regs_def layout_eval ksize)

abbreviation typedef___kernel_sa_family_t :: ctype where
  "typedef___kernel_sa_family_t \<equiv> CInt 2 False"

abbreviation typedef_sa_family_t :: ctype where
  "typedef_sa_family_t \<equiv> typedef___kernel_sa_family_t"

definition struct_sockaddr :: ctype where
  "struct_sockaddr = CStruct False [
     Member ''sa_family'' typedef_sa_family_t None,
     Member '''' (CUnion False [
       Member ''sa_data_min'' (CArray (CInt 1 True) 14) None,
       Member '''' (CStruct False [
         Member ''__empty_sa_data'' (CStruct False []) None,
         Member ''sa_data'' (CArray (CInt 1 True) 0) None]) None]) None]"

lemma struct_sockaddr_layout [ksize]:
  "sizeof struct_sockaddr = 16" "alignof struct_sockaddr = 2" "wf_ctype struct_sockaddr" "unpacked struct_sockaddr"
  by (simp_all add: struct_sockaddr_def layout_eval ksize)

abbreviation typedef___be16 :: ctype where
  "typedef___be16 \<equiv> typedef___u16"

abbreviation typedef___u32 :: ctype where
  "typedef___u32 \<equiv> CInt 4 False"

abbreviation typedef___be32 :: ctype where
  "typedef___be32 \<equiv> typedef___u32"

definition struct_in_addr :: ctype where
  "struct_in_addr = CStruct False [
     Member ''s_addr'' typedef___be32 None]"

lemma struct_in_addr_layout [ksize]:
  "sizeof struct_in_addr = 4" "alignof struct_in_addr = 4" "wf_ctype struct_in_addr" "unpacked struct_in_addr"
  by (simp_all add: struct_in_addr_def layout_eval ksize)

definition struct_sockaddr_in :: ctype where
  "struct_sockaddr_in = CStruct False [
     Member ''sin_family'' typedef___kernel_sa_family_t None,
     Member ''sin_port'' typedef___be16 None,
     Member ''sin_addr'' struct_in_addr None,
     Member ''__pad'' (CArray (CInt 1 False) 8) None]"

lemma struct_sockaddr_in_layout [ksize]:
  "sizeof struct_sockaddr_in = 16" "alignof struct_sockaddr_in = 4" "wf_ctype struct_sockaddr_in" "unpacked struct_sockaddr_in"
  by (simp_all add: struct_sockaddr_in_def layout_eval ksize)

abbreviation typedef___addrpair :: ctype where
  "typedef___addrpair \<equiv> typedef___u64"

abbreviation typedef___portpair :: ctype where
  "typedef___portpair \<equiv> typedef___u32"

definition struct_hlist_node :: ctype where
  "struct_hlist_node = CStruct False [
     Member ''next'' (CPtr ''struct hlist_node'') None,
     Member ''pprev'' (CPtr ''struct hlist_node *'') None]"

lemma struct_hlist_node_layout [ksize]:
  "sizeof struct_hlist_node = 16" "alignof struct_hlist_node = 8" "wf_ctype struct_hlist_node" "unpacked struct_hlist_node"
  by (simp_all add: struct_hlist_node_def layout_eval ksize)

abbreviation typedef_possible_net_t :: ctype where
  "typedef_possible_net_t \<equiv> CStruct False [
     Member ''net'' (CPtr ''struct net'') None]"

abbreviation typedef___u8 :: ctype where
  "typedef___u8 \<equiv> CInt 1 False"

definition struct_in6_addr :: ctype where
  "struct_in6_addr = CStruct False [
     Member ''in6_u'' (CUnion False [
       Member ''u6_addr8'' (CArray typedef___u8 16) None,
       Member ''u6_addr16'' (CArray typedef___be16 8) None,
       Member ''u6_addr32'' (CArray typedef___be32 4) None]) None]"

lemma struct_in6_addr_layout [ksize]:
  "sizeof struct_in6_addr = 16" "alignof struct_in6_addr = 4" "wf_ctype struct_in6_addr" "unpacked struct_in6_addr"
  by (simp_all add: struct_in6_addr_def layout_eval ksize)

abbreviation typedef___s64 :: ctype where
  "typedef___s64 \<equiv> CInt 8 True"

abbreviation typedef_s64 :: ctype where
  "typedef_s64 \<equiv> typedef___s64"

abbreviation typedef_atomic64_t :: ctype where
  "typedef_atomic64_t \<equiv> CStruct False [
     Member ''counter'' typedef_s64 None]"

abbreviation struct_hlist_nulls_node :: ctype where
  "struct_hlist_nulls_node \<equiv> CStruct False [
     Member ''next'' (CPtr ''struct hlist_nulls_node'') None,
     Member ''pprev'' (CPtr ''struct hlist_nulls_node *'') None]"

abbreviation typedef_u32 :: ctype where
  "typedef_u32 \<equiv> typedef___u32"

definition typedef_atomic_t :: ctype where
  "typedef_atomic_t = CStruct False [
     Member ''counter'' (CInt 4 True) None]"

lemma typedef_atomic_t_layout [ksize]:
  "sizeof typedef_atomic_t = 4" "alignof typedef_atomic_t = 4" "wf_ctype typedef_atomic_t" "unpacked typedef_atomic_t"
  by (simp_all add: typedef_atomic_t_def layout_eval ksize)

abbreviation struct_refcount_struct :: ctype where
  "struct_refcount_struct \<equiv> CStruct False [
     Member ''refs'' typedef_atomic_t None]"

abbreviation typedef_refcount_t :: ctype where
  "typedef_refcount_t \<equiv> struct_refcount_struct"

definition struct_sock_common :: ctype where
  "struct_sock_common = CStruct False [
     Member '''' (CUnion False [
       Member ''skc_addrpair'' typedef___addrpair None,
       Member '''' (CStruct False [
         Member ''skc_daddr'' typedef___be32 None,
         Member ''skc_rcv_saddr'' typedef___be32 None]) None]) None,
     Member '''' (CUnion False [
       Member ''skc_hash'' (CInt 4 False) None,
       Member ''skc_u16hashes'' (CArray typedef___u16 2) None]) None,
     Member '''' (CUnion False [
       Member ''skc_portpair'' typedef___portpair None,
       Member '''' (CStruct False [
         Member ''skc_dport'' typedef___be16 None,
         Member ''skc_num'' typedef___u16 None]) None]) None,
     Member ''skc_family'' (CInt 2 False) None,
     Member ''skc_state'' (CInt 1 False) None,
     Member ''skc_reuse'' (CInt 1 False) (Some 4),
     Member ''skc_reuseport'' (CInt 1 False) (Some 1),
     Member ''skc_ipv6only'' (CInt 1 False) (Some 1),
     Member ''skc_net_refcnt'' (CInt 1 False) (Some 1),
     Member ''skc_bound_dev_if'' (CInt 4 True) None,
     Member '''' (CUnion False [
       Member ''skc_bind_node'' struct_hlist_node None,
       Member ''skc_portaddr_node'' struct_hlist_node None]) None,
     Member ''skc_prot'' (CPtr ''struct proto'') None,
     Member ''skc_net'' typedef_possible_net_t None,
     Member ''skc_v6_daddr'' struct_in6_addr None,
     Member ''skc_v6_rcv_saddr'' struct_in6_addr None,
     Member ''skc_cookie'' typedef_atomic64_t None,
     Member '''' (CUnion False [
       Member ''skc_flags'' (CInt 8 False) None,
       Member ''skc_listener'' (CPtr ''struct sock'') None,
       Member ''skc_tw_dr'' (CPtr ''struct inet_timewait_death_row'') None]) None,
     Member ''skc_dontcopy_begin'' (CArray (CInt 4 True) 0) None,
     Member '''' (CUnion False [
       Member ''skc_node'' struct_hlist_node None,
       Member ''skc_nulls_node'' struct_hlist_nulls_node None]) None,
     Member ''skc_tx_queue_mapping'' (CInt 2 False) None,
     Member ''skc_rx_queue_mapping'' (CInt 2 False) None,
     Member '''' (CUnion False [
       Member ''skc_incoming_cpu'' (CInt 4 True) None,
       Member ''skc_rcv_wnd'' typedef_u32 None,
       Member ''skc_tw_rcv_nxt'' typedef_u32 None]) None,
     Member ''skc_refcnt'' typedef_refcount_t None,
     Member ''skc_dontcopy_end'' (CArray (CInt 4 True) 0) None,
     Member '''' (CUnion False [
       Member ''skc_rxhash'' typedef_u32 None,
       Member ''skc_window_clamp'' typedef_u32 None,
       Member ''skc_tw_snd_nxt'' typedef_u32 None]) None]"

lemma struct_sock_common_layout [ksize]:
  "sizeof struct_sock_common = 136" "alignof struct_sock_common = 8" "wf_ctype struct_sock_common" "unpacked struct_sock_common"
  by (simp_all add: struct_sock_common_def layout_eval ksize)

abbreviation typedef_u8 :: ctype where
  "typedef_u8 \<equiv> typedef___u8"

definition struct_qspinlock :: ctype where
  "struct_qspinlock = CStruct False [
     Member '''' (CUnion False [
       Member ''val'' typedef_atomic_t None,
       Member '''' (CStruct False [
         Member ''locked'' typedef_u8 None,
         Member ''pending'' typedef_u8 None]) None,
       Member '''' (CStruct False [
         Member ''locked_pending'' typedef_u16 None,
         Member ''tail'' typedef_u16 None]) None]) None]"

lemma struct_qspinlock_layout [ksize]:
  "sizeof struct_qspinlock = 4" "alignof struct_qspinlock = 4" "wf_ctype struct_qspinlock" "unpacked struct_qspinlock"
  by (simp_all add: struct_qspinlock_def layout_eval ksize)

abbreviation typedef_arch_spinlock_t :: ctype where
  "typedef_arch_spinlock_t \<equiv> struct_qspinlock"

abbreviation struct_raw_spinlock :: ctype where
  "struct_raw_spinlock \<equiv> CStruct False [
     Member ''raw_lock'' typedef_arch_spinlock_t None]"

definition struct_spinlock :: ctype where
  "struct_spinlock = CStruct False [
     Member '''' (CUnion False [
       Member ''rlock'' struct_raw_spinlock None]) None]"

lemma struct_spinlock_layout [ksize]:
  "sizeof struct_spinlock = 4" "alignof struct_spinlock = 4" "wf_ctype struct_spinlock" "unpacked struct_spinlock"
  by (simp_all add: struct_spinlock_def layout_eval ksize)

abbreviation typedef_spinlock_t :: ctype where
  "typedef_spinlock_t \<equiv> struct_spinlock"

definition struct_list_head :: ctype where
  "struct_list_head = CStruct False [
     Member ''next'' (CPtr ''struct list_head'') None,
     Member ''prev'' (CPtr ''struct list_head'') None]"

lemma struct_list_head_layout [ksize]:
  "sizeof struct_list_head = 16" "alignof struct_list_head = 8" "wf_ctype struct_list_head" "unpacked struct_list_head"
  by (simp_all add: struct_list_head_def layout_eval ksize)

abbreviation struct_wait_queue_head :: ctype where
  "struct_wait_queue_head \<equiv> CStruct False [
     Member ''lock'' typedef_spinlock_t None,
     Member ''head'' struct_list_head None]"

abbreviation typedef_wait_queue_head_t :: ctype where
  "typedef_wait_queue_head_t \<equiv> struct_wait_queue_head"

abbreviation typedef_socket_lock_t :: ctype where
  "typedef_socket_lock_t \<equiv> CStruct False [
     Member ''slock'' typedef_spinlock_t None,
     Member ''owned'' (CInt 4 True) None,
     Member ''wq'' typedef_wait_queue_head_t None]"

abbreviation struct_sk_buff_list :: ctype where
  "struct_sk_buff_list \<equiv> CStruct False [
     Member ''next'' (CPtr ''struct sk_buff'') None,
     Member ''prev'' (CPtr ''struct sk_buff'') None]"

definition struct_sk_buff_head :: ctype where
  "struct_sk_buff_head = CStruct False [
     Member '''' (CUnion False [
       Member '''' (CStruct False [
         Member ''next'' (CPtr ''struct sk_buff'') None,
         Member ''prev'' (CPtr ''struct sk_buff'') None]) None,
       Member ''list'' struct_sk_buff_list None]) None,
     Member ''qlen'' typedef___u32 None,
     Member ''lock'' typedef_spinlock_t None]"

lemma struct_sk_buff_head_layout [ksize]:
  "sizeof struct_sk_buff_head = 24" "alignof struct_sk_buff_head = 8" "wf_ctype struct_sk_buff_head" "unpacked struct_sk_buff_head"
  by (simp_all add: struct_sk_buff_head_def layout_eval ksize)

abbreviation struct_rb_root :: ctype where
  "struct_rb_root \<equiv> CStruct False [
     Member ''rb_node'' (CPtr ''struct rb_node'') None]"

abbreviation typedef___s32 :: ctype where
  "typedef___s32 \<equiv> CInt 4 True"

definition struct_timer_list :: ctype where
  "struct_timer_list = CStruct False [
     Member ''entry'' struct_hlist_node None,
     Member ''expires'' (CInt 8 False) None,
     Member ''function'' (CPtr ''fn'') None,
     Member ''flags'' typedef_u32 None]"

lemma struct_timer_list_layout [ksize]:
  "sizeof struct_timer_list = 40" "alignof struct_timer_list = 8" "wf_ctype struct_timer_list" "unpacked struct_timer_list"
  by (simp_all add: struct_timer_list_def layout_eval ksize)

abbreviation struct_page_frag :: ctype where
  "struct_page_frag \<equiv> CStruct False [
     Member ''page'' (CPtr ''struct page'') None,
     Member ''offset'' typedef___u32 None,
     Member ''size'' typedef___u32 None]"

abbreviation typedef_netdev_features_t :: ctype where
  "typedef_netdev_features_t \<equiv> typedef_u64"

abbreviation typedef_gfp_t :: ctype where
  "typedef_gfp_t \<equiv> CInt 4 False"

definition struct_qrwlock :: ctype where
  "struct_qrwlock = CStruct False [
     Member '''' (CUnion False [
       Member ''cnts'' typedef_atomic_t None,
       Member '''' (CStruct False [
         Member ''wlocked'' typedef_u8 None,
         Member ''__lstate'' (CArray typedef_u8 3) None]) None]) None,
     Member ''wait_lock'' typedef_arch_spinlock_t None]"

lemma struct_qrwlock_layout [ksize]:
  "sizeof struct_qrwlock = 8" "alignof struct_qrwlock = 4" "wf_ctype struct_qrwlock" "unpacked struct_qrwlock"
  by (simp_all add: struct_qrwlock_def layout_eval ksize)

abbreviation typedef_arch_rwlock_t :: ctype where
  "typedef_arch_rwlock_t \<equiv> struct_qrwlock"

abbreviation typedef_rwlock_t :: ctype where
  "typedef_rwlock_t \<equiv> CStruct False [
     Member ''raw_lock'' typedef_arch_rwlock_t None]"

abbreviation typedef___kernel_uid32_t :: ctype where
  "typedef___kernel_uid32_t \<equiv> CInt 4 False"

abbreviation typedef_uid_t :: ctype where
  "typedef_uid_t \<equiv> typedef___kernel_uid32_t"

abbreviation typedef_kuid_t :: ctype where
  "typedef_kuid_t \<equiv> CStruct False [
     Member ''val'' typedef_uid_t None]"

abbreviation typedef_ktime_t :: ctype where
  "typedef_ktime_t \<equiv> typedef_s64"

abbreviation typedef_bool :: ctype where
  "typedef_bool \<equiv> CBool"

abbreviation struct_sock_cgroup_data :: ctype where
  "struct_sock_cgroup_data \<equiv> CStruct False [
     Member ''cgroup'' (CPtr ''struct cgroup'') None,
     Member ''classid'' typedef_u32 None,
     Member ''prioidx'' typedef_u16 None]"

definition struct_callback_head :: ctype where
  "struct_callback_head = CStruct False [
     Member ''next'' (CPtr ''struct callback_head'') None,
     Member ''func'' (CPtr ''fn'') None]"

lemma struct_callback_head_layout [ksize]:
  "sizeof struct_callback_head = 16" "alignof struct_callback_head = 8" "wf_ctype struct_callback_head" "unpacked struct_callback_head"
  by (simp_all add: struct_callback_head_def layout_eval ksize)

definition typedef_netns_tracker :: ctype where
  "typedef_netns_tracker = CStruct False []"

lemma typedef_netns_tracker_layout [ksize]:
  "sizeof typedef_netns_tracker = 0" "alignof typedef_netns_tracker = 1" "wf_ctype typedef_netns_tracker" "unpacked typedef_netns_tracker"
  by (simp_all add: typedef_netns_tracker_def layout_eval ksize)

definition struct_sock :: ctype where
  "struct_sock = CStruct False [
     Member ''__sk_common'' struct_sock_common None,
     Member ''sk_rx_dst'' (CPtr ''struct dst_entry'') None,
     Member ''sk_rx_dst_ifindex'' (CInt 4 True) None,
     Member ''sk_rx_dst_cookie'' typedef_u32 None,
     Member ''sk_lock'' typedef_socket_lock_t None,
     Member ''sk_drops'' typedef_atomic_t None,
     Member ''sk_rcvlowat'' (CInt 4 True) None,
     Member ''sk_error_queue'' struct_sk_buff_head None,
     Member ''sk_receive_queue'' struct_sk_buff_head None,
     Member ''sk_backlog'' (CStruct False [
       Member ''rmem_alloc'' typedef_atomic_t None,
       Member ''len'' (CInt 4 True) None,
       Member ''head'' (CPtr ''struct sk_buff'') None,
       Member ''tail'' (CPtr ''struct sk_buff'') None]) None,
     Member ''sk_forward_alloc'' (CInt 4 True) None,
     Member ''sk_reserved_mem'' typedef_u32 None,
     Member ''sk_ll_usec'' (CInt 4 False) None,
     Member ''sk_napi_id'' (CInt 4 False) None,
     Member ''sk_rcvbuf'' (CInt 4 True) None,
     Member ''sk_disconnects'' (CInt 4 True) None,
     Member ''sk_filter'' (CPtr ''struct sk_filter'') None,
     Member '''' (CUnion False [
       Member ''sk_wq'' (CPtr ''struct socket_wq'') None,
       Member ''sk_wq_raw'' (CPtr ''struct socket_wq'') None]) None,
     Member ''sk_policy'' (CArray (CPtr ''struct xfrm_policy'') 2) None,
     Member ''sk_dst_cache'' (CPtr ''struct dst_entry'') None,
     Member ''sk_omem_alloc'' typedef_atomic_t None,
     Member ''sk_sndbuf'' (CInt 4 True) None,
     Member ''sk_wmem_queued'' (CInt 4 True) None,
     Member ''sk_wmem_alloc'' typedef_refcount_t None,
     Member ''sk_tsq_flags'' (CInt 8 False) None,
     Member '''' (CUnion False [
       Member ''sk_send_head'' (CPtr ''struct sk_buff'') None,
       Member ''tcp_rtx_queue'' struct_rb_root None]) None,
     Member ''sk_write_queue'' struct_sk_buff_head None,
     Member ''sk_peek_off'' typedef___s32 None,
     Member ''sk_write_pending'' (CInt 4 True) None,
     Member ''sk_dst_pending_confirm'' typedef___u32 None,
     Member ''sk_pacing_status'' typedef_u32 None,
     Member ''sk_sndtimeo'' (CInt 8 True) None,
     Member ''sk_timer'' struct_timer_list None,
     Member ''sk_priority'' typedef___u32 None,
     Member ''sk_mark'' typedef___u32 None,
     Member ''sk_pacing_rate'' (CInt 8 False) None,
     Member ''sk_max_pacing_rate'' (CInt 8 False) None,
     Member ''sk_frag'' struct_page_frag None,
     Member ''sk_route_caps'' typedef_netdev_features_t None,
     Member ''sk_gso_type'' (CInt 4 True) None,
     Member ''sk_gso_max_size'' (CInt 4 False) None,
     Member ''sk_allocation'' typedef_gfp_t None,
     Member ''sk_txhash'' typedef___u32 None,
     Member ''sk_gso_disabled'' typedef_u8 (Some 1),
     Member ''sk_kern_sock'' typedef_u8 (Some 1),
     Member ''sk_no_check_tx'' typedef_u8 (Some 1),
     Member ''sk_no_check_rx'' typedef_u8 (Some 1),
     Member ''sk_userlocks'' typedef_u8 (Some 4),
     Member ''sk_pacing_shift'' typedef_u8 None,
     Member ''sk_type'' typedef_u16 None,
     Member ''sk_protocol'' typedef_u16 None,
     Member ''sk_gso_max_segs'' typedef_u16 None,
     Member ''sk_lingertime'' (CInt 8 False) None,
     Member ''sk_prot_creator'' (CPtr ''struct proto'') None,
     Member ''sk_callback_lock'' typedef_rwlock_t None,
     Member ''sk_err'' (CInt 4 True) None,
     Member ''sk_err_soft'' (CInt 4 True) None,
     Member ''sk_ack_backlog'' typedef_u32 None,
     Member ''sk_max_ack_backlog'' typedef_u32 None,
     Member ''sk_uid'' typedef_kuid_t None,
     Member ''sk_txrehash'' typedef_u8 None,
     Member ''sk_prefer_busy_poll'' typedef_u8 None,
     Member ''sk_busy_poll_budget'' typedef_u16 None,
     Member ''sk_peer_lock'' typedef_spinlock_t None,
     Member ''sk_bind_phc'' (CInt 4 True) None,
     Member ''sk_peer_pid'' (CPtr ''struct pid'') None,
     Member ''sk_peer_cred'' (CPtr ''struct cred'') None,
     Member ''sk_rcvtimeo'' (CInt 8 True) None,
     Member ''sk_stamp'' typedef_ktime_t None,
     Member ''sk_tskey'' typedef_atomic_t None,
     Member ''sk_zckey'' typedef_atomic_t None,
     Member ''sk_tsflags'' typedef_u32 None,
     Member ''sk_shutdown'' typedef_u8 None,
     Member ''sk_clockid'' typedef_u8 None,
     Member ''sk_txtime_deadline_mode'' typedef_u8 (Some 1),
     Member ''sk_txtime_report_errors'' typedef_u8 (Some 1),
     Member ''sk_txtime_unused'' typedef_u8 (Some 6),
     Member ''sk_use_task_frag'' typedef_bool None,
     Member ''sk_socket'' (CPtr ''struct socket'') None,
     Member ''sk_user_data'' (CPtr ''void'') None,
     Member ''sk_security'' (CPtr ''void'') None,
     Member ''sk_cgrp_data'' struct_sock_cgroup_data None,
     Member ''sk_memcg'' (CPtr ''struct mem_cgroup'') None,
     Member ''sk_state_change'' (CPtr ''fn'') None,
     Member ''sk_data_ready'' (CPtr ''fn'') None,
     Member ''sk_write_space'' (CPtr ''fn'') None,
     Member ''sk_error_report'' (CPtr ''fn'') None,
     Member ''sk_backlog_rcv'' (CPtr ''fn'') None,
     Member ''sk_validate_xmit_skb'' (CPtr ''fn'') None,
     Member ''sk_destruct'' (CPtr ''fn'') None,
     Member ''sk_reuseport_cb'' (CPtr ''struct sock_reuseport'') None,
     Member ''sk_bpf_storage'' (CPtr ''struct bpf_local_storage'') None,
     Member ''sk_rcu'' struct_callback_head None,
     Member ''ns_tracker'' typedef_netns_tracker None]"

lemma struct_sock_layout [ksize]:
  "sizeof struct_sock = 760" "alignof struct_sock = 8" "wf_ctype struct_sock" "unpacked struct_sock"
  by (simp_all add: struct_sock_def layout_eval ksize)

end
