(* ===== verification/Tcp_Metrics.thy ===== *)
theory Tcp_Metrics
  imports Kernel_Sock "HOL-Library.AList"
begin

text \<open>
  The BPF program \<open>src/agent/ebpf/bpf/tcp_metrics.bpf.c\<close>: its structures with their memory layout,
  the CO-RE field reads, and its three probes as functions on the state of its two maps.

  What the kernel does for the program is a parameter. \<open>kenv\<close> holds, for one run of one probe, what
  the helpers return (\<open>bpf_probe_read_kernel\<close> behind \<open>BPF_CORE_READ\<close>, \<open>bpf_ktime_get_ns\<close>,
  \<open>bpf_get_current_pid_tgid\<close>, \<open>bpf_get_current_comm\<close>, and whether \<open>bpf_ringbuf_reserve\<close>
  finds room), \<open>core_relocs\<close> the offsets that the loader patches into the reads, and \<open>hash_ops\<close> the
  operations of the hash map \<open>connect_starts\<close>; the locales \<open>bpf_hash\<close> and \<open>bounded_bpf_hash\<close> state what the
  program relies on of these. The ring buffer is the list of the samples
  submitted to it.
\<close>

unbundle bit_operations_syntax

section \<open>Structures and maps\<close>

definition AEGIS_EVENT_RETRANSMIT :: u32 where
  "AEGIS_EVENT_RETRANSMIT = 1"

definition AEGIS_EVENT_CONNECT :: u32 where
  "AEGIS_EVENT_CONNECT = 2"

definition AEGIS_TASK_COMM_LEN :: nat where
  "AEGIS_TASK_COMM_LEN = 16"

record tcp_event =
  te_timestamp_ns :: u64
  te_pid :: u32
  te_type :: u32
  te_family :: u16
  te_sport :: u16
  te_dport :: u16
  te_pad :: u16
  te_ret :: u32
  te_saddr_v4 :: u32
  te_daddr_v4 :: u32
  te_connect_latency_ns :: u64
  te_comm :: "byte list"

record connect_start =
  cs_timestamp_ns :: u64
  cs_pid :: u32
  cs_family :: u16
  cs_sport :: u16
  cs_dport :: u16
  cs_pad :: u16
  cs_saddr_v4 :: u32
  cs_daddr_v4 :: u32
  cs_comm :: "byte list"

text \<open>The declarations of the two structures as C types, for their layout.\<close>

definition struct_tcp_event :: ctype where
  "struct_tcp_event = CStruct False [
     Member ''timestamp_ns'' typedef___u64 None,
     Member ''pid'' typedef___u32 None,
     Member ''type'' typedef___u32 None,
     Member ''family'' typedef___u16 None,
     Member ''sport'' typedef___u16 None,
     Member ''dport'' typedef___u16 None,
     Member ''pad'' typedef___u16 None,
     Member ''ret'' typedef___s32 None,
     Member ''saddr_v4'' typedef___u32 None,
     Member ''daddr_v4'' typedef___u32 None,
     Member ''connect_latency_ns'' typedef___u64 None,
     Member ''comm'' (CArray (CInt 1 True) AEGIS_TASK_COMM_LEN) None]"

definition struct_connect_start :: ctype where
  "struct_connect_start = CStruct False [
     Member ''timestamp_ns'' typedef___u64 None,
     Member ''pid'' typedef___u32 None,
     Member ''family'' typedef___u16 None,
     Member ''sport'' typedef___u16 None,
     Member ''dport'' typedef___u16 None,
     Member ''pad'' typedef___u16 None,
     Member ''saddr_v4'' typedef___u32 None,
     Member ''daddr_v4'' typedef___u32 None,
     Member ''comm'' (CArray (CInt 1 True) AEGIS_TASK_COMM_LEN) None]"

datatype bpf_map_type = BPF_MAP_TYPE_HASH | BPF_MAP_TYPE_RINGBUF

record bpf_map_def =
  map_type :: bpf_map_type
  max_entries :: nat
  key_size :: "nat option"
  value_type :: "ctype option"

definition events_map :: bpf_map_def where
  "events_map = \<lparr>map_type = BPF_MAP_TYPE_RINGBUF, max_entries = 2 ^ 20,
     key_size = None, value_type = None\<rparr>"

definition connect_starts_map :: bpf_map_def where
  "connect_starts_map = \<lparr>map_type = BPF_MAP_TYPE_HASH, max_entries = 16384,
     key_size = Some (sizeof typedef___u64), value_type = Some struct_connect_start\<rparr>"


section \<open>The state and the kernel's helpers\<close>

record 'm bpf_state =
  ring :: "byte list list"
  starts :: 'm

record 'm hash_ops =
  h_lookup :: "'m \<Rightarrow> u64 \<Rightarrow> connect_start option"
  h_update :: "'m \<Rightarrow> u64 \<Rightarrow> connect_start \<Rightarrow> 'm"
  h_delete :: "'m \<Rightarrow> u64 \<Rightarrow> 'm"

record kenv =
  probe_read :: "u64 \<Rightarrow> nat \<Rightarrow> byte list"
  ktime_get_ns :: u64
  current_pid_tgid :: u64
  current_comm :: "byte list"
  ringbuf_reserve :: "nat \<Rightarrow> bool"

text \<open>
  CO-RE: the loader resolves every member path that the program reads in the types of the running
  kernel and patches the offset into the instruction. The patched offsets are a parameter, by member
  path; the width of a read is that of the program's own declaration.
\<close>

record core_relocs =
  sock_off :: "string list \<Rightarrow> nat"
  sin_off :: "string list \<Rightarrow> nat"

fun byte_offset :: "ctype \<Rightarrow> string list \<Rightarrow> nat option" where
  "byte_offset t p = (case resolve t p of Some (off, t', None) \<Rightarrow> Some (off div 8) | _ \<Rightarrow> None)"

definition bpf_ntohs :: "u16 \<Rightarrow> u16" where
  "bpf_ntohs w = of_nat (256 * (unat w mod 256) + unat w div 256)"

definition read16 :: "kenv \<Rightarrow> u64 \<Rightarrow> nat \<Rightarrow> u16" where
  "read16 e p off = bytes_word16 (probe_read e (p + of_nat off) 2)"

definition read32 :: "kenv \<Rightarrow> u64 \<Rightarrow> nat \<Rightarrow> u32" where
  "read32 e p off = bytes_word32 (probe_read e (p + of_nat off) 4)"

definition read_family :: "core_relocs \<Rightarrow> kenv \<Rightarrow> u64 \<Rightarrow> u16" where
  "read_family r e sk = read16 e sk (sock_off r [''__sk_common'', ''skc_family''])"

definition read_sport :: "core_relocs \<Rightarrow> kenv \<Rightarrow> u64 \<Rightarrow> u16" where
  "read_sport r e sk = read16 e sk (sock_off r [''__sk_common'', ''skc_num''])"

definition read_dport :: "core_relocs \<Rightarrow> kenv \<Rightarrow> u64 \<Rightarrow> u16" where
  "read_dport r e sk = (let dport = read16 e sk (sock_off r [''__sk_common'', ''skc_dport'']) in bpf_ntohs dport)"

definition read_saddr_v4 :: "core_relocs \<Rightarrow> kenv \<Rightarrow> u64 \<Rightarrow> u32" where
  "read_saddr_v4 r e sk = read32 e sk (sock_off r [''__sk_common'', ''skc_rcv_saddr''])"

definition read_daddr_v4 :: "core_relocs \<Rightarrow> kenv \<Rightarrow> u64 \<Rightarrow> u32" where
  "read_daddr_v4 r e sk = read32 e sk (sock_off r [''__sk_common'', ''skc_daddr''])"

definition fill_tuple :: "core_relocs \<Rightarrow> kenv \<Rightarrow> tcp_event \<Rightarrow> u64 \<Rightarrow> tcp_event" where
  "fill_tuple r e event sk = event\<lparr>
     te_family := read_family r e sk,
     te_sport := read_sport r e sk,
     te_dport := read_dport r e sk,
     te_saddr_v4 := read_saddr_v4 r e sk,
     te_daddr_v4 := read_daddr_v4 r e sk\<rparr>"

definition fill_start_tuple ::
    "core_relocs \<Rightarrow> kenv \<Rightarrow> connect_start \<Rightarrow> u64 \<Rightarrow> u64 \<Rightarrow> connect_start" where
  "fill_start_tuple r e start sk addr = start\<lparr>
     cs_family := read_family r e sk,
     cs_sport := read_sport r e sk,
     cs_saddr_v4 := read_saddr_v4 r e sk,
     cs_dport := bpf_ntohs (read16 e addr (sin_off r [''sin_port''])),
     cs_daddr_v4 := read32 e addr (sin_off r [''sin_addr'', ''s_addr''])\<rparr>"


section \<open>A sample as bytes\<close>

definition put_bytes :: "nat \<Rightarrow> byte list \<Rightarrow> byte list \<Rightarrow> byte list" where
  "put_bytes off bs mem = take off mem @ bs @ drop (off + length bs) mem"

fun put_field :: "ctype \<Rightarrow> string \<times> byte list \<Rightarrow> byte list \<Rightarrow> byte list" where
  "put_field t (f, bs) mem =
     (case byte_offset t [f] of Some off \<Rightarrow> put_bytes off bs mem | None \<Rightarrow> mem)"

definition zero_event :: tcp_event where
  "zero_event = \<lparr>te_timestamp_ns = 0, te_pid = 0, te_type = 0, te_family = 0, te_sport = 0,
     te_dport = 0, te_pad = 0, te_ret = 0, te_saddr_v4 = 0, te_daddr_v4 = 0,
     te_connect_latency_ns = 0, te_comm = replicate AEGIS_TASK_COMM_LEN 0\<rparr>"

definition zero_start :: connect_start where
  "zero_start = \<lparr>cs_timestamp_ns = 0, cs_pid = 0, cs_family = 0, cs_sport = 0, cs_dport = 0,
     cs_pad = 0, cs_saddr_v4 = 0, cs_daddr_v4 = 0, cs_comm = replicate AEGIS_TASK_COMM_LEN 0\<rparr>"

text \<open>
  The reserved sample is cleared over its whole size and then written member by member, each at
  the offset the compiler gives it.
\<close>

definition event_fields :: "tcp_event \<Rightarrow> (string \<times> byte list) list" where
  "event_fields ev = [
     (''timestamp_ns'', word64_bytes (te_timestamp_ns ev)),
     (''pid'', word32_bytes (te_pid ev)),
     (''type'', word32_bytes (te_type ev)),
     (''family'', word16_bytes (te_family ev)),
     (''sport'', word16_bytes (te_sport ev)),
     (''dport'', word16_bytes (te_dport ev)),
     (''pad'', word16_bytes (te_pad ev)),
     (''ret'', word32_bytes (te_ret ev)),
     (''saddr_v4'', word32_bytes (te_saddr_v4 ev)),
     (''daddr_v4'', word32_bytes (te_daddr_v4 ev)),
     (''connect_latency_ns'', word64_bytes (te_connect_latency_ns ev)),
     (''comm'', te_comm ev)]"

definition event_bytes :: "tcp_event \<Rightarrow> byte list" where
  "event_bytes ev =
     fold (put_field struct_tcp_event) (event_fields ev) (replicate (sizeof struct_tcp_event) 0)"

definition ringbuf_submit :: "tcp_event \<Rightarrow> 'm bpf_state \<Rightarrow> 'm bpf_state" where
  "ringbuf_submit ev s = s\<lparr>ring := ring s @ [event_bytes ev]\<rparr>"


section \<open>The probes\<close>

definition pid_of :: "u64 \<Rightarrow> u32" where
  "pid_of pid_tgid = ucast (drop_bit 32 pid_tgid)"

definition aegis_tcp_retransmit ::
    "core_relocs \<Rightarrow> kenv \<Rightarrow> u64 \<Rightarrow> 'm bpf_state \<Rightarrow> 'm bpf_state" where
  "aegis_tcp_retransmit r e sk s =
     (if sk = 0 then s
      else if \<not> ringbuf_reserve e (sizeof struct_tcp_event) then s
      else
        (let event = zero_event;
             pid_tgid = current_pid_tgid e;
             event = event\<lparr>te_timestamp_ns := ktime_get_ns e\<rparr>;
             event = event\<lparr>te_pid := pid_of pid_tgid\<rparr>;
             event = event\<lparr>te_type := AEGIS_EVENT_RETRANSMIT\<rparr>;
             event = fill_tuple r e event sk;
             event = event\<lparr>te_comm := current_comm e\<rparr>
         in ringbuf_submit event s))"

definition aegis_tcp_v4_connect ::
    "'m hash_ops \<Rightarrow> core_relocs \<Rightarrow> kenv \<Rightarrow> u64 \<Rightarrow> u64 \<Rightarrow> 'm bpf_state \<Rightarrow> 'm bpf_state" where
  "aegis_tcp_v4_connect h r e sk uaddr s =
     (let start = zero_start; addr = uaddr in
      if sk = 0 \<or> addr = 0 then s
      else
        (let pid_tgid = current_pid_tgid e;
             start = start\<lparr>cs_timestamp_ns := ktime_get_ns e\<rparr>;
             start = start\<lparr>cs_pid := pid_of pid_tgid\<rparr>;
             start = fill_start_tuple r e start sk addr;
             start = start\<lparr>cs_comm := current_comm e\<rparr>
         in s\<lparr>starts := h_update h (starts s) pid_tgid start\<rparr>))"

definition aegis_tcp_v4_connect_ret ::
    "'m hash_ops \<Rightarrow> kenv \<Rightarrow> u32 \<Rightarrow> 'm bpf_state \<Rightarrow> 'm bpf_state" where
  "aegis_tcp_v4_connect_ret h e ret s =
     (let pid_tgid = current_pid_tgid e; now = ktime_get_ns e in
      case h_lookup h (starts s) pid_tgid of
        None \<Rightarrow> s
      | Some start \<Rightarrow>
          if \<not> ringbuf_reserve e (sizeof struct_tcp_event)
          then s\<lparr>starts := h_delete h (starts s) pid_tgid\<rparr>
          else
            (let event = zero_event;
                 event = event\<lparr>te_timestamp_ns := now\<rparr>;
                 event = event\<lparr>te_pid := cs_pid start\<rparr>;
                 event = event\<lparr>te_type := AEGIS_EVENT_CONNECT\<rparr>;
                 event = event\<lparr>te_family := cs_family start\<rparr>;
                 event = event\<lparr>te_sport := cs_sport start\<rparr>;
                 event = event\<lparr>te_dport := cs_dport start\<rparr>;
                 event = event\<lparr>te_ret := ret\<rparr>;
                 event = event\<lparr>te_saddr_v4 := cs_saddr_v4 start\<rparr>;
                 event = event\<lparr>te_daddr_v4 := cs_daddr_v4 start\<rparr>;
                 event = event\<lparr>te_connect_latency_ns := now - cs_timestamp_ns start\<rparr>;
                 event = event\<lparr>te_comm := cs_comm start\<rparr>;
                 s = ringbuf_submit event s
             in s\<lparr>starts := h_delete h (starts s) pid_tgid\<rparr>))"


section \<open>Layout of the structures\<close>

lemma struct_tcp_event_layout [ksize]:
  "sizeof struct_tcp_event = 64" "alignof struct_tcp_event = 8" "wf_ctype struct_tcp_event"
  "unpacked struct_tcp_event"
  by (simp_all add: struct_tcp_event_def AEGIS_TASK_COMM_LEN_def layout_eval ksize)

lemma struct_connect_start_layout [ksize]:
  "sizeof struct_connect_start = 48" "alignof struct_connect_start = 8"
  "wf_ctype struct_connect_start" "unpacked struct_connect_start"
  by (simp_all add: struct_connect_start_def AEGIS_TASK_COMM_LEN_def layout_eval ksize)

lemma event_offsets:
  "byte_offset struct_tcp_event [''timestamp_ns''] = Some 0"
  "byte_offset struct_tcp_event [''pid''] = Some 8"
  "byte_offset struct_tcp_event [''type''] = Some 12"
  "byte_offset struct_tcp_event [''family''] = Some 16"
  "byte_offset struct_tcp_event [''sport''] = Some 18"
  "byte_offset struct_tcp_event [''dport''] = Some 20"
  "byte_offset struct_tcp_event [''pad''] = Some 22"
  "byte_offset struct_tcp_event [''ret''] = Some 24"
  "byte_offset struct_tcp_event [''saddr_v4''] = Some 28"
  "byte_offset struct_tcp_event [''daddr_v4''] = Some 32"
  "byte_offset struct_tcp_event [''connect_latency_ns''] = Some 40"
  "byte_offset struct_tcp_event [''comm''] = Some 48"
  by (simp_all add: struct_tcp_event_def lookup_eval ksize)

lemma sock_offsets:
  "byte_offset struct_sock [''__sk_common'', ''skc_family''] = Some 16"
  "byte_offset struct_sock [''__sk_common'', ''skc_num''] = Some 14"
  "byte_offset struct_sock [''__sk_common'', ''skc_dport''] = Some 12"
  "byte_offset struct_sock [''__sk_common'', ''skc_rcv_saddr''] = Some 4"
  "byte_offset struct_sock [''__sk_common'', ''skc_daddr''] = Some 0"
  "byte_offset struct_sockaddr_in [''sin_port''] = Some 2"
  "byte_offset struct_sockaddr_in [''sin_addr'', ''s_addr''] = Some 4"
  by (simp_all add: struct_sock_def struct_sock_common_def struct_sockaddr_in_def
      struct_in_addr_def lookup_eval ksize)

declare byte_offset.simps [simp del]

text \<open>A sample byte by byte: four bytes of padding precede the latency.\<close>

lemma event_bytes_eq:
  assumes "length (te_comm ev) = 16"
  shows "event_bytes ev =
    word64_bytes (te_timestamp_ns ev) @ word32_bytes (te_pid ev) @ word32_bytes (te_type ev) @
    word16_bytes (te_family ev) @ word16_bytes (te_sport ev) @ word16_bytes (te_dport ev) @
    word16_bytes (te_pad ev) @ word32_bytes (te_ret ev) @ word32_bytes (te_saddr_v4 ev) @
    word32_bytes (te_daddr_v4 ev) @ replicate 4 0 @ word64_bytes (te_connect_latency_ns ev) @
    te_comm ev"
  using assms
  by (simp add: event_bytes_def event_fields_def event_offsets put_bytes_def ksize)


lemma length_event_bytes: "length (te_comm ev) = 16 \<Longrightarrow> length (event_bytes ev) = 64"
  by (simp add: event_bytes_eq)

text \<open>The sample as a reader with the same structure declaration sees it.\<close>

definition event_of_bytes :: "byte list \<Rightarrow> tcp_event" where
  "event_of_bytes bs = \<lparr>
     te_timestamp_ns = bytes_word64 bs, te_pid = bytes_word32 (drop 8 bs),
     te_type = bytes_word32 (drop 12 bs), te_family = bytes_word16 (drop 16 bs),
     te_sport = bytes_word16 (drop 18 bs), te_dport = bytes_word16 (drop 20 bs),
     te_pad = bytes_word16 (drop 22 bs), te_ret = bytes_word32 (drop 24 bs),
     te_saddr_v4 = bytes_word32 (drop 28 bs), te_daddr_v4 = bytes_word32 (drop 32 bs),
     te_connect_latency_ns = bytes_word64 (drop 40 bs), te_comm = take 16 (drop 48 bs)\<rparr>"

lemma event_of_event_bytes [simp]:
  "length (te_comm ev) = 16 \<Longrightarrow> event_of_bytes (event_bytes ev) = ev"
  by (simp add: event_bytes_eq event_of_bytes_def)


section \<open>The hash map interface\<close>

text \<open>
  What the probes rely on of \<open>bpf_map_lookup_elem\<close>, \<open>bpf_map_update_elem\<close> with \<open>BPF_ANY\<close> and
  \<open>bpf_map_delete_elem\<close>: an update stores the value or, when the map has no room, changes nothing;
  a deletion removes the key; no operation touches another key.
\<close>

locale bpf_hash =
  fixes h :: "'m hash_ops"
  assumes lookup_delete: "h_lookup h (h_delete h m k) k' = (if k' = k then None else h_lookup h m k')"
    and lookup_update_other: "k' \<noteq> k \<Longrightarrow> h_lookup h (h_update h m k v) k' = h_lookup h m k'"
    and lookup_update_same: "h_lookup h (h_update h m k v) k \<in> {Some v, h_lookup h m k}"
begin

lemma connect_other_key:
  "k \<noteq> current_pid_tgid e \<Longrightarrow>
     h_lookup h (starts (aegis_tcp_v4_connect h r e sk addr s)) k = h_lookup h (starts s) k"
  by (simp add: aegis_tcp_v4_connect_def Let_def lookup_update_other)

lemma connect_ret_lookup:
  "h_lookup h (starts (aegis_tcp_v4_connect_ret h e rc s)) k =
     (if k = current_pid_tgid e then None else h_lookup h (starts s) k)"
  by (simp add: aegis_tcp_v4_connect_ret_def ringbuf_submit_def Let_def lookup_delete
      split: option.split)

end

text \<open>
  The map \<open>connect_starts\<close> is bounded: an update of a key that it has, or of a new key while it has
  fewer than \<open>max_entries\<close>, stores the value; a new key in a full map is refused.
\<close>

locale bounded_bpf_hash = bpf_hash +
  assumes update_room: "h_lookup h m k \<noteq> None \<or> card (dom (h_lookup h m)) < max_entries connect_starts_map \<Longrightarrow>
      h_lookup h (h_update h m k v) k = Some v"
    and update_full: "h_lookup h m k = None \<Longrightarrow> max_entries connect_starts_map \<le> card (dom (h_lookup h m)) \<Longrightarrow>
      h_lookup h (h_update h m k v) k = None"
begin

lemma lookup_update_bounded:
  "h_lookup h (h_update h m k v) =
     (if h_lookup h m k \<noteq> None \<or> card (dom (h_lookup h m)) < 16384 then (h_lookup h m)(k \<mapsto> v) else h_lookup h m)"
  (is "?l = ?r")
proof
  fix x
  show "?l x = ?r x"
    using update_room [of m k v] update_full [of m k v] lookup_update_other [of x k m v]
    by (cases "x = k") (auto simp: connect_starts_map_def)
qed

end

text \<open>
  A bounded hash map as an association list, and the map of the program, which has room for 16384 threads.
\<close>

definition bounded_hash :: "nat \<Rightarrow> (u64 \<times> connect_start) list hash_ops" where
  "bounded_hash cap = \<lparr>
     h_lookup = map_of,
     h_update = (\<lambda>m k v. if map_of m k \<noteq> None \<or> card (fst ` set m) < cap then AList.update k v m else m),
     h_delete = (\<lambda>m k. AList.delete k m)\<rparr>"

interpretation connect_starts: bpf_hash "bounded_hash cap"
  by unfold_locales (auto simp: bounded_hash_def delete_conv update_conv)

interpretation connect_table: bounded_bpf_hash "bounded_hash (max_entries connect_starts_map)"
  by unfold_locales (auto simp: bounded_hash_def update_conv dom_map_of_conv_image_fst)

lemma connect_table_hash: "bounded_bpf_hash (bounded_hash 16384)"
  using connect_table.bounded_bpf_hash_axioms by (simp add: connect_starts_map_def)


section \<open>Runs of probes\<close>

text \<open>
  The kernel runs the probes in any order and for any threads. A probe run carries the
  arguments of the probed function and what the helpers returned in it.
\<close>

datatype probe_run =
    Retransmit kenv u64
  | Connect kenv u64 u64
  | ConnectRet kenv u32

fun run_probe :: "'m hash_ops \<Rightarrow> core_relocs \<Rightarrow> probe_run \<Rightarrow> 'm bpf_state \<Rightarrow> 'm bpf_state" where
  "run_probe h r (Retransmit e sk) s = aegis_tcp_retransmit r e sk s"
| "run_probe h r (Connect e sk addr) s = aegis_tcp_v4_connect h r e sk addr s"
| "run_probe h r (ConnectRet e rc) s = aegis_tcp_v4_connect_ret h e rc s"

definition run_probes ::
    "'m hash_ops \<Rightarrow> core_relocs \<Rightarrow> probe_run list \<Rightarrow> 'm bpf_state \<Rightarrow> 'm bpf_state" where
  "run_probes h r ps s = fold (run_probe h r) ps s"

fun run_env :: "probe_run \<Rightarrow> kenv" where
  "run_env (Retransmit e sk) = e"
| "run_env (Connect e sk addr) = e"
| "run_env (ConnectRet e rc) = e"

text \<open>The thread whose entry in \<open>connect_starts\<close> a run may change.\<close>

fun run_key :: "probe_run \<Rightarrow> u64 option" where
  "run_key (Retransmit e sk) = None"
| "run_key (Connect e sk addr) = Some (current_pid_tgid e)"
| "run_key (ConnectRet e rc) = Some (current_pid_tgid e)"

lemma retransmit_starts [simp]: "starts (aegis_tcp_retransmit r e sk s) = starts s"
  by (simp add: aegis_tcp_retransmit_def ringbuf_submit_def Let_def)

lemma connect_ring [simp]: "ring (aegis_tcp_v4_connect h r e sk addr s) = ring s"
  by (simp add: aegis_tcp_v4_connect_def Let_def)

context bpf_hash
begin

lemma run_probe_other_key:
  "run_key p \<noteq> Some k \<Longrightarrow> h_lookup h (starts (run_probe h r p s)) k = h_lookup h (starts s) k"
  by (cases p) (auto simp: connect_other_key connect_ret_lookup)

lemma run_probes_other_key:
  "\<forall>p\<in>set ps. run_key p \<noteq> Some k \<Longrightarrow>
     h_lookup h (starts (run_probes h r ps s)) k = h_lookup h (starts s) k"
  unfolding run_probes_def
  by (induction ps arbitrary: s) (auto simp: run_probe_other_key)

end


section \<open>Members of kernel objects\<close>

text \<open>
  The bytes of a member in the image of an object, for any layout the kernel gives it. Memory holds an
  object when a read of exactly a member at its place returns the bytes of the member; nothing is known
  of reads of another width or at another place.
\<close>

definition member_bytes :: "ctype \<Rightarrow> string list \<Rightarrow> byte list \<Rightarrow> byte list" where
  "member_bytes t p img =
     (case resolve t p of Some (b, t', None) \<Rightarrow> take (sizeof t') (drop (b div 8) img) | _ \<Rightarrow> [])"

definition member_size :: "ctype \<Rightarrow> string list \<Rightarrow> nat option" where
  "member_size t p = (case resolve t p of Some (b, t', None) \<Rightarrow> Some (sizeof t') | _ \<Rightarrow> None)"

definition holds_members :: "kenv \<Rightarrow> u64 \<Rightarrow> ctype \<Rightarrow> byte list \<Rightarrow> bool" where
  "holds_members e a t img \<longleftrightarrow> length img = sizeof t \<and>
     (\<forall>p b t'. resolve t p = Some (b, t', None) \<longrightarrow>
        probe_read e (a + of_nat (b div 8)) (sizeof t') = member_bytes t p img)"

text \<open>
  What the program relies on of the loader and of the kernel's types: the offsets are those of the
  members, and the members that it reads exist with the widths it declares.
\<close>

definition core_patched :: "ctype \<Rightarrow> ctype \<Rightarrow> core_relocs \<Rightarrow> bool" where
  "core_patched sock sin r \<longleftrightarrow>
     (\<forall>p off. byte_offset sock p = Some off \<longrightarrow> sock_off r p = off) \<and>
     (\<forall>p off. byte_offset sin p = Some off \<longrightarrow> sin_off r p = off)"

definition sock_members :: "(string list \<times> nat) list" where
  "sock_members = [([''__sk_common'', ''skc_family''], 2), ([''__sk_common'', ''skc_num''], 2), ([''__sk_common'', ''skc_dport''], 2),
     ([''__sk_common'', ''skc_rcv_saddr''], 4), ([''__sk_common'', ''skc_daddr''], 4)]"

definition sin_members :: "(string list \<times> nat) list" where
  "sin_members = [([''sin_port''], 2), ([''sin_addr'', ''s_addr''], 4)]"

definition kernel_types :: "ctype \<Rightarrow> ctype \<Rightarrow> bool" where
  "kernel_types sock sin \<longleftrightarrow> wf_ctype sock \<and> wf_ctype sin \<and>
     list_all (\<lambda>(p, w). member_size sock p = Some w) sock_members \<and>
     list_all (\<lambda>(p, w). member_size sin p = Some w) sin_members"

text \<open>Sixteen bits in network byte order.\<close>

definition net16 :: "byte list \<Rightarrow> u16" where
  "net16 bs = of_nat (256 * unat (bs ! 0) + unat (bs ! 1))"

lemma member_size_offset:
  assumes "member_size t p = Some w"
  obtains b t' where "resolve t p = Some (b, t', None)" "sizeof t' = w" "byte_offset t p = Some (b div 8)"
  using assms by (auto simp: member_size_def byte_offset.simps split: option.splits)

lemma read_member:
  assumes "holds_members e a t img" "member_size t p = Some w" "byte_offset t p = Some off"
  shows "probe_read e (a + of_nat off) w = member_bytes t p img"
  using assms(2)
proof (rule member_size_offset)
  fix b t'
  assume "resolve t p = Some (b, t', None)" "sizeof t' = w" "byte_offset t p = Some (b div 8)"
  then show ?thesis
    using assms(1, 3) unfolding holds_members_def by auto
qed

lemma sock_member:
  assumes "core_patched sock sin r" "kernel_types sock sin" "holds_members e sk sock img" "(p, w) \<in> set sock_members"
  shows "probe_read e (sk + of_nat (sock_off r p)) w = member_bytes sock p img"
proof -
  have size: "member_size sock p = Some w"
    using assms(2, 4) by (auto simp: kernel_types_def list_all_iff)
  then obtain off where "byte_offset sock p = Some off"
    by (rule member_size_offset)
  then show ?thesis
    using read_member [OF assms(3) size] assms(1) by (simp add: core_patched_def)
qed

lemma sin_member:
  assumes "core_patched sock sin r" "kernel_types sock sin" "holds_members e addr sin img" "(p, w) \<in> set sin_members"
  shows "probe_read e (addr + of_nat (sin_off r p)) w = member_bytes sin p img"
proof -
  have size: "member_size sin p = Some w"
    using assms(2, 4) by (auto simp: kernel_types_def list_all_iff)
  then obtain off where "byte_offset sin p = Some off"
    by (rule member_size_offset)
  then show ?thesis
    using read_member [OF assms(3) size] assms(1) by (simp add: core_patched_def)
qed

text \<open>A member lies inside its object, and is aligned unless the kernel packs the object.\<close>

lemma member_in_bounds:
  assumes "resolve t p = Some (b, t', None)" "wf_ctype t"
  shows "b = 8 * (b div 8)" "b div 8 + sizeof t' \<le> sizeof t" "unpacked t \<Longrightarrow> alignof t' dvd b div 8"
proof -
  show b: "b = 8 * (b div 8)"
    using resolve_byte [OF assms] by simp
  show "b div 8 + sizeof t' \<le> sizeof t"
    using resolve_bounds [OF assms(1)] b by simp
  show "alignof t' dvd b div 8" if "unpacked t"
    using resolve_aligned [OF assms that] b by auto
qed

lemma member_bytes_length:
  assumes "member_size t p = Some w" "wf_ctype t" "length img = sizeof t"
  shows "length (member_bytes t p img) = w"
  using assms(1)
proof (rule member_size_offset)
  fix b t'
  assume m: "resolve t p = Some (b, t', None)" "sizeof t' = w"
  then show ?thesis
    using member_in_bounds(2) [OF m(1) assms(2)] assms(3) by (simp add: member_bytes_def)
qed

lemma bpf_ntohs_net16: "length bs = 2 \<Longrightarrow> bpf_ntohs (bytes_word16 bs) = net16 bs"
proof -
  assume "length bs = 2"
  then obtain a b where bs: "bs = [a, b]"
    by (auto simp: length_Suc_conv numeral_2_eq_2)
  have "unat (bytes_word16 [a, b]) = unat a + 256 * unat b"
    by (simp add: unat_bytes_word)
  then show ?thesis
    by (simp add: bs bpf_ntohs_def net16_def)
qed


section \<open>What the probes report\<close>

text \<open>
  The contract of the program over event values: which events have been reported and which
  connection attempts are pending. A retransmission reports the tuple that its socket has in memory; a
  connect attempt is remembered from its entry to its return, with the tuple of the socket and the
  address it goes to, and the return reports it. A full ring buffer loses the event, and a map with
  16384 other attempts loses the attempt; nothing else is lost.
\<close>

record telemetry =
  t_events :: "tcp_event list"
  t_pending :: "u64 \<Rightarrow> connect_start option"

definition process_of :: "kenv \<Rightarrow> u32" where
  "process_of e = of_nat (unat (current_pid_tgid e) div 2 ^ 32)"

definition observed_retransmission :: "ctype \<Rightarrow> byte list \<Rightarrow> kenv \<Rightarrow> tcp_event" where
  "observed_retransmission sock img e = \<lparr>
     te_timestamp_ns = ktime_get_ns e, te_pid = process_of e, te_type = 1,
     te_family = bytes_word16 (member_bytes sock [''__sk_common'', ''skc_family''] img),
     te_sport = bytes_word16 (member_bytes sock [''__sk_common'', ''skc_num''] img),
     te_dport = net16 (member_bytes sock [''__sk_common'', ''skc_dport''] img), te_pad = 0, te_ret = 0,
     te_saddr_v4 = bytes_word32 (member_bytes sock [''__sk_common'', ''skc_rcv_saddr''] img),
     te_daddr_v4 = bytes_word32 (member_bytes sock [''__sk_common'', ''skc_daddr''] img),
     te_connect_latency_ns = 0, te_comm = current_comm e\<rparr>"

definition observed_attempt :: "ctype \<Rightarrow> ctype \<Rightarrow> byte list \<Rightarrow> byte list \<Rightarrow> kenv \<Rightarrow> connect_start" where
  "observed_attempt sock sin img to e = \<lparr>
     cs_timestamp_ns = ktime_get_ns e, cs_pid = process_of e,
     cs_family = bytes_word16 (member_bytes sock [''__sk_common'', ''skc_family''] img),
     cs_sport = bytes_word16 (member_bytes sock [''__sk_common'', ''skc_num''] img),
     cs_dport = net16 (member_bytes sin [''sin_port''] to), cs_pad = 0,
     cs_saddr_v4 = bytes_word32 (member_bytes sock [''__sk_common'', ''skc_rcv_saddr''] img),
     cs_daddr_v4 = bytes_word32 (member_bytes sin [''sin_addr'', ''s_addr''] to),
     cs_comm = current_comm e\<rparr>"

definition connect_event :: "connect_start \<Rightarrow> kenv \<Rightarrow> u32 \<Rightarrow> tcp_event" where
  "connect_event start e rc = \<lparr>
     te_timestamp_ns = ktime_get_ns e, te_pid = cs_pid start, te_type = 2, te_family = cs_family start,
     te_sport = cs_sport start, te_dport = cs_dport start, te_pad = 0, te_ret = rc,
     te_saddr_v4 = cs_saddr_v4 start, te_daddr_v4 = cs_daddr_v4 start,
     te_connect_latency_ns = ktime_get_ns e - cs_timestamp_ns start, te_comm = cs_comm start\<rparr>"

definition map_has_room :: "u64 \<Rightarrow> telemetry \<Rightarrow> bool" where
  "map_has_room k T \<longleftrightarrow> t_pending T k \<noteq> None \<or> card (dom (t_pending T)) < 16384"

inductive telemetry_step :: "ctype \<Rightarrow> ctype \<Rightarrow> probe_run \<Rightarrow> telemetry \<Rightarrow> telemetry \<Rightarrow> bool" for sock sin where
  retransmit_ignored:
    "sk = 0 \<Longrightarrow> telemetry_step sock sin (Retransmit e sk) T T"
| retransmit_dropped:
    "sk \<noteq> 0 \<Longrightarrow> \<not> ringbuf_reserve e 64 \<Longrightarrow> telemetry_step sock sin (Retransmit e sk) T T"
| retransmit_reported:
    "sk \<noteq> 0 \<Longrightarrow> ringbuf_reserve e 64 \<Longrightarrow> holds_members e sk sock img \<Longrightarrow>
     telemetry_step sock sin (Retransmit e sk) T (T\<lparr>t_events := t_events T @ [observed_retransmission sock img e]\<rparr>)"
| connect_ignored:
    "sk = 0 \<or> addr = 0 \<Longrightarrow> telemetry_step sock sin (Connect e sk addr) T T"
| connect_started:
    "sk \<noteq> 0 \<Longrightarrow> addr \<noteq> 0 \<Longrightarrow> map_has_room (current_pid_tgid e) T \<Longrightarrow>
     holds_members e sk sock img \<Longrightarrow> holds_members e addr sin to \<Longrightarrow>
     telemetry_step sock sin (Connect e sk addr) T
       (T\<lparr>t_pending := (t_pending T)(current_pid_tgid e \<mapsto> observed_attempt sock sin img to e)\<rparr>)"
| connect_untracked:
    "sk \<noteq> 0 \<Longrightarrow> addr \<noteq> 0 \<Longrightarrow> \<not> map_has_room (current_pid_tgid e) T \<Longrightarrow> telemetry_step sock sin (Connect e sk addr) T T"
| ret_unmatched:
    "t_pending T (current_pid_tgid e) = None \<Longrightarrow> telemetry_step sock sin (ConnectRet e rc) T T"
| ret_dropped:
    "t_pending T (current_pid_tgid e) = Some start \<Longrightarrow> \<not> ringbuf_reserve e 64 \<Longrightarrow>
     telemetry_step sock sin (ConnectRet e rc) T
       (T\<lparr>t_pending := (t_pending T)(current_pid_tgid e := None)\<rparr>)"
| ret_reported:
    "t_pending T (current_pid_tgid e) = Some start \<Longrightarrow> ringbuf_reserve e 64 \<Longrightarrow>
     telemetry_step sock sin (ConnectRet e rc) T
       (T\<lparr>t_events := t_events T @ [connect_event start e rc],
           t_pending := (t_pending T)(current_pid_tgid e := None)\<rparr>)"

inductive telemetry_run :: "ctype \<Rightarrow> ctype \<Rightarrow> probe_run list \<Rightarrow> telemetry \<Rightarrow> telemetry \<Rightarrow> bool" for sock sin where
  run_Nil: "telemetry_run sock sin [] T T"
| run_snoc: "telemetry_run sock sin ps T T' \<Longrightarrow> telemetry_step sock sin p T' T'' \<Longrightarrow> telemetry_run sock sin (ps @ [p]) T T''"

text \<open>The contract leaves no choice: a run of a probe has one outcome.\<close>

inductive_cases step_retransmit: "telemetry_step sock sin (Retransmit e sk) T T'"
inductive_cases step_connect: "telemetry_step sock sin (Connect e sk addr) T T'"
inductive_cases step_ret: "telemetry_step sock sin (ConnectRet e rc) T T'"

lemma member_bytes_unique:
  "holds_members e a t img \<Longrightarrow> holds_members e a t img' \<Longrightarrow> member_bytes t p img = member_bytes t p img'"
proof (cases "resolve t p")
  case (Some x)
  obtain b t' w where "x = (b, t', w)"
    by (cases x)
  moreover assume "holds_members e a t img" "holds_members e a t img'"
  ultimately show ?thesis
    using Some unfolding holds_members_def by (cases w) (metis, simp add: member_bytes_def)
qed (simp add: member_bytes_def)

lemma observed_unique:
  assumes "holds_members e sk sock img" "holds_members e sk sock img'"
  shows "observed_retransmission sock img e = observed_retransmission sock img' e"
    "holds_members e addr sin to \<Longrightarrow> holds_members e addr sin to' \<Longrightarrow>
     observed_attempt sock sin img to e = observed_attempt sock sin img' to' e"
  unfolding observed_retransmission_def observed_attempt_def
  by (simp_all add: member_bytes_unique [OF assms] member_bytes_unique [of e addr sin to to'])

lemma telemetry_step_deterministic:
  assumes "telemetry_step sock sin p T T1" "telemetry_step sock sin p T T2"
  shows "T1 = T2"
proof (cases p)
  case (Retransmit e sk)
  show ?thesis
    using assms unfolding Retransmit by (elim step_retransmit) (simp_all, metis observed_unique(1))
next
  case (Connect e sk addr)
  show ?thesis
    using assms unfolding Connect by (elim step_connect) (simp_all, metis observed_unique(2))
next
  case (ConnectRet e rc)
  show ?thesis
    using assms unfolding ConnectRet by (elim step_ret) simp_all
qed

text \<open>The events and attempts in terms of the program's own reads.\<close>

definition retransmit_event :: "core_relocs \<Rightarrow> kenv \<Rightarrow> u64 \<Rightarrow> tcp_event" where
  "retransmit_event r e sk = \<lparr>
     te_timestamp_ns = ktime_get_ns e, te_pid = pid_of (current_pid_tgid e),
     te_type = AEGIS_EVENT_RETRANSMIT, te_family = read_family r e sk,
     te_sport = read_sport r e sk, te_dport = read_dport r e sk, te_pad = 0, te_ret = 0,
     te_saddr_v4 = read_saddr_v4 r e sk, te_daddr_v4 = read_daddr_v4 r e sk,
     te_connect_latency_ns = 0, te_comm = current_comm e\<rparr>"

definition attempt :: "core_relocs \<Rightarrow> kenv \<Rightarrow> u64 \<Rightarrow> u64 \<Rightarrow> connect_start" where
  "attempt r e sk addr = fill_start_tuple r e
     (zero_start\<lparr>cs_timestamp_ns := ktime_get_ns e, cs_pid := pid_of (current_pid_tgid e), cs_comm := current_comm e\<rparr>) sk addr"

lemma pid_of_process: "pid_of (current_pid_tgid e) = process_of e"
proof -
  have "unat (current_pid_tgid e) div 2 ^ 32 = unat (drop_bit 32 (current_pid_tgid e))"
    unfolding unat_drop_bit_eq by (rule drop_bit_eq_div [symmetric])
  then show ?thesis
    by (simp only: pid_of_def process_of_def of_nat_unat)
qed

lemma sock_reads:
  assumes "core_patched sock sin r" "kernel_types sock sin" "holds_members e sk sock img"
  shows "read_family r e sk = bytes_word16 (member_bytes sock [''__sk_common'', ''skc_family''] img)"
    "read_sport r e sk = bytes_word16 (member_bytes sock [''__sk_common'', ''skc_num''] img)"
    "read_dport r e sk = net16 (member_bytes sock [''__sk_common'', ''skc_dport''] img)"
    "read_saddr_v4 r e sk = bytes_word32 (member_bytes sock [''__sk_common'', ''skc_rcv_saddr''] img)"
    "read_daddr_v4 r e sk = bytes_word32 (member_bytes sock [''__sk_common'', ''skc_daddr''] img)"
proof -
  note m = sock_member [OF assms]
  have "length (member_bytes sock [''__sk_common'', ''skc_dport''] img) = 2"
    using assms(2, 3) by (intro member_bytes_length) (simp_all add: kernel_types_def holds_members_def sock_members_def)
  then show "read_dport r e sk = net16 (member_bytes sock [''__sk_common'', ''skc_dport''] img)"
    using m [of "[''__sk_common'', ''skc_dport'']" 2]
    by (simp add: read_dport_def read16_def sock_members_def bpf_ntohs_net16)
qed (use sock_member [OF assms] in \<open>simp_all add: read_family_def read_sport_def read_saddr_v4_def
    read_daddr_v4_def read16_def read32_def sock_members_def\<close>)

lemma sin_reads:
  assumes "core_patched sock sin r" "kernel_types sock sin" "holds_members e addr sin to"
  shows "cs_dport (fill_start_tuple r e start sk addr) = net16 (member_bytes sin [''sin_port''] to)"
    "cs_daddr_v4 (fill_start_tuple r e start sk addr) = bytes_word32 (member_bytes sin [''sin_addr'', ''s_addr''] to)"
proof -
  note m = sin_member [OF assms]
  have "length (member_bytes sin [''sin_port''] to) = 2"
    using assms(2, 3) by (intro member_bytes_length) (simp_all add: kernel_types_def holds_members_def sin_members_def)
  then show "cs_dport (fill_start_tuple r e start sk addr) = net16 (member_bytes sin [''sin_port''] to)"
    using m [of "[''sin_port'']" 2] by (simp add: fill_start_tuple_def read16_def sin_members_def bpf_ntohs_net16)
  show "cs_daddr_v4 (fill_start_tuple r e start sk addr) = bytes_word32 (member_bytes sin [''sin_addr'', ''s_addr''] to)"
    using m [of "[''sin_addr'', ''s_addr'']" 4] by (simp add: fill_start_tuple_def read32_def sin_members_def)
qed

lemma retransmit_event_observed:
  assumes "core_patched sock sin r" "kernel_types sock sin" "holds_members e sk sock img"
  shows "retransmit_event r e sk = observed_retransmission sock img e"
  by (simp add: retransmit_event_def observed_retransmission_def sock_reads [OF assms] pid_of_process AEGIS_EVENT_RETRANSMIT_def)

lemma attempt_observed:
  assumes "core_patched sock sin r" "kernel_types sock sin" "holds_members e sk sock img" "holds_members e addr sin to"
  shows "attempt r e sk addr = observed_attempt sock sin img to e"
proof (rule connect_start.equality)
  show "cs_dport (attempt r e sk addr) = cs_dport (observed_attempt sock sin img to e)"
    "cs_daddr_v4 (attempt r e sk addr) = cs_daddr_v4 (observed_attempt sock sin img to e)"
    by (simp_all add: attempt_def observed_attempt_def sin_reads [OF assms(1, 2, 4)])
qed (simp_all add: attempt_def observed_attempt_def fill_start_tuple_def zero_start_def sock_reads [OF assms(1-3)] pid_of_process)

definition telemetry_of :: "'m hash_ops \<Rightarrow> 'm bpf_state \<Rightarrow> telemetry" where
  "telemetry_of h s = \<lparr>t_events = map event_of_bytes (ring s), t_pending = h_lookup h (starts s)\<rparr>"

text \<open>\<open>bpf_get_current_comm\<close> fills the 16 bytes of the buffer; so do the stored attempts.\<close>

definition comm_ok :: "kenv \<Rightarrow> bool" where
  "comm_ok e \<longleftrightarrow> length (current_comm e) = 16"

definition starts_ok :: "'m hash_ops \<Rightarrow> 'm bpf_state \<Rightarrow> bool" where
  "starts_ok h s \<longleftrightarrow> (\<forall>k start. h_lookup h (starts s) k = Some start \<longrightarrow> length (cs_comm start) = 16)"

text \<open>The probes in terms of the events and attempts they produce.\<close>

lemma retransmit_eq:
  "aegis_tcp_retransmit r e sk s =
     (if sk = 0 \<or> \<not> ringbuf_reserve e 64 then s
      else s\<lparr>ring := ring s @ [event_bytes (retransmit_event r e sk)]\<rparr>)"
  by (simp add: aegis_tcp_retransmit_def ringbuf_submit_def retransmit_event_def fill_tuple_def
      zero_event_def Let_def ksize)

lemma connect_eq:
  "aegis_tcp_v4_connect h r e sk addr s =
     (if sk = 0 \<or> addr = 0 then s
      else s\<lparr>starts := h_update h (starts s) (current_pid_tgid e) (attempt r e sk addr)\<rparr>)"
  by (simp add: aegis_tcp_v4_connect_def attempt_def fill_start_tuple_def zero_start_def Let_def)

lemma connect_ret_eq:
  "aegis_tcp_v4_connect_ret h e rc s =
     (case h_lookup h (starts s) (current_pid_tgid e) of
        None \<Rightarrow> s
      | Some start \<Rightarrow>
          s\<lparr>ring := ring s @ (if ringbuf_reserve e 64 then [event_bytes (connect_event start e rc)] else []),
            starts := h_delete h (starts s) (current_pid_tgid e)\<rparr>)"
  by (simp add: aegis_tcp_v4_connect_ret_def ringbuf_submit_def connect_event_def zero_event_def
      AEGIS_EVENT_CONNECT_def Let_def ksize split: option.split)

lemma event_comm [simp]:
  "te_comm (retransmit_event r e sk) = current_comm e"
  "te_comm (connect_event start e rc) = cs_comm start"
  "cs_comm (attempt r e sk addr) = current_comm e"
  by (simp_all add: retransmit_event_def connect_event_def attempt_def fill_start_tuple_def)

context bpf_hash
begin

lemma starts_ok_run_probe:
  assumes "starts_ok h s" "comm_ok (run_env p)"
  shows "starts_ok h (run_probe h r p s)"
proof (cases p)
  case (Connect e sk addr)
  show ?thesis
    unfolding starts_ok_def
  proof (intro allI impI)
    fix k start
    assume l: "h_lookup h (starts (run_probe h r p s)) k = Some start"
    show "length (cs_comm start) = 16"
    proof (cases "k = current_pid_tgid e")
      case True
      then show ?thesis
        using l assms Connect lookup_update_same [of "starts s" k "attempt r e sk addr"]
        by (auto simp: connect_eq starts_ok_def comm_ok_def split: if_splits)
    next
      case False
      then show ?thesis
        using l assms Connect by (auto simp: connect_other_key starts_ok_def)
    qed
  qed
next
  case (ConnectRet e rc)
  with assms show ?thesis
    by (auto simp: starts_ok_def connect_ret_lookup split: if_splits)
qed (use assms in \<open>simp add: starts_ok_def\<close>)

lemma starts_ok_run_probes:
  "starts_ok h s \<Longrightarrow> \<forall>p\<in>set ps. comm_ok (run_env p) \<Longrightarrow> starts_ok h (run_probes h r ps s)"
  unfolding run_probes_def
  by (induction ps arbitrary: s) (auto simp: starts_ok_run_probe)

end

text \<open>What a run needs of the kernel's memory: the objects that the probe is given are there.\<close>

fun run_memory :: "ctype \<Rightarrow> ctype \<Rightarrow> probe_run \<Rightarrow> bool" where
  "run_memory sock sin (Retransmit e sk) \<longleftrightarrow> (sk \<noteq> 0 \<longrightarrow> (\<exists>img. holds_members e sk sock img))"
| "run_memory sock sin (Connect e sk addr) \<longleftrightarrow>
     (sk \<noteq> 0 \<and> addr \<noteq> 0 \<longrightarrow> (\<exists>img to. holds_members e sk sock img \<and> holds_members e addr sin to))"
| "run_memory sock sin (ConnectRet e rc) \<longleftrightarrow> True"

lemma retransmit_refines:
  assumes "core_patched sock sin r" "kernel_types sock sin" "comm_ok e" "sk \<noteq> 0 \<longrightarrow> (\<exists>img. holds_members e sk sock img)"
  shows "telemetry_step sock sin (Retransmit e sk) (telemetry_of h s) (telemetry_of h (aegis_tcp_retransmit r e sk s))"
proof (cases "sk \<noteq> 0 \<and> ringbuf_reserve e 64")
  case True
  then obtain img where img: "holds_members e sk sock img"
    using assms(4) by blast
  note ev = retransmit_event_observed [OF assms(1, 2) img]
  have "telemetry_of h (aegis_tcp_retransmit r e sk s) =
      (telemetry_of h s)\<lparr>t_events := t_events (telemetry_of h s) @ [observed_retransmission sock img e]\<rparr>"
    using True assms(3) by (simp add: retransmit_eq telemetry_of_def comm_ok_def flip: ev)
  then show ?thesis
    using True img telemetry_step.retransmit_reported by metis
next
  case False
  then show ?thesis
    by (cases "sk = 0") (auto simp: retransmit_eq intro: telemetry_step.retransmit_ignored telemetry_step.retransmit_dropped)
qed

context bounded_bpf_hash
begin

lemma connect_refines:
  assumes "core_patched sock sin r" "kernel_types sock sin"
    and "sk \<noteq> 0 \<and> addr \<noteq> 0 \<longrightarrow> (\<exists>img to. holds_members e sk sock img \<and> holds_members e addr sin to)"
  shows "telemetry_step sock sin (Connect e sk addr) (telemetry_of h s) (telemetry_of h (aegis_tcp_v4_connect h r e sk addr s))"
proof (cases "sk \<noteq> 0 \<and> addr \<noteq> 0")
  case args: True
  then obtain img to where mem: "holds_members e sk sock img" "holds_members e addr sin to"
    using assms(3) by blast
  note att = attempt_observed [OF assms(1, 2) mem]
  show ?thesis
  proof (cases "map_has_room (current_pid_tgid e) (telemetry_of h s)")
    case True
    then have "telemetry_of h (aegis_tcp_v4_connect h r e sk addr s) = (telemetry_of h s)\<lparr>t_pending :=
        (t_pending (telemetry_of h s))(current_pid_tgid e \<mapsto> observed_attempt sock sin img to e)\<rparr>"
      using args by (simp add: connect_eq telemetry_of_def map_has_room_def lookup_update_bounded att)
    then show ?thesis
      using args True mem telemetry_step.connect_started by metis
  next
    case False
    then have "telemetry_of h (aegis_tcp_v4_connect h r e sk addr s) = telemetry_of h s"
      using args by (auto simp: connect_eq telemetry_of_def map_has_room_def lookup_update_bounded)
    then show ?thesis
      using args False telemetry_step.connect_untracked by metis
  qed
next
  case False
  then show ?thesis
    by (auto simp: connect_eq intro: telemetry_step.connect_ignored)
qed

lemma ret_refines:
  assumes "starts_ok h s"
  shows "telemetry_step sock sin (ConnectRet e rc) (telemetry_of h s) (telemetry_of h (aegis_tcp_v4_connect_ret h e rc s))"
proof -
  define k where "k = current_pid_tgid e"
  have del: "h_lookup h (h_delete h (starts s) k) = (h_lookup h (starts s))(k := None)"
    by (auto simp: fun_eq_iff lookup_delete)
  show ?thesis
  proof (cases "h_lookup h (starts s) k")
    case None
    then show ?thesis
      using telemetry_step.ret_unmatched [of "telemetry_of h s" e sock sin rc]
      by (auto simp: connect_ret_eq telemetry_of_def k_def)
  next
    case (Some start)
    then have "length (cs_comm start) = 16"
      using assms by (simp add: starts_ok_def)
    with Some del show ?thesis
      using telemetry_step.ret_dropped [of "telemetry_of h s" e start sock sin rc]
        telemetry_step.ret_reported [of "telemetry_of h s" e start sock sin rc]
      by (auto simp: connect_ret_eq telemetry_of_def k_def)
  qed
qed

lemma run_probe_refines:
  assumes "core_patched sock sin r" "kernel_types sock sin" "starts_ok h s" "comm_ok (run_env p)" "run_memory sock sin p"
  shows "telemetry_step sock sin p (telemetry_of h s) (telemetry_of h (run_probe h r p s))"
  using retransmit_refines [OF assms(1, 2)] connect_refines [OF assms(1, 2)] ret_refines [OF assms(3)] assms(4, 5)
  by (cases p) simp_all

lemma run_probes_refine:
  assumes "core_patched sock sin r" "kernel_types sock sin" "starts_ok h s"
    and "\<forall>p\<in>set ps. comm_ok (run_env p) \<and> run_memory sock sin p"
  shows "telemetry_run sock sin ps (telemetry_of h s) (telemetry_of h (run_probes h r ps s))"
  using assms(4)
proof (induction ps rule: rev_induct)
  case Nil
  then show ?case
    by (simp add: run_probes_def telemetry_run.run_Nil)
next
  case (snoc p ps)
  have "starts_ok h (run_probes h r ps s)"
    using starts_ok_run_probes [OF assms(3)] snoc.prems by simp
  from run_probe_refines [OF assms(1, 2) this, of p] show ?case
    using snoc telemetry_run.run_snoc [of sock sin ps _ _ p] by (simp add: run_probes_def)
qed

end


section \<open>Properties of the probes\<close>

text \<open>
  C1: the program keeps its contract. From empty maps, for every sequence of probe runs, on any kernel
  whose types have the members that the program reads, with the objects of the probed calls in memory:
  the samples in the ring buffer and the pending attempts are those of the contract. Every
  retransmission is reported with the tuple that its socket has in memory, ports in host byte order; every
  connect is recorded unless the map holds 16384 other threads, and its return reports it and forgets it;
  an event is lost only when the ring buffer refuses it.
\<close>

theorem probe_refines_contract:
  assumes "bounded_bpf_hash h" "core_patched sock sin r" "kernel_types sock sin"
    and "ring s = []" "h_lookup h (starts s) = Map.empty"
    and "\<forall>p\<in>set ps. comm_ok (run_env p) \<and> run_memory sock sin p"
  shows "telemetry_run sock sin ps \<lparr>t_events = [], t_pending = Map.empty\<rparr> (telemetry_of h (run_probes h r ps s))"
proof -
  have "telemetry_of h s = \<lparr>t_events = [], t_pending = Map.empty\<rparr>" "starts_ok h s"
    using assms(4, 5) by (simp_all add: telemetry_of_def starts_ok_def)
  then show ?thesis
    using bounded_bpf_hash.run_probes_refine [OF assms(1-3) _ assms(6), of s] by simp
qed

text \<open>
  C3: a connect attempt that finds room in the map is reported by the return probe of the same thread,
  whatever other probes and threads ran in between, unless the ring buffer is full at the return, when
  the event is dropped: one sample with the tuple that the socket and the address had in memory at entry,
  the return code, and as latency the difference of the two clock readings. In both cases no entry of the
  thread is left.
\<close>

theorem connect_reported:
  assumes h: "bounded_bpf_hash h" and kernel: "core_patched sock sin r" "kernel_types sock sin"
    and args: "sk \<noteq> 0" "addr \<noteq> 0" "holds_members e1 sk sock img" "holds_members e1 addr sin to"
    and thread: "current_pid_tgid e1 = k" "current_pid_tgid e2 = k"
    and room: "map_has_room k (telemetry_of h s)"
    and others: "\<forall>p\<in>set ps. run_key p \<noteq> Some k"
    and s': "s' = run_probes h r (Connect e1 sk addr # ps) s"
    and event: "event = connect_event (observed_attempt sock sin img to e1) e2 rc"
  shows "ring (run_probe h r (ConnectRet e2 rc) s') = ring s' @ (if ringbuf_reserve e2 64 then [event_bytes event] else []) \<and>
         h_lookup h (starts (run_probe h r (ConnectRet e2 rc) s')) k = None \<and>
         te_connect_latency_ns event = ktime_get_ns e2 - ktime_get_ns e1"
proof (intro conjI)
  have hash: "bpf_hash h"
    using h by (rule bounded_bpf_hash.axioms)
  have "h_lookup h (starts s') k = h_lookup h (starts (run_probe h r (Connect e1 sk addr) s)) k"
    using bpf_hash.run_probes_other_key [OF hash others] by (simp add: s' run_probes_def)
  also have "\<dots> = Some (observed_attempt sock sin img to e1)"
    using args(1, 2) thread(1) room
    by (auto simp: connect_eq bounded_bpf_hash.lookup_update_bounded [OF h] map_has_room_def telemetry_of_def
        attempt_observed [OF kernel args(3, 4)])
  finally show "ring (run_probe h r (ConnectRet e2 rc) s') = ring s' @ (if ringbuf_reserve e2 64 then [event_bytes event] else [])"
    by (simp add: connect_ret_eq thread(2) event)
  show "h_lookup h (starts (run_probe h r (ConnectRet e2 rc) s')) k = None"
    using bpf_hash.connect_ret_lookup [OF hash] thread by simp
  show "te_connect_latency_ns event = ktime_get_ns e2 - ktime_get_ns e1"
    by (simp add: event connect_event_def observed_attempt_def)
qed

text \<open>
  C33: the program reads the members it means to, and nothing else, on every kernel. Whatever layout a
  kernel gives to \<open>struct sock\<close> and \<open>struct sockaddr_in\<close>, if the loader patches in the offsets of its
  types and the members have the widths that the program declares, then each of the seven reads returns
  the bytes of its member, all of them inside the object: a read of another width, at another offset or of
  another member would not. Both remote ports are converted to host byte order.
\<close>

theorem core_reads_members:
  assumes "core_patched sock sin r" "kernel_types sock sin" "holds_members e sk sock img" "holds_members e addr sin to"
  shows "read_family r e sk = bytes_word16 (member_bytes sock [''__sk_common'', ''skc_family''] img) \<and>
    read_sport r e sk = bytes_word16 (member_bytes sock [''__sk_common'', ''skc_num''] img) \<and>
    read_dport r e sk = net16 (member_bytes sock [''__sk_common'', ''skc_dport''] img) \<and>
    read_saddr_v4 r e sk = bytes_word32 (member_bytes sock [''__sk_common'', ''skc_rcv_saddr''] img) \<and>
    read_daddr_v4 r e sk = bytes_word32 (member_bytes sock [''__sk_common'', ''skc_daddr''] img) \<and>
    cs_dport (fill_start_tuple r e start sk addr) = net16 (member_bytes sin [''sin_port''] to) \<and>
    cs_daddr_v4 (fill_start_tuple r e start sk addr) = bytes_word32 (member_bytes sin [''sin_addr'', ''s_addr''] to) \<and>
    list_all (\<lambda>(p, w). length (member_bytes sock p img) = w) sock_members \<and>
    list_all (\<lambda>(p, w). length (member_bytes sin p to) = w) sin_members"
proof -
  have "list_all (\<lambda>(p, w). length (member_bytes sock p img) = w) sock_members"
    "list_all (\<lambda>(p, w). length (member_bytes sin p to) = w) sin_members"
    using assms(2-4) by (auto simp: kernel_types_def list_all_iff holds_members_def intro!: member_bytes_length)
  then show ?thesis
    using sock_reads [OF assms(1-3)] sin_reads [OF assms(1, 2, 4)] by simp
qed


section \<open>The kernel of the header\<close>

lemma patched_offsets:
  assumes "core_patched struct_sock struct_sockaddr_in r"
  shows "sock_off r [''__sk_common'', ''skc_family''] = 16" "sock_off r [''__sk_common'', ''skc_num''] = 14"
    "sock_off r [''__sk_common'', ''skc_dport''] = 12" "sock_off r [''__sk_common'', ''skc_rcv_saddr''] = 4"
    "sock_off r [''__sk_common'', ''skc_daddr''] = 0" "sin_off r [''sin_port''] = 2" "sin_off r [''sin_addr'', ''s_addr''] = 4"
  using assms sock_offsets by (simp_all add: core_patched_def)

lemma kernel_types_vmlinux: "kernel_types struct_sock struct_sockaddr_in"
  by (simp add: kernel_types_def sock_members_def sin_members_def member_size_def struct_sock_def struct_sock_common_def
      struct_sockaddr_in_def struct_in_addr_def lookup_eval ksize)

text \<open>
  Memory that holds a whole object: every read inside it returns the bytes of its image.
\<close>

definition holds_object :: "kenv \<Rightarrow> u64 \<Rightarrow> byte list \<Rightarrow> bool" where
  "holds_object e p img \<longleftrightarrow>
     (\<forall>i n. i + n \<le> length img \<longrightarrow> probe_read e (p + of_nat i) n = take n (drop i img))"

lemma holds_object_members:
  assumes "holds_object e a img" "length img = sizeof t" "wf_ctype t"
  shows "holds_members e a t img"
proof -
  have "probe_read e (a + of_nat (b div 8)) (sizeof t') = member_bytes t p img" if "resolve t p = Some (b, t', None)" for p b t'
    using assms(1, 2) member_in_bounds(2) [OF that assms(3)] that by (simp add: holds_object_def member_bytes_def)
  then show ?thesis
    using assms(2) by (simp add: holds_members_def)
qed

lemma read16_object: "holds_object e p img \<Longrightarrow> i + 2 \<le> length img \<Longrightarrow>
    read16 e p i = bytes_word16 (drop i img)"
  by (simp add: holds_object_def read16_def bytes_word16_def)

lemma read32_object: "holds_object e p img \<Longrightarrow> i + 4 \<le> length img \<Longrightarrow>
    read32 e p i = bytes_word32 (drop i img)"
  by (simp add: holds_object_def read32_def bytes_word32_def)

lemma bpf_ntohs_bytes: "bpf_ntohs (bytes_word16 (a # b # bs)) = of_nat (256 * unat a + unat b)"
proof -
  have "unat (bytes_word16 (a # b # bs)) = unat a + 256 * unat b"
    by (simp add: unat_bytes_word)
  then show ?thesis
    by (simp add: bpf_ntohs_def)
qed

lemma retransmit_event_object:
  assumes r: "core_patched struct_sock struct_sockaddr_in r"
    and obj: "holds_object e sk img" "length img = sizeof struct_sock"
  shows "retransmit_event r e sk = \<lparr>
       te_timestamp_ns = ktime_get_ns e, te_pid = pid_of (current_pid_tgid e),
       te_type = AEGIS_EVENT_RETRANSMIT, te_family = bytes_word16 (drop 16 img),
       te_sport = bytes_word16 (drop 14 img),
       te_dport = of_nat (256 * unat (img ! 12) + unat (img ! 13)), te_pad = 0, te_ret = 0,
       te_saddr_v4 = bytes_word32 (drop 4 img), te_daddr_v4 = bytes_word32 img,
       te_connect_latency_ns = 0, te_comm = current_comm e\<rparr>"
proof -
  have len: "length img = 760"
    using obj by (simp add: ksize)
  have "drop 12 img = img ! 12 # img ! 13 # drop 14 img"
    using len by (simp add: Cons_nth_drop_Suc numeral_eq_Suc)
  then show ?thesis
    using len obj(1)
    by (simp add: retransmit_event_def read_family_def read_sport_def read_dport_def
        read_saddr_v4_def read_daddr_v4_def patched_offsets [OF r] read16_object read32_object
        bpf_ntohs_bytes)
qed


section \<open>A concrete kernel\<close>

text \<open>
  Memory with one object in it, a socket image at an address: 127.0.0.1:8080 reached from 10.0.0.5:12345,
  and room in the ring buffer.
\<close>

definition demo_relocs :: core_relocs where
  "demo_relocs = \<lparr>sock_off = (\<lambda>p. case byte_offset struct_sock p of Some off \<Rightarrow> off | None \<Rightarrow> 0),
     sin_off = (\<lambda>p. case byte_offset struct_sockaddr_in p of Some off \<Rightarrow> off | None \<Rightarrow> 0)\<rparr>"

lemma demo_relocs_patched: "core_patched struct_sock struct_sockaddr_in demo_relocs"
  by (simp add: core_patched_def demo_relocs_def)

definition demo_sock :: "byte list" where
  "demo_sock = [127, 0, 0, 1, 10, 0, 0, 5, 0, 0, 0, 0, 31, 144, 57, 48, 2, 0] @ replicate 742 0"

definition demo_sin :: "byte list" where
  "demo_sin = [2, 0, 31, 144, 127, 0, 0, 1] @ replicate 8 0"

text \<open>The socket is at 4096 and the address at 8192.\<close>

definition demo_env :: "u64 \<Rightarrow> u64 \<Rightarrow> kenv" where
  "demo_env now thread = \<lparr>
     probe_read = (\<lambda>p n. if p < 8192 then take n (drop (unat (p - 4096)) demo_sock) else take n (drop (unat (p - 8192)) demo_sin)),
     ktime_get_ns = now, current_pid_tgid = thread, current_comm = replicate 16 97, ringbuf_reserve = (\<lambda>n. True)\<rparr>"

abbreviation demo_sock_env :: kenv where
  "demo_sock_env \<equiv> demo_env 5 7"

definition demo_state :: "(u64 \<times> connect_start) list bpf_state" where
  "demo_state = \<lparr>ring = [], starts = []\<rparr>"

lemma demo_sock_holds: "holds_object (demo_env now thread) 4096 demo_sock"
  unfolding holds_object_def
proof (intro allI impI)
  fix i n :: nat
  assume "i + n \<le> length demo_sock"
  then have i: "i \<le> 760"
    by (simp add: demo_sock_def)
  then have u: "unat (of_nat i :: u64) = i"
    by (simp add: unat_of_nat)
  then have "unat (4096 + of_nat i :: u64) = 4096 + i"
    using i by (simp add: unat_word_ariths)
  then have "4096 + of_nat i < (8192 :: u64)"
    using i by (simp add: word_less_nat_alt)
  then show "probe_read (demo_env now thread) (4096 + of_nat i) n = take n (drop i demo_sock)"
    using u by (simp add: demo_env_def)
qed

lemma demo_sin_holds: "holds_object (demo_env now thread) 8192 demo_sin"
  unfolding holds_object_def
proof (intro allI impI)
  fix i n :: nat
  assume "i + n \<le> length demo_sin"
  then have i: "i \<le> 16"
    by (simp add: demo_sin_def)
  then have u: "unat (of_nat i :: u64) = i"
    by (simp add: unat_of_nat)
  then have "unat (8192 + of_nat i :: u64) = 8192 + i"
    using i by (simp add: unat_word_ariths)
  then have "\<not> 8192 + of_nat i < (8192 :: u64)"
    by (simp add: word_less_nat_alt)
  then show "probe_read (demo_env now thread) (8192 + of_nat i) n = take n (drop i demo_sin)"
    using u by (simp add: demo_env_def)
qed

lemma demo_memory:
  "holds_members (demo_env now thread) 4096 struct_sock demo_sock"
  "holds_members (demo_env now thread) 8192 struct_sockaddr_in demo_sin"
  using holds_object_members [OF demo_sock_holds, of struct_sock] holds_object_members [OF demo_sin_holds, of struct_sockaddr_in]
  by (simp_all add: demo_sock_def demo_sin_def ksize)

lemma demo_run_ok:
  "comm_ok (demo_env now thread)" "run_memory struct_sock struct_sockaddr_in (Connect (demo_env now thread) 4096 8192)"
  "run_memory struct_sock struct_sockaddr_in (Retransmit (demo_env now thread) 4096)"
  by (simp add: comm_ok_def demo_env_def) (use demo_memory in \<open>simp, blast\<close>)+

lemma demo_members:
  "member_bytes struct_sock [''__sk_common'', ''skc_family''] demo_sock = [2, 0]"
  "member_bytes struct_sock [''__sk_common'', ''skc_num''] demo_sock = [57, 48]"
  "member_bytes struct_sock [''__sk_common'', ''skc_dport''] demo_sock = [31, 144]"
  "member_bytes struct_sock [''__sk_common'', ''skc_rcv_saddr''] demo_sock = [10, 0, 0, 5]"
  "member_bytes struct_sock [''__sk_common'', ''skc_daddr''] demo_sock = [127, 0, 0, 1]"
  "member_bytes struct_sockaddr_in [''sin_port''] demo_sin = [31, 144]"
  "member_bytes struct_sockaddr_in [''sin_addr'', ''s_addr''] demo_sin = [127, 0, 0, 1]"
  by (simp_all add: member_bytes_def demo_sock_def demo_sin_def struct_sock_def struct_sock_common_def
      struct_sockaddr_in_def struct_in_addr_def lookup_eval ksize)

theorem probe_refines_contract_witness:
  "telemetry_run struct_sock struct_sockaddr_in
     [Connect (demo_env 100 7) 4096 8192, Retransmit (demo_env 120 8) 4096, ConnectRet (demo_env 250 7) 0]
     \<lparr>t_events = [], t_pending = Map.empty\<rparr>
     (telemetry_of (bounded_hash 16384) (run_probes (bounded_hash 16384) demo_relocs
        [Connect (demo_env 100 7) 4096 8192, Retransmit (demo_env 120 8) 4096, ConnectRet (demo_env 250 7) 0] demo_state))"
proof (rule probe_refines_contract [OF connect_table_hash demo_relocs_patched kernel_types_vmlinux])
  show "\<forall>p\<in>set [Connect (demo_env 100 7) 4096 8192, Retransmit (demo_env 120 8) 4096, ConnectRet (demo_env 250 7) 0].
      comm_ok (run_env p) \<and> run_memory struct_sock struct_sockaddr_in p"
    by (simp add: demo_run_ok del: run_memory.simps) simp
qed (simp_all add: demo_state_def bounded_hash_def)

theorem connect_reported_witness:
  "\<exists>start. let h = bounded_hash 16384;
       s' = run_probes h demo_relocs [Connect (demo_env 100 7) 4096 8192, Connect (demo_env 120 8) 4096 8192] demo_state
   in ring (run_probe h demo_relocs (ConnectRet (demo_env 250 7) 0) s') = ring s' @ [event_bytes (connect_event start (demo_env 250 7) 0)] \<and>
      cs_dport start = 8080 \<and> cs_daddr_v4 start = 0x0100007F \<and> te_connect_latency_ns (connect_event start (demo_env 250 7) 0) = 150"
proof -
  let ?start = "observed_attempt struct_sock struct_sockaddr_in demo_sock demo_sin (demo_env 100 7)"
  have "map_has_room 7 (telemetry_of (bounded_hash 16384) demo_state)"
    by (simp add: map_has_room_def telemetry_of_def bounded_hash_def demo_state_def)
  from connect_reported [OF connect_table_hash demo_relocs_patched kernel_types_vmlinux _ _ demo_memory _ _ this _ refl refl,
      of 100 7 "demo_env 250 7" "[Connect (demo_env 120 8) 4096 8192]" 0]
  show ?thesis
    by (intro exI [of _ ?start]) (simp add: Let_def demo_env_def observed_attempt_def demo_members net16_def bytes_word32_def)
qed

theorem core_reads_members_witness:
  "read_dport demo_relocs demo_sock_env 4096 = 8080 \<and> read_sport demo_relocs demo_sock_env 4096 = 12345 \<and>
   read_daddr_v4 demo_relocs demo_sock_env 4096 = 0x0100007F"
  using core_reads_members [OF demo_relocs_patched kernel_types_vmlinux demo_memory, of 5 7]
  by (simp add: demo_members net16_def bytes_word16_def bytes_word32_def)

end
