(* ===== verification/Endpoint_Key.thy ===== *)
theory Endpoint_Key
  imports Prelude
begin

text \<open>
  \<open>src/agent/ebpf/endpoint.go\<close>: endpoints of TCP connections packed into a \<open>uint64\<close>, and their text
  form \<open>a.b.c.d:port\<close>. The functions of Go's standard library that the file calls
  (\<open>strconv.Itoa\<close>, \<open>strconv.Atoi\<close>, \<open>net.SplitHostPort\<close>, \<open>net.JoinHostPort\<close>,
  \<open>net.ParseIP\<close>, \<open>IP.To4\<close>, \<open>IP.String\<close>) are modelled on strings of bytes; the parser of IPv6
  literals inside \<open>net.ParseIP\<close> is a parameter.
\<close>

unbundle bit_operations_syntax

type_synonym EndpointKey = u64

datatype endpoint_error =
    ErrSplit | ErrPortSyntax | ErrPortRange | ErrInvalidIP | ErrNotIPv4


section \<open>Numbers and strings\<close>

definition digit_char :: "nat \<Rightarrow> char" where
  "digit_char d = char_of (48 + d)"

definition digit_val :: "char \<Rightarrow> nat option" where
  "digit_val c = (let v = of_char c :: nat in if 48 \<le> v \<and> v \<le> 57 then Some (v - 48) else None)"

fun Itoa :: "nat \<Rightarrow> string" where
  "Itoa n = (if n < 10 then [digit_char n] else Itoa (n div 10) @ [digit_char (n mod 10)])"

declare Itoa.simps [simp del]

fun parse_digits :: "string \<Rightarrow> nat \<Rightarrow> nat option" where
  "parse_digits [] acc = Some acc"
| "parse_digits (c # cs) acc =
     (case digit_val c of None \<Rightarrow> None | Some d \<Rightarrow> parse_digits cs (10 * acc + d))"

definition Atoi :: "string \<Rightarrow> int option" where
  "Atoi s =
     (let neg = (s \<noteq> [] \<and> hd s = CHR ''-'');
          body = (if s \<noteq> [] \<and> (hd s = CHR ''-'' \<or> hd s = CHR ''+'') then tl s else s)
      in if body = [] then None
         else case parse_digits body 0 of
                None \<Rightarrow> None
              | Some n \<Rightarrow>
                  (let v = (if neg then - int n else int n)
                   in if min_int64 \<le> v \<and> v \<le> max_int64 then Some v else None))"

fun index_byte :: "char \<Rightarrow> string \<Rightarrow> nat option" where
  "index_byte c [] = None"
| "index_byte c (x # xs) = (if x = c then Some 0 else map_option Suc (index_byte c xs))"

definition last_index_byte :: "char \<Rightarrow> string \<Rightarrow> nat option" where
  "last_index_byte c s = map_option (\<lambda>i. length s - 1 - i) (index_byte c (rev s))"


section \<open>Go's package net\<close>

definition JoinHostPort :: "string \<Rightarrow> string \<Rightarrow> string" where
  "JoinHostPort host port =
     (if index_byte CHR '':'' host \<noteq> None then ''['' @ host @ '']:'' @ port
      else host @ '':'' @ port)"

definition SplitHostPort :: "string \<Rightarrow> (string \<times> string) option" where
  "SplitHostPort hp =
     (case last_index_byte CHR '':'' hp of
        None \<Rightarrow> None
      | Some i \<Rightarrow>
          (if hd hp = CHR ''['' then
             (case index_byte CHR '']'' hp of
                None \<Rightarrow> None
              | Some en \<Rightarrow>
                  if en + 1 = i \<and> index_byte CHR ''['' (drop 1 hp) = None
                     \<and> index_byte CHR '']'' (drop (en + 1) hp) = None
                  then Some (take (en - 1) (drop 1 hp), drop (i + 1) hp)
                  else None)
           else if index_byte CHR '':'' (take i hp) \<noteq> None then None
           else if index_byte CHR ''['' hp \<noteq> None \<or> index_byte CHR '']'' hp \<noteq> None then None
           else Some (take i hp, drop (i + 1) hp)))"

text \<open>
  The loop of the IPv4 parser. Its arguments beside the rest of the string: whether this is the first
  byte, whether the byte before was a dot, the value and the number of digits of the current octet,
  and the octets so far.
\<close>

fun ipv4_fields :: "string \<Rightarrow> bool \<Rightarrow> bool \<Rightarrow> nat \<Rightarrow> nat \<Rightarrow> nat list \<Rightarrow> nat list option" where
  "ipv4_fields [] first dot val dig fs = (if length fs < 3 then None else Some (fs @ [val]))"
| "ipv4_fields (c # cs) first dot val dig fs =
     (case digit_val c of
        Some d \<Rightarrow>
          if dig = 1 \<and> val = 0 then None
          else if 255 < 10 * val + d then None
          else ipv4_fields cs False False (10 * val + d) (dig + 1) fs
      | None \<Rightarrow>
          if c = CHR ''.'' then
            (if first \<or> cs = [] \<or> dot then None
             else if length fs = 3 then None
             else ipv4_fields cs False True 0 0 (fs @ [val]))
          else None)"

definition parseIPv4 :: "string \<Rightarrow> byte list option" where
  "parseIPv4 s = map_option (map of_nat) (ipv4_fields s True False 0 0 [])"

fun addr_kind :: "string \<Rightarrow> char option" where
  "addr_kind [] = None"
| "addr_kind (c # cs) =
     (if c = CHR ''.'' \<or> c = CHR '':'' \<or> c = CHR ''%'' then Some c else addr_kind cs)"

definition ParseIP :: "(string \<Rightarrow> byte list option) \<Rightarrow> string \<Rightarrow> byte list option" where
  "ParseIP parse6 s =
     (case addr_kind s of
        Some c \<Rightarrow>
          if c = CHR ''.'' then map_option (\<lambda>b. replicate 10 0 @ [255, 255] @ b) (parseIPv4 s)
          else if c = CHR '':'' then parse6 s
          else None
      | None \<Rightarrow> None)"

definition To4 :: "byte list \<Rightarrow> byte list option" where
  "To4 ip =
     (if length ip = 4 then Some ip
      else if length ip = 16 \<and> take 10 ip = replicate 10 0 \<and> ip ! 10 = 255 \<and> ip ! 11 = 255
      then Some (drop 12 ip)
      else None)"

definition IPv4_String :: "byte \<Rightarrow> byte \<Rightarrow> byte \<Rightarrow> byte \<Rightarrow> string" where
  "IPv4_String a b c d =
     Itoa (unat a) @ ''.'' @ Itoa (unat b) @ ''.'' @ Itoa (unat c) @ ''.'' @ Itoa (unat d)"


section \<open>endpoint.go\<close>

definition packEndpoint :: "u32 \<Rightarrow> u16 \<Rightarrow> EndpointKey" where
  "packEndpoint ipv4 port =
     (if ipv4 = 0 \<or> port = 0 then 0 else push_bit 16 (ucast ipv4) OR ucast port)"

definition FormatEndpoint :: "EndpointKey \<Rightarrow> string" where
  "FormatEndpoint key =
     (if key = 0 then []
      else
        (let v = key;
             port = ucast v :: u16;
             ipv4 = ucast (drop_bit 16 v) :: u32;
             ip = IPv4_String (ucast ipv4) (ucast (drop_bit 8 ipv4))
                    (ucast (drop_bit 16 ipv4)) (ucast (drop_bit 24 ipv4))
         in JoinHostPort ip (Itoa (unat port))))"

definition ParseEndpointKey ::
    "(string \<Rightarrow> byte list option) \<Rightarrow> string \<Rightarrow> endpoint_error + EndpointKey" where
  "ParseEndpointKey parse6 addr =
     (if addr = [] then Inr 0
      else case SplitHostPort addr of
        None \<Rightarrow> Inl ErrSplit
      | Some (host, portStr) \<Rightarrow>
          (case Atoi portStr of
             None \<Rightarrow> Inl ErrPortSyntax
           | Some port \<Rightarrow>
               if port \<le> 0 \<or> port > 65535 then Inl ErrPortRange
               else case ParseIP parse6 host of
                 None \<Rightarrow> Inl ErrInvalidIP
               | Some ip \<Rightarrow>
                   (case To4 ip of
                      None \<Rightarrow> Inl ErrNotIPv4
                    | Some ip4 \<Rightarrow>
                        (let ipv4 = ucast (ip4 ! 0) OR push_bit 8 (ucast (ip4 ! 1)) OR
                                    push_bit 16 (ucast (ip4 ! 2)) OR push_bit 24 (ucast (ip4 ! 3))
                         in Inr (packEndpoint ipv4 (of_int port))))))"


section \<open>Decimal numbers\<close>

lemma digit_val_digit_char [simp]: "d < 10 \<Longrightarrow> digit_val (digit_char d) = Some d"
  by (simp add: digit_val_def digit_char_def Let_def)

text \<open>The separators of the text form are not digits.\<close>

lemma separators_not_digits [simp]:
  "digit_val CHR ''.'' = None" "digit_val CHR '':'' = None" "digit_val CHR ''['' = None"
  "digit_val CHR '']'' = None" "digit_val CHR ''-'' = None" "digit_val CHR ''+'' = None"
  "digit_val CHR ''%'' = None"
  by (simp_all add: digit_val_def)

lemma Itoa_digits: "c \<in> set (Itoa n) \<Longrightarrow> digit_val c \<noteq> None"
proof (induction n rule: Itoa.induct)
  case (1 n)
  then show ?case
    by (cases "n < 10") (auto simp: Itoa.simps [of n])
qed

lemma not_in_Itoa: "digit_val c = None \<Longrightarrow> c \<notin> set (Itoa n)"
  using Itoa_digits by fastforce

lemma Itoa_nonempty [simp]: "Itoa n \<noteq> []"
  by (subst Itoa.simps) simp

lemma hd_Itoa: "digit_val c = None \<Longrightarrow> hd (Itoa n) \<noteq> c"
  using not_in_Itoa [of c n] hd_in_set [OF Itoa_nonempty [of n]] by auto

lemma parse_digits_snoc:
  "parse_digits (cs @ [c]) acc =
     (case parse_digits cs acc of None \<Rightarrow> None
      | Some a \<Rightarrow> map_option (\<lambda>d. 10 * a + d) (digit_val c))"
  by (induction cs arbitrary: acc) (auto split: option.splits)

lemma parse_digits_Itoa: "parse_digits (Itoa n) 0 = Some n"
proof (induction n rule: Itoa.induct)
  case (1 n)
  then show ?case
    by (cases "n < 10") (auto simp: Itoa.simps [of n] parse_digits_snoc)
qed

lemma Atoi_Itoa: "int n \<le> max_int64 \<Longrightarrow> Atoi (Itoa n) = Some (int n)"
  by (simp add: Atoi_def Let_def hd_Itoa parse_digits_Itoa min_int64_def)


section \<open>Host and port\<close>

lemma index_byte_None [simp]: "index_byte c s = None \<longleftrightarrow> c \<notin> set s"
  by (induction s) auto

lemma index_byte_first: "c \<notin> set xs \<Longrightarrow> index_byte c (xs @ c # ys) = Some (length xs)"
  by (induction xs) auto

lemma last_index_byte_last:
  "c \<notin> set ys \<Longrightarrow> last_index_byte c (xs @ c # ys) = Some (length xs)"
  by (simp add: last_index_byte_def index_byte_first)

lemma SplitHostPort_join:
  assumes "host \<noteq> []"
    and "CHR '':'' \<notin> set host" "CHR ''['' \<notin> set host" "CHR '']'' \<notin> set host"
    and "CHR '':'' \<notin> set port" "CHR ''['' \<notin> set port" "CHR '']'' \<notin> set port"
  shows "SplitHostPort (JoinHostPort host port) = Some (host, port)"
proof -
  have "hd (host @ CHR '':'' # port) \<noteq> CHR ''[''"
    using assms by (cases host) auto
  then show ?thesis
    using assms by (simp add: SplitHostPort_def JoinHostPort_def last_index_byte_last)
qed


section \<open>IPv4 addresses\<close>

lemma unat_byte_le: "unat (b :: byte) \<le> 255"
  using unat_byte_less [of b] by linarith

lemma ipv4_fields_Itoa:
  "n \<le> 255 \<Longrightarrow> ipv4_fields (Itoa n @ rest) first dot 0 0 fs =
     ipv4_fields rest False False n (length (Itoa n)) fs"
proof (induction n arbitrary: rest rule: Itoa.induct)
  case (1 n)
  show ?case
  proof (cases "n < 10")
    case True
    then show ?thesis
      by (simp add: Itoa.simps [of n])
  next
    case False
    then have "n div 10 \<noteq> 0"
      by (simp add: div_eq_0_iff)
    with False 1 show ?thesis
      by (simp add: Itoa.simps [of n])
  qed
qed

lemma ipv4_fields_IPv4_String:
  "ipv4_fields (IPv4_String a b c d) True False 0 0 [] = Some [unat a, unat b, unat c, unat d]"
  using ipv4_fields_Itoa [where rest = "[]"]
  by (simp add: IPv4_String_def ipv4_fields_Itoa unat_byte_le)

lemma parseIPv4_String: "parseIPv4 (IPv4_String a b c d) = Some [a, b, c, d]"
  by (simp add: parseIPv4_def ipv4_fields_IPv4_String)

lemma addr_kind_dot:
  "(\<And>x. x \<in> set xs \<Longrightarrow> digit_val x \<noteq> None) \<Longrightarrow> addr_kind (xs @ CHR ''.'' # ys) = Some CHR ''.''"
proof (induction xs)
  case (Cons x xs)
  from Cons.prems [of x] have "x \<noteq> CHR ''.''" "x \<noteq> CHR '':''" "x \<noteq> CHR ''%''"
    by auto
  with Cons show ?case
    by simp
qed simp

lemma addr_kind_IPv4_String: "addr_kind (IPv4_String a b c d) = Some CHR ''.''"
  using addr_kind_dot [of "Itoa (unat a)", OF Itoa_digits] by (simp add: IPv4_String_def)

lemma ParseIP_String:
  "ParseIP parse6 (IPv4_String a b c d) = Some (replicate 10 0 @ [255, 255, a, b, c, d])"
  by (simp add: ParseIP_def addr_kind_IPv4_String parseIPv4_String)

lemma To4_mapped: "To4 (replicate 10 0 @ [255, 255, a, b, c, d]) = Some [a, b, c, d]"
  by (simp add: To4_def numeral_eq_Suc)


section \<open>Packed endpoints\<close>

lemma unpack_port: "ipv4 \<noteq> 0 \<Longrightarrow> port \<noteq> 0 \<Longrightarrow> ucast (packEndpoint ipv4 port) = port"
  by (auto simp: packEndpoint_def bit_simps intro!: bit_word_eqI)

lemma unpack_ipv4:
  assumes "ipv4 \<noteq> 0" "port \<noteq> 0"
  shows "ucast (drop_bit 16 (packEndpoint ipv4 port)) = ipv4"
proof (rule bit_word_eqI)
  fix n
  assume n: "n < LENGTH(32)"
  have "\<not> bit port (16 + n)"
    using bit_imp_le_length [of port "16 + n"] by auto
  with n assms show "bit (ucast (drop_bit 16 (packEndpoint ipv4 port)) :: u32) n = bit ipv4 n"
    by (simp add: packEndpoint_def bit_simps)
qed

lemma packEndpoint_zero [simp]: "packEndpoint ipv4 port = 0 \<longleftrightarrow> ipv4 = 0 \<or> port = 0"
  using unpack_port [of ipv4 port] by (auto simp: packEndpoint_def)

lemma ipv4_of_bytes:
  fixes w :: u32
  shows "ucast (ucast w :: byte) OR push_bit 8 (ucast (ucast (drop_bit 8 w) :: byte)) OR
         push_bit 16 (ucast (ucast (drop_bit 16 w) :: byte)) OR
         push_bit 24 (ucast (ucast (drop_bit 24 w) :: byte)) = w"
proof (rule bit_word_eqI)
  fix n
  assume "n < LENGTH(32)"
  then consider "n < 8" | "8 \<le> n" "n < 16" | "16 \<le> n" "n < 24" | "24 \<le> n" "n < 32"
    by fastforce
  then show "bit (ucast (ucast w :: byte) OR push_bit 8 (ucast (ucast (drop_bit 8 w) :: byte)) OR
         push_bit 16 (ucast (ucast (drop_bit 16 w) :: byte)) OR
         push_bit 24 (ucast (ucast (drop_bit 24 w) :: byte)) :: u32) n = bit w n"
    by cases (auto simp: bit_simps)
qed


section \<open>Properties\<close>

text \<open>
  C40: the text form of a packed endpoint parses back to the same key, for every IPv4 address and port
  that are not zero, whatever the parser of IPv6 literals does.
\<close>

theorem ParseEndpointKey_FormatEndpoint:
  assumes "ipv4 \<noteq> 0" "port \<noteq> 0"
  shows "ParseEndpointKey parse6 (FormatEndpoint (packEndpoint ipv4 port)) = Inr (packEndpoint ipv4 port)"
proof -
  define ip where "ip = IPv4_String (ucast ipv4) (ucast (drop_bit 8 ipv4))
    (ucast (drop_bit 16 ipv4)) (ucast (drop_bit 24 ipv4))"
  define m where "m = unat port"
  have "0 < m" "m < 65536"
    using assms(2) unsigned_less [of port, where ?'a = nat]
    by (simp_all add: m_def unat_gt_0)
  then have m: "0 < int m" "int m \<le> 65535"
    by simp_all
  have m_port: "of_int (int m) = port"
    by (simp add: m_def)
  have fmt: "FormatEndpoint (packEndpoint ipv4 port) = JoinHostPort ip (Itoa m)"
    using assms by (simp add: FormatEndpoint_def ip_def m_def unpack_port unpack_ipv4)
  have chars: "c \<notin> set ip" if "digit_val c = None" "c \<noteq> CHR ''.''" for c
    using that not_in_Itoa by (auto simp: ip_def IPv4_String_def)
  have ne: "JoinHostPort ip (Itoa m) \<noteq> []" "ip \<noteq> []"
    by (simp_all add: JoinHostPort_def ip_def IPv4_String_def)
  have split: "SplitHostPort (JoinHostPort ip (Itoa m)) = Some (ip, Itoa m)"
    using ne chars by (intro SplitHostPort_join) (auto simp: not_in_Itoa)
  have atoi: "Atoi (Itoa m) = Some (int m)"
    using m(2) by (intro Atoi_Itoa) (simp add: max_int64_def)
  have parse: "ParseIP parse6 ip = Some (replicate 10 0 @ [255, 255, ucast ipv4,
      ucast (drop_bit 8 ipv4), ucast (drop_bit 16 ipv4), ucast (drop_bit 24 ipv4)])"
    by (simp only: ip_def ParseIP_String)
  show ?thesis
    using ne m m_port ipv4_of_bytes [of ipv4]
    by (simp add: fmt ParseEndpointKey_def split atoi parse To4_mapped Let_def numeral_3_eq_3)
qed

theorem ParseEndpointKey_FormatEndpoint_witness:
  "ParseEndpointKey (\<lambda>s. None) (FormatEndpoint (packEndpoint 33554442 7001)) =
     Inr (packEndpoint 33554442 7001)"
  by (rule ParseEndpointKey_FormatEndpoint) simp_all

end
