(* ===== verification/Tcp_Event.thy ===== *)
theory Tcp_Event
  imports Tcp_Metrics Endpoint_Key
begin

text \<open>
  \<open>src/agent/ebpf/event.go\<close> and the event type of \<open>aggregator.go\<close>: the userspace side of the ring
  buffer. \<open>DecodeRawTCPEvent\<close> reads a raw sample at fixed offsets; the theorems here compare it with
  what the BPF program writes, whose layout \<open>Tcp_Metrics\<close> computes from the C declaration.
\<close>

section \<open>The event\<close>

record TCPEvent =
  RemoteKey :: EndpointKey
  LocalKey :: EndpointKey
  Type :: u32
  RemoteAddr :: string
  LocalAddr :: string
  PID :: u32
  Comm :: "byte list"
  Retransmits :: int
  ConnectErrors :: int
  ConnectLatency :: duration
  ObservedAt :: gotime

definition rawTCPEventSize :: nat where "rawTCPEventSize = 60"
definition offTimestampNS :: nat where "offTimestampNS = 0"
definition offPID :: nat where "offPID = 8"
definition offType :: nat where "offType = 12"
definition offSport :: nat where "offSport = 18"
definition offDport :: nat where "offDport = 20"
definition offRet :: nat where "offRet = 24"
definition offSaddrV4 :: nat where "offSaddrV4 = 28"
definition offDaddrV4 :: nat where "offDaddrV4 = 32"
definition offConnectLatencyNS :: nat where "offConnectLatencyNS = 36"
definition offComm :: nat where "offComm = 44"

lemmas raw_offsets = rawTCPEventSize_def offTimestampNS_def offPID_def offType_def offSport_def
  offDport_def offRet_def offSaddrV4_def offDaddrV4_def offConnectLatencyNS_def offComm_def

definition EventTypeRetransmit :: u32 where "EventTypeRetransmit = 1"
definition EventTypeConnect :: u32 where "EventTypeConnect = 2"

definition EventType_String :: "u32 \<Rightarrow> string" where
  "EventType_String t =
     (if t = EventTypeRetransmit then ''retransmit''
      else if t = EventTypeConnect then ''connect''
      else ''unspecified'')"

datatype decode_error = ErrShortSample

definition DecodeRawTCPEvent :: "byte list \<Rightarrow> decode_error + TCPEvent" where
  "DecodeRawTCPEvent sample =
     (if length sample < rawTCPEventSize then Inl ErrShortSample
      else
        (let eventType = bytes_word32 (drop offType sample);
             daddrV4 = bytes_word32 (drop offDaddrV4 sample);
             dport = bytes_word16 (drop offDport sample);
             saddrV4 = bytes_word32 (drop offSaddrV4 sample);
             sport = bytes_word16 (drop offSport sample);
             ret = sint (bytes_word32 (drop offRet sample));
             event = \<lparr>
               RemoteKey = packEndpoint daddrV4 dport,
               LocalKey = packEndpoint saddrV4 sport,
               Type = eventType,
               RemoteAddr = [],
               LocalAddr = [],
               PID = bytes_word32 (drop offPID sample),
               Comm = take 16 (drop offComm sample),
               Retransmits = 0,
               ConnectErrors = 0,
               ConnectLatency = sint (bytes_word64 (drop offConnectLatencyNS sample)),
               ObservedAt = sint (bytes_word64 (drop offTimestampNS sample))\<rparr>
         in Inr (if eventType = EventTypeRetransmit then event\<lparr>Retransmits := 1\<rparr>
                 else if eventType = EventTypeConnect
                 then (if ret \<noteq> 0 then event\<lparr>ConnectErrors := 1\<rparr> else event)
                 else event)))"

definition commString :: "byte list \<Rightarrow> byte list" where
  "commString comm = takeWhile (\<lambda>b. b \<noteq> 0) comm"

definition RemoteAddress :: "TCPEvent \<Rightarrow> string" where
  "RemoteAddress e = (if RemoteAddr e \<noteq> [] then RemoteAddr e else FormatEndpoint (RemoteKey e))"

definition LocalAddress :: "TCPEvent \<Rightarrow> string" where
  "LocalAddress e = (if LocalAddr e \<noteq> [] then LocalAddr e else FormatEndpoint (LocalKey e))"

definition CommString :: "TCPEvent \<Rightarrow> byte list" where
  "CommString e = commString (Comm e)"

definition remoteEndpointKey :: "(string \<Rightarrow> byte list option) \<Rightarrow> TCPEvent \<Rightarrow> EndpointKey" where
  "remoteEndpointKey parse6 e =
     (if RemoteKey e \<noteq> 0 then RemoteKey e
      else if RemoteAddr e = [] then 0
      else case ParseEndpointKey parse6 (RemoteAddr e) of Inl err \<Rightarrow> 0 | Inr key \<Rightarrow> key)"


section \<open>Decoding what the BPF program wrote\<close>

text \<open>
  The eight bytes at offset 36 are the four bytes of padding before the latency and the low half of
  the latency.
\<close>

lemma bytes_word64_shifted:
  "bytes_word64 (replicate 4 0 @ word64_bytes lat @ rest) = push_bit 32 lat"
proof -
  have "le_nat (take 8 (replicate 4 0 @ word64_bytes lat @ rest)) = 2 ^ 32 * (unat lat mod 2 ^ 32)"
    by (simp add: le_nat_append word64_bytes_def take_le_bytes le_nat_le_bytes)
  then have "unat (bytes_word64 (replicate 4 0 @ word64_bytes lat @ rest))
      = 2 ^ 32 * (unat lat mod 2 ^ 32)"
    by (simp only: unat_bytes_word)
  also have "\<dots> = (2 ^ 32 * unat lat) mod 2 ^ 64"
    by (simp add: mult_mod_right)
  also have "\<dots> = unat (push_bit 32 lat)"
    by (simp add: push_bit_eq_mult unat_word_ariths mult.commute)
  finally show ?thesis
    by (rule word_unat_eq_iff [THEN iffD2])
qed

lemma decode_event_bytes:
  assumes "length (te_comm ev) = 16"
  shows "DecodeRawTCPEvent (event_bytes ev) = Inr \<lparr>
     RemoteKey = packEndpoint (te_daddr_v4 ev) (te_dport ev),
     LocalKey = packEndpoint (te_saddr_v4 ev) (te_sport ev),
     Type = te_type ev, RemoteAddr = [], LocalAddr = [], PID = te_pid ev,
     Comm = drop 4 (word64_bytes (te_connect_latency_ns ev)) @ take 12 (te_comm ev),
     Retransmits = (if te_type ev = EventTypeRetransmit then 1 else 0),
     ConnectErrors = (if te_type ev = EventTypeConnect \<and> te_ret ev \<noteq> 0 then 1 else 0),
     ConnectLatency = sint (push_bit 32 (te_connect_latency_ns ev)),
     ObservedAt = sint (te_timestamp_ns ev)\<rparr>"
proof -
  have types: "EventTypeRetransmit \<noteq> EventTypeConnect"
    by (simp add: EventTypeRetransmit_def EventTypeConnect_def)
  have lat: "bytes_word64 (0 # 0 # 0 # 0 # word64_bytes lat @ rest) = push_bit 32 lat" for lat rest
    using bytes_word64_shifted [of lat rest] by (simp add: numeral_eq_Suc)
  have ret: "sint (te_ret ev) = 0 \<longleftrightarrow> te_ret ev = 0"
    by (metis signed_0 signed_word_eqI)
  consider "te_type ev = EventTypeRetransmit" | "te_type ev = EventTypeConnect"
    | "te_type ev \<noteq> EventTypeRetransmit" "te_type ev \<noteq> EventTypeConnect"
    by blast
  then show ?thesis
    by cases (use assms types in \<open>simp_all add: DecodeRawTCPEvent_def event_bytes_eq raw_offsets
        bytes_word64_shifted ret Let_def\<close>)
qed

lemma sint_push_bit_32: "sint (push_bit 32 lat) = 2 ^ 32 * sint (ucast lat :: 32 word)" for lat :: u64
proof -
  have "sint (push_bit 32 lat) = push_bit 32 (sint (ucast lat :: 32 word))"
    by (rule bit_eqI) (auto simp: bit_simps min_def not_less)
  then show ?thesis
    by (simp add: push_bit_eq_mult)
qed

lemma sint_small:
  fixes x :: u64
  assumes "0 < x" "x < 2 ^ 31"
  shows "sint (ucast x :: 32 word) = uint x" "sint x = uint x" "0 < uint x"
proof -
  have bound: "0 < uint x" "uint x < 2 ^ 31"
    using assms by (simp_all add: word_less_def)
  then show "0 < uint x" "sint x = uint x"
    by (simp_all add: sint_uint signed_take_bit_int_eq_self_iff)
  show "sint (ucast x :: 32 word) = uint x"
    using bound by (simp add: sint_uint unsigned_ucast_eq signed_take_bit_int_eq_self
        take_bit_int_eq_self)
qed

text \<open>
  C4: for every event the BPF program can write (its \<open>comm\<close> has 16 bytes), the Go decoder accepts the
  sample and reads the remote and the local endpoint, the event type, the process id, the timestamp
  and the return value from the places where the C compiler put them: the retransmit and connect-error
  counts of the decoded event are those the C event says, and at most one of them is set.
\<close>

theorem decode_reads_bpf_event:
  assumes "length (te_comm ev) = AEGIS_TASK_COMM_LEN"
  shows "\<exists>e. DecodeRawTCPEvent (event_bytes ev) = Inr e \<and>
     RemoteKey e = packEndpoint (te_daddr_v4 ev) (te_dport ev) \<and>
     LocalKey e = packEndpoint (te_saddr_v4 ev) (te_sport ev) \<and>
     Type e = te_type ev \<and> PID e = te_pid ev \<and> ObservedAt e = sint (te_timestamp_ns ev) \<and>
     Retransmits e = of_bool (te_type ev = AEGIS_EVENT_RETRANSMIT) \<and>
     ConnectErrors e = of_bool (te_type ev = AEGIS_EVENT_CONNECT \<and> te_ret ev \<noteq> 0)"
  using assms
  by (simp add: decode_event_bytes AEGIS_TASK_COMM_LEN_def AEGIS_EVENT_RETRANSMIT_def
      AEGIS_EVENT_CONNECT_def EventTypeRetransmit_def EventTypeConnect_def)

definition demo_event :: tcp_event where
  "demo_event = zero_event\<lparr>te_type := AEGIS_EVENT_CONNECT, te_pid := 4242, te_ret := 0xFFFFFF91,
     te_daddr_v4 := 0x0100007F, te_dport := 8080, te_connect_latency_ns := 1500000,
     te_comm := word64_bytes 0x6E6961726775 @ word64_bytes 0\<rparr>"

lemma demo_event_comm: "length (te_comm demo_event) = AEGIS_TASK_COMM_LEN"
  by (simp add: demo_event_def AEGIS_TASK_COMM_LEN_def)

theorem decode_reads_bpf_event_witness:
  "\<exists>e. DecodeRawTCPEvent (event_bytes demo_event) = Inr e \<and> Type e = 2 \<and> PID e = 4242 \<and>
     Retransmits e = 0 \<and> ConnectErrors e = 1"
  using decode_reads_bpf_event [OF demo_event_comm]
  by (auto simp: demo_event_def AEGIS_EVENT_CONNECT_def AEGIS_EVENT_RETRANSMIT_def)

text \<open>
  C5: the decoder reads the connect latency four bytes too early. \<open>event.go\<close> places it at offset 36,
  the C compiler at 40 (the field is 8-byte aligned), so the decoded latency is the low half of the
  measured one, as a signed number, times \<open>2^32\<close>; every measured latency between one nanosecond and
  about two seconds is decoded as at least \<open>2^32\<close> nanoseconds, and the first four bytes of the
  decoded command name are the high half of the latency, not the name.
\<close>

theorem decode_latency_misplaced:
  assumes "length (te_comm ev) = AEGIS_TASK_COMM_LEN"
  shows "\<exists>e. DecodeRawTCPEvent (event_bytes ev) = Inr e \<and>
     ConnectLatency e = 2 ^ 32 * sint (ucast (te_connect_latency_ns ev) :: 32 word) \<and>
     (0 < te_connect_latency_ns ev \<and> te_connect_latency_ns ev < 2 ^ 31 \<longrightarrow>
        ConnectLatency e = 2 ^ 32 * sint (te_connect_latency_ns ev) \<and>
        ConnectLatency e \<noteq> sint (te_connect_latency_ns ev)) \<and>
     Comm e = drop 4 (word64_bytes (te_connect_latency_ns ev)) @ take 12 (te_comm ev)"
proof -
  let ?lat = "te_connect_latency_ns ev"
  have "sint (ucast ?lat :: 32 word) = sint ?lat" "0 < sint ?lat" if "0 < ?lat" "?lat < 2 ^ 31"
    using sint_small [OF that] by simp_all
  then show ?thesis
    using assms by (auto simp: decode_event_bytes AEGIS_TASK_COMM_LEN_def sint_push_bit_32)
qed

theorem decode_latency_misplaced_witness:
  "\<exists>e. te_connect_latency_ns demo_event = 1500000 \<and>
     DecodeRawTCPEvent (event_bytes demo_event) = Inr e \<and> ConnectLatency e = 6442450944000000 \<and>
     Comm e = [0, 0, 0, 0, 0x75, 0x67, 0x72, 0x61, 0x69, 0x6E, 0, 0, 0, 0, 0, 0]"
proof -
  have "te_connect_latency_ns demo_event = 1500000"
    "drop 4 (word64_bytes 1500000) @ take 12 (te_comm demo_event)
       = [0, 0, 0, 0, 0x75, 0x67, 0x72, 0x61, 0x69, 0x6E, 0, 0, 0, 0, 0, 0]"
    by (simp_all add: demo_event_def word64_bytes_def le_bytes_numeral)
  then show ?thesis
    using decode_latency_misplaced [OF demo_event_comm] by fastforce
qed

end
