(* ===== verification/Net_Aggregator.thy ===== *)
theory Net_Aggregator
  imports Tcp_Event "HOL-Library.AList" "HOL-Library.Multiset" "HOL-Library.List_Lexorder"
    "HOL-Library.Char_ord"
begin

text \<open>
  \<open>src/agent/ebpf/aggregator.go\<close>, \<open>telemetry.go\<close> and \<open>reporter.go\<close>: the events of one reporting
  window are folded into one row per remote endpoint, and every tick closes the window, turns the rows
  into samples and uploads them. Go leaves the iteration order of a map open: a table is an
  association list, and the operations that range over one take the order as an argument.
\<close>

section \<open>The aggregator\<close>

record EndpointRef =
  er_Service :: string
  er_InstanceID :: string
  er_Address :: string

record NetworkSample =
  ns_Service :: string
  ns_InstanceID :: string
  ns_Address :: string
  ns_TCPRetransmit :: int
  ns_ConnectError :: int
  ns_ConnectLatency :: duration
  ns_WindowStart :: gotime
  ns_WindowEnd :: gotime

record networkRow =
  nr_ref :: EndpointRef
  nr_retransmits :: int
  nr_connectErrors :: int
  nr_connectLatency :: duration
  nr_windowStart :: gotime
  nr_windowEnd :: gotime

record Aggregator =
  ag_endpoints :: "(EndpointKey \<times> EndpointRef) list"
  ag_rows :: "(EndpointKey \<times> networkRow) list"

type_synonym ip6_parser = "string \<Rightarrow> byte list option"

fun endpoint_refs ::
    "ip6_parser \<Rightarrow> (string \<times> EndpointRef) list \<Rightarrow> (EndpointKey \<times> EndpointRef) list
      \<Rightarrow> (EndpointKey \<times> EndpointRef) list" where
  "endpoint_refs parse6 [] refs = refs"
| "endpoint_refs parse6 ((addr, ref) # rest) refs =
     (case ParseEndpointKey parse6 addr of
        Inl err \<Rightarrow> endpoint_refs parse6 rest refs
      | Inr key \<Rightarrow>
          endpoint_refs parse6 rest
            (AList.update key (if er_Address ref = [] then ref\<lparr>er_Address := addr\<rparr> else ref) refs))"

definition NewAggregator :: "ip6_parser \<Rightarrow> (string \<times> EndpointRef) list \<Rightarrow> Aggregator" where
  "NewAggregator parse6 endpoints =
     \<lparr>ag_endpoints = endpoint_refs parse6 endpoints [], ag_rows = []\<rparr>"

definition Observe :: "ip6_parser \<Rightarrow> TCPEvent \<Rightarrow> Aggregator \<Rightarrow> Aggregator" where
  "Observe parse6 event a =
     (let key = remoteEndpointKey parse6 event
      in if key = 0 then a
         else
           (let ref = (case map_of (ag_endpoints a) key of
                         Some ref \<Rightarrow> ref
                       | None \<Rightarrow> (let addr = FormatEndpoint key
                                 in \<lparr>er_Service = [], er_InstanceID = addr, er_Address = addr\<rparr>));
                row = (case map_of (ag_rows a) key of
                         Some row \<Rightarrow> row
                       | None \<Rightarrow> \<lparr>nr_ref = ref, nr_retransmits = 0, nr_connectErrors = 0,
                                  nr_connectLatency = 0, nr_windowStart = ObservedAt event,
                                  nr_windowEnd = zero_time\<rparr>);
                row = (if IsZero (nr_windowStart row)
                       then row\<lparr>nr_windowStart := ObservedAt event\<rparr> else row);
                row = row\<lparr>
                  nr_windowEnd := ObservedAt event,
                  nr_retransmits := wrap64 (nr_retransmits row + Retransmits event),
                  nr_connectErrors := wrap64 (nr_connectErrors row + ConnectErrors event),
                  nr_connectLatency := wrap64 (nr_connectLatency row + ConnectLatency event)\<rparr>
            in a\<lparr>ag_rows := AList.update key row (ag_rows a)\<rparr>))"

definition sample_of_row :: "networkRow \<Rightarrow> NetworkSample" where
  "sample_of_row row = \<lparr>
     ns_Service = er_Service (nr_ref row), ns_InstanceID = er_InstanceID (nr_ref row),
     ns_Address = er_Address (nr_ref row), ns_TCPRetransmit = nr_retransmits row,
     ns_ConnectError = nr_connectErrors row, ns_ConnectLatency = nr_connectLatency row,
     ns_WindowStart = nr_windowStart row, ns_WindowEnd = nr_windowEnd row\<rparr>"

text \<open>
  The order in which the loop meets the rows is \<open>order\<close>; with every order allowed, sorting stably
  gives every result the unstable sort of the code can give.
\<close>

definition SnapshotAndReset ::
    "(networkRow list \<Rightarrow> networkRow list) \<Rightarrow> Aggregator \<Rightarrow> NetworkSample list \<times> Aggregator" where
  "SnapshotAndReset order a =
     (sort_key ns_Address (map sample_of_row (order (map snd (ag_rows a)))), a\<lparr>ag_rows := []\<rparr>)"

record EndpointStatsSample =
  es_Source :: string
  es_Service :: string
  es_InstanceId :: string
  es_EndpointAddress :: string
  es_TcpRetransmit :: int
  es_ConnectError :: int
  es_WindowStartUnixMillis :: int
  es_WindowEndUnixMillis :: int

definition telemetry_sample :: "NetworkSample \<Rightarrow> EndpointStatsSample" where
  "telemetry_sample sample = \<lparr>
     es_Source = ''ebpf'', es_Service = ns_Service sample, es_InstanceId = ns_InstanceID sample,
     es_EndpointAddress = ns_Address sample, es_TcpRetransmit = ns_TCPRetransmit sample,
     es_ConnectError = ns_ConnectError sample,
     es_WindowStartUnixMillis = UnixMilli (ns_WindowStart sample),
     es_WindowEndUnixMillis = UnixMilli (ns_WindowEnd sample)\<rparr>"

definition NetworkSamplesToTelemetrySamples ::
    "NetworkSample list \<Rightarrow> EndpointStatsSample list" where
  "NetworkSamplesToTelemetrySamples samples = map telemetry_sample samples"


section \<open>The window of an endpoint\<close>

text \<open>
  What a row should hold: the events of the window with that remote endpoint, counted.
\<close>

definition events_for :: "ip6_parser \<Rightarrow> EndpointKey \<Rightarrow> TCPEvent list \<Rightarrow> TCPEvent list" where
  "events_for parse6 key evs = filter (\<lambda>e. remoteEndpointKey parse6 e = key) evs"

definition ref_for :: "(EndpointKey \<times> EndpointRef) list \<Rightarrow> EndpointKey \<Rightarrow> EndpointRef" where
  "ref_for eps key = (case map_of eps key of Some ref \<Rightarrow> ref | None \<Rightarrow>
     \<lparr>er_Service = [], er_InstanceID = FormatEndpoint key, er_Address = FormatEndpoint key\<rparr>)"

definition window_start :: "gotime list \<Rightarrow> gotime" where
  "window_start ts = (case dropWhile IsZero ts of [] \<Rightarrow> zero_time | t # _ \<Rightarrow> t)"

definition window_row :: "EndpointRef \<Rightarrow> TCPEvent list \<Rightarrow> networkRow" where
  "window_row ref evs = \<lparr>nr_ref = ref,
     nr_retransmits = wrap64 (sum_list (map Retransmits evs)),
     nr_connectErrors = wrap64 (sum_list (map ConnectErrors evs)),
     nr_connectLatency = wrap64 (sum_list (map ConnectLatency evs)),
     nr_windowStart = window_start (map ObservedAt evs),
     nr_windowEnd = ObservedAt (last evs)\<rparr>"

definition active_keys :: "ip6_parser \<Rightarrow> TCPEvent list \<Rightarrow> EndpointKey set" where
  "active_keys parse6 evs = remoteEndpointKey parse6 ` set evs - {0}"

lemma window_start_snoc:
  "window_start (ts @ [t]) = (if IsZero (window_start ts) then t else window_start ts)"
proof (cases "dropWhile IsZero ts")
  case Nil
  then have "dropWhile IsZero (ts @ [t]) = dropWhile IsZero [t]"
    by simp
  with Nil show ?thesis
    by (simp add: window_start_def IsZero_def del: dropWhile_eq_Nil_conv)
next
  case (Cons u us)
  then have "\<not> IsZero u"
    using hd_dropWhile [of IsZero ts] by simp
  moreover have "dropWhile IsZero (ts @ [t]) = dropWhile IsZero ts @ [t]"
    using Cons by (metis dropWhile_append1 dropWhile_eq_Nil_conv list.distinct(1))
  ultimately show ?thesis
    using Cons by (simp add: window_start_def)
qed

lemma window_start_Nil [simp]: "window_start [] = zero_time"
  by (simp add: window_start_def)

definition window_inv :: "ip6_parser \<Rightarrow> TCPEvent list \<Rightarrow> Aggregator \<Rightarrow> bool" where
  "window_inv parse6 evs a \<longleftrightarrow> distinct (map fst (ag_rows a)) \<and>
     (\<forall>k. map_of (ag_rows a) k =
        (if k \<in> active_keys parse6 evs
         then Some (window_row (ref_for (ag_endpoints a) k) (events_for parse6 k evs)) else None))"

lemma window_inv_Nil: "ag_rows a = [] \<Longrightarrow> window_inv parse6 [] a"
  by (simp add: window_inv_def active_keys_def)

lemma Observe_endpoints [simp]: "ag_endpoints (Observe parse6 e a) = ag_endpoints a"
  by (simp add: Observe_def Let_def)

lemma window_row_snoc:
  "window_row ref (evs @ [e]) = \<lparr>nr_ref = ref,
     nr_retransmits = wrap64 (nr_retransmits (window_row ref evs) + Retransmits e),
     nr_connectErrors = wrap64 (nr_connectErrors (window_row ref evs) + ConnectErrors e),
     nr_connectLatency = wrap64 (nr_connectLatency (window_row ref evs) + ConnectLatency e),
     nr_windowStart = (if IsZero (nr_windowStart (window_row ref evs)) then ObservedAt e
                       else nr_windowStart (window_row ref evs)),
     nr_windowEnd = ObservedAt e\<rparr>"
  by (simp add: window_row_def window_start_snoc)

lemma Observe_row:
  assumes "remoteEndpointKey parse6 e = k" "k \<noteq> 0"
  shows "map_of (ag_rows (Observe parse6 e a)) k = Some (
     let row = (case map_of (ag_rows a) k of Some row \<Rightarrow> row
                | None \<Rightarrow> window_row (ref_for (ag_endpoints a) k) [])
     in \<lparr>nr_ref = nr_ref row,
         nr_retransmits = wrap64 (nr_retransmits row + Retransmits e),
         nr_connectErrors = wrap64 (nr_connectErrors row + ConnectErrors e),
         nr_connectLatency = wrap64 (nr_connectLatency row + ConnectLatency e),
         nr_windowStart = (if IsZero (nr_windowStart row) then ObservedAt e else nr_windowStart row),
         nr_windowEnd = ObservedAt e\<rparr>)"
  using assms
  by (auto simp: Observe_def Let_def update_conv' ref_for_def window_row_def wrap64_def IsZero_def
      split: option.splits)

lemma Observe_other_row:
  "remoteEndpointKey parse6 e \<noteq> k \<Longrightarrow>
     map_of (ag_rows (Observe parse6 e a)) k = map_of (ag_rows a) k"
  by (simp add: Observe_def Let_def update_conv')

lemma Observe_distinct:
  "distinct (map fst (ag_rows a)) \<Longrightarrow> distinct (map fst (ag_rows (Observe parse6 e a)))"
  by (simp add: Observe_def Let_def distinct_update)

lemma Observe_zero_key: "remoteEndpointKey parse6 e = 0 \<Longrightarrow> Observe parse6 e a = a"
  by (simp add: Observe_def)

lemma Observe_window_inv:
  assumes inv: "window_inv parse6 evs a"
  shows "window_inv parse6 (evs @ [e]) (Observe parse6 e a)"
  unfolding window_inv_def
proof (intro conjI allI)
  show "distinct (map fst (ag_rows (Observe parse6 e a)))"
    using inv by (simp add: window_inv_def Observe_distinct)
next
  fix k
  let ?e = "remoteEndpointKey parse6 e"
  have row: "map_of (ag_rows a) k = (if k \<in> active_keys parse6 evs
      then Some (window_row (ref_for (ag_endpoints a) k) (events_for parse6 k evs)) else None)"
    using inv by (simp add: window_inv_def)
  consider "?e \<noteq> k" | "?e = k" "k = 0" | "?e = k" "k \<noteq> 0"
    by blast
  then show "map_of (ag_rows (Observe parse6 e a)) k =
      (if k \<in> active_keys parse6 (evs @ [e])
       then Some (window_row (ref_for (ag_endpoints (Observe parse6 e a)) k)
              (events_for parse6 k (evs @ [e]))) else None)"
  proof cases
    case 1
    then show ?thesis
      using row by (auto simp: Observe_other_row active_keys_def events_for_def)
  next
    case 2
    then show ?thesis
      using row by (simp add: Observe_zero_key active_keys_def)
  next
    case 3
    have none: "events_for parse6 k evs = []" if "k \<notin> active_keys parse6 evs"
      using that 3 by (auto simp: active_keys_def events_for_def filter_empty_conv image_iff)
    have "events_for parse6 k (evs @ [e]) = events_for parse6 k evs @ [e]"
      "k \<in> active_keys parse6 (evs @ [e])"
      using 3 by (simp_all add: events_for_def active_keys_def)
    then show ?thesis
      using row none by (simp add: Observe_row [OF 3] window_row_snoc Let_def)
        (simp add: window_row_def)
  qed
qed

lemma observe_all_inv:
  assumes "window_inv parse6 evs a"
  shows "window_inv parse6 (evs @ news) (fold (Observe parse6) news a)"
  using assms
proof (induction news arbitrary: evs a)
  case (Cons e news)
  then show ?case
    using Observe_window_inv [of parse6 evs a e] by (metis append_Cons append_Nil append_assoc fold_simps(2))
qed simp

lemma observe_all_endpoints [simp]:
  "ag_endpoints (fold (Observe parse6) evs a) = ag_endpoints a"
  by (induction evs arbitrary: a) auto

lemma finite_active_keys [simp]: "finite (active_keys parse6 evs)"
  by (simp add: active_keys_def)

text \<open>The rows of a window, as a multiset: one per active endpoint.\<close>

lemma window_inv_rows:
  assumes "window_inv parse6 evs a"
  shows "mset (map snd (ag_rows a)) =
     image_mset (\<lambda>k. window_row (ref_for (ag_endpoints a) k) (events_for parse6 k evs))
       (mset_set (active_keys parse6 evs))"
proof -
  let ?row = "\<lambda>k. window_row (ref_for (ag_endpoints a) k) (events_for parse6 k evs)"
  have dist: "distinct (map fst (ag_rows a))"
    and look: "\<And>k. map_of (ag_rows a) k = (if k \<in> active_keys parse6 evs then Some (?row k) else None)"
    using assms by (simp_all add: window_inv_def)
  have keys: "set (map fst (ag_rows a)) = active_keys parse6 evs"
    using look by (auto simp: dom_map_of_conv_image_fst [symmetric] dom_def split: if_splits)
  have "map snd (ag_rows a) = map ?row (map fst (ag_rows a))"
  proof (simp, rule ballI)
    fix x
    assume "x \<in> set (ag_rows a)"
    then have "map_of (ag_rows a) (fst x) = Some (snd x)"
      using dist by simp
    then show "snd x = ?row (fst x)"
      using look [of "fst x"] by (simp split: if_splits)
  qed
  then have "mset (map snd (ag_rows a)) = image_mset ?row (mset (map fst (ag_rows a)))"
    by (metis mset_map)
  also have "mset (map fst (ag_rows a)) = mset_set (active_keys parse6 evs)"
    using mset_set_set [OF dist] keys by simp
  finally show ?thesis .
qed

definition window_sample ::
    "ip6_parser \<Rightarrow> (EndpointKey \<times> EndpointRef) list \<Rightarrow> TCPEvent list \<Rightarrow> EndpointKey \<Rightarrow> NetworkSample" where
  "window_sample parse6 eps evs k =
     sample_of_row (window_row (ref_for eps k) (events_for parse6 k evs))"

lemma snapshot_of_window:
  assumes "window_inv parse6 evs a" "\<forall>rs. mset (order rs) = mset rs"
  shows "mset (fst (SnapshotAndReset order a)) =
       image_mset (window_sample parse6 (ag_endpoints a) evs) (mset_set (active_keys parse6 evs))"
    and "sorted (map ns_Address (fst (SnapshotAndReset order a)))"
    and "window_inv parse6 [] (snd (SnapshotAndReset order a))"
    and "ag_endpoints (snd (SnapshotAndReset order a)) = ag_endpoints a"
  using assms(2) window_inv_rows [OF assms(1)]
  by (simp_all add: SnapshotAndReset_def window_sample_def [abs_def] window_inv_Nil
      image_mset.compositionality comp_def)

text \<open>
  One reporting window. Whatever events arrive in the window, the snapshot has exactly one sample
  per remote endpoint that had an event (endpoint key 0 apart), whose counts are the wrapping sums over
  that endpoint's events, whose window runs from its first dated event to its last one, and whose
  identity is the configured mapping or the formatted address; the samples are sorted by address and
  the next window starts empty.
\<close>

theorem snapshot_reports_window:
  assumes "ag_rows a = []" "\<forall>rs. mset (order rs) = mset rs"
  shows "let (out, a') = SnapshotAndReset order (fold (Observe parse6) evs a)
     in mset out = image_mset (window_sample parse6 (ag_endpoints a) evs)
          (mset_set (active_keys parse6 evs)) \<and>
        sorted (map ns_Address out) \<and> a' = a"
proof -
  let ?b = "fold (Observe parse6) evs a"
  have "window_inv parse6 evs ?b"
    using observe_all_inv [OF window_inv_Nil [OF assms(1)]] by simp
  note snap = snapshot_of_window [OF this assms(2)]
  have "snd (SnapshotAndReset order ?b) = a"
    using assms(1) by (simp add: SnapshotAndReset_def)
  then show ?thesis
    using snap(1, 2) by (simp add: case_prod_beta)
qed


section \<open>The reporter\<close>

record Reporter =
  rp_collector :: bool
  rp_client :: bool
  rp_aggregator :: "Aggregator option"
  rp_interval :: duration

definition defaultReportInterval :: duration where "defaultReportInterval = 5 * 1000000000"

definition NewReporter :: "Reporter \<Rightarrow> Reporter" where
  "NewReporter cfg =
     (if rp_interval cfg \<le> 0 then cfg\<lparr>rp_interval := defaultReportInterval\<rparr> else cfg)"

text \<open>
  \<open>collector_err\<close> is the result of the collector's own start; the second component says whether the
  reporting goroutine runs.
\<close>

definition Reporter_Start :: "'err option \<Rightarrow> Reporter \<Rightarrow> 'err option \<times> bool" where
  "Reporter_Start collector_err r =
     (if \<not> rp_collector r \<or> \<not> rp_client r \<or> rp_aggregator r = None then (None, False)
      else case collector_err of Some err \<Rightarrow> (Some err, False) | None \<Rightarrow> (None, True))"

text \<open>\<open>queued\<close>: the events the channel hands out before it has none left or is closed.\<close>

definition drainEvents :: "ip6_parser \<Rightarrow> TCPEvent list \<Rightarrow> Reporter \<Rightarrow> Reporter" where
  "drainEvents parse6 queued r =
     (if \<not> rp_collector r then r
      else r\<lparr>rp_aggregator := map_option (fold (Observe parse6) queued) (rp_aggregator r)\<rparr>)"

definition ReportOnce ::
    "ip6_parser \<Rightarrow> (networkRow list \<Rightarrow> networkRow list) \<Rightarrow> TCPEvent list \<Rightarrow> 'err option \<Rightarrow> Reporter
      \<Rightarrow> 'err option \<times> EndpointStatsSample list option \<times> Reporter" where
  "ReportOnce parse6 order queued response r =
     (if \<not> rp_client r then (None, None, r)
      else let r1 = drainEvents parse6 queued r
           in case rp_aggregator r1 of
                None \<Rightarrow> (None, None, r)
              | Some a \<Rightarrow>
                  (let (rows, a') = SnapshotAndReset order a;
                       samples = NetworkSamplesToTelemetrySamples rows;
                       r2 = r1\<lparr>rp_aggregator := Some a'\<rparr>
                   in if samples = [] then (None, None, r2) else (response, Some samples, r2)))"

text \<open>The cases of the \<open>select\<close> in the reporting loop, and the requests the loop sends.\<close>

datatype 'err select_case =
    CtxDone
  | Received TCPEvent
  | EventsClosed
  | Ticked "networkRow list \<Rightarrow> networkRow list" "TCPEvent list" "'err option"

fun run_reporter ::
    "ip6_parser \<Rightarrow> 'err select_case list \<Rightarrow> Reporter \<Rightarrow> EndpointStatsSample list list \<times> Reporter" where
  "run_reporter parse6 [] r = ([], r)"
| "run_reporter parse6 (CtxDone # cs) r = ([], r)"
| "run_reporter parse6 (EventsClosed # cs) r = ([], r)"
| "run_reporter parse6 (Received event # cs) r =
     run_reporter parse6 cs
       (r\<lparr>rp_aggregator := map_option (Observe parse6 event) (rp_aggregator r)\<rparr>)"
| "run_reporter parse6 (Ticked order queued response # cs) r =
     (let (err, request, r') = ReportOnce parse6 order queued response r;
          (requests, r'') = run_reporter parse6 cs r'
      in (case request of None \<Rightarrow> requests | Some req \<Rightarrow> req # requests, r''))"

text \<open>The events of every closed window, and those of the window still open.\<close>

fun windows :: "'err select_case list \<Rightarrow> TCPEvent list \<Rightarrow> TCPEvent list list \<times> TCPEvent list" where
  "windows [] pending = ([], pending)"
| "windows (CtxDone # cs) pending = ([], pending)"
| "windows (EventsClosed # cs) pending = ([], pending)"
| "windows (Received event # cs) pending = windows cs (pending @ [event])"
| "windows (Ticked order queued response # cs) pending =
     (let (ws, rest) = windows cs [] in ((pending @ queued) # ws, rest))"

definition reports_window ::
    "ip6_parser \<Rightarrow> (EndpointKey \<times> EndpointRef) list \<Rightarrow> EndpointStatsSample list \<Rightarrow> TCPEvent list \<Rightarrow> bool" where
  "reports_window parse6 eps req evs \<longleftrightarrow>
     mset req = image_mset (\<lambda>k. telemetry_sample (window_sample parse6 eps evs k))
       (mset_set (active_keys parse6 evs)) \<and>
     sorted (map es_EndpointAddress req)"

fun permuting :: "'err select_case \<Rightarrow> bool" where
  "permuting (Ticked order queued response) = (\<forall>rs. mset (order rs) = mset rs)"
| "permuting c = True"

lemma telemetry_reports_window:
  assumes "window_inv parse6 evs a" "\<forall>rs. mset (order rs) = mset rs"
  shows "reports_window parse6 (ag_endpoints a)
     (NetworkSamplesToTelemetrySamples (fst (SnapshotAndReset order a))) evs"
  using snapshot_of_window [OF assms]
  by (simp add: reports_window_def NetworkSamplesToTelemetrySamples_def telemetry_sample_def
      image_mset.compositionality comp_def)

lemma reports_window_Nil:
  assumes "reports_window parse6 eps req evs"
  shows "req = [] \<longleftrightarrow> active_keys parse6 evs = {}"
proof -
  have "req = [] \<longleftrightarrow> mset req = {#}"
    by simp
  also have "\<dots> \<longleftrightarrow> active_keys parse6 evs = {}"
    using assms by (simp add: reports_window_def mset_set_empty_iff)
  finally show ?thesis .
qed

lemma ReportOnce_window:
  assumes r: "rp_collector r" "rp_client r" "rp_aggregator r = Some a"
    and inv: "window_inv parse6 evs a" and order: "\<forall>rs. mset (order rs) = mset rs"
  obtains a' err request where
    "ReportOnce parse6 order queued response r = (err, request, r\<lparr>rp_aggregator := Some a'\<rparr>)"
    "window_inv parse6 [] a'" "ag_endpoints a' = ag_endpoints a"
    "case request of None \<Rightarrow> active_keys parse6 (evs @ queued) = {}
     | Some req \<Rightarrow> active_keys parse6 (evs @ queued) \<noteq> {} \<and>
         reports_window parse6 (ag_endpoints a) req (evs @ queued)"
proof -
  let ?b = "fold (Observe parse6) queued a"
  let ?snap = "SnapshotAndReset order ?b"
  let ?req = "NetworkSamplesToTelemetrySamples (fst ?snap)"
  have b: "window_inv parse6 (evs @ queued) ?b"
    by (rule observe_all_inv [OF inv])
  have req: "reports_window parse6 (ag_endpoints a) ?req (evs @ queued)"
    using telemetry_reports_window [OF b order] by simp
  have "ReportOnce parse6 order queued response r =
      (if ?req = [] then None else response, if ?req = [] then None else Some ?req,
       r\<lparr>rp_aggregator := Some (snd ?snap)\<rparr>)"
    using r by (simp add: ReportOnce_def drainEvents_def case_prod_beta Let_def)
  then show thesis
    using snapshot_of_window(3, 4) [OF b order] req reports_window_Nil [OF req]
    by (cases "?req = []") (auto intro!: that [of _ _ "snd ?snap"])
qed

lemma run_reporter_windows:
  assumes "rp_collector r" "rp_client r" "rp_aggregator r = Some a" "window_inv parse6 evs a"
    and "\<forall>c\<in>set cs. permuting c"
  shows "list_all2 (reports_window parse6 (ag_endpoints a)) (fst (run_reporter parse6 cs r))
       (filter (\<lambda>w. active_keys parse6 w \<noteq> {}) (fst (windows cs evs))) \<and>
     (\<exists>a'. rp_aggregator (snd (run_reporter parse6 cs r)) = Some a' \<and>
        window_inv parse6 (snd (windows cs evs)) a')"
  using assms
proof (induction cs arbitrary: r a evs)
  case (Cons c cs)
  show ?case
  proof (cases c)
    case (Received e)
    then show ?thesis
      using Cons.prems Cons.IH [of "r\<lparr>rp_aggregator := Some (Observe parse6 e a)\<rparr>" "Observe parse6 e a" "evs @ [e]"]
      by (simp add: Observe_window_inv)
  next
    case (Ticked order queued response)
    then have "\<forall>rs. mset (order rs) = mset rs"
      using Cons.prems by simp
    then obtain a' err request where once:
      "ReportOnce parse6 order queued response r = (err, request, r\<lparr>rp_aggregator := Some a'\<rparr>)"
      "window_inv parse6 [] a'" "ag_endpoints a' = ag_endpoints a"
      "case request of None \<Rightarrow> active_keys parse6 (evs @ queued) = {}
       | Some req \<Rightarrow> active_keys parse6 (evs @ queued) \<noteq> {} \<and>
           reports_window parse6 (ag_endpoints a) req (evs @ queued)"
      using Cons.prems by (elim ReportOnce_window)
    show ?thesis
      using Ticked once Cons.prems Cons.IH [of "r\<lparr>rp_aggregator := Some a'\<rparr>" a' "[]"]
      by (auto simp: case_prod_beta Let_def split: option.splits)
  qed (use Cons.prems in auto)
qed auto

text \<open>
  C6: the reporting loop loses and repeats nothing. For every sequence of \<open>select\<close> choices (events
  received, ticks that first drain the queue, a closed channel or a cancelled context), the requests
  sent are, in order, the windows between ticks that saw an endpoint: each request has one sample per
  active endpoint with that window's counts, sorted by address; a window without any is not uploaded,
  and the events since the last tick are still in the aggregator.
\<close>

theorem reporter_uploads_windows:
  assumes "rp_collector r" "rp_client r" "rp_aggregator r = Some a" "ag_rows a = []"
    and "\<forall>c\<in>set cs. permuting c"
  shows "let (requests, r') = run_reporter parse6 cs r; (closed, open) = windows cs []
     in list_all2 (reports_window parse6 (ag_endpoints a)) requests
          (filter (\<lambda>w. active_keys parse6 w \<noteq> {}) closed) \<and>
        (\<exists>a'. rp_aggregator r' = Some a' \<and> window_inv parse6 open a')"
  using run_reporter_windows [OF assms(1-3) window_inv_Nil [OF assms(4)] assms(5)]
  by (simp add: case_prod_beta)


section \<open>Examples\<close>

definition demo_tcp :: "EndpointKey \<Rightarrow> gotime \<Rightarrow> TCPEvent" where
  "demo_tcp key t = \<lparr>RemoteKey = key, LocalKey = 0, Type = EventTypeRetransmit, RemoteAddr = [],
     LocalAddr = [], PID = 1, Comm = replicate 16 0, Retransmits = 1, ConnectErrors = 0,
     ConnectLatency = 0, ObservedAt = t\<rparr>"

lemma demo_tcp_key [simp]: "remoteEndpointKey parse6 (demo_tcp key t) = key"
  by (simp add: remoteEndpointKey_def demo_tcp_def)

definition demo_ref :: EndpointRef where
  "demo_ref = \<lparr>er_Service = ''pay'', er_InstanceID = ''a'', er_Address = ''h:1''\<rparr>"

definition demo_aggregator :: Aggregator where
  "demo_aggregator = \<lparr>ag_endpoints = [(7, demo_ref)], ag_rows = []\<rparr>"

lemma demo_aggregator_rows: "ag_rows demo_aggregator = []"
  by (simp add: demo_aggregator_def)

lemma demo_window:
  "active_keys parse6 [demo_tcp 7 5, demo_tcp 7 9, demo_tcp 0 9] = {7}"
  "window_sample parse6 (ag_endpoints demo_aggregator) [demo_tcp 7 5, demo_tcp 7 9, demo_tcp 0 9] 7 =
     \<lparr>ns_Service = ''pay'', ns_InstanceID = ''a'', ns_Address = ''h:1'', ns_TCPRetransmit = 2,
      ns_ConnectError = 0, ns_ConnectLatency = 0, ns_WindowStart = 5, ns_WindowEnd = 9\<rparr>"
  by (auto simp: active_keys_def)
    (simp add: window_sample_def sample_of_row_def window_row_def events_for_def ref_for_def
      demo_aggregator_def demo_ref_def demo_tcp_def remoteEndpointKey_def window_start_def IsZero_def zero_time_def
      wrap64_def)

theorem snapshot_reports_window_witness:
  "mset (fst (SnapshotAndReset rev
      (fold (Observe (\<lambda>s. None)) [demo_tcp 7 5, demo_tcp 7 9, demo_tcp 0 9] demo_aggregator))) =
   {#\<lparr>ns_Service = ''pay'', ns_InstanceID = ''a'', ns_Address = ''h:1'', ns_TCPRetransmit = 2,
      ns_ConnectError = 0, ns_ConnectLatency = 0, ns_WindowStart = 5, ns_WindowEnd = 9\<rparr>#}"
  using snapshot_reports_window [OF demo_aggregator_rows, of rev "\<lambda>s. None" "[demo_tcp 7 5, demo_tcp 7 9, demo_tcp 0 9]"]
  by (simp only: case_prod_beta Let_def demo_window) (simp add: demo_window)

theorem reporter_uploads_windows_witness:
  "list_all2 (reports_window (\<lambda>s. None) [(7, demo_ref)])
     (fst (run_reporter (\<lambda>s. None)
        [Received (demo_tcp 7 5), Ticked rev [demo_tcp 7 9] (None :: unit option), Ticked rev [] None,
         Received (demo_tcp 7 11)]
        \<lparr>rp_collector = True, rp_client = True, rp_aggregator = Some demo_aggregator, rp_interval = 1\<rparr>))
     [[demo_tcp 7 5, demo_tcp 7 9]]"
  using reporter_uploads_windows [OF _ _ _ demo_aggregator_rows, of
      "\<lparr>rp_collector = True, rp_client = True, rp_aggregator = Some demo_aggregator, rp_interval = 1\<rparr>"
      "[Received (demo_tcp 7 5), Ticked rev [demo_tcp 7 9] (None :: unit option), Ticked rev [] None,
         Received (demo_tcp 7 11)]" "\<lambda>s. None"]
  by (simp add: case_prod_beta active_keys_def demo_aggregator_def)

end
