(* ===== verification/Collector.thy ===== *)
theory Collector
  imports Net_Aggregator
begin

text \<open>
  The read loop of \<open>src/agent/ebpf/collector_linux.go\<close>, between the ring buffer of the BPF program and the
  channel the reporter drains: a record that does not decode is skipped, an event that finds the channel
  full is counted as dropped. The ring-buffer reader is a library; what it returns is the input. Loading
  and attaching of the programs is done by the same library and is not modelled.
\<close>

definition eventBufferSize :: nat where
  "eventBufferSize = 1024"

record linuxCollector =
  lc_events :: "TCPEvent list"
  lc_dropped :: nat

definition NewCollector :: linuxCollector where
  "NewCollector = \<lparr>lc_events = [], lc_dropped = 0\<rparr>"

datatype read_result = ErrClosed | ReadError | RawSample "byte list"

definition offer_event :: "TCPEvent \<Rightarrow> linuxCollector \<Rightarrow> linuxCollector" where
  "offer_event event c =
     (if length (lc_events c) < eventBufferSize then c\<lparr>lc_events := lc_events c @ [event]\<rparr>
      else c\<lparr>lc_dropped := lc_dropped c + 1\<rparr>)"

fun readLoop :: "read_result list \<Rightarrow> linuxCollector \<Rightarrow> linuxCollector" where
  "readLoop [] c = c"
| "readLoop (ErrClosed # reads) c = c"
| "readLoop (ReadError # reads) c = readLoop reads c"
| "readLoop (RawSample bytes # reads) c =
     (case DecodeRawTCPEvent bytes of
        Inl err \<Rightarrow> readLoop reads c
      | Inr event \<Rightarrow> readLoop reads (offer_event event c))"

text \<open>While the channel has room nothing is lost and nothing reordered.\<close>

lemma readLoop_room:
  assumes "list_all2 (\<lambda>bytes event. DecodeRawTCPEvent bytes = Inr event) samples events"
    and "length (lc_events c) + length events \<le> eventBufferSize"
  shows "readLoop (map RawSample samples) c = c\<lparr>lc_events := lc_events c @ events\<rparr>"
  using assms
proof (induction arbitrary: c rule: list_all2_induct)
  case (Cons bytes samples event events)
  then show ?case
    using Cons.IH [of "c\<lparr>lc_events := lc_events c @ [event]\<rparr>"] by (simp add: offer_event_def)
qed simp

text \<open>When it has none, every further event is lost and counted.\<close>

lemma readLoop_full:
  assumes "list_all2 (\<lambda>bytes event. DecodeRawTCPEvent bytes = Inr event) samples events"
    and "eventBufferSize \<le> length (lc_events c)"
  shows "readLoop (map RawSample samples) c = c\<lparr>lc_dropped := lc_dropped c + length events\<rparr>"
  using assms
proof (induction arbitrary: c rule: list_all2_induct)
  case (Cons bytes samples event events)
  then show ?case
    by (simp add: offer_event_def)
qed simp


section \<open>From sockets to events\<close>

text \<open>
  A run of the retransmission probe: the environment of the helpers, the address of the socket, and the
  bytes of the socket object, with room in the ring buffer.
\<close>

type_synonym retransmission = "kenv \<times> u64 \<times> byte list"

fun readable :: "retransmission \<Rightarrow> bool" where
  "readable (e, sk, img) \<longleftrightarrow> holds_object e sk img \<and> length img = sizeof struct_sock \<and> sk \<noteq> 0 \<and> ringbuf_reserve e 64 \<and> comm_ok e"

fun remote_of :: "retransmission \<Rightarrow> EndpointKey" where
  "remote_of (e, sk, img) = packEndpoint (bytes_word32 img) (of_nat (256 * unat (img ! 12) + unat (img ! 13)))"

definition run_retransmissions :: "core_relocs \<Rightarrow> retransmission list \<Rightarrow> 'm bpf_state \<Rightarrow> 'm bpf_state" where
  "run_retransmissions r runs s = fold (\<lambda>(e, sk, img). aegis_tcp_retransmit r e sk) runs s"

definition is_retransmission :: "EndpointKey \<Rightarrow> TCPEvent \<Rightarrow> bool" where
  "is_retransmission key event \<longleftrightarrow> RemoteKey event = key \<and> RemoteAddr event = [] \<and> Retransmits event = 1 \<and> ConnectErrors event = 0"

lemma retransmissions_decode:
  assumes "core_patched struct_sock struct_sockaddr_in r" "list_all readable runs"
  shows "\<exists>samples events. ring (run_retransmissions r runs s) = ring s @ samples \<and>
    list_all2 (\<lambda>bytes event. DecodeRawTCPEvent bytes = Inr event) samples events \<and>
    list_all2 (\<lambda>run event. is_retransmission (remote_of run) event) runs events"
  using assms(2)
proof (induction runs arbitrary: s)
  case (Cons run runs)
  obtain e sk img where run: "run = (e, sk, img)"
    by (cases run)
  let ?s = "aegis_tcp_retransmit r e sk s" and ?ev = "retransmit_event r e sk"
  have ok: "readable (e, sk, img)"
    using Cons.prems run by simp
  then have ring: "ring ?s = ring s @ [event_bytes ?ev]"
    by (simp add: retransmit_eq)
  have "retransmit_event r e sk = \<lparr>
       te_timestamp_ns = ktime_get_ns e, te_pid = pid_of (current_pid_tgid e),
       te_type = AEGIS_EVENT_RETRANSMIT, te_family = bytes_word16 (drop 16 img),
       te_sport = bytes_word16 (drop 14 img),
       te_dport = of_nat (256 * unat (img ! 12) + unat (img ! 13)), te_pad = 0, te_ret = 0,
       te_saddr_v4 = bytes_word32 (drop 4 img), te_daddr_v4 = bytes_word32 img,
       te_connect_latency_ns = 0, te_comm = current_comm e\<rparr>"
    using ok by (intro retransmit_event_object [OF assms(1)]) simp_all
  then obtain event where event: "DecodeRawTCPEvent (event_bytes ?ev) = Inr event" "is_retransmission (remote_of run) event"
    using ok decode_event_bytes [of ?ev]
    by (simp add: run comm_ok_def is_retransmission_def AEGIS_EVENT_RETRANSMIT_def EventTypeRetransmit_def EventTypeConnect_def)
  obtain samples events where rest: "ring (run_retransmissions r runs ?s) = ring ?s @ samples"
    "list_all2 (\<lambda>bytes event. DecodeRawTCPEvent bytes = Inr event) samples events"
    "list_all2 (\<lambda>run event. is_retransmission (remote_of run) event) runs events"
    using Cons.IH [of ?s] Cons.prems by auto
  show ?case
    using event rest ring
    by (intro exI [of _ "event_bytes ?ev # samples"] exI [of _ "event # events"]) (simp add: run run_retransmissions_def)
qed (simp add: run_retransmissions_def)

lemma retransmissions_counted:
  assumes "list_all2 (\<lambda>run event. is_retransmission (remote_of run) event) runs events"
  shows "sum_list (map Retransmits (events_for parse6 k events)) = int (length (filter (\<lambda>run. remote_of run = k) runs)) \<and>
    sum_list (map ConnectErrors (events_for parse6 k events)) = 0 \<and>
    (k \<in> remoteEndpointKey parse6 ` set events \<longleftrightarrow> (\<exists>run\<in>set runs. remote_of run = k))"
  using assms
proof (induction rule: list_all2_induct)
  case (Cons run runs event events)
  then have "remoteEndpointKey parse6 event = remote_of run" "Retransmits event = 1" "ConnectErrors event = 0"
    by (simp_all add: is_retransmission_def remoteEndpointKey_def)
  then show ?case
    using Cons.IH by (auto simp: events_for_def)
qed (simp add: events_for_def)

section \<open>A window with two retransmissions\<close>

definition demo_run :: retransmission where
  "demo_run = (demo_sock_env, 4096, demo_sock)"

lemma demo_run_readable: "readable demo_run"
  using demo_sock_holds by (simp add: demo_run_def demo_run_ok ksize) (simp add: demo_sock_def demo_env_def)

lemma demo_run_remote: "remote_of demo_run = packEndpoint 0x0100007F 8080"
  by (simp add: demo_run_def demo_sock_def bytes_word32_def)

lemma demo_parse: "ParseEndpointKey (\<lambda>s. None) ''127.0.0.1:8080'' = Inr (packEndpoint 0x0100007F 8080)"
  by code_simp

end
