(* ===== verification/Go_Float.thy ===== *)
theory Go_Float
  imports Complex_Main "HOL-Library.Log_Nat"
begin

text \<open>
  Go's \<open>float64\<close>: IEEE 754 binary64 with round-to-nearest-even, as the compiler implements it on
  amd64 (every operation rounded on its own). A finite number is a sign and an exact rational
  magnitude; operations compute exactly and round. NaN payloads are not represented.
\<close>

section \<open>Rounding\<close>

definition pow2 :: "int \<Rightarrow> rat" where
  "pow2 k = (if 0 \<le> k then 2 ^ nat k else 1 / 2 ^ nat (- k))"

definition ilog2 :: "rat \<Rightarrow> int" where
  "ilog2 x =
     (let (a, b) = quotient_of x;
          k = int (floorlog 2 (nat a)) - int (floorlog 2 (nat b))
      in if pow2 k \<le> x then k else k - 1)"

definition quantum :: "rat \<Rightarrow> int" where
  "quantum x = max (ilog2 x - 52) (- 1074)"

definition half_even :: "rat \<Rightarrow> int" where
  "half_even x =
     (let n = \<lfloor>x\<rfloor>; d = x - of_int n
      in if d < 1 / 2 then n else if 1 / 2 < d then n + 1 else if even n then n else n + 1)"

definition round_mag :: "rat \<Rightarrow> rat" where
  "round_mag x =
     (if x \<le> 0 then 0 else of_int (half_even (x / pow2 (quantum x))) * pow2 (quantum x))"

lemma pow2_pos [simp]: "0 < pow2 k"
  by (simp add: pow2_def)

lemma pow2_nonneg [simp]: "0 \<le> pow2 k" and pow2_neq_0 [simp]: "pow2 k \<noteq> 0"
  using pow2_pos [of k] by linarith+

lemma pow2_powi: "pow2 k = 2 powi k"
  by (simp add: pow2_def power_int_def field_simps)

lemma pow2_add: "pow2 (j + k) = pow2 j * pow2 k"
  by (simp add: pow2_powi power_int_add)

lemma pow2_mono: "j \<le> k \<Longrightarrow> pow2 j \<le> pow2 k"
  by (simp add: pow2_powi power_int_increasing)

lemma pow2_less_iff [simp]: "pow2 j < pow2 k \<longleftrightarrow> j < k"
  by (metis pow2_mono pow2_powi linorder_not_le power_int_strict_increasing numeral_One
      one_less_numeral_iff semiring_norm(76))

lemma pow2_int: "0 \<le> k \<Longrightarrow> pow2 k = of_int (2 ^ nat k)"
  by (simp add: pow2_def)

lemma floorlog2_bounds:
  assumes "0 < a"
  shows "pow2 (int (floorlog 2 (nat a)) - 1) \<le> of_int a" "of_int a < pow2 (int (floorlog 2 (nat a)))"
proof -
  let ?l = "floorlog 2 (nat a)"
  have l: "0 < ?l" "2 ^ (?l - 1) \<le> nat a" "nat a < 2 ^ ?l"
    using floorlog_bounds [of "nat a" 2] assms by (auto simp: floorlog_def)
  then have "2 ^ (?l - 1) \<le> a" "a < 2 ^ ?l"
    using assms by (simp_all add: nat_less_iff le_nat_iff)
  then have "of_int (2 ^ (?l - 1)) \<le> (of_int a :: rat)" "(of_int a :: rat) < of_int (2 ^ ?l)"
    by (simp_all only: of_int_le_iff of_int_less_iff)
  then show "pow2 (int ?l - 1) \<le> of_int a" "of_int a < pow2 (int ?l)"
    using l(1) by (simp_all add: pow2_def nat_diff_distrib)
qed

lemma ilog2_bounds:
  assumes "0 < x"
  shows "pow2 (ilog2 x) \<le> x" "x < pow2 (ilog2 x + 1)"
proof -
  obtain a b where ab: "quotient_of x = (a, b)"
    by fastforce
  then have x: "x = of_int a / of_int b" and b: "0 < b"
    using quotient_of_div quotient_of_denom_pos by auto
  then have a: "0 < a"
    using assms by (simp add: zero_less_divide_iff)
  define i j where "i = int (floorlog 2 (nat a))" and "j = int (floorlog 2 (nat b))"
  note bounds = floorlog2_bounds [OF a, folded i_def] floorlog2_bounds [OF b, folded j_def]
  have "pow2 (i - j - 1) * pow2 j \<le> of_int a" "of_int a < pow2 (i - j + 1) * pow2 (j - 1)"
    using bounds by (simp_all flip: pow2_add add: algebra_simps)
  then have low: "pow2 (i - j - 1) * of_int b \<le> of_int a" and high: "of_int a < pow2 (i - j + 1) * of_int b"
    using bounds by (meson less_imp_le mult_left_mono order_trans order_less_le_trans pow2_nonneg)+
  have log: "ilog2 x = (if pow2 (i - j) \<le> x then i - j else i - j - 1)"
    by (simp add: ilog2_def ab i_def j_def)
  have "pow2 (i - j - 1) \<le> x" "x < pow2 (i - j + 1)"
    using low high b by (simp_all add: x field_simps)
  then show "pow2 (ilog2 x) \<le> x" "x < pow2 (ilog2 x + 1)"
    by (auto simp: log)
qed

lemma ilog2_mono:
  assumes "0 < x" "x \<le> y"
  shows "ilog2 x \<le> ilog2 y"
proof -
  have "pow2 (ilog2 x) < pow2 (ilog2 y + 1)"
    using ilog2_bounds [of x] ilog2_bounds [of y] assms by linarith
  then show ?thesis
    by simp
qed

lemma quantum_mono: "0 < x \<Longrightarrow> x \<le> y \<Longrightarrow> quantum x \<le> quantum y"
  using ilog2_mono [of x y] by (auto simp: quantum_def)

lemma half_even_floor: "\<lfloor>x\<rfloor> \<le> half_even x" "half_even x \<le> \<lfloor>x\<rfloor> + 1"
  by (simp_all add: half_even_def Let_def)

lemma half_even_mono:
  assumes "x \<le> y"
  shows "half_even x \<le> half_even y"
proof (cases "\<lfloor>x\<rfloor> = \<lfloor>y\<rfloor>")
  case True
  then show ?thesis
    using assms by (auto simp: half_even_def Let_def)
next
  case False
  then have "\<lfloor>x\<rfloor> + 1 \<le> \<lfloor>y\<rfloor>"
    using floor_mono [OF assms] by linarith
  then show ?thesis
    using half_even_floor [of x] half_even_floor [of y] by linarith
qed

lemma half_even_int [simp]: "half_even (of_int n) = n"
  by (simp add: half_even_def)

lemma half_even_nonneg: "0 \<le> x \<Longrightarrow> 0 \<le> half_even x"
  using half_even_mono [of 0 x] half_even_int [of 0] by simp

lemma ilog2_eqI:
  assumes "pow2 k \<le> x" "x < pow2 (k + 1)"
  shows "ilog2 x = k"
proof -
  have "0 < x"
    using assms(1) pow2_pos [of k] by linarith
  then have "pow2 (ilog2 x) < pow2 (k + 1)" "pow2 k < pow2 (ilog2 x + 1)"
    using ilog2_bounds [of x] assms by linarith+
  then show ?thesis
    by simp
qed

lemma ilog2_pow2 [simp]: "ilog2 (pow2 k) = k"
  by (rule ilog2_eqI) simp_all

text \<open>Rounding never crosses a multiple of the quantum, and keeps one.\<close>

lemma round_mag_le:
  assumes "x \<le> of_int n * pow2 (quantum x)" "0 < x"
  shows "round_mag x \<le> of_int n * pow2 (quantum x)"
proof -
  have "half_even (x / pow2 (quantum x)) \<le> n"
    using half_even_mono [of "x / pow2 (quantum x)" "of_int n"] assms(1)
    by (simp add: pos_divide_le_eq)
  then show ?thesis
    using assms(2) by (simp add: round_mag_def)
qed

lemma round_mag_ge:
  assumes "of_int n * pow2 (quantum x) \<le> x" "0 < x"
  shows "of_int n * pow2 (quantum x) \<le> round_mag x"
proof -
  have "n \<le> half_even (x / pow2 (quantum x))"
    using half_even_mono [of "of_int n" "x / pow2 (quantum x)"] assms(1)
    by (simp add: pos_le_divide_eq)
  then show ?thesis
    using assms(2) by (simp add: round_mag_def)
qed

lemma round_mag_multiple: "x = of_int n * pow2 (quantum x) \<Longrightarrow> 0 \<le> x \<Longrightarrow> round_mag x = x"
  using round_mag_le [of x n] round_mag_ge [of n x]
  by (cases "x = 0") (auto simp: round_mag_def)

lemma pow2_multiple: "q \<le> k \<Longrightarrow> pow2 k = of_int (2 ^ nat (k - q)) * pow2 q"
  using pow2_add [of "k - q" q] pow2_int [of "k - q"] by simp

lemma round_mag_pow2: "- 1074 \<le> k \<Longrightarrow> round_mag (pow2 k) = pow2 k"
  by (rule round_mag_multiple [OF pow2_multiple]) (simp_all add: quantum_def)

lemma round_mag_nonneg [simp]: "0 \<le> round_mag x"
  by (simp add: round_mag_def half_even_nonneg)

lemma round_mag_0 [simp]: "round_mag 0 = 0"
  by (simp add: round_mag_def)

lemma round_mag_mono:
  assumes "x \<le> y"
  shows "round_mag x \<le> round_mag y"
proof (cases "0 < x")
  case True
  consider "quantum x = quantum y" | "quantum x < quantum y"
    using quantum_mono [OF True assms] by linarith
  then show ?thesis
  proof cases
    case 1
    then show ?thesis
      using True assms by (simp add: round_mag_def half_even_mono divide_right_mono)
  next
    case 2
    let ?e = "ilog2 y"
    have q: "quantum y = ?e - 52" "quantum x \<le> ?e" "ilog2 x + 1 \<le> ?e"
      using 2 by (auto simp: quantum_def)
    have y: "0 < y" "quantum y \<le> ?e"
      using True assms q(1) by auto
    have "x \<le> pow2 ?e"
      using ilog2_bounds [OF True] pow2_mono [OF q(3)] by linarith
    then have "round_mag x \<le> pow2 ?e"
      unfolding pow2_multiple [OF q(2)] by (rule round_mag_le [OF _ True])
    moreover have "pow2 ?e \<le> round_mag y"
      using ilog2_bounds(1) [OF y(1)] unfolding pow2_multiple [OF y(2)]
      by (rule round_mag_ge [OF _ y(1)])
    ultimately show ?thesis
      by linarith
  qed
qed (use assms in \<open>simp add: round_mag_def [of x]\<close>)

lemma round_mag_idem [simp]: "round_mag (round_mag x) = round_mag x"
proof (cases "0 < x")
  case pos: True
  let ?y = "round_mag x" and ?e = "ilog2 x" and ?q = "quantum x"
  obtain n where n: "?y = of_int n * pow2 ?q"
    using pos by (auto simp: round_mag_def)
  have q: "- 1074 \<le> ?q" "?q \<le> ?e \<or> ?q = - 1074"
    by (auto simp: quantum_def)
  show ?thesis
  proof (cases "?q \<le> ?e")
    case True
    have low: "pow2 ?e \<le> ?y"
      using ilog2_bounds(1) [OF pos] unfolding pow2_multiple [OF True]
      by (rule round_mag_ge [OF _ pos])
    have "?q \<le> ?e + 1"
      using True by simp
    note up = pow2_multiple [OF this]
    have high: "?y \<le> pow2 (?e + 1)"
      using less_imp_le [OF ilog2_bounds(2) [OF pos]] unfolding up
      by (rule round_mag_le [OF _ pos])
    show ?thesis
    proof (cases "?y = pow2 (?e + 1)")
      case True
      then show ?thesis
        using \<open>?q \<le> ?e\<close> q by (simp add: round_mag_pow2)
    next
      case False
      then have "ilog2 ?y = ?e"
        using low high by (intro ilog2_eqI) auto
      then have "quantum ?y = ?q"
        by (simp add: quantum_def)
      then show ?thesis
        using n by (metis round_mag_multiple round_mag_nonneg)
    qed
  next
    case False
    then have "?q = - 1074" "x < pow2 ?q"
      using q ilog2_bounds(2) [OF pos] pow2_mono [of "?e + 1" ?q] by auto
    then have "n \<le> 1" "0 \<le> n"
      using round_mag_le [of x 1] round_mag_nonneg [of x] pos by (auto simp: n zero_le_mult_iff)
    then have "n = 0 \<or> n = 1"
      by linarith
    then show ?thesis
      using n \<open>?q = - 1074\<close> round_mag_pow2 [of "- 1074"] by auto
  qed
qed (simp add: round_mag_def)


text \<open>The relative error of rounding in the normal range.\<close>

lemma half_even_error: "\<bar>of_int (half_even x) - x\<bar> \<le> 1 / 2"
proof -
  have "of_int \<lfloor>x\<rfloor> \<le> x" "x < of_int \<lfloor>x\<rfloor> + 1"
    by linarith+
  then show ?thesis
    by (auto simp: half_even_def Let_def abs_le_iff)
qed

lemma round_mag_error:
  assumes "pow2 (- 1022) \<le> x"
  shows "\<bar>round_mag x - x\<bar> \<le> x * pow2 (- 53)"
proof -
  let ?p = "pow2 (quantum x)"
  have pos: "0 < x"
    using assms pow2_pos [of "- 1022"] by linarith
  have "pow2 (- 1022) < pow2 (ilog2 x + 1)"
    using assms ilog2_bounds(2) [OF pos] by linarith
  then have "quantum x = ilog2 x - 52"
    by (simp add: quantum_def)
  then have "?p * (1 / 2) = pow2 (ilog2 x) * pow2 (- 53)"
    using pow2_add [of "ilog2 x" "- 52"] pow2_add [of "- 52" "- 1"] by (simp add: pow2_def)
  also have "\<dots> \<le> x * pow2 (- 53)"
    using ilog2_bounds(1) [OF pos] by (simp add: mult_right_mono)
  finally have ulp: "?p * (1 / 2) \<le> x * pow2 (- 53)" .
  have "round_mag x - x = (of_int (half_even (x / ?p)) - x / ?p) * ?p"
    using pos by (simp add: round_mag_def algebra_simps)
  then have "\<bar>round_mag x - x\<bar> = \<bar>of_int (half_even (x / ?p)) - x / ?p\<bar> * ?p"
    by (simp add: abs_mult)
  also have "\<dots> \<le> (1 / 2) * ?p"
    by (rule mult_right_mono [OF half_even_error]) simp
  finally show ?thesis
    using ulp by (simp add: mult.commute)
qed

lemma round_mag_rel:
  assumes "x = 0 \<or> pow2 (- 1022) \<le> x"
  shows "x * (1 - pow2 (- 53)) \<le> round_mag x" "round_mag x \<le> x * (1 + pow2 (- 53))"
  using assms round_mag_error [of x] by (auto simp: abs_le_iff algebra_simps)

lemma pow2_numerals:
  "pow2 20 = 1048576" "pow2 (- 53) = 1 / 9007199254740992" "pow2 (- 30) = 1 / 1073741824"
  "pow2 0 = 1"
  by (simp_all add: pow2_def)

lemma round_error_small:
  assumes "1 / 1073741824 \<le> x"
  shows "\<bar>round_mag x - x\<bar> \<le> x * (1 / 9007199254740992)"
proof -
  have "pow2 (- 1022) \<le> pow2 (- 30)"
    by (rule pow2_mono) simp
  then show ?thesis
    using round_mag_error [of x] assms by (simp add: pow2_numerals)
qed


section \<open>Values and comparisons\<close>

datatype float64 = NaN | Infinity bool | Fin bool rat

fun fval :: "float64 \<Rightarrow> rat" where
  "fval (Fin s m) = (if s then - m else m)"
| "fval a = 0"

fun wf_float :: "float64 \<Rightarrow> bool" where
  "wf_float (Fin s m) \<longleftrightarrow> 0 \<le> m \<and> round_mag m = m \<and> m < pow2 1024"
| "wf_float a \<longleftrightarrow> True"

definition fround :: "bool \<Rightarrow> rat \<Rightarrow> float64" where
  "fround s m = (let r = round_mag m in if pow2 1024 \<le> r then Infinity s else Fin s r)"

lemma wf_fround [simp]: "wf_float (fround s m)"
  by (auto simp: fround_def Let_def)

text \<open>A constant of the source, rounded by the compiler; and a conversion from an integer.\<close>

definition of_rat64 :: "rat \<Rightarrow> float64" where
  "of_rat64 x = fround (x < 0) \<bar>x\<bar>"

definition of_int64 :: "int \<Rightarrow> float64" where
  "of_int64 i = of_rat64 (of_int i)"

fun flt :: "float64 \<Rightarrow> float64 \<Rightarrow> bool" where
  "flt NaN b = False"
| "flt a NaN = False"
| "flt (Infinity s) b = (s \<and> b \<noteq> Infinity True)"
| "flt (Fin s m) (Infinity t) = (\<not> t)"
| "flt (Fin s m) (Fin t n) = (fval (Fin s m) < fval (Fin t n))"

fun feq :: "float64 \<Rightarrow> float64 \<Rightarrow> bool" where
  "feq (Infinity s) (Infinity t) = (s = t)"
| "feq (Fin s m) (Fin t n) = (fval (Fin s m) = fval (Fin t n))"
| "feq a b = False"

definition fle :: "float64 \<Rightarrow> float64 \<Rightarrow> bool" where
  "fle a b \<longleftrightarrow> flt a b \<or> feq a b"

definition IsNaN :: "float64 \<Rightarrow> bool" where
  "IsNaN a \<longleftrightarrow> a = NaN"

lemma fle_total: "a \<noteq> NaN \<Longrightarrow> b \<noteq> NaN \<Longrightarrow> \<not> fle a b \<longleftrightarrow> flt b a"
  by (cases a; cases b) (auto simp: fle_def)

lemma fle_not_NaN: "fle a b \<Longrightarrow> a \<noteq> NaN \<and> b \<noteq> NaN"
  by (cases a; cases b) (auto simp: fle_def)

lemma fle_refl: "a \<noteq> NaN \<Longrightarrow> fle a a"
  by (cases a) (auto simp: fle_def)

lemma fle_trans: "fle a b \<Longrightarrow> fle b c \<Longrightarrow> fle a c"
  by (cases a; cases b; cases c) (auto simp: fle_def split: if_splits)

lemma not_flt_inf [simp]: "\<not> flt (Infinity False) b"
  by (cases b) auto

lemma flt_irrefl [simp]: "\<not> flt a a"
  by (cases a) auto

lemma flt_fle_trans: "flt a b \<Longrightarrow> fle b c \<Longrightarrow> flt a c"
  by (cases a; cases b; cases c) (auto simp: fle_def split: if_splits)

lemma fle_flt_trans: "fle a b \<Longrightarrow> flt b c \<Longrightarrow> flt a c"
  by (cases a; cases b; cases c) (auto simp: fle_def split: if_splits)

text \<open>Numbers with at most 53 significant bits are exact.\<close>

lemma round_mag_exact:
  assumes "0 \<le> n" "n < 2 ^ 53" "- 1074 \<le> q"
  shows "round_mag (of_int n * pow2 q) = of_int n * pow2 q"
proof (cases "n = 0")
  case False
  let ?x = "of_int n * pow2 q :: rat"
  have pos: "0 < ?x"
    using False assms by simp
  have "(of_int n :: rat) < of_int (2 ^ 53)"
    using assms(2) by (simp only: of_int_less_iff)
  then have "of_int n < pow2 53"
    by (simp add: pow2_def)
  then have "?x < pow2 53 * pow2 q"
    by (rule mult_strict_right_mono) simp
  then have "pow2 (ilog2 ?x) < pow2 (53 + q)"
    using ilog2_bounds(1) [OF pos] unfolding pow2_add by linarith
  then have "quantum ?x \<le> q"
    using assms(3) by (simp add: quantum_def)
  then have "?x = of_int (n * 2 ^ nat (q - quantum ?x)) * pow2 (quantum ?x)"
    using pow2_multiple [of "quantum ?x" q] by simp
  then show ?thesis
    by (rule round_mag_multiple) (use pos in simp)
qed simp

lemma of_rat64_exact:
  assumes "x = of_int n * pow2 q" "0 \<le> n" "n < 2 ^ 53" "- 1074 \<le> q" "q \<le> 900"
  shows "of_rat64 x = Fin False x"
proof -
  have "0 \<le> x"
    using assms(1, 2) by simp
  have "(of_int n :: rat) < of_int (2 ^ 53)"
    using assms(3) by (simp only: of_int_less_iff)
  then have "of_int n < pow2 53"
    by (simp add: pow2_def)
  then have "x < pow2 53 * pow2 q"
    unfolding assms(1) by (rule mult_strict_right_mono) simp
  also have "\<dots> \<le> pow2 1024"
    using assms(5) by (simp flip: pow2_add add: pow2_mono)
  finally show ?thesis
    using \<open>0 \<le> x\<close> round_mag_exact [OF assms(2-4)]
    by (simp add: of_rat64_def fround_def Let_def assms(1))
qed

lemma of_int64_exact:
  assumes "0 \<le> n" "n < 2 ^ 53"
  shows "of_int64 n = Fin False (of_int n)"
  unfolding of_int64_def by (rule of_rat64_exact [of _ n 0]) (use assms in \<open>simp_all add: pow2_def\<close>)

lemma fround_finite:
  assumes "x \<le> pow2 k" "- 1074 \<le> k" "k < 1024"
  shows "fround s x = Fin s (round_mag x)"
proof -
  have "round_mag x \<le> pow2 k"
    using round_mag_mono [OF assms(1)] round_mag_pow2 [OF assms(2)] by simp
  also have "\<dots> < pow2 1024"
    using assms(3) by simp
  finally show ?thesis
    by (simp add: fround_def Let_def)
qed


section \<open>Arithmetic\<close>

fun fneg :: "float64 \<Rightarrow> float64" where
  "fneg NaN = NaN"
| "fneg (Infinity s) = Infinity (\<not> s)"
| "fneg (Fin s m) = Fin (\<not> s) m"

fun fadd :: "float64 \<Rightarrow> float64 \<Rightarrow> float64" where
  "fadd NaN b = NaN"
| "fadd a NaN = NaN"
| "fadd (Infinity s) (Infinity t) = (if s = t then Infinity s else NaN)"
| "fadd (Infinity s) (Fin t n) = Infinity s"
| "fadd (Fin s m) (Infinity t) = Infinity t"
| "fadd (Fin s m) (Fin t n) =
     (let v = fval (Fin s m) + fval (Fin t n)
      in if v = 0 then Fin (s \<and> t) 0 else fround (v < 0) \<bar>v\<bar>)"

definition fsub :: "float64 \<Rightarrow> float64 \<Rightarrow> float64" where
  "fsub a b = fadd a (fneg b)"

fun fmul :: "float64 \<Rightarrow> float64 \<Rightarrow> float64" where
  "fmul NaN b = NaN"
| "fmul a NaN = NaN"
| "fmul (Infinity s) (Infinity t) = Infinity (s \<noteq> t)"
| "fmul (Infinity s) (Fin t n) = (if n = 0 then NaN else Infinity (s \<noteq> t))"
| "fmul (Fin s m) (Infinity t) = (if m = 0 then NaN else Infinity (s \<noteq> t))"
| "fmul (Fin s m) (Fin t n) = fround (s \<noteq> t) (m * n)"

fun fdiv :: "float64 \<Rightarrow> float64 \<Rightarrow> float64" where
  "fdiv NaN b = NaN"
| "fdiv a NaN = NaN"
| "fdiv (Infinity s) (Infinity t) = NaN"
| "fdiv (Infinity s) (Fin t n) = Infinity (s \<noteq> t)"
| "fdiv (Fin s m) (Infinity t) = Fin (s \<noteq> t) 0"
| "fdiv (Fin s m) (Fin t n) =
     (if n = 0 then (if m = 0 then NaN else Infinity (s \<noteq> t)) else fround (s \<noteq> t) (m / n))"

text \<open>The functions of package \<open>math\<close> that the sources call.\<close>

fun math_Abs :: "float64 \<Rightarrow> float64" where
  "math_Abs NaN = NaN"
| "math_Abs (Infinity s) = Infinity False"
| "math_Abs (Fin s m) = Fin False m"

fun math_Floor :: "float64 \<Rightarrow> float64" where
  "math_Floor (Fin s m) = (if m = 0 then Fin s m else
     (let n = \<lfloor>fval (Fin s m)\<rfloor> in Fin (n < 0) (of_int \<bar>n\<bar>)))"
| "math_Floor a = a"

fun Signbit :: "float64 \<Rightarrow> bool" where
  "Signbit (Fin s m) = s"
| "Signbit (Infinity s) = s"
| "Signbit NaN = False"

definition math_Max :: "float64 \<Rightarrow> float64 \<Rightarrow> float64" where
  "math_Max x y =
     (if x = Infinity False \<or> y = Infinity False then Infinity False
      else if IsNaN x \<or> IsNaN y then NaN
      else if feq x (Fin False 0) \<and> feq x y then (if Signbit x then y else x)
      else if flt y x then x else y)"

text \<open>
  Conversion to \<open>int64\<close> truncates; out of range the language leaves the result to the implementation,
  and amd64 gives the least integer.
\<close>

definition to_int64 :: "float64 \<Rightarrow> int" where
  "to_int64 a =
     (case a of
        Fin s m \<Rightarrow> (let n = (if s then - \<lfloor>m\<rfloor> else \<lfloor>m\<rfloor>)
                   in if - 9223372036854775808 \<le> n \<and> n \<le> 9223372036854775807 then n
                      else - 9223372036854775808)
      | _ \<Rightarrow> - 9223372036854775808)"

section \<open>Non-negative numbers and monotonicity\<close>

definition nonneg :: "float64 \<Rightarrow> bool" where
  "nonneg a \<longleftrightarrow> wf_float a \<and> fle (Fin False 0) a"

lemma zero_sign [simp]: "(if s then - 0 else 0) = (0 :: rat)"
  by simp

lemma nonneg_iff:
  "nonneg a \<longleftrightarrow> a = Infinity False \<or> (\<exists>s m. a = Fin s m \<and> wf_float a \<and> (s \<longrightarrow> m = 0))"
  by (cases a) (auto simp: nonneg_def fle_def)

lemma nonneg_not_NaN: "nonneg a \<Longrightarrow> a \<noteq> NaN"
  by (auto simp: nonneg_iff)

lemma nonneg_fround [simp]: "nonneg (fround False m)"
  by (auto simp: nonneg_iff fround_def Let_def)

lemma pow2_not_le_0 [simp]: "\<not> pow2 k \<le> 0"
  by (simp add: not_le)

lemma nonneg_zero [simp]: "nonneg (Fin s 0)"
  by (simp add: nonneg_iff)

lemma fround_zero [simp]: "fround s 0 = Fin s 0"
  by (simp add: fround_def)

lemma fround_mono:
  assumes "m \<le> n"
  shows "fle (fround False m) (fround False n)"
  using round_mag_mono [OF assms] by (auto simp: fround_def Let_def fle_def)

lemma fle_zero: "nonneg a \<Longrightarrow> fle (Fin s 0) a"
  by (cases a) (auto simp: nonneg_def fle_def)

lemma fle_inf: "a \<noteq> NaN \<Longrightarrow> fle a (Infinity False)"
  by (cases a) (auto simp: fle_def)

lemma nonneg_of_int64 [simp]: "0 \<le> i \<Longrightarrow> nonneg (of_int64 i)"
  by (simp add: of_int64_def of_rat64_def)

lemma of_int64_mono: "0 \<le> i \<Longrightarrow> i \<le> j \<Longrightarrow> fle (of_int64 i) (of_int64 j)"
  by (simp add: of_int64_def of_rat64_def fround_mono)

lemma nonneg_fadd [simp]:
  assumes "nonneg a" "nonneg b"
  shows "nonneg (fadd a b)"
  using assms by (cases a; cases b) (auto simp: nonneg_iff Let_def fround_def split: if_splits)

lemma fadd_mono:
  assumes "nonneg a" "nonneg b" "nonneg c" "fle a b"
  shows "fle (fadd a c) (fadd b c)"
proof (cases "b = Infinity False \<or> c = Infinity False")
  case True
  then have "fadd b c = Infinity False"
    using assms by (cases b; cases c) (auto simp: nonneg_iff)
  then show ?thesis
    using nonneg_not_NaN [OF nonneg_fadd [OF assms(1, 3)]] by (simp add: fle_inf)
next
  case False
  then obtain r m s n t k where abc: "a = Fin r m" "b = Fin s n" "c = Fin t k"
    "r \<longrightarrow> m = 0" "s \<longrightarrow> n = 0" "t \<longrightarrow> k = 0" "0 \<le> m" "0 \<le> n" "0 \<le> k"
    using assms by (auto simp: nonneg_iff fle_def)
  then have vals: "fval a = m" "fval b = n" "fval c = k" "m \<le> n"
    using assms(4) by (auto simp: fle_def)
  then have sum: "fadd a c = (if m + k = 0 then Fin (r \<and> t) 0 else fround False (m + k))"
    "fadd b c = (if n + k = 0 then Fin (s \<and> t) 0 else fround False (n + k))"
    using abc by (auto simp: Let_def)
  show ?thesis
    using vals(4) abc unfolding sum by (auto simp: fround_mono fle_zero fle_refl)
qed

lemma nonneg_fmul [simp]:
  assumes "nonneg a" "nonneg c" "c \<noteq> Infinity False" "a \<noteq> Infinity False"
  shows "nonneg (fmul a c)"
proof -
  obtain r m t k where ac: "a = Fin r m" "c = Fin t k" "r \<longrightarrow> m = 0" "t \<longrightarrow> k = 0"
    using assms by (auto simp: nonneg_iff)
  then show ?thesis
    by (cases "m * k = 0") auto
qed

lemma fmul_mono:
  assumes "nonneg a" "nonneg b" "nonneg c" "fle a b" "c \<noteq> Infinity False" "b \<noteq> Infinity False"
  shows "fle (fmul a c) (fmul b c)"
proof -
  obtain r m s n t k where abc: "a = Fin r m" "b = Fin s n" "c = Fin t k"
    "r \<longrightarrow> m = 0" "s \<longrightarrow> n = 0" "t \<longrightarrow> k = 0" "0 \<le> m" "0 \<le> n" "0 \<le> k" "m \<le> n"
    using assms by (auto simp: nonneg_iff fle_def split: if_splits)
  show ?thesis
  proof (cases "m * k = 0")
    case True
    then show ?thesis
      using abc nonneg_fmul [OF assms(2, 3, 5, 6)] by (auto simp: fle_zero)
  next
    case False
    then have "fmul a c = fround False (m * k)" "fmul b c = fround False (n * k)"
      using abc by auto
    then show ?thesis
      using abc by (simp add: fround_mono mult_right_mono)
  qed
qed

text \<open>Truncation of a floor, as long as it fits into 64 bits.\<close>

lemma to_int64_floor:
  assumes "nonneg a" "flt a (of_rat64 9223372036854775808)"
  shows "to_int64 (math_Floor a) = \<lfloor>fval a\<rfloor>"
proof -
  have "round_mag (pow2 63) = pow2 63" "pow2 63 < pow2 1024"
    by (rule round_mag_pow2) simp_all
  then have "of_rat64 9223372036854775808 = Fin False 9223372036854775808"
    by (simp add: of_rat64_def fround_def Let_def pow2_def)
  then obtain s m where a: "a = Fin s m" "s \<longrightarrow> m = 0" "0 \<le> m" "m < 9223372036854775808"
    using assms by (auto simp: nonneg_iff)
  then have "\<lfloor>m\<rfloor> \<le> 9223372036854775807" "0 \<le> \<lfloor>m\<rfloor>"
    by (simp_all add: floor_le_iff)
  then have "(0 :: rat) \<le> of_int \<lfloor>m\<rfloor>"
    by simp
  then have "- 9223372036854775808 \<le> rat_of_int \<lfloor>m\<rfloor>"
    by linarith
  then show ?thesis
    using a by (auto simp: to_int64_def Let_def)
qed

lemma fle_fval: "nonneg a \<Longrightarrow> fle a b \<Longrightarrow> b \<noteq> Infinity False \<Longrightarrow> fval a \<le> fval b"
  by (cases a; cases b) (auto simp: nonneg_iff fle_def split: if_splits)

section \<open>Finite non-negative numbers by their value\<close>

text \<open>\<open>isf a m\<close>: the number \<open>a\<close> is finite, not negative, and its value is \<open>m\<close>.\<close>

definition isf :: "float64 \<Rightarrow> rat \<Rightarrow> bool" where
  "isf a m \<longleftrightarrow> 0 \<le> m \<and> (\<exists>s. a = Fin s m \<and> (s \<longrightarrow> m = 0))"

lemma isf_Fin [simp]: "0 \<le> m \<Longrightarrow> isf (Fin False m) m"
  by (auto simp: isf_def)

lemma isf_nonneg: "isf a m \<Longrightarrow> 0 \<le> m"
  by (simp add: isf_def)

lemma isf_fround:
  assumes "0 \<le> m" "m \<le> pow2 1000"
  shows "isf (fround False m) (round_mag m)"
  using fround_finite [OF assms(2), of False] by simp

lemma isf_of_rat64: "0 \<le> x \<Longrightarrow> x \<le> pow2 1000 \<Longrightarrow> isf (of_rat64 x) (round_mag x)"
  by (simp add: of_rat64_def isf_fround)

lemma pow2_1000_ge: "of_int (2 ^ 100) \<le> pow2 1000"
  using pow2_mono [of 100 1000] pow2_int [of 100] by simp

lemma isf_of_int64:
  assumes "0 \<le> i" "i < 2 ^ 64"
  shows "isf (of_int64 i) (round_mag (of_int i))"
proof -
  have "i \<le> 2 ^ 100"
    using assms(2) by simp
  then have "rat_of_int i \<le> of_int (2 ^ 100)"
    by (simp only: of_int_le_iff)
  then show ?thesis
    using assms(1) pow2_1000_ge by (simp add: of_int64_def isf_of_rat64)
qed

lemma isf_fadd:
  assumes "isf a m" "isf b n" "m + n \<le> pow2 1000"
  shows "isf (fadd a b) (round_mag (m + n))"
proof (cases "m + n = 0")
  case True
  then have "m = 0" "n = 0"
    using assms(1, 2) by (auto simp: isf_def add_nonneg_eq_0_iff)
  then show ?thesis
    using assms(1, 2) by (auto simp: isf_def)
next
  case False
  then have "fadd a b = fround False (m + n)"
    using assms(1, 2) by (auto simp: isf_def Let_def)
  then show ?thesis
    using isf_fround [of "m + n"] assms by (simp add: isf_nonneg)
qed

lemma isf_fmul:
  assumes "isf a m" "isf b n" "m * n \<le> pow2 1000"
  shows "isf (fmul a b) (round_mag (m * n))"
proof (cases "m * n = 0")
  case False
  then have "fmul a b = fround False (m * n)"
    using assms(1, 2) by (auto simp: isf_def)
  then show ?thesis
    using isf_fround [of "m * n"] assms by (simp add: isf_nonneg)
qed (use assms in \<open>auto simp: isf_def\<close>)

lemma isf_fdiv:
  assumes "isf a m" "isf b n" "0 < n" "m / n \<le> pow2 1000"
  shows "isf (fdiv a b) (round_mag (m / n))"
proof (cases "m = 0")
  case False
  then have "fdiv a b = fround False (m / n)"
    using assms(1-3) by (auto simp: isf_def)
  then show ?thesis
    using isf_fround [of "m / n"] assms by (simp add: isf_nonneg)
qed (use assms in \<open>auto simp: isf_def\<close>)

lemma isf_fle: "isf a m \<Longrightarrow> isf b n \<Longrightarrow> fle a b \<longleftrightarrow> m \<le> n"
  by (auto simp: isf_def fle_def split: if_splits)

lemma isf_flt: "isf a m \<Longrightarrow> isf b n \<Longrightarrow> flt a b \<longleftrightarrow> m < n"
  by (auto simp: isf_def)

lemma isf_math_Max:
  assumes "isf a m" "isf b n"
  shows "isf (math_Max a b) (max m n)"
proof -
  obtain s t where ab: "a = Fin s m" "b = Fin t n" "0 \<le> m" "0 \<le> n" "s \<longrightarrow> m = 0" "t \<longrightarrow> n = 0"
    using assms by (auto simp: isf_def)
  have "feq a (Fin False 0) = (m = 0)" "feq a b = (m = n)"
    using ab by auto
  then have "math_Max a b = (if m = 0 \<and> n = 0 then (if s then b else a) else if n < m then a else b)"
    using ab(1, 2) isf_flt [OF assms(2, 1)] by (simp add: math_Max_def IsNaN_def)
  then show ?thesis
    using assms by (auto simp: max_def)
qed

lemma isf_abs_fsub:
  assumes "isf a m" "isf b n" "m \<le> pow2 1000" "n \<le> pow2 1000"
  shows "isf (math_Abs (fsub a b)) (round_mag \<bar>m - n\<bar>)"
proof (cases "m = n")
  case False
  have "\<bar>m - n\<bar> \<le> pow2 1000"
    using assms isf_nonneg [OF assms(1)] isf_nonneg [OF assms(2)] by (simp add: abs_le_iff)
  then have "fround s \<bar>m - n\<bar> = Fin s (round_mag \<bar>m - n\<bar>)" for s
    by (rule fround_finite) simp_all
  moreover have "\<exists>s. fsub a b = fround s \<bar>m - n\<bar>"
    using assms(1, 2) False by (auto simp: isf_def fsub_def Let_def)
  ultimately show ?thesis
    by auto
qed (use assms in \<open>auto simp: isf_def fsub_def Let_def\<close>)

lemma isf_max_fsub:
  assumes "isf a m" "isf b n" "m \<le> pow2 1000" "n \<le> pow2 1000"
  shows "isf (math_Max (Fin False 0) (fsub a b)) (if n < m then round_mag (m - n) else 0)"
proof (cases "n < m")
  case True
  then have "fsub a b = fround False (m - n)"
    using assms(1, 2) by (auto simp: isf_def fsub_def Let_def)
  moreover have "m - n \<le> pow2 1000"
    using assms(3) isf_nonneg [OF assms(2)] by simp
  ultimately have "isf (fsub a b) (round_mag (m - n))"
    using True isf_fround [of "m - n"] by simp
  then show ?thesis
    using True isf_math_Max [of "Fin False 0" 0 "fsub a b" "round_mag (m - n)"] by (simp add: max_def)
next
  case False
  have "n - m \<le> pow2 1000"
    using assms(4) isf_nonneg [OF assms(1)] by simp
  then have "fround s (n - m) = Fin s (round_mag (n - m))" for s
    by (rule fround_finite) simp_all
  then have "\<exists>s r. fsub a b = Fin s r \<and> 0 \<le> r \<and> (\<not> s \<longrightarrow> r = 0)"
    using assms(1, 2) False by (auto simp: isf_def fsub_def Let_def)
  then show ?thesis
    using False by (auto simp: math_Max_def isf_def IsNaN_def)
qed

end
