(* ===== verification/Latency_Histogram.thy ===== *)
theory Latency_Histogram
  imports Prelude Go_Float
begin

text \<open>
  The latency histograms of \<open>src/pkg/telemetry/latency_histogram.go\<close> and the buckets of
  \<open>src/pkg/telemetry/recorder.go\<close>: the table of upper bounds, the binary search in it, the histogram of
  eight shards and the plain one, and their quantiles. Counters are \<open>uint64\<close>, as \<open>nat\<close> with the
  wrap-around written out. Proved are that the shards do not matter, that a quantile is the bucket of the
  sample at its rank, and how near it is to that sample.
\<close>

unbundle bit_operations_syntax

section \<open>Buckets\<close>

definition u64_add :: "nat \<Rightarrow> nat \<Rightarrow> nat" where
  "u64_add a b = (a + b) mod 18446744073709551616"

definition latencyHistogramBuckets :: nat where
  "latencyHistogramBuckets = 128"

definition maxLatencyBucketNanos :: nat where
  "maxLatencyBucketNanos = 3600000000000"

text \<open>The body of the loop that builds the table, and the loop for a number of entries.\<close>

definition next_bound :: "nat \<Rightarrow> nat" where
  "next_bound bound =
     (let nextBound = u64_add bound (u64_add bound 6 div 7)
      in if nextBound \<le> bound \<or> nextBound \<ge> maxLatencyBucketNanos then maxLatencyBucketNanos else nextBound)"

primrec bounds_loop :: "nat \<Rightarrow> nat \<Rightarrow> nat list" where
  "bounds_loop 0 bound = []"
| "bounds_loop (Suc k) bound = bound # bounds_loop k (next_bound bound)"

definition buildLatencyBucketUpperBounds :: "nat list" where
  "buildLatencyBucketUpperBounds = 0 # bounds_loop (latencyHistogramBuckets - 2) 1000 @ [maxLatencyBucketNanos]"

definition latencyBucketUpperBounds :: "nat list" where
  "latencyBucketUpperBounds = buildLatencyBucketUpperBounds"

function bucket_search :: "nat \<Rightarrow> nat \<Rightarrow> nat \<Rightarrow> nat" where
  "bucket_search nanos lo hi =
     (if lo < hi
      then (let mid = lo + (hi - lo) div 2
            in if nanos \<le> latencyBucketUpperBounds ! mid then bucket_search nanos lo mid
               else bucket_search nanos (mid + 1) hi)
      else lo)"
  by pat_completeness auto

termination
  by (relation "measure (\<lambda>(nanos, lo, hi). hi - lo)") auto

declare bucket_search.simps [simp del]

definition latencyBucketIndex :: "nat \<Rightarrow> nat" where
  "latencyBucketIndex nanos = bucket_search nanos 0 (length latencyBucketUpperBounds - 1)"


section \<open>Histograms\<close>

text \<open>Conversion to \<open>uint64\<close>; out of range amd64 gives \<open>2 ^ 63\<close>.\<close>

definition to_uint64 :: "float64 \<Rightarrow> nat" where
  "to_uint64 a =
     (case a of
        Fin s m \<Rightarrow> if \<lfloor>m\<rfloor> = 0 \<or> \<not> s \<and> \<lfloor>m\<rfloor> < 18446744073709551616 then nat \<lfloor>m\<rfloor> else 9223372036854775808
      | _ \<Rightarrow> 9223372036854775808)"

definition clamp_quantile :: "float64 \<Rightarrow> float64" where
  "clamp_quantile q =
     (let q = (if fle q (of_int64 0) then of_int64 0 else q)
      in if flt (of_int64 1) q then of_int64 1 else q)"

definition quantile_target :: "float64 \<Rightarrow> nat \<Rightarrow> nat" where
  "quantile_target q tot =
     (let target = to_uint64 (fadd (fmul q (of_int64 (int tot))) (of_rat64 (999999999 / 1000000000)))
      in if target = 0 then 1 else target)"

text \<open>The scan: the bound of the first bucket at which the running sum reaches the target.\<close>

fun bucket_scan :: "nat \<Rightarrow> nat \<Rightarrow> nat list \<Rightarrow> nat list \<Rightarrow> nat" where
  "bucket_scan target seen (c # counts) (b # bounds) =
     (let seen = u64_add seen c in if seen \<ge> target then b else bucket_scan target seen counts bounds)"
| "bucket_scan target seen _ _ = latencyBucketUpperBounds ! (length latencyBucketUpperBounds - 1)"

record latencyHistogram =
  lh_count :: nat
  lh_buckets :: "nat list"

definition new_latencyHistogram :: latencyHistogram where
  "new_latencyHistogram = \<lparr>lh_count = 0, lh_buckets = replicate latencyHistogramBuckets 0\<rparr>"

definition sample_nanos :: "duration \<Rightarrow> nat" where
  "sample_nanos sample = nat (if sample < 0 then 0 else sample)"

definition latencyHistogram_Record :: "duration \<Rightarrow> latencyHistogram \<Rightarrow> latencyHistogram" where
  "latencyHistogram_Record sample h =
     (let idx = latencyBucketIndex (sample_nanos sample)
      in h\<lparr>lh_buckets := (lh_buckets h)[idx := u64_add (lh_buckets h ! idx) 1], lh_count := u64_add (lh_count h) 1\<rparr>)"

definition latencyHistogram_Quantile :: "float64 \<Rightarrow> latencyHistogram \<Rightarrow> duration" where
  "latencyHistogram_Quantile q h =
     (if lh_count h = 0 then 0
      else int (bucket_scan (quantile_target (clamp_quantile q) (lh_count h)) 0 (lh_buckets h) latencyBucketUpperBounds))"

definition latencyHistShardCount :: nat where
  "latencyHistShardCount = 8"

type_synonym shardedLatencyHistogram = "latencyHistogram list"

definition new_shardedLatencyHistogram :: shardedLatencyHistogram where
  "new_shardedLatencyHistogram = replicate latencyHistShardCount new_latencyHistogram"

text \<open>The counter of the process that spreads samples over the shards: its next value, and the shard.\<close>

definition latencyHistShardIndex :: "u32 \<Rightarrow> nat \<times> u32" where
  "latencyHistShardIndex shard_seq = (let s = shard_seq + 1 in (unat (s AND of_nat (latencyHistShardCount - 1)), s))"

definition sharded_Record :: "duration \<Rightarrow> u32 \<times> shardedLatencyHistogram \<Rightarrow> u32 \<times> shardedLatencyHistogram" where
  "sharded_Record sample acc =
     (case acc of (shard_seq, h) \<Rightarrow>
        (case latencyHistShardIndex shard_seq of (k, shard_seq) \<Rightarrow>
           (shard_seq, h[k := latencyHistogram_Record sample (h ! k)])))"

definition merge_counts :: "nat list \<Rightarrow> latencyHistogram \<Rightarrow> nat list" where
  "merge_counts merged shard = map2 u64_add merged (lh_buckets shard)"

definition sharded_Quantile :: "float64 \<Rightarrow> shardedLatencyHistogram \<Rightarrow> duration" where
  "sharded_Quantile q h =
     (let q = clamp_quantile q;
          merged = foldl merge_counts (replicate latencyHistogramBuckets 0) h;
          tot = foldl (\<lambda>t shard. u64_add t (lh_count shard)) 0 h
      in if tot = 0 then 0 else int (bucket_scan (quantile_target q tot) 0 merged latencyBucketUpperBounds))"

definition sharded_Reset :: "shardedLatencyHistogram \<Rightarrow> shardedLatencyHistogram" where
  "sharded_Reset h = map (\<lambda>shard. shard\<lparr>lh_count := 0, lh_buckets := map (\<lambda>_. 0) (lh_buckets shard)\<rparr>) h"

definition latencyHistogram_Reset :: "latencyHistogram \<Rightarrow> latencyHistogram" where
  "latencyHistogram_Reset h = h\<lparr>lh_buckets := map (\<lambda>_. 0) (lh_buckets h), lh_count := 0\<rparr>"


section \<open>The table\<close>

text \<open>Entry \<open>i + 1\<close> is the \<open>i\<close>-th iterate from a microsecond on; the iterates stay far below an hour.\<close>

lemma next_bound_step:
  assumes "0 < b" "b \<le> 3000000000000"
  shows "next_bound b = b + (b + 6) div 7"
proof -
  have "0 < (b + 6) div 7" "b + (b + 6) div 7 < 3600000000000"
    using assms by auto
  then show ?thesis
    using assms(2) by (simp add: next_bound_def u64_add_def maxLatencyBucketNanos_def Let_def)
qed

lemma funpow_step: "(f ^^ numeral n) x = (f ^^ pred_numeral n) (f x)"
  by (simp add: numeral_eq_Suc funpow_swap1)

lemma bounds_last: "(next_bound ^^ 125) 1000 = 17785293019"
  by (simp add: funpow_step next_bound_step)

lemma bounds_loop_nth: "i < k \<Longrightarrow> bounds_loop k b ! i = (next_bound ^^ i) b"
proof (induction k arbitrary: b i)
  case (Suc k)
  then show ?case
    by (cases i) (simp_all add: funpow_swap1)
qed simp

lemma length_bounds_loop [simp]: "length (bounds_loop k b) = k"
  by (induction k arbitrary: b) simp_all

lemma bounds_length [simp]: "length latencyBucketUpperBounds = 128"
  by (simp add: latencyBucketUpperBounds_def buildLatencyBucketUpperBounds_def latencyHistogramBuckets_def)

lemma bounds_nth:
  "latencyBucketUpperBounds ! 0 = 0"
  "i < 126 \<Longrightarrow> latencyBucketUpperBounds ! (Suc i) = (next_bound ^^ i) 1000"
  "latencyBucketUpperBounds ! 127 = 3600000000000"
  by (simp_all add: latencyBucketUpperBounds_def buildLatencyBucketUpperBounds_def latencyHistogramBuckets_def
      maxLatencyBucketNanos_def nth_Cons' nth_append bounds_loop_nth)

lemma next_bound_grows: "b \<le> 3600000000000 \<Longrightarrow> b \<le> next_bound b \<and> next_bound b \<le> 3600000000000"
  by (simp add: next_bound_def maxLatencyBucketNanos_def Let_def)

lemma iterate_bounded: "(next_bound ^^ i) 1000 \<le> 3600000000000"
  by (induction i) (simp_all add: next_bound_grows)

lemma iterate_mono: "i \<le> j \<Longrightarrow> (next_bound ^^ i) 1000 \<le> (next_bound ^^ j) 1000"
  by (rule lift_Suc_mono_le) (simp_all add: iterate_bounded next_bound_grows)

lemma iterate_range: "i \<le> 125 \<Longrightarrow> 1000 \<le> (next_bound ^^ i) 1000 \<and> (next_bound ^^ i) 1000 \<le> 17785293019"
  using iterate_mono [of 0 i] iterate_mono [of i 125] by (simp add: bounds_last)

lemma bounds_126: "latencyBucketUpperBounds ! 126 = 17785293019"
  using bounds_nth(2) [of 125] by (simp add: bounds_last)

lemma bounds_1: "latencyBucketUpperBounds ! 1 = 1000"
  using bounds_nth(2) [of 0] by simp

lemma bounds_step:
  assumes "0 < i" "i < 126"
  shows "latencyBucketUpperBounds ! (Suc i) = latencyBucketUpperBounds ! i + (latencyBucketUpperBounds ! i + 6) div 7"
proof -
  obtain k where k: "i = Suc k"
    using assms(1) by (cases i) auto
  then have "latencyBucketUpperBounds ! (Suc i) = next_bound (latencyBucketUpperBounds ! i)"
    using bounds_nth(2) [of "Suc k"] bounds_nth(2) [of k] assms(2) by simp
  moreover have "latencyBucketUpperBounds ! i \<le> 17785293019" "0 < latencyBucketUpperBounds ! i"
    using iterate_range [of k] bounds_nth(2) [of k] assms(2) k by auto
  ultimately show ?thesis
    using next_bound_step by simp
qed

lemma bounds_Suc_less: "i < 127 \<Longrightarrow> latencyBucketUpperBounds ! i < latencyBucketUpperBounds ! (Suc i)"
proof -
  assume "i < 127"
  then consider "i = 0" | "0 < i" "i < 126" | "i = 126"
    by linarith
  then show ?thesis
  proof cases
    case 2
    have "1000 \<le> latencyBucketUpperBounds ! i"
      using iterate_range [of "i - 1"] bounds_nth(2) [of "i - 1"] 2 by simp
    then show ?thesis
      using bounds_step [OF 2] by simp
  qed (simp_all add: bounds_nth bounds_1 [simplified] bounds_126)
qed

lemma bounds_mono: "i < j \<Longrightarrow> j < 128 \<Longrightarrow> latencyBucketUpperBounds ! i < latencyBucketUpperBounds ! j"
proof (induction j)
  case (Suc j)
  then show ?case
    using bounds_Suc_less [of j] by (cases "i = j") (auto intro: less_trans)
qed simp


section \<open>The search\<close>

lemma bucket_search_spec:
  assumes "lo \<le> hi" "hi < 128" "\<forall>i<lo. latencyBucketUpperBounds ! i < nanos"
    and "nanos \<le> latencyBucketUpperBounds ! hi \<or> hi = 127"
  defines "k \<equiv> bucket_search nanos lo hi"
  shows "k < 128 \<and> (\<forall>i<k. latencyBucketUpperBounds ! i < nanos) \<and> (nanos \<le> latencyBucketUpperBounds ! k \<or> k = 127)"
  using assms(1-4) unfolding k_def
proof (induction nanos lo hi rule: bucket_search.induct)
  case (1 nanos lo hi)
  let ?mid = "lo + (hi - lo) div 2"
  show ?case
  proof (cases "lo < hi")
    case less: True
    then have mid: "lo \<le> ?mid" "?mid < hi" "?mid < 128"
      using "1.prems" by auto
    show ?thesis
    proof (cases "nanos \<le> latencyBucketUpperBounds ! ?mid")
      case True
      then have "bucket_search nanos lo hi = bucket_search nanos lo ?mid"
        using less by (subst bucket_search.simps) (simp add: Let_def)
      then show ?thesis
        using "1.IH"(1) [OF less refl True] mid "1.prems" True by simp
    next
      case False
      have "latencyBucketUpperBounds ! i < nanos" if "i < ?mid + 1" for i
        using False bounds_mono [of i ?mid] mid(3) that by (cases "i = ?mid") auto
      moreover have "bucket_search nanos lo hi = bucket_search nanos (?mid + 1) hi"
        using less False by (subst bucket_search.simps) (simp add: Let_def)
      ultimately show ?thesis
        using "1.IH"(2) [OF less refl False] mid "1.prems" by simp
    qed
  next
    case False
    then have "bucket_search nanos lo hi = lo" "lo = hi"
      using "1.prems"(1) by (simp_all add: bucket_search.simps)
    then show ?thesis
      using "1.prems" by simp
  qed
qed

lemma latencyBucketIndex_spec:
  "latencyBucketIndex n < 128"
  "i < latencyBucketIndex n \<Longrightarrow> latencyBucketUpperBounds ! i < n"
  "n \<le> latencyBucketUpperBounds ! latencyBucketIndex n \<or> latencyBucketIndex n = 127"
  using bucket_search_spec [of 0 127 n] by (auto simp: latencyBucketIndex_def)

lemma latencyBucketIndex_mono:
  assumes "m \<le> n"
  shows "latencyBucketIndex m \<le> latencyBucketIndex n"
proof (rule ccontr)
  assume "\<not> ?thesis"
  then have less: "latencyBucketIndex n < latencyBucketIndex m"
    by simp
  from latencyBucketIndex_spec(2) [OF this] latencyBucketIndex_spec(3) [of n] assms have "latencyBucketIndex n = 127"
    by linarith
  with less latencyBucketIndex_spec(1) [of m] show False
    by linarith
qed

text \<open>How far the bound of the bucket of a latency is from the latency.\<close>

lemma bucket_accuracy:
  assumes "n \<le> 17785293019"
  defines "b \<equiv> latencyBucketUpperBounds ! latencyBucketIndex n"
  shows "n \<le> b" "b \<le> max 1000 (n + n div 7)"
proof -
  have last: "latencyBucketIndex n \<noteq> 127"
    using latencyBucketIndex_spec(2) [of 126 n] assms(1) by (auto simp: bounds_126)
  then show "n \<le> b"
    using latencyBucketIndex_spec(3) [of n] by (simp add: b_def)
  consider "latencyBucketIndex n = 0" | "latencyBucketIndex n = 1" | i where "latencyBucketIndex n = Suc i" "0 < i" "i < 126"
    using last latencyBucketIndex_spec(1) [of n] by (cases "latencyBucketIndex n") (auto simp: less_Suc_eq)
  then show "b \<le> max 1000 (n + n div 7)"
  proof cases
    case 3
    define u where "u = latencyBucketUpperBounds ! i"
    have "u < n" "b = u + (u + 6) div 7"
      using latencyBucketIndex_spec(2) [of i n] bounds_step [OF 3(2, 3)] 3(1) by (simp_all add: b_def u_def)
    then show ?thesis
      by linarith
  qed (simp_all add: b_def bounds_nth(1) bounds_1 [simplified])
qed

lemma bucket_overflow: "17785293019 < n \<Longrightarrow> latencyBucketUpperBounds ! latencyBucketIndex n = 3600000000000"
proof -
  assume n: "17785293019 < n"
  have low: "\<not> n \<le> latencyBucketUpperBounds ! i" if "i \<le> 126" for i
    using bounds_mono [of i 126] that n by (cases "i = 126") (auto simp: bounds_126)
  have "latencyBucketIndex n = 127"
    using latencyBucketIndex_spec(1, 3) [of n] low [of "latencyBucketIndex n"] by linarith
  then show ?thesis
    by (simp add: bounds_nth(3))
qed


section \<open>The scan\<close>

lemma u64_add_small: "a + b < 18446744073709551616 \<Longrightarrow> u64_add a b = a + b"
  by (simp add: u64_add_def)

text \<open>The scan stops at the first bucket whose running sum reaches the target.\<close>

lemma bucket_scan_nth:
  assumes "length counts = length bounds" "k < length counts" "seen + sum_list counts < 18446744073709551616"
    and "\<And>i. i < length counts \<Longrightarrow> target \<le> seen + sum_list (take (Suc i) counts) \<longleftrightarrow> k \<le> i"
  shows "bucket_scan target seen counts bounds = bounds ! k"
  using assms
proof (induction target seen counts bounds arbitrary: k rule: bucket_scan.induct)
  case (1 target seen c counts b bounds)
  have add: "u64_add seen c = seen + c"
    using "1.prems"(3) by (intro u64_add_small) simp
  show ?case
  proof (cases k)
    case 0
    then show ?thesis
      using "1.prems"(4) [of 0] add by simp
  next
    case (Suc j)
    have stop: "\<not> target \<le> seen + c"
      using "1.prems"(4) [of 0] Suc by simp
    have "bucket_scan target (u64_add seen c) counts bounds = bounds ! j"
    proof (rule "1.IH" [OF refl])
      show "target \<le> u64_add seen c + sum_list (take (Suc i) counts) \<longleftrightarrow> j \<le> i" if "i < length counts" for i
        using "1.prems"(4) [of "Suc i"] that add Suc by (simp add: add.assoc)
    qed (use "1.prems" add Suc stop in auto)
    then show ?thesis
      using stop add Suc by simp
  qed
qed auto


section \<open>Ranks\<close>

lemma sorted_rank:
  assumes "sorted ys" "0 < t" "t \<le> length ys" "\<And>x y. x \<le> y \<Longrightarrow> P y \<Longrightarrow> P x"
  shows "t \<le> length (filter P ys) \<longleftrightarrow> P (ys ! (t - 1))"
proof
  assume P: "P (ys ! (t - 1))"
  have "P (ys ! i)" if "i < t" for i
    using sorted_nth_mono [OF assms(1), of i "t - 1"] that assms(2-4) P by fastforce
  then have "P x" if "x \<in> set (take t ys)" for x
    using that assms(3) by (auto simp: in_set_conv_nth)
  then have "filter P (take t ys) = take t ys"
    by simp
  then have "t \<le> length (filter P (take t ys @ drop t ys))"
    using assms(3) by (simp only: filter_append length_append) simp
  then show "t \<le> length (filter P ys)"
    by simp
next
  assume le: "t \<le> length (filter P ys)"
  show "P (ys ! (t - 1))"
  proof (rule ccontr)
    assume not: "\<not> P (ys ! (t - 1))"
    have "\<not> P (ys ! (t - 1 + i))" if "t - 1 + i < length ys" for i
      using sorted_nth_mono [OF assms(1), of "t - 1" "t - 1 + i"] that assms(4) not by fastforce
    then have "\<not> P x" if "x \<in> set (drop (t - 1) ys)" for x
      using that assms(3) by (auto simp: in_set_conv_nth)
    then have "filter P (drop (t - 1) ys) = []"
      by (simp add: filter_empty_conv)
    then have "filter P ys = filter P (take (t - 1) ys)"
      by (metis append_Nil2 append_take_drop_id filter_append)
    then have "length (filter P ys) \<le> t - 1"
      using length_filter_le [of P "take (t - 1) ys"] by simp
    with le assms(2) show False
      by simp
  qed
qed

section \<open>What a histogram holds\<close>

definition record_all :: "duration list \<Rightarrow> latencyHistogram" where
  "record_all xs = fold latencyHistogram_Record xs new_latencyHistogram"

lemma record_all_snoc: "record_all (xs @ [x]) = latencyHistogram_Record x (record_all xs)"
  by (simp add: record_all_def)

lemma record_all_length [simp]: "length (lh_buckets (record_all xs)) = 128"
  by (induction xs rule: rev_induct)
    (simp_all add: record_all_snoc latencyHistogram_Record_def Let_def, simp add: record_all_def new_latencyHistogram_def latencyHistogramBuckets_def)

lemma record_all_counts:
  assumes "length xs < 18446744073709551616"
  shows "lh_count (record_all xs) = length xs \<and>
    (\<forall>i<128. lh_buckets (record_all xs) ! i = length (filter (\<lambda>x. latencyBucketIndex (sample_nanos x) = i) xs))"
  using assms
proof (induction xs rule: rev_induct)
  case Nil
  show ?case
    by (simp add: record_all_def new_latencyHistogram_def latencyHistogramBuckets_def)
next
  case (snoc x xs)
  have small: "length (filter P xs) + 1 < 18446744073709551616" for P :: "duration \<Rightarrow> bool"
    using snoc.prems by (simp add: le_less_trans [OF length_filter_le])
  have IH: "lh_count (record_all xs) = length xs"
    "\<And>i. i < 128 \<Longrightarrow> lh_buckets (record_all xs) ! i = length (filter (\<lambda>x. latencyBucketIndex (sample_nanos x) = i) xs)"
    using snoc by simp_all
  show ?case
    using snoc.prems IH small latencyBucketIndex_spec(1)
    by (auto simp: record_all_snoc latencyHistogram_Record_def Let_def u64_add_small nth_list_update)
qed

lemma sum_take_filter:
  assumes "k \<le> length cs" "\<And>i. i < k \<Longrightarrow> cs ! i = length (filter (\<lambda>x. f x = i) xs)"
  shows "sum_list (take k cs) = length (filter (\<lambda>x. f x < k) xs)"
  using assms
proof (induction k)
  case (Suc k)
  have "length (filter (\<lambda>x. f x < Suc k) xs) = length (filter (\<lambda>x. f x < k) xs) + length (filter (\<lambda>x. f x = k) xs)"
    by (induction xs) auto
  then show ?case
    using Suc by (simp add: take_Suc_conv_app_nth)
qed simp

text \<open>The quantile at a rank: the bound of the bucket of the sample at that rank.\<close>

lemma scan_rank:
  assumes "length xs < 18446744073709551616" "0 < t" "t \<le> length xs"
  defines "p \<equiv> sort (map sample_nanos xs) ! (t - 1)"
  shows "bucket_scan t 0 (lh_buckets (record_all xs)) latencyBucketUpperBounds = latencyBucketUpperBounds ! latencyBucketIndex p"
proof (rule bucket_scan_nth)
  let ?bs = "lh_buckets (record_all xs)" and ?ys = "sort (map sample_nanos xs)"
  have prefix: "sum_list (take k ?bs) = length (filter (\<lambda>x. latencyBucketIndex x < k) ?ys)" if "k \<le> 128" for k
  proof -
    have "sum_list (take k ?bs) = length (filter (\<lambda>x. latencyBucketIndex (sample_nanos x) < k) xs)"
      using that record_all_counts [OF assms(1)] by (intro sum_take_filter) simp_all
    also have "\<dots> = length (filter (\<lambda>x. latencyBucketIndex x < k) (map sample_nanos xs))"
      by (simp add: filter_map comp_def)
    also have "\<dots> = length (filter (\<lambda>x. latencyBucketIndex x < k) ?ys)"
      by (simp add: filter_sort)
    finally show ?thesis .
  qed
  have "sum_list ?bs = length (filter (\<lambda>x. latencyBucketIndex x < 128) ?ys)"
    using prefix [of 128] by simp
  then show "0 + sum_list ?bs < 18446744073709551616"
    using assms(1) by (simp add: le_less_trans [OF length_filter_le])
  show "t \<le> 0 + sum_list (take (Suc i) ?bs) \<longleftrightarrow> latencyBucketIndex p \<le> i" if "i < length ?bs" for i
    using that prefix [of "Suc i"] assms(2, 3) sorted_rank [of ?ys t "\<lambda>x. latencyBucketIndex x < Suc i"] latencyBucketIndex_mono
    by (auto simp: p_def less_Suc_eq_le intro: order_trans)
qed (simp_all add: latencyBucketIndex_spec(1))

section \<open>The shards\<close>

text \<open>
  What a histogram promises its user: recording and quantiles are those of the plain histogram that it
  stands for.
\<close>

locale histogram =
  fixes ok :: "'h \<Rightarrow> bool"
    and view :: "'h \<Rightarrow> latencyHistogram"
    and rec_sample :: "duration \<Rightarrow> 'h \<Rightarrow> 'h"
    and quantile :: "float64 \<Rightarrow> 'h \<Rightarrow> duration"
  assumes ok_record: "ok h \<Longrightarrow> ok (rec_sample x h)"
    and view_record: "ok h \<Longrightarrow> view (rec_sample x h) = latencyHistogram_Record x (view h)"
    and view_quantile: "ok h \<Longrightarrow> quantile q h = latencyHistogram_Quantile q (view h)"
begin

lemma view_fold: "ok h \<Longrightarrow> ok (fold rec_sample xs h) \<and> view (fold rec_sample xs h) = fold latencyHistogram_Record xs (view h)"
  by (induction xs arbitrary: h) (simp_all add: ok_record view_record)

lemma fresh_quantile:
  assumes "ok h" "view h = new_latencyHistogram"
  shows "quantile q (fold rec_sample xs h) = latencyHistogram_Quantile q (record_all xs)"
  using view_fold [OF assms(1), of xs] assms(2) by (simp add: view_quantile record_all_def)

end

definition merged_view :: "shardedLatencyHistogram \<Rightarrow> latencyHistogram" where
  "merged_view h = \<lparr>lh_count = foldl (\<lambda>t shard. u64_add t (lh_count shard)) 0 h,
     lh_buckets = foldl merge_counts (replicate latencyHistogramBuckets 0) h\<rparr>"

definition shards_ok :: "shardedLatencyHistogram \<Rightarrow> bool" where
  "shards_ok h \<longleftrightarrow> length h = latencyHistShardCount \<and> list_all (\<lambda>s. length (lh_buckets s) = latencyHistogramBuckets) h"

lemma u64_add_mod [simp]: "u64_add (a mod 18446744073709551616) b = u64_add a b"
  by (simp add: u64_add_def mod_simps)

lemma foldl_u64_add:
  "a < 18446744073709551616 \<Longrightarrow> foldl (\<lambda>t s. u64_add t (f s)) a h = (a + sum_list (map f h)) mod 18446744073709551616"
proof (induction h arbitrary: a)
  case (Cons s h)
  have "u64_add a (f s) < 18446744073709551616"
    by (simp add: u64_add_def)
  from Cons.IH [OF this] show ?case
    by (simp add: u64_add_def mod_add_left_eq add.assoc)
qed simp

lemma length_foldl_merge:
  "list_all (\<lambda>s. length (lh_buckets s) = n) h \<Longrightarrow> length acc = n \<Longrightarrow> length (foldl merge_counts acc h) = n"
  by (induction h arbitrary: acc) (simp_all add: merge_counts_def)

lemma foldl_merge_nth:
  "list_all (\<lambda>s. length (lh_buckets s) = n) h \<Longrightarrow> length acc = n \<Longrightarrow> i < n \<Longrightarrow>
     foldl merge_counts acc h ! i = foldl (\<lambda>t s. u64_add t (lh_buckets s ! i)) (acc ! i) h"
  by (induction h arbitrary: acc) (simp_all add: merge_counts_def)

text \<open>One more in one shard is one more in the sum.\<close>

lemma sum_update_u64:
  assumes "k < length h" "f s = u64_add (f (h ! k)) d"
  shows "sum_list (map f (h[k := s])) mod 18446744073709551616 = u64_add (sum_list (map f h)) d"
proof -
  have h: "h = take k h @ h ! k # drop (Suc k) h" "h[k := s] = take k h @ s # drop (Suc k) h"
    using assms(1) by (simp_all add: id_take_nth_drop upd_conv_take_nth_drop)
  define rest where "rest = sum_list (map f (take k h)) + sum_list (map f (drop (Suc k) h))"
  have "sum_list (map f h) = f (h ! k) + rest"
    by (subst h(1)) (simp add: rest_def)
  moreover have "sum_list (map f (h[k := s])) = f s + rest"
    by (simp add: h(2) rest_def)
  ultimately show ?thesis
    by (simp add: assms(2) u64_add_def mod_simps ac_simps)
qed

lemma shard_index_less: "fst (latencyHistShardIndex s) < 8"
proof -
  have "(s + 1) AND 7 \<le> (7 :: u32)"
    by (rule word_and_le1)
  then have "unat ((s + 1) AND 7) \<le> unat (7 :: u32)"
    by (simp only: word_le_nat_alt)
  then show ?thesis
    by (simp add: latencyHistShardIndex_def latencyHistShardCount_def Let_def)
qed

lemma merged_view_Record:
  assumes "shards_ok h" "k < 8"
  shows "merged_view (h[k := latencyHistogram_Record x (h ! k)]) = latencyHistogram_Record x (merged_view h)"
proof -
  let ?s = "latencyHistogram_Record x (h ! k)" and ?j = "latencyBucketIndex (sample_nanos x)"
  have len: "length h = 8" "list_all (\<lambda>s. length (lh_buckets s) = 128) h"
    using assms(1) by (simp_all add: shards_ok_def latencyHistShardCount_def latencyHistogramBuckets_def)
  then have shard: "length (lh_buckets (h ! k)) = 128"
    using assms(2) by (simp add: list_all_length)
  then have len': "list_all (\<lambda>s. length (lh_buckets s) = 128) (h[k := ?s])"
    using len assms(2) by (auto simp: list_all_length nth_list_update latencyHistogram_Record_def Let_def)
  have counts: "lh_count (merged_view (h[k := ?s])) = u64_add (lh_count (merged_view h)) 1"
    using sum_update_u64 [of k h lh_count ?s 1] len assms(2)
    by (simp add: merged_view_def foldl_u64_add latencyHistogram_Record_def Let_def)
  have "lh_buckets (merged_view (h[k := ?s])) ! i =
      (if i = ?j then u64_add (lh_buckets (merged_view h) ! i) 1 else lh_buckets (merged_view h) ! i)" if "i < 128" for i
  proof -
    have nth: "lh_buckets (merged_view g) ! i = sum_list (map (\<lambda>s. lh_buckets s ! i) g) mod 18446744073709551616"
      if "list_all (\<lambda>s. length (lh_buckets s) = 128) g" for g
      using that \<open>i < 128\<close> by (simp add: merged_view_def latencyHistogramBuckets_def foldl_merge_nth foldl_u64_add)
    show ?thesis
    proof (cases "i = ?j")
      case True
      then have "lh_buckets ?s ! i = u64_add (lh_buckets (h ! k) ! i) 1"
        using shard \<open>i < 128\<close> by (simp add: latencyHistogram_Record_def Let_def)
      then show ?thesis
        using sum_update_u64 [of k h "\<lambda>s. lh_buckets s ! i" ?s 1] len assms(2)
        unfolding nth [OF len(2)] nth [OF len'] by (simp add: True [symmetric])
    next
      case False
      then have "map (\<lambda>s. lh_buckets s ! i) (h[k := ?s]) = map (\<lambda>s. lh_buckets s ! i) h"
        using len(1) assms(2) by (simp add: map_update latencyHistogram_Record_def Let_def list_update_same_conv)
      then show ?thesis
        using False by (simp add: nth [OF len(2)] nth [OF len'])
    qed
  qed
  moreover have "length (lh_buckets (merged_view h)) = 128" "length (lh_buckets (merged_view (h[k := ?s]))) = 128"
    using len len' by (simp_all add: merged_view_def length_foldl_merge latencyHistogramBuckets_def)
  ultimately have "lh_buckets (merged_view (h[k := ?s])) = lh_buckets (latencyHistogram_Record x (merged_view h))"
    by (intro nth_equalityI) (simp_all add: latencyHistogram_Record_def Let_def nth_list_update)
  with counts show ?thesis
    by (simp add: latencyHistogram_Record_def Let_def)
qed

interpretation shards: histogram "\<lambda>a. shards_ok (snd a)" "\<lambda>a. merged_view (snd a)" sharded_Record "\<lambda>q a. sharded_Quantile q (snd a)"
proof (unfold_locales, goal_cases)
  case (1 a x)
  then show ?case
    using shard_index_less [of "fst a"]
    by (cases a) (auto simp: sharded_Record_def shards_ok_def list_all_length nth_list_update latencyHistogram_Record_def Let_def
        case_prod_beta latencyHistShardCount_def)
next
  case (2 a x)
  then show ?case
    using shard_index_less [of "fst a"] merged_view_Record [of "snd a" "fst (latencyHistShardIndex (fst a))" x]
    by (simp add: sharded_Record_def case_prod_beta)
next
  case (3 a q)
  show ?case
    by (simp add: sharded_Quantile_def latencyHistogram_Quantile_def merged_view_def Let_def)
qed

lemma fresh_shards: "shards_ok new_shardedLatencyHistogram" "merged_view new_shardedLatencyHistogram = new_latencyHistogram"
proof -
  show "shards_ok new_shardedLatencyHistogram"
    by (simp add: shards_ok_def new_shardedLatencyHistogram_def new_latencyHistogram_def list_all_length)
  have "foldl merge_counts (replicate 128 0) (replicate n new_latencyHistogram) = replicate 128 0" for n
    by (induction n) (simp_all add: merge_counts_def new_latencyHistogram_def latencyHistogramBuckets_def zip_replicate u64_add_def)
  moreover have "foldl (\<lambda>t shard. u64_add t (lh_count shard)) 0 (replicate n new_latencyHistogram) = 0" for n
    by (induction n) (simp_all add: new_latencyHistogram_def u64_add_def)
  ultimately show "merged_view new_shardedLatencyHistogram = new_latencyHistogram"
    by (simp add: merged_view_def new_shardedLatencyHistogram_def new_latencyHistogram_def latencyHistogramBuckets_def)
qed

text \<open>
  C22: the shards do not show. Whatever the counter of the process that spreads samples over the shards
  stood at, the histogram of eight shards answers every quantile as the plain histogram does that recorded
  the same samples.
\<close>

theorem sharded_equals_plain:
  "sharded_Quantile q (snd (fold sharded_Record xs (shard_seq, new_shardedLatencyHistogram))) =
     latencyHistogram_Quantile q (fold latencyHistogram_Record xs new_latencyHistogram)"
  using shards.fresh_quantile [of "(shard_seq, new_shardedLatencyHistogram)" q xs] fresh_shards by (simp add: record_all_def)

lemma Reset_fresh:
  assumes "shards_ok h"
  shows "sharded_Reset h = new_shardedLatencyHistogram"
proof (rule nth_equalityI)
  show "length (sharded_Reset h) = length new_shardedLatencyHistogram"
    using assms by (simp add: sharded_Reset_def new_shardedLatencyHistogram_def shards_ok_def)
  fix i
  assume "i < length (sharded_Reset h)"
  then show "sharded_Reset h ! i = new_shardedLatencyHistogram ! i"
    using assms by (simp add: sharded_Reset_def new_shardedLatencyHistogram_def shards_ok_def list_all_length new_latencyHistogram_def
        map_replicate_const)
qed

section \<open>The 95th percentile\<close>

definition p95 :: float64 where
  "p95 = of_rat64 (95 / 100)"

lemma p95_value:
  obtains r where "p95 = Fin False r" "\<bar>r - 95 / 100\<bar> \<le> 95 / 100 * (1 / 9007199254740992)"
proof -
  have "p95 = Fin False (round_mag (95 / 100))"
    unfolding p95_def of_rat64_def using fround_finite [of "95 / 100" 0 False] by (simp add: pow2_numerals)
  then show thesis
    using round_error_small [of "95 / 100"] by (intro that [of "round_mag (95 / 100)"]) simp_all
qed

lemma clamp_p95: "clamp_quantile p95 = p95"
proof -
  obtain r where r: "p95 = Fin False r" "\<bar>r - 95 / 100\<bar> \<le> 95 / 100 * (1 / 9007199254740992)"
    by (rule p95_value)
  then have "0 < r" "r < 1"
    using abs_le_D1 [OF r(2)] abs_le_D2 [OF r(2)] by linarith+
  then show ?thesis
    by (simp add: clamp_quantile_def r(1) of_int64_exact fle_def)
qed

text \<open>In exact arithmetic the target is the rank, rounded up; floating point does not spoil it up to a million.\<close>

lemma p95_sum:
  assumes "0 < n" "n \<le> 1000000"
  obtains s where "isf (fadd (fmul p95 (of_int64 n)) (of_rat64 (999999999 / 1000000000))) s"
    "\<bar>s - (of_int n * (95 / 100) + 999999999 / 1000000000)\<bar> \<le> 5 / 10000000000"
proof -
  obtain r where r: "p95 = Fin False r" "\<bar>r - 95 / 100\<bar> \<le> 95 / 100 * (1 / 9007199254740992)"
    by (rule p95_value)
  define x y where "x = rat_of_int n * (95 / 100)" and "y = r * rat_of_int n"
  define e where "e = round_mag (999999999 / 1000000000)"
  have n: "1 \<le> rat_of_int n" "rat_of_int n \<le> 1000000"
    using assms by simp_all
  have "y - x = (r - 95 / 100) * rat_of_int n"
    by (simp add: x_def y_def algebra_simps)
  then have "\<bar>y - x\<bar> = \<bar>r - 95 / 100\<bar> * rat_of_int n"
    using n by (simp only: abs_mult)
  also have "\<dots> \<le> (95 / 100 * (1 / 9007199254740992)) * 1000000"
    using r(2) n by (intro mult_mono) simp_all
  also have "\<dots> \<le> 1 / 9000000000"
    by simp
  finally have y: "\<bar>y - x\<bar> \<le> 1 / 9000000000" .
  have x: "95 / 100 \<le> x" "x \<le> 950000"
    using n by (simp_all add: x_def)
  note near_y = abs_le_D1 [OF y] abs_le_D2 [OF y]
  have p: "\<bar>round_mag y - y\<bar> \<le> y * (1 / 9007199254740992)"
    using x near_y by (intro round_error_small) linarith
  have e: "\<bar>e - 999999999 / 1000000000\<bar> \<le> 999999999 / 1000000000 * (1 / 9007199254740992)"
    unfolding e_def by (rule round_error_small) simp
  note near = near_y abs_le_D1 [OF p] abs_le_D2 [OF p] abs_le_D1 [OF e] abs_le_D2 [OF e]
  have s: "\<bar>round_mag (round_mag y + e) - (round_mag y + e)\<bar> \<le> (round_mag y + e) * (1 / 9007199254740992)"
    using x near by (intro round_error_small) linarith
  have big: "(2000000 :: rat) \<le> pow2 1000"
    using pow2_mono [of 30 1000] by (simp add: pow2_def)
  have "0 \<le> r"
    using abs_le_D2 [OF r(2)] by linarith
  then have "isf p95 r" "isf (of_int64 n) (of_int n)"
    using assms by (simp_all add: r(1) of_int64_exact)
  then have "isf (fmul p95 (of_int64 n)) (round_mag y)"
    using isf_fmul [of p95 r "of_int64 n" "of_int n"] big x near_y by (simp add: y_def)
  moreover have "isf (of_rat64 (999999999 / 1000000000)) e"
    unfolding e_def using big by (intro isf_of_rat64) simp_all
  ultimately have "isf (fadd (fmul p95 (of_int64 n)) (of_rat64 (999999999 / 1000000000))) (round_mag (round_mag y + e))"
    using big x near by (intro isf_fadd) simp_all
  moreover have "\<bar>round_mag (round_mag y + e) - (x + 999999999 / 1000000000)\<bar> \<le> 5 / 10000000000"
    using x near abs_le_D1 [OF s] abs_le_D2 [OF s] by (intro abs_leI) (simp_all add: field_simps)
  ultimately show thesis
    using that by (simp add: x_def)
qed

lemma isf_to_uint64:
  assumes "isf a m" "\<lfloor>m\<rfloor> = k" "0 < k" "k < 18446744073709551616"
  shows "to_uint64 a = nat k"
  using assms by (auto simp: to_uint64_def isf_def simp del: floor_less_numeral)

lemma p95_target:
  assumes "0 < n" "n \<le> 1000000"
  shows "quantile_target p95 n = (19 * n + 19) div 20"
proof -
  let ?k = "(19 * int n + 19) div 20"
  obtain s where s: "isf (fadd (fmul p95 (of_int64 (int n))) (of_rat64 (999999999 / 1000000000))) s"
    "\<bar>s - (of_int (int n) * (95 / 100) + 999999999 / 1000000000)\<bar> \<le> 5 / 10000000000"
    by (rule p95_sum [of "int n"]) (use assms in simp_all)
  have "19 * int n \<le> 20 * ?k" "20 * ?k \<le> 19 * int n + 19"
    by linarith+
  then have k: "rat_of_int (19 * int n) \<le> rat_of_int (20 * ?k)" "rat_of_int (20 * ?k) \<le> rat_of_int (19 * int n + 19)"
    by (simp_all only: of_int_le_iff)
  have "\<lfloor>s\<rfloor> = ?k"
    using k abs_le_D1 [OF s(2)] abs_le_D2 [OF s(2)] by (intro floor_unique) (simp_all add: field_simps)
  moreover have "0 < ?k" "?k < 18446744073709551616"
    using assms by linarith+
  moreover have "nat ?k = (19 * n + 19) div 20"
    by (simp add: nat_div_distrib nat_add_distrib nat_mult_distrib)
  ultimately show ?thesis
    using isf_to_uint64 [OF s(1)] by (simp add: quantile_target_def Let_def)
qed

definition percentile95 :: "duration list \<Rightarrow> nat" where
  "percentile95 xs = sort (map sample_nanos xs) ! ((19 * length xs + 19) div 20 - 1)"

lemma p95_bucket:
  assumes "xs \<noteq> []" "length xs \<le> 1000000"
  shows "latencyHistogram_Quantile p95 (record_all xs) = int (latencyBucketUpperBounds ! latencyBucketIndex (percentile95 xs))"
proof -
  let ?t = "(19 * length xs + 19) div 20"
  have n: "0 < length xs" "length xs < 18446744073709551616"
    using assms by simp_all
  then have t: "0 < ?t" "?t \<le> length xs"
    by linarith+
  have "lh_count (record_all xs) = length xs"
    using record_all_counts [OF n(2)] by simp
  then show ?thesis
    using scan_rank [OF n(2) t] n(1) assms
    by (simp add: latencyHistogram_Quantile_def clamp_p95 p95_target percentile95_def)
qed

lemma sharded_p95:
  assumes "xs \<noteq> []" "length xs \<le> 1000000"
  shows "sharded_Quantile p95 (snd (fold sharded_Record xs (shard_seq, new_shardedLatencyHistogram))) =
    int (latencyBucketUpperBounds ! latencyBucketIndex (percentile95 xs))"
  using shards.fresh_quantile [of "(shard_seq, new_shardedLatencyHistogram)" p95 xs] fresh_shards p95_bucket [OF assms] by simp

text \<open>
  C21: the reported percentile is near the true one. For a window of up to a million samples whose 95th
  percentile (the sample of rank \<open>0.95 n\<close>, rounded up) is at most 17.785 seconds, the histogram
  reports at least that sample and at most one seventh, or a microsecond, more. The rank is computed in
  floating point and is exact.
\<close>

theorem p95_near_percentile:
  assumes "xs \<noteq> []" "length xs \<le> 1000000" "percentile95 xs \<le> 17785293019"
  shows "int (percentile95 xs) \<le> sharded_Quantile p95 (snd (fold sharded_Record xs (shard_seq, new_shardedLatencyHistogram))) \<and>
    sharded_Quantile p95 (snd (fold sharded_Record xs (shard_seq, new_shardedLatencyHistogram)))
      \<le> int (max 1000 (percentile95 xs + percentile95 xs div 7))"
  using bucket_accuracy [OF assms(3)] by (simp only: sharded_p95 [OF assms(1, 2)] of_nat_le_iff)

text \<open>
  A slow service is reported as standing still. The last bucket but one ends at 17.785 seconds and the
  last one at an hour, so a 95th percentile of eighteen seconds is reported as an hour.
\<close>

theorem slow_p95_reads_an_hour:
  assumes "xs \<noteq> []" "length xs \<le> 1000000" "17785293019 < percentile95 xs"
  shows "sharded_Quantile p95 (snd (fold sharded_Record xs (shard_seq, new_shardedLatencyHistogram))) = 3600000000000"
  using bucket_overflow [OF assms(3)] by (simp add: sharded_p95 [OF assms(1, 2)])

theorem p95_near_percentile_witness:
  "int 30000000 \<le> sharded_Quantile p95 (snd (fold sharded_Record [5000000, 30000000] (0, new_shardedLatencyHistogram))) \<and>
   sharded_Quantile p95 (snd (fold sharded_Record [5000000, 30000000] (0, new_shardedLatencyHistogram))) \<le> int 34285714"
proof -
  have "percentile95 [5000000, 30000000] = 30000000"
    by (simp add: percentile95_def sample_nanos_def)
  then show ?thesis
    using p95_near_percentile [of "[5000000, 30000000]" 0] by simp
qed

theorem slow_p95_reads_an_hour_witness:
  "sharded_Quantile p95 (snd (fold sharded_Record [18000000000] (0, new_shardedLatencyHistogram))) = 3600000000000"
proof -
  have "percentile95 [18000000000] = 18000000000"
    by (simp add: percentile95_def sample_nanos_def)
  then show ?thesis
    using slow_p95_reads_an_hour [of "[18000000000]" 0] by simp
qed

end
