(* ===== verification/Go_Strings.thy ===== *)
theory Go_Strings
  imports Prelude
begin

text \<open>
  The functions of Go's package \<open>strings\<close> that the client and the controller use, on strings of bytes.
\<close>

section \<open>White space\<close>

text \<open>\<open>strings.TrimSpace\<close> of the standard library: the encodings of the white space of Unicode.\<close>

definition space_runes :: "string list" where
  "space_runes = map (map char_of)
     ([[9], [10], [11], [12], [13], [32], [194, 133], [194, 160], [225, 154, 128], [226, 128, 168], [226, 128, 169],
       [226, 128, 175], [226, 129, 159], [227, 128, 128]] @ map (\<lambda>n. [226, 128, n]) [128 ..< 139] :: nat list list)"

function strip_prefixes :: "string list \<Rightarrow> string \<Rightarrow> string" where
  "strip_prefixes ps s =
     (case find (\<lambda>p. p \<noteq> [] \<and> take (length p) s = p) ps of
        None \<Rightarrow> s
      | Some p \<Rightarrow> strip_prefixes ps (drop (length p) s))"
  by pat_completeness auto

termination
proof (relation "measure (\<lambda>(ps, s). length s)", goal_cases)
  case (2 ps s p)
  then have "p \<noteq> []" "take (length p) s = p"
    by (auto simp: find_Some_iff)
  then show ?case
    by (cases s) auto
qed simp

declare strip_prefixes.simps [simp del]

definition TrimSpace :: "string \<Rightarrow> string" where
  "TrimSpace s = rev (strip_prefixes (map rev space_runes) (rev (strip_prefixes space_runes s)))"

definition printable :: "char \<Rightarrow> bool" where
  "printable c \<longleftrightarrow> 32 < (of_char c :: nat) \<and> (of_char c :: nat) < 128"

lemma strip_prefixes_id:
  assumes "s \<noteq> [] \<Longrightarrow> \<forall>p\<in>set ps. p \<noteq> [] \<longrightarrow> hd p \<noteq> hd s"
  shows "strip_prefixes ps s = s"
proof -
  have "take (length p) s \<noteq> p" if "p \<in> set ps" "p \<noteq> []" for p
    using assms that by (cases s; cases p) auto
  then have "find (\<lambda>p. p \<noteq> [] \<and> take (length p) s = p) ps = None"
    by (auto simp: find_None_iff)
  then show ?thesis
    by (subst strip_prefixes.simps) simp
qed

lemma space_runes_bytes:
  "p \<in> set space_runes \<Longrightarrow> \<not> printable (hd p)" "p \<in> set space_runes \<Longrightarrow> \<not> printable (last p)"
  by (auto simp: space_runes_def printable_def)

lemma TrimSpace_id:
  assumes "s \<noteq> [] \<Longrightarrow> printable (hd s) \<and> printable (last s)"
  shows "TrimSpace s = s"
proof -
  have front: "strip_prefixes space_runes s = s"
    using assms space_runes_bytes(1) by (intro strip_prefixes_id) fastforce
  have "strip_prefixes (map rev space_runes) (rev s) = rev s"
    using assms space_runes_bytes(2) by (intro strip_prefixes_id) (fastforce simp: hd_rev)
  then show ?thesis
    by (simp add: TrimSpace_def front)
qed


section \<open>Searching and splitting\<close>

definition strings_Cut :: "char \<Rightarrow> string \<Rightarrow> string \<times> string \<times> bool" where
  "strings_Cut c s =
     (let before = takeWhile (\<lambda>x. x \<noteq> c) s
      in if length before = length s then (s, '''', False) else (before, drop (length before + 1) s, True))"

fun split_on :: "(char \<Rightarrow> bool) \<Rightarrow> string \<Rightarrow> string list" where
  "split_on sep [] = [[]]"
| "split_on sep (c # cs) =
     (if sep c then [] # split_on sep cs
      else (case split_on sep cs of [] \<Rightarrow> [[c]] | f # fs \<Rightarrow> (c # f) # fs))"

definition strings_Split :: "string \<Rightarrow> char \<Rightarrow> string list" where
  "strings_Split s c = split_on (\<lambda>x. x = c) s"

definition strings_FieldsFunc :: "(char \<Rightarrow> bool) \<Rightarrow> string \<Rightarrow> string list" where
  "strings_FieldsFunc sep s = filter (\<lambda>f. f \<noteq> []) (split_on sep s)"

definition replace_byte :: "char \<Rightarrow> char \<Rightarrow> string \<Rightarrow> string" where
  "replace_byte a b s = map (\<lambda>c. if c = a then b else c) s"

text \<open>
  \<open>strings.EqualFold\<close>, for a second argument whose letters have no variants outside ASCII: \<open>K\<close> and \<open>S\<close> are
  the ones that have.
\<close>

definition lower_byte :: "char \<Rightarrow> char" where
  "lower_byte c = (if 65 \<le> (of_char c :: nat) \<and> (of_char c :: nat) \<le> 90 then char_of (of_char c + 32 :: nat) else c)"

definition strings_EqualFold :: "string \<Rightarrow> string \<Rightarrow> bool" where
  "strings_EqualFold s t \<longleftrightarrow> map lower_byte s = map lower_byte t"

lemma strings_Cut_found: "strings_Cut c s = (a, b, True) \<Longrightarrow> s = a @ c # b \<and> c \<notin> set a"
proof -
  assume "strings_Cut c s = (a, b, True)"
  then have a: "a = takeWhile (\<lambda>x. x \<noteq> c) s" "b = drop (length a + 1) s" "length a \<noteq> length s"
    by (auto simp: strings_Cut_def Let_def split: if_splits)
  have "dropWhile (\<lambda>x. x \<noteq> c) s \<noteq> []"
    using a(1, 3) by (metis append_Nil2 takeWhile_dropWhile_id)
  then obtain d ds where d: "dropWhile (\<lambda>x. x \<noteq> c) s = d # ds"
    by (cases "dropWhile (\<lambda>x. x \<noteq> c) s") auto
  then have "d = c"
    using hd_dropWhile [of "\<lambda>x. x \<noteq> c" s] by simp
  moreover have "s = a @ d # ds"
    using d takeWhile_dropWhile_id [of "\<lambda>x. x \<noteq> c" s] a(1) by simp
  moreover have "c \<notin> set a"
    using a(1) set_takeWhileD by fastforce
  ultimately show ?thesis
    using a(2) by simp
qed

lemma strip_prefixes_keeps: "c \<in> set s \<Longrightarrow> \<forall>p\<in>set ps. c \<notin> set p \<Longrightarrow> c \<in> set (strip_prefixes ps s)"
proof (induction ps s rule: strip_prefixes.induct)
  case (1 ps s)
  show ?case
  proof (cases "find (\<lambda>p. p \<noteq> [] \<and> take (length p) s = p) ps")
    case None
    then show ?thesis
      using 1(2) by (subst strip_prefixes.simps) simp
  next
    case (Some p)
    then have p: "p \<in> set ps" "take (length p) s = p"
      by (auto simp: find_Some_iff)
    then have "c \<in> set (drop (length p) s)"
      using 1(2, 3) by (metis Un_iff append_take_drop_id set_append)
    then show ?thesis
      using 1(1) [OF Some] 1(3) Some by (subst strip_prefixes.simps) simp
  qed
qed

lemma strip_prefixes_subset: "set (strip_prefixes ps s) \<subseteq> set s"
proof (induction ps s rule: strip_prefixes.induct)
  case (1 ps s)
  show ?case
  proof (cases "find (\<lambda>p. p \<noteq> [] \<and> take (length p) s = p) ps")
    case (Some p)
    then show ?thesis
      using 1 [OF Some] set_drop_subset [of "length p" s] by (subst strip_prefixes.simps) auto
  qed (subst strip_prefixes.simps, simp)
qed

lemma TrimSpace_member:
  assumes "printable c"
  shows "c \<in> set (TrimSpace s) \<longleftrightarrow> c \<in> set s"
proof -
  have "c \<notin> set p" if "p \<in> set space_runes" for p
    using assms that by (auto simp: space_runes_def printable_def)
  then have "c \<in> set (strip_prefixes ps s) \<longleftrightarrow> c \<in> set s" if "ps = space_runes \<or> ps = map rev space_runes" for ps s
    using that strip_prefixes_keeps [of c s ps] strip_prefixes_subset [of ps s] by auto
  then show ?thesis
    by (simp add: TrimSpace_def)
qed

lemma strings_Cut_iff: "snd (snd (strings_Cut c s)) \<longleftrightarrow> c \<in> set s"
proof -
  have "takeWhile (\<lambda>x. x \<noteq> c) s = s" if "length (takeWhile (\<lambda>x. x \<noteq> c) s) = length s"
    using that takeWhile_eq_take [of "\<lambda>x. x \<noteq> c" s] by simp
  then have "length (takeWhile (\<lambda>x. x \<noteq> c) s) = length s \<longleftrightarrow> c \<notin> set s"
    by (metis (full_types) set_takeWhileD takeWhile_eq_all_conv)
  then show ?thesis
    by (simp add: strings_Cut_def Let_def)
qed

end
