(* ===== verification/Telemetry_Recorder.thy ===== *)
theory Telemetry_Recorder
  imports Latency_Histogram Go_Strings "HOL-Library.AList" "HOL-Library.List_Lexorder" "HOL-Library.Char_ord" "HOL-Library.Product_Lexorder"
begin

text \<open>
  The recorder of \<open>src/pkg/telemetry/recorder.go\<close> with the moving average of \<open>ewma.go\<close>: the SDK counts calls
  per destination, method and endpoint, and a reporter takes the counts window by window. Every operation is
  one step here. The clock is the parameter \<open>now\<close>, the counter that spreads samples over the shards of a
  histogram is part of the state, and the iteration order of the Go maps and the order of equal rows are parameters that permute. The
  metrics sink is outside: an operation returns what it hands to the metrics of the row.
\<close>

section \<open>Text\<close>

definition recorder_firstNonEmpty :: "string \<Rightarrow> string \<Rightarrow> string" where
  "recorder_firstNonEmpty v fallback = (if v \<noteq> '''' then v else fallback)"

definition normalizeStatus :: "string \<Rightarrow> string" where
  "normalizeStatus status = (let status = TrimSpace status in if status = '''' then ''OK'' else status)"


section \<open>The moving average\<close>

record EWMA =
  ew_alpha :: float64
  ew_value :: float64
  ew_count :: int

definition defaultEWMAAlpha :: float64 where
  "defaultEWMAAlpha = of_rat64 (2 / 10)"

definition NewEWMA :: "float64 \<Rightarrow> EWMA" where
  "NewEWMA alpha =
     \<lparr>ew_alpha = (if fle alpha (of_int64 0) \<or> flt (of_int64 1) alpha \<or> IsNaN alpha then defaultEWMAAlpha else alpha),
      ew_value = of_int64 0, ew_count = 0\<rparr>"

definition EWMA_Observe :: "duration \<Rightarrow> EWMA \<Rightarrow> EWMA" where
  "EWMA_Observe sample e =
     (let v = of_int64 (if sample < 0 then 0 else sample)
      in e\<lparr>ew_value := (if ew_count e = 0 then v
                        else fadd (fmul (ew_alpha e) v) (fmul (fsub (of_int64 1) (ew_alpha e)) (ew_value e))),
           ew_count := wrap64 (ew_count e + 1)\<rparr>)"

text \<open>\<open>math.Round\<close> rounds half away from zero.\<close>

fun math_Round :: "float64 \<Rightarrow> float64" where
  "math_Round (Fin s m) = Fin s (of_int \<lfloor>m + 1 / 2\<rfloor>)"
| "math_Round a = a"

definition EWMA_Value :: "EWMA \<Rightarrow> duration" where
  "EWMA_Value e = to_int64 (math_Round (ew_value e))"


section \<open>Rows\<close>

record Observation =
  ob_Source :: string
  ob_Destination :: string
  ob_Method :: string
  ob_EndpointID :: string
  ob_RegistrationEpoch :: string
  ob_Upstream :: string
  ob_Status :: string
  ob_Latency :: duration
  ob_Error :: bool
  ob_Timeout :: bool

record EndpointStats =
  es_Source :: string
  es_Destination :: string
  es_Method :: string
  es_EndpointID :: string
  es_RegistrationEpoch :: string
  es_Upstream :: string
  es_RequestCount :: int
  es_ErrorCount :: int
  es_TimeoutCount :: int
  es_Inflight :: int
  es_LatencyEWMA :: duration
  es_LatencyP95 :: duration
  es_WindowStart :: gotime
  es_WindowEnd :: gotime

record statsKey =
  sk_destination :: string
  sk_method :: string
  sk_endpointID :: string
  sk_registrationEpoch :: string
  sk_upstream :: string

record statsCounters =
  ct_requestCount :: int
  ct_errorCount :: int
  ct_timeoutCount :: int
  ct_inflight :: int

record statsRow =
  sr_key :: statsKey
  sr_counters :: statsCounters
  sr_ewma :: EWMA
  sr_activeHist :: shardedLatencyHistogram
  sr_scratchHist :: shardedLatencyHistogram
  sr_windowStart :: gotime

definition makeStatsKey :: "string \<Rightarrow> string \<Rightarrow> string \<Rightarrow> string \<Rightarrow> string \<Rightarrow> statsKey" where
  "makeStatsKey destination mthd endpointID registrationEpoch upstream =
     \<lparr>sk_destination = recorder_firstNonEmpty destination ''unknown'', sk_method = recorder_firstNonEmpty mthd ''unknown'',
      sk_endpointID = TrimSpace endpointID, sk_registrationEpoch = TrimSpace registrationEpoch,
      sk_upstream = recorder_firstNonEmpty upstream ''unknown''\<rparr>"

definition new_row :: "statsKey \<Rightarrow> gotime \<Rightarrow> statsRow" where
  "new_row key now = \<lparr>sr_key = key, sr_counters = \<lparr>ct_requestCount = 0, ct_errorCount = 0, ct_timeoutCount = 0, ct_inflight = 0\<rparr>,
     sr_ewma = NewEWMA defaultEWMAAlpha, sr_activeHist = new_shardedLatencyHistogram,
     sr_scratchHist = new_shardedLatencyHistogram, sr_windowStart = now\<rparr>"

text \<open>What the compare-and-swap loop leaves in the counter; nobody uses the value it returns.\<close>

definition decrementPositive :: "int \<Rightarrow> int" where
  "decrementPositive current = (if current \<le> 0 then current else current - 1)"

definition count_observation :: "Observation \<Rightarrow> bool \<Rightarrow> statsCounters \<Rightarrow> statsCounters" where
  "count_observation obs decrementInflight c =
     (let c = (if decrementInflight then c\<lparr>ct_inflight := decrementPositive (ct_inflight c)\<rparr> else c);
          c = c\<lparr>ct_requestCount := wrap64 (ct_requestCount c + 1)\<rparr>;
          c = (if ob_Error obs \<or> ob_Status obs \<noteq> ''OK'' then c\<lparr>ct_errorCount := wrap64 (ct_errorCount c + 1)\<rparr> else c)
      in if ob_Timeout obs \<or> ob_Status obs = ''DEADLINE_EXCEEDED'' then c\<lparr>ct_timeoutCount := wrap64 (ct_timeoutCount c + 1)\<rparr>
         else c)"

text \<open>The row, the counter of the shards, and what goes to the metrics of the row.\<close>

definition recordObservation ::
    "Observation \<Rightarrow> bool \<Rightarrow> u32 \<times> statsRow \<Rightarrow> (string \<times> duration \<times> duration \<times> int) \<times> u32 \<times> statsRow" where
  "recordObservation obs decrementInflight acc =
     (case acc of (shard_seq, row) \<Rightarrow>
        (let row = row\<lparr>sr_counters := count_observation obs decrementInflight (sr_counters row)\<rparr>;
             row = row\<lparr>sr_ewma := EWMA_Observe (ob_Latency obs) (sr_ewma row)\<rparr>;
             (shard_seq, hist) = sharded_Record (ob_Latency obs) (shard_seq, sr_activeHist row);
             row = row\<lparr>sr_activeHist := hist\<rparr>
         in ((ob_Status obs, ob_Latency obs, EWMA_Value (sr_ewma row), ct_inflight (sr_counters row)), shard_seq, row)))"

definition row_stats :: "string \<Rightarrow> statsKey \<Rightarrow> gotime \<Rightarrow> statsRow \<Rightarrow> EndpointStats" where
  "row_stats source key now row =
     \<lparr>es_Source = source, es_Destination = sk_destination key, es_Method = sk_method key, es_EndpointID = sk_endpointID key,
      es_RegistrationEpoch = sk_registrationEpoch key, es_Upstream = sk_upstream key,
      es_RequestCount = ct_requestCount (sr_counters row), es_ErrorCount = ct_errorCount (sr_counters row),
      es_TimeoutCount = ct_timeoutCount (sr_counters row), es_Inflight = ct_inflight (sr_counters row),
      es_LatencyEWMA = EWMA_Value (sr_ewma row), es_LatencyP95 = sharded_Quantile p95 (sr_activeHist row),
      es_WindowStart = sr_windowStart row, es_WindowEnd = now\<rparr>"

definition reset_row :: "gotime \<Rightarrow> statsRow \<Rightarrow> statsRow" where
  "reset_row now row =
     row\<lparr>sr_counters := (sr_counters row)\<lparr>ct_requestCount := 0, ct_errorCount := 0, ct_timeoutCount := 0\<rparr>,
         sr_activeHist := sharded_Reset (sr_scratchHist row), sr_scratchHist := sharded_Reset (sr_activeHist row),
         sr_windowStart := now\<rparr>"

definition row_snapshot :: "string \<Rightarrow> statsKey \<Rightarrow> gotime \<Rightarrow> bool \<Rightarrow> statsRow \<Rightarrow> EndpointStats option \<times> statsRow" where
  "row_snapshot source key now reset row =
     (if ct_requestCount (sr_counters row) = 0 \<and> ct_inflight (sr_counters row) = 0 then (None, row)
      else (Some (row_stats source key now row), if reset then reset_row now row else row))"


section \<open>The recorder\<close>

record Recorder =
  rd_source :: string
  rd_shards :: "(statsKey \<times> statsRow) list list"
  rd_shard_seq :: u32

definition recorderShardCount :: nat where
  "recorderShardCount = 64"

definition NewRecorderWithClock :: "string \<Rightarrow> u32 \<Rightarrow> Recorder" where
  "NewRecorderWithClock source shard_seq =
     \<lparr>rd_source = (if source = '''' then ''unknown'' else source), rd_shards = replicate recorderShardCount [],
      rd_shard_seq = shard_seq\<rparr>"

definition hash_byte :: "u64 \<Rightarrow> u64 \<Rightarrow> u64" where
  "hash_byte b h = (h XOR b) * 1099511628211"

definition hashString :: "u64 \<Rightarrow> string \<Rightarrow> u64" where
  "hashString h v = hash_byte 255 (fold (\<lambda>c. hash_byte (of_char c)) v h)"

definition statsKeyHash :: "statsKey \<Rightarrow> u64" where
  "statsKeyHash key =
     (let h = 1469598103934665603;
          h = hashString h (sk_destination key);
          h = hashString h (sk_method key);
          h = hashString h (sk_endpointID key);
          h = hashString h (sk_registrationEpoch key)
      in hashString h (sk_upstream key))"

definition shardFor :: "statsKey \<Rightarrow> nat" where
  "shardFor key = unat (statsKeyHash key AND of_nat (recorderShardCount - 1))"

text \<open>The row of a key, made when there is none; and the store of a row through its pointer.\<close>

definition rowFor :: "statsKey \<Rightarrow> gotime \<Rightarrow> Recorder \<Rightarrow> statsRow" where
  "rowFor key now r = (case map_of (rd_shards r ! shardFor key) key of Some row \<Rightarrow> row | None \<Rightarrow> new_row key now)"

definition put_row :: "statsKey \<Rightarrow> statsRow \<Rightarrow> Recorder \<Rightarrow> Recorder" where
  "put_row key row r = r\<lparr>rd_shards := (rd_shards r)[shardFor key := AList.update key row (rd_shards r ! shardFor key)]\<rparr>"

definition record_in :: "statsKey \<Rightarrow> gotime \<Rightarrow> Observation \<Rightarrow> bool \<Rightarrow> Recorder \<Rightarrow> (string \<times> duration \<times> duration \<times> int) \<times> Recorder" where
  "record_in key now obs decrementInflight r =
     (case recordObservation obs decrementInflight (rd_shard_seq r, rowFor key now r) of
        (handed, shard_seq, row) \<Rightarrow> (handed, (put_row key row r)\<lparr>rd_shard_seq := shard_seq\<rparr>))"

definition observed :: "Observation \<Rightarrow> Recorder \<Rightarrow> statsKey \<times> Observation" where
  "observed obs r =
     (let key = makeStatsKey (ob_Destination obs) (ob_Method obs) (ob_EndpointID obs) (ob_RegistrationEpoch obs) (ob_Upstream obs)
      in (key, obs\<lparr>ob_Source := rd_source r, ob_Destination := sk_destination key, ob_Method := sk_method key,
            ob_EndpointID := sk_endpointID key, ob_RegistrationEpoch := sk_registrationEpoch key,
            ob_Upstream := sk_upstream key, ob_Status := normalizeStatus (ob_Status obs)\<rparr>))"

definition Recorder_Observe :: "Observation \<Rightarrow> gotime \<Rightarrow> Recorder \<Rightarrow> (string \<times> duration \<times> duration \<times> int) \<times> Recorder" where
  "Recorder_Observe obs now r = (case observed obs r of (key, obs) \<Rightarrow> record_in key now obs False r)"

text \<open>The function that \<open>Start\<close> returns, as what it has captured; it acts on its first call only.\<close>

record started_call =
  sc_key :: statsKey
  sc_started :: gotime
  sc_once :: bool

definition Recorder_Start :: "string \<Rightarrow> string \<Rightarrow> string \<Rightarrow> gotime \<Rightarrow> Recorder \<Rightarrow> started_call \<times> Recorder" where
  "Recorder_Start destination mthd upstream now r =
     (let key = makeStatsKey destination mthd '''' '''' upstream;
          row = rowFor key now r;
          counters = (sr_counters row)\<lparr>ct_inflight := wrap64 (ct_inflight (sr_counters row) + 1)\<rparr>
      in (\<lparr>sc_key = key, sc_started = now, sc_once = False\<rparr>, put_row key (row\<lparr>sr_counters := counters\<rparr>) r))"

definition finished :: "started_call \<Rightarrow> string \<Rightarrow> gotime \<Rightarrow> Recorder \<Rightarrow> Observation" where
  "finished c status now r =
     (let key = sc_key c
      in \<lparr>ob_Source = rd_source r, ob_Destination = sk_destination key, ob_Method = sk_method key,
          ob_EndpointID = sk_endpointID key, ob_RegistrationEpoch = sk_registrationEpoch key, ob_Upstream = sk_upstream key,
          ob_Status = normalizeStatus status, ob_Latency = time_sub now (sc_started c), ob_Error = False, ob_Timeout = False\<rparr>)"

definition finish_call :: "started_call \<Rightarrow> string \<Rightarrow> gotime \<Rightarrow> Recorder \<Rightarrow> started_call \<times> Recorder" where
  "finish_call c status now r =
     (if sc_once c then (c, r)
      else (c\<lparr>sc_once := True\<rparr>, snd (record_in (sc_key c) now (finished c status now r) True r)))"

text \<open>
  The order in which Go iterates over a map, and the order in which \<open>sort.Slice\<close>, which is not stable,
  leaves rows that compare equal.
\<close>

type_synonym snapshot_order =
  "((statsKey \<times> statsRow) list \<Rightarrow> (statsKey \<times> statsRow) list) \<times> (EndpointStats list \<Rightarrow> EndpointStats list)"

definition recorder_snapshot :: "snapshot_order \<Rightarrow> gotime \<Rightarrow> bool \<Rightarrow> Recorder \<Rightarrow> EndpointStats list \<times> Recorder" where
  "recorder_snapshot order now reset r =
     (let stats = concat (map (\<lambda>rows. List.map_filter (\<lambda>(key, row). fst (row_snapshot (rd_source r) key now reset row)) (fst order rows))
            (rd_shards r))
      in (sort_key (\<lambda>s. (es_Destination s, es_Upstream s, es_EndpointID s, es_Method s)) (snd order stats),
          r\<lparr>rd_shards := map (map (\<lambda>(key, row). (key, snd (row_snapshot (rd_source r) key now reset row)))) (rd_shards r)\<rparr>))"

definition Recorder_Snapshot :: "snapshot_order \<Rightarrow> gotime \<Rightarrow> Recorder \<Rightarrow> EndpointStats list" where
  "Recorder_Snapshot order now r = fst (recorder_snapshot order now False r)"

definition Recorder_SnapshotAndReset :: "snapshot_order \<Rightarrow> gotime \<Rightarrow> Recorder \<Rightarrow> EndpointStats list \<times> Recorder" where
  "Recorder_SnapshotAndReset order now r = recorder_snapshot order now True r"


section \<open>Lookup\<close>

definition row_of :: "Recorder \<Rightarrow> statsKey \<Rightarrow> statsRow option" where
  "row_of r key = map_of (rd_shards r ! shardFor key) key"

definition shard_wf :: "nat \<Rightarrow> (statsKey \<times> statsRow) list \<Rightarrow> bool" where
  "shard_wf i rows \<longleftrightarrow> distinct (map fst rows) \<and> fst ` set rows \<subseteq> {key. shardFor key = i}"

definition shards_wf :: "Recorder \<Rightarrow> bool" where
  "shards_wf r \<longleftrightarrow> length (rd_shards r) = recorderShardCount \<and> (\<forall>i<recorderShardCount. shard_wf i (rd_shards r ! i))"

lemma shardFor_less: "shardFor key < recorderShardCount"
proof -
  have "statsKeyHash key AND 63 \<le> (63 :: u64)"
    by (rule word_and_le1)
  then have "unat (statsKeyHash key AND 63) \<le> unat (63 :: u64)"
    by (simp only: word_le_nat_alt)
  then show ?thesis
    by (simp add: shardFor_def recorderShardCount_def)
qed

lemma rowFor_row_of: "rowFor key now r = (case row_of r key of Some row \<Rightarrow> row | None \<Rightarrow> new_row key now)"
  by (simp add: rowFor_def row_of_def)

lemma shard_wf_update: "shard_wf i rows \<Longrightarrow> shardFor key = i \<Longrightarrow> shard_wf i (AList.update key row rows)"
  by (simp add: shard_wf_def distinct_update dom_update)

lemma rowFor_put [simp]: "shards_wf r \<Longrightarrow> rowFor k now (put_row key row r) = (if k = key then row else rowFor k now r)"
  using shardFor_less [of key] by (simp add: rowFor_def put_row_def shards_wf_def nth_list_update update_conv')

lemma put_row_wf [simp]: "shards_wf r \<Longrightarrow> shards_wf (put_row key row r)"
  using shardFor_less [of key] by (simp add: shards_wf_def put_row_def nth_list_update shard_wf_update)

lemma seq_fields [simp]:
  "shards_wf (r\<lparr>rd_shard_seq := q\<rparr>) = shards_wf r" "rowFor k now (r\<lparr>rd_shard_seq := q\<rparr>) = rowFor k now r"
  by (simp_all add: shards_wf_def rowFor_def)

lemma row_of_member:
  assumes "shards_wf r"
  shows "row_of r key = Some row \<longleftrightarrow> (\<exists>rows\<in>set (rd_shards r). (key, row) \<in> set rows)"
proof
  assume "row_of r key = Some row"
  then show "\<exists>rows\<in>set (rd_shards r). (key, row) \<in> set rows"
    using assms shardFor_less [of key] unfolding row_of_def shards_wf_def by (metis map_of_SomeD nth_mem)
next
  assume "\<exists>rows\<in>set (rd_shards r). (key, row) \<in> set rows"
  then obtain i where "i < length (rd_shards r)" "(key, row) \<in> set (rd_shards r ! i)"
    by (metis in_set_conv_nth)
  moreover from this have "shardFor key = i" "distinct (map fst (rd_shards r ! i))"
    using assms by (force simp: shards_wf_def shard_wf_def)+
  ultimately show "row_of r key = Some row"
    by (simp add: row_of_def)
qed


section \<open>What a row counts\<close>

definition is_error :: "Observation \<Rightarrow> bool" where
  "is_error ob \<longleftrightarrow> ob_Error ob \<or> ob_Status ob \<noteq> ''OK''"

definition is_timeout :: "Observation \<Rightarrow> bool" where
  "is_timeout ob \<longleftrightarrow> ob_Timeout ob \<or> ob_Status ob = ''DEADLINE_EXCEEDED''"

definition row_counts :: "Observation list \<Rightarrow> nat \<Rightarrow> statsRow \<Rightarrow> bool" where
  "row_counts es opened row \<longleftrightarrow>
     sr_counters row = \<lparr>ct_requestCount = int (length es), ct_errorCount = int (length (filter is_error es)),
       ct_timeoutCount = int (length (filter is_timeout es)), ct_inflight = int opened\<rparr> \<and>
     shards_ok (sr_activeHist row) \<and> merged_view (sr_activeHist row) = record_all (map ob_Latency es) \<and>
     shards_ok (sr_scratchHist row)"

lemma row_counts_new: "row_counts [] 0 (new_row key now)"
  by (simp add: row_counts_def new_row_def fresh_shards record_all_def)

lemma wrap64_count: "n < 9223372036854775807 \<Longrightarrow> wrap64 (1 + int n) = 1 + int n"
  by (rule wrap64_id) (simp_all add: min_int64_def max_int64_def)

lemma row_counts_record:
  assumes "row_counts es opened row" "length es < 9223372036854775807" "dec \<Longrightarrow> 0 < opened"
  shows "row_counts (es @ [ob]) (if dec then opened - 1 else opened) (snd (snd (recordObservation ob dec (shard_seq, row))))"
proof -
  let ?h = "snd (sharded_Record (ob_Latency ob) (shard_seq, sr_activeHist row))"
  have hist: "shards_ok ?h" "merged_view ?h = record_all (map ob_Latency (es @ [ob]))"
    using assms(1) shards.ok_record [of "(shard_seq, sr_activeHist row)" "ob_Latency ob"]
      shards.view_record [of "(shard_seq, sr_activeHist row)" "ob_Latency ob"]
    by (simp_all add: row_counts_def record_all_snoc)
  have small: "length (filter P es) < 9223372036854775807" for P
    using assms(2) by (simp add: le_less_trans [OF length_filter_le])
  have "count_observation ob dec (sr_counters row) = \<lparr>ct_requestCount = int (length (es @ [ob])),
      ct_errorCount = int (length (filter is_error (es @ [ob]))), ct_timeoutCount = int (length (filter is_timeout (es @ [ob]))),
      ct_inflight = int (if dec then opened - 1 else opened)\<rparr>"
    using assms small [of is_error] small [of is_timeout]
    by (auto simp: row_counts_def count_observation_def Let_def decrementPositive_def is_error_def is_timeout_def wrap64_count add.commute)
  then show ?thesis
    using hist assms(1) by (simp add: recordObservation_def Let_def row_counts_def case_prod_beta)
qed

lemma row_counts_reset: "row_counts es opened row \<Longrightarrow> row_counts [] opened (reset_row now row)"
  by (simp add: row_counts_def reset_row_def Reset_fresh fresh_shards record_all_def)

end
