(* ===== verification/Recorder_Windows.thy ===== *)
theory Recorder_Windows
  imports Telemetry_Recorder "HOL-Library.Multiset"
begin

text \<open>
  Runs of the recorder, one operation after the other: what a window reports is what was counted in it.
\<close>

section \<open>Runs of the recorder\<close>

datatype rec_op =
    CountObservation Observation gotime
  | BeginCall string string string gotime
  | EndCall nat string gotime
  | TakeWindow gotime

text \<open>The recorder, the functions that \<open>Start\<close> has returned, and what was counted since the last window.\<close>

record rec_state =
  rn_recorder :: Recorder
  rn_calls :: "started_call list"
  rn_window :: "(statsKey \<times> Observation) list"

fun rec_step :: "snapshot_order \<Rightarrow> rec_op \<Rightarrow> rec_state \<Rightarrow> rec_state" where
  "rec_step order (CountObservation obs now) s =
     s\<lparr>rn_recorder := snd (Recorder_Observe obs now (rn_recorder s)), rn_window := rn_window s @ [observed obs (rn_recorder s)]\<rparr>"
| "rec_step order (BeginCall destination mthd upstream now) s =
     (case Recorder_Start destination mthd upstream now (rn_recorder s) of
        (c, r) \<Rightarrow> s\<lparr>rn_recorder := r, rn_calls := rn_calls s @ [c]\<rparr>)"
| "rec_step order (EndCall i status now) s =
     (if i < length (rn_calls s)
      then (case finish_call (rn_calls s ! i) status now (rn_recorder s) of
              (c, r) \<Rightarrow> s\<lparr>rn_recorder := r, rn_calls := (rn_calls s)[i := c],
                rn_window := (if sc_once (rn_calls s ! i) then rn_window s
                  else rn_window s @ [(sc_key c, finished (rn_calls s ! i) status now (rn_recorder s))])\<rparr>)
      else s)"
| "rec_step order (TakeWindow now) s =
     s\<lparr>rn_recorder := snd (Recorder_SnapshotAndReset order now (rn_recorder s)), rn_window := []\<rparr>"

definition rec_run :: "snapshot_order \<Rightarrow> string \<Rightarrow> u32 \<Rightarrow> rec_op list \<Rightarrow> rec_state" where
  "rec_run order source shard_seq ops =
     fold (rec_step order) ops \<lparr>rn_recorder = NewRecorderWithClock source shard_seq, rn_calls = [], rn_window = []\<rparr>"

definition counted :: "rec_state \<Rightarrow> statsKey \<Rightarrow> Observation list" where
  "counted s key = map snd (filter (\<lambda>e. fst e = key) (rn_window s))"

definition in_flight :: "rec_state \<Rightarrow> statsKey \<Rightarrow> nat" where
  "in_flight s key = length (filter (\<lambda>c. sc_key c = key \<and> \<not> sc_once c) (rn_calls s))"

definition rec_inv :: "nat \<Rightarrow> rec_state \<Rightarrow> bool" where
  "rec_inv n s \<longleftrightarrow> shards_wf (rn_recorder s) \<and> length (rn_window s) \<le> n \<and> length (rn_calls s) \<le> n \<and>
     (\<forall>key now. row_counts (counted s key) (in_flight s key) (rowFor key now (rn_recorder s)))"

lemma counted_length: "length (counted s key) \<le> length (rn_window s)" and in_flight_length: "in_flight s key \<le> length (rn_calls s)"
  by (simp_all add: counted_def in_flight_def)

lemma record_in_rows:
  assumes "shards_wf r"
  shows "shards_wf (snd (record_in key now ob dec r))"
    and "rowFor k t (snd (record_in key now ob dec r)) =
      (if k = key then snd (snd (recordObservation ob dec (rd_shard_seq r, rowFor key now r))) else rowFor k t r)"
  using assms by (simp_all add: record_in_def case_prod_beta)

lemma in_flight_finish:
  assumes "i < length cs" "\<not> sc_once (cs ! i)"
  shows "length (filter (\<lambda>c. sc_key c = key \<and> \<not> sc_once c) (cs[i := (cs ! i)\<lparr>sc_once := True\<rparr>])) =
      length (filter (\<lambda>c. sc_key c = key \<and> \<not> sc_once c) cs) - (if sc_key (cs ! i) = key then 1 else 0)"
    and "sc_key (cs ! i) = key \<Longrightarrow> 0 < length (filter (\<lambda>c. sc_key c = key \<and> \<not> sc_once c) cs)"
proof -
  have cs: "cs = take i cs @ cs ! i # drop (Suc i) cs"
    using assms(1) by (rule id_take_nth_drop)
  have upd: "cs[i := c] = take i cs @ c # drop (Suc i) cs" for c
    using assms(1) by (rule upd_conv_take_nth_drop)
  let ?P = "\<lambda>c. sc_key c = key \<and> \<not> sc_once c"
  have sum: "length (filter ?P cs) =
      length (filter ?P (take i cs)) + (if sc_key (cs ! i) = key then 1 else 0) + length (filter ?P (drop (Suc i) cs))"
    using assms(2) by (subst cs) simp
  then show "sc_key (cs ! i) = key \<Longrightarrow> 0 < length (filter ?P cs)"
    by simp
  show "length (filter ?P (cs[i := (cs ! i)\<lparr>sc_once := True\<rparr>])) = length (filter ?P cs) - (if sc_key (cs ! i) = key then 1 else 0)"
    unfolding sum upd by simp
qed

lemma map_of_map_keyed: "map_of (map (\<lambda>(k, v). (k, f k v)) xs) key = map_option (f key) (map_of xs key)"
  by (induction xs) auto

lemma snapshot_rows:
  assumes "shards_wf r"
  shows "shards_wf (snd (recorder_snapshot order now reset r))"
    and "rowFor k t (snd (recorder_snapshot order now reset r)) =
      (if row_of r k = None then new_row k t else snd (row_snapshot (rd_source r) k now reset (rowFor k t r)))"
proof -
  have keys: "map fst (map (\<lambda>(key, row). (key, f key row)) rows) = map fst rows" for f :: "statsKey \<Rightarrow> statsRow \<Rightarrow> statsRow" and rows
    by (induction rows) auto
  have "fst ` set (map (\<lambda>(key, row). (key, f key row)) rows) = fst ` set rows" for f :: "statsKey \<Rightarrow> statsRow \<Rightarrow> statsRow" and rows
    using keys [of f rows] by (metis set_map)
  with keys show "shards_wf (snd (recorder_snapshot order now reset r))"
    using assms by (simp add: recorder_snapshot_def shards_wf_def shard_wf_def Let_def del: set_map map_map)
  show "rowFor k t (snd (recorder_snapshot order now reset r)) =
      (if row_of r k = None then new_row k t else snd (row_snapshot (rd_source r) k now reset (rowFor k t r)))"
    using assms shardFor_less [of k]
    by (simp add: recorder_snapshot_def rowFor_def row_of_def shards_wf_def Let_def map_of_map_keyed split: option.split)
qed

section \<open>The invariant\<close>

lemma record_inv:
  assumes "rec_inv n s" "n < 9223372036854775807"
    and "\<And>key. in_flight s' key = in_flight s key - (if dec \<and> key = k then 1 else 0)" "dec \<Longrightarrow> 0 < in_flight s k"
    and "rn_recorder s' = snd (record_in k now ob dec (rn_recorder s))" "rn_window s' = rn_window s @ [(k, ob)]"
    and "length (rn_calls s') = length (rn_calls s)"
  shows "rec_inv (Suc n) s'"
proof -
  let ?r = "rn_recorder s"
  have wf: "shards_wf ?r" and rows: "\<And>key t. row_counts (counted s key) (in_flight s key) (rowFor key t ?r)"
    using assms(1) by (simp_all add: rec_inv_def)
  have "row_counts (counted s' key) (in_flight s' key) (rowFor key t (rn_recorder s'))" for key t
  proof (cases "key = k")
    case True
    have "length (counted s k) < 9223372036854775807"
      using counted_length [of s k] assms(1, 2) by (simp add: rec_inv_def)
    from row_counts_record [OF rows [of k now] this assms(4), of dec ob "rd_shard_seq ?r"] show ?thesis
      using True by (cases dec) (simp_all add: assms(3, 5, 6) record_in_rows [OF wf] counted_def)
  next
    case False
    then show ?thesis
      using rows [of key t] by (simp add: assms(3, 5, 6) record_in_rows [OF wf] counted_def)
  qed
  then show ?thesis
    using assms(1) by (simp add: rec_inv_def assms(5-7) record_in_rows [OF wf])
qed

lemma begin_inv:
  assumes "rec_inv n s" "n < 9223372036854775807"
  shows "rec_inv (Suc n) (rec_step order (BeginCall destination mthd upstream now) s)"
proof -
  let ?r = "rn_recorder s" and ?k = "makeStatsKey destination mthd '''' '''' upstream"
  have wf: "shards_wf ?r" and rows: "\<And>key t. row_counts (counted s key) (in_flight s key) (rowFor key t ?r)"
    using assms(1) by (simp_all add: rec_inv_def)
  have small: "in_flight s ?k < 9223372036854775807"
    using in_flight_length [of s ?k] assms by (simp add: rec_inv_def)
  have "row_counts (counted s ?k) (Suc (in_flight s ?k))
      ((rowFor ?k now ?r)\<lparr>sr_counters := (sr_counters (rowFor ?k now ?r))
        \<lparr>ct_inflight := wrap64 (ct_inflight (sr_counters (rowFor ?k now ?r)) + 1)\<rparr>\<rparr>)"
    using rows [of ?k now] wrap64_count [OF small] by (simp add: row_counts_def add.commute)
  then show ?thesis
    using assms(1) wf rows by (simp add: rec_inv_def Recorder_Start_def Let_def counted_def in_flight_def)
qed

lemma take_inv:
  assumes "rec_inv n s"
  shows "rec_inv n (rec_step order (TakeWindow now) s)"
proof -
  let ?r = "rn_recorder s"
  have wf: "shards_wf ?r" and rows: "\<And>key t. row_counts (counted s key) (in_flight s key) (rowFor key t ?r)"
    using assms by (simp_all add: rec_inv_def)
  have "row_counts [] (in_flight s key) (rowFor key t (snd (recorder_snapshot order now True ?r)))" for key t
  proof (cases "row_of ?r key")
    case None
    then have "rowFor key t ?r = new_row key t"
      by (simp add: rowFor_row_of)
    then have "in_flight s key = 0"
      using rows [of key t] by (simp add: row_counts_def new_row_def)
    then show ?thesis
      using None by (simp add: snapshot_rows [OF wf] row_counts_new)
  next
    case (Some row)
    then show ?thesis
      using rows [of key t] row_counts_reset [OF rows [of key t]]
      by (auto simp: snapshot_rows [OF wf] row_snapshot_def row_counts_def)
  qed
  then show ?thesis
    using assms by (simp add: rec_inv_def Recorder_SnapshotAndReset_def snapshot_rows [OF wf] counted_def in_flight_def)
qed

lemma rec_inv_mono: "rec_inv m s \<Longrightarrow> m \<le> n \<Longrightarrow> rec_inv n s"
  by (auto simp: rec_inv_def)

lemma rec_step_inv:
  assumes "rec_inv n s" "n < 9223372036854775807"
  shows "rec_inv (Suc n) (rec_step order op s)"
proof (cases op)
  case (CountObservation obs now)
  obtain k ob where ob: "observed obs (rn_recorder s) = (k, ob)"
    by (cases "observed obs (rn_recorder s)")
  then show ?thesis
    using CountObservation by (intro record_inv [OF assms, where dec = False and k = k and now = now and ob = ob])
      (simp_all add: Recorder_Observe_def in_flight_def)
next
  case (EndCall i status now)
  show ?thesis
  proof (cases "i < length (rn_calls s) \<and> \<not> sc_once (rn_calls s ! i)")
    case True
    let ?c = "rn_calls s ! i"
    show ?thesis
      using EndCall True in_flight_finish [of i "rn_calls s"]
      by (intro record_inv [OF assms, where dec = True and k = "sc_key ?c" and now = now and ob = "finished ?c status now (rn_recorder s)"])
        (simp_all add: finish_call_def in_flight_def)
  next
    case False
    then have "rec_step order op s = s"
      using EndCall by (auto simp: finish_call_def)
    then show ?thesis
      using rec_inv_mono [OF assms(1)] by simp
  qed
next
  case (TakeWindow now)
  then show ?thesis
    using rec_inv_mono [OF take_inv [OF assms(1)], of "Suc n"] by simp
qed (use begin_inv [OF assms] in simp)

lemma rec_run_inv: "length ops < 9223372036854775807 \<Longrightarrow> rec_inv (length ops) (rec_run order source shard_seq ops)"
proof (induction ops rule: rev_induct)
  case Nil
  have "shards_wf (NewRecorderWithClock source shard_seq)"
    by (simp add: shards_wf_def shard_wf_def NewRecorderWithClock_def)
  moreover have "rowFor key t (NewRecorderWithClock source shard_seq) = new_row key t" for key t
    using shardFor_less [of key] by (simp add: rowFor_def NewRecorderWithClock_def)
  ultimately show ?case
    by (simp add: rec_run_def rec_inv_def counted_def in_flight_def row_counts_new)
next
  case (snoc op ops)
  then show ?case
    using rec_step_inv [of "length ops" "rec_run order source shard_seq ops" order op] by (simp add: rec_run_def)
qed

section \<open>What a window reports\<close>

definition stat_key :: "EndpointStats \<Rightarrow> statsKey" where
  "stat_key st = \<lparr>sk_destination = es_Destination st, sk_method = es_Method st, sk_endpointID = es_EndpointID st,
     sk_registrationEpoch = es_RegistrationEpoch st, sk_upstream = es_Upstream st\<rparr>"

definition active_row :: "statsRow \<Rightarrow> bool" where
  "active_row row \<longleftrightarrow> \<not> (ct_requestCount (sr_counters row) = 0 \<and> ct_inflight (sr_counters row) = 0)"

definition shard_stats :: "string \<Rightarrow> gotime \<Rightarrow> bool \<Rightarrow> (statsKey \<times> statsRow) list \<Rightarrow> EndpointStats list" where
  "shard_stats source now reset rows = List.map_filter (\<lambda>(key, row). fst (row_snapshot source key now reset row)) rows"

lemma shard_stats_eq:
  "shard_stats source now reset rows = map (\<lambda>(key, row). row_stats source key now row) (filter (\<lambda>(key, row). active_row row) rows)"
  by (induction rows) (auto simp: shard_stats_def map_filter_def row_snapshot_def active_row_def)

lemma stat_key_row_stats [simp]: "stat_key (row_stats source key now row) = key"
  by (simp add: stat_key_def row_stats_def)

lemma shard_stats_keys: "map stat_key (shard_stats source now reset rows) = map fst (filter (\<lambda>(key, row). active_row row) rows)"
  by (simp add: shard_stats_eq case_prod_beta)

lemma distinct_concat_tagged:
  assumes "\<And>i. i < n \<Longrightarrow> distinct (g i) \<and> set (g i) \<subseteq> {k. tag k = i}"
  shows "distinct (concat (map g [0..<n]))"
  using assms
proof (induction n)
  case (Suc n)
  have "x \<notin> set (g n)" if "i < n" "x \<in> set (g i)" for i x
    using Suc.prems [of i] Suc.prems [of n] that by (force simp: less_Suc_eq)
  then have "set (concat (map g [0..<n])) \<inter> set (g n) = {}"
    by auto
  then show ?case
    using Suc.IH Suc.prems by simp
qed simp

definition permutes_order :: "snapshot_order \<Rightarrow> bool" where
  "permutes_order order \<longleftrightarrow> (\<forall>xs. mset (fst order xs) = mset xs) \<and> (\<forall>xs. mset (snd order xs) = mset xs)"

lemma snapshot_stats:
  assumes "shards_wf r" "permutes_order order" "stats = fst (recorder_snapshot order now reset r)"
  shows "distinct (map stat_key stats)"
    and "st \<in> set stats \<longleftrightarrow> (\<exists>key row. row_of r key = Some row \<and> active_row row \<and> st = row_stats (rd_source r) key now row)"
proof -
  let ?all = "concat (map (\<lambda>rows. shard_stats (rd_source r) now reset (fst order rows)) (rd_shards r))"
  let ?g = "\<lambda>i. map stat_key (shard_stats (rd_source r) now reset (fst order (rd_shards r ! i)))"
  have perm: "set (fst order xs) = set xs" "mset (fst order xs) = mset xs" "set (snd order ys) = set ys" "mset (snd order ys) = mset ys" for xs ys
    using assms(2) unfolding permutes_order_def by (metis set_mset_mset)+
  have stats: "mset stats = mset ?all" "set stats = set ?all"
    by (simp_all add: assms(3) recorder_snapshot_def Let_def shard_stats_def perm)
  have "map stat_key ?all = concat (map ?g [0..<length (rd_shards r)])"
    unfolding map_concat by (subst map_nth [of "rd_shards r", symmetric]) (simp only: map_map comp_def)
  moreover have "distinct (?g i) \<and> set (?g i) \<subseteq> {k. shardFor k = i}" if "i < length (rd_shards r)" for i
  proof -
    have wf: "shard_wf i (rd_shards r ! i)"
      using assms(1) that by (simp add: shards_wf_def)
    have "distinct (map fst (fst order (rd_shards r ! i)))"
      using wf perm(2) [of "rd_shards r ! i"] unfolding shard_wf_def by (metis mset_eq_imp_distinct_iff mset_map)
    then show ?thesis
      using wf perm(1) [of "rd_shards r ! i"] unfolding shard_stats_keys shard_wf_def
      by (auto simp: distinct_map_filter)
  qed
  ultimately have "distinct (map stat_key ?all)"
    using distinct_concat_tagged [of "length (rd_shards r)" ?g shardFor] by simp
  then show "distinct (map stat_key stats)"
    using stats(1) by (metis mset_eq_imp_distinct_iff mset_map)
  show "st \<in> set stats \<longleftrightarrow> (\<exists>key row. row_of r key = Some row \<and> active_row row \<and> st = row_stats (rd_source r) key now row)"
    unfolding stats(2) by (auto simp: shard_stats_eq perm(1) row_of_member [OF assms(1)])
qed

lemma window_rows:
  assumes "rec_inv n s" "permutes_order order" "stats = fst (recorder_snapshot order now reset (rn_recorder s))"
  shows "stat_key ` set stats = {key. counted s key \<noteq> [] \<or> 0 < in_flight s key}"
    and "st \<in> set stats \<Longrightarrow>
      \<exists>row. row_counts (counted s (stat_key st)) (in_flight s (stat_key st)) row \<and> st = row_stats (rd_source (rn_recorder s)) (stat_key st) now row"
proof -
  let ?r = "rn_recorder s"
  have wf: "shards_wf ?r" and rows: "\<And>key. row_counts (counted s key) (in_flight s key) (rowFor key now ?r)"
    using assms(1) by (simp_all add: rec_inv_def)
  note members = snapshot_stats(2) [OF wf assms(2, 3)]
  have active: "active_row row \<longleftrightarrow> counted s key \<noteq> [] \<or> 0 < in_flight s key" if "row_of ?r key = Some row" for key row
    using rows [of key] that by (simp add: rowFor_row_of row_counts_def active_row_def)
  have absent: "counted s key = [] \<and> in_flight s key = 0" if "row_of ?r key = None" for key
    using rows [of key] that by (simp add: rowFor_row_of row_counts_def new_row_def)
  show "stat_key ` set stats = {key. counted s key \<noteq> [] \<or> 0 < in_flight s key}"
  proof (intro equalityI subsetI)
    fix key
    assume key: "key \<in> {key. counted s key \<noteq> [] \<or> 0 < in_flight s key}"
    then obtain row where "row_of ?r key = Some row"
      using absent [of key] by fastforce
    then have "row_stats (rd_source ?r) key now row \<in> set stats"
      using active key members by blast
    then show "key \<in> stat_key ` set stats"
      by force
  qed (use members active in force)
  assume "st \<in> set stats"
  then obtain key row where st: "row_of ?r key = Some row" "st = row_stats (rd_source ?r) key now row"
    using members [of st] by blast
  then show "\<exists>row. row_counts (counted s (stat_key st)) (in_flight s (stat_key st)) row \<and> st = row_stats (rd_source ?r) (stat_key st) now row"
    using rows [of key] by (intro exI [of _ row]) (simp add: rowFor_row_of)
qed

lemma row_stats_counts:
  assumes "row_counts obs n row" "st = row_stats source key now row"
  shows "es_RequestCount st = int (length obs) \<and> es_ErrorCount st = int (length (filter is_error obs)) \<and>
    es_TimeoutCount st = int (length (filter is_timeout obs)) \<and> es_Inflight st = int n \<and>
    es_LatencyP95 st = latencyHistogram_Quantile p95 (record_all (map ob_Latency obs))"
  using assms shards.view_quantile [of "(0, sr_activeHist row)" p95] by (simp add: row_stats_def row_counts_def)

text \<open>
  C16: a window reports what was counted in it. After every sequence of observations, started and
  completed calls and taken windows, a snapshot has exactly one row for each key with completed calls in
  this window or calls in flight, in the order of destination, address, endpoint and method; the row has
  the exact numbers of requests, errors, timeouts and calls in flight and the percentile of exactly these
  latencies, whatever the shards and the iteration order of the maps.
\<close>

theorem window_exact:
  assumes "length ops < 9223372036854775807" "permutes_order order" "s = rec_run order source shard_seq ops"
    and "stats = fst (Recorder_SnapshotAndReset order now (rn_recorder s))"
  shows "distinct (map stat_key stats) \<and>
    stat_key ` set stats = {key. counted s key \<noteq> [] \<or> 0 < in_flight s key} \<and>
    sorted (map (\<lambda>st. (es_Destination st, es_Upstream st, es_EndpointID st, es_Method st)) stats) \<and>
    (\<forall>st\<in>set stats. es_RequestCount st = int (length (counted s (stat_key st))) \<and>
       es_ErrorCount st = int (length (filter is_error (counted s (stat_key st)))) \<and>
       es_TimeoutCount st = int (length (filter is_timeout (counted s (stat_key st)))) \<and>
       es_Inflight st = int (in_flight s (stat_key st)) \<and>
       es_LatencyP95 st = latencyHistogram_Quantile p95 (record_all (map ob_Latency (counted s (stat_key st)))))"
proof -
  let ?r = "rn_recorder s"
  have inv: "rec_inv (length ops) s"
    unfolding assms(3) by (rule rec_run_inv [OF assms(1)])
  then have wf: "shards_wf ?r"
    by (simp add: rec_inv_def)
  have stats: "stats = fst (recorder_snapshot order now True ?r)"
    by (simp add: assms(4) Recorder_SnapshotAndReset_def)
  have "sorted (map (\<lambda>st. (es_Destination st, es_Upstream st, es_EndpointID st, es_Method st)) stats)"
    by (simp add: stats recorder_snapshot_def Let_def)
  then show ?thesis
    using snapshot_stats(1) [OF wf assms(2) stats] window_rows(1) [OF inv assms(2) stats]
      window_rows(2) [OF inv assms(2) stats] row_stats_counts by blast
qed

definition demo_observation :: Observation where
  "demo_observation = \<lparr>ob_Source = '''', ob_Destination = ''user-service'', ob_Method = ''Get'', ob_EndpointID = ''u1'',
     ob_RegistrationEpoch = '''', ob_Upstream = ''10.0.0.1:80'', ob_Status = '''', ob_Latency = 30000000, ob_Error = True,
     ob_Timeout = False\<rparr>"

definition demo_recorded :: rec_state where
  "demo_recorded = rec_run (\<lambda>rows. rows, \<lambda>stats. stats) ''client'' 0 [CountObservation demo_observation 1, CountObservation demo_observation 2]"

lemma demo_counted:
  "counted demo_recorded (fst (observed demo_observation r)) = [snd (observed demo_observation (NewRecorderWithClock ''client'' 0)),
     snd (observed demo_observation (snd (Recorder_Observe demo_observation 1 (NewRecorderWithClock ''client'' 0))))]"
  by (simp add: demo_recorded_def rec_run_def counted_def observed_def Let_def)

theorem window_exact_witness:
  "\<exists>st. st \<in> set (fst (Recorder_SnapshotAndReset (\<lambda>rows. rows, \<lambda>stats. stats) 5 (rn_recorder demo_recorded))) \<and>
     es_RequestCount st = 2 \<and> es_ErrorCount st = 2 \<and> es_Inflight st = 0"
proof -
  let ?stats = "fst (Recorder_SnapshotAndReset (\<lambda>rows. rows, \<lambda>stats. stats) 5 (rn_recorder demo_recorded))"
  let ?key = "fst (observed demo_observation (NewRecorderWithClock ''client'' 0))"
  have "permutes_order (\<lambda>rows. rows, \<lambda>stats. stats)"
    by (simp add: permutes_order_def)
  from window_exact [OF _ this demo_recorded_def refl, of 5]
  have exact: "stat_key ` set ?stats = {key. counted demo_recorded key \<noteq> [] \<or> 0 < in_flight demo_recorded key}"
    "\<And>st. st \<in> set ?stats \<Longrightarrow> es_RequestCount st = int (length (counted demo_recorded (stat_key st))) \<and>
      es_ErrorCount st = int (length (filter is_error (counted demo_recorded (stat_key st)))) \<and>
      es_Inflight st = int (in_flight demo_recorded (stat_key st))"
    by simp_all
  have key: "length (counted demo_recorded ?key) = 2" "length (filter is_error (counted demo_recorded ?key)) = 2"
    "in_flight demo_recorded ?key = 0"
    unfolding demo_counted by (simp_all add: is_error_def observed_def demo_observation_def Let_def demo_recorded_def rec_run_def in_flight_def)
  then have "?key \<in> stat_key ` set ?stats"
    unfolding exact(1) by auto
  then obtain st where "st \<in> set ?stats" "?key = stat_key st"
    by (rule imageE)
  then show ?thesis
    using exact(2) [of st] key by (intro exI [of _ st]) simp
qed

end
