(* ===== verification/Recorder_Race.thy ===== *)
theory Recorder_Race
  imports Recorder_Windows
begin

text \<open>
  One row of the recorder under concurrency: \<open>recordObservation\<close> and \<open>statsRow.snapshot\<close> of
  \<open>src/pkg/telemetry/recorder.go\<close>, every atomic access of a counter one step. The mutex of the row protects
  the histogram, but the counters are changed before it is taken, so a snapshot loads and clears them while
  calls are being counted.
\<close>

section \<open>Goroutines on a row\<close>

text \<open>
  Where a goroutine stands: a completed call before the decrement of the calls in flight, before each of
  its additions and before the critical section; a snapshot, holding the mutex, before each load, with what
  it has loaded, before each store, and before it exchanges the histograms and unlocks.
\<close>

datatype row_pc =
    Decrementing Observation | AddingRequest Observation | AddingError Observation | AddingTimeout Observation
  | Sampling Observation
  | LoadRequests | LoadInflight int | LoadErrors int | LoadTimeouts int int
  | StoreRequests int int int | StoreErrors | StoreTimeouts | Unlocking

record row_state =
  rs_counters :: statsCounters
  rs_samples :: "duration list"
  rs_locked :: bool
  rs_pcs :: "row_pc multiset"
  rs_counted :: nat
  rs_reported :: "(int \<times> int \<times> int) list"

definition idle_row :: row_state where
  "idle_row = \<lparr>rs_counters = \<lparr>ct_requestCount = 0, ct_errorCount = 0, ct_timeoutCount = 0, ct_inflight = 0\<rparr>,
     rs_samples = [], rs_locked = False, rs_pcs = {#}, rs_counted = 0, rs_reported = []\<rparr>"

abbreviation move :: "row_pc \<Rightarrow> row_pc \<Rightarrow> row_state \<Rightarrow> row_state" where
  "move p q s \<equiv> s\<lparr>rs_pcs := add_mset q (rs_pcs s - {#p#})\<rparr>"

abbreviation leave :: "row_pc \<Rightarrow> row_state \<Rightarrow> row_state" where
  "leave p s \<equiv> s\<lparr>rs_pcs := rs_pcs s - {#p#}\<rparr>"

text \<open>The steps of a completed call; fewer than \<open>2 ^ 63\<close> calls are counted.\<close>

inductive observe_step :: "row_state \<Rightarrow> row_state \<Rightarrow> bool" where
  observe: "observe_step s (s\<lparr>rs_pcs := add_mset (AddingRequest ob) (rs_pcs s)\<rparr>)"
| finish: "observe_step s (s\<lparr>rs_pcs := add_mset (Decrementing ob) (rs_pcs s)\<rparr>)"
| decrement: "Decrementing ob \<in># rs_pcs s \<Longrightarrow> observe_step s (move (Decrementing ob) (AddingRequest ob)
     (s\<lparr>rs_counters := (rs_counters s)\<lparr>ct_inflight := decrementPositive (ct_inflight (rs_counters s))\<rparr>\<rparr>))"
| request: "AddingRequest ob \<in># rs_pcs s \<Longrightarrow> rs_counted s < 9223372036854775807 \<Longrightarrow> observe_step s (move (AddingRequest ob) (AddingError ob)
     (s\<lparr>rs_counters := (rs_counters s)\<lparr>ct_requestCount := wrap64 (ct_requestCount (rs_counters s) + 1)\<rparr>, rs_counted := rs_counted s + 1\<rparr>))"
| error: "AddingError ob \<in># rs_pcs s \<Longrightarrow> observe_step s (move (AddingError ob) (AddingTimeout ob)
     (if is_error ob then s\<lparr>rs_counters := (rs_counters s)\<lparr>ct_errorCount := wrap64 (ct_errorCount (rs_counters s) + 1)\<rparr>\<rparr> else s))"
| timeout: "AddingTimeout ob \<in># rs_pcs s \<Longrightarrow> observe_step s (move (AddingTimeout ob) (Sampling ob)
     (if is_timeout ob then s\<lparr>rs_counters := (rs_counters s)\<lparr>ct_timeoutCount := wrap64 (ct_timeoutCount (rs_counters s) + 1)\<rparr>\<rparr> else s))"
| sample: "Sampling ob \<in># rs_pcs s \<Longrightarrow> \<not> rs_locked s \<Longrightarrow>
     observe_step s (leave (Sampling ob) (s\<lparr>rs_samples := rs_samples s @ [ob_Latency ob]\<rparr>))"

text \<open>The steps of a snapshot that resets.\<close>

inductive snapshot_step :: "row_state \<Rightarrow> row_state \<Rightarrow> bool" where
  lock: "\<not> rs_locked s \<Longrightarrow> snapshot_step s (s\<lparr>rs_locked := True, rs_pcs := add_mset LoadRequests (rs_pcs s)\<rparr>)"
| requests: "LoadRequests \<in># rs_pcs s \<Longrightarrow> snapshot_step s (move LoadRequests (LoadInflight (ct_requestCount (rs_counters s))) s)"
| idle: "LoadInflight n \<in># rs_pcs s \<Longrightarrow> n = 0 \<Longrightarrow> ct_inflight (rs_counters s) = 0 \<Longrightarrow>
     snapshot_step s (leave (LoadInflight n) (s\<lparr>rs_locked := False\<rparr>))"
| inflight: "LoadInflight n \<in># rs_pcs s \<Longrightarrow> n \<noteq> 0 \<or> ct_inflight (rs_counters s) \<noteq> 0 \<Longrightarrow>
     snapshot_step s (move (LoadInflight n) (LoadErrors n) s)"
| errors: "LoadErrors n \<in># rs_pcs s \<Longrightarrow> snapshot_step s (move (LoadErrors n) (LoadTimeouts n (ct_errorCount (rs_counters s))) s)"
| timeouts: "LoadTimeouts n e \<in># rs_pcs s \<Longrightarrow>
     snapshot_step s (move (LoadTimeouts n e) (StoreRequests n e (ct_timeoutCount (rs_counters s))) s)"
| clear_requests: "StoreRequests n e t \<in># rs_pcs s \<Longrightarrow> snapshot_step s (move (StoreRequests n e t) StoreErrors
     (s\<lparr>rs_counters := (rs_counters s)\<lparr>ct_requestCount := 0\<rparr>, rs_reported := rs_reported s @ [(n, e, t)]\<rparr>))"
| clear_errors: "StoreErrors \<in># rs_pcs s \<Longrightarrow>
     snapshot_step s (move StoreErrors StoreTimeouts (s\<lparr>rs_counters := (rs_counters s)\<lparr>ct_errorCount := 0\<rparr>\<rparr>))"
| clear_timeouts: "StoreTimeouts \<in># rs_pcs s \<Longrightarrow>
     snapshot_step s (move StoreTimeouts Unlocking (s\<lparr>rs_counters := (rs_counters s)\<lparr>ct_timeoutCount := 0\<rparr>\<rparr>))"
| unlock: "Unlocking \<in># rs_pcs s \<Longrightarrow> snapshot_step s (leave Unlocking (s\<lparr>rs_samples := [], rs_locked := False\<rparr>))"

inductive row_step :: "row_state \<Rightarrow> row_state \<Rightarrow> bool" where
  observing: "observe_step s s' \<Longrightarrow> row_step s s'"
| snapshotting: "snapshot_step s s' \<Longrightarrow> row_step s s'"


section \<open>Nothing is reported twice\<close>

definition reported_requests :: "row_state \<Rightarrow> int" where
  "reported_requests s = sum_list (map fst (rs_reported s))"

fun loaded :: "row_pc \<Rightarrow> int option" where
  "loaded (LoadInflight n) = Some n"
| "loaded (LoadErrors n) = Some n"
| "loaded (LoadTimeouts n e) = Some n"
| "loaded (StoreRequests n e t) = Some n"
| "loaded _ = None"

fun is_snapshot :: "row_pc \<Rightarrow> bool" where
  "is_snapshot (Decrementing ob) = False"
| "is_snapshot (AddingRequest ob) = False"
| "is_snapshot (AddingError ob) = False"
| "is_snapshot (AddingTimeout ob) = False"
| "is_snapshot (Sampling ob) = False"
| "is_snapshot _ = True"

text \<open>One snapshot at a time, and what it has loaded is still there.\<close>

definition row_inv :: "row_state \<Rightarrow> bool" where
  "row_inv s \<longleftrightarrow> size (filter_mset is_snapshot (rs_pcs s)) = (if rs_locked s then 1 else 0) \<and>
     (\<forall>p n. p \<in># rs_pcs s \<longrightarrow> loaded p = Some n \<longrightarrow> 0 \<le> n \<and> n \<le> ct_requestCount (rs_counters s)) \<and>
     0 \<le> ct_requestCount (rs_counters s) \<and> 0 \<le> reported_requests s \<and>
     reported_requests s + ct_requestCount (rs_counters s) \<le> int (rs_counted s) \<and> rs_counted s \<le> 9223372036854775807"

definition lost :: "row_state \<Rightarrow> int" where
  "lost s = int (rs_counted s) - reported_requests s - ct_requestCount (rs_counters s)"

lemma loaded_snapshot: "loaded p = Some n \<Longrightarrow> is_snapshot p"
  by (cases p) simp_all

lemma observe_step_inv: "observe_step s s' \<Longrightarrow> row_inv s \<Longrightarrow> row_inv s' \<and> lost s' = lost s"
proof (induction rule: observe_step.induct)
  case (request ob s)
  then have "wrap64 (ct_requestCount (rs_counters s) + 1) = ct_requestCount (rs_counters s) + 1"
    by (intro wrap64_id) (simp_all add: row_inv_def min_int64_def max_int64_def)
  with request show ?case
    by (fastforce simp: row_inv_def lost_def reported_requests_def dest!: multi_member_split)
qed (auto simp: row_inv_def lost_def reported_requests_def split: if_splits dest!: multi_member_split)

lemma alone:
  assumes "size (filter_mset is_snapshot (add_mset p M)) \<le> 1" "is_snapshot p" "q \<in># M"
  shows "loaded q = None"
proof -
  have "filter_mset is_snapshot M = {#}"
    using assms(1, 2) by simp
  then have "\<not> is_snapshot q"
    using assms(3) by (metis empty_not_add_mset filter_mset_add_mset multi_member_split)
  then show ?thesis
    using loaded_snapshot [of q] by (cases "loaded q") auto
qed

lemma snapshot_step_inv: "snapshot_step s s' \<Longrightarrow> row_inv s \<Longrightarrow> row_inv s' \<and> lost s \<le> lost s'"
proof (induction rule: snapshot_step.induct)
  case (clear_requests n e t s)
  obtain M where M: "rs_pcs s = add_mset (StoreRequests n e t) M"
    using clear_requests(1) by (metis multi_member_split)
  have "loaded q = None" if "q \<in># M" for q
    using alone [OF _ _ that, of "StoreRequests n e t"] clear_requests(2) by (simp add: row_inv_def M split: if_splits)
  with clear_requests(2) show ?case
    by (auto simp: row_inv_def lost_def reported_requests_def M)
qed (auto simp: row_inv_def lost_def reported_requests_def split: if_splits dest!: multi_member_split)

lemma row_step_inv: "row_step s s' \<Longrightarrow> row_inv s \<Longrightarrow> row_inv s' \<and> lost s \<le> lost s'"
  using observe_step_inv snapshot_step_inv by (auto elim!: row_step.cases)

lemma row_run_inv: "row_step\<^sup>*\<^sup>* s s' \<Longrightarrow> row_inv s \<Longrightarrow> row_inv s' \<and> lost s \<le> lost s'"
  by (induction rule: rtranclp_induct) (use row_step_inv order_trans in blast)+

lemma idle_row_inv: "row_inv idle_row" "lost idle_row = 0"
  by (simp_all add: row_inv_def idle_row_def lost_def reported_requests_def)

text \<open>In every interleaving, the windows together never report more requests than were counted.\<close>

lemma never_overreported:
  assumes "row_step\<^sup>*\<^sup>* idle_row s"
  shows "reported_requests s + ct_requestCount (rs_counters s) \<le> int (rs_counted s)"
  using row_run_inv [OF assms idle_row_inv(1)] by (simp add: row_inv_def)


section \<open>A request that no window reports\<close>

definition lost_for_good :: "row_state \<Rightarrow> bool" where
  "lost_for_good s \<longleftrightarrow>
     (\<forall>s'. row_step\<^sup>*\<^sup>* s s' \<longrightarrow> reported_requests s' + ct_requestCount (rs_counters s') < int (rs_counted s'))"

lemma lost_stays_lost: "row_inv s \<Longrightarrow> 0 < lost s \<Longrightarrow> lost_for_good s"
  using row_run_inv [of s] by (fastforce simp: lost_for_good_def lost_def)

definition quiet_observation :: Observation where
  "quiet_observation = demo_observation\<lparr>ob_Status := ''OK'', ob_Error := False\<rparr>"

definition row_at :: "int \<Rightarrow> nat \<Rightarrow> bool \<Rightarrow> row_pc multiset \<Rightarrow> nat \<Rightarrow> (int \<times> int \<times> int) list \<Rightarrow> row_state" where
  "row_at n k locked pcs c reported = \<lparr>rs_counters = \<lparr>ct_requestCount = n, ct_errorCount = 0, ct_timeoutCount = 0, ct_inflight = 0\<rparr>,
     rs_samples = replicate k 30000000, rs_locked = locked, rs_pcs = pcs, rs_counted = c, rs_reported = reported\<rparr>"

lemma row_at_observe:
  "row_step (row_at n k l M c r) (row_at n k l (add_mset (AddingRequest quiet_observation) M) c r)"
  "n < 1000 \<Longrightarrow> 0 \<le> n \<Longrightarrow> c < 1000 \<Longrightarrow> row_step (row_at n k l (add_mset (AddingRequest quiet_observation) M) c r)
     (row_at (n + 1) k l (add_mset (AddingError quiet_observation) M) (c + 1) r)"
  "row_step (row_at n k l (add_mset (AddingError quiet_observation) M) c r) (row_at n k l (add_mset (AddingTimeout quiet_observation) M) c r)"
  "row_step (row_at n k l (add_mset (AddingTimeout quiet_observation) M) c r) (row_at n k l (add_mset (Sampling quiet_observation) M) c r)"
  "row_step (row_at n k False (add_mset (Sampling quiet_observation) M) c r) (row_at n (k + 1) False M c r)"
proof -
  note [simp] = row_at_def
  have quiet: "\<not> is_error quiet_observation" "\<not> is_timeout quiet_observation" "ob_Latency quiet_observation = 30000000"
    by (simp_all add: quiet_observation_def demo_observation_def is_error_def is_timeout_def)
  show "row_step (row_at n k l M c r) (row_at n k l (add_mset (AddingRequest quiet_observation) M) c r)"
    using observe_step.observe [of "row_at n k l M c r" quiet_observation] by (intro row_step.observing) simp
  show "row_step (row_at n k l (add_mset (AddingRequest quiet_observation) M) c r)
      (row_at (n + 1) k l (add_mset (AddingError quiet_observation) M) (c + 1) r)" if "n < 1000" "0 \<le> n" "c < 1000"
    using observe_step.request [of quiet_observation "row_at n k l (add_mset (AddingRequest quiet_observation) M) c r"] that
    by (intro row_step.observing) (simp add: wrap64_id min_int64_def max_int64_def)
  show "row_step (row_at n k l (add_mset (AddingError quiet_observation) M) c r) (row_at n k l (add_mset (AddingTimeout quiet_observation) M) c r)"
    using observe_step.error [of quiet_observation "row_at n k l (add_mset (AddingError quiet_observation) M) c r"] quiet
    by (intro row_step.observing) simp
  show "row_step (row_at n k l (add_mset (AddingTimeout quiet_observation) M) c r) (row_at n k l (add_mset (Sampling quiet_observation) M) c r)"
    using observe_step.timeout [of quiet_observation "row_at n k l (add_mset (AddingTimeout quiet_observation) M) c r"] quiet
    by (intro row_step.observing) simp
  show "row_step (row_at n k False (add_mset (Sampling quiet_observation) M) c r) (row_at n (k + 1) False M c r)"
    using observe_step.sample [of quiet_observation "row_at n k False (add_mset (Sampling quiet_observation) M) c r"] quiet
    by (intro row_step.observing) (simp add: replicate_append_same)
qed

lemma row_at_load:
  "n \<noteq> 0 \<Longrightarrow> row_step\<^sup>*\<^sup>* (row_at n k False M c r) (row_at n k True (add_mset (StoreRequests n 0 0) M) c r)"
proof -
  assume "n \<noteq> 0"
  have "row_step\<^sup>*\<^sup>* (row_at n k False M c r) (row_at n k True (add_mset LoadRequests M) c r)"
    using snapshot_step.lock [of "row_at n k False M c r"] by (intro r_into_rtranclp row_step.snapshotting) (simp add: row_at_def)
  also have "row_step (row_at n k True (add_mset LoadRequests M) c r) (row_at n k True (add_mset (LoadInflight n) M) c r)"
    using snapshot_step.requests [of "row_at n k True (add_mset LoadRequests M) c r"] by (intro row_step.snapshotting) (simp add: row_at_def)
  also have "row_step (row_at n k True (add_mset (LoadInflight n) M) c r) (row_at n k True (add_mset (LoadErrors n) M) c r)"
    using snapshot_step.inflight [of n "row_at n k True (add_mset (LoadInflight n) M) c r"] \<open>n \<noteq> 0\<close>
    by (intro row_step.snapshotting) (simp add: row_at_def)
  also have "row_step (row_at n k True (add_mset (LoadErrors n) M) c r) (row_at n k True (add_mset (LoadTimeouts n 0) M) c r)"
    using snapshot_step.errors [of n "row_at n k True (add_mset (LoadErrors n) M) c r"] by (intro row_step.snapshotting) (simp add: row_at_def)
  also have "row_step (row_at n k True (add_mset (LoadTimeouts n 0) M) c r) (row_at n k True (add_mset (StoreRequests n 0 0) M) c r)"
    using snapshot_step.timeouts [of n 0 "row_at n k True (add_mset (LoadTimeouts n 0) M) c r"]
    by (intro row_step.snapshotting) (simp add: row_at_def)
  finally show ?thesis .
qed

lemma row_at_store:
  "row_step\<^sup>*\<^sup>* (row_at m k True (add_mset (StoreRequests n 0 0) M) c r) (row_at 0 0 False M c (r @ [(n, 0, 0)]))"
proof -
  let ?r = "r @ [(n, 0, 0)]"
  have "row_step\<^sup>*\<^sup>* (row_at m k True (add_mset (StoreRequests n 0 0) M) c r) (row_at 0 k True (add_mset StoreErrors M) c ?r)"
    using snapshot_step.clear_requests [of n 0 0 "row_at m k True (add_mset (StoreRequests n 0 0) M) c r"]
    by (intro r_into_rtranclp row_step.snapshotting) (simp add: row_at_def)
  also have "row_step (row_at 0 k True (add_mset StoreErrors M) c ?r) (row_at 0 k True (add_mset StoreTimeouts M) c ?r)"
    using snapshot_step.clear_errors [of "row_at 0 k True (add_mset StoreErrors M) c ?r"] by (intro row_step.snapshotting) (simp add: row_at_def)
  also have "row_step (row_at 0 k True (add_mset StoreTimeouts M) c ?r) (row_at 0 k True (add_mset Unlocking M) c ?r)"
    using snapshot_step.clear_timeouts [of "row_at 0 k True (add_mset StoreTimeouts M) c ?r"] by (intro row_step.snapshotting) (simp add: row_at_def)
  also have "row_step (row_at 0 k True (add_mset Unlocking M) c ?r) (row_at 0 0 False M c ?r)"
    using snapshot_step.unlock [of "row_at 0 k True (add_mset Unlocking M) c ?r"] by (intro row_step.snapshotting) (simp add: row_at_def)
  finally show ?thesis .
qed

text \<open>
  C20: a window can lose a request for good. A snapshot loads the number of requests, another call is
  counted, and the snapshot then stores zero: when everything has come to rest two calls were counted, one
  was reported, and whatever happens later the reported requests and the counter never make up for it.
\<close>

theorem request_lost_in_snapshot:
  "\<exists>s. row_step\<^sup>*\<^sup>* idle_row s \<and> rs_pcs s = {#} \<and> rs_counted s = 2 \<and> reported_requests s = 1 \<and> lost_for_good s"
proof -
  let ?q = quiet_observation
  have "idle_row = row_at 0 0 False {#} 0 []"
    by (simp add: idle_row_def row_at_def)
  also have "row_step\<^sup>*\<^sup>* \<dots> (row_at 0 0 False {#AddingRequest ?q#} 0 [])"
    by (intro r_into_rtranclp row_at_observe(1))
  also have "row_step \<dots> (row_at 1 0 False {#AddingError ?q#} 1 [])"
    using row_at_observe(2) [of 0 0 0 False "{#}" "[]"] by simp
  also have "row_step \<dots> (row_at 1 0 False {#AddingTimeout ?q#} 1 [])"
    by (rule row_at_observe(3))
  also have "row_step \<dots> (row_at 1 0 False {#Sampling ?q#} 1 [])"
    by (rule row_at_observe(4))
  also have "row_step \<dots> (row_at 1 1 False {#} 1 [])"
    using row_at_observe(5) [of 1 0 "{#}" 1 "[]"] by simp
  also have "row_step\<^sup>*\<^sup>* \<dots> (row_at 1 1 True {#StoreRequests 1 0 0#} 1 [])"
    by (rule row_at_load) simp
  also have "row_step \<dots> (row_at 1 1 True {#AddingRequest ?q, StoreRequests 1 0 0#} 1 [])"
    by (rule row_at_observe(1))
  also have "row_step \<dots> (row_at 2 1 True {#StoreRequests 1 0 0, AddingError ?q#} 2 [])"
    using row_at_observe(2) [of 1 1 1 True "{#StoreRequests 1 0 0#}" "[]"] by (simp add: add_mset_commute numeral_2_eq_2)
  also have "row_step\<^sup>*\<^sup>* \<dots> (row_at 0 0 False {#AddingError ?q#} 2 [(1, 0, 0)])"
    using row_at_store [of 2 1 1 "{#AddingError ?q#}" 2 "[]"] by simp
  also have "row_step \<dots> (row_at 0 0 False {#AddingTimeout ?q#} 2 [(1, 0, 0)])"
    by (rule row_at_observe(3))
  also have "row_step \<dots> (row_at 0 0 False {#Sampling ?q#} 2 [(1, 0, 0)])"
    by (rule row_at_observe(4))
  also have "row_step \<dots> (row_at 0 1 False {#} 2 [(1, 0, 0)])"
    using row_at_observe(5) [of 0 0 "{#}" 2 "[(1, 0, 0)]"] by simp
  finally have run: "row_step\<^sup>*\<^sup>* idle_row (row_at 0 1 False {#} 2 [(1, 0, 0)])" .
  then have "lost_for_good (row_at 0 1 False {#} 2 [(1, 0, 0)])"
    using row_run_inv [OF run idle_row_inv(1)] by (intro lost_stays_lost) (simp_all add: lost_def reported_requests_def row_at_def)
  with run show ?thesis
    by (intro exI [of _ "row_at 0 1 False {#} 2 [(1, 0, 0)]"]) (simp add: reported_requests_def row_at_def)
qed

end
