(* ===== verification/Security_Auth.thy ===== *)
theory Security_Auth
  imports Go_Strings Go_Float
begin

text \<open>
  \<open>src/pkg/security/auth.go\<close>: who may call the controller. A principal has a role and possibly a list of
  services; the interceptor finds the principal of a call by its token or its certificate, and checks the
  role against the method and the services against the request; the handlers check again. The names that
  a verified certificate gives are part of the context here, and so is the metadata of gRPC; the parser of
  the static tokens is modelled, that of certificate names is not.
\<close>

section \<open>Messages\<close>

text \<open>The messages of \<open>src/api/proto/aegis/v1\<close> that the unary calls of the controller carry.\<close>

record wire_instance =
  wi_Id :: string
  wi_Service :: string
  wi_Address :: string
  wi_Status :: string
  wi_Labels :: "(string \<times> string) list option"
  wi_LastSeenUnixMillis :: int
  wi_SlowScore :: float64
  wi_RegistrationEpoch :: string

record HeartbeatRequest =
  hb_Service :: string
  hb_InstanceId :: string
  hb_LeaseTtlSeconds :: int
  hb_RegistrationEpoch :: string
  hb_OwnerToken :: string

record wire_sample =
  ws_Source :: string
  ws_Service :: string
  ws_InstanceId :: string
  ws_EndpointAddress :: string
  ws_Method :: string
  ws_RequestCount :: int
  ws_ErrorCount :: int
  ws_TimeoutCount :: int
  ws_RetryCount :: int
  ws_Inflight :: int
  ws_LatencyEwmaSeconds :: float64
  ws_LatencyP95Seconds :: float64
  ws_TcpRetransmit :: int
  ws_Capacity :: int
  ws_WindowStartUnixMillis :: int
  ws_WindowEndUnixMillis :: int
  ws_ConnectError :: int
  ws_RegistrationEpoch :: string

text \<open>A request; \<open>None\<close> stands for a nil pointer in it, \<open>NilRequest\<close> for a nil request.\<close>

datatype request =
    RegisterInstanceReq "wire_instance option" int
  | HeartbeatReq HeartbeatRequest
  | ListInstancesReq string
  | WatchInstancesReq string int
  | GetPolicyReq string
  | WatchPolicyReq string
  | ReportEndpointStatsReq "wire_sample option list"
  | ListEndpointHealthReq string
  | NilRequest

text \<open>The full method names, as the generated code has them, and any other.\<close>

datatype rpc_method =
    RegisterInstance_Method
  | Heartbeat_Method
  | ListInstances_Method
  | WatchInstances_Method
  | GetPolicy_Method
  | WatchPolicy_Method
  | ReportEndpointStats_Method
  | ListEndpointHealth_Method
  | OtherMethod string

datatype rpc_code = Unauthenticated | PermissionDenied | InvalidArgument | NotFound | FailedPrecondition | Internal

datatype status_error = StatusError rpc_code string


section \<open>Principals\<close>

type_synonym Role = string

abbreviation RoleAdmin :: Role where "RoleAdmin \<equiv> ''admin''"
abbreviation RoleRegistry :: Role where "RoleRegistry \<equiv> ''registry''"
abbreviation RoleTelemetry :: Role where "RoleTelemetry \<equiv> ''telemetry''"
abbreviation RolePolicy :: Role where "RolePolicy \<equiv> ''policy''"
abbreviation RoleReader :: Role where "RoleReader \<equiv> ''reader''"
abbreviation RoleSDK :: Role where "RoleSDK \<equiv> ''sdk''"

record Principal =
  pr_Role :: Role
  pr_Services :: "string list"

definition Principal_Global :: "Principal \<Rightarrow> bool" where
  "Principal_Global p \<longleftrightarrow> pr_Services p = []"

definition allowsService :: "Principal \<Rightarrow> string \<Rightarrow> bool" where
  "allowsService p service \<longleftrightarrow>
     (if Principal_Global p then True
      else if service = '''' then False
      else list_ex (\<lambda>allowed. allowed = service) (pr_Services p))"

definition DefaultControllerMethodRoles :: "(rpc_method \<times> Role list) list" where
  "DefaultControllerMethodRoles =
     [(RegisterInstance_Method, [RoleRegistry]),
      (Heartbeat_Method, [RoleRegistry]),
      (ListInstances_Method, [RoleRegistry, RoleReader, RoleSDK]),
      (WatchInstances_Method, [RoleRegistry, RoleReader, RoleSDK]),
      (ReportEndpointStats_Method, [RoleTelemetry, RoleSDK]),
      (ListEndpointHealth_Method, [RoleTelemetry, RoleReader]),
      (GetPolicy_Method, [RolePolicy, RoleReader, RoleSDK]),
      (WatchPolicy_Method, [RolePolicy, RoleReader, RoleSDK])]"

record TokenAuthenticator =
  ta_tokens :: "(string \<times> Principal) list"
  ta_mtls :: "(string \<times> Principal) list"
  ta_rules :: "(rpc_method \<times> Role list) list"

definition NewPrincipalTokenAuthenticatorWithMTLS ::
    "(string \<times> Principal) list \<Rightarrow> (string \<times> Principal) list \<Rightarrow> (rpc_method \<times> Role list) list \<Rightarrow> TokenAuthenticator" where
  "NewPrincipalTokenAuthenticatorWithMTLS tokens mtls rules = \<lparr>ta_tokens = tokens, ta_mtls = mtls, ta_rules = rules\<rparr>"

definition auth_Enabled :: "TokenAuthenticator \<Rightarrow> bool" where
  "auth_Enabled a \<longleftrightarrow> ta_tokens a \<noteq> [] \<or> ta_mtls a \<noteq> []"

definition method_roles :: "(rpc_method \<times> Role list) list \<Rightarrow> rpc_method \<Rightarrow> Role list" where
  "method_roles rules mthd = (case map_of rules mthd of Some roles \<Rightarrow> roles | None \<Rightarrow> [])"

definition roleAllowed :: "Role \<Rightarrow> Role list \<Rightarrow> bool" where
  "roleAllowed role allowed \<longleftrightarrow> list_ex (\<lambda>candidate. role = candidate) allowed"


section \<open>The services of a request\<close>

record requestScope =
  rs_services :: "string list"
  rs_globalOnly :: bool

definition empty_scope :: requestScope where
  "empty_scope = \<lparr>rs_services = [], rs_globalOnly = False\<rparr>"

definition singleServiceScope :: "string \<Rightarrow> requestScope" where
  "singleServiceScope service = (if service = '''' then empty_scope else \<lparr>rs_services = [service], rs_globalOnly = False\<rparr>)"

text \<open>The loop over the samples, with the service seen so far; a second one ends it.\<close>

fun report_services :: "wire_sample option list \<Rightarrow> string option \<Rightarrow> requestScope" where
  "report_services [] seen = (case seen of Some service \<Rightarrow> singleServiceScope service | None \<Rightarrow> empty_scope)"
| "report_services (sample # samples) seen =
     (case sample of
        None \<Rightarrow> report_services samples seen
      | Some s \<Rightarrow>
          if ws_Service s = '''' then report_services samples seen
          else if seen \<noteq> None \<and> seen \<noteq> Some (ws_Service s) then \<lparr>rs_services = [], rs_globalOnly = True\<rparr>
          else report_services samples (Some (ws_Service s)))"

definition telemetryReportScope :: "wire_sample option list \<Rightarrow> requestScope" where
  "telemetryReportScope samples = report_services samples None"

text \<open>A request that is not of the type of its method is treated like a nil one.\<close>

definition requestServiceScopeFor :: "rpc_method \<Rightarrow> request \<Rightarrow> requestScope option" where
  "requestServiceScopeFor mthd req =
     (case mthd of
        RegisterInstance_Method \<Rightarrow>
          Some (case req of
                  RegisterInstanceReq inst _ \<Rightarrow> (case inst of Some i \<Rightarrow> singleServiceScope (wi_Service i) | None \<Rightarrow> empty_scope)
                | _ \<Rightarrow> empty_scope)
      | Heartbeat_Method \<Rightarrow> Some (case req of HeartbeatReq r \<Rightarrow> singleServiceScope (hb_Service r) | _ \<Rightarrow> empty_scope)
      | ListInstances_Method \<Rightarrow> Some (case req of ListInstancesReq service \<Rightarrow> singleServiceScope service | _ \<Rightarrow> empty_scope)
      | WatchInstances_Method \<Rightarrow> Some (case req of WatchInstancesReq service _ \<Rightarrow> singleServiceScope service | _ \<Rightarrow> empty_scope)
      | GetPolicy_Method \<Rightarrow> Some (case req of GetPolicyReq service \<Rightarrow> singleServiceScope service | _ \<Rightarrow> empty_scope)
      | WatchPolicy_Method \<Rightarrow> Some (case req of WatchPolicyReq service \<Rightarrow> singleServiceScope service | _ \<Rightarrow> empty_scope)
      | ReportEndpointStats_Method \<Rightarrow>
          Some (case req of ReportEndpointStatsReq samples \<Rightarrow> telemetryReportScope samples | _ \<Rightarrow> empty_scope)
      | ListEndpointHealth_Method \<Rightarrow>
          Some (case req of
                  ListEndpointHealthReq service \<Rightarrow>
                    if service = '''' then \<lparr>rs_services = [], rs_globalOnly = True\<rparr> else singleServiceScope service
                | _ \<Rightarrow> \<lparr>rs_services = [], rs_globalOnly = True\<rparr>)
      | OtherMethod _ \<Rightarrow> None)"

definition authorizePrincipalScope :: "Principal \<Rightarrow> rpc_method \<Rightarrow> request \<Rightarrow> status_error option" where
  "authorizePrincipalScope p mthd req =
     (if Principal_Global p then None
      else
        (case requestServiceScopeFor mthd req of
           None \<Rightarrow> Some (StatusError PermissionDenied ''method does not expose service scope'')
         | Some scope \<Rightarrow>
             if rs_globalOnly scope
             then Some (StatusError PermissionDenied ''service-scoped principal cannot access cross-service request'')
             else if rs_services scope = []
             then Some (StatusError PermissionDenied ''service-scoped principal requires service-bound request'')
             else if list_ex (\<lambda>service. \<not> allowsService p service) (rs_services scope)
             then Some (StatusError PermissionDenied ''principal is not scoped to requested service'')
             else None))"


section \<open>The principal of a call\<close>

record call_context =
  cx_metadata :: "(string \<times> string list) list option"
  cx_identities :: "string list"
  cx_principal :: "Principal option"

definition bearerToken :: "string \<Rightarrow> string option" where
  "bearerToken v =
     (let v = TrimSpace v
      in if length v \<le> 7 \<or> \<not> strings_EqualFold (take 7 v) ''bearer '' then None
         else (let token = TrimSpace (drop 7 v) in if token \<noteq> '''' then Some token else None))"

definition md_Get :: "(string \<times> string list) list \<Rightarrow> string \<Rightarrow> string list" where
  "md_Get md k = (case map_of md k of Some vs \<Rightarrow> vs | None \<Rightarrow> [])"

definition first_token :: "(string \<Rightarrow> string option) \<Rightarrow> string list \<Rightarrow> string" where
  "first_token f vs = (case List.map_filter f vs of token # _ \<Rightarrow> token | [] \<Rightarrow> '''')"

definition tokenFromContext :: "call_context \<Rightarrow> string \<times> bool" where
  "tokenFromContext ctx =
     (case cx_metadata ctx of
        None \<Rightarrow> ('''', False)
      | Some md \<Rightarrow>
          if md_Get md ''authorization'' \<noteq> [] then (first_token bearerToken (md_Get md ''authorization''), True)
          else if md_Get md ''x-aegis-token'' \<noteq> []
          then (first_token (\<lambda>v. let trimmed = TrimSpace v in if trimmed \<noteq> '''' then Some trimmed else None)
                  (md_Get md ''x-aegis-token''), True)
          else ('''', False))"

definition mtlsPrincipalFromContext :: "TokenAuthenticator \<Rightarrow> call_context \<Rightarrow> Principal option" where
  "mtlsPrincipalFromContext a ctx =
     (if ta_mtls a = [] then None
      else (case List.map_filter (map_of (ta_mtls a)) (cx_identities ctx) of p # _ \<Rightarrow> Some p | [] \<Rightarrow> None))"

definition principalFromContext :: "TokenAuthenticator \<Rightarrow> call_context \<Rightarrow> status_error + Principal" where
  "principalFromContext a ctx =
     (let (token, tokenAttempted) = tokenFromContext ctx
      in if tokenAttempted then
           (if token = '''' then Inl (StatusError Unauthenticated ''invalid bearer token'')
            else (case map_of (ta_tokens a) token of
                    None \<Rightarrow> Inl (StatusError Unauthenticated ''invalid bearer token'')
                  | Some p \<Rightarrow> Inr p))
         else
           (case mtlsPrincipalFromContext a ctx of
              Some p \<Rightarrow> Inr p
            | None \<Rightarrow> Inl (StatusError Unauthenticated ''missing bearer token or authorized client certificate'')))"

definition authorize :: "TokenAuthenticator \<Rightarrow> call_context \<Rightarrow> rpc_method \<Rightarrow> request \<Rightarrow> status_error + Principal" where
  "authorize a ctx mthd req =
     (if \<not> auth_Enabled a then Inr \<lparr>pr_Role = '''', pr_Services = []\<rparr>
      else
        (case principalFromContext a ctx of
           Inl e \<Rightarrow> Inl e
         | Inr p \<Rightarrow>
             if pr_Role p = RoleAdmin then Inr p
             else if \<not> roleAllowed (pr_Role p) (method_roles (ta_rules a) mthd)
             then Inl (StatusError PermissionDenied ''role is not allowed for method'')
             else
               (case authorizePrincipalScope p mthd req of
                  Some e \<Rightarrow> Inl e
                | None \<Rightarrow> Inr p)))"

text \<open>The interceptor around a handler that changes a state.\<close>

definition UnaryServerInterceptor ::
    "TokenAuthenticator \<Rightarrow> (call_context \<Rightarrow> request \<Rightarrow> 's \<Rightarrow> (status_error + 'r) \<times> 's) \<Rightarrow> call_context \<Rightarrow> rpc_method
      \<Rightarrow> request \<Rightarrow> 's \<Rightarrow> (status_error + 'r) \<times> 's" where
  "UnaryServerInterceptor a handler ctx mthd req s =
     (case authorize a ctx mthd req of
        Inl e \<Rightarrow> (Inl e, s)
      | Inr p \<Rightarrow>
          handler (if pr_Role p \<noteq> '''' then ctx\<lparr>cx_principal := Some p\<rparr> else ctx) req s)"

text \<open>The check that the handlers make themselves.\<close>

definition AuthorizeControllerPrincipal :: "call_context \<Rightarrow> rpc_method \<Rightarrow> request \<Rightarrow> status_error option" where
  "AuthorizeControllerPrincipal ctx mthd req =
     (case cx_principal ctx of
        None \<Rightarrow> None
      | Some p \<Rightarrow>
          if pr_Role p = '''' then None
          else if pr_Role p = RoleAdmin then None
          else if \<not> roleAllowed (pr_Role p) (method_roles DefaultControllerMethodRoles mthd)
          then Some (StatusError PermissionDenied ''role is not allowed for method'')
          else authorizePrincipalScope p mthd req)"

section \<open>Static tokens\<close>

datatype binding_error =
    NoRole
  | UnknownRole Role
  | EmptyScope Role
  | DuplicateScope string
  | NoSubject string
  | NoToken string
  | ScopedAdmin
  | DuplicatePrincipal

definition knownRole :: "Role \<Rightarrow> bool" where
  "knownRole role \<longleftrightarrow> role \<in> {RoleAdmin, RoleRegistry, RoleTelemetry, RolePolicy, RoleReader, RoleSDK}"

text \<open>The loop over the names of a scope.\<close>

fun scope_services :: "Role \<Rightarrow> string list \<Rightarrow> string list \<Rightarrow> binding_error + string list" where
  "scope_services role [] services = Inr services"
| "scope_services role (service # rest) services =
     (let service = TrimSpace service
      in if service = '''' then Inl (EmptyScope role)
         else if service \<in> set services then Inl (DuplicateScope service)
         else scope_services role rest (services @ [service]))"

definition parseRoleScope :: "string \<Rightarrow> binding_error + Role \<times> string list" where
  "parseRoleScope raw =
     (let (roleRaw, scopeRaw, scoped) = strings_Cut CHR '':'' (TrimSpace raw);
          role = TrimSpace roleRaw
      in if role = '''' then Inl NoRole
         else if \<not> knownRole role then Inl (UnknownRole role)
         else if \<not> scoped then Inr (role, [])
         else
           (let scopeRaw = TrimSpace scopeRaw
            in if scopeRaw = '''' then Inl (EmptyScope role)
               else
                 (case scope_services role (strings_Split (replace_byte CHR ''+'' CHR ''|'' scopeRaw) CHR ''|'') [] of
                    Inl e \<Rightarrow> Inl e
                  | Inr services \<Rightarrow> Inr (role, services))))"

definition parse_binding :: "string \<Rightarrow> (string \<times> Principal) list \<Rightarrow> binding_error + (string \<times> Principal) list" where
  "parse_binding item out =
     (let (roleRaw, subject, ok) = strings_Cut CHR ''='' item
      in if \<not> ok then Inl (NoSubject item)
         else
           (case parseRoleScope roleRaw of
              Inl e \<Rightarrow> Inl e
            | Inr (role, services) \<Rightarrow>
                (let subject = TrimSpace subject
                 in if subject = '''' then Inl (NoToken item)
                    else if role = RoleAdmin \<and> services \<noteq> [] then Inl ScopedAdmin
                    else if map_of out subject \<noteq> None then Inl DuplicatePrincipal
                    else Inr (out @ [(subject, \<lparr>pr_Role = role, pr_Services = services\<rparr>)]))))"

fun parse_bindings :: "string list \<Rightarrow> (string \<times> Principal) list \<Rightarrow> binding_error + (string \<times> Principal) list" where
  "parse_bindings [] out = Inr out"
| "parse_bindings (item # items) out =
     (let item = TrimSpace item
      in if item = '''' then parse_bindings items out
         else (case parse_binding item out of Inl e \<Rightarrow> Inl e | Inr out \<Rightarrow> parse_bindings items out))"

definition ParseStaticTokenPrincipals :: "string \<Rightarrow> binding_error + (string \<times> Principal) list" where
  "ParseStaticTokenPrincipals raw =
     (let raw = TrimSpace raw
      in if raw = '''' then Inr []
         else parse_bindings (strings_FieldsFunc (\<lambda>c. c = CHR '','' \<or> c = CHR '';'') raw) [])"


section \<open>What the configuration means\<close>

lemma split_on_nonempty: "split_on sep s \<noteq> []"
  by (induction s) (auto split: list.split)

lemma scope_services_ok:
  "scope_services role names services = Inr out \<Longrightarrow> distinct services \<and> '''' \<notin> set services
    \<Longrightarrow> distinct out \<and> '''' \<notin> set out \<and> set out = set services \<union> TrimSpace ` set names"
proof (induction names arbitrary: services)
  case (Cons name names)
  then have "scope_services role names (services @ [TrimSpace name]) = Inr out" "TrimSpace name \<noteq> ''''" "TrimSpace name \<notin> set services"
    by (auto simp: Let_def split: if_splits)
  moreover from this have "distinct (services @ [TrimSpace name]) \<and> '''' \<notin> set (services @ [TrimSpace name])"
    using Cons.prems(2) by simp
  ultimately have "distinct out \<and> '''' \<notin> set out \<and> set out = set (services @ [TrimSpace name]) \<union> TrimSpace ` set names"
    by (intro Cons.IH)
  then show ?case
    by (elim conjE, intro conjI) (assumption+, simp)
qed simp

lemma parseRoleScope_ok:
  assumes "parseRoleScope raw = Inr (role, services)"
  shows "knownRole role \<and> distinct services \<and> '''' \<notin> set services \<and> (services = [] \<longleftrightarrow> CHR '':'' \<notin> set raw)"
proof -
  obtain roleRaw scopeRaw scoped where cut: "strings_Cut CHR '':'' (TrimSpace raw) = (roleRaw, scopeRaw, scoped)"
    using prod_cases3 by blast
  have "printable CHR '':''"
    by (simp add: printable_def)
  then have colon: "scoped \<longleftrightarrow> CHR '':'' \<in> set raw"
    using cut TrimSpace_member [of "CHR '':''" raw] strings_Cut_iff [of "CHR '':''" "TrimSpace raw"] by simp
  show ?thesis
  proof (cases scoped)
    case True
    let ?names = "strings_Split (replace_byte CHR ''+'' CHR ''|'' (TrimSpace scopeRaw)) CHR ''|''"
    have role: "knownRole role" "scope_services role ?names [] = Inr services"
      using assms cut True by (auto simp: parseRoleScope_def Let_def split: if_splits sum.splits)
    have "?names \<noteq> []"
      by (simp add: strings_Split_def split_on_nonempty)
    then show ?thesis
      using scope_services_ok [OF role(2)] role(1) True colon by auto
  next
    case False
    then show ?thesis
      using assms cut colon by (auto simp: parseRoleScope_def Let_def split: if_splits)
  qed
qed

definition bound_by :: "string list \<Rightarrow> string \<times> Principal \<Rightarrow> bool" where
  "bound_by items e \<longleftrightarrow> fst e \<noteq> '''' \<and> knownRole (pr_Role (snd e)) \<and> (pr_Role (snd e) = RoleAdmin \<longrightarrow> Principal_Global (snd e)) \<and>
     distinct (pr_Services (snd e)) \<and> '''' \<notin> set (pr_Services (snd e)) \<and>
     (\<exists>item\<in>set items. \<exists>scope token. TrimSpace item = scope @ ''='' @ token \<and> CHR ''='' \<notin> set scope \<and>
        fst e = TrimSpace token \<and> (Principal_Global (snd e) \<longleftrightarrow> CHR '':'' \<notin> set scope))"

lemma parse_binding_ok:
  assumes "parse_binding (TrimSpace item) out = Inr out'" "item \<in> set items" "distinct (map fst out)" "list_all (bound_by items) out"
  shows "distinct (map fst out') \<and> list_all (bound_by items) out'"
proof -
  obtain scope token where cut: "strings_Cut CHR ''='' (TrimSpace item) = (scope, token, True)"
    using assms(1) by (auto simp: parse_binding_def Let_def split: if_splits prod.splits)
  obtain role services where rs: "parseRoleScope scope = Inr (role, services)" "TrimSpace token \<noteq> ''''"
    "role = RoleAdmin \<longrightarrow> services = []" "map_of out (TrimSpace token) = None"
    "out' = out @ [(TrimSpace token, \<lparr>pr_Role = role, pr_Services = services\<rparr>)]"
    using assms(1) cut by (auto simp: parse_binding_def Let_def split: if_splits sum.splits)
  note found = strings_Cut_found [OF cut]
  have "bound_by items (TrimSpace token, \<lparr>pr_Role = role, pr_Services = services\<rparr>)"
    using parseRoleScope_ok [OF rs(1)] rs(2, 3) found assms(2) unfolding bound_by_def Principal_Global_def by auto
  moreover have "TrimSpace token \<notin> fst ` set out"
    using rs(4) by (simp add: map_of_eq_None_iff)
  ultimately show ?thesis
    using assms(3, 4) rs(5) by simp
qed

lemma parse_bindings_ok:
  "parse_bindings items out = Inr out' \<Longrightarrow> set items \<subseteq> set all \<Longrightarrow> distinct (map fst out) \<Longrightarrow> list_all (bound_by all) out
    \<Longrightarrow> distinct (map fst out') \<and> list_all (bound_by all) out'"
proof (induction items arbitrary: out)
  case (Cons item items)
  show ?case
  proof (cases "TrimSpace item = ''''")
    case True
    then show ?thesis
      using Cons by (simp add: Let_def)
  next
    case False
    then obtain out1 where out1: "parse_binding (TrimSpace item) out = Inr out1" "parse_bindings items out1 = Inr out'"
      using Cons.prems(1) by (auto simp: Let_def split: sum.splits)
    then show ?thesis
      using parse_binding_ok [OF out1(1), of all] Cons.IH [OF out1(2)] Cons.prems by simp
  qed
qed simp

text \<open>
  C23: the list of static tokens is read without widening anybody's rights. If it is accepted, no token
  occurs twice, every principal has one of the known roles and comes from an entry
  \<open>role[:services]=token\<close> of the list, and it is allowed on all services exactly if its entry has no
  scope: an entry with an empty, repeated or blank scope is refused and never read as one without. An
  administrator is never scoped.
\<close>

theorem token_scopes_fail_closed:
  assumes "ParseStaticTokenPrincipals raw = Inr principals"
  shows "distinct (map fst principals) \<and>
    (\<forall>(token, p)\<in>set principals. token \<noteq> '''' \<and> knownRole (pr_Role p) \<and> (pr_Role p = RoleAdmin \<longrightarrow> Principal_Global p) \<and>
       distinct (pr_Services p) \<and> '''' \<notin> set (pr_Services p) \<and>
       (\<exists>item\<in>set (strings_FieldsFunc (\<lambda>c. c = CHR '','' \<or> c = CHR '';'') (TrimSpace raw)).
          \<exists>scope subject. TrimSpace item = scope @ ''='' @ subject \<and> CHR ''='' \<notin> set scope \<and> token = TrimSpace subject \<and>
            (Principal_Global p \<longleftrightarrow> CHR '':'' \<notin> set scope)))"
proof (cases "TrimSpace raw = ''''")
  case True
  then show ?thesis
    using assms by (simp add: ParseStaticTokenPrincipals_def)
next
  case False
  let ?items = "strings_FieldsFunc (\<lambda>c. c = CHR '','' \<or> c = CHR '';'') (TrimSpace raw)"
  have "parse_bindings ?items [] = Inr principals"
    using assms False by (simp add: ParseStaticTokenPrincipals_def)
  from parse_bindings_ok [OF this subset_refl] show ?thesis
    by (simp add: list_all_iff bound_by_def case_prod_beta)
qed

lemma demo_tokens:
  "ParseStaticTokenPrincipals ''sdk:orders+carts=t1,admin=root'' =
    Inr [(''t1'', \<lparr>pr_Role = RoleSDK, pr_Services = [''orders'', ''carts'']\<rparr>), (''root'', \<lparr>pr_Role = RoleAdmin, pr_Services = []\<rparr>)]"
  by (simp add: ParseStaticTokenPrincipals_def TrimSpace_id printable_def strings_FieldsFunc_def parse_binding_def strings_Cut_def
      parseRoleScope_def knownRole_def replace_byte_def strings_Split_def)

theorem token_scopes_fail_closed_witness:
  "\<exists>principals. ParseStaticTokenPrincipals ''sdk:orders+carts=t1,admin=root'' = Inr principals \<and>
     distinct (map fst principals) \<and> length principals = 2"
  using token_scopes_fail_closed [OF demo_tokens] demo_tokens by simp

end
