(* ===== verification/Expiry_Heap.thy ===== *)
theory Expiry_Heap
  imports Prelude "HOL-Library.Multiset"
begin

text \<open>
  The expiry queue of \<open>src/pkg/registry/registry.go\<close>: \<open>expiryHeap\<close> with the \<open>Push\<close> and \<open>Pop\<close> of
  the standard package \<open>container/heap\<close> it is used with, \<open>pushExpiry\<close> and \<open>popExpired\<close>; the contract
  of such a queue, as a locale; and that the array heap meets it.
\<close>

section \<open>Entries and the array heap\<close>

record expiryEntry =
  xe_service :: string
  xe_id :: string
  xe_expiresAt :: gotime
  xe_generation :: "64 word"

type_synonym expiryHeap = "expiryEntry list"

definition Less :: "expiryHeap \<Rightarrow> nat \<Rightarrow> nat \<Rightarrow> bool" where
  "Less h i j \<longleftrightarrow> xe_expiresAt (h ! i) < xe_expiresAt (h ! j)"

definition Swap :: "nat \<Rightarrow> nat \<Rightarrow> expiryHeap \<Rightarrow> expiryHeap" where
  "Swap i j h = h[i := h ! j, j := h ! i]"

text \<open>The methods of the interface of \<open>container/heap\<close>: they work at the end of the array.\<close>

definition expiryHeap_Len :: "expiryHeap \<Rightarrow> nat" where
  "expiryHeap_Len h = length h"

definition expiryHeap_Push :: "expiryEntry \<Rightarrow> expiryHeap \<Rightarrow> expiryHeap" where
  "expiryHeap_Push x h = h @ [x]"

definition expiryHeap_Pop :: "expiryHeap \<Rightarrow> expiryEntry \<times> expiryHeap" where
  "expiryHeap_Pop h = (let n = length h in (h ! (n - 1), take (n - 1) h))"

lemmas heap_methods [simp] = expiryHeap_Len_def expiryHeap_Push_def expiryHeap_Pop_def

text \<open>\<open>up\<close> and \<open>down\<close> of \<open>container/heap\<close>: an entry climbs to its parent, or sinks to its smaller child.\<close>

fun heap_up :: "expiryHeap \<Rightarrow> nat \<Rightarrow> expiryHeap" where
  "heap_up h j =
     (let i = (j - 1) div 2
      in if i = j \<or> \<not> Less h j i then h else heap_up (Swap i j h) i)"

declare heap_up.simps [simp del]

function heap_down :: "expiryHeap \<Rightarrow> nat \<Rightarrow> nat \<Rightarrow> expiryHeap" where
  "heap_down h i n =
     (let j1 = 2 * i + 1; j2 = j1 + 1
      in if j1 \<ge> n then h
         else
           (let j = (if j2 < n \<and> Less h j2 j1 then j2 else j1)
            in if \<not> Less h j i then h else heap_down (Swap i j h) j n))"
  by pat_completeness auto

termination
  by (relation "measure (\<lambda>(h, i, n). n - i)") (auto simp: Let_def split: if_splits)

declare heap_down.simps [simp del]

definition heap_Push :: "expiryEntry \<Rightarrow> expiryHeap \<Rightarrow> expiryHeap" where
  "heap_Push x h = (let h = expiryHeap_Push x h in heap_up h (expiryHeap_Len h - 1))"

definition heap_Pop :: "expiryHeap \<Rightarrow> expiryEntry \<times> expiryHeap" where
  "heap_Pop h =
     (let n = expiryHeap_Len h - 1; h = heap_down (Swap 0 n h) 0 n
      in expiryHeap_Pop h)"

definition pushExpiry :: "expiryEntry \<Rightarrow> expiryHeap \<Rightarrow> expiryHeap" where
  "pushExpiry entry h = heap_Push entry h"

definition popExpired :: "gotime \<Rightarrow> expiryHeap \<Rightarrow> (expiryEntry \<times> expiryHeap) option" where
  "popExpired now h =
     (if h = [] \<or> xe_expiresAt (h ! 0) > now then None else Some (heap_Pop h))"


section \<open>The contract of an expiry queue\<close>

locale expiry_queue =
  fixes push :: "expiryEntry \<Rightarrow> 'q \<Rightarrow> 'q"
    and pop_due :: "gotime \<Rightarrow> 'q \<Rightarrow> (expiryEntry \<times> 'q) option"
    and queue_ok :: "'q \<Rightarrow> bool"
    and entries :: "'q \<Rightarrow> expiryEntry multiset"
  assumes push_ok: "queue_ok q \<Longrightarrow> queue_ok (push e q)"
    and push_entries: "queue_ok q \<Longrightarrow> entries (push e q) = add_mset e (entries q)"
    and pop_ok: "queue_ok q \<Longrightarrow> pop_due now q = Some (e, q') \<Longrightarrow> queue_ok q'"
    and pop_entries: "queue_ok q \<Longrightarrow> pop_due now q = Some (e, q') \<Longrightarrow> entries q = add_mset e (entries q')"
    and pop_due: "queue_ok q \<Longrightarrow> pop_due now q = Some (e, q') \<Longrightarrow> xe_expiresAt e \<le> now"
    and pop_none: "queue_ok q \<Longrightarrow> pop_due now q = None \<Longrightarrow> e \<in># entries q \<Longrightarrow> now < xe_expiresAt e"
begin

lemma pop_smaller: "queue_ok q \<Longrightarrow> pop_due now q = Some (e, q') \<Longrightarrow> size (entries q') < size (entries q)"
  using pop_entries by fastforce

lemma pop_member:
  assumes "queue_ok q" "pop_due now q = Some (e, q')"
  shows "x \<in># entries q \<longleftrightarrow> x = e \<or> x \<in># entries q'"
  using pop_entries [OF assms] by auto

lemma push_member: "queue_ok q \<Longrightarrow> x \<in># entries (push e q) \<longleftrightarrow> x = e \<or> x \<in># entries q"
  by (simp add: push_entries)

lemma due_is_popped: "queue_ok q \<Longrightarrow> e \<in># entries q \<Longrightarrow> xe_expiresAt e \<le> now \<Longrightarrow> pop_due now q \<noteq> None"
  using pop_none by fastforce

end


section \<open>The order of the array\<close>

definition parent :: "nat \<Rightarrow> nat" where
  "parent i = (i - 1) div 2"

definition ordered_at :: "expiryHeap \<Rightarrow> nat \<Rightarrow> bool" where
  "ordered_at h i \<longleftrightarrow> xe_expiresAt (h ! parent i) \<le> xe_expiresAt (h ! i)"

definition is_heap :: "nat \<Rightarrow> expiryHeap \<Rightarrow> bool" where
  "is_heap n h \<longleftrightarrow> n \<le> length h \<and> (\<forall>i. 0 < i \<longrightarrow> i < n \<longrightarrow> ordered_at h i)"

lemma parent_less: "0 < i \<Longrightarrow> parent i < i"
  by (simp add: parent_def)

lemma parent_children: "parent (2 * i + 1) = i" "parent (2 * i + 2) = i"
  by (simp_all add: parent_def)

lemma parent_eq: "0 < j \<Longrightarrow> parent j = i \<longleftrightarrow> j = 2 * i + 1 \<or> j = 2 * i + 2"
  unfolding parent_def by presburger

lemma heap_least: "is_heap n h \<Longrightarrow> i < n \<Longrightarrow> xe_expiresAt (h ! 0) \<le> xe_expiresAt (h ! i)"
proof (induction i rule: less_induct)
  case (less i)
  show ?case
  proof (cases "i = 0")
    case False
    then have "xe_expiresAt (h ! 0) \<le> xe_expiresAt (h ! parent i)" "ordered_at h i"
      using less parent_less [of i] by (auto simp: is_heap_def)
    then show ?thesis
      by (simp add: ordered_at_def)
  qed simp
qed

lemma Swap_simps [simp]:
  "length (Swap i j h) = length h"
  "i < length h \<Longrightarrow> j < length h \<Longrightarrow> Swap i j h ! i = h ! j"
  "i < length h \<Longrightarrow> j < length h \<Longrightarrow> Swap i j h ! j = h ! i"
  "k \<noteq> i \<Longrightarrow> k \<noteq> j \<Longrightarrow> Swap i j h ! k = h ! k"
  by (simp_all add: Swap_def nth_list_update)

lemma mset_Swap [simp]: "i < length h \<Longrightarrow> j < length h \<Longrightarrow> mset (Swap i j h) = mset h"
  by (simp add: Swap_def mset_swap)

text \<open>A heap but for the entry at \<open>j\<close>, which may be before its parent.\<close>

definition rising :: "expiryHeap \<Rightarrow> nat \<Rightarrow> bool" where
  "rising h j \<longleftrightarrow> j < length h \<and> (\<forall>i. 0 < i \<longrightarrow> i < length h \<longrightarrow> i \<noteq> j \<longrightarrow> ordered_at h i) \<and>
     (\<forall>i. 0 < j \<longrightarrow> 0 < i \<longrightarrow> i < length h \<longrightarrow> parent i = j \<longrightarrow> xe_expiresAt (h ! parent j) \<le> xe_expiresAt (h ! i))"

text \<open>A heap of \<open>n\<close> entries but for the entry at \<open>i\<close>, which may be after its children.\<close>

definition sinking :: "nat \<Rightarrow> expiryHeap \<Rightarrow> nat \<Rightarrow> bool" where
  "sinking n h i \<longleftrightarrow> n \<le> length h \<and> (\<forall>k. 0 < k \<longrightarrow> k < n \<longrightarrow> parent k \<noteq> i \<longrightarrow> ordered_at h k) \<and>
     (\<forall>k. 0 < i \<longrightarrow> 0 < k \<longrightarrow> k < n \<longrightarrow> parent k = i \<longrightarrow> xe_expiresAt (h ! parent i) \<le> xe_expiresAt (h ! k))"

lemma rising_step:
  assumes "rising h j" "0 < j" "Less h j (parent j)"
  shows "rising (Swap (parent j) j h) (parent j)"
proof -
  let ?i = "parent j" and ?k = "\<lambda>h i. xe_expiresAt (h ! i)"
  let ?h = "Swap (parent j) j h"
  have lt: "?i < j" "j < length h" "?i < length h" and less: "?k h j < ?k h ?i"
    using assms parent_less [of j] by (auto simp: rising_def Less_def)
  have ord: "?k h (parent k) \<le> ?k h k" if "0 < k" "k < length h" "k \<noteq> j" for k
    using assms(1) that by (simp add: rising_def ordered_at_def)
  have below: "?k h ?i \<le> ?k h k" if "0 < k" "k < length h" "parent k = j" for k
    using assms(1, 2) that by (simp add: rising_def)
  have "ordered_at ?h k" if k: "0 < k" "k < length h" "k \<noteq> ?i" for k
  proof -
    consider "k = j" | "k \<noteq> j" "parent k = ?i" | "k \<noteq> j" "parent k = j" | "k \<noteq> j" "parent k \<noteq> ?i" "parent k \<noteq> j"
      by blast
    then show ?thesis
      using k lt less ord [of k] below [of k] parent_less [of k] by cases (simp_all add: ordered_at_def)
  qed
  moreover have "?k ?h (parent ?i) \<le> ?k ?h k" if "0 < ?i" "0 < k" "k < length h" "parent k = ?i" for k
  proof -
    have "?k h (parent ?i) \<le> ?k h ?i" "parent ?i < ?i" "k \<noteq> ?i"
      using ord [of ?i] that lt parent_less [of ?i] parent_less [of k] by auto
    then show ?thesis
      using that lt ord [of k] by (cases "k = j") auto
  qed
  ultimately show ?thesis
    using lt by (simp add: rising_def)
qed

lemma heap_up_unfold:
  "heap_up h j = (if parent j = j \<or> \<not> Less h j (parent j) then h else heap_up (Swap (parent j) j h) (parent j))"
  by (subst heap_up.simps) (simp add: Let_def parent_def)

lemma heap_up_ok: "rising h j \<Longrightarrow> is_heap (length h) (heap_up h j) \<and> mset (heap_up h j) = mset h"
proof (induction h j rule: heap_up.induct)
  case (1 h j)
  show ?case
  proof (cases "parent j = j \<or> \<not> Less h j (parent j)")
    case True
    then have "ordered_at h j" if "0 < j"
      using that parent_less [of j] by (auto simp: ordered_at_def Less_def)
    then show ?thesis
      using True 1(2) by (auto simp: heap_up_unfold [of h j] is_heap_def rising_def)
  next
    case False
    then have "0 < j"
      by (cases j) (auto simp: parent_def)
    then have "rising (Swap (parent j) j h) (parent j)" "parent j < length h" "j < length h"
      using rising_step [OF 1(2)] False 1(2) parent_less [of j] by (auto simp: rising_def)
    then show ?thesis
      using False 1(1) [of "parent j"] by (simp add: heap_up_unfold [of h j] parent_def [of j])
  qed
qed

lemma sinking_step:
  assumes "sinking n h i" "j < n" "parent j = i" "0 < j" "Less h j i"
    and "\<And>k. 0 < k \<Longrightarrow> k < n \<Longrightarrow> parent k = i \<Longrightarrow> xe_expiresAt (h ! j) \<le> xe_expiresAt (h ! k)"
  shows "sinking n (Swap i j h) j"
proof -
  let ?k = "\<lambda>h i. xe_expiresAt (h ! i)" and ?h = "Swap i j h"
  have lt: "i < j" "j < length h" "i < length h" and less: "?k h j < ?k h i"
    using assms parent_less [of j] by (auto simp: sinking_def Less_def)
  have ord: "?k h (parent k) \<le> ?k h k" if "0 < k" "k < n" "parent k \<noteq> i" for k
    using assms(1) that by (simp add: sinking_def ordered_at_def)
  have above: "?k h (parent i) \<le> ?k h j" if "0 < i"
    using assms(1-4) that by (simp add: sinking_def)
  have "ordered_at ?h k" if k: "0 < k" "k < n" "parent k \<noteq> j" for k
  proof -
    consider "k = j" | "k = i" | "k \<noteq> j" "k \<noteq> i" "parent k = i" | "k \<noteq> j" "k \<noteq> i" "parent k \<noteq> i"
      by blast
    then show ?thesis
      using k lt less assms(3) ord [of k] above assms(6) [of k] parent_less [of k] by cases (simp_all add: ordered_at_def)
  qed
  moreover have "?k ?h (parent j) \<le> ?k ?h k" if "0 < k" "k < n" "parent k = j" for k
    using that lt assms(3) ord [of k] parent_less [of k] by auto
  ultimately show ?thesis
    using assms(1) by (simp add: sinking_def)
qed

definition smaller_child :: "expiryHeap \<Rightarrow> nat \<Rightarrow> nat \<Rightarrow> nat" where
  "smaller_child h i n = (if 2 * i + 2 < n \<and> Less h (2 * i + 2) (2 * i + 1) then 2 * i + 2 else 2 * i + 1)"

lemma heap_down_unfold:
  "heap_down h i n =
     (if n \<le> 2 * i + 1 \<or> \<not> Less h (smaller_child h i n) i then h
      else heap_down (Swap i (smaller_child h i n) h) (smaller_child h i n) n)"
  by (subst heap_down.simps) (simp add: Let_def smaller_child_def)

lemma smaller_child_least:
  "0 < k \<Longrightarrow> k < n \<Longrightarrow> parent k = i \<Longrightarrow> xe_expiresAt (h ! smaller_child h i n) \<le> xe_expiresAt (h ! k)"
  by (auto simp: smaller_child_def parent_eq Less_def)

lemma smaller_child_child: "2 * i + 1 < n \<Longrightarrow> parent (smaller_child h i n) = i \<and> smaller_child h i n < n \<and> i < smaller_child h i n"
  by (auto simp: smaller_child_def parent_eq)

lemma settled_heap:
  assumes "sinking n h i" "n \<le> 2 * i + 1 \<or> \<not> Less h (smaller_child h i n) i"
  shows "is_heap n h"
proof -
  have "ordered_at h k" if k: "0 < k" "k < n" for k
  proof (cases "parent k = i")
    case True
    then have "\<not> Less h (smaller_child h i n) i"
      using k assms(2) by (auto simp: parent_eq)
    then show ?thesis
      using smaller_child_least [OF k True, of h] True by (simp add: ordered_at_def Less_def)
  next
    case False
    then show ?thesis
      using assms(1) k by (simp add: sinking_def)
  qed
  then show ?thesis
    using assms(1) by (simp add: is_heap_def sinking_def)
qed

lemma heap_down_ok:
  assumes "sinking n h i"
  shows "is_heap n (heap_down h i n) \<and> mset (heap_down h i n) = mset h \<and> drop n (heap_down h i n) = drop n h"
  using assms
proof (induction "n - i" arbitrary: h i rule: less_induct)
  case less
  let ?j = "smaller_child h i n"
  show ?case
  proof (cases "n \<le> 2 * i + 1 \<or> \<not> Less h ?j i")
    case True
    then show ?thesis
      using settled_heap [OF less.prems] by (simp add: heap_down_unfold [of h i n])
  next
    case False
    then have j: "?j < n" "parent ?j = i" "0 < ?j" "Less h ?j i" "i < ?j"
      using smaller_child_child [of i n h] by auto
    have "sinking n (Swap i ?j h) ?j"
      by (rule sinking_step [OF less.prems j(1-4)]) (rule smaller_child_least)
    moreover have "i < length h" "?j < length h" "drop n (Swap i ?j h) = drop n h"
      using j(1, 5) less.prems by (auto simp: sinking_def Swap_def)
    moreover have "n - ?j < n - i"
      using j by simp
    ultimately show ?thesis
      using less.hyps False by (simp add: heap_down_unfold [of h i n])
  qed
qed

lemma length_heap_down [simp]: "length (heap_down h i n) = length h"
proof (induction "n - i" arbitrary: h i rule: less_induct)
  case less
  show ?case
  proof (cases "n \<le> 2 * i + 1 \<or> \<not> Less h (smaller_child h i n) i")
    case False
    then have "n - smaller_child h i n < n - i"
      using smaller_child_child [of i n h] by auto
    then show ?thesis
      using less False by (simp add: heap_down_unfold [of h i n])
  qed (simp add: heap_down_unfold [of h i n])
qed

lemma heap_Push_ok:
  assumes "is_heap (length h) h"
  shows "is_heap (length (heap_Push x h)) (heap_Push x h)" "mset (heap_Push x h) = add_mset x (mset h)"
proof -
  have "ordered_at (h @ [x]) k" if "0 < k" "k < length h" for k
    using assms that parent_less [of k] by (auto simp: is_heap_def ordered_at_def nth_append)
  moreover have "parent k \<noteq> length h" if "0 < k" "k \<le> length h" for k
    using parent_less [of k] that by simp
  ultimately have "rising (h @ [x]) (length h)"
    by (auto simp: rising_def less_Suc_eq)
  from heap_up_ok [OF this] show "is_heap (length (heap_Push x h)) (heap_Push x h)"
    "mset (heap_Push x h) = add_mset x (mset h)"
    using mset_eq_length [of "heap_up (h @ [x]) (length h)" "h @ [x]"] by (simp_all add: heap_Push_def Let_def)
qed

lemma heap_Pop_ok:
  assumes "is_heap (length h) h" "h \<noteq> []" "heap_Pop h = (e, h')"
  shows "e = h ! 0" "is_heap (length h') h'" "mset h = add_mset e (mset h')"
proof -
  define n where "n = length h - 1"
  define s where "s = heap_down (Swap 0 n h) 0 n"
  have n: "n < length h" "0 < length h" "length h = Suc n"
    using assms(2) by (simp_all add: n_def)
  have "ordered_at (Swap 0 n h) k" if "0 < k" "k < n" "parent k \<noteq> 0" for k
    using assms(1) that n parent_less [of k] by (simp add: is_heap_def ordered_at_def)
  then have "sinking n (Swap 0 n h) 0"
    using n by (simp add: sinking_def)
  from heap_down_ok [OF this] have s: "is_heap n s" "mset s = mset h" "drop n s = drop n (Swap 0 n h)"
    using n by (simp_all add: s_def)
  have len: "length s = Suc n"
    using s(2) n(3) by (metis size_mset)
  have last: "s ! n = h ! 0"
    using s(3) n len by (metis Swap_simps(1, 3) hd_drop_conv_nth lessI)
  have e: "e = s ! n" "h' = take n s"
    using assms(3) by (simp_all add: heap_Pop_def Let_def n_def s_def)
  show "e = h ! 0"
    using e last by simp
  show "is_heap (length h') h'"
    using s(1) len by (auto simp: e is_heap_def ordered_at_def dest: parent_less)
  have "s = h' @ [e]"
    using len by (simp add: e take_Suc_conv_app_nth flip: take_Suc_conv_app_nth)
  then show "mset h = add_mset e (mset h')"
    using s(2) by (metis mset.simps(1, 2) mset_append union_mset_add_mset_right add.right_neutral)
qed

interpretation expiries: expiry_queue pushExpiry popExpired "\<lambda>h. is_heap (length h) h" mset
proof
  fix h e
  assume "is_heap (length h) h"
  then show "is_heap (length (pushExpiry e h)) (pushExpiry e h)" "mset (pushExpiry e h) = add_mset e (mset h)"
    by (simp_all add: pushExpiry_def heap_Push_ok)
next
  fix h now e h'
  assume h: "is_heap (length h) h" and "popExpired now h = Some (e, h')"
  then have pop: "h \<noteq> []" "heap_Pop h = (e, h')" "xe_expiresAt (h ! 0) \<le> now"
    by (auto simp: popExpired_def split: if_splits)
  show "is_heap (length h') h'" "mset h = add_mset e (mset h')" "xe_expiresAt e \<le> now"
    using heap_Pop_ok [OF h pop(1, 2)] pop(3) by simp_all
next
  fix h now e
  assume "is_heap (length h) h" "popExpired now h = None" "e \<in># mset h"
  then show "now < xe_expiresAt e"
    using heap_least by (fastforce simp: popExpired_def in_set_conv_nth split: if_splits)
qed

end
