(* ===== verification/Status.thy ===== *)
theory Status
  imports Main
begin

text \<open>\<open>src/pkg/status/status.go\<close>: the health status shared by the controller, the registry and routing.\<close>

datatype Code = Unspecified | Healthy | Degraded | Ejected | Probing | Dead | Unavailable

definition Parse :: "string \<Rightarrow> Code" where
  "Parse s =
     (if s = '''' \<or> s = ''HEALTHY'' then Healthy
      else if s = ''DEGRADED'' then Degraded
      else if s = ''EJECTED'' then Ejected
      else if s = ''PROBING'' then Probing
      else if s = ''DEAD'' then Dead
      else if s = ''UNAVAILABLE'' then Unavailable
      else Unspecified)"

fun Code_String :: "Code \<Rightarrow> string" where
  "Code_String Healthy = ''HEALTHY''"
| "Code_String Degraded = ''DEGRADED''"
| "Code_String Ejected = ''EJECTED''"
| "Code_String Probing = ''PROBING''"
| "Code_String Dead = ''DEAD''"
| "Code_String Unavailable = ''UNAVAILABLE''"
| "Code_String Unspecified = ''HEALTHY''"

definition Normalized :: "Code \<Rightarrow> Code" where
  "Normalized c = (if c = Unspecified then Healthy else c)"

definition Routable :: "Code \<Rightarrow> bool" where
  "Routable c \<longleftrightarrow> Normalized c \<in> {Healthy, Degraded, Probing}"

definition NormalTraffic :: "Code \<Rightarrow> bool" where
  "NormalTraffic c \<longleftrightarrow> Normalized c \<in> {Healthy, Degraded}"

definition IsProbing :: "Code \<Rightarrow> bool" where
  "IsProbing c \<longleftrightarrow> c = Probing"

text \<open>
  The boundary representation round-trips up to normalisation: the text of a status parses back to
  its normalised code, so an unset status crosses the wire as a healthy one, and a text that parses to a
  code other than the healthy default is that code's text.
\<close>

theorem Parse_Code_String:
  "Parse (Code_String c) = Normalized c \<and>
   (Parse s = Normalized c \<longrightarrow> s = Code_String c \<or> (s = '''' \<and> Normalized c = Healthy))"
proof -
  have "Parse (Code_String c) = Normalized c"
    by (cases c) (simp_all add: Parse_def Normalized_def)
  moreover have "s = Code_String c \<or> (s = '''' \<and> Normalized c = Healthy)" if "Parse s = Normalized c"
    using that by (cases c) (auto simp: Parse_def Normalized_def split: if_splits)
  ultimately show ?thesis
    by blast
qed

theorem Parse_Code_String_witness:
  "Parse ''EJECTED'' = Normalized Ejected \<and> ''EJECTED'' = Code_String Ejected"
  using Parse_Code_String [of Ejected "''EJECTED''"] by (simp add: Parse_def Normalized_def)

text \<open>The three routing classes: normal traffic, probes, and nothing.\<close>

lemma Routable_iff: "Routable c \<longleftrightarrow> NormalTraffic c \<or> IsProbing c"
  by (cases c) (simp_all add: Routable_def NormalTraffic_def IsProbing_def Normalized_def)

lemma not_both_classes: "\<not> (NormalTraffic c \<and> IsProbing c)"
  by (cases c) (simp_all add: NormalTraffic_def IsProbing_def Normalized_def)

end
