(* ===== verification/Registry.thy ===== *)
theory Registry
  imports Expiry_Heap Status "HOL-Library.AList" "HOL-Library.List_Lexorder" "HOL-Library.Char_ord"
begin

text \<open>
  \<open>src/pkg/registry/registry.go\<close>: the memory registry of the controller. Registrations and heartbeats give
  an instance a lease, expiry removes it, and every service publishes a versioned snapshot. An operation
  is one step; \<open>r.now()\<close> is the parameter \<open>now\<close>, an error of \<open>ctx.Err()\<close> the parameter \<open>cancelled\<close>
  (where it is asked repeatedly, a function of how often it has been), and the random epochs and
  tokens are parameters. Copying of labels and instances is the identity on values.
\<close>

section \<open>State\<close>

datatype registry_error = ContextError | ErrInvalidInstance | ErrInstanceNotFound | ErrRegistrationEpochMismatch

record Instance =
  ri_ID :: string
  ri_Service :: string
  ri_Address :: string
  ri_Status :: Code
  ri_Labels :: "(string \<times> string) list option"
  ri_LastSeen :: gotime
  ri_RegistrationEpoch :: string
  ri_OwnerToken :: string

record InstanceSnapshot =
  sn_Service :: string
  sn_Version :: int
  sn_Instances :: "Instance list"
  sn_nextExpiresAt :: gotime

record lease =
  rc_instance :: Instance
  rc_expiresAt :: gotime
  rc_generation :: "64 word"

record serviceState =
  ss_records :: "(string \<times> lease) list"
  ss_snapshot :: InstanceSnapshot
  ss_version :: int
  ss_notify :: nat

record MemoryRegistry =
  mr_services :: "string \<rightharpoonup> serviceState"
  mr_expiries :: expiryHeap
  mr_generation :: "64 word"

definition NewMemoryRegistry :: MemoryRegistry where
  "NewMemoryRegistry = \<lparr>mr_services = Map.empty, mr_expiries = [], mr_generation = 0\<rparr>"

definition newServiceState :: "string \<Rightarrow> serviceState" where
  "newServiceState service = \<lparr>ss_records = [],
     ss_snapshot = \<lparr>sn_Service = service, sn_Version = 0, sn_Instances = [], sn_nextExpiresAt = zero_time\<rparr>,
     ss_version = 0, ss_notify = 0\<rparr>"

definition get_serviceState :: "MemoryRegistry \<Rightarrow> string \<Rightarrow> serviceState" where
  "get_serviceState r service = (case mr_services r service of Some st \<Rightarrow> st | None \<Rightarrow> newServiceState service)"


section \<open>Snapshots\<close>

definition live_leases :: "gotime \<Rightarrow> (string \<times> lease) list \<Rightarrow> lease list" where
  "live_leases now records = filter (\<lambda>l. rc_expiresAt l > now) (map snd records)"

definition earlier_expiry :: "lease \<Rightarrow> gotime \<Rightarrow> gotime" where
  "earlier_expiry l t = (if IsZero t \<or> rc_expiresAt l < t then rc_expiresAt l else t)"

definition rebuildSnapshotLocked :: "string \<Rightarrow> gotime \<Rightarrow> serviceState \<Rightarrow> serviceState" where
  "rebuildSnapshotLocked service now st =
     (let live = live_leases now (ss_records st);
          version = wrap64 (ss_version st + 1)
      in st\<lparr>ss_version := version,
            ss_snapshot := \<lparr>sn_Service = service, sn_Version = version,
              sn_Instances = sort_key ri_ID (map rc_instance live),
              sn_nextExpiresAt = fold earlier_expiry live zero_time\<rparr>,
            ss_notify := ss_notify st + 1\<rparr>)"

definition snapshotNeedsExpiry :: "InstanceSnapshot \<Rightarrow> gotime \<Rightarrow> bool" where
  "snapshotNeedsExpiry snapshot now \<longleftrightarrow> \<not> IsZero (sn_nextExpiresAt snapshot) \<and> sn_nextExpiresAt snapshot \<le> now"

text \<open>The delay of the timer.\<close>

definition nextExpiryTimer :: "InstanceSnapshot \<Rightarrow> gotime \<Rightarrow> duration option" where
  "nextExpiryTimer snapshot now =
     (if IsZero (sn_nextExpiresAt snapshot) then None
      else (let delay = time_sub (sn_nextExpiresAt snapshot) now in Some (if delay < 0 then 0 else delay)))"


section \<open>Leases\<close>

text \<open>The critical section that stores a lease, followed by the push of its expiry.\<close>

definition store_lease :: "string \<Rightarrow> string \<Rightarrow> gotime \<Rightarrow> lease \<Rightarrow> MemoryRegistry \<Rightarrow> MemoryRegistry" where
  "store_lease service iid now l r =
     (let st = get_serviceState r service
      in r\<lparr>mr_services := (mr_services r)(service \<mapsto>
             rebuildSnapshotLocked service now (st\<lparr>ss_records := AList.update iid l (ss_records st)\<rparr>)),
           mr_expiries := pushExpiry \<lparr>xe_service = service, xe_id = iid, xe_expiresAt = rc_expiresAt l,
             xe_generation = rc_generation l\<rparr> (mr_expiries r)\<rparr>)"

definition registerAt ::
    "bool \<Rightarrow> string \<Rightarrow> string \<Rightarrow> Instance \<Rightarrow> duration \<Rightarrow> gotime \<Rightarrow> MemoryRegistry \<Rightarrow> registry_error option \<times> MemoryRegistry" where
  "registerAt cancelled epoch token inst ttl now r =
     (if cancelled then (Some ContextError, r)
      else if ri_ID inst = '''' \<or> ri_Service inst = '''' \<or> ri_Address inst = '''' then (Some ErrInvalidInstance, r)
      else if ttl \<le> 0 then (Some ErrInvalidInstance, r)
      else
        (let inst = inst\<lparr>ri_Status := (if ri_Status inst = Unspecified then Healthy else ri_Status inst),
                ri_LastSeen := now, ri_RegistrationEpoch := epoch, ri_OwnerToken := token\<rparr>;
             generation = mr_generation r + 1
         in (None, store_lease (ri_Service inst) (ri_ID inst) now
               \<lparr>rc_instance = inst, rc_expiresAt = now + ttl, rc_generation = generation\<rparr>
               (r\<lparr>mr_generation := generation\<rparr>))))"

definition Register ::
    "bool \<Rightarrow> string \<Rightarrow> string \<Rightarrow> Instance \<Rightarrow> duration \<Rightarrow> gotime \<Rightarrow> MemoryRegistry \<Rightarrow> registry_error option \<times> MemoryRegistry" where
  "Register cancelled epoch token inst ttl now r = registerAt cancelled epoch token inst ttl now r"

definition fence_error :: "bool \<Rightarrow> bool \<Rightarrow> string \<Rightarrow> string \<Rightarrow> lease option \<Rightarrow> registry_error option" where
  "fence_error requireEpoch requireOwner epoch token rec =
     (case rec of
        None \<Rightarrow> Some ErrInstanceNotFound
      | Some l \<Rightarrow>
          if requireEpoch \<and> ri_RegistrationEpoch (rc_instance l) \<noteq> epoch then Some ErrRegistrationEpochMismatch
          else if requireOwner \<and> ri_OwnerToken (rc_instance l) \<noteq> token then Some ErrRegistrationEpochMismatch
          else None)"

definition validateHeartbeatWithOwner ::
    "bool \<Rightarrow> string \<Rightarrow> string \<Rightarrow> string \<Rightarrow> string \<Rightarrow> duration \<Rightarrow> bool \<Rightarrow> bool \<Rightarrow> MemoryRegistry \<Rightarrow> registry_error option" where
  "validateHeartbeatWithOwner cancelled service iid epoch token ttl requireEpoch requireOwner r =
     (if cancelled then Some ContextError
      else if service = '''' \<or> iid = '''' \<or> ttl \<le> 0 then Some ErrInvalidInstance
      else
        (case mr_services r service of
           None \<Rightarrow> Some ErrInstanceNotFound
         | Some st \<Rightarrow> fence_error requireEpoch requireOwner epoch token (map_of (ss_records st) iid)))"

definition heartbeatAtWithOwner ::
    "bool \<Rightarrow> string \<Rightarrow> string \<Rightarrow> string \<Rightarrow> string \<Rightarrow> duration \<Rightarrow> gotime \<Rightarrow> bool \<Rightarrow> bool \<Rightarrow> MemoryRegistry
      \<Rightarrow> registry_error option \<times> MemoryRegistry" where
  "heartbeatAtWithOwner cancelled service iid epoch token ttl now requireEpoch requireOwner r =
     (if cancelled then (Some ContextError, r)
      else if service = '''' \<or> iid = '''' \<or> ttl \<le> 0 then (Some ErrInvalidInstance, r)
      else
        (case mr_services r service of
           None \<Rightarrow> (Some ErrInstanceNotFound, r)
         | Some st \<Rightarrow>
             (let generation = mr_generation r + 1;
                  r = r\<lparr>mr_generation := generation\<rparr>;
                  rec = map_of (ss_records st) iid
              in case fence_error requireEpoch requireOwner epoch token rec of
                   Some e \<Rightarrow> (Some e, r)
                 | None \<Rightarrow>
                     (None, store_lease service iid now
                        \<lparr>rc_instance = (rc_instance (the rec))\<lparr>ri_LastSeen := now\<rparr>, rc_expiresAt = now + ttl,
                         rc_generation = generation\<rparr> r))))"

definition heartbeatAt ::
    "bool \<Rightarrow> string \<Rightarrow> string \<Rightarrow> duration \<Rightarrow> gotime \<Rightarrow> MemoryRegistry \<Rightarrow> registry_error option \<times> MemoryRegistry" where
  "heartbeatAt cancelled service iid ttl now r = heartbeatAtWithOwner cancelled service iid '''' '''' ttl now False False r"

definition heartbeatAtWithEpoch ::
    "bool \<Rightarrow> string \<Rightarrow> string \<Rightarrow> string \<Rightarrow> duration \<Rightarrow> gotime \<Rightarrow> bool \<Rightarrow> MemoryRegistry \<Rightarrow> registry_error option \<times> MemoryRegistry" where
  "heartbeatAtWithEpoch cancelled service iid epoch ttl now requireEpoch r =
     heartbeatAtWithOwner cancelled service iid epoch '''' ttl now requireEpoch False r"

definition Heartbeat ::
    "bool \<Rightarrow> string \<Rightarrow> string \<Rightarrow> duration \<Rightarrow> gotime \<Rightarrow> MemoryRegistry \<Rightarrow> registry_error option \<times> MemoryRegistry" where
  "Heartbeat cancelled service iid ttl now r = heartbeatAt cancelled service iid ttl now r"

definition HeartbeatWithEpoch ::
    "bool \<Rightarrow> string \<Rightarrow> string \<Rightarrow> string \<Rightarrow> duration \<Rightarrow> gotime \<Rightarrow> MemoryRegistry \<Rightarrow> registry_error option \<times> MemoryRegistry" where
  "HeartbeatWithEpoch cancelled service iid epoch ttl now r =
     (if epoch = '''' then (Some ErrInvalidInstance, r)
      else heartbeatAtWithOwner cancelled service iid epoch '''' ttl now True False r)"

definition HeartbeatWithOwner ::
    "bool \<Rightarrow> string \<Rightarrow> string \<Rightarrow> string \<Rightarrow> string \<Rightarrow> duration \<Rightarrow> gotime \<Rightarrow> MemoryRegistry \<Rightarrow> registry_error option \<times> MemoryRegistry" where
  "HeartbeatWithOwner cancelled service iid epoch token ttl now r =
     (if epoch = '''' \<or> token = '''' then (Some ErrInvalidInstance, r)
      else heartbeatAtWithOwner cancelled service iid epoch token ttl now True True r)"

definition restoreRecord ::
    "string \<Rightarrow> string \<Rightarrow> Instance \<Rightarrow> gotime \<Rightarrow> bool \<Rightarrow> gotime \<Rightarrow> MemoryRegistry \<Rightarrow> MemoryRegistry" where
  "restoreRecord epoch token inst expiresAt filterExpired now r =
     (if ri_ID inst = '''' \<or> ri_Service inst = '''' \<or> ri_Address inst = '''' then r
      else if filterExpired \<and> expiresAt \<le> now then r
      else
        (let inst = inst\<lparr>ri_Status := (if ri_Status inst = Unspecified then Healthy else ri_Status inst),
                ri_RegistrationEpoch := (if ri_RegistrationEpoch inst = '''' then epoch else ri_RegistrationEpoch inst),
                ri_OwnerToken := (if ri_OwnerToken inst = '''' then token else ri_OwnerToken inst)\<rparr>;
             generation = mr_generation r + 1
         in store_lease (ri_Service inst) (ri_ID inst) now
              \<lparr>rc_instance = inst, rc_expiresAt = expiresAt, rc_generation = generation\<rparr>
              (r\<lparr>mr_generation := generation\<rparr>)))"

definition restore :: "string \<Rightarrow> string \<Rightarrow> Instance \<Rightarrow> gotime \<Rightarrow> gotime \<Rightarrow> MemoryRegistry \<Rightarrow> MemoryRegistry" where
  "restore epoch token inst expiresAt now r = restoreRecord epoch token inst expiresAt True now r"

definition restoreHistorical :: "string \<Rightarrow> string \<Rightarrow> Instance \<Rightarrow> gotime \<Rightarrow> gotime \<Rightarrow> MemoryRegistry \<Rightarrow> MemoryRegistry" where
  "restoreHistorical epoch token inst expiresAt now r = restoreRecord epoch token inst expiresAt False now r"

definition recordExists :: "string \<Rightarrow> string \<Rightarrow> MemoryRegistry \<Rightarrow> bool" where
  "recordExists service iid r =
     (case mr_services r service of None \<Rightarrow> False | Some st \<Rightarrow> map_of (ss_records st) iid \<noteq> None)"

definition deleteRecord :: "string \<Rightarrow> string \<Rightarrow> gotime \<Rightarrow> MemoryRegistry \<Rightarrow> bool \<times> MemoryRegistry" where
  "deleteRecord service iid now r =
     (case mr_services r service of
        None \<Rightarrow> (False, r)
      | Some st \<Rightarrow>
          if map_of (ss_records st) iid = None then (False, r)
          else (True, r\<lparr>mr_services := (mr_services r)(service \<mapsto>
                 rebuildSnapshotLocked service now (st\<lparr>ss_records := AList.delete iid (ss_records st)\<rparr>))\<rparr>))"


section \<open>Expiry\<close>

definition sweepExpiredForService :: "bool \<Rightarrow> string \<Rightarrow> serviceState \<Rightarrow> gotime \<Rightarrow> nat \<times> serviceState" where
  "sweepExpiredForService cancelled service st now =
     (if cancelled then (0, st)
      else
        (let kept = filter (\<lambda>(iid, l). rc_expiresAt l > now) (ss_records st);
             expired = length (ss_records st) - length kept;
             st = st\<lparr>ss_records := kept\<rparr>
         in (expired, if expired > 0 then rebuildSnapshotLocked service now st else st)))"

text \<open>
  The body of the loop of \<open>sweepExpiredRecords\<close> for one entry: a lease is deleted when the entry is its
  own, by the generation, and it has run out.
\<close>

definition expire_entry ::
    "gotime \<Rightarrow> expiryEntry \<Rightarrow> MemoryRegistry \<times> (string \<times> string) list \<Rightarrow> MemoryRegistry \<times> (string \<times> string) list" where
  "expire_entry now entry acc =
     (case acc of (r, expired) \<Rightarrow>
        (case mr_services r (xe_service entry) of
           None \<Rightarrow> (r, expired)
         | Some st \<Rightarrow>
             (case map_of (ss_records st) (xe_id entry) of
                None \<Rightarrow> (r, expired)
              | Some l \<Rightarrow>
                  if rc_generation l = xe_generation entry \<and> rc_expiresAt l \<le> now
                  then (r\<lparr>mr_services := (mr_services r)(xe_service entry \<mapsto>
                            st\<lparr>ss_records := AList.delete (xe_id entry) (ss_records st)\<rparr>)\<rparr>,
                        expired @ [(xe_service entry, xe_id entry)])
                  else (r, expired))))"


lemma popExpired_shorter: "popExpired now h = Some (e, h') \<Longrightarrow> length h' < length h"
  by (auto simp: popExpired_def heap_Pop_def Let_def split: if_splits)

lemma expire_entry_expiries [simp]: "mr_expiries (fst (expire_entry now e (r, ex))) = mr_expiries r"
  by (simp add: expire_entry_def split: option.split)

function sweep_loop ::
    "(nat \<Rightarrow> bool) \<Rightarrow> gotime \<Rightarrow> nat \<Rightarrow> MemoryRegistry \<Rightarrow> (string \<times> string) list \<Rightarrow> MemoryRegistry \<times> (string \<times> string) list" where
  "sweep_loop cancelled now k r expired =
     (case popExpired now (mr_expiries r) of
        None \<Rightarrow> (r, expired)
      | Some (entry, h) \<Rightarrow>
          (let r = r\<lparr>mr_expiries := h\<rparr>
           in if cancelled k then (r, expired)
              else (case expire_entry now entry (r, expired) of (r, expired) \<Rightarrow> sweep_loop cancelled now (k + 1) r expired)))"
  by pat_completeness auto

termination
proof (relation "measure (\<lambda>(cancelled, now, k, r, expired). length (mr_expiries r))", goal_cases)
  case (2 cancelled now k r expired p entry h r1 r2 expired2)
  then have pop: "popExpired now (mr_expiries r) = Some (entry, h)"
    and r2: "(r2, expired2) = expire_entry now entry (r\<lparr>mr_expiries := h\<rparr>, expired)"
    by simp_all
  have "mr_expiries r2 = h"
    using expire_entry_expiries [of now entry "r\<lparr>mr_expiries := h\<rparr>" expired] unfolding r2 [symmetric] by simp
  with popExpired_shorter [OF pop] show ?case
    by simp
qed simp

declare sweep_loop.simps [simp del]

definition rebuild_dirty :: "gotime \<Rightarrow> string set \<Rightarrow> MemoryRegistry \<Rightarrow> MemoryRegistry" where
  "rebuild_dirty now dirtyServices r =
     r\<lparr>mr_services := \<lambda>service.
         if service \<in> dirtyServices then map_option (rebuildSnapshotLocked service now) (mr_services r service)
         else mr_services r service\<rparr>"

definition sweepExpiredRecords ::
    "(nat \<Rightarrow> bool) \<Rightarrow> gotime \<Rightarrow> MemoryRegistry \<Rightarrow> (string \<times> string) list \<times> MemoryRegistry" where
  "sweepExpiredRecords cancelled now r =
     (if cancelled 0 then ([], r)
      else
        (let (r, expired) = sweep_loop cancelled now 1 r []
         in (expired, rebuild_dirty now (fst ` set expired) r)))"

definition SweepExpired :: "(nat \<Rightarrow> bool) \<Rightarrow> gotime \<Rightarrow> MemoryRegistry \<Rightarrow> nat \<times> MemoryRegistry" where
  "SweepExpired cancelled now r = (case sweepExpiredRecords cancelled now r of (expired, r) \<Rightarrow> (length expired, r))"

definition registry_Snapshot ::
    "(nat \<Rightarrow> bool) \<Rightarrow> string \<Rightarrow> gotime \<Rightarrow> MemoryRegistry \<Rightarrow> (registry_error + InstanceSnapshot) \<times> MemoryRegistry" where
  "registry_Snapshot cancelled service now r =
     (if cancelled 0 then (Inl ContextError, r)
      else if service = '''' then (Inl ErrInvalidInstance, r)
      else
        (case mr_services r service of
           None \<Rightarrow> (Inr \<lparr>sn_Service = service, sn_Version = 0, sn_Instances = [], sn_nextExpiresAt = zero_time\<rparr>, r)
         | Some st \<Rightarrow>
             if snapshotNeedsExpiry (ss_snapshot st) now
             then (let st = snd (sweepExpiredForService (cancelled 1) service st now)
                   in (Inr (ss_snapshot st), r\<lparr>mr_services := (mr_services r)(service \<mapsto> st)\<rparr>))
             else (Inr (ss_snapshot st), r)))"

definition registry_List ::
    "(nat \<Rightarrow> bool) \<Rightarrow> string \<Rightarrow> gotime \<Rightarrow> MemoryRegistry \<Rightarrow> (registry_error + Instance list) \<times> MemoryRegistry" where
  "registry_List cancelled service now r =
     (case registry_Snapshot cancelled service now r of
        (Inl e, r) \<Rightarrow> (Inl e, r)
      | (Inr snapshot, r) \<Rightarrow> (Inr (sn_Instances snapshot), r))"

end
