(* ===== verification/Registry_Leases.thy ===== *)
theory Registry_Leases
  imports Registry
begin

text \<open>
  Runs of the memory registry: its invariant, what a sweep removes, what a snapshot lists, what the
  epochs of registrations fence off, and what becomes of a lease when a sweep is cut short.
\<close>

section \<open>Runs\<close>

datatype reg_op =
    RegisterOp bool string string Instance duration
  | HeartbeatOp bool string string string string duration bool bool
  | SnapshotOp "nat \<Rightarrow> bool" string
  | SweepOp "nat \<Rightarrow> bool"
  | DeleteOp string string
  | RestoreOp string string Instance gotime bool

fun run_reg_op :: "gotime \<times> reg_op \<Rightarrow> MemoryRegistry \<Rightarrow> MemoryRegistry" where
  "run_reg_op (now, RegisterOp cancelled epoch token inst ttl) r = snd (registerAt cancelled epoch token inst ttl now r)"
| "run_reg_op (now, HeartbeatOp cancelled s i epoch token ttl requireEpoch requireOwner) r =
     snd (heartbeatAtWithOwner cancelled s i epoch token ttl now requireEpoch requireOwner r)"
| "run_reg_op (now, SnapshotOp cancelled s) r = snd (registry_Snapshot cancelled s now r)"
| "run_reg_op (now, SweepOp cancelled) r = snd (sweepExpiredRecords cancelled now r)"
| "run_reg_op (now, DeleteOp s i) r = snd (deleteRecord s i now r)"
| "run_reg_op (now, RestoreOp epoch token inst expiresAt filterExpired) r =
     restoreRecord epoch token inst expiresAt filterExpired now r"

definition reg_run :: "(gotime \<times> reg_op) list \<Rightarrow> MemoryRegistry" where
  "reg_run ops = fold run_reg_op ops NewMemoryRegistry"

text \<open>Histories of a clock that does not go back, and of fewer operations than there are generations.\<close>

definition history :: "(gotime \<times> reg_op) list \<Rightarrow> gotime \<Rightarrow> bool" where
  "history ops now \<longleftrightarrow> sorted (zero_time # map fst ops @ [now]) \<and> length ops < 2 ^ 64 - 1"

definition lease_at :: "MemoryRegistry \<Rightarrow> string \<Rightarrow> string \<Rightarrow> lease option" where
  "lease_at r s i = (case mr_services r s of None \<Rightarrow> None | Some st \<Rightarrow> map_of (ss_records st) i)"

definition entry_of :: "string \<Rightarrow> string \<Rightarrow> lease \<Rightarrow> expiryEntry" where
  "entry_of s i l = \<lparr>xe_service = s, xe_id = i, xe_expiresAt = rc_expiresAt l, xe_generation = rc_generation l\<rparr>"


section \<open>Invariants\<close>

definition stored_ok :: "string \<Rightarrow> string \<Rightarrow> lease \<Rightarrow> bool" where
  "stored_ok s i l \<longleftrightarrow> ri_Service (rc_instance l) = s \<and> ri_ID (rc_instance l) = i \<and> s \<noteq> '''' \<and> i \<noteq> '''' \<and>
     ri_Address (rc_instance l) \<noteq> '''' \<and> ri_Status (rc_instance l) \<noteq> Unspecified"

definition keys_distinct :: "MemoryRegistry \<Rightarrow> bool" where
  "keys_distinct r \<longleftrightarrow> (\<forall>s st. mr_services r s = Some st \<longrightarrow> distinct (map fst (ss_records st)))"

definition records_ok :: "MemoryRegistry \<Rightarrow> bool" where
  "records_ok r \<longleftrightarrow> keys_distinct r \<and> (\<forall>s i l. lease_at r s i = Some l \<longrightarrow> stored_ok s i l)"

text \<open>
  The heap is ordered, generations are unique in it and not from the future, and an entry that carries the
  generation of a lease is that lease's entry.
\<close>

definition queue_inv :: "MemoryRegistry \<Rightarrow> bool" where
  "queue_inv r \<longleftrightarrow> is_heap (length (mr_expiries r)) (mr_expiries r) \<and> distinct (map xe_generation (mr_expiries r)) \<and>
     (\<forall>e\<in>set (mr_expiries r). xe_generation e \<le> mr_generation r) \<and>
     (\<forall>s i l. lease_at r s i = Some l \<longrightarrow> rc_generation l \<le> mr_generation r \<and>
        (\<forall>e\<in>set (mr_expiries r). xe_generation e = rc_generation l \<longrightarrow> e = entry_of s i l))"

lemma queue_invI:
  assumes "is_heap (length (mr_expiries r)) (mr_expiries r)" "distinct (map xe_generation (mr_expiries r))"
    and "\<And>e. e \<in> set (mr_expiries r) \<Longrightarrow> xe_generation e \<le> mr_generation r"
    and "\<And>s i l. lease_at r s i = Some l \<Longrightarrow> rc_generation l \<le> mr_generation r"
    and "\<And>s i l e. lease_at r s i = Some l \<Longrightarrow> e \<in> set (mr_expiries r) \<Longrightarrow> xe_generation e = rc_generation l \<Longrightarrow> e = entry_of s i l"
  shows "queue_inv r"
  using assms by (simp add: queue_inv_def)

lemma queue_invD:
  assumes "queue_inv r"
  shows "is_heap (length (mr_expiries r)) (mr_expiries r)" "distinct (map xe_generation (mr_expiries r))"
    and "e \<in> set (mr_expiries r) \<Longrightarrow> xe_generation e \<le> mr_generation r"
    and "lease_at r s i = Some l \<Longrightarrow> rc_generation l \<le> mr_generation r"
    and "lease_at r s i = Some l \<Longrightarrow> e \<in> set (mr_expiries r) \<Longrightarrow> xe_generation e = rc_generation l \<Longrightarrow> e = entry_of s i l"
  using assms by (simp_all add: queue_inv_def)

definition covered :: "MemoryRegistry \<Rightarrow> bool" where
  "covered r \<longleftrightarrow> (\<forall>s i l. lease_at r s i = Some l \<longrightarrow> entry_of s i l \<in> set (mr_expiries r))"

definition published :: "gotime \<Rightarrow> string \<Rightarrow> serviceState \<Rightarrow> bool" where
  "published t s st \<longleftrightarrow> sn_Service (ss_snapshot st) = s \<and> sn_Version (ss_snapshot st) = ss_version st \<and>
     (\<exists>T. zero_time \<le> T \<and> T \<le> t \<and>
        sn_Instances (ss_snapshot st) = sort_key ri_ID (map rc_instance (live_leases T (ss_records st))) \<and>
        sn_nextExpiresAt (ss_snapshot st) = fold earlier_expiry (live_leases T (ss_records st)) zero_time)"

definition all_published :: "gotime \<Rightarrow> MemoryRegistry \<Rightarrow> bool" where
  "all_published t r \<longleftrightarrow> (\<forall>s st. mr_services r s = Some st \<longrightarrow> published t s st)"

lemma published_mono: "published t s st \<Longrightarrow> t \<le> t' \<Longrightarrow> published t' s st"
  unfolding published_def by (meson order_trans)

lemma published_rebuild [simp]: "zero_time \<le> t \<Longrightarrow> published t s (rebuildSnapshotLocked s t st)"
  by (auto simp: published_def rebuildSnapshotLocked_def Let_def)

lemma rebuild_records [simp]: "ss_records (rebuildSnapshotLocked s t st) = ss_records st"
  by (simp add: rebuildSnapshotLocked_def Let_def)

text \<open>Removal of leases and of entries keeps the invariants of the queue and of the records.\<close>

lemma queue_inv_shrink:
  assumes "queue_inv r" "mr_generation r \<le> mr_generation r'"
    and "is_heap (length (mr_expiries r')) (mr_expiries r')" "mset (mr_expiries r') \<subseteq># mset (mr_expiries r)"
    and "\<And>s i l. lease_at r' s i = Some l \<Longrightarrow> lease_at r s i = Some l"
  shows "queue_inv r'"
proof -
  have sub: "set (mr_expiries r') \<subseteq> set (mr_expiries r)"
    using assms(4) by (metis set_mset_mono set_mset_mset)
  obtain rest where "mset (mr_expiries r) = mset (mr_expiries r' @ rest)"
    using assms(4) by (metis ex_mset mset_append mset_subset_eq_exists_conv)
  then have "distinct (map xe_generation (mr_expiries r' @ rest))"
    using assms(1) unfolding queue_inv_def by (metis mset_eq_imp_distinct_iff mset_map)
  then have "distinct (map xe_generation (mr_expiries r'))"
    by simp
  note inv = queue_invD [OF assms(1)]
  show ?thesis
  proof (rule queue_invI)
    show "xe_generation e \<le> mr_generation r'" if "e \<in> set (mr_expiries r')" for e
      using inv(3) [of e] sub that assms(2) by auto
    show "rc_generation l \<le> mr_generation r'" if "lease_at r' s i = Some l" for s i l
      using inv(4) [OF assms(5) [OF that]] assms(2) by simp
    show "e = entry_of s i l" if "lease_at r' s i = Some l" "e \<in> set (mr_expiries r')" "xe_generation e = rc_generation l" for s i l e
      using inv(5) [OF assms(5) [OF that(1)]] sub that(2, 3) by auto
  qed fact+
qed

lemma lease_at_update:
  "lease_at (r\<lparr>mr_services := (mr_services r)(s \<mapsto> st)\<rparr>) t i = (if t = s then map_of (ss_records st) i else lease_at r t i)"
  by (simp add: lease_at_def)

lemma lease_at_simps [simp]:
  "lease_at (r\<lparr>mr_expiries := h\<rparr>) = lease_at r" "lease_at (r\<lparr>mr_generation := g\<rparr>) = lease_at r"
  by (simp_all add: lease_at_def fun_eq_iff)

lemma get_serviceState_records: "map_of (ss_records (get_serviceState r s)) i = lease_at r s i"
  by (simp add: get_serviceState_def lease_at_def newServiceState_def split: option.split)


section \<open>Storing a lease\<close>

lemma store_lease_at:
  "lease_at (store_lease s i now l r) t j = (if t = s \<and> j = i then Some l else lease_at r t j)"
  using get_serviceState_records [of r s] by (simp add: store_lease_def Let_def lease_at_update update_conv')

lemma store_lease_queue:
  assumes "queue_inv r" "rc_generation l = mr_generation r + 1" "mr_generation r < mr_generation r + 1"
  shows "queue_inv (store_lease s i now l (r\<lparr>mr_generation := mr_generation r + 1\<rparr>))"
proof -
  let ?r = "store_lease s i now l (r\<lparr>mr_generation := mr_generation r + 1\<rparr>)"
  have heap: "is_heap (length (mr_expiries r)) (mr_expiries r)"
    using assms(1) by (simp add: queue_inv_def)
  have ex: "mr_expiries ?r = pushExpiry (entry_of s i l) (mr_expiries r)" "mr_generation ?r = mr_generation r + 1"
    by (simp_all add: store_lease_def Let_def entry_of_def)
  have set: "set (mr_expiries ?r) = insert (entry_of s i l) (set (mr_expiries r))"
    using expiries.push_member [OF heap] by (auto simp: ex)
  note inv = queue_invD [OF assms(1)]
  have old: "xe_generation e < mr_generation r + 1" if "e \<in> set (mr_expiries r)" for e
    using inv(3) [OF that] assms(3) by simp
  have older: "rc_generation l' < mr_generation r + 1" if "lease_at r t j = Some l'" for t j l'
    using inv(4) [OF that] assms(3) by simp
  have "mset (map xe_generation (mr_expiries ?r)) = mset (map xe_generation (entry_of s i l # mr_expiries r))"
    using expiries.push_entries [OF heap] by (simp add: ex)
  then have "distinct (map xe_generation (mr_expiries ?r))"
    using inv(2) assms(2) old by (subst mset_eq_imp_distinct_iff) (fastforce simp: entry_of_def)+
  then show ?thesis
  proof (rule queue_invI [rotated])
    show "is_heap (length (mr_expiries ?r)) (mr_expiries ?r)"
      using expiries.push_ok [OF heap] by (simp add: ex)
    show "xe_generation e \<le> mr_generation ?r" if "e \<in> set (mr_expiries ?r)" for e
      using that set old [of e] assms(2) by (auto simp: ex(2) entry_of_def)
    fix t j l'
    assume l': "lease_at ?r t j = Some l'"
    then show "rc_generation l' \<le> mr_generation ?r"
      using older [of t j l'] assms(2) by (auto simp: ex(2) store_lease_at split: if_splits)
    fix e
    assume e: "e \<in> set (mr_expiries ?r)" "xe_generation e = rc_generation l'"
    show "e = entry_of t j l'"
    proof (cases "t = s \<and> j = i")
      case True
      then show ?thesis
        using l' e set old [of e] assms(2) by (auto simp: store_lease_at)
    next
      case False
      then have "lease_at r t j = Some l'"
        using l' by (simp add: store_lease_at split: if_splits)
      then show ?thesis
        using e set older inv(5) assms(2) by (fastforce simp: entry_of_def)
    qed
  qed
qed

lemma store_lease_covered:
  assumes "queue_inv r" "covered r"
  shows "covered (store_lease s i now l (r\<lparr>mr_generation := g\<rparr>))"
proof -
  have "set (mr_expiries (store_lease s i now l (r\<lparr>mr_generation := g\<rparr>))) = insert (entry_of s i l) (set (mr_expiries r))"
    using expiries.push_member [OF queue_invD(1) [OF assms(1)]] by (auto simp: store_lease_def Let_def entry_of_def)
  then show ?thesis
    using assms(2) by (auto simp: covered_def store_lease_at split: if_splits)
qed

lemma store_lease_records:
  assumes "records_ok r" "stored_ok s i l"
  shows "records_ok (store_lease s i now l (r\<lparr>mr_generation := g\<rparr>))"
proof -
  have "distinct (map fst (ss_records (get_serviceState r s)))"
    using assms(1) by (auto simp: records_ok_def keys_distinct_def get_serviceState_def newServiceState_def split: option.split)
  moreover have "get_serviceState (r\<lparr>mr_generation := g\<rparr>) s = get_serviceState r s"
    by (simp add: get_serviceState_def)
  ultimately have "distinct (map fst (ss_records st))"
    if "mr_services (store_lease s i now l (r\<lparr>mr_generation := g\<rparr>)) t = Some st" for t st
    using that assms(1) by (auto simp: records_ok_def keys_distinct_def store_lease_def Let_def distinct_update split: if_splits)
  then show ?thesis
    using assms by (auto simp: records_ok_def keys_distinct_def store_lease_at split: if_splits)
qed

lemma store_lease_published:
  assumes "all_published t r" "t \<le> now" "zero_time \<le> now"
  shows "all_published now (store_lease s i now l (r\<lparr>mr_generation := g\<rparr>))"
  using assms by (auto simp: all_published_def store_lease_def Let_def intro: published_mono)


section \<open>The sweep\<close>

lemma lease_at_fun_upd: "lease_at (r\<lparr>mr_services := (mr_services r)(s \<mapsto> st)\<rparr>) =
    (\<lambda>t i. if t = s then map_of (ss_records st) i else lease_at r t i)"
  by (simp add: lease_at_update fun_eq_iff)

text \<open>An entry expires a lease when the lease is the one it was pushed for and has run out.\<close>

definition expires :: "gotime \<Rightarrow> expiryEntry \<Rightarrow> MemoryRegistry \<Rightarrow> bool" where
  "expires now e r \<longleftrightarrow> (\<exists>l. lease_at r (xe_service e) (xe_id e) = Some l \<and> rc_generation l = xe_generation e \<and> rc_expiresAt l \<le> now)"

lemma expire_entry_result:
  assumes "expire_entry now e (r, expired) = (r', expired')"
  shows "expired' = (if expires now e r then expired @ [(xe_service e, xe_id e)] else expired)"
    and "lease_at r' = (if expires now e r then (\<lambda>s i. if s = xe_service e \<and> i = xe_id e then None else lease_at r s i) else lease_at r)"
    and "mr_generation r' = mr_generation r" "mr_expiries r' = mr_expiries r"
    and "s \<noteq> xe_service e \<or> \<not> expires now e r \<Longrightarrow> mr_services r' s = mr_services r s"
    and "(\<And>s st. mr_services r s = Some st \<Longrightarrow> distinct (map fst (ss_records st))) \<Longrightarrow>
      mr_services r' s = Some st \<Longrightarrow> distinct (map fst (ss_records st))"
  using assms
  by (auto simp: expire_entry_def expires_def lease_at_def fun_eq_iff delete_conv' distinct_delete split: option.splits if_splits)

lemma pop_step:
  assumes inv: "queue_inv r" and pop: "popExpired now (mr_expiries r) = Some (e, h)"
    and step: "expire_entry now e (r\<lparr>mr_expiries := h\<rparr>, expired) = (r', expired')"
  shows "queue_inv r'" "mset (mr_expiries r) = add_mset e (mset (mr_expiries r'))" "covered r \<Longrightarrow> covered r'"
    and "expires now e r \<Longrightarrow> lease_at r (xe_service e) (xe_id e) = Some l \<Longrightarrow> e = entry_of (xe_service e) (xe_id e) l"
proof -
  note D = queue_invD [OF inv]
  note res = expire_entry_result [OF step]
  show mset: "mset (mr_expiries r) = add_mset e (mset (mr_expiries r'))"
    using expiries.pop_entries [OF D(1) pop] res(4) by simp
  have leases: "lease_at r s i = Some l" if "lease_at r' s i = Some l" for s i l
    using that res(2) by (auto split: if_splits)
  show "queue_inv r'"
  proof (rule queue_inv_shrink [OF inv])
    show "is_heap (length (mr_expiries r')) (mr_expiries r')"
      using expiries.pop_ok [OF D(1) pop] res(4) by simp
    show "mset (mr_expiries r') \<subseteq># mset (mr_expiries r)"
      by (simp add: mset)
  qed (use res(3) leases in simp_all)
  have in_heap: "e \<in> set (mr_expiries r)"
    by (metis mset set_mset_mset union_single_eq_member)
  show own: "e = entry_of (xe_service e) (xe_id e) l"
    if "expires now e r" "lease_at r (xe_service e) (xe_id e) = Some l" for l
    using D(5) [OF that(2) in_heap] that by (auto simp: expires_def)
  show "covered r'" if "covered r"
    unfolding covered_def
  proof (intro allI impI)
    fix s i l
    assume l: "lease_at r' s i = Some l"
    have "entry_of s i l \<noteq> e"
    proof
      assume "entry_of s i l = e"
      moreover have "xe_expiresAt e \<le> now"
        using expiries.pop_due [OF D(1) pop] .
      ultimately have "expires now e r" "xe_service e = s" "xe_id e = i"
        using leases [OF l] by (auto simp: expires_def entry_of_def)
      then show False
        using l res(2) by (simp add: expires_def)
    qed
    moreover have "entry_of s i l \<in># add_mset e (mset (mr_expiries r'))"
      using that leases [OF l] unfolding mset [symmetric] by (simp add: covered_def)
    ultimately show "entry_of s i l \<in> set (mr_expiries r')"
      by simp
  qed
qed

text \<open>What a sweep, or a part of one, does: \<open>gone\<close> are the leases it removed.\<close>

definition swept :: "gotime \<Rightarrow> MemoryRegistry \<Rightarrow> (string \<times> string) list \<Rightarrow> MemoryRegistry \<Rightarrow> bool" where
  "swept now r gone r' \<longleftrightarrow> distinct gone \<and>
     (\<forall>s i. (s, i) \<in> set gone \<longrightarrow>
        (\<exists>l. lease_at r s i = Some l \<and> rc_expiresAt l \<le> now \<and> entry_of s i l \<in> set (mr_expiries r))) \<and>
     lease_at r' = (\<lambda>s i. if (s, i) \<in> set gone then None else lease_at r s i) \<and>
     mr_generation r' = mr_generation r \<and>
     (\<forall>s. s \<notin> fst ` set gone \<longrightarrow> mr_services r' s = mr_services r s) \<and>
     queue_inv r' \<and> set (mr_expiries r') \<subseteq> set (mr_expiries r) \<and>
     (keys_distinct r \<longrightarrow> keys_distinct r')"

lemma sweptD:
  assumes "swept now r gone r'"
  shows "(s, i) \<in> set gone \<Longrightarrow> \<exists>l. lease_at r s i = Some l \<and> rc_expiresAt l \<le> now \<and> entry_of s i l \<in> set (mr_expiries r)"
    and "lease_at r' s i = (if (s, i) \<in> set gone then None else lease_at r s i)"
  using assms by (simp_all add: swept_def)

lemma swept_drop:
  assumes "queue_inv r" "popExpired now (mr_expiries r) = Some (e, h)"
  shows "queue_inv (r\<lparr>mr_expiries := h\<rparr>)" "set h \<subseteq> set (mr_expiries r)"
proof -
  have m: "mset (mr_expiries r) = add_mset e (mset h)"
    using expiries.pop_entries [OF queue_invD(1) [OF assms(1)] assms(2)] .
  then show "set h \<subseteq> set (mr_expiries r)"
    by (metis insert_iff set_mset_add_mset_insert set_mset_mset subsetI)
  show "queue_inv (r\<lparr>mr_expiries := h\<rparr>)"
    using expiries.pop_ok [OF queue_invD(1) [OF assms(1)] assms(2)]
    by (intro queue_inv_shrink [OF assms(1)]) (simp_all add: m)
qed

lemma swept_step:
  assumes inv: "queue_inv r" and pop: "popExpired now (mr_expiries r) = Some (e, h)"
    and step: "expire_entry now e (r\<lparr>mr_expiries := h\<rparr>, expired) = (r1, expired1)"
    and rest: "swept now r1 gone r'"
  shows "swept now r (drop (length expired) expired1 @ gone) r'"
proof -
  note res = expire_entry_result [OF step]
  note pop = pop_step [OF inv pop step]
  have ex: "expires now e (r\<lparr>mr_expiries := h\<rparr>) = expires now e r"
    by (simp add: expires_def)
  have in_heap: "e \<in> set (mr_expiries r)" and sub: "set (mr_expiries r1) \<subseteq> set (mr_expiries r)"
    using pop(2) by (metis set_mset_mset union_single_eq_member, metis set_mset_add_mset_insert set_mset_mset subset_insertI)
  have keys: "keys_distinct r1" if "keys_distinct r"
    using that res(6) unfolding keys_distinct_def by (metis MemoryRegistry.select_convs(1) MemoryRegistry.surjective MemoryRegistry.update_convs(2))
  show ?thesis
  proof (cases "expires now e r")
    case True
    then obtain l where l: "lease_at r (xe_service e) (xe_id e) = Some l" "rc_expiresAt l \<le> now"
      by (auto simp: expires_def)
    have own: "entry_of (xe_service e) (xe_id e) l \<in> set (mr_expiries r)"
      using pop(4) [OF True l(1)] in_heap by simp
    have new: "drop (length expired) expired1 = [(xe_service e, xe_id e)]"
      using res(1) True ex by simp
    have leases: "lease_at r1 s i = (if s = xe_service e \<and> i = xe_id e then None else lease_at r s i)" for s i
      using res(2) True ex by simp
    have gone: "\<exists>l. lease_at r s i = Some l \<and> rc_expiresAt l \<le> now \<and> entry_of s i l \<in> set (mr_expiries r)"
      "\<not> (s = xe_service e \<and> i = xe_id e)" if "(s, i) \<in> set gone" for s i
      using sweptD(1) [OF rest that] sub leases [of s i] by (auto split: if_splits)
    moreover have "lease_at r' = (\<lambda>s i. if (s, i) \<in> insert (xe_service e, xe_id e) (set gone) then None else lease_at r s i)"
      using rest leases by (auto simp: swept_def fun_eq_iff)
    ultimately show ?thesis
      using rest l own sub res(3, 5) keys unfolding new by (auto simp: swept_def)
  next
    case False
    then have "drop (length expired) expired1 = []" "lease_at r1 = lease_at r" "mr_services r1 s = mr_services r s" for s
      using res(1, 2, 5) ex by simp_all
    moreover from this have "\<exists>l. lease_at r s i = Some l \<and> rc_expiresAt l \<le> now \<and> entry_of s i l \<in> set (mr_expiries r)"
      if "(s, i) \<in> set gone" for s i
      using sweptD(1) [OF rest that] sub by auto
    ultimately show ?thesis
      using rest sub res(3) keys unfolding swept_def by (auto cong: if_cong)
  qed
qed

lemma sweep_loop_swept:
  assumes "queue_inv r"
  shows "\<exists>gone. snd (sweep_loop cancelled now k r expired) = expired @ gone \<and>
    swept now r gone (fst (sweep_loop cancelled now k r expired)) \<and>
    ((\<forall>k. \<not> cancelled k) \<longrightarrow> popExpired now (mr_expiries (fst (sweep_loop cancelled now k r expired))) = None \<and>
       (covered r \<longrightarrow> covered (fst (sweep_loop cancelled now k r expired))))"
  using assms
proof (induction cancelled now k r expired rule: sweep_loop.induct)
  case (1 cancelled now k r expired)
  show ?case
  proof (cases "popExpired now (mr_expiries r)")
    case None
    then have loop: "sweep_loop cancelled now k r expired = (r, expired)"
      by (simp add: sweep_loop.simps [of cancelled])
    show ?thesis
      unfolding loop using None 1(2) by (simp add: swept_def)
  next
    case (Some p)
    then obtain e h where pop: "popExpired now (mr_expiries r) = Some (e, h)"
      by (cases p) simp
    obtain r1 expired1 where step: "expire_entry now e (r\<lparr>mr_expiries := h\<rparr>, expired) = (r1, expired1)"
      by fastforce
    show ?thesis
    proof (cases "cancelled k")
      case True
      then have loop: "sweep_loop cancelled now k r expired = (r\<lparr>mr_expiries := h\<rparr>, expired)"
        using pop by (simp add: sweep_loop.simps [of cancelled])
      show ?thesis
        unfolding loop using swept_drop [OF 1(2) pop] True by (auto simp: swept_def keys_distinct_def)
    next
      case False
      have loop: "sweep_loop cancelled now k r expired = sweep_loop cancelled now (k + 1) r1 expired1"
        using False pop step by (simp add: sweep_loop.simps [of cancelled now k])
      note pops = pop_step [OF 1(2) pop step]
      obtain gone where gone: "snd (sweep_loop cancelled now (k + 1) r1 expired1) = expired1 @ gone"
        "swept now r1 gone (fst (sweep_loop cancelled now (k + 1) r1 expired1))"
        "(\<forall>k. \<not> cancelled k) \<longrightarrow> popExpired now (mr_expiries (fst (sweep_loop cancelled now (k + 1) r1 expired1))) = None \<and>
           (covered r1 \<longrightarrow> covered (fst (sweep_loop cancelled now (k + 1) r1 expired1)))"
        using 1(1) [OF pop refl refl False step [symmetric] pops(1)] by blast
      have "expired1 = expired @ drop (length expired) expired1"
        using expire_entry_result(1) [OF step] by simp
      then show ?thesis
        using gone swept_step [OF 1(2) pop step gone(2)] pops(3) unfolding loop
        by (intro exI [of _ "drop (length expired) expired1 @ gone"]) simp
    qed
  qed
qed

text \<open>The whole sweep: the loop, and the new snapshots of the services that lost a lease.\<close>

lemma rebuild_dirty_simps [simp]:
  "lease_at (rebuild_dirty now D r) = lease_at r" "mr_generation (rebuild_dirty now D r) = mr_generation r"
  "mr_expiries (rebuild_dirty now D r) = mr_expiries r"
  by (auto simp: rebuild_dirty_def lease_at_def fun_eq_iff split: option.split)

lemma sweep_swept:
  assumes "queue_inv r" "sweepExpiredRecords cancelled now r = (gone, r')"
  shows "distinct gone" "queue_inv r'" "covered r \<Longrightarrow> (\<And>k. \<not> cancelled k) \<Longrightarrow> covered r'"
    and "(s, i) \<in> set gone \<Longrightarrow> \<exists>l. lease_at r s i = Some l \<and> rc_expiresAt l \<le> now \<and> entry_of s i l \<in> set (mr_expiries r)"
    and "lease_at r' s i = (if (s, i) \<in> set gone then None else lease_at r s i)"
    and "mr_generation r' = mr_generation r" "keys_distinct r \<Longrightarrow> keys_distinct r'"
    and "all_published t r \<Longrightarrow> t \<le> now \<Longrightarrow> zero_time \<le> now \<Longrightarrow> all_published now r'"
    and "(\<And>k. \<not> cancelled k) \<Longrightarrow> e \<in> set (mr_expiries r') \<Longrightarrow> now < xe_expiresAt e"
    and "set (mr_expiries r') \<subseteq> set (mr_expiries r)"
proof -
  let ?loop = "sweep_loop cancelled now 1 r []"
  let ?dirty = "rebuild_dirty now (fst ` set gone)"
  have empty: "rebuild_dirty now {} r = r"
    by (simp add: rebuild_dirty_def)
  have "cancelled 0 \<Longrightarrow> gone = [] \<and> r' = r" "\<not> cancelled 0 \<Longrightarrow> gone = snd ?loop \<and> r' = ?dirty (fst ?loop)"
    using assms(2) by (auto simp: sweepExpiredRecords_def case_prod_beta)
  then have "\<exists>r1. swept now r gone r1 \<and> r' = ?dirty r1 \<and>
      ((\<forall>k. \<not> cancelled k) \<longrightarrow> popExpired now (mr_expiries r1) = None \<and> (covered r \<longrightarrow> covered r1))"
    using sweep_loop_swept [OF assms(1), of cancelled now 1 "[]"] assms(1)
    by (cases "cancelled 0") (auto simp: swept_def empty)
  then obtain r1 where r1: "swept now r gone r1" "r' = ?dirty r1"
    "(\<forall>k. \<not> cancelled k) \<longrightarrow> popExpired now (mr_expiries r1) = None \<and> (covered r \<longrightarrow> covered r1)"
    by blast
  show "distinct gone" "mr_generation r' = mr_generation r" "set (mr_expiries r') \<subseteq> set (mr_expiries r)"
    using r1(1, 2) by (simp_all add: swept_def)
  have inv1: "queue_inv r1"
    using r1(1) by (simp add: swept_def)
  show "queue_inv r'"
    using inv1 by (intro queue_inv_shrink [OF inv1]) (simp_all add: r1(2) queue_invD(1))
  show "covered r'" if "covered r" "\<And>k. \<not> cancelled k"
    using r1(3) that by (simp add: r1(2) covered_def)
  show "lease_at r' s i = (if (s, i) \<in> set gone then None else lease_at r s i)"
    using sweptD(2) [OF r1(1)] by (simp add: r1(2))
  show "\<exists>l. lease_at r s i = Some l \<and> rc_expiresAt l \<le> now \<and> entry_of s i l \<in> set (mr_expiries r)" if "(s, i) \<in> set gone"
    using sweptD(1) [OF r1(1) that] .
  show "keys_distinct r'" if "keys_distinct r"
    using r1(1) that by (auto simp: swept_def r1(2) keys_distinct_def rebuild_dirty_def split: if_splits)
  show "all_published now r'" if "all_published t r" "t \<le> now" "zero_time \<le> now"
    using r1(1) that by (auto simp: swept_def r1(2) all_published_def rebuild_dirty_def split: if_splits intro: published_mono)
  show "now < xe_expiresAt e" if "\<And>k. \<not> cancelled k" "e \<in> set (mr_expiries r')"
    using expiries.pop_none [OF queue_invD(1) [OF inv1]] r1(3) that by (simp add: r1(2))
qed

section \<open>The invariant of a run\<close>

definition reg_inv :: "nat \<Rightarrow> gotime \<Rightarrow> MemoryRegistry \<Rightarrow> bool" where
  "reg_inv n t r \<longleftrightarrow> queue_inv r \<and> records_ok r \<and> all_published t r \<and> unat (mr_generation r) \<le> n"

lemma generation_step:
  fixes g :: "64 word"
  assumes "unat g + 1 < 2 ^ 64"
  shows "g < g + 1" "unat (g + 1) = unat g + 1"
proof -
  show "unat (g + 1) = unat g + 1"
    using assms by (simp add: unat_word_ariths)
  then show "g < g + 1"
    by (simp add: word_less_nat_alt)
qed

lemma store_inv:
  assumes "reg_inv n t r" "n + 1 < 2 ^ 64" "t \<le> now" "zero_time \<le> now"
    and "rc_generation l = mr_generation r + 1" "stored_ok s i l"
  shows "reg_inv (Suc n) now (store_lease s i now l (r\<lparr>mr_generation := mr_generation r + 1\<rparr>))"
proof -
  have "unat (mr_generation r) + 1 < 2 ^ 64"
    using assms(1, 2) by (simp add: reg_inv_def)
  note gen = generation_step [OF this]
  have "mr_generation (store_lease s i now l (r\<lparr>mr_generation := mr_generation r + 1\<rparr>)) = mr_generation r + 1"
    by (simp add: store_lease_def Let_def)
  then show ?thesis
    using assms(1) gen(2) store_lease_queue [OF _ assms(5) gen(1)] store_lease_records [OF _ assms(6)]
      store_lease_published [OF _ assms(3, 4)]
    by (simp add: reg_inv_def)
qed

lemma reg_inv_mono:
  assumes "reg_inv n t r" "n \<le> n'" "t \<le> t'"
  shows "reg_inv n' t' r"
  using assms published_mono unfolding reg_inv_def all_published_def by (meson order_trans)

lemma failed_heartbeat_inv:
  assumes "reg_inv n t r" "n + 1 < 2 ^ 64" "t \<le> now"
  shows "reg_inv (Suc n) now (r\<lparr>mr_generation := mr_generation r + 1\<rparr>)"
proof -
  have "unat (mr_generation r) + 1 < 2 ^ 64"
    using assms(1, 2) by (simp add: reg_inv_def)
  note gen = generation_step [OF this]
  have inv: "queue_inv r"
    using assms(1) by (simp add: reg_inv_def)
  have "queue_inv (r\<lparr>mr_generation := mr_generation r + 1\<rparr>)"
    using gen(1) by (intro queue_inv_shrink [OF inv]) (simp_all add: queue_invD(1) [OF inv] less_imp_le)
  then show ?thesis
    using reg_inv_mono [OF assms(1) le_refl assms(3)] gen(2)
    by (simp add: reg_inv_def records_ok_def keys_distinct_def all_published_def)
qed

text \<open>A service state that lost leases and is published again.\<close>

lemma replace_state_inv:
  assumes "reg_inv n t r" "mr_services r s = Some st" "t \<le> now"
    and "\<And>i l. map_of (ss_records st') i = Some l \<Longrightarrow> map_of (ss_records st) i = Some l"
    and "distinct (map fst (ss_records st'))" "published now s st'"
  shows "reg_inv n now (r\<lparr>mr_services := (mr_services r)(s \<mapsto> st')\<rparr>)"
    and "covered r \<Longrightarrow> covered (r\<lparr>mr_services := (mr_services r)(s \<mapsto> st')\<rparr>)"
proof -
  let ?r = "r\<lparr>mr_services := (mr_services r)(s \<mapsto> st')\<rparr>"
  have leases: "lease_at r u i = Some l" if "lease_at ?r u i = Some l" for u i l
    using that assms(2) assms(4) [of i l] by (auto simp: lease_at_def split: if_splits)
  have inv: "queue_inv r"
    using assms(1) by (simp add: reg_inv_def)
  have "queue_inv ?r"
    using leases by (intro queue_inv_shrink [OF inv]) (simp_all add: queue_invD(1) [OF inv])
  moreover have "records_ok ?r"
    using assms(1, 5) leases by (auto simp: reg_inv_def records_ok_def keys_distinct_def)
  moreover have "all_published now ?r"
    using assms(1, 3, 6) by (auto simp: reg_inv_def all_published_def intro: published_mono)
  ultimately show "reg_inv n now ?r"
    using assms(1) by (simp add: reg_inv_def)
  show "covered ?r" if "covered r"
    using that leases by (simp add: covered_def)
qed

lemma map_of_filter_keep:
  "distinct (map fst xs) \<Longrightarrow> map_of (filter P xs) i = Some l \<Longrightarrow> map_of xs i = Some l"
  by (auto dest: map_of_SomeD)

lemma filter_full: "length (filter P xs) = length xs \<Longrightarrow> filter P xs = xs"
  using length_filter_less [of _ xs P] by (auto simp: filter_id_conv)

text \<open>The sweep of one service.\<close>

lemma service_sweep_ok:
  assumes "published t s st" "distinct (map fst (ss_records st))" "t \<le> now" "zero_time \<le> now"
    and "st' = snd (sweepExpiredForService cancelled s st now)"
  shows "map_of (ss_records st') i = Some l \<Longrightarrow> map_of (ss_records st) i = Some l"
    and "distinct (map fst (ss_records st'))" "published now s st'"
proof -
  have kept: "distinct (map fst (filter P (ss_records st)))" for P
    using assms(2) by (rule distinct_map_filter)
  show "map_of (ss_records st') i = Some l \<Longrightarrow> map_of (ss_records st) i = Some l" "distinct (map fst (ss_records st'))"
    using assms(2, 5) kept map_of_filter_keep [OF assms(2)]
    by (auto simp: sweepExpiredForService_def Let_def split: if_splits)
  show "published now s st'"
  proof (cases "cancelled \<or> length (filter (\<lambda>(i, l). rc_expiresAt l > now) (ss_records st)) = length (ss_records st)")
    case True
    then have "st' = st"
      using assms(5) filter_full [of "\<lambda>(i, l). now < rc_expiresAt l" "ss_records st"]
      by (auto simp: sweepExpiredForService_def Let_def)
    then show ?thesis
      using assms(1, 3) published_mono by simp
  next
    case False
    then show ?thesis
      using assms(4, 5) length_filter_le [of "\<lambda>(i, l). now < rc_expiresAt l" "ss_records st"]
      by (auto simp: sweepExpiredForService_def Let_def split: if_splits)
  qed
qed

lemma snapshot_inv:
  assumes "reg_inv n t r" "t \<le> now" "zero_time \<le> now"
  shows "reg_inv n now (snd (registry_Snapshot cancelled s now r))"
    and "covered r \<Longrightarrow> covered (snd (registry_Snapshot cancelled s now r))"
proof -
  have "reg_inv n now (snd (registry_Snapshot cancelled s now r)) \<and> (covered r \<longrightarrow> covered (snd (registry_Snapshot cancelled s now r)))"
  proof (cases "mr_services r s")
    case None
    then show ?thesis
      using reg_inv_mono [OF assms(1) le_refl assms(2)] by (simp add: registry_Snapshot_def)
  next
    case (Some st)
    let ?st = "snd (sweepExpiredForService (cancelled 1) s st now)"
    have "published t s st" "distinct (map fst (ss_records st))"
      using assms(1) Some by (auto simp: reg_inv_def all_published_def records_ok_def keys_distinct_def)
    note swept = service_sweep_ok [OF this assms(2, 3) refl]
    show ?thesis
      using Some replace_state_inv [OF assms(1) Some assms(2), of ?st] swept reg_inv_mono [OF assms(1) le_refl assms(2)]
      by (simp add: registry_Snapshot_def Let_def)
  qed
  then show "reg_inv n now (snd (registry_Snapshot cancelled s now r))"
    "covered r \<Longrightarrow> covered (snd (registry_Snapshot cancelled s now r))"
    by simp_all
qed

lemma delete_inv:
  assumes "reg_inv n t r" "t \<le> now" "zero_time \<le> now"
  shows "reg_inv n now (snd (deleteRecord s i now r))" "covered r \<Longrightarrow> covered (snd (deleteRecord s i now r))"
proof -
  have "reg_inv n now (snd (deleteRecord s i now r)) \<and> (covered r \<longrightarrow> covered (snd (deleteRecord s i now r)))"
  proof (cases "mr_services r s")
    case None
    then show ?thesis
      using reg_inv_mono [OF assms(1) le_refl assms(2)] by (simp add: deleteRecord_def)
  next
    case (Some st)
    let ?st = "rebuildSnapshotLocked s now (st\<lparr>ss_records := AList.delete i (ss_records st)\<rparr>)"
    have "distinct (map fst (ss_records ?st))"
      using assms(1) Some by (simp add: reg_inv_def records_ok_def keys_distinct_def distinct_delete)
    moreover have "map_of (ss_records ?st) j = Some l \<Longrightarrow> map_of (ss_records st) j = Some l" for j l
      by (simp add: delete_conv' split: if_splits)
    ultimately show ?thesis
      using Some replace_state_inv [OF assms(1) Some assms(2), of ?st] reg_inv_mono [OF assms(1) le_refl assms(2)] assms(3)
      by (simp add: deleteRecord_def)
  qed
  then show "reg_inv n now (snd (deleteRecord s i now r))" "covered r \<Longrightarrow> covered (snd (deleteRecord s i now r))"
    by simp_all
qed

lemma sweep_inv:
  assumes "reg_inv n t r" "t \<le> now" "zero_time \<le> now"
  shows "reg_inv n now (snd (sweepExpiredRecords cancelled now r))"
proof -
  obtain gone r' where sweep: "sweepExpiredRecords cancelled now r = (gone, r')"
    by fastforce
  have "queue_inv r"
    using assms(1) by (simp add: reg_inv_def)
  note swept = sweep_swept [OF this sweep]
  have "records_ok r'"
    using assms(1) swept(5, 7) by (auto simp: reg_inv_def records_ok_def split: if_splits)
  then show ?thesis
    using assms swept(2, 6) swept(8) [of t] by (simp add: sweep reg_inv_def)
qed

fun uncancelled :: "reg_op \<Rightarrow> bool" where
  "uncancelled (SweepOp cancelled) \<longleftrightarrow> (\<forall>k. \<not> cancelled k)"
| "uncancelled _ \<longleftrightarrow> True"

lemma heartbeat_op_inv:
  assumes "reg_inv n t r" "n + 1 < 2 ^ 64" "t \<le> now" "zero_time \<le> now"
    and op: "op = HeartbeatOp cancelled s i epoch token ttl requireEpoch requireOwner"
  shows "reg_inv (Suc n) now (run_reg_op (now, op) r) \<and> (covered r \<longrightarrow> covered (run_reg_op (now, op) r))"
proof -
  have "queue_inv r"
    using assms(1) by (simp add: reg_inv_def)
  note stored = store_inv [OF assms(1-4)] store_lease_covered [OF this]
  have "covered r \<longrightarrow> covered (r\<lparr>mr_generation := mr_generation r + 1\<rparr>)"
    by (simp add: covered_def)
  moreover have "stored_ok s i \<lparr>rc_instance = (rc_instance l)\<lparr>ri_LastSeen := now\<rparr>, rc_expiresAt = x, rc_generation = g\<rparr>"
    if "mr_services r s = Some st" "map_of (ss_records st) i = Some l" for st l x g
  proof -
    have "lease_at r s i = Some l"
      using that by (simp add: lease_at_def)
    then have "stored_ok s i l"
      using assms(1) by (simp add: reg_inv_def records_ok_def)
    then show ?thesis
      by (simp add: stored_ok_def)
  qed
  ultimately show ?thesis
    using reg_inv_mono [OF assms(1) le_SucI [OF le_refl] assms(3)] failed_heartbeat_inv [OF assms(1-3)]
    by (auto simp: op heartbeatAtWithOwner_def fence_error_def Let_def intro!: stored split: option.split)
qed

lemma run_reg_op_inv:
  assumes "reg_inv n t r" "n + 1 < 2 ^ 64" "t \<le> now" "zero_time \<le> now"
  shows "reg_inv (Suc n) now (run_reg_op (now, op) r) \<and> (covered r \<longrightarrow> uncancelled op \<longrightarrow> covered (run_reg_op (now, op) r))"
proof -
  note keep = reg_inv_mono [OF _ le_SucI [OF le_refl] order_refl, of n now]
  note same = reg_inv_mono [OF assms(1) le_SucI [OF le_refl] assms(3)]
  have queue: "queue_inv r"
    using assms(1) by (simp add: reg_inv_def)
  note stored = store_inv [OF assms] store_lease_covered [OF queue]
  show ?thesis
  proof (cases op)
    case (RegisterOp cancelled epoch token inst ttl)
    then show ?thesis
      using same by (auto simp: registerAt_def Let_def stored_ok_def intro!: stored)
  next
    case (HeartbeatOp cancelled s i epoch token ttl requireEpoch requireOwner)
    then show ?thesis
      using heartbeat_op_inv [OF assms] by blast
  next
    case (SnapshotOp cancelled s)
    then show ?thesis
      using snapshot_inv [OF assms(1, 3, 4)] keep by simp
  next
    case (SweepOp cancelled)
    obtain gone r' where sweep: "sweepExpiredRecords cancelled now r = (gone, r')"
      by fastforce
    then show ?thesis
      using SweepOp sweep_inv [OF assms(1, 3, 4), of cancelled] keep sweep_swept(3) [OF queue sweep] by simp
  next
    case (DeleteOp s i)
    then show ?thesis
      using delete_inv [OF assms(1, 3, 4)] keep by simp
  next
    case (RestoreOp epoch token inst expiresAt filterExpired)
    then show ?thesis
      using same by (auto simp: restoreRecord_def Let_def stored_ok_def intro!: stored)
  qed
qed

lemma reg_run_inv:
  assumes "history ops now"
  shows "reg_inv (length ops) now (reg_run ops) \<and> (list_all uncancelled (map snd ops) \<longrightarrow> covered (reg_run ops))"
  using assms
proof (induction ops arbitrary: now rule: rev_induct)
  case Nil
  have "is_heap 0 []"
    by (simp add: is_heap_def)
  then show ?case
    by (simp add: reg_run_def NewMemoryRegistry_def reg_inv_def queue_inv_def records_ok_def keys_distinct_def
        all_published_def covered_def lease_at_def)
next
  case (snoc x ops)
  obtain t op where x: "x = (t, op)"
    by (cases x)
  have "history ops t" "t \<le> now" "zero_time \<le> t" "length ops + 1 < 2 ^ 64"
    using snoc.prems by (auto simp: history_def x sorted_append)
  then show ?case
    using snoc.IH [of t] run_reg_op_inv [of "length ops" t "reg_run ops" t op]
      reg_inv_mono [of "Suc (length ops)" t _ "Suc (length ops)" now]
    by (auto simp: reg_run_def x)
qed

text \<open>
  C32: the shape of the registry. After every history of registrations, heartbeats, snapshots, sweeps,
  deletions and restorations, each lease is stored under its own service and instance id, with an address
  and a status that is not \<open>UNSPECIFIED\<close>, and the expiry queue is an ordered heap whose generations are
  unique and name the leases they were pushed for.
\<close>

theorem registry_well_formed:
  assumes "history ops now"
  shows "records_ok (reg_run ops) \<and> queue_inv (reg_run ops)"
  using reg_run_inv [OF assms] by (simp add: reg_inv_def)

text \<open>
  C7: a sweep removes exactly what has run out. After every history whose sweeps were not cut short, a
  sweep returns each lease that has expired, once, and takes these and no others away: leases that were
  renewed survive the queue entries of their earlier deadlines.
\<close>

theorem sweep_exact:
  assumes "history ops now" "list_all uncancelled (map snd ops)" "sweepExpiredRecords (\<lambda>_. False) now (reg_run ops) = (expired, r)"
  shows "distinct expired \<and>
    ((s, i) \<in> set expired \<longleftrightarrow> (\<exists>l. lease_at (reg_run ops) s i = Some l \<and> rc_expiresAt l \<le> now)) \<and>
    lease_at r s i = (case lease_at (reg_run ops) s i of Some l \<Rightarrow> if rc_expiresAt l \<le> now then None else Some l | None \<Rightarrow> None)"
proof -
  have inv: "queue_inv (reg_run ops)" "covered (reg_run ops)"
    using reg_run_inv [OF assms(1)] assms(2) by (simp_all add: reg_inv_def)
  note swept = sweep_swept [OF inv(1) assms(3)]
  have live: "now < rc_expiresAt l" if "lease_at r s i = Some l" for s i l
  proof -
    have "entry_of s i l \<in> set (mr_expiries r)"
      using swept(3) [OF inv(2)] that by (simp add: covered_def)
    then show ?thesis
      using swept(9) by (fastforce simp: entry_of_def)
  qed
  have "(s, i) \<in> set expired \<longleftrightarrow> (\<exists>l. lease_at (reg_run ops) s i = Some l \<and> rc_expiresAt l \<le> now)"
    using swept(4) [of s i] swept(5) [of s i] live [of s i] by (auto simp: not_le [symmetric] split: if_splits)
  then show ?thesis
    using swept(1) swept(5) [of s i] by (auto split: option.split)
qed

section \<open>What a snapshot lists\<close>

text \<open>\<open>nextExpiresAt\<close> is the first deadline of the leases listed, and zero only when there are none.\<close>

lemma earliest_expiry:
  assumes "list_all (\<lambda>l. zero_time < rc_expiresAt l) ls" "zero_time \<le> a"
  shows "let e = fold earlier_expiry ls a
    in (IsZero e \<longleftrightarrow> IsZero a \<and> ls = []) \<and> (\<forall>l\<in>set ls. e \<le> rc_expiresAt l) \<and>
       (\<not> IsZero a \<longrightarrow> e \<le> a) \<and> (e = a \<or> e \<in> rc_expiresAt ` set ls)"
  using assms
proof (induction ls arbitrary: a)
  case (Cons l ls)
  have "zero_time \<le> earlier_expiry l a"
    using Cons.prems by (simp add: earlier_expiry_def)
  then have "let e = fold earlier_expiry ls (earlier_expiry l a)
    in (IsZero e \<longleftrightarrow> IsZero (earlier_expiry l a) \<and> ls = []) \<and> (\<forall>l\<in>set ls. e \<le> rc_expiresAt l) \<and>
       (\<not> IsZero (earlier_expiry l a) \<longrightarrow> e \<le> earlier_expiry l a) \<and> (e = earlier_expiry l a \<or> e \<in> rc_expiresAt ` set ls)"
    using Cons by simp
  moreover have "\<not> IsZero (earlier_expiry l a)" "earlier_expiry l a \<le> rc_expiresAt l" "\<not> IsZero a \<Longrightarrow> earlier_expiry l a \<le> a"
    "earlier_expiry l a = a \<or> earlier_expiry l a = rc_expiresAt l"
    using Cons.prems by (auto simp: earlier_expiry_def IsZero_def)
  ultimately show ?case
    by (auto simp: Let_def intro: order_trans)
qed simp

definition leases_of :: "MemoryRegistry \<Rightarrow> string \<Rightarrow> (string \<times> lease) list" where
  "leases_of r s = (case mr_services r s of Some st \<Rightarrow> ss_records st | None \<Rightarrow> [])"

lemma fresh_snapshot:
  assumes "published t s st" "t \<le> now" "\<not> snapshotNeedsExpiry (ss_snapshot st) now"
  shows "sn_Instances (ss_snapshot st) = sort_key ri_ID (map rc_instance (live_leases now (ss_records st)))"
proof -
  obtain T where T: "zero_time \<le> T" "T \<le> t"
    "sn_Instances (ss_snapshot st) = sort_key ri_ID (map rc_instance (live_leases T (ss_records st)))"
    "sn_nextExpiresAt (ss_snapshot st) = fold earlier_expiry (live_leases T (ss_records st)) zero_time"
    using assms(1) by (auto simp: published_def)
  have "list_all (\<lambda>l. zero_time < rc_expiresAt l) (live_leases T (ss_records st))"
    using T(1) by (auto simp: list_all_iff live_leases_def)
  from earliest_expiry [OF this order_refl] have "now < rc_expiresAt l" if "l \<in> set (live_leases T (ss_records st))" for l
    using assms(3) that T(4) by (cases "live_leases T (ss_records st)") (auto simp: snapshotNeedsExpiry_def Let_def IsZero_def)
  then have "live_leases T (ss_records st) = live_leases now (ss_records st)"
    using T(2) assms(2) unfolding live_leases_def by (intro filter_cong) auto
  then show ?thesis
    using T(3) by simp
qed

lemma stale_sweep:
  assumes "published t s st" "snapshotNeedsExpiry (ss_snapshot st) now"
  shows "snd (sweepExpiredForService False s st now) =
    rebuildSnapshotLocked s now (st\<lparr>ss_records := filter (\<lambda>(i, l). now < rc_expiresAt l) (ss_records st)\<rparr>)"
proof -
  let ?kept = "filter (\<lambda>(i, l). now < rc_expiresAt l) (ss_records st)"
  obtain T where T: "zero_time \<le> T"
    "sn_nextExpiresAt (ss_snapshot st) = fold earlier_expiry (live_leases T (ss_records st)) zero_time"
    using assms(1) by (auto simp: published_def)
  have "list_all (\<lambda>l. zero_time < rc_expiresAt l) (live_leases T (ss_records st))"
    using T(1) by (auto simp: list_all_iff live_leases_def)
  from earliest_expiry [OF this order_refl] obtain i l where "(i, l) \<in> set (ss_records st)" "rc_expiresAt l \<le> now"
    using assms(2) T(2) by (auto simp: snapshotNeedsExpiry_def Let_def IsZero_def live_leases_def)
  then have "length ?kept < length (ss_records st)"
    using length_filter_less [of "(i, l)" "ss_records st" "\<lambda>(i, l). now < rc_expiresAt l"] by simp
  then show ?thesis
    by (simp add: sweepExpiredForService_def Let_def)
qed

lemma stale_snapshot:
  assumes "published t s st" "snapshotNeedsExpiry (ss_snapshot st) now" "st' = snd (sweepExpiredForService False s st now)"
  shows "sn_Instances (ss_snapshot st') = sort_key ri_ID (map rc_instance (live_leases now (ss_records st)))"
proof -
  have "live_leases now (filter (\<lambda>(i, l). now < rc_expiresAt l) (ss_records st)) = live_leases now (ss_records st)"
    by (simp add: live_leases_def filter_map case_prod_beta comp_def conj_commute)
  then show ?thesis
    using assms(3) stale_sweep [OF assms(1, 2)] by (simp add: Let_def rebuildSnapshotLocked_def)
qed

lemma snapshot_of_inv:
  assumes "reg_inv n t r" "t \<le> now" "service \<noteq> ''''"
  shows "\<exists>snapshot. fst (registry_Snapshot (\<lambda>_. False) service now r) = Inr snapshot \<and>
    sn_Instances snapshot = sort_key ri_ID (map rc_instance (live_leases now (leases_of r service)))"
proof (cases "mr_services r service")
  case None
  then show ?thesis
    using assms(3) by (simp add: registry_Snapshot_def leases_of_def live_leases_def)
next
  case (Some st)
  then have "published t service st"
    using assms(1) by (simp add: reg_inv_def all_published_def)
  then show ?thesis
    using Some assms(2, 3) fresh_snapshot stale_snapshot [OF _ _ refl]
    by (simp add: registry_Snapshot_def leases_of_def Let_def)
qed

text \<open>
  C8: discovery shows the leases that have not run out, all of them and no others, ordered by instance id,
  at any later time and without the background sweep: a snapshot that has gone stale is rebuilt when it is
  read.
\<close>

theorem snapshot_lists_live:
  assumes "history ops now" "service \<noteq> ''''"
  shows "\<exists>snapshot. fst (registry_Snapshot (\<lambda>_. False) service now (reg_run ops)) = Inr snapshot \<and>
    sn_Instances snapshot = sort_key ri_ID (map rc_instance (live_leases now (leases_of (reg_run ops) service)))"
  using snapshot_of_inv reg_run_inv [OF assms(1)] assms(2) by blast


section \<open>Ownership\<close>

definition fenced :: "string \<Rightarrow> string \<Rightarrow> string \<Rightarrow> MemoryRegistry \<Rightarrow> bool" where
  "fenced s i epoch r \<longleftrightarrow> (\<forall>l. lease_at r s i = Some l \<longrightarrow> ri_RegistrationEpoch (rc_instance l) \<noteq> epoch)"

text \<open>Operations that do not bring an epoch back: registrations draw new ones.\<close>

fun avoids_epoch :: "string \<Rightarrow> reg_op \<Rightarrow> bool" where
  "avoids_epoch old (RegisterOp cancelled epoch token inst ttl) \<longleftrightarrow> epoch \<noteq> old"
| "avoids_epoch old (RestoreOp epoch token inst expiresAt filterExpired) \<longleftrightarrow> epoch \<noteq> old \<and> ri_RegistrationEpoch inst \<noteq> old"
| "avoids_epoch old _ \<longleftrightarrow> True"

lemma heartbeat_lease:
  "lease_at (snd (heartbeatAtWithOwner cancelled s i epoch token ttl now requireEpoch requireOwner r)) u j =
     (if fst (heartbeatAtWithOwner cancelled s i epoch token ttl now requireEpoch requireOwner r) = None \<and> u = s \<and> j = i
      then map_option (\<lambda>l. \<lparr>rc_instance = (rc_instance l)\<lparr>ri_LastSeen := now\<rparr>, rc_expiresAt = now + ttl,
             rc_generation = mr_generation r + 1\<rparr>) (lease_at r s i)
      else lease_at r u j)"
  by (auto simp: heartbeatAtWithOwner_def fence_error_def Let_def store_lease_at lease_at_def [of r s i] split: option.split)

lemma snapshot_leases:
  assumes "records_ok r" "lease_at (snd (registry_Snapshot cancelled s now r)) u j = Some l"
  shows "lease_at r u j = Some l"
proof (cases "mr_services r s")
  case (Some st)
  then have "distinct (map fst (ss_records st))"
    using assms(1) by (simp add: records_ok_def keys_distinct_def)
  then show ?thesis
    using assms(2) Some map_of_filter_keep [of "ss_records st" "\<lambda>(i, l). now < rc_expiresAt l" j l]
    by (auto simp: registry_Snapshot_def Let_def lease_at_def sweepExpiredForService_def split: if_splits)
qed (use assms(2) in \<open>simp add: registry_Snapshot_def split: if_splits\<close>)

lemma fenced_step:
  assumes "fenced s i old r" "records_ok r" "queue_inv r" "avoids_epoch old op"
  shows "fenced s i old (run_reg_op (now, op) r)"
proof (cases op)
  case (HeartbeatOp cancelled u j epoch token ttl requireEpoch requireOwner)
  then show ?thesis
    using assms(1) by (auto simp: fenced_def heartbeat_lease split: if_splits)
next
  case (SnapshotOp cancelled u)
  then show ?thesis
    using assms(1) snapshot_leases [OF assms(2)] by (auto simp: fenced_def)
next
  case (SweepOp cancelled)
  obtain gone r' where sweep: "sweepExpiredRecords cancelled now r = (gone, r')"
    by fastforce
  then show ?thesis
    using SweepOp assms(1) sweep_swept(5) [OF assms(3) sweep] by (simp add: fenced_def)
next
  case (DeleteOp u j)
  then show ?thesis
    using assms(1) by (auto simp: fenced_def deleteRecord_def lease_at_def delete_conv' split: option.splits if_splits)
qed (use assms(1, 4) in \<open>auto simp: fenced_def registerAt_def restoreRecord_def Let_def store_lease_at split: if_splits\<close>)

lemma fenced_run:
  assumes "history (ops @ (t, RegisterOp False epoch token inst ttl) # later) now" "epoch \<noteq> old"
    and "list_all (avoids_epoch old) (map snd later)" "ri_ID inst \<noteq> ''''" "ri_Service inst \<noteq> ''''" "ri_Address inst \<noteq> ''''" "0 < ttl"
  shows "fenced (ri_Service inst) (ri_ID inst) old (reg_run (ops @ (t, RegisterOp False epoch token inst ttl) # later))"
  using assms(1, 3)
proof (induction later arbitrary: now rule: rev_induct)
  case Nil
  then show ?case
    using assms(2, 4-7) by (simp add: reg_run_def registerAt_def Let_def fenced_def store_lease_at)
next
  case (snoc x later)
  obtain u op where x: "x = (u, op)"
    by (cases x)
  let ?ops = "ops @ (t, RegisterOp False epoch token inst ttl) # later"
  have "history ?ops u" "avoids_epoch old op" "list_all (avoids_epoch old) (map snd later)"
    using snoc.prems by (auto simp: history_def x sorted_append)
  then show ?case
    using snoc.IH fenced_step reg_run_inv [of ?ops u] by (simp add: reg_run_def x reg_inv_def)
qed

text \<open>
  C9: a superseded owner stays out. Once an instance is registered again, no \<open>HeartbeatWithOwner\<close> with the epoch of
  the earlier registration is accepted any more, whatever happens in between other than a registration or
  restoration with that very epoch, and the attempt changes no lease.
\<close>

theorem superseded_owner_fenced:
  assumes "history (ops @ (t, RegisterOp False epoch token inst ttl) # later) now" "epoch \<noteq> old"
    and "list_all (avoids_epoch old) (map snd later)" "ri_ID inst \<noteq> ''''" "ri_Service inst \<noteq> ''''" "ri_Address inst \<noteq> ''''" "0 < ttl"
    and "r = reg_run (ops @ (t, RegisterOp False epoch token inst ttl) # later)"
  shows "fst (HeartbeatWithOwner cancelled (ri_Service inst) (ri_ID inst) old oldToken ttl' now r) \<noteq> None \<and>
    lease_at (snd (HeartbeatWithOwner cancelled (ri_Service inst) (ri_ID inst) old oldToken ttl' now r)) = lease_at r"
proof -
  have "fenced (ri_Service inst) (ri_ID inst) old r"
    using fenced_run [OF assms(1-7)] assms(8) by simp
  then have refused: "fst (HeartbeatWithOwner cancelled (ri_Service inst) (ri_ID inst) old oldToken ttl' now r) \<noteq> None"
    by (auto simp: HeartbeatWithOwner_def heartbeatAtWithOwner_def fence_error_def Let_def fenced_def lease_at_def split: option.split)
  then show ?thesis
    by (auto simp: HeartbeatWithOwner_def fun_eq_iff heartbeat_lease split: if_splits)
qed


section \<open>Sweeps that are cut short\<close>

text \<open>
  A lease that no entry of the queue stands for: the entries with its generation are gone.
\<close>

definition unqueued :: "string \<Rightarrow> string \<Rightarrow> lease \<Rightarrow> MemoryRegistry \<Rightarrow> bool" where
  "unqueued s i l r \<longleftrightarrow> lease_at r s i = Some l \<and> rc_generation l \<notin> xe_generation ` set (mr_expiries r)"

text \<open>A read of the service sweeps it when the first deadline of its snapshot has come.\<close>

definition snapshot_due :: "string \<Rightarrow> gotime \<Rightarrow> MemoryRegistry \<Rightarrow> bool" where
  "snapshot_due s now r \<longleftrightarrow> (case mr_services r s of None \<Rightarrow> False | Some st \<Rightarrow> snapshotNeedsExpiry (ss_snapshot st) now)"

text \<open>
  Operations that neither name an instance nor read its service when it is due: all sweeps of the registry,
  and all operations on other instances and services.
\<close>

fun spares :: "string \<Rightarrow> string \<Rightarrow> MemoryRegistry \<Rightarrow> gotime \<times> reg_op \<Rightarrow> bool" where
  "spares s i r (now, RegisterOp cancelled epoch token inst ttl) \<longleftrightarrow> (ri_Service inst, ri_ID inst) \<noteq> (s, i)"
| "spares s i r (now, HeartbeatOp cancelled u j epoch token ttl requireEpoch requireOwner) \<longleftrightarrow> (u, j) \<noteq> (s, i)"
| "spares s i r (now, SnapshotOp cancelled u) \<longleftrightarrow> u = s \<longrightarrow> \<not> snapshot_due s now r"
| "spares s i r (now, SweepOp cancelled) \<longleftrightarrow> True"
| "spares s i r (now, DeleteOp u j) \<longleftrightarrow> (u, j) \<noteq> (s, i)"
| "spares s i r (now, RestoreOp epoch token inst expiresAt filterExpired) \<longleftrightarrow> (ri_Service inst, ri_ID inst) \<noteq> (s, i)"

fun spared :: "string \<Rightarrow> string \<Rightarrow> MemoryRegistry \<Rightarrow> (gotime \<times> reg_op) list \<Rightarrow> bool" where
  "spared s i r [] \<longleftrightarrow> True"
| "spared s i r (x # xs) \<longleftrightarrow> spares s i r x \<and> spared s i (run_reg_op x r) xs"

lemma store_unqueued:
  assumes "unqueued s i l r" "queue_inv r" "(u, j) \<noteq> (s, i)" "rc_generation l' = mr_generation r + 1" "mr_generation r < mr_generation r + 1"
  shows "unqueued s i l (store_lease u j now l' (r\<lparr>mr_generation := mr_generation r + 1\<rparr>))"
proof -
  have "set (mr_expiries (store_lease u j now l' (r\<lparr>mr_generation := mr_generation r + 1\<rparr>))) = insert (entry_of u j l') (set (mr_expiries r))"
    using expiries.push_member [OF queue_invD(1) [OF assms(2)]] by (auto simp: store_lease_def Let_def entry_of_def)
  moreover have "rc_generation l \<le> mr_generation r"
    using queue_invD(4) [OF assms(2), of s i l] assms(1) by (simp add: unqueued_def)
  then have "rc_generation l \<noteq> xe_generation (entry_of u j l')"
    using assms(4, 5) by (auto simp: entry_of_def)
  ultimately show ?thesis
    using assms(1, 3) by (auto simp: unqueued_def store_lease_at)
qed

lemma sweep_unqueued:
  assumes "unqueued s i l r" "queue_inv r"
  shows "unqueued s i l (snd (sweepExpiredRecords cancelled now r))"
proof -
  obtain gone r' where sweep: "sweepExpiredRecords cancelled now r = (gone, r')"
    by fastforce
  note swept = sweep_swept [OF assms(2) sweep]
  have "(s, i) \<notin> set gone"
    using swept(4) [of s i] assms(1) by (force simp: unqueued_def entry_of_def)
  then show ?thesis
    using swept(5) [of s i] swept(10) assms(1) by (auto simp: unqueued_def sweep)
qed

lemma snapshot_unqueued:
  assumes "unqueued s i l r" "u = s \<longrightarrow> \<not> snapshot_due s now r"
  shows "unqueued s i l (snd (registry_Snapshot cancelled u now r))"
  using assms by (auto simp: unqueued_def registry_Snapshot_def snapshot_due_def lease_at_update Let_def split: option.split)

lemma unqueued_step:
  assumes "unqueued s i l r" "reg_inv n t r" "n + 1 < 2 ^ 64" "spares s i r (now, op)"
  shows "unqueued s i l (run_reg_op (now, op) r)"
proof -
  have inv: "queue_inv r" and "unat (mr_generation r) + 1 < 2 ^ 64"
    using assms(2, 3) by (simp_all add: reg_inv_def)
  note store = store_unqueued [OF assms(1) inv _ _ generation_step(1) [OF this(2)]]
  show ?thesis
  proof (cases op)
    case (HeartbeatOp cancelled u j epoch token ttl requireEpoch requireOwner)
    have "unqueued s i l (r\<lparr>mr_generation := g\<rparr>)" for g
      using assms(1) by (simp add: unqueued_def)
    then show ?thesis
      using HeartbeatOp assms(1, 4) by (auto simp: heartbeatAtWithOwner_def Let_def intro!: store split: option.split)
  next
    case (SnapshotOp cancelled u)
    then show ?thesis
      using snapshot_unqueued [OF assms(1)] assms(4) by simp
  next
    case (SweepOp cancelled)
    then show ?thesis
      using sweep_unqueued [OF assms(1) inv] by simp
  next
    case (DeleteOp u j)
    then show ?thesis
      using assms(1, 4) by (auto simp: unqueued_def deleteRecord_def lease_at_update delete_conv' lease_at_def split: option.split)
  qed (use assms(1, 4) in \<open>auto simp: registerAt_def restoreRecord_def Let_def intro!: store\<close>)
qed

lemma unqueued_run:
  assumes "unqueued s i l (reg_run ops)" "history (ops @ later) now" "spared s i (reg_run ops) later"
  shows "unqueued s i l (reg_run (ops @ later))"
  using assms
proof (induction later arbitrary: ops)
  case (Cons x later)
  obtain t op where x: "x = (t, op)"
    by (cases x)
  have "history ops t" "length ops + 1 < 2 ^ 64"
    using Cons.prems(2) by (auto simp: history_def x sorted_append)
  then have "unqueued s i l (run_reg_op x (reg_run ops))"
    using unqueued_step [OF Cons.prems(1)] reg_run_inv [of ops t] Cons.prems(3) by (auto simp: x)
  then show ?case
    using Cons.IH [of "ops @ [x]"] Cons.prems(2, 3) by (simp add: reg_run_def)
qed simp

text \<open>A sweep that ends after it took an entry leaves its lease without one.\<close>

lemma cancelled_sweep_unqueued:
  assumes "queue_inv r" "popExpired now (mr_expiries r) = Some (entry_of s i l, h)" "lease_at r s i = Some l"
  shows "unqueued s i l (snd (sweepExpiredRecords (\<lambda>k. k = 1) now r))"
proof -
  have "mset (mr_expiries r) = add_mset (entry_of s i l) (mset h)"
    using expiries.pop_entries [OF queue_invD(1) [OF assms(1)] assms(2)] .
  then have "mset (map xe_generation (mr_expiries r)) = mset (map xe_generation (entry_of s i l # h))"
    by simp
  then have "distinct (map xe_generation (entry_of s i l # h))"
    using queue_invD(2) [OF assms(1)] mset_eq_imp_distinct_iff by blast
  then have "rc_generation l \<notin> xe_generation ` set h"
    by (simp add: entry_of_def)
  moreover have "snd (sweepExpiredRecords (\<lambda>k. k = 1) now r) = rebuild_dirty now {} (r\<lparr>mr_expiries := h\<rparr>)"
    using assms(2) by (simp add: sweepExpiredRecords_def sweep_loop.simps [of _ _ "Suc 0"])
  ultimately show ?thesis
    using assms(3) by (simp add: unqueued_def)
qed

lemma snapshot_removes:
  assumes "records_ok r" "lease_at r s i = Some l" "rc_expiresAt l \<le> now"
  shows "lease_at (snd (registry_Snapshot (\<lambda>_. False) s now r)) s i = (if snapshot_due s now r then None else Some l)"
proof -
  obtain st where st: "mr_services r s = Some st" "map_of (ss_records st) i = Some l"
    using assms(2) by (auto simp: lease_at_def split: option.splits)
  have keys: "distinct (map fst (ss_records st))" and "s \<noteq> ''''"
    using assms(1, 2) st(1) by (auto simp: records_ok_def keys_distinct_def stored_ok_def)
  moreover have "map_of (filter (\<lambda>(i, l). now < rc_expiresAt l) (ss_records st)) i = None"
    using map_of_filter_keep [OF keys, of "\<lambda>(i, l). now < rc_expiresAt l" i] st(2) assms(3)
    by (cases "map_of (filter (\<lambda>(i, l). now < rc_expiresAt l) (ss_records st)) i") (auto dest: map_of_SomeD)
  ultimately show ?thesis
    using st by (auto simp: registry_Snapshot_def snapshot_due_def sweepExpiredForService_def Let_def lease_at_def)
qed

text \<open>
  C37: a sweep that is cut short takes a lease out of the reach of all later sweeps of the registry. When
  the context ends after the sweep took an expired entry from the queue, the entry is dropped although its
  lease is still there. The lease stays through any number of sweeps, however late and complete, and
  any other operations, until its own instance is registered, renewed, deleted or restored, or a read of its
  service finds the first deadline of the snapshot past: such a read removes it, any other read does not.
\<close>

theorem cancelled_sweep_leaks:
  assumes "history (ops @ (t, SweepOp (\<lambda>k. k = 1)) # later) now"
    and "popExpired t (mr_expiries (reg_run ops)) = Some (entry_of s i l, h)" "lease_at (reg_run ops) s i = Some l"
    and "spared s i (reg_run (ops @ [(t, SweepOp (\<lambda>k. k = 1))])) later"
    and "r = reg_run (ops @ (t, SweepOp (\<lambda>k. k = 1)) # later)"
  shows "lease_at r s i = Some l \<and>
    lease_at (snd (registry_Snapshot (\<lambda>_. False) s now r)) s i = (if snapshot_due s now r then None else Some l)"
proof -
  let ?x = "(t, SweepOp (\<lambda>k. k = 1))"
  have "history ops t" "t \<le> now"
    using assms(1) by (auto simp: history_def sorted_append)
  then have inv: "queue_inv (reg_run ops)"
    using reg_run_inv [of ops t] by (simp add: reg_inv_def)
  have "unqueued s i l (reg_run (ops @ [?x]))"
    using cancelled_sweep_unqueued [OF inv assms(2, 3)] by (simp add: reg_run_def)
  then have "unqueued s i l r"
    using unqueued_run [of s i l "ops @ [?x]" later now] assms(1, 4) by (simp add: assms(5))
  then have at: "lease_at r s i = Some l"
    by (simp add: unqueued_def)
  have "rc_expiresAt l \<le> t"
    using expiries.pop_due [OF queue_invD(1) [OF inv] assms(2)] by (simp add: entry_of_def)
  moreover have "records_ok r"
    using reg_run_inv [OF assms(1)] by (simp add: assms(5) reg_inv_def)
  ultimately show ?thesis
    using at snapshot_removes [OF _ at, of now] \<open>t \<le> now\<close> by simp
qed


section \<open>A registry with two leases\<close>

definition demo_instance :: "string \<Rightarrow> Instance" where
  "demo_instance i = \<lparr>ri_ID = i, ri_Service = ''svc'', ri_Address = ''10.0.0.1:80'', ri_Status = Unspecified, ri_Labels = None,
     ri_LastSeen = zero_time, ri_RegistrationEpoch = '''', ri_OwnerToken = ''''\<rparr>"

definition demo_ops :: "(gotime \<times> reg_op) list" where
  "demo_ops = [(1, RegisterOp False ''e1'' ''t1'' (demo_instance ''a'') 5), (2, RegisterOp False ''e2'' ''t2'' (demo_instance ''b'') 5),
     (4, HeartbeatOp False ''svc'' ''b'' ''e2'' ''t2'' 5 True True)]"

lemma demo_history: "history demo_ops 7" "history demo_ops 6" "list_all uncancelled (map snd demo_ops)"
  by (simp_all add: history_def demo_ops_def zero_time_def)

definition demo_lease :: "string \<Rightarrow> gotime \<Rightarrow> gotime \<Rightarrow> string \<Rightarrow> string \<Rightarrow> 64 word \<Rightarrow> lease" where
  "demo_lease i seen expiry epoch token g = \<lparr>rc_instance = (demo_instance i)\<lparr>ri_Status := Healthy, ri_LastSeen := seen,
     ri_RegistrationEpoch := epoch, ri_OwnerToken := token\<rparr>, rc_expiresAt = expiry, rc_generation = g\<rparr>"

lemma demo_leases:
  "lease_at (reg_run demo_ops) ''svc'' ''a'' = Some (demo_lease ''a'' 1 6 ''e1'' ''t1'' 1)"
  "lease_at (reg_run demo_ops) ''svc'' ''b'' = Some (demo_lease ''b'' 4 9 ''e2'' ''t2'' 3)"
  "leases_of (reg_run demo_ops) ''svc'' = [(''a'', demo_lease ''a'' 1 6 ''e1'' ''t1'' 1), (''b'', demo_lease ''b'' 4 9 ''e2'' ''t2'' 3)]"
  by (simp_all add: reg_run_def demo_ops_def registerAt_def heartbeatAtWithOwner_def fence_error_def store_lease_def
      get_serviceState_def newServiceState_def rebuildSnapshotLocked_def demo_instance_def demo_lease_def lease_at_def
      leases_of_def Let_def NewMemoryRegistry_def)

lemma demo_pop:
  "\<exists>h. popExpired 6 (mr_expiries (reg_run demo_ops)) = Some (entry_of ''svc'' ''a'' (demo_lease ''a'' 1 6 ''e1'' ''t1'' 1), h)"
proof -
  let ?a = "entry_of ''svc'' ''a'' (demo_lease ''a'' 1 6 ''e1'' ''t1'' 1)"
  let ?h = "mr_expiries (reg_run demo_ops)"
  have inv: "queue_inv (reg_run demo_ops)" and cov: "covered (reg_run demo_ops)"
    using reg_run_inv [OF demo_history(2)] demo_history(3) by (simp_all add: reg_inv_def)
  have "?a \<in># mset ?h"
    using cov demo_leases(1) by (simp add: covered_def)
  then obtain e h where pop: "popExpired 6 ?h = Some (e, h)"
    using expiries.due_is_popped [OF queue_invD(1) [OF inv], of ?a 6] by (auto simp: entry_of_def demo_lease_def)
  have "mset ?h = {#?a, entry_of ''svc'' ''b'' (demo_lease ''b'' 2 7 ''e2'' ''t2'' 2), entry_of ''svc'' ''b'' (demo_lease ''b'' 4 9 ''e2'' ''t2'' 3)#}"
  proof -
    have "is_heap 0 []"
      by (simp add: is_heap_def)
    then have "is_heap (length []) []"
      by simp
    note one = expiries.push_ok [OF this] and two = expiries.push_ok [OF expiries.push_ok [OF this]]
    show ?thesis
      using expiries.push_entries [OF \<open>is_heap (length []) []\<close>] expiries.push_entries [OF one] expiries.push_entries [OF two]
      by (simp add: reg_run_def demo_ops_def registerAt_def heartbeatAtWithOwner_def fence_error_def store_lease_def
          get_serviceState_def newServiceState_def rebuildSnapshotLocked_def demo_instance_def demo_lease_def entry_of_def
          Let_def NewMemoryRegistry_def add_mset_commute)
  qed
  moreover have "e \<in># mset ?h" "xe_expiresAt e \<le> 6"
    using expiries.pop_member [OF queue_invD(1) [OF inv] pop, of e] expiries.pop_due [OF queue_invD(1) [OF inv] pop] by simp_all
  ultimately have "e = ?a"
    by (auto simp: entry_of_def demo_lease_def)
  then show ?thesis
    using pop by blast
qed

theorem registry_well_formed_witness: "records_ok (reg_run demo_ops) \<and> queue_inv (reg_run demo_ops)"
  by (rule registry_well_formed [OF demo_history(1)])

theorem sweep_exact_witness:
  "(''svc'', ''a'') \<in> set (fst (sweepExpiredRecords (\<lambda>_. False) 7 (reg_run demo_ops))) \<and>
   lease_at (snd (sweepExpiredRecords (\<lambda>_. False) 7 (reg_run demo_ops))) ''svc'' ''b'' = Some (demo_lease ''b'' 4 9 ''e2'' ''t2'' 3)"
  using sweep_exact [OF demo_history(1, 3) surjective_pairing, of "''svc''" "''a''"]
    sweep_exact [OF demo_history(1, 3) surjective_pairing, of "''svc''" "''b''"] demo_leases
  by (simp add: demo_lease_def)

theorem cancelled_sweep_leaks_witness:
  "lease_at (reg_run (demo_ops @ (6, SweepOp (\<lambda>k. k = 1)) # [(7, SweepOp (\<lambda>_. False)),
       (8, RegisterOp False ''e4'' ''t4'' (demo_instance ''c'') 5), (100, SweepOp (\<lambda>_. False))])) ''svc'' ''a'' =
     Some (demo_lease ''a'' 1 6 ''e1'' ''t1'' 1)"
proof -
  let ?later = "[(7, SweepOp (\<lambda>_. False)), (8, RegisterOp False ''e4'' ''t4'' (demo_instance ''c'') 5), (100, SweepOp (\<lambda>_. False))]"
  obtain h where pop: "popExpired 6 (mr_expiries (reg_run demo_ops)) = Some (entry_of ''svc'' ''a'' (demo_lease ''a'' 1 6 ''e1'' ''t1'' 1), h)"
    using demo_pop by blast
  have "history (demo_ops @ (6, SweepOp (\<lambda>k. k = 1)) # ?later) 100"
    by (simp add: history_def demo_ops_def zero_time_def)
  from cancelled_sweep_leaks [OF this pop demo_leases(1) _ refl] show ?thesis
    by (simp add: demo_instance_def)
qed

theorem snapshot_lists_live_witness:
  "\<exists>snapshot. fst (registry_Snapshot (\<lambda>_. False) ''svc'' 7 (reg_run demo_ops)) = Inr snapshot \<and>
     sn_Instances snapshot = [rc_instance (demo_lease ''b'' 4 9 ''e2'' ''t2'' 3)]"
  using snapshot_lists_live [OF demo_history(1), of "''svc''"] by (simp add: demo_leases(3) live_leases_def demo_lease_def)

definition demo_takeover :: "(gotime \<times> reg_op) list" where
  "demo_takeover = demo_ops @ (5, RegisterOp False ''e3'' ''t3'' (demo_instance ''b'') 5) # [(6, SweepOp (\<lambda>_. False))]"

theorem superseded_owner_fenced_witness:
  "fst (HeartbeatWithOwner False ''svc'' ''b'' ''e2'' ''t2'' 5 7 (reg_run demo_takeover)) \<noteq> None"
proof -
  have "history demo_takeover 7"
    by (simp add: demo_takeover_def history_def demo_ops_def zero_time_def)
  from superseded_owner_fenced [OF this [unfolded demo_takeover_def] _ _ _ _ _ _ refl, of "''e2''" False "''t2''" 5] show ?thesis
    by (simp add: demo_instance_def demo_takeover_def)
qed

end
