(* ===== verification/Routing.thy ===== *)
theory Routing
  imports Prelude Go_Float Status "HOL-Library.Multiset"
begin

text \<open>
  \<open>src/pkg/routing/round_robin.go\<close>: the round-robin and the adaptive power-of-two-choices pickers. The
  random source is a parameter: \<open>intn r n\<close> is the draw below \<open>n\<close> and the source after it.
\<close>

section \<open>Endpoints\<close>

record Endpoint =
  ep_ID :: string
  ep_Address :: string
  ep_Status :: Code
  ep_Inflight :: int
  ep_LatencyEWMA :: duration
  ep_Weight :: float64
  ep_SlowScore :: float64

datatype 'err pick_error = CtxErr 'err | ErrNoEndpoint


section \<open>Round robin\<close>

record RoundRobinPicker =
  rrp_endpoints :: "Endpoint list"
  rrp_next :: nat

definition RoundRobin_Update :: "Endpoint list \<Rightarrow> RoundRobinPicker \<Rightarrow> RoundRobinPicker" where
  "RoundRobin_Update endpoints p =
     (if endpoints = [] then \<lparr>rrp_endpoints = endpoints, rrp_next = 0\<rparr>
      else \<lparr>rrp_endpoints = endpoints, rrp_next = rrp_next p mod length endpoints\<rparr>)"

definition NewRoundRobinPicker :: "Endpoint list \<Rightarrow> RoundRobinPicker" where
  "NewRoundRobinPicker endpoints = RoundRobin_Update endpoints \<lparr>rrp_endpoints = [], rrp_next = 0\<rparr>"

text \<open>\<open>n\<close> is the number of attempts left.\<close>

fun round_robin_loop :: "nat \<Rightarrow> RoundRobinPicker \<Rightarrow> Endpoint option \<times> RoundRobinPicker" where
  "round_robin_loop 0 p = (None, p)"
| "round_robin_loop (Suc n) p =
     (let idx = rrp_next p mod length (rrp_endpoints p);
          p = p\<lparr>rrp_next := (rrp_next p + 1) mod length (rrp_endpoints p)\<rparr>;
          endpoint = rrp_endpoints p ! idx
      in if Normalized (ep_Status endpoint) = Healthy then (Some endpoint, p)
         else round_robin_loop n p)"

definition RoundRobin_Pick ::
    "'err option \<Rightarrow> RoundRobinPicker \<Rightarrow> ('err pick_error + Endpoint) \<times> RoundRobinPicker" where
  "RoundRobin_Pick ctx_err p =
     (case ctx_err of
        Some err \<Rightarrow> (Inl (CtxErr err), p)
      | None \<Rightarrow>
          if rrp_endpoints p = [] then (Inl ErrNoEndpoint, p)
          else case round_robin_loop (length (rrp_endpoints p)) p of
                 (Some endpoint, p') \<Rightarrow> (Inr endpoint, p')
               | (None, p') \<Rightarrow> (Inl ErrNoEndpoint, p'))"


section \<open>Adaptive power of two choices\<close>

record AdaptiveP2CConfig =
  pc_LatencyPenalty :: float64
  pc_SlowPenalty :: float64
  pc_ProbeRatio :: float64

record 'r AdaptiveP2CPicker =
  pp_endpoints :: "Endpoint list"
  pp_random :: 'r
  pp_cfg :: AdaptiveP2CConfig

definition P2C_Update :: "Endpoint list \<Rightarrow> 'r AdaptiveP2CPicker \<Rightarrow> 'r AdaptiveP2CPicker" where
  "P2C_Update endpoints p = p\<lparr>pp_endpoints := endpoints\<rparr>"

definition NewAdaptiveP2CPicker ::
    "Endpoint list \<Rightarrow> 'r \<Rightarrow> AdaptiveP2CConfig \<Rightarrow> 'r AdaptiveP2CPicker" where
  "NewAdaptiveP2CPicker endpoints random cfg =
     (let zero = Fin False 0;
          cfg = (if fle (pc_LatencyPenalty cfg) zero then cfg\<lparr>pc_LatencyPenalty := of_rat64 1\<rparr> else cfg);
          cfg = (if fle (pc_SlowPenalty cfg) zero then cfg\<lparr>pc_SlowPenalty := of_rat64 1\<rparr> else cfg);
          cfg = (if fle (pc_ProbeRatio cfg) zero then cfg\<lparr>pc_ProbeRatio := of_rat64 (2 / 100)\<rparr> else cfg);
          cfg = (if flt (of_rat64 1) (pc_ProbeRatio cfg) then cfg\<lparr>pc_ProbeRatio := of_rat64 1\<rparr> else cfg)
      in P2C_Update endpoints \<lparr>pp_endpoints = [], pp_random = random, pp_cfg = cfg\<rparr>)"

definition routableEndpoints :: "Endpoint list \<Rightarrow> Endpoint list" where
  "routableEndpoints endpoints = filter (\<lambda>e. Routable (ep_Status e)) endpoints"

definition probe_threshold :: "AdaptiveP2CConfig \<Rightarrow> int" where
  "probe_threshold cfg = to_int64 (fmul (pc_ProbeRatio cfg) (of_rat64 100))"

definition pickCandidates ::
    "('r \<Rightarrow> nat \<Rightarrow> nat \<times> 'r) \<Rightarrow> Endpoint list \<Rightarrow> 'r AdaptiveP2CPicker \<Rightarrow> Endpoint list \<times> 'r" where
  "pickCandidates intn endpoints p =
     (let normal = filter (\<lambda>e. NormalTraffic (ep_Status e)) endpoints;
          probing = filter (\<lambda>e. \<not> NormalTraffic (ep_Status e) \<and> IsProbing (ep_Status e)) endpoints
      in if probing = [] \<or> normal = [] then (normal @ probing, pp_random p)
         else let threshold = probe_threshold (pp_cfg p)
              in if threshold > 0
                 then (case intn (pp_random p) 100 of (d, r) \<Rightarrow>
                         (if int d < threshold then probing else normal, r))
                 else (normal, pp_random p))"

definition maxInt64 :: "int \<Rightarrow> int \<Rightarrow> int" where
  "maxInt64 a b = (if a > b then a else b)"

text \<open>\<open>Duration.Seconds\<close>; Go's division truncates.\<close>

definition Seconds :: "duration \<Rightarrow> float64" where
  "Seconds d =
     (let sec = sgn d * (\<bar>d\<bar> div 1000000000); nsec = sgn d * (\<bar>d\<bar> mod 1000000000)
      in fadd (of_int64 sec) (fdiv (of_int64 nsec) (of_rat64 1000000000)))"

definition endpointCost :: "Endpoint \<Rightarrow> AdaptiveP2CConfig \<Rightarrow> float64" where
  "endpointCost endpoint cfg =
     (let weight = (if fle (ep_Weight endpoint) (Fin False 0) \<or> IsNaN (ep_Weight endpoint)
                    then of_rat64 1 else ep_Weight endpoint);
          slowScore = math_Max (Fin False 0) (ep_SlowScore endpoint);
          effectiveWeight = fdiv weight (fadd (of_rat64 1) slowScore);
          effectiveWeight = (if fle effectiveWeight (Fin False 0) then of_rat64 1 else effectiveWeight);
          inflightCost = fdiv (of_int64 (maxInt64 (ep_Inflight endpoint) 0)) effectiveWeight;
          latencyCost = fmul (Seconds (ep_LatencyEWMA endpoint)) (pc_LatencyPenalty cfg);
          slowCost = fmul slowScore (pc_SlowPenalty cfg);
          slowCost = (if ep_Status endpoint = Degraded then fadd slowCost (of_rat64 1) else slowCost)
      in fadd (fadd inflightCost latencyCost) slowCost)"

definition P2C_Pick ::
    "('r \<Rightarrow> nat \<Rightarrow> nat \<times> 'r) \<Rightarrow> 'err option \<Rightarrow> 'r AdaptiveP2CPicker
      \<Rightarrow> ('err pick_error + Endpoint) \<times> 'r AdaptiveP2CPicker" where
  "P2C_Pick intn ctx_err p =
     (case ctx_err of
        Some err \<Rightarrow> (Inl (CtxErr err), p)
      | None \<Rightarrow>
          (let (candidates, r) = pickCandidates intn (pp_endpoints p) p
           in if candidates = [] then (Inl ErrNoEndpoint, p\<lparr>pp_random := r\<rparr>)
              else if length candidates = 1 then (Inr (candidates ! 0), p\<lparr>pp_random := r\<rparr>)
              else
                (let (a, r) = intn r (length candidates);
                     (b, r) = intn r (length candidates - 1);
                     b = (if b \<ge> a then b + 1 else b)
                 in (Inr (if fle (endpointCost (candidates ! a) (pp_cfg p)) (endpointCost (candidates ! b) (pp_cfg p))
                          then candidates ! a else candidates ! b),
                     p\<lparr>pp_random := r\<rparr>))))"


section \<open>The picker contract\<close>

text \<open>
  What the client of a picker relies on (interface \<open>Picker\<close>): a pick comes from the endpoints of the
  last update and has an eligible status, and a pick fails only when there is none.
\<close>

locale picker =
  fixes update :: "Endpoint list \<Rightarrow> 's \<Rightarrow> 's"
    and pick :: "'s \<Rightarrow> Endpoint option \<times> 's"
    and current :: "'s \<Rightarrow> Endpoint list"
    and eligible :: "Endpoint \<Rightarrow> bool"
  assumes current_update: "current (update es s) = es"
    and current_pick: "current (snd (pick s)) = current s"
    and pick_some: "fst (pick s) = Some e \<Longrightarrow> e \<in> set (current s) \<and> eligible e"
    and pick_none: "fst (pick s) = None \<Longrightarrow> e \<in> set (current s) \<Longrightarrow> \<not> eligible e"
begin

primrec picks :: "nat \<Rightarrow> 's \<Rightarrow> Endpoint option list \<times> 's" where
  "picks 0 s = ([], s)"
| "picks (Suc n) s = (let (r, s1) = pick s; (rs, s2) = picks n s1 in (r # rs, s2))"

lemma picks_current: "current (snd (picks n s)) = current s"
  by (induction n arbitrary: s) (simp_all add: case_prod_beta Let_def current_pick)

lemma picks_eligible: "Some e \<in> set (fst (picks n s)) \<Longrightarrow> e \<in> set (current s) \<and> eligible e"
proof (induction n arbitrary: s)
  case (Suc n)
  then show ?case
    using pick_some [of s e] Suc.IH [of "snd (pick s)"]
    by (auto simp: case_prod_beta Let_def current_pick)
qed simp

lemma picks_never_fail:
  assumes "\<exists>e\<in>set (current s). eligible e"
  shows "None \<notin> set (fst (picks n s))"
  using assms
proof (induction n arbitrary: s)
  case (Suc n)
  then show ?case
    using pick_none [of s] Suc.IH [of "snd (pick s)"]
    by (auto simp: case_prod_beta Let_def current_pick)
qed simp

text \<open>After an update only the endpoints of the update are picked, and none that is not eligible.\<close>

lemma picks_after_update:
  "Some e \<in> set (fst (picks n (update es s))) \<Longrightarrow> e \<in> set es \<and> eligible e"
  using picks_eligible [of e n "update es s"] by (simp add: current_update)

end

text \<open>A random source: every draw below \<open>n\<close> is below \<open>n\<close>.\<close>

locale random_source =
  fixes intn :: "'r \<Rightarrow> nat \<Rightarrow> nat \<times> 'r"
  assumes intn_less: "0 < n \<Longrightarrow> fst (intn r n) < n"


section \<open>Round robin: order and fairness\<close>

definition rr_healthy :: "Endpoint \<Rightarrow> bool" where
  "rr_healthy e \<longleftrightarrow> Normalized (ep_Status e) = Healthy"

definition rr_pick :: "RoundRobinPicker \<Rightarrow> Endpoint option \<times> RoundRobinPicker" where
  "rr_pick p = (case RoundRobin_Pick (None :: unit option) p of
     (Inr e, p') \<Rightarrow> (Some e, p') | (Inl err, p') \<Rightarrow> (None, p'))"

lemma round_robin_loop_endpoints [simp]:
  "rrp_endpoints (snd (round_robin_loop n p)) = rrp_endpoints p"
  by (induction n p rule: round_robin_loop.induct) (simp_all add: Let_def)

text \<open>The loop returns the first healthy endpoint in the rotation that starts at \<open>next\<close>.\<close>

lemma rotate_step:
  assumes "rotate i es = y # zs"
  shows "es ! (i mod length es) = y" "rotate ((i + 1) mod length es) es = zs @ [y]"
proof -
  have "es \<noteq> []"
    using assms by auto
  then show "es ! (i mod length es) = y"
    using hd_rotate_conv_nth [of es i] assms by simp
  have "rotate ((i + 1) mod length es) es = rotate (Suc i) es"
    by (simp flip: rotate_conv_mod)
  then show "rotate ((i + 1) mod length es) es = zs @ [y]"
    using assms by simp
qed

lemma round_robin_loop_rotate:
  assumes "rotate (rrp_next p) (rrp_endpoints p) = pre @ x # post" "length pre < n"
    and "\<forall>e\<in>set pre. \<not> rr_healthy e" "rr_healthy x"
  shows "fst (round_robin_loop n p) = Some x \<and>
     rotate (rrp_next (snd (round_robin_loop n p))) (rrp_endpoints p) = post @ pre @ [x]"
  using assms
proof (induction pre arbitrary: n p post)
  case Nil
  then obtain m where "n = Suc m"
    by (cases n) auto
  then show ?case
    using Nil rotate_step [of "rrp_next p" "rrp_endpoints p" x post]
    by (simp add: Let_def rr_healthy_def)
next
  case (Cons y pre)
  then obtain m where n: "n = Suc m" "length pre < m"
    by (cases n) auto
  let ?q = "p\<lparr>rrp_next := (rrp_next p + 1) mod length (rrp_endpoints p)\<rparr>"
  note step = rotate_step [of "rrp_next p" "rrp_endpoints p" y "pre @ x # post"]
  have "rotate (rrp_next ?q) (rrp_endpoints ?q) = pre @ x # post @ [y]"
    using Cons.prems(1) step by simp
  then have "fst (round_robin_loop m ?q) = Some x \<and>
      rotate (rrp_next (snd (round_robin_loop m ?q))) (rrp_endpoints ?q) = (post @ [y]) @ pre @ [x]"
    using Cons n by (intro Cons.IH) auto
  then show ?case
    using Cons.prems n step by (simp add: Let_def rr_healthy_def)
qed

lemma round_robin_loop_none:
  assumes "\<forall>e\<in>set (rrp_endpoints p). \<not> rr_healthy e" "rrp_endpoints p \<noteq> []"
  shows "fst (round_robin_loop n p) = None"
  using assms by (induction n p rule: round_robin_loop.induct) (auto simp: Let_def rr_healthy_def)

lemma rr_pick_eq:
  "rr_pick p = (if rrp_endpoints p = [] then (None, p) else round_robin_loop (length (rrp_endpoints p)) p)"
  by (simp add: rr_pick_def RoundRobin_Pick_def split: prod.splits option.splits)

lemma rr_pick_none:
  assumes "\<forall>e\<in>set (rrp_endpoints p). \<not> rr_healthy e"
  shows "fst (rr_pick p) = None"
  using assms by (simp add: rr_pick_eq round_robin_loop_none)

lemma rr_pick_rotate:
  assumes "rotate (rrp_next p) (rrp_endpoints p) = pre @ x # post"
    and "\<forall>e\<in>set pre. \<not> rr_healthy e" "rr_healthy x"
  shows "fst (rr_pick p) = Some x"
    and "rotate (rrp_next (snd (rr_pick p))) (rrp_endpoints p) = post @ pre @ [x]"
proof -
  have "length pre < length (rrp_endpoints p)"
    using arg_cong [OF assms(1), of length] by simp
  note loop = round_robin_loop_rotate [OF assms(1) this assms(2, 3)]
  have "rrp_endpoints p \<noteq> []"
    using assms(1) by auto
  then have "rr_pick p = round_robin_loop (length (rrp_endpoints p)) p"
    by (simp add: rr_pick_eq)
  then show "fst (rr_pick p) = Some x"
    "rotate (rrp_next (snd (rr_pick p))) (rrp_endpoints p) = post @ pre @ [x]"
    using loop by simp_all
qed

lemma rr_pick_endpoints [simp]: "rrp_endpoints (snd (rr_pick p)) = rrp_endpoints p"
  by (simp add: rr_pick_eq)

lemma rr_split:
  assumes "x \<in> set (rrp_endpoints p)" "rr_healthy x"
  obtains pre y post where "rotate (rrp_next p) (rrp_endpoints p) = pre @ y # post"
    "\<forall>e\<in>set pre. \<not> rr_healthy e" "rr_healthy y"
  using assms split_list_first_prop [of "rotate (rrp_next p) (rrp_endpoints p)" rr_healthy] by auto

interpretation rr: picker RoundRobin_Update rr_pick rrp_endpoints rr_healthy
proof unfold_locales
  fix es s
  show "rrp_endpoints (RoundRobin_Update es s) = es"
    by (simp add: RoundRobin_Update_def)
  show "rrp_endpoints (snd (rr_pick s)) = rrp_endpoints s"
    by simp
  fix e
  show "e \<in> set (rrp_endpoints s) \<and> rr_healthy e" if some: "fst (rr_pick s) = Some e"
  proof -
    obtain x where "x \<in> set (rrp_endpoints s)" "rr_healthy x"
      using some rr_pick_none [of s] by fastforce
    then obtain pre y post where y: "rotate (rrp_next s) (rrp_endpoints s) = pre @ y # post"
      "\<forall>e\<in>set pre. \<not> rr_healthy e" "rr_healthy y"
      by (rule rr_split)
    then have "e = y" "y \<in> set (rotate (rrp_next s) (rrp_endpoints s))"
      using rr_pick_rotate(1) [OF y] some by auto
    then show ?thesis
      using y(3) by simp
  qed
  show "\<not> rr_healthy e" if none: "fst (rr_pick s) = None" and e: "e \<in> set (rrp_endpoints s)"
  proof
    assume "rr_healthy e"
    with e obtain pre y post where "rotate (rrp_next s) (rrp_endpoints s) = pre @ y # post"
      "\<forall>e\<in>set pre. \<not> rr_healthy e" "rr_healthy y"
      by (rule rr_split)
    then show False
      using rr_pick_rotate(1) none by simp
  qed
qed

lemma mset_rotate1 [simp]: "mset (rotate1 xs) = mset xs"
  by (cases xs) simp_all

lemma mset_rotate [simp]: "mset (rotate n xs) = mset xs"
  by (induction n) simp_all

lemma rr_picks_in_order:
  assumes "rotate (rrp_next p) (rrp_endpoints p) = us @ vs" "n = length (filter rr_healthy us)"
  shows "fst (rr.picks n p) = map Some (filter rr_healthy us)"
  using assms
proof (induction n arbitrary: p us vs)
  case 0
  then show ?case
    by simp
next
  case (Suc n)
  then have "filter rr_healthy us \<noteq> []"
    by auto
  then have "\<exists>x\<in>set us. rr_healthy x"
    by (simp add: filter_empty_conv)
  from split_list_first_prop [OF this]
  obtain pre x us' where us: "us = pre @ x # us'" "\<forall>e\<in>set pre. \<not> rr_healthy e" "rr_healthy x"
    by blast
  then have rot: "rotate (rrp_next p) (rrp_endpoints p) = pre @ x # us' @ vs"
    using Suc.prems(1) by simp
  note pick = rr_pick_rotate [OF rot us(2, 3)]
  have "fst (rr.picks n (snd (rr_pick p))) = map Some (filter rr_healthy us')"
    using pick(2) Suc.prems(2) us by (intro Suc.IH [of _ us' "vs @ pre @ [x]"]) auto
  then show ?case
    using pick(1) us by (simp add: case_prod_beta Let_def)
qed

text \<open>
  C38: round robin is fair and exact. As many picks as there are healthy endpoints return every healthy
  endpoint once, in the order of the list starting at the current position and wrapping around; other
  endpoints are never returned. A pick fails only when no endpoint is healthy.
\<close>

theorem round_robin_fair:
  "let n = length (filter rr_healthy (rrp_endpoints p))
   in fst (rr.picks n p) = map Some (filter rr_healthy (rotate (rrp_next p) (rrp_endpoints p))) \<and>
      mset (fst (rr.picks n p)) = mset (map Some (filter rr_healthy (rrp_endpoints p))) \<and>
      (fst (rr_pick p) = None \<longleftrightarrow> n = 0)"
proof -
  let ?rot = "rotate (rrp_next p) (rrp_endpoints p)"
  let ?n = "length (filter rr_healthy (rrp_endpoints p))"
  have perm: "mset (filter rr_healthy ?rot) = mset (filter rr_healthy (rrp_endpoints p))"
    by (simp add: mset_filter)
  then have "?n = length (filter rr_healthy ?rot)"
    by (metis size_mset)
  then have "fst (rr.picks ?n p) = map Some (filter rr_healthy ?rot)"
    by (intro rr_picks_in_order [of p ?rot "[]"]) simp_all
  moreover have "fst (rr_pick p) = None \<longleftrightarrow> ?n = 0"
    using rr_pick_none [of p] rr.pick_none [of p] by (auto simp: filter_empty_conv)
  ultimately show ?thesis
    using perm by (simp add: Let_def)
qed


section \<open>Power of two choices\<close>

definition p2c_pick ::
    "('r \<Rightarrow> nat \<Rightarrow> nat \<times> 'r) \<Rightarrow> 'r AdaptiveP2CPicker \<Rightarrow> Endpoint option \<times> 'r AdaptiveP2CPicker" where
  "p2c_pick intn p = (case P2C_Pick intn (None :: unit option) p of
     (Inr e, p') \<Rightarrow> (Some e, p') | (Inl err, p') \<Rightarrow> (None, p'))"

lemma pickCandidates_set:
  "set (fst (pickCandidates intn es p)) \<subseteq> {e \<in> set es. Routable (ep_Status e)}"
  by (auto simp: pickCandidates_def Let_def Routable_iff case_prod_beta split: if_splits)

lemma pickCandidates_Nil:
  "fst (pickCandidates intn es p) = [] \<longleftrightarrow> (\<forall>e\<in>set es. \<not> Routable (ep_Status e))"
  by (auto simp: pickCandidates_def Let_def Routable_iff case_prod_beta filter_empty_conv)

lemma P2C_Pick_cases:
  fixes p :: "'r AdaptiveP2CPicker" and intn
  defines "cs \<equiv> fst (pickCandidates intn (pp_endpoints p) p)"
  assumes "\<forall>r n. 0 < n \<longrightarrow> fst (intn r n) < n"
  obtains (none) q where "P2C_Pick intn (None :: 'e option) p = (Inl ErrNoEndpoint, q)" "cs = []" "pp_endpoints q = pp_endpoints p"
  | (one) e q where "P2C_Pick intn (None :: 'e option) p = (Inr e, q)" "cs = [e]" "pp_endpoints q = pp_endpoints p"
  | (two) a b q where "a < length cs" "b < length cs" "a \<noteq> b" "pp_endpoints q = pp_endpoints p"
      "P2C_Pick intn (None :: 'e option) p =
         (Inr (if fle (endpointCost (cs ! a) (pp_cfg p)) (endpointCost (cs ! b) (pp_cfg p))
               then cs ! a else cs ! b), q)"
proof -
  obtain r where pc: "pickCandidates intn (pp_endpoints p) p = (cs, r)"
    by (cases "pickCandidates intn (pp_endpoints p) p") (simp add: cs_def)
  consider "cs = []" | "\<exists>e. cs = [e]" | "1 < length cs"
    by (cases cs) (auto simp: Suc_lessI)
  then show thesis
  proof cases
    case 1
    then show thesis
      using pc by (intro none [of "p\<lparr>pp_random := r\<rparr>"]) (simp_all add: P2C_Pick_def)
  next
    case 2
    then show thesis
      using pc by (elim exE) (rule one [of _ "p\<lparr>pp_random := r\<rparr>"], auto simp: P2C_Pick_def)
  next
    case 3
    obtain a r1 where a: "intn r (length cs) = (a, r1)"
      by fastforce
    obtain b r2 where b: "intn r1 (length cs - 1) = (b, r2)"
      by fastforce
    have "a < length cs" "b < length cs - 1"
      using assms(2) a b 3 by (metis fst_conv zero_less_diff less_trans zero_less_one)+
    then show thesis
      using pc a b 3
      by (intro two [of a "if b \<ge> a then b + 1 else b" "p\<lparr>pp_random := r2\<rparr>"]) (auto simp: P2C_Pick_def Let_def)
  qed
qed

sublocale random_source \<subseteq> p2c: picker P2C_Update "p2c_pick intn" pp_endpoints "\<lambda>e. Routable (ep_Status e)"
proof unfold_locales
  fix es :: "Endpoint list" and s :: "'r AdaptiveP2CPicker" and e
  have law: "\<forall>r n. 0 < n \<longrightarrow> fst (intn r n) < n"
    using intn_less by blast
  show "pp_endpoints (P2C_Update es s) = es"
    by (simp add: P2C_Update_def)
  show "pp_endpoints (snd (p2c_pick intn s)) = pp_endpoints s"
    by (rule P2C_Pick_cases [where 'e = unit, OF law, of s]) (simp_all add: p2c_pick_def)
  show "e \<in> set (pp_endpoints s) \<and> Routable (ep_Status e)" if "fst (p2c_pick intn s) = Some e"
    using that pickCandidates_set [of intn "pp_endpoints s" s]
    by (cases rule: P2C_Pick_cases [where 'e = unit, OF law, of s]) (auto simp: p2c_pick_def subset_iff split: if_splits)
  show "\<not> Routable (ep_Status e)" if "fst (p2c_pick intn s) = None" "e \<in> set (pp_endpoints s)"
    using that pickCandidates_Nil [of intn "pp_endpoints s" s]
    by (cases rule: P2C_Pick_cases [where 'e = unit, OF law, of s]) (auto simp: p2c_pick_def)
qed

text \<open>
  Power of two choices with any random source that draws in range. A pick fails exactly when no
  endpoint is routable; otherwise it is a routable endpoint of the last update, and when the candidates
  are several it is the cheaper of two candidates at different positions.
\<close>

theorem p2c_picks_cheaper:
  assumes "\<forall>r n. 0 < n \<longrightarrow> fst (intn r n) < n"
  shows "case P2C_Pick intn (None :: 'e option) p of
      (Inl err, q) \<Rightarrow> err = ErrNoEndpoint \<and> (\<forall>e\<in>set (pp_endpoints p). \<not> Routable (ep_Status e))
    | (Inr e, q) \<Rightarrow> e \<in> set (pp_endpoints p) \<and> Routable (ep_Status e) \<and>
        (let cs = fst (pickCandidates intn (pp_endpoints p) p)
         in cs = [e] \<or>
            (\<exists>a b. a < length cs \<and> b < length cs \<and> a \<noteq> b \<and>
               (e = cs ! a \<and> fle (endpointCost e (pp_cfg p)) (endpointCost (cs ! b) (pp_cfg p)) \<or>
                e = cs ! b \<and> \<not> fle (endpointCost (cs ! a) (pp_cfg p)) (endpointCost e (pp_cfg p)))))"
proof -
  let ?cs = "fst (pickCandidates intn (pp_endpoints p) p)"
  have sub: "e \<in> set (pp_endpoints p) \<and> Routable (ep_Status e)" if "e \<in> set ?cs" for e
    using that pickCandidates_set [of intn "pp_endpoints p" p] by auto
  show ?thesis
  proof (cases rule: P2C_Pick_cases [where 'e = 'e, OF assms, of p])
    case (1 q)
    then show ?thesis
      using pickCandidates_Nil [of intn "pp_endpoints p" p] by simp
  next
    case (2 e q)
    then show ?thesis
      using sub [of e] by simp
  next
    case (3 a b q)
    then have "?cs ! a \<in> set ?cs" "?cs ! b \<in> set ?cs"
      by simp_all
    then show ?thesis
      using 3 sub by (simp add: Let_def) blast
  qed
qed

definition p2c_example :: "nat AdaptiveP2CPicker" where
  "p2c_example = NewAdaptiveP2CPicker
     [\<lparr>ep_ID = ''a'', ep_Address = ''10.0.0.1:80'', ep_Status = Healthy, ep_Inflight = 3, ep_LatencyEWMA = 0,
       ep_Weight = Fin False 1, ep_SlowScore = Fin False 0\<rparr>,
      \<lparr>ep_ID = ''b'', ep_Address = ''10.0.0.2:80'', ep_Status = Healthy, ep_Inflight = 1, ep_LatencyEWMA = 0,
       ep_Weight = Fin False 1, ep_SlowScore = Fin False 0\<rparr>,
      \<lparr>ep_ID = ''c'', ep_Address = ''10.0.0.3:80'', ep_Status = Ejected, ep_Inflight = 0, ep_LatencyEWMA = 0,
       ep_Weight = Fin False 1, ep_SlowScore = Fin False 0\<rparr>]
     0 \<lparr>pc_LatencyPenalty = Fin False 1, pc_SlowPenalty = Fin False 1, pc_ProbeRatio = Fin False 0\<rparr>"

lemma p2c_example_endpoints:
  "map ep_ID (pp_endpoints p2c_example) = [''a'', ''b'', ''c'']"
  "map ep_Status (pp_endpoints p2c_example) = [Healthy, Healthy, Ejected]"
  by (simp_all add: p2c_example_def NewAdaptiveP2CPicker_def P2C_Update_def Let_def)

theorem p2c_picks_cheaper_witness:
  "\<exists>e q. P2C_Pick (\<lambda>r n. (r mod n, Suc r)) (None :: unit option) p2c_example = (Inr e, q) \<and>
      e \<in> set (pp_endpoints p2c_example) \<and> Routable (ep_Status e)"
proof -
  have law: "\<forall>r n. 0 < n \<longrightarrow> fst ((\<lambda>r n. (r mod n, Suc r)) r n) < n"
    by simp
  have "\<exists>e\<in>set (pp_endpoints p2c_example). Routable (ep_Status e)"
    using p2c_example_endpoints(2) by (auto simp: map_eq_Cons_conv Routable_def Normalized_def)
  then show ?thesis
    using p2c_picks_cheaper [where 'e = unit and p = p2c_example, OF law]
    by (auto split: prod.splits sum.splits)
qed

lemma P2C_Pick_candidate:
  assumes "\<forall>r n. 0 < n \<longrightarrow> fst (intn r n) < n" "fst (pickCandidates intn (pp_endpoints p) p) \<noteq> []"
  shows "\<exists>e. fst (P2C_Pick intn (None :: 'e option) p) = Inr e \<and> e \<in> set (fst (pickCandidates intn (pp_endpoints p) p))"
  using assms(2) by (cases rule: P2C_Pick_cases [where 'e = 'e, OF assms(1), of p]) simp_all

lemma P2C_Pick_cfg: "pp_cfg (snd (P2C_Pick intn err p)) = pp_cfg p"
  by (simp add: P2C_Pick_def case_prod_beta Let_def split: option.splits)

lemma P2C_Pick_endpoints: "pp_endpoints (snd (P2C_Pick intn err p)) = pp_endpoints p"
  by (simp add: P2C_Pick_def case_prod_beta Let_def split: option.splits)

lemma probe_threshold_small:
  assumes "fle (Fin False 0) (pc_ProbeRatio cfg)" "wf_float (pc_ProbeRatio cfg)" "fle (pc_ProbeRatio cfg) (Fin False (5 / 512))"
  shows "probe_threshold cfg = 0"
proof -
  obtain s m where r: "pc_ProbeRatio cfg = Fin s m" "s \<longrightarrow> m = 0" "0 \<le> m" "m \<le> 5 / 512"
    using assms by (cases "pc_ProbeRatio cfg") (auto simp: fle_def split: if_splits)
  have h: "of_rat64 100 = Fin False 100"
    by (rule of_rat64_exact [of _ 100 0]) (simp_all add: pow2_def)
  have "round_mag (m * 100) \<le> round_mag (125 / 128)"
    using r by (intro round_mag_mono) simp
  also have "round_mag (125 / 128) = 125 / 128"
    using round_mag_exact [of 125 "- 7"] by (simp add: pow2_def)
  finally have "round_mag (m * 100) < 1"
    by simp
  then have "\<lfloor>round_mag (m * 100)\<rfloor> = 0"
    by (simp add: floor_eq_iff)
  moreover have "1 < pow2 1024"
    using pow2_less_iff [of 0 1024] by (simp add: pow2_def)
  ultimately show ?thesis
    using r h \<open>round_mag (m * 100) < 1\<close>
    by (auto simp: probe_threshold_def to_int64_def fround_def Let_def)
qed

text \<open>
  A probe ratio of less than one per cent (at most \<open>5/512\<close>) is truncated to a threshold of 0: as long
  as one endpoint takes normal traffic, every pick is one that does, and an endpoint that is probing is
  never picked, whatever the random source draws.
\<close>

theorem small_probe_ratio_starves:
  assumes "\<forall>r n. 0 < n \<longrightarrow> fst (intn r n) < n"
    and "fle (Fin False 0) (pc_ProbeRatio (pp_cfg p))" "wf_float (pc_ProbeRatio (pp_cfg p))"
    and "fle (pc_ProbeRatio (pp_cfg p)) (Fin False (5 / 512))"
    and "\<exists>e\<in>set (pp_endpoints p). NormalTraffic (ep_Status e)"
  shows "\<exists>e q. P2C_Pick intn (None :: 'e option) p = (Inr e, q) \<and>
    e \<in> set (pp_endpoints p) \<and> NormalTraffic (ep_Status e) \<and> \<not> IsProbing (ep_Status e) \<and>
    pp_endpoints q = pp_endpoints p \<and> pp_cfg q = pp_cfg p"
proof -
  let ?n = "filter (\<lambda>e. NormalTraffic (ep_Status e)) (pp_endpoints p)"
  have "?n \<noteq> []"
    using assms(5) by (simp add: filter_empty_conv)
  moreover have cs: "fst (pickCandidates intn (pp_endpoints p) p) = ?n"
    using probe_threshold_small [OF assms(2-4)] \<open>?n \<noteq> []\<close> by (auto simp: pickCandidates_def Let_def)
  ultimately obtain e where "fst (P2C_Pick intn (None :: 'e option) p) = Inr e" "e \<in> set ?n"
    using P2C_Pick_candidate [where 'e = 'e, OF assms(1), of p] by metis
  then show ?thesis
    using P2C_Pick_cfg [of intn "None :: 'e option" p] P2C_Pick_endpoints [of intn "None :: 'e option" p]
      not_both_classes
    by (intro exI [of _ e] exI [of _ "snd (P2C_Pick intn (None :: 'e option) p)"]) (auto simp: prod_eq_iff)
qed

theorem small_probe_ratio_starves_witness:
  "\<exists>e q. P2C_Pick (\<lambda>r n. (r mod n, Suc r)) (None :: unit option)
      (P2C_Update (pp_endpoints p2c_example)
        \<lparr>pp_endpoints = [], pp_random = 0,
         pp_cfg = \<lparr>pc_LatencyPenalty = Fin False 1, pc_SlowPenalty = Fin False 1, pc_ProbeRatio = Fin False (1 / 256)\<rparr>\<rparr>) = (Inr e, q) \<and>
     NormalTraffic (ep_Status e)"
proof -
  have "wf_float (Fin False (1 / 256))"
    using round_mag_pow2 [of "- 8"] by (simp add: pow2_def)
  moreover have "\<exists>e\<in>set (pp_endpoints p2c_example). NormalTraffic (ep_Status e)"
    using p2c_example_endpoints(2) by (auto simp: map_eq_Cons_conv NormalTraffic_def Normalized_def)
  ultimately show ?thesis
    using small_probe_ratio_starves [where 'e = unit and intn = "\<lambda>r n. (r mod n, Suc r)" and
      p = "P2C_Update (pp_endpoints p2c_example) \<lparr>pp_endpoints = [], pp_random = 0,
         pp_cfg = \<lparr>pc_LatencyPenalty = Fin False 1, pc_SlowPenalty = Fin False 1, pc_ProbeRatio = Fin False (1 / 256)\<rparr>\<rparr>"]
    by (force simp: P2C_Update_def fle_def)
qed

end
