(* ===== verification/Slow_Score.thy ===== *)
theory Slow_Score
  imports Routing "HOL-Library.AList"
begin

text \<open>
  \<open>src/pkg/fault/slow_score.go\<close>: the slow score of an endpoint, from its latency relative to the service's
  median and median absolute deviation, its error rate, its in-flight load and its network events. Go
  iterates over maps in an unspecified order, which is what the parameters
  \<open>perm_services\<close> and \<open>perm\<close> stand for.
\<close>

section \<open>Samples and scores\<close>

record ScoreWeights =
  sw_LatencyWeight :: float64
  sw_ErrorWeight :: float64
  sw_InflightWeight :: float64
  sw_RetransmitWeight :: float64

record EndpointSample =
  sp_Service :: string
  sp_InstanceID :: string
  sp_Address :: string
  sp_RegistrationEpoch :: string
  sp_Method :: string
  sp_RequestCount :: int
  sp_ErrorCount :: int
  sp_TimeoutCount :: int
  sp_Inflight :: int
  sp_Capacity :: int
  sp_LatencyEWMA :: duration
  sp_LatencyP95 :: duration
  sp_TCPRetransmit :: int
  sp_ConnectError :: int

record EndpointScore =
  sc_Service :: string
  sc_InstanceID :: string
  sc_Address :: string
  sc_RegistrationEpoch :: string
  sc_Method :: string
  sc_Score :: float64
  sc_LatencyScore :: float64
  sc_ErrorScore :: float64
  sc_InflightScore :: float64
  sc_RetransmitScore :: float64

record ScoreCalculator =
  cal_weights :: ScoreWeights
  cal_latencySLO :: duration

abbreviation fzero :: float64 where
  "fzero \<equiv> Fin False 0"

definition scoreEpsilon :: float64 where
  "scoreEpsilon = of_rat64 (1 / 1000000000)"

definition DefaultScoreWeights :: ScoreWeights where
  "DefaultScoreWeights = \<lparr>sw_LatencyWeight = of_rat64 (45 / 100), sw_ErrorWeight = of_rat64 (25 / 100),
     sw_InflightWeight = of_rat64 (20 / 100), sw_RetransmitWeight = of_rat64 (10 / 100)\<rparr>"

definition NewScoreCalculatorWithConfig :: "ScoreWeights \<Rightarrow> duration \<Rightarrow> ScoreCalculator" where
  "NewScoreCalculatorWithConfig weights slo =
     (let total = fadd (fadd (fadd (sw_LatencyWeight weights) (sw_ErrorWeight weights))
                  (sw_InflightWeight weights)) (sw_RetransmitWeight weights)
      in \<lparr>cal_weights = (if fle total fzero \<or> IsNaN total then DefaultScoreWeights else weights),
          cal_latencySLO = (if slo < 0 then 0 else slo)\<rparr>)"

definition NewScoreCalculator :: "ScoreWeights \<Rightarrow> ScoreCalculator" where
  "NewScoreCalculator weights = NewScoreCalculatorWithConfig weights 0"

definition ScoreKey :: "string \<Rightarrow> string \<Rightarrow> string" where
  "ScoreKey service instanceID = service @ ''/'' @ instanceID"


section \<open>Helpers\<close>

definition rate :: "int \<Rightarrow> int \<Rightarrow> float64" where
  "rate n requests = (if requests \<le> 0 then fzero else fdiv (of_int64 n) (of_int64 requests))"

definition networkRate :: "int \<Rightarrow> int \<Rightarrow> float64" where
  "networkRate n requests =
     (if n \<le> 0 then fzero
      else if requests \<le> 0 then of_int64 n
      else fdiv (of_int64 n) (of_int64 requests))"

definition capacity :: "int \<Rightarrow> int" where
  "capacity v = (if v \<le> 0 then 100 else v)"

text \<open>The order of \<open>sort.Float64s\<close> puts NaN before every number.\<close>

definition float_less :: "float64 \<Rightarrow> float64 \<Rightarrow> bool" where
  "float_less x y \<longleftrightarrow> flt x y \<or> (IsNaN x \<and> \<not> IsNaN y)"

fun insert_float :: "float64 \<Rightarrow> float64 list \<Rightarrow> float64 list" where
  "insert_float x [] = [x]"
| "insert_float x (y # ys) = (if float_less y x then y # insert_float x ys else x # y # ys)"

definition sort_Float64s :: "float64 list \<Rightarrow> float64 list" where
  "sort_Float64s xs = foldr insert_float xs []"

definition median :: "float64 list \<Rightarrow> float64" where
  "median values =
     (if values = [] then fzero
      else
        (let sorted = sort_Float64s values; mid = length sorted div 2
         in if length sorted mod 2 = 1 then sorted ! mid
            else fdiv (fadd (sorted ! (mid - 1)) (sorted ! mid)) (of_rat64 2)))"

definition medianAbsoluteDeviation :: "float64 list \<Rightarrow> float64 \<Rightarrow> float64" where
  "medianAbsoluteDeviation values med =
     (if values = [] then fzero else median (map (\<lambda>v. math_Abs (fsub v med)) values))"

definition average :: "float64 list \<Rightarrow> float64" where
  "average values =
     (if values = [] then fzero
      else fdiv (foldl fadd fzero values) (of_int64 (int (length values))))"

definition absoluteLatencyScore :: "ScoreCalculator \<Rightarrow> duration \<Rightarrow> float64" where
  "absoluteLatencyScore c latency =
     (if cal_latencySLO c \<le> 0 \<or> latency \<le> 0 then fzero
      else fdiv (Seconds latency) (Seconds (cal_latencySLO c)))"


section \<open>Aggregation and scoring\<close>

definition aggregateEndpointSample :: "EndpointSample option \<Rightarrow> EndpointSample \<Rightarrow> EndpointSample" where
  "aggregateEndpointSample cur sample =
     (case cur of
        None \<Rightarrow> sample
      | Some c \<Rightarrow>
          if sp_Service c = '''' then sample
          else \<lparr>sp_Service = sp_Service c, sp_InstanceID = sp_InstanceID c,
                sp_Address = (if sp_Address c = '''' then sp_Address sample else sp_Address c),
                sp_RegistrationEpoch =
                  (if sp_RegistrationEpoch c = '''' then sp_RegistrationEpoch sample
                   else if sp_RegistrationEpoch sample \<noteq> '''' \<and> sp_RegistrationEpoch c \<noteq> sp_RegistrationEpoch sample
                   then '''' else sp_RegistrationEpoch c),
                sp_Method =
                  (if sp_Method c \<noteq> '''' \<and> sp_Method sample \<noteq> '''' \<and> sp_Method c \<noteq> sp_Method sample
                   then '''' else sp_Method c),
                sp_RequestCount = wrap64 (sp_RequestCount c + sp_RequestCount sample),
                sp_ErrorCount = wrap64 (sp_ErrorCount c + sp_ErrorCount sample),
                sp_TimeoutCount = wrap64 (sp_TimeoutCount c + sp_TimeoutCount sample),
                sp_Inflight = wrap64 (sp_Inflight c + sp_Inflight sample),
                sp_Capacity = (if sp_Capacity sample > sp_Capacity c then sp_Capacity sample else sp_Capacity c),
                sp_LatencyEWMA = (if sp_LatencyEWMA sample > sp_LatencyEWMA c then sp_LatencyEWMA sample else sp_LatencyEWMA c),
                sp_LatencyP95 = (if sp_LatencyP95 sample > sp_LatencyP95 c then sp_LatencyP95 sample else sp_LatencyP95 c),
                sp_TCPRetransmit = wrap64 (sp_TCPRetransmit c + sp_TCPRetransmit sample),
                sp_ConnectError = wrap64 (sp_ConnectError c + sp_ConnectError sample)\<rparr>)"

text \<open>The baselines of a service: median latency, its deviation, mean error and network rates.\<close>

record baseline =
  bl_medianLatency :: float64
  bl_madLatency :: float64
  bl_avgErrorRate :: float64
  bl_avgRetransmitRate :: float64

definition network_events :: "EndpointSample \<Rightarrow> int" where
  "network_events s = wrap64 (sp_TCPRetransmit s + sp_ConnectError s)"

definition service_baseline :: "EndpointSample list \<Rightarrow> baseline" where
  "service_baseline samples =
     (let latencies = map (\<lambda>s. Seconds (sp_LatencyP95 s)) samples;
          med = median latencies
      in \<lparr>bl_medianLatency = med,
          bl_madLatency = medianAbsoluteDeviation latencies med,
          bl_avgErrorRate = average (map (\<lambda>s. rate (sp_ErrorCount s) (sp_RequestCount s)) samples),
          bl_avgRetransmitRate = average (map (\<lambda>s. networkRate (network_events s) (sp_RequestCount s)) samples)\<rparr>)"

definition score_sample :: "ScoreCalculator \<Rightarrow> string \<Rightarrow> baseline \<Rightarrow> EndpointSample \<Rightarrow> EndpointScore" where
  "score_sample c service b s =
     (let relativeLatencyScore =
            fdiv (math_Max fzero (fsub (Seconds (sp_LatencyP95 s)) (bl_medianLatency b)))
                 (math_Max (bl_madLatency b) (of_rat64 (1 / 1000)));
          latencyScore = math_Max relativeLatencyScore (absoluteLatencyScore c (sp_LatencyP95 s));
          errorScore =
            (if sp_ErrorCount s > 0
             then fdiv (rate (sp_ErrorCount s) (sp_RequestCount s)) (math_Max (bl_avgErrorRate b) scoreEpsilon)
             else fzero);
          inflightScore = fdiv (of_int64 (sp_Inflight s)) (of_int64 (capacity (sp_Capacity s)));
          retransmitScore =
            (if network_events s > 0
             then fdiv (networkRate (network_events s) (sp_RequestCount s)) (math_Max (bl_avgRetransmitRate b) scoreEpsilon)
             else fzero);
          w = cal_weights c
      in \<lparr>sc_Service = service, sc_InstanceID = sp_InstanceID s, sc_Address = sp_Address s,
          sc_RegistrationEpoch = sp_RegistrationEpoch s, sc_Method = sp_Method s,
          sc_Score = fadd (fadd (fadd (fmul (sw_LatencyWeight w) latencyScore) (fmul (sw_ErrorWeight w) errorScore))
                               (fmul (sw_InflightWeight w) inflightScore))
                          (fmul (sw_RetransmitWeight w) retransmitScore),
          sc_LatencyScore = latencyScore, sc_ErrorScore = errorScore, sc_InflightScore = inflightScore,
          sc_RetransmitScore = retransmitScore\<rparr>)"

type_synonym scores = "(string \<times> EndpointScore) list"

definition calculateService :: "ScoreCalculator \<Rightarrow> string \<Rightarrow> EndpointSample list \<Rightarrow> scores \<Rightarrow> scores" where
  "calculateService c service samples out =
     (let b = service_baseline samples
      in fold (\<lambda>s. AList.update (ScoreKey service (sp_InstanceID s)) (score_sample c service b s)) samples out)"

definition usable_sample :: "EndpointSample \<Rightarrow> bool" where
  "usable_sample s \<longleftrightarrow> sp_Service s \<noteq> '''' \<and> sp_InstanceID s \<noteq> ''''"

definition group_sample ::
    "EndpointSample \<Rightarrow> (string \<times> (string \<times> EndpointSample) list) list \<Rightarrow> (string \<times> (string \<times> EndpointSample) list) list" where
  "group_sample s byService =
     (let serviceSamples = (case map_of byService (sp_Service s) of Some m \<Rightarrow> m | None \<Rightarrow> [])
      in AList.update (sp_Service s)
           (AList.update (sp_InstanceID s)
              (aggregateEndpointSample (map_of serviceSamples (sp_InstanceID s)) s) serviceSamples)
           byService)"

type_synonym grouped = "(string \<times> (string \<times> EndpointSample) list) list"

definition Calculate ::
    "(grouped \<Rightarrow> grouped) \<Rightarrow> (EndpointSample list \<Rightarrow> EndpointSample list) \<Rightarrow> ScoreCalculator \<Rightarrow> EndpointSample list \<Rightarrow> scores" where
  "Calculate perm_services perm c samples =
     (let byService = fold group_sample (filter usable_sample samples) []
      in fold (\<lambda>(service, serviceSamples). calculateService c service (perm (map snd serviceSamples)))
           (perm_services byService) [])"

section \<open>Two instances\<close>

lemma fadd_comm: "fadd a b = fadd b a"
  by (cases a; cases b) (auto simp: Let_def add.commute conj_commute)

lemma median_two: "median [x, y] = fdiv (fadd x y) (of_rat64 2)"
  by (simp add: median_def sort_Float64s_def Let_def fadd_comm [of y x])

lemma two64: "of_rat64 2 = Fin False 2" "of_int64 2 = Fin False 2"
  using of_int64_exact [of 2] by (simp_all add: of_int64_def)

lemma isf_mean:
  assumes "isf a m" "isf b n" "m + n \<le> pow2 k" "0 \<le> k" "k \<le> 900"
  shows "isf (fdiv (fadd a b) (Fin False 2)) (round_mag (round_mag (m + n) / 2))" "round_mag (round_mag (m + n) / 2) \<le> pow2 k"
proof -
  have big: "pow2 k \<le> pow2 1000"
    using assms(5) by (intro pow2_mono) simp
  have k: "round_mag (pow2 k) = pow2 k"
    using assms(4) by (intro round_mag_pow2) simp
  have le: "round_mag (m + n) \<le> pow2 k"
    using round_mag_mono [OF assms(3)] k by simp
  then have half: "round_mag (m + n) / 2 \<le> pow2 k"
    using round_mag_nonneg [of "m + n"] by linarith
  have "isf (fadd a b) (round_mag (m + n))"
    using assms big by (intro isf_fadd) auto
  then show "isf (fdiv (fadd a b) (Fin False 2)) (round_mag (round_mag (m + n) / 2))"
    using half big by (intro isf_fdiv) auto
  show "round_mag (round_mag (m + n) / 2) \<le> pow2 k"
    using round_mag_mono [OF half] k by simp
qed

text \<open>
  A value divided by the mean of it and another value is at most 2, up to rounding, whatever the floor
  of the divisor.
\<close>

lemma share_of_mean:
  assumes "0 \<le> d" "round_mag d = d" "0 \<le> x" "1 / 2000000000 \<le> eps"
  shows "round_mag (d / max (round_mag (round_mag (d + x) / 2)) eps) \<le> 2049 / 1024"
proof -
  define X where "X = max (round_mag (round_mag (d + x) / 2)) eps"
  have X: "0 < X" "eps \<le> X" "round_mag (round_mag (d + x) / 2) \<le> X"
    using assms(4) by (simp_all add: less_max_iff_disj X_def)
  have "d \<le> round_mag (d + x)"
    using round_mag_mono [of d "d + x"] assms(2, 3) by simp
  then have mean: "round_mag (d / 2) \<le> round_mag (round_mag (d + x) / 2)"
    by (intro round_mag_mono) simp
  have "d / X \<le> 2049 / 1024"
  proof (cases "d \<le> eps")
    case True
    then have "d \<le> 2049 / 1024 * X"
      using X by linarith
    then show ?thesis
      using X by (simp add: pos_divide_le_eq)
  next
    case False
    have "pow2 (- 1022) \<le> pow2 (- 32)"
      by (rule pow2_mono) simp
    then have "pow2 (- 1022) \<le> d / 2"
      using False assms(4) by (simp add: pow2_def)
    then have "d / 2 * (1 - pow2 (- 53)) \<le> round_mag (d / 2)"
      by (intro round_mag_rel) simp
    then have "d / 2 * (1 - pow2 (- 53)) \<le> X"
      using mean X(3) by linarith
    then have "d \<le> 2049 / 1024 * X"
      using assms(1) by (simp add: pow2_def)
    then show ?thesis
      using X by (simp add: pos_divide_le_eq)
  qed
  then have "round_mag (d / X) \<le> round_mag (2049 / 1024)"
    by (rule round_mag_mono)
  also have "round_mag (2049 / 1024) = 2049 / 1024"
    using round_mag_exact [of 2049 "- 10"] by (simp add: pow2_def)
  finally show ?thesis
    by (simp add: X_def)
qed

lemma round_mag_le_pow2: "x \<le> pow2 k \<Longrightarrow> - 1074 \<le> k \<Longrightarrow> round_mag x \<le> pow2 k"
  using round_mag_mono [of x "pow2 k"] round_mag_pow2 [of k] by simp

lemma isf_Seconds:
  assumes "0 \<le> d" "d \<le> max_int64"
  shows "\<exists>m. isf (Seconds d) m \<and> m \<le> pow2 35"
proof -
  have p: "pow2 34 = 17179869184" "pow2 35 = 34359738368" "pow2 35 \<le> pow2 1000"
    by (simp_all add: pow2_mono) (simp_all add: pow2_def)
  let ?sec = "d div 1000000000" and ?nsec = "d mod 1000000000"
  have r: "0 \<le> ?sec" "?sec \<le> 17179869184" "0 \<le> ?nsec" "?nsec < 1000000000"
    using assms by (simp_all add: max_int64_def)
  have sec: "isf (of_int64 ?sec) (round_mag (of_int ?sec))" "round_mag (of_int ?sec) \<le> pow2 34"
  proof -
    have "rat_of_int ?sec \<le> of_int 17179869184"
      using r(2) by (simp only: of_int_le_iff)
    then show "round_mag (of_int ?sec) \<le> pow2 34"
      by (intro round_mag_le_pow2) (simp_all add: p)
  qed (use r isf_of_int64 in auto)
  have "of_int64 ?nsec = Fin False (of_int ?nsec)" "of_rat64 1000000000 = Fin False 1000000000"
    using of_int64_exact [of ?nsec] of_int64_exact [of 1000000000] r by (simp_all add: of_int64_def)
  moreover have frac: "rat_of_int ?nsec / 1000000000 \<le> pow2 0"
    using r(4) by (simp add: pow2_def)
  ultimately have nsec: "isf (fdiv (of_int64 ?nsec) (of_rat64 1000000000)) (round_mag (of_int ?nsec / 1000000000))"
    using r(3) pow2_mono [of 0 1000] by (simp only:) (rule isf_fdiv, simp_all)
  have "round_mag (rat_of_int ?nsec / 1000000000) \<le> pow2 0"
    by (rule round_mag_le_pow2 [OF frac]) simp
  then have le: "round_mag (of_int ?sec) + round_mag (of_int ?nsec / 1000000000) \<le> pow2 35"
    using sec(2) unfolding p by (simp add: pow2_def)
  have "Seconds d = fadd (of_int64 ?sec) (fdiv (of_int64 ?nsec) (of_rat64 1000000000))"
    using assms(1) by (cases "d = 0") (simp_all add: Seconds_def Let_def)
  then have "isf (Seconds d) (round_mag (round_mag (of_int ?sec) + round_mag (of_int ?nsec / 1000000000)))"
    using le p(3) isf_fadd [OF sec(1) nsec] by simp
  then show ?thesis
    using round_mag_le_pow2 [OF le] by auto
qed

lemma thousandth:
  obtains eps where "isf (of_rat64 (1 / 1000)) eps" "1 / 1024 \<le> eps"
proof
  have "round_mag (1 / 1024) = 1 / 1024"
    using round_mag_pow2 [of "- 10"] by (simp add: pow2_def)
  then show "1 / 1024 \<le> round_mag (1 / 1000)"
    using round_mag_mono [of "1 / 1024" "1 / 1000"] by simp
  then show "isf (of_rat64 (1 / 1000)) (round_mag (1 / 1000))"
    using isf_of_rat64 [of "1 / 1000"] pow2_1000_ge by simp
qed

text \<open>
  Latencies are at most \<open>2^35\<close> seconds, and floats of that size are less than \<open>2^-16\<close> apart: rounding is
  small against the floor of a thousandth of a second under the spread.
\<close>

lemma round_abs_error:
  assumes "0 \<le> x" "x \<le> 137438953472"
  shows "round_mag x \<le> x + 1 / 65536" "x \<le> round_mag x + 1 / 65536"
proof -
  have "round_mag x \<le> x + 1 / 65536 \<and> x \<le> round_mag x + 1 / 65536"
  proof (cases "1 / 1073741824 \<le> x")
    case True
    have "x * (1 / 9007199254740992) \<le> 1 / 65536"
      using assms(2) by simp
    then show ?thesis
      using round_error_small [OF True] by (simp only: abs_le_iff) linarith
  next
    case False
    have "round_mag (1 / 1073741824) = 1 / 1073741824"
      using round_mag_pow2 [of "- 30"] by (simp add: pow2_numerals)
    then have "round_mag x \<le> 1 / 1073741824"
      using False round_mag_mono [of x "1 / 1073741824"] by simp
    then show ?thesis
      using False assms(1) round_mag_nonneg [of x] by linarith
  qed
  then show "round_mag x \<le> x + 1 / 65536" "x \<le> round_mag x + 1 / 65536"
    by simp_all
qed

text \<open>The deviation of one of two values from their median is the median deviation, up to rounding.\<close>

lemma spread_two:
  assumes "0 \<le> x" "x \<le> 34359738368" "0 \<le> y" "y \<le> 34359738368"
  defines "M \<equiv> round_mag (round_mag (x + y) / 2)"
  defines "dx \<equiv> round_mag \<bar>x - M\<bar>" and "dy \<equiv> round_mag \<bar>y - M\<bar>"
  shows "M \<le> 34359738369" "dx \<le> 34359738370" "dy \<le> 34359738370" "dx \<le> round_mag (round_mag (dx + dy) / 2) + 1 / 16384"
proof -
  have r: "0 \<le> round_mag (x + y)" "0 \<le> M"
    by (simp_all add: M_def)
  have "0 \<le> x + y" "x + y \<le> 137438953472"
    using assms(1-4) by linarith+
  note sum = round_abs_error [OF this]
  have "0 \<le> round_mag (x + y) / 2" "round_mag (x + y) / 2 \<le> 137438953472"
    using r sum(1) assms(1-4) by linarith+
  note mid = round_abs_error [OF this, folded M_def]
  have c: "M \<le> x / 2 + y / 2 + 3 / 131072" "x / 2 + y / 2 \<le> M + 3 / 131072"
    using sum mid r assms(1-4) by linarith+
  show M: "M \<le> 34359738369"
    using c(1) assms(2, 4) by linarith
  have a: "\<bar>x - M\<bar> \<le> 34359738369" "\<bar>y - M\<bar> \<le> 34359738369" "\<bar>x - M\<bar> \<le> \<bar>y - M\<bar> + 6 / 131072"
    using c M r(2) assms(1-4) by linarith+
  then have "\<bar>x - M\<bar> \<le> 137438953472" "\<bar>y - M\<bar> \<le> 137438953472"
    by linarith+
  note dx = round_abs_error [OF abs_ge_zero this(1), folded dx_def] and dy = round_abs_error [OF abs_ge_zero this(2), folded dy_def]
  show d: "dx \<le> 34359738370" "dy \<le> 34359738370"
    using dx(1) dy(1) a by linarith+
  have nn: "0 \<le> dx" "0 \<le> dy" "0 \<le> round_mag (dx + dy)"
    by (simp_all add: dx_def dy_def)
  have near: "dx \<le> dy + 10 / 131072"
    using dx(1) dy(2) a by linarith
  have "0 \<le> dx + dy" "dx + dy \<le> 137438953472"
    using nn d by linarith+
  note sum = round_abs_error [OF this]
  have "0 \<le> round_mag (dx + dy) / 2" "round_mag (dx + dy) / 2 \<le> 137438953472"
    using nn sum(1) d by linarith+
  note mad = sum round_abs_error [OF this]
  show "dx \<le> round_mag (round_mag (dx + dy) / 2) + 1 / 16384"
    using mad near by linarith
qed

lemma near_quotient:
  assumes "0 \<le> a" "a \<le> b + 1 / 16384" "1 / 1024 \<le> b"
  shows "round_mag (a / b) \<le> 17 / 16"
proof -
  have "a \<le> 17 / 16 * b"
    using assms by linarith
  then have "a / b \<le> 17 / 16"
    using assms(3) by (simp add: pos_divide_le_eq)
  then have "round_mag (a / b) \<le> round_mag (17 / 16)"
    by (rule round_mag_mono)
  then show ?thesis
    using round_mag_exact [of 17 "- 4"] by (simp add: pow2_def)
qed

lemma small_le_pow2: "x \<le> 137438953472 \<Longrightarrow> x \<le> pow2 1000"
  using pow2_1000_ge by (simp add: order_trans [of x 137438953472])

lemma relative_latency_two:
  assumes "isf x lx" "lx \<le> pow2 35" "isf y ly" "ly \<le> pow2 35"
  defines "med \<equiv> median [x, y]"
  shows "\<exists>r. isf (fdiv (math_Max fzero (fsub x med))
    (math_Max (medianAbsoluteDeviation [x, y] med) (of_rat64 (1 / 1000)))) r \<and> r \<le> 17 / 16"
proof -
  have p: "pow2 35 = 34359738368" "pow2 36 = 68719476736" "pow2 38 = 274877906944"
    by (simp_all add: pow2_def)
  have nn: "0 \<le> lx" "0 \<le> ly"
    using assms(1, 3) by (simp_all add: isf_nonneg)
  define M where "M = round_mag (round_mag (lx + ly) / 2)"
  define dx dy where "dx = round_mag \<bar>lx - M\<bar>" and "dy = round_mag \<bar>ly - M\<bar>"
  define mad where "mad = round_mag (round_mag (dx + dy) / 2)"
  note spread = spread_two [OF nn(1) assms(2) [unfolded p] nn(2) assms(4) [unfolded p], folded M_def, folded dx_def dy_def, folded mad_def]
  have big: "lx \<le> pow2 1000" "ly \<le> pow2 1000" "M \<le> pow2 1000"
    using assms(2, 4) spread(1) unfolding p by (intro small_le_pow2; simp)+
  have M: "isf med M"
    unfolding M_def med_def median_two two64 using isf_mean(1) [OF assms(1, 3), of 36] assms(2, 4) unfolding p by simp
  have dev: "isf (math_Abs (fsub x med)) dx" "isf (math_Abs (fsub y med)) dy"
    unfolding dx_def dy_def by (rule isf_abs_fsub [OF assms(1) M big(1, 3)] isf_abs_fsub [OF assms(3) M big(2, 3)])+
  have mad: "isf (medianAbsoluteDeviation [x, y] med) mad"
    using isf_mean(1) [OF dev, of 38] spread(2, 3) unfolding p
    by (simp add: medianAbsoluteDeviation_def median_two two64 mad_def)
  obtain eps where eps: "isf (of_rat64 (1 / 1000)) eps" "1 / 1024 \<le> eps"
    by (rule thousandth)
  define N where "N = (if M < lx then round_mag (lx - M) else 0)"
  have N: "isf (math_Max fzero (fsub x med)) N" "N = 0 \<or> N = dx" "0 \<le> N"
    using isf_max_fsub [OF assms(1) M] big by (auto simp: N_def dx_def)
  have close: "N \<le> max mad eps + 1 / 16384"
    using N(2) spread(4) eps(2) by (auto simp: mad_def)
  then have "N / max mad eps \<le> 17 / 16"
    using N(3) eps(2) by (simp add: pos_divide_le_eq less_max_iff_disj)
  then have "isf (fdiv (math_Max fzero (fsub x med)) (math_Max (medianAbsoluteDeviation [x, y] med) (of_rat64 (1 / 1000))))
      (round_mag (N / max mad eps))"
    using N(1) isf_math_Max [OF mad eps(1)] eps(2) small_le_pow2 [of "N / max mad eps"] by (intro isf_fdiv) linarith+
  then show ?thesis
    using near_quotient [OF N(3) close] eps(2) by auto
qed

lemma relative_latency_one:
  assumes "isf x lx" "lx \<le> pow2 35"
  shows "\<exists>r. isf (fdiv (math_Max fzero (fsub x (median [x])))
    (math_Max (medianAbsoluteDeviation [x] (median [x])) (of_rat64 (1 / 1000)))) r \<and> r \<le> 17 / 16"
proof -
  have med: "median [x] = x" "medianAbsoluteDeviation [x] x = math_Abs (fsub x x)"
    by (simp_all add: median_def medianAbsoluteDeviation_def sort_Float64s_def)
  have big: "lx \<le> pow2 1000"
    using assms(2) by (intro small_le_pow2) (simp add: pow2_def)
  obtain eps where eps: "isf (of_rat64 (1 / 1000)) eps" "1 / 1024 \<le> eps"
    by (rule thousandth)
  have "isf (math_Max fzero (fsub x x)) 0" "isf (math_Abs (fsub x x)) 0"
    using isf_max_fsub [OF assms(1, 1) big big] isf_abs_fsub [OF assms(1, 1) big big] by simp_all
  then have "isf (fdiv (math_Max fzero (fsub x x)) (math_Max (math_Abs (fsub x x)) (of_rat64 (1 / 1000)))) (round_mag (0 / max 0 eps))"
    using eps by (intro isf_fdiv isf_math_Max) (auto simp: less_max_iff_disj)
  then show ?thesis
    unfolding med by (intro exI [of _ 0]) simp
qed

lemma isf_rate:
  assumes "0 \<le> e" "e \<le> max_int64" "t \<le> max_int64"
  shows "\<exists>m. isf (rate e t) m \<and> m \<le> pow2 64 \<and> round_mag m = m"
proof (cases "t \<le> 0")
  case True
  then show ?thesis
    by (intro exI [of _ 0]) (simp add: rate_def)
next
  case False
  have e: "isf (of_int64 e) (round_mag (of_int e))" and t: "isf (of_int64 t) (round_mag (of_int t))"
    using assms False by (auto intro!: isf_of_int64 simp: max_int64_def)
  have "(1 :: rat) \<le> of_int t"
    using False by simp
  then have one: "1 \<le> round_mag (of_int t)"
    using round_mag_mono [of 1 "of_int t"] round_mag_pow2 [of 0] by (simp add: pow2_def)
  have "rat_of_int e \<le> of_int (2 ^ 64)"
    using assms(2) unfolding of_int_le_iff by (simp add: max_int64_def)
  then have "round_mag (of_int e) \<le> pow2 64"
    by (intro round_mag_le_pow2) (simp_all add: pow2_def)
  then have le: "round_mag (of_int e) / round_mag (of_int t) \<le> pow2 64"
    using one frac_le [of "pow2 64" "round_mag (of_int e)" 1 "round_mag (of_int t)"] by simp
  moreover have "pow2 64 \<le> pow2 1000"
    by (rule pow2_mono) simp
  ultimately have "isf (rate e t) (round_mag (round_mag (of_int e) / round_mag (of_int t)))"
    using False isf_fdiv [OF e t] one by (simp add: rate_def)
  then show ?thesis
    using round_mag_le_pow2 [OF le] by auto
qed

lemma error_share_two:
  assumes "isf r1 m1" "m1 \<le> pow2 64" "round_mag m1 = m1" "isf r2 m2" "m2 \<le> pow2 64" "round_mag m2 = m2"
    and "(r, m) \<in> {(r1, m1), (r2, m2)}"
  shows "\<exists>v. isf (fdiv r (math_Max (average [r1, r2]) scoreEpsilon)) v \<and> v \<le> 2049 / 1024"
proof -
  have p: "pow2 65 = 2 * pow2 64" "pow2 64 \<le> pow2 1000"
    using pow2_add [of 1 64] by (simp_all add: pow2_mono) (simp_all add: pow2_def)
  have nn: "0 \<le> m1" "0 \<le> m2"
    using assms(1, 4) by (simp_all add: isf_nonneg)
  have "isf (fadd fzero r1) m1"
    using isf_fadd [of fzero 0 r1 m1] assms(1-3) p(2) by simp
  then have avg: "isf (average [r1, r2]) (round_mag (round_mag (m1 + m2) / 2))"
    using isf_mean(1) [of "fadd fzero r1" m1 r2 m2 65] assms(2, 4, 5) p(1) two64(2) by (simp add: average_def)
  define eps where "eps = round_mag (1 / 1000000000)"
  have "round_mag (1 / 1073741824) = 1 / 1073741824"
    using round_mag_pow2 [of "- 30"] by (simp add: pow2_def)
  then have eps: "isf scoreEpsilon eps" "1 / 1073741824 \<le> eps"
    using isf_of_rat64 [of "1 / 1000000000"] round_mag_mono [of "1 / 1073741824" "1 / 1000000000"] pow2_1000_ge
    by (simp_all add: eps_def scoreEpsilon_def)
  define X where "X = max (round_mag (round_mag (m1 + m2) / 2)) eps"
  have X: "isf (math_Max (average [r1, r2]) scoreEpsilon) X"
    unfolding X_def by (rule isf_math_Max [OF avg eps(1)])
  have pos: "1 / 1073741824 \<le> X"
    using eps(2) by (simp add: X_def)
  have r: "isf r m" "0 \<le> m" "m \<le> pow2 64" "round_mag m = m"
    using assms nn by auto
  have "m / X \<le> pow2 64 / (1 / 1073741824)"
    using pos r by (intro frac_le) auto
  also have "\<dots> = pow2 94"
    using pow2_add [of 64 30] by (simp add: pow2_def)
  finally have "isf (fdiv r (math_Max (average [r1, r2]) scoreEpsilon)) (round_mag (m / X))"
    using isf_fdiv [OF r(1) X] pos pow2_mono [of 94 1000] by simp
  moreover have "round_mag (m / X) \<le> 2049 / 1024"
    using share_of_mean [of m1 m2 eps] share_of_mean [of m2 m1 eps] assms(3, 6, 7) nn eps(2)
    by (auto simp: X_def add.commute)
  ultimately show ?thesis
    by blast
qed

lemma share_one:
  assumes "isf r m" "m \<le> pow2 64" "round_mag m = m"
  shows "\<exists>v. isf (fdiv r (math_Max (average [r]) scoreEpsilon)) v \<and> v \<le> 2049 / 1024"
proof -
  have nn: "0 \<le> m"
    using assms(1) by (rule isf_nonneg)
  have big: "m \<le> pow2 1000"
    using assms(2) pow2_mono [of 64 1000] by linarith
  have "isf (fadd fzero r) m"
    using isf_fadd [of fzero 0 r m] assms(1, 3) big by simp
  moreover have "of_int64 1 = Fin False 1"
    using of_int64_exact [of 1] by simp
  ultimately have avg: "isf (average [r]) m"
    using isf_fdiv [of "fadd fzero r" m "Fin False 1" 1] assms(3) big by (simp add: average_def)
  have eps: "isf scoreEpsilon (round_mag (1 / 1000000000))"
    using isf_of_rat64 [of "1 / 1000000000"] pow2_1000_ge by (simp add: scoreEpsilon_def)
  have "round_mag (1 / 1073741824) = 1 / 1073741824"
    using round_mag_pow2 [of "- 30"] by (simp add: pow2_def)
  then have pos: "0 < round_mag (1 / 1000000000)"
    using round_mag_mono [of "1 / 1073741824" "1 / 1000000000"] by simp
  define X where "X = max m (round_mag (1 / 1000000000))"
  have X: "0 < X" "m \<le> X"
    using pos by (simp_all add: X_def less_max_iff_disj)
  have one: "m / X \<le> 1"
    using X by (simp add: pos_divide_le_eq)
  have "isf (fdiv r (math_Max (average [r]) scoreEpsilon)) (round_mag (m / X))"
    using one by (intro isf_fdiv [OF assms(1) isf_math_Max [OF avg eps, folded X_def] X(1)] small_le_pow2) linarith
  moreover have "round_mag (m / X) \<le> 1"
    using round_mag_mono [OF one] round_mag_pow2 [of 0] by (simp add: pow2_def)
  ultimately show ?thesis
    by (intro exI [of _ "round_mag (m / X)"]) simp
qed

lemma isf_networkRate:
  assumes "n \<le> max_int64" "t \<le> max_int64"
  shows "\<exists>m. isf (networkRate n t) m \<and> m \<le> pow2 64 \<and> round_mag m = m"
proof (cases "0 < n \<and> t \<le> 0")
  case True
  have "rat_of_int n \<le> of_int (2 ^ 64)"
    using assms(1) unfolding of_int_le_iff by (simp add: max_int64_def)
  then have "round_mag (of_int n) \<le> pow2 64"
    by (intro round_mag_le_pow2) (simp_all add: pow2_def)
  then show ?thesis
    using True isf_of_int64 [of n] assms(1) by (intro exI [of _ "round_mag (of_int n)"]) (simp add: networkRate_def max_int64_def)
next
  case False
  then show ?thesis
    using isf_rate [of n t] assms by (cases "n \<le> 0") (auto simp: networkRate_def rate_def intro: exI [of _ 0])
qed

lemma load_share:
  assumes "0 \<le> i" "i \<le> c" "0 < c" "c \<le> max_int64"
  shows "\<exists>v. isf (fdiv (of_int64 i) (of_int64 c)) v \<and> v \<le> 1"
proof -
  have f: "isf (of_int64 i) (round_mag (of_int i))" "isf (of_int64 c) (round_mag (of_int c))"
    using assms by (auto intro!: isf_of_int64 simp: max_int64_def)
  have pos: "1 \<le> round_mag (of_int c)"
    using round_mag_mono [of 1 "of_int c"] round_mag_pow2 [of 0] assms(3) by (simp add: pow2_def)
  have "round_mag (of_int i) \<le> round_mag (of_int c)"
    using assms(2) by (intro round_mag_mono) simp
  then have one: "round_mag (of_int i) / round_mag (of_int c) \<le> 1"
    using pos by (simp add: pos_divide_le_eq)
  then have "isf (fdiv (of_int64 i) (of_int64 c)) (round_mag (round_mag (of_int i) / round_mag (of_int c)))"
    using pos by (intro isf_fdiv f small_le_pow2) linarith+
  moreover have "round_mag (round_mag (of_int i) / round_mag (of_int c)) \<le> 1"
    using round_mag_mono [OF one] round_mag_pow2 [of 0] by (simp add: pow2_def)
  ultimately show ?thesis
    by blast
qed

text \<open>A product and a sum stay below a bound that is itself a float.\<close>

lemma fmul_below:
  assumes "isf a m" "m \<le> M" "isf b n" "n \<le> N" "M * N = B" "round_mag B = B" "B \<le> 100"
  shows "\<exists>v. isf (fmul a b) v \<and> v \<le> B"
proof -
  have "m * n \<le> B"
    using assms(2, 4) isf_nonneg [OF assms(1)] isf_nonneg [OF assms(3)] unfolding assms(5) [symmetric]
    by (intro mult_mono) linarith+
  moreover from this have "isf (fmul a b) (round_mag (m * n))"
    using assms(7) by (intro isf_fmul assms(1, 3) small_le_pow2) linarith
  ultimately show ?thesis
    using round_mag_mono [of "m * n" B] assms(6) by auto
qed

lemma fadd_below:
  assumes "\<exists>v. isf a v \<and> v \<le> M" "\<exists>v. isf b v \<and> v \<le> N" "M + N = B" "round_mag B = B" "B \<le> 100"
  shows "\<exists>v. isf (fadd a b) v \<and> v \<le> B"
proof -
  obtain m n where mn: "isf a m" "m \<le> M" "isf b n" "n \<le> N"
    using assms(1, 2) by blast
  then have "m + n \<le> B"
    using assms(3) by linarith
  moreover from this have "isf (fadd a b) (round_mag (m + n))"
    using assms(5) by (intro isf_fadd mn small_le_pow2) linarith
  ultimately show ?thesis
    using round_mag_mono [of "m + n" B] assms(4) by auto
qed

text \<open>
  The weighted sum of a latency term of at most \<open>17/16\<close>, two shares of a mean and a load of at most 1
  stays below the default threshold.
\<close>

lemma default_weights:
  "\<exists>w. isf (of_rat64 (45 / 100)) w \<and> w \<le> 29 / 64" "\<exists>w. isf (of_rat64 (25 / 100)) w \<and> w \<le> 1 / 4"
  "\<exists>w. isf (of_rat64 (20 / 100)) w \<and> w \<le> 13 / 64" "\<exists>w. isf (of_rat64 (10 / 100)) w \<and> w \<le> 7 / 64"
proof -
  have "isf (of_rat64 x) (round_mag x) \<and> round_mag x \<le> of_int n * pow2 (- 6)"
    if "0 \<le> x" "x \<le> of_int n * pow2 (- 6)" "0 \<le> n" "n < 64" for x n
  proof -
    have "round_mag (of_int n * pow2 (- 6)) = of_int n * pow2 (- 6)"
      using that by (intro round_mag_exact) simp_all
    moreover have "x \<le> 1"
      using that(2, 4) by (simp add: pow2_def)
    ultimately show ?thesis
      using that(1, 2) round_mag_mono [of x "of_int n * pow2 (- 6)"] by (auto intro!: isf_of_rat64 small_le_pow2)
  qed
  note w = this [of "45 / 100" 29] this [of "25 / 100" 16] this [of "20 / 100" 13] this [of "10 / 100" 7]
  show "\<exists>w. isf (of_rat64 (45 / 100)) w \<and> w \<le> 29 / 64" "\<exists>w. isf (of_rat64 (25 / 100)) w \<and> w \<le> 1 / 4"
    "\<exists>w. isf (of_rat64 (20 / 100)) w \<and> w \<le> 13 / 64" "\<exists>w. isf (of_rat64 (10 / 100)) w \<and> w \<le> 7 / 64"
    using w by (auto simp: pow2_def)
qed

lemma weighted_below:
  assumes "isf l ml" "ml \<le> 17 / 16" "isf e me" "me \<le> 2049 / 1024" "isf i mi" "mi \<le> 1" "isf n mn" "mn \<le> 2049 / 1024"
  shows "flt (fadd (fadd (fadd (fmul (of_rat64 (45 / 100)) l) (fmul (of_rat64 (25 / 100)) e))
      (fmul (of_rat64 (20 / 100)) i)) (fmul (of_rat64 (10 / 100)) n)) (of_rat64 (3 / 2))"
proof -
  have ex: "round_mag (493 / 1024) = 493 / 1024" "round_mag (2049 / 4096) = 2049 / 4096" "round_mag (13 / 64) = 13 / 64"
    "round_mag (14343 / 65536) = 14343 / 65536" "round_mag (4021 / 4096) = 4021 / 4096" "round_mag (4853 / 4096) = 4853 / 4096"
    "round_mag (91991 / 65536) = 91991 / 65536" "round_mag (3 / 2) = 3 / 2"
    using round_mag_exact [of 493 "- 10"] round_mag_exact [of 2049 "- 12"] round_mag_exact [of 13 "- 6"] round_mag_exact [of 14343 "- 16"]
      round_mag_exact [of 4021 "- 12"] round_mag_exact [of 4853 "- 12"] round_mag_exact [of 91991 "- 16"] round_mag_exact [of 3 "- 1"]
    by (simp_all add: pow2_def)
  obtain w1 w2 w3 w4 where w: "isf (of_rat64 (45 / 100)) w1" "w1 \<le> 29 / 64" "isf (of_rat64 (25 / 100)) w2" "w2 \<le> 1 / 4"
    "isf (of_rat64 (20 / 100)) w3" "w3 \<le> 13 / 64" "isf (of_rat64 (10 / 100)) w4" "w4 \<le> 7 / 64"
    using default_weights by blast
  have terms: "\<exists>v. isf (fmul (of_rat64 (45 / 100)) l) v \<and> v \<le> 493 / 1024" "\<exists>v. isf (fmul (of_rat64 (25 / 100)) e) v \<and> v \<le> 2049 / 4096"
    "\<exists>v. isf (fmul (of_rat64 (20 / 100)) i) v \<and> v \<le> 13 / 64" "\<exists>v. isf (fmul (of_rat64 (10 / 100)) n) v \<and> v \<le> 14343 / 65536"
    by (rule fmul_below [OF w(1, 2) assms(1, 2) _ ex(1)] fmul_below [OF w(3, 4) assms(3, 4) _ ex(2)]
        fmul_below [OF w(5, 6) assms(5, 6) _ ex(3)] fmul_below [OF w(7, 8) assms(7, 8) _ ex(4)]; simp)+
  have "\<exists>v. isf (fadd (fmul (of_rat64 (45 / 100)) l) (fmul (of_rat64 (25 / 100)) e)) v \<and> v \<le> 4021 / 4096"
    by (rule fadd_below [OF terms(1, 2) _ ex(5)]) simp_all
  from fadd_below [OF this terms(3) _ ex(6)]
  have "\<exists>v. isf (fadd (fadd (fmul (of_rat64 (45 / 100)) l) (fmul (of_rat64 (25 / 100)) e)) (fmul (of_rat64 (20 / 100)) i)) v \<and> v \<le> 4853 / 4096"
    by simp
  from fadd_below [OF this terms(4) _ ex(7)]
  obtain v where "isf (fadd (fadd (fadd (fmul (of_rat64 (45 / 100)) l) (fmul (of_rat64 (25 / 100)) e)) (fmul (of_rat64 (20 / 100)) i))
      (fmul (of_rat64 (10 / 100)) n)) v" "v \<le> 91991 / 65536"
    by auto
  moreover have "isf (of_rat64 (3 / 2)) (3 / 2)"
    using isf_of_rat64 [of "3 / 2"] small_le_pow2 [of "3 / 2"] ex(8) by simp
  ultimately show ?thesis
    using isf_flt by fastforce
qed

text \<open>
  A sample whose counts are in range, with no more calls in flight than the capacity, which is 100 if it
  is not given.
\<close>

definition within_capacity :: "EndpointSample \<Rightarrow> bool" where
  "within_capacity s \<longleftrightarrow> 0 \<le> sp_Inflight s \<and> sp_Inflight s \<le> capacity (sp_Capacity s) \<and> sp_Capacity s \<le> max_int64 \<and>
     0 \<le> sp_LatencyP95 s \<and> sp_LatencyP95 s \<le> max_int64 \<and>
     0 \<le> sp_ErrorCount s \<and> sp_ErrorCount s \<le> max_int64 \<and> sp_RequestCount s \<le> max_int64"

lemma network_events_bound: "network_events s \<le> max_int64"
  using wrap64_range [of "sp_TCPRetransmit s + sp_ConnectError s"] by (simp add: network_events_def)

lemma median_two_comm: "median [x, y] = median [y, x]"
  by (simp add: median_two fadd_comm)

lemma medianAbsoluteDeviation_comm: "medianAbsoluteDeviation [x, y] m = medianAbsoluteDeviation [y, x] m"
  by (simp add: medianAbsoluteDeviation_def median_two_comm)

text \<open>The terms of the score in a service of one or two instances.\<close>

lemma latency_term:
  assumes "length ss \<le> 2" "list_all within_capacity ss" "s \<in> set ss"
  shows "\<exists>r. isf (fdiv (math_Max fzero (fsub (Seconds (sp_LatencyP95 s)) (bl_medianLatency (service_baseline ss))))
    (math_Max (bl_madLatency (service_baseline ss)) (of_rat64 (1 / 1000)))) r \<and> r \<le> 17 / 16"
proof -
  have lat: "\<exists>m. isf (Seconds (sp_LatencyP95 t)) m \<and> m \<le> pow2 35" if "t \<in> set ss" for t
    using assms(2) that by (intro isf_Seconds) (auto simp: list_all_iff within_capacity_def)
  consider "ss = [s]" | t where "ss = [s, t]" | t where "ss = [t, s]"
    using assms(1, 3) by (cases ss rule: list.exhaust; cases "tl ss") (auto simp: length_Suc_conv numeral_2_eq_2 le_Suc_eq)
  then show ?thesis
  proof cases
    case 1
    then show ?thesis
      using lat [OF assms(3)] relative_latency_one by (auto simp: service_baseline_def Let_def)
  next
    case 2
    then show ?thesis
      using lat [of s] lat [of t] relative_latency_two by (auto simp: service_baseline_def Let_def)
  next
    case 3
    let ?x = "Seconds (sp_LatencyP95 s)" and ?y = "Seconds (sp_LatencyP95 t)"
    show ?thesis
      using lat [of s] lat [of t] relative_latency_two [of ?x _ ?y] median_two_comm [of ?x ?y] medianAbsoluteDeviation_comm [of ?x ?y]
      by (auto simp: 3 service_baseline_def Let_def)
  qed
qed

lemma share_term:
  assumes "length ss \<le> 2" "s \<in> set ss" "\<And>t. t \<in> set ss \<Longrightarrow> \<exists>m. isf (f t) m \<and> m \<le> pow2 64 \<and> round_mag m = m"
  shows "\<exists>v. isf (fdiv (f s) (math_Max (average (map f ss)) scoreEpsilon)) v \<and> v \<le> 2049 / 1024"
proof -
  consider "ss = [s]" | t where "ss = [s, t]" | t where "ss = [t, s]"
    using assms(1, 2) by (cases ss rule: list.exhaust; cases "tl ss") (auto simp: length_Suc_conv numeral_2_eq_2 le_Suc_eq)
  then show ?thesis
  proof cases
    case 1
    then show ?thesis
      using assms(3) [OF assms(2)] share_one by auto
  next
    case 2
    then show ?thesis
      using assms(3) [of s] assms(3) [of t] error_share_two [of "f s" _ "f t" _ "f s"] by fastforce
  next
    case 3
    then show ?thesis
      using assms(3) [of s] assms(3) [of t] error_share_two [of "f t" _ "f s" _ "f s"] by fastforce
  qed
qed

lemma score_of_few:
  assumes "length ss \<le> 2" "list_all within_capacity ss" "s \<in> set ss"
    and "cal_weights c = DefaultScoreWeights" "cal_latencySLO c \<le> 0"
  shows "flt (sc_Score (score_sample c service (service_baseline ss) s)) (of_rat64 (3 / 2))"
proof -
  let ?b = "service_baseline ss"
  let ?rel = "fdiv (math_Max fzero (fsub (Seconds (sp_LatencyP95 s)) (bl_medianLatency ?b))) (math_Max (bl_madLatency ?b) (of_rat64 (1 / 1000)))"
  let ?err = "if sp_ErrorCount s > 0 then fdiv (rate (sp_ErrorCount s) (sp_RequestCount s)) (math_Max (bl_avgErrorRate ?b) scoreEpsilon) else fzero"
  let ?load = "fdiv (of_int64 (sp_Inflight s)) (of_int64 (capacity (sp_Capacity s)))"
  let ?net = "if network_events s > 0 then fdiv (networkRate (network_events s) (sp_RequestCount s))
    (math_Max (bl_avgRetransmitRate ?b) scoreEpsilon) else fzero"
  have ok: "within_capacity t" if "t \<in> set ss" for t
    using assms(2) that by (simp add: list_all_iff)
  obtain rl where rl: "isf ?rel rl" "rl \<le> 17 / 16"
    using latency_term [OF assms(1-3)] by blast
  have "isf (math_Max ?rel fzero) (max rl 0)"
    by (rule isf_math_Max [OF rl(1)]) simp
  then have lat: "isf (math_Max ?rel fzero) rl"
    using isf_nonneg [OF rl(1)] by (simp add: max_def split: if_splits)
  have "\<exists>v. isf ?err v \<and> v \<le> 2049 / 1024"
    using share_term [OF assms(1, 3), of "\<lambda>t. rate (sp_ErrorCount t) (sp_RequestCount t)"] isf_rate ok
    by (auto simp: service_baseline_def Let_def within_capacity_def intro: exI [of _ 0])
  moreover have "\<exists>v. isf ?net v \<and> v \<le> 2049 / 1024"
    using share_term [OF assms(1, 3), of "\<lambda>t. networkRate (network_events t) (sp_RequestCount t)"] isf_networkRate [OF network_events_bound] ok
    by (auto simp: service_baseline_def Let_def within_capacity_def intro: exI [of _ 0])
  moreover have "\<exists>v. isf ?load v \<and> v \<le> 1"
    using ok [OF assms(3)] by (intro load_share) (auto simp: within_capacity_def capacity_def max_int64_def)
  ultimately obtain me mn ml where terms: "isf ?err me" "me \<le> 2049 / 1024" "isf ?net mn" "mn \<le> 2049 / 1024" "isf ?load ml" "ml \<le> 1"
    by blast
  have "sc_Score (score_sample c service ?b s) =
      fadd (fadd (fadd (fmul (of_rat64 (45 / 100)) (math_Max ?rel fzero)) (fmul (of_rat64 (25 / 100)) ?err))
        (fmul (of_rat64 (20 / 100)) ?load)) (fmul (of_rat64 (10 / 100)) ?net)"
    using assms(4, 5) unfolding score_sample_def Let_def absoluteLatencyScore_def DefaultScoreWeights_def by simp
  then show ?thesis
    using weighted_below [OF lat rl(2) terms(1, 2, 5, 6, 3, 4)] by (simp only:)
qed

end
