(* ===== verification/State_Machine.thy ===== *)
theory State_Machine
  imports Prelude Go_Float Status
begin

text \<open>
  \<open>src/pkg/fault/state_machine.go\<close>: the state machine that degrades, ejects, probes and recovers an
  endpoint from its slow score. Scores are \<open>float64\<close> values, compared as Go compares them (a comparison
  with NaN is false); counters are 64-bit.
\<close>

section \<open>Configuration\<close>

record StateMachineConfig =
  sm_DegradedThreshold :: float64
  sm_EjectThreshold :: float64
  sm_ConsecutiveWindows :: int
  sm_EjectionDuration :: duration
  sm_RecoveryThreshold :: float64
  sm_ProbeSuccessThreshold :: float64

definition DefaultStateMachineConfig :: StateMachineConfig where
  "DefaultStateMachineConfig = \<lparr>
     sm_DegradedThreshold = of_rat64 (3 / 2),
     sm_EjectThreshold = of_rat64 (5 / 2),
     sm_ConsecutiveWindows = 3,
     sm_EjectionDuration = 30 * 1000000000,
     sm_RecoveryThreshold = of_rat64 1,
     sm_ProbeSuccessThreshold = of_rat64 (95 / 100)\<rparr>"

definition zero_config :: StateMachineConfig where
  "zero_config = \<lparr>sm_DegradedThreshold = Fin False 0, sm_EjectThreshold = Fin False 0,
     sm_ConsecutiveWindows = 0, sm_EjectionDuration = 0, sm_RecoveryThreshold = Fin False 0,
     sm_ProbeSuccessThreshold = Fin False 0\<rparr>"

definition or_default :: "float64 \<Rightarrow> float64 \<Rightarrow> float64" where
  "or_default x d = (if fle x (Fin False 0) then d else x)"

definition defaultStateMachineConfig :: "StateMachineConfig \<Rightarrow> StateMachineConfig" where
  "defaultStateMachineConfig cfg =
     (let defaults = DefaultStateMachineConfig in \<lparr>
        sm_DegradedThreshold = or_default (sm_DegradedThreshold cfg) (sm_DegradedThreshold defaults),
        sm_EjectThreshold = or_default (sm_EjectThreshold cfg) (sm_EjectThreshold defaults),
        sm_ConsecutiveWindows =
          (if sm_ConsecutiveWindows cfg \<le> 0 then sm_ConsecutiveWindows defaults
           else sm_ConsecutiveWindows cfg),
        sm_EjectionDuration =
          (if sm_EjectionDuration cfg \<le> 0 then sm_EjectionDuration defaults
           else sm_EjectionDuration cfg),
        sm_RecoveryThreshold = or_default (sm_RecoveryThreshold cfg) (sm_RecoveryThreshold defaults),
        sm_ProbeSuccessThreshold =
          or_default (sm_ProbeSuccessThreshold cfg) (sm_ProbeSuccessThreshold defaults)\<rparr>)"

definition override_with :: "float64 \<Rightarrow> float64 \<Rightarrow> float64" where
  "override_with b x = (if flt (Fin False 0) x then x else b)"

definition resolveStateMachineConfig ::
    "StateMachineConfig \<Rightarrow> StateMachineConfig \<Rightarrow> StateMachineConfig" where
  "resolveStateMachineConfig base override =
     (let base = defaultStateMachineConfig base in \<lparr>
        sm_DegradedThreshold =
          override_with (sm_DegradedThreshold base) (sm_DegradedThreshold override),
        sm_EjectThreshold = override_with (sm_EjectThreshold base) (sm_EjectThreshold override),
        sm_ConsecutiveWindows =
          (if sm_ConsecutiveWindows override > 0 then sm_ConsecutiveWindows override
           else sm_ConsecutiveWindows base),
        sm_EjectionDuration =
          (if sm_EjectionDuration override > 0 then sm_EjectionDuration override
           else sm_EjectionDuration base),
        sm_RecoveryThreshold =
          override_with (sm_RecoveryThreshold base) (sm_RecoveryThreshold override),
        sm_ProbeSuccessThreshold =
          override_with (sm_ProbeSuccessThreshold base) (sm_ProbeSuccessThreshold override)\<rparr>)"


section \<open>The machine\<close>

record StateInput =
  in_Now :: gotime
  in_SlowScore :: float64
  in_SuccessRate :: float64

record EndpointHealth =
  eh_Service :: string
  eh_InstanceID :: string
  eh_Address :: string
  eh_RegistrationEpoch :: string
  eh_State :: Code
  eh_SlowScore :: float64
  eh_ConsecutiveSlowWindows :: int
  eh_ConsecutiveEjectWindows :: int
  eh_LastTransitionAt :: gotime
  eh_EjectedAt :: gotime
  eh_UpdatedAt :: gotime

definition NewEndpointHealth ::
    "string \<Rightarrow> string \<Rightarrow> string \<Rightarrow> string list \<Rightarrow> EndpointHealth" where
  "NewEndpointHealth service instanceID address registrationEpoch = \<lparr>
     eh_Service = service, eh_InstanceID = instanceID, eh_Address = address,
     eh_RegistrationEpoch = (case registrationEpoch of [] \<Rightarrow> '''' | e # _ \<Rightarrow> e),
     eh_State = Healthy, eh_SlowScore = Fin False 0, eh_ConsecutiveSlowWindows = 0,
     eh_ConsecutiveEjectWindows = 0, eh_LastTransitionAt = zero_time, eh_EjectedAt = zero_time,
     eh_UpdatedAt = zero_time\<rparr>"

definition NewStateMachine :: "StateMachineConfig \<Rightarrow> StateMachineConfig" where
  "NewStateMachine cfg = defaultStateMachineConfig cfg"

definition transition :: "EndpointHealth \<Rightarrow> Code \<Rightarrow> gotime \<Rightarrow> EndpointHealth" where
  "transition health nxt now =
     (if eh_State health = nxt then health
      else
        (let health = health\<lparr>eh_State := nxt, eh_LastTransitionAt := now,
               eh_ConsecutiveSlowWindows := 0, eh_ConsecutiveEjectWindows := 0\<rparr>;
             health = (if nxt = Ejected then health\<lparr>eh_EjectedAt := now\<rparr> else health)
         in if nxt = Healthy then health\<lparr>eh_EjectedAt := zero_time\<rparr> else health))"

definition count_window :: "StateMachineConfig \<Rightarrow> float64 \<Rightarrow> EndpointHealth \<Rightarrow> EndpointHealth" where
  "count_window m score health =
     (if fle (sm_EjectThreshold m) score
      then health\<lparr>
        eh_ConsecutiveEjectWindows := wrap64 (eh_ConsecutiveEjectWindows health + 1),
        eh_ConsecutiveSlowWindows := wrap64 (eh_ConsecutiveSlowWindows health + 1)\<rparr>
      else health\<lparr>
        eh_ConsecutiveEjectWindows := 0,
        eh_ConsecutiveSlowWindows :=
          (if fle (sm_DegradedThreshold m) score
           then wrap64 (eh_ConsecutiveSlowWindows health + 1) else 0)\<rparr>)"

text \<open>\<open>clock\<close> is what \<open>time.Now\<close> returns, read only for an input without a time.\<close>

definition Apply ::
    "StateMachineConfig \<Rightarrow> gotime \<Rightarrow> EndpointHealth \<Rightarrow> StateInput \<Rightarrow> EndpointHealth" where
  "Apply m clock health0 input =
     (let now = (if IsZero (in_Now input) then clock else in_Now input);
          health = (if eh_State health0 = Unspecified then health0\<lparr>eh_State := Healthy\<rparr> else health0);
          score = in_SlowScore input;
          health = health\<lparr>eh_SlowScore := score\<rparr>
      in if eh_State health = Ejected then
           (if \<not> IsZero (eh_EjectedAt health) \<and>
               time_sub now (eh_EjectedAt health) \<ge> sm_EjectionDuration m
            then transition health Probing now else health)
         else if eh_State health = Probing then
           (if flt (in_SuccessRate input) (sm_ProbeSuccessThreshold m) \<or>
               fle (sm_DegradedThreshold m) score
            then transition health Ejected now
            else if fle score (sm_RecoveryThreshold m) then transition health Healthy now else health)
         else
           (let health = count_window m score health
            in if eh_ConsecutiveEjectWindows health \<ge> sm_ConsecutiveWindows m
               then transition health Ejected now
               else if eh_ConsecutiveSlowWindows health \<ge> sm_ConsecutiveWindows m
               then transition health Degraded now
               else if eh_State health = Degraded \<and> fle score (sm_RecoveryThreshold m)
               then transition health Healthy now
               else health))"

definition run_machine ::
    "StateMachineConfig \<Rightarrow> gotime \<Rightarrow> EndpointHealth \<Rightarrow> StateInput list \<Rightarrow> EndpointHealth" where
  "run_machine m clock = foldl (Apply m clock)"

definition input_time :: "gotime \<Rightarrow> StateInput \<Rightarrow> gotime" where
  "input_time clock i = (if IsZero (in_Now i) then clock else in_Now i)"

lemma run_machine_simps [simp]:
  "run_machine m clock h [] = h"
  "run_machine m clock h (i # ins) = run_machine m clock (Apply m clock h i) ins"
  "run_machine m clock h (ins @ js) = run_machine m clock (run_machine m clock h ins) js"
  by (simp_all add: run_machine_def)

lemma NewStateMachine_windows: "0 < sm_ConsecutiveWindows (NewStateMachine cfg)"
  and NewStateMachine_duration: "0 < sm_EjectionDuration (NewStateMachine cfg)"
  by (simp_all add: NewStateMachine_def defaultStateMachineConfig_def Let_def
      DefaultStateMachineConfig_def)

lemma transition_fields [simp]:
  "eh_State (transition h c t) = c"
  "eh_ConsecutiveEjectWindows (transition h c t) =
     (if eh_State h = c then eh_ConsecutiveEjectWindows h else 0)"
  "eh_ConsecutiveSlowWindows (transition h c t) =
     (if eh_State h = c then eh_ConsecutiveSlowWindows h else 0)"
  "eh_EjectedAt (transition h c t) =
     (if eh_State h = c then eh_EjectedAt h
      else if c = Ejected then t else if c = Healthy then zero_time else eh_EjectedAt h)"
  by (simp_all add: transition_def Let_def)

lemma count_window_fields [simp]:
  "eh_State (count_window m x h) = eh_State h"
  "eh_EjectedAt (count_window m x h) = eh_EjectedAt h"
  "eh_ConsecutiveEjectWindows (count_window m x h) =
     (if fle (sm_EjectThreshold m) x then wrap64 (eh_ConsecutiveEjectWindows h + 1) else 0)"
  "eh_ConsecutiveSlowWindows (count_window m x h) =
     (if fle (sm_EjectThreshold m) x \<or> fle (sm_DegradedThreshold m) x
      then wrap64 (eh_ConsecutiveSlowWindows h + 1) else 0)"
  by (auto simp: count_window_def)

text \<open>The machine on its three kinds of states.\<close>

lemma Apply_ejected:
  assumes "eh_State h = Ejected"
  shows "eh_State (Apply m clock h i) =
      (if \<not> IsZero (eh_EjectedAt h) \<and>
          time_sub (input_time clock i) (eh_EjectedAt h) \<ge> sm_EjectionDuration m
       then Probing else Ejected)"
    and "eh_EjectedAt (Apply m clock h i) = eh_EjectedAt h"
  using assms by (simp_all add: Apply_def Let_def input_time_def)

lemma Apply_probing:
  assumes "eh_State h = Probing"
  shows "eh_State (Apply m clock h i) =
      (if flt (in_SuccessRate i) (sm_ProbeSuccessThreshold m) \<or>
          fle (sm_DegradedThreshold m) (in_SlowScore i) then Ejected
       else if fle (in_SlowScore i) (sm_RecoveryThreshold m) then Healthy else Probing)"
    and "eh_State (Apply m clock h i) = Ejected \<Longrightarrow>
       eh_EjectedAt (Apply m clock h i) = input_time clock i"
  using assms by (auto simp: Apply_def Let_def input_time_def split: if_splits)

definition eject_count :: "StateMachineConfig \<Rightarrow> EndpointHealth \<Rightarrow> StateInput \<Rightarrow> int" where
  "eject_count m h i = (if fle (sm_EjectThreshold m) (in_SlowScore i)
     then wrap64 (eh_ConsecutiveEjectWindows h + 1) else 0)"

definition slow_count :: "StateMachineConfig \<Rightarrow> EndpointHealth \<Rightarrow> StateInput \<Rightarrow> int" where
  "slow_count m h i =
     (if fle (sm_EjectThreshold m) (in_SlowScore i) \<or> fle (sm_DegradedThreshold m) (in_SlowScore i)
      then wrap64 (eh_ConsecutiveSlowWindows h + 1) else 0)"

lemma Apply_counting_eq:
  assumes "eh_State h \<noteq> Ejected" "eh_State h \<noteq> Probing"
  obtains g where
    "eh_State g = Normalized (eh_State h)" "eh_EjectedAt g = eh_EjectedAt h"
    "eh_ConsecutiveEjectWindows g = eject_count m h i"
    "eh_ConsecutiveSlowWindows g = slow_count m h i"
    "Apply m clock h i =
       (if sm_ConsecutiveWindows m \<le> eject_count m h i then transition g Ejected (input_time clock i)
        else if sm_ConsecutiveWindows m \<le> slow_count m h i then transition g Degraded (input_time clock i)
        else if eh_State h = Degraded \<and> fle (in_SlowScore i) (sm_RecoveryThreshold m)
        then transition g Healthy (input_time clock i) else g)"
proof -
  let ?h = "(if eh_State h = Unspecified then h\<lparr>eh_State := Healthy\<rparr> else h)\<lparr>eh_SlowScore := in_SlowScore i\<rparr>"
  let ?g = "count_window m (in_SlowScore i) ?h"
  have state: "eh_State ?h = Normalized (eh_State h)"
    by (simp add: Normalized_def)
  then have "eh_State ?h \<noteq> Ejected" "eh_State ?h \<noteq> Probing" "eh_State ?h = Degraded \<longleftrightarrow> eh_State h = Degraded"
    using assms by (auto simp: Normalized_def)
  moreover have "eh_State ?g = Normalized (eh_State h)" "eh_EjectedAt ?g = eh_EjectedAt h"
    "eh_ConsecutiveEjectWindows ?g = eject_count m h i"
    "eh_ConsecutiveSlowWindows ?g = slow_count m h i"
    using state by (simp_all add: eject_count_def slow_count_def)
  ultimately show thesis
    by (intro that [of ?g]) (simp_all add: Apply_def Let_def flip: input_time_def)
qed

lemma Apply_counting:
  assumes "eh_State h \<noteq> Ejected" "eh_State h \<noteq> Probing"
  shows "eh_State (Apply m clock h i) =
      (if sm_ConsecutiveWindows m \<le> eject_count m h i then Ejected
       else if sm_ConsecutiveWindows m \<le> slow_count m h i then Degraded
       else if eh_State h = Degraded \<and> fle (in_SlowScore i) (sm_RecoveryThreshold m) then Healthy
       else Normalized (eh_State h))"
    and "eh_ConsecutiveEjectWindows (Apply m clock h i) =
      (if Normalized (eh_State h) = eh_State (Apply m clock h i) then eject_count m h i else 0)"
    and "eh_ConsecutiveSlowWindows (Apply m clock h i) =
      (if Normalized (eh_State h) = eh_State (Apply m clock h i) then slow_count m h i else 0)"
    and "eh_State (Apply m clock h i) = Ejected \<Longrightarrow>
       eh_EjectedAt (Apply m clock h i) = input_time clock i"
proof -
  obtain g where g: "eh_State g = Normalized (eh_State h)" "eh_EjectedAt g = eh_EjectedAt h"
    "eh_ConsecutiveEjectWindows g = eject_count m h i"
    "eh_ConsecutiveSlowWindows g = slow_count m h i"
    "Apply m clock h i =
       (if sm_ConsecutiveWindows m \<le> eject_count m h i then transition g Ejected (input_time clock i)
        else if sm_ConsecutiveWindows m \<le> slow_count m h i then transition g Degraded (input_time clock i)
        else if eh_State h = Degraded \<and> fle (in_SlowScore i) (sm_RecoveryThreshold m)
        then transition g Healthy (input_time clock i) else g)"
    by (rule Apply_counting_eq [OF assms])
  have norm: "Normalized (eh_State h) \<noteq> Ejected"
    using assms by (simp add: Normalized_def)
  note eqs = g(1-4) norm
  show "eh_State (Apply m clock h i) =
      (if sm_ConsecutiveWindows m \<le> eject_count m h i then Ejected
       else if sm_ConsecutiveWindows m \<le> slow_count m h i then Degraded
       else if eh_State h = Degraded \<and> fle (in_SlowScore i) (sm_RecoveryThreshold m) then Healthy
       else Normalized (eh_State h))"
    "eh_ConsecutiveEjectWindows (Apply m clock h i) =
      (if Normalized (eh_State h) = eh_State (Apply m clock h i) then eject_count m h i else 0)"
    "eh_ConsecutiveSlowWindows (Apply m clock h i) =
      (if Normalized (eh_State h) = eh_State (Apply m clock h i) then slow_count m h i else 0)"
    unfolding g(5) by (simp_all add: eqs)
  show "eh_EjectedAt (Apply m clock h i) = input_time clock i"
    if "eh_State (Apply m clock h i) = Ejected"
    using that unfolding g(5) by (simp add: eqs split: if_splits)
qed


section \<open>Ejection\<close>

definition eject_level :: "StateMachineConfig \<Rightarrow> StateInput \<Rightarrow> bool" where
  "eject_level m i \<longleftrightarrow> fle (sm_EjectThreshold m) (in_SlowScore i)"

definition streak :: "('a \<Rightarrow> bool) \<Rightarrow> 'a list \<Rightarrow> nat" where
  "streak P xs = length (takeWhile P (rev xs))"

lemma streak_Nil [simp]: "streak P [] = 0"
  and streak_snoc [simp]: "streak P (xs @ [x]) = (if P x then Suc (streak P xs) else 0)"
  by (simp_all add: streak_def)

lemma streak_suffix:
  assumes "n \<le> streak P xs"
  obtains pre ws where "xs = pre @ ws" "length ws = n" "list_all P ws"
proof -
  let ?ws = "rev (take n (takeWhile P (rev xs)))"
  have "take n (takeWhile P (rev xs)) = take n (rev xs)"
    using assms by (subst takeWhile_eq_take) (simp add: streak_def min_absorb1)
  then have "xs = rev (drop n (rev xs)) @ ?ws"
    by (metis append_take_drop_id rev_append rev_rev_ident)
  moreover have "length ?ws = n"
    using assms by (simp add: streak_def)
  moreover have "list_all P ?ws"
    by (auto simp: list_all_iff dest: in_set_takeD set_takeWhileD)
  ultimately show thesis
    by (rule that)
qed

text \<open>
  The ejection counter never reaches the configured number of windows, never counts more windows than
  the current streak has, and is zero while the endpoint is ejected or probed.
\<close>

definition counter_inv :: "StateMachineConfig \<Rightarrow> StateInput list \<Rightarrow> EndpointHealth \<Rightarrow> bool" where
  "counter_inv m ins h \<longleftrightarrow>
     0 \<le> eh_ConsecutiveEjectWindows h \<and>
     eh_ConsecutiveEjectWindows h < sm_ConsecutiveWindows m \<and>
     eh_ConsecutiveEjectWindows h \<le> int (streak (eject_level m) ins) \<and>
     (eh_State h \<in> {Ejected, Probing} \<longrightarrow> eh_ConsecutiveEjectWindows h = 0)"

lemma Apply_eject_counter_kept:
  assumes "eh_State h \<in> {Ejected, Probing}" "eh_ConsecutiveEjectWindows h = 0"
  shows "eh_ConsecutiveEjectWindows (Apply m clock h i) = 0"
  using assms by (auto simp: Apply_def Let_def)

lemma eject_count_bounds:
  assumes "counter_inv m ins h" "sm_ConsecutiveWindows m \<le> max_int64"
  shows "eject_count m h i = (if eject_level m i then eh_ConsecutiveEjectWindows h + 1 else 0)"
proof -
  have count: "0 \<le> eh_ConsecutiveEjectWindows h" "eh_ConsecutiveEjectWindows h < sm_ConsecutiveWindows m"
    using assms(1) by (simp_all add: counter_inv_def)
  then have "min_int64 \<le> eh_ConsecutiveEjectWindows h + 1" "eh_ConsecutiveEjectWindows h + 1 \<le> max_int64"
    using assms(2) by (simp_all add: min_int64_def)
  then show ?thesis
    by (simp add: eject_count_def eject_level_def wrap64_id)
qed

lemma Apply_counter_inv:
  assumes inv: "counter_inv m ins h" and N: "0 < sm_ConsecutiveWindows m" "sm_ConsecutiveWindows m \<le> max_int64"
  shows "counter_inv m (ins @ [i]) (Apply m clock h i)"
proof (cases "eh_State h \<in> {Ejected, Probing}")
  case True
  then show ?thesis
    using inv N Apply_eject_counter_kept [OF True] by (simp add: counter_inv_def)
next
  case False
  then have states: "eh_State h \<noteq> Ejected" "eh_State h \<noteq> Probing" "Normalized (eh_State h) \<notin> {Ejected, Probing}"
    by (auto simp: Normalized_def)
  note app = Apply_counting [OF states(1, 2), where m = m and clock = clock and i = i]
  have "eh_ConsecutiveEjectWindows (Apply m clock h i) < sm_ConsecutiveWindows m"
    using app(1, 2) states(3) N(1) by (auto split: if_splits)
  then show ?thesis
    using inv N states(3) eject_count_bounds [OF inv N(2), of i] app(2)
    by (auto simp: counter_inv_def)
qed

lemma run_counter_inv:
  assumes "counter_inv m pre h" "0 < sm_ConsecutiveWindows m" "sm_ConsecutiveWindows m \<le> max_int64"
  shows "counter_inv m (pre @ ins) (run_machine m clock h ins)"
  using assms(1)
proof (induction ins arbitrary: pre h)
  case (Cons i ins)
  then have "counter_inv m (pre @ [i]) (Apply m clock h i)"
    using Apply_counter_inv assms(2, 3) by blast
  then have "counter_inv m ((pre @ [i]) @ ins) (run_machine m clock (Apply m clock h i) ins)"
    by (rule Cons.IH)
  then show ?case
    by simp
qed simp

lemma new_counter_inv: "0 < sm_ConsecutiveWindows m \<Longrightarrow> counter_inv m [] (NewEndpointHealth s i a ep)"
  by (simp add: counter_inv_def NewEndpointHealth_def)

text \<open>
  C24: a fresh endpoint is ejected by the counting path only after a full streak: when it leaves the
  healthy, degraded or dead states for \<open>EJECTED\<close>, the last \<open>ConsecutiveWindows\<close> inputs all had a slow
  score of at least the ejection threshold.
\<close>

theorem ejection_needs_windows:
  assumes "m = NewStateMachine cfg" "sm_ConsecutiveWindows m \<le> max_int64"
    and "h = run_machine m clock (NewEndpointHealth service inst addr epoch) ins"
    and "eh_State h \<noteq> Ejected" "eh_State h \<noteq> Probing" "eh_State (Apply m clock h i) = Ejected"
  shows "\<exists>pre ws. ins @ [i] = pre @ ws \<and> int (length ws) = sm_ConsecutiveWindows m \<and>
     list_all (eject_level m) ws"
proof -
  let ?N = "sm_ConsecutiveWindows m"
  have N: "0 < ?N"
    using assms(1) by (simp add: NewStateMachine_windows)
  have inv: "counter_inv m ins h"
    using run_counter_inv [OF new_counter_inv [OF N] N assms(2)] by (simp add: assms(3))
  have "?N \<le> eject_count m h i"
    using Apply_counting(1) [OF assms(4, 5), of m clock i] assms(4, 6)
    by (auto simp: Normalized_def split: if_splits)
  then have "eject_level m i" "?N \<le> int (streak (eject_level m) ins) + 1"
    using eject_count_bounds [OF inv assms(2), of i] inv N by (auto simp: counter_inv_def split: if_splits)
  then have "nat ?N \<le> streak (eject_level m) (ins @ [i])"
    by simp
  then obtain pre ws where "ins @ [i] = pre @ ws" "length ws = nat ?N" "list_all (eject_level m) ws"
    by (rule streak_suffix)
  then show ?thesis
    using N by (intro exI [of _ pre] exI [of _ ws]) simp
qed

text \<open>
  The converse needs more than one streak: entering \<open>DEGRADED\<close> clears the counters, so an endpoint that
  was already slow may use up to one streak less one window to degrade.
\<close>

definition windows_to_eject :: "StateMachineConfig \<Rightarrow> EndpointHealth \<Rightarrow> int" where
  "windows_to_eject m h =
     (if eh_State h = Degraded then sm_ConsecutiveWindows m else 2 * sm_ConsecutiveWindows m - 1)
     - eh_ConsecutiveEjectWindows h"

lemma Apply_towards_ejection:
  assumes inv: "counter_inv m pre h" and N: "sm_ConsecutiveWindows m \<le> max_int64"
    and st: "eh_State h \<noteq> Ejected" "eh_State h \<noteq> Probing"
    and i: "eject_level m i" "\<not> fle (in_SlowScore i) (sm_RecoveryThreshold m)"
    and step: "eh_State (Apply m clock h i) \<noteq> Ejected"
  shows "eh_State (Apply m clock h i) \<noteq> Probing"
    and "windows_to_eject m (Apply m clock h i) < windows_to_eject m h"
proof -
  note app = Apply_counting [OF st, where m = m and clock = clock and i = i]
  have norm: "Normalized (eh_State h) \<noteq> Probing" "Normalized (eh_State h) = Degraded \<longleftrightarrow> eh_State h = Degraded"
    using st by (auto simp: Normalized_def)
  have count: "eject_count m h i = eh_ConsecutiveEjectWindows h + 1"
    using eject_count_bounds [OF inv N, of i] i by simp
  have less: "eh_ConsecutiveEjectWindows h + 1 < sm_ConsecutiveWindows m"
    using app(1) step by (auto simp: count split: if_splits)
  have state: "eh_State (Apply m clock h i) = Degraded \<or>
      eh_State (Apply m clock h i) = Normalized (eh_State h)"
    using app(1) step i(2) by (auto split: if_splits)
  then show "eh_State (Apply m clock h i) \<noteq> Probing"
    using norm by auto
  show "windows_to_eject m (Apply m clock h i) < windows_to_eject m h"
  proof (cases "eh_State (Apply m clock h i) = Normalized (eh_State h)")
    case True
    then have "eh_ConsecutiveEjectWindows (Apply m clock h i) = eh_ConsecutiveEjectWindows h + 1"
      "eh_State (Apply m clock h i) = Degraded \<longleftrightarrow> eh_State h = Degraded"
      using app(2) norm(2) by (simp_all only: count if_True simp_thms)
    then show ?thesis
      by (simp add: windows_to_eject_def)
  next
    case False
    then have "eh_State (Apply m clock h i) = Degraded" "eh_State h \<noteq> Degraded"
      "eh_ConsecutiveEjectWindows (Apply m clock h i) = 0"
      using app(2) norm(2) state by metis+
    then show ?thesis
      using less by (simp add: windows_to_eject_def)
  qed
qed

lemma ejection_reached:
  assumes "counter_inv m pre h" "0 < sm_ConsecutiveWindows m" "sm_ConsecutiveWindows m \<le> max_int64"
    and "eh_State h \<noteq> Ejected" "eh_State h \<noteq> Probing"
    and "\<forall>i\<in>set ws. eject_level m i \<and> \<not> fle (in_SlowScore i) (sm_RecoveryThreshold m)"
    and "windows_to_eject m h \<le> int (length ws)"
  shows "\<exists>k\<le>length ws. eh_State (run_machine m clock h (take k ws)) = Ejected"
  using assms(1, 4-)
proof (induction ws arbitrary: pre h)
  case Nil
  then show ?case
    using assms(2) by (auto simp: windows_to_eject_def counter_inv_def split: if_splits)
next
  case (Cons i ws)
  show ?case
  proof (cases "eh_State (Apply m clock h i) = Ejected")
    case True
    then show ?thesis
      by (intro exI [of _ 1]) simp
  next
    case False
    have inv: "counter_inv m (pre @ [i]) (Apply m clock h i)"
      using Apply_counter_inv [OF Cons.prems(1) assms(2, 3)] .
    have i: "eject_level m i" "\<not> fle (in_SlowScore i) (sm_RecoveryThreshold m)"
      using Cons.prems by simp_all
    note step = Apply_towards_ejection [OF Cons.prems(1) assms(3) Cons.prems(2, 3) i False]
    obtain k where "k \<le> length ws" "eh_State (run_machine m clock (Apply m clock h i) (take k ws)) = Ejected"
      using Cons.IH [OF inv False step(1)] Cons.prems(4, 5) step(2) by auto
    then show ?thesis
      by (intro exI [of _ "Suc k"]) simp
  qed
qed

text \<open>
  C25: sustained slowness ejects. With a recovery threshold below the ejection threshold, whatever the
  history of an endpoint that takes traffic, \<open>2 * ConsecutiveWindows - 1\<close> windows in a row at the
  ejection threshold bring it to \<open>EJECTED\<close>.
\<close>

theorem sustained_slowness_ejects:
  assumes "m = NewStateMachine cfg" "sm_ConsecutiveWindows m \<le> max_int64"
    and "flt (sm_RecoveryThreshold m) (sm_EjectThreshold m)"
    and "h = run_machine m clock (NewEndpointHealth service inst addr epoch) ins"
    and "eh_State h \<noteq> Ejected" "eh_State h \<noteq> Probing"
    and "\<forall>i\<in>set ws. eject_level m i" "int (length ws) = 2 * sm_ConsecutiveWindows m - 1"
  shows "\<exists>k\<le>length ws. eh_State (run_machine m clock h (take k ws)) = Ejected"
proof -
  have N: "0 < sm_ConsecutiveWindows m"
    using assms(1) by (simp add: NewStateMachine_windows)
  have inv: "counter_inv m ins h"
    using run_counter_inv [OF new_counter_inv [OF N] N assms(2)] by (simp add: assms(4))
  have "\<not> fle (in_SlowScore i) (sm_RecoveryThreshold m)" if "i \<in> set ws" for i
  proof
    assume "fle (in_SlowScore i) (sm_RecoveryThreshold m)"
    then have "flt (sm_EjectThreshold m) (sm_EjectThreshold m)"
      using assms(3, 7) that fle_trans fle_flt_trans unfolding eject_level_def by blast
    then show False
      by simp
  qed
  moreover have "windows_to_eject m h \<le> int (length ws)"
    using inv N assms(8) by (auto simp: windows_to_eject_def counter_inv_def)
  ultimately show ?thesis
    using ejection_reached [OF inv N assms(2, 5, 6)] assms(7) by blast
qed

text \<open>The machine of an unset configuration, evaluated.\<close>

definition demo_machine :: StateMachineConfig where
  "demo_machine = NewStateMachine zero_config"

definition demo_input :: "gotime \<Rightarrow> rat \<Rightarrow> StateInput" where
  "demo_input t score = \<lparr>in_Now = t, in_SlowScore = Fin False score, in_SuccessRate = of_rat64 1\<rparr>"

definition demo_health :: EndpointHealth where
  "demo_health = NewEndpointHealth ''svc'' ''a'' ''10.0.0.1:80'' []"

lemma of_rat64_demo:
  "of_rat64 1 = Fin False 1" "of_rat64 (3 / 2) = Fin False (3 / 2)" "of_rat64 (5 / 2) = Fin False (5 / 2)"
  using of_rat64_exact [of 1 1 0] of_rat64_exact [of "3 / 2" 3 "- 1"] of_rat64_exact [of "5 / 2" 5 "- 1"]
  by (simp_all add: pow2_def)

lemma demo_machine_eq:
  "demo_machine = \<lparr>sm_DegradedThreshold = Fin False (3 / 2), sm_EjectThreshold = Fin False (5 / 2),
     sm_ConsecutiveWindows = 3, sm_EjectionDuration = 30000000000, sm_RecoveryThreshold = Fin False 1,
     sm_ProbeSuccessThreshold = of_rat64 (95 / 100)\<rparr>"
  by (simp add: demo_machine_def NewStateMachine_def defaultStateMachineConfig_def zero_config_def
      DefaultStateMachineConfig_def or_default_def fle_def Let_def of_rat64_demo)

lemmas machine_eval = demo_machine_eq demo_health_def demo_input_def NewEndpointHealth_def Apply_def
  count_window_def transition_def Let_def fle_def IsZero_def zero_time_def wrap64_def time_sub_def
  max_int64_def min_int64_def

lemma demo_run3:
  "eh_State (run_machine demo_machine 1 demo_health [demo_input 5 3, demo_input 6 3]) = Healthy"
  "eh_State (Apply demo_machine 1
     (run_machine demo_machine 1 demo_health [demo_input 5 3, demo_input 6 3]) (demo_input 7 3)) = Ejected"
  by (simp_all add: machine_eval)

theorem ejection_needs_windows_witness:
  "\<exists>pre ws. [demo_input 5 3, demo_input 6 3] @ [demo_input 7 3] = pre @ ws \<and> int (length ws) = 3 \<and>
     list_all (eject_level demo_machine) ws"
  using ejection_needs_windows [OF demo_machine_def _ _ _ _ demo_run3(2),
      where service = "''svc''" and inst = "''a''" and addr = "''10.0.0.1:80''" and epoch = "[]"
        and ins = "[demo_input 5 3, demo_input 6 3]"] demo_run3(1)
  by (simp add: demo_machine_eq max_int64_def demo_health_def)

definition demo_slow :: "StateInput list" where
  "demo_slow = [demo_input 5 3, demo_input 6 3, demo_input 7 3, demo_input 8 3, demo_input 9 3]"

theorem sustained_slowness_ejects_witness:
  "\<exists>k\<le>length demo_slow.
     eh_State (run_machine demo_machine 1 demo_health (take k demo_slow)) = Ejected"
proof (rule sustained_slowness_ejects [OF demo_machine_def])
  show "demo_health = run_machine demo_machine 1 (NewEndpointHealth ''svc'' ''a'' ''10.0.0.1:80'' []) []"
    by (simp add: demo_health_def)
qed (simp_all add: demo_machine_eq max_int64_def demo_health_def NewEndpointHealth_def eject_level_def
      demo_slow_def demo_input_def fle_def)

text \<open>
  A streak of exactly \<open>ConsecutiveWindows\<close> windows at the ejection threshold need not eject. With
  the default thresholds, two windows at 2.0 followed by three at 3.0 leave the endpoint \<open>DEGRADED\<close>:
  the first window at 3.0 is the third slow one, and degrading clears the ejection counter.
\<close>

theorem full_streak_may_only_degrade:
  "let ws = [demo_input 3 3, demo_input 4 3, demo_input 5 3];
       h = run_machine demo_machine 1 demo_health ([demo_input 1 2, demo_input 2 2] @ ws)
   in int (length ws) = sm_ConsecutiveWindows demo_machine \<and> list_all (eject_level demo_machine) ws \<and>
      eh_State h = Degraded \<and> eh_ConsecutiveEjectWindows h = 2"
  by (simp add: machine_eval eject_level_def)


section \<open>Probing and recovery\<close>

lemma ejected_stays:
  assumes "eh_State h = Ejected"
    and "\<forall>i\<in>set ins. time_sub (input_time clock i) (eh_EjectedAt h) < sm_EjectionDuration m"
  shows "eh_State (run_machine m clock h ins) = Ejected \<and>
     eh_EjectedAt (run_machine m clock h ins) = eh_EjectedAt h"
  using assms
proof (induction ins arbitrary: h)
  case (Cons i ins)
  then have "eh_State (Apply m clock h i) = Ejected" "eh_EjectedAt (Apply m clock h i) = eh_EjectedAt h"
    using Apply_ejected [of h m clock i] by auto
  then show ?case
    using Cons by simp
qed simp

lemma Apply_ejected_at:
  assumes "eh_State (Apply m clock h i) = Ejected" "eh_State h = Ejected \<Longrightarrow> eh_EjectedAt h \<noteq> zero_time"
    and "clock \<noteq> zero_time"
  shows "eh_EjectedAt (Apply m clock h i) \<noteq> zero_time"
proof -
  have "input_time clock i \<noteq> zero_time"
    using assms(3) by (simp add: input_time_def IsZero_def)
  then show ?thesis
    using assms(1, 2) Apply_ejected(2) [of h m clock i] Apply_probing(2) [of h m clock i]
      Apply_counting(4) [of h m clock i]
    by metis
qed

lemma run_ejected_at:
  assumes "eh_State h = Ejected \<Longrightarrow> eh_EjectedAt h \<noteq> zero_time" "clock \<noteq> zero_time"
    and "eh_State (run_machine m clock h ins) = Ejected"
  shows "eh_EjectedAt (run_machine m clock h ins) \<noteq> zero_time"
  using assms(1, 3)
proof (induction ins arbitrary: h)
  case (Cons i ins)
  then show ?case
    using Apply_ejected_at [of m clock h i] assms(2) by simp
qed simp

text \<open>
  C34: an ejection lasts exactly its configured time. Once a fresh endpoint has been ejected, inputs
  within \<open>EjectionDuration\<close> of the ejection leave it ejected whatever their scores, and the first input
  at or after that time moves it to \<open>PROBING\<close>: no endpoint stays ejected for good.
\<close>

theorem ejection_lasts:
  assumes "clock \<noteq> zero_time"
    and "h = run_machine m clock (NewEndpointHealth service inst addr epoch) ins" "eh_State h = Ejected"
    and "\<forall>i\<in>set mid. time_sub (input_time clock i) (eh_EjectedAt h) < sm_EjectionDuration m"
    and "time_sub (input_time clock i) (eh_EjectedAt h) \<ge> sm_EjectionDuration m"
  shows "eh_State (run_machine m clock h mid) = Ejected \<and>
     eh_State (run_machine m clock h (mid @ [i])) = Probing"
proof -
  note stays = ejected_stays [OF assms(3, 4)]
  have "eh_EjectedAt h \<noteq> zero_time"
    using run_ejected_at [of "NewEndpointHealth service inst addr epoch" clock m ins] assms(1-3)
    by (simp add: NewEndpointHealth_def)
  then show ?thesis
    using stays assms(5) Apply_ejected(1) [of "run_machine m clock h mid" m clock i]
    by (simp add: IsZero_def)
qed

text \<open>An input, of a report or of a tick, that ends the probing of an endpoint.\<close>

definition good_evaluation :: "StateMachineConfig \<Rightarrow> StateInput \<Rightarrow> bool" where
  "good_evaluation m i \<longleftrightarrow> \<not> flt (in_SuccessRate i) (sm_ProbeSuccessThreshold m) \<and>
     \<not> fle (sm_DegradedThreshold m) (in_SlowScore i) \<and> fle (in_SlowScore i) (sm_RecoveryThreshold m)"

text \<open>
  One input decides a probe. In \<open>PROBING\<close> a single good input makes the endpoint healthy, with no
  count of good windows, and a single bad one ejects it again for a full ejection time.
\<close>

theorem one_probe_decides:
  assumes "eh_State h = Probing"
  shows "(good_evaluation m i \<longrightarrow> eh_State (Apply m clock h i) = Healthy \<and>
           eh_EjectedAt (Apply m clock h i) = zero_time) \<and>
     (flt (in_SuccessRate i) (sm_ProbeSuccessThreshold m) \<or> fle (sm_DegradedThreshold m) (in_SlowScore i) \<longrightarrow>
        eh_State (Apply m clock h i) = Ejected \<and>
        eh_EjectedAt (Apply m clock h i) = input_time clock i)"
  using assms by (auto simp: Apply_def Let_def input_time_def good_evaluation_def)

definition demo_ejected :: EndpointHealth where
  "demo_ejected = run_machine demo_machine 1 demo_health [demo_input 5 3, demo_input 6 3, demo_input 7 3]"

lemma demo_ejected_eq: "demo_ejected = demo_health\<lparr>eh_State := Ejected, eh_SlowScore := Fin False 3,
    eh_LastTransitionAt := 7, eh_EjectedAt := 7\<rparr>"
  by (simp add: demo_ejected_def machine_eval)

theorem ejection_lasts_witness:
  "eh_State (run_machine demo_machine 1 demo_ejected [demo_input 9 0]) = Ejected \<and>
   eh_State (run_machine demo_machine 1 demo_ejected ([demo_input 9 0] @ [demo_input 30000000007 0])) = Probing"
proof (rule ejection_lasts)
  show "demo_ejected = run_machine demo_machine 1 (NewEndpointHealth ''svc'' ''a'' ''10.0.0.1:80'' [])
      [demo_input 5 3, demo_input 6 3, demo_input 7 3]"
    by (simp add: demo_ejected_def demo_health_def)
  show "eh_State demo_ejected = Ejected"
    by (simp add: demo_ejected_eq)
  show "\<forall>i\<in>set [demo_input 9 0]. time_sub (input_time 1 i) (eh_EjectedAt demo_ejected) < sm_EjectionDuration demo_machine"
    "time_sub (input_time 1 (demo_input 30000000007 0)) (eh_EjectedAt demo_ejected) \<ge> sm_EjectionDuration demo_machine"
    by (simp_all add: demo_ejected_eq input_time_def machine_eval)
qed (simp add: zero_time_def)

theorem one_probe_decides_witness:
  "eh_State (Apply demo_machine 1 (demo_ejected\<lparr>eh_State := Probing\<rparr>) (demo_input 30000000008 2)) = Ejected"
  using one_probe_decides [of "demo_ejected\<lparr>eh_State := Probing\<rparr>" demo_machine "demo_input 30000000008 2" 1]
  by (simp add: demo_machine_eq demo_input_def fle_def)

end
