(* ===== verification/Health_Manager.thy ===== *)
theory Health_Manager
  imports Slow_Score State_Machine "HOL-Library.List_Lexorder" "HOL-Library.Char_ord" "HOL-Library.Product_Lexorder"
begin

text \<open>
  \<open>src/pkg/fault/manager.go\<close>: the health manager, which scores telemetry, drives the state machine of every
  endpoint, restores and prunes health records, and numbers the changes of each service with a revision
  that watchers compare. Every operation runs under the manager's lock; \<open>now\<close> is the clock the manager was
  built with, \<open>clock\<close> the one the state machine reads when it is given no time.
\<close>

section \<open>State\<close>

record EndpointIdentity =
  id_Service :: string
  id_InstanceID :: string
  id_RegistrationEpoch :: string

type_synonym health_map = "(string \<times> EndpointHealth) list"

text \<open>\<open>hm_notify\<close> is the generation of the notification channel: each bump closes one and makes the next.\<close>

record HealthManager =
  hm_calculator :: ScoreCalculator
  hm_baseStateMachine :: StateMachineConfig
  hm_serviceStateMachines :: "(string \<times> StateMachineConfig) list"
  hm_health :: health_map
  hm_revision :: int
  hm_serviceRevisions :: "(string \<times> int) list"
  hm_notify :: nat

definition cloneStateMachineConfigs ::
    "(string \<times> StateMachineConfig) list \<Rightarrow> (string \<times> StateMachineConfig) list" where
  "cloneStateMachineConfigs src = filter (\<lambda>(service, cfg). service \<noteq> '''') src"

definition weights_unset :: "ScoreWeights \<Rightarrow> bool" where
  "weights_unset w \<longleftrightarrow> feq (sw_LatencyWeight w) fzero \<and> feq (sw_ErrorWeight w) fzero \<and>
     feq (sw_InflightWeight w) fzero \<and> feq (sw_RetransmitWeight w) fzero"

definition NewHealthManager ::
    "ScoreWeights \<Rightarrow> duration \<Rightarrow> StateMachineConfig \<Rightarrow> (string \<times> StateMachineConfig) list \<Rightarrow> HealthManager" where
  "NewHealthManager weights slo sm services =
     (let weights = (if weights_unset weights then DefaultScoreWeights else weights)
      in \<lparr>hm_calculator = NewScoreCalculatorWithConfig weights slo,
          hm_baseStateMachine = defaultStateMachineConfig sm,
          hm_serviceStateMachines = cloneStateMachineConfigs services,
          hm_health = [], hm_revision = 0, hm_serviceRevisions = [], hm_notify = 0\<rparr>)"


section \<open>Helpers\<close>

text \<open>Go compares the structures field by field, and the floats in them as numbers.\<close>

definition health_eq :: "EndpointHealth \<Rightarrow> EndpointHealth \<Rightarrow> bool" where
  "health_eq a b \<longleftrightarrow> feq (eh_SlowScore a) (eh_SlowScore b) \<and>
     a\<lparr>eh_SlowScore := fzero\<rparr> = b\<lparr>eh_SlowScore := fzero\<rparr>"

definition config_eq :: "StateMachineConfig \<Rightarrow> StateMachineConfig \<Rightarrow> bool" where
  "config_eq a b \<longleftrightarrow> feq (sm_DegradedThreshold a) (sm_DegradedThreshold b) \<and>
     feq (sm_EjectThreshold a) (sm_EjectThreshold b) \<and>
     sm_ConsecutiveWindows a = sm_ConsecutiveWindows b \<and> sm_EjectionDuration a = sm_EjectionDuration b \<and>
     feq (sm_RecoveryThreshold a) (sm_RecoveryThreshold b) \<and>
     feq (sm_ProbeSuccessThreshold a) (sm_ProbeSuccessThreshold b)"

definition endpointHealthEqualIgnoringUpdatedAt :: "EndpointHealth \<Rightarrow> EndpointHealth \<Rightarrow> bool" where
  "endpointHealthEqualIgnoringUpdatedAt a b \<longleftrightarrow>
     health_eq (a\<lparr>eh_UpdatedAt := zero_time\<rparr>) (b\<lparr>eh_UpdatedAt := zero_time\<rparr>)"

definition endpointAddressChanged :: "EndpointHealth \<Rightarrow> string \<Rightarrow> bool" where
  "endpointAddressChanged h address \<longleftrightarrow> address \<noteq> '''' \<and> eh_Address h \<noteq> '''' \<and> eh_Address h \<noteq> address"

definition endpointRegistrationEpochChanged :: "EndpointHealth \<Rightarrow> string \<Rightarrow> bool" where
  "endpointRegistrationEpochChanged h epoch \<longleftrightarrow>
     epoch \<noteq> '''' \<and> eh_RegistrationEpoch h \<noteq> '''' \<and> eh_RegistrationEpoch h \<noteq> epoch"

definition endpointAddressMatches :: "string \<Rightarrow> string \<Rightarrow> bool" where
  "endpointAddressMatches healthAddress registeredAddress \<longleftrightarrow>
     healthAddress = '''' \<or> registeredAddress = '''' \<or> healthAddress = registeredAddress"

definition retainedEndpointAddress :: "(EndpointIdentity \<times> string) list \<Rightarrow> EndpointHealth \<Rightarrow> string option" where
  "retainedEndpointAddress retain h =
     (case map_of retain \<lparr>id_Service = eh_Service h, id_InstanceID = eh_InstanceID h,
         id_RegistrationEpoch = eh_RegistrationEpoch h\<rparr> of
        Some address \<Rightarrow> Some address
      | None \<Rightarrow>
          (case map_of retain \<lparr>id_Service = eh_Service h, id_InstanceID = eh_InstanceID h, id_RegistrationEpoch = ''''\<rparr> of
             Some address \<Rightarrow> Some address
           | None \<Rightarrow>
               if eh_RegistrationEpoch h = ''''
               then map_option snd (find (\<lambda>(c, a). id_Service c = eh_Service h \<and> id_InstanceID c = eh_InstanceID h) retain)
               else None))"

definition successRate :: "EndpointSample \<Rightarrow> float64" where
  "successRate s =
     (if sp_RequestCount s \<le> 0 then of_rat64 1
      else
        (let successes = wrap64 (sp_RequestCount s - sp_ErrorCount s);
             successes = (if successes < 0 then 0 else successes)
         in fdiv (of_int64 successes) (of_int64 (sp_RequestCount s))))"

definition stateMachineConfigLocked :: "HealthManager \<Rightarrow> string \<Rightarrow> StateMachineConfig" where
  "stateMachineConfigLocked m service =
     resolveStateMachineConfig (hm_baseStateMachine m)
       (case map_of (hm_serviceStateMachines m) service of Some cfg \<Rightarrow> cfg | None \<Rightarrow> zero_config)"

definition stateMachineForLocked :: "HealthManager \<Rightarrow> string \<Rightarrow> StateMachineConfig" where
  "stateMachineForLocked m service = NewStateMachine (stateMachineConfigLocked m service)"

definition resetStateMachineCountersLocked :: "gotime \<Rightarrow> string \<Rightarrow> HealthManager \<Rightarrow> HealthManager" where
  "resetStateMachineCountersLocked now service m =
     m\<lparr>hm_health := map (\<lambda>(key, h).
         (key, if eh_Service h \<noteq> service then h
               else if eh_ConsecutiveSlowWindows h = 0 \<and> eh_ConsecutiveEjectWindows h = 0 then h
               else h\<lparr>eh_ConsecutiveSlowWindows := 0, eh_ConsecutiveEjectWindows := 0, eh_UpdatedAt := now\<rparr>))
       (hm_health m)\<rparr>"

definition bumpIfChangedLocked :: "string list \<Rightarrow> HealthManager \<Rightarrow> HealthManager" where
  "bumpIfChangedLocked changedServices m =
     (if changedServices = [] then m
      else
        (let revision = wrap64 (hm_revision m + 1)
         in m\<lparr>hm_revision := revision,
              hm_serviceRevisions := fold (\<lambda>s. AList.update s revision) changedServices (hm_serviceRevisions m),
              hm_notify := hm_notify m + 1\<rparr>))"

definition healthVersionLocked :: "string \<Rightarrow> HealthManager \<Rightarrow> int" where
  "healthVersionLocked service m =
     (if service = '''' then hm_revision m
      else case map_of (hm_serviceRevisions m) service of Some v \<Rightarrow> v | None \<Rightarrow> 0)"

definition listLocked :: "string \<Rightarrow> HealthManager \<Rightarrow> EndpointHealth list" where
  "listLocked service m =
     sort_key (\<lambda>h. (eh_Service h, eh_InstanceID h))
       (filter (\<lambda>h. service = '''' \<or> eh_Service h = service) (map snd (hm_health m)))"


section \<open>Operations\<close>

definition SetServiceStateMachineConfig ::
    "gotime \<Rightarrow> string \<Rightarrow> StateMachineConfig \<Rightarrow> HealthManager \<Rightarrow> bool \<times> HealthManager" where
  "SetServiceStateMachineConfig now service cfg m =
     (if service = '''' then (False, m)
      else
        (let before = stateMachineConfigLocked m service;
             m = m\<lparr>hm_serviceStateMachines := AList.update service cfg (hm_serviceStateMachines m)\<rparr>
         in if config_eq before (stateMachineConfigLocked m service) then (False, m)
            else (True, bumpIfChangedLocked [service] (resetStateMachineCountersLocked now service m))))"

definition changed_configs ::
    "(string \<times> StateMachineConfig) list \<Rightarrow> HealthManager \<Rightarrow> string list" where
  "changed_configs configs m =
     (let base = hm_baseStateMachine m;
          old = hm_serviceStateMachines m;
          get = (\<lambda>cs s. case map_of cs s of Some c \<Rightarrow> c | None \<Rightarrow> zero_config)
      in remdups (map fst (filter (\<lambda>(s, c). \<not> config_eq (resolveStateMachineConfig base c)
                                     (resolveStateMachineConfig base (get configs s))) old) @
                  map fst (filter (\<lambda>(s, c). map_of old s = None \<and>
                      \<not> config_eq (resolveStateMachineConfig base zero_config) (resolveStateMachineConfig base c)) configs)))"

definition ReplaceServiceStateMachineConfigs ::
    "gotime \<Rightarrow> (string \<times> StateMachineConfig) list \<Rightarrow> HealthManager \<Rightarrow> nat \<times> HealthManager" where
  "ReplaceServiceStateMachineConfigs now configs m =
     (let configs = cloneStateMachineConfigs configs;
          changedServices = changed_configs configs m;
          m = m\<lparr>hm_serviceStateMachines := configs\<rparr>;
          m = fold (resetStateMachineCountersLocked now) changedServices m
      in (length changedServices, bumpIfChangedLocked changedServices m))"

definition EffectiveStateMachineConfig :: "HealthManager \<Rightarrow> string \<Rightarrow> StateMachineConfig" where
  "EffectiveStateMachineConfig m service = stateMachineConfigLocked m service"

definition sampled_health ::
    "gotime \<Rightarrow> gotime \<Rightarrow> (string \<Rightarrow> StateMachineConfig) \<Rightarrow> scores \<Rightarrow> EndpointSample \<Rightarrow> EndpointHealth option \<Rightarrow> EndpointHealth" where
  "sampled_health now clock machine scores s before =
     (let fresh = NewEndpointHealth (sp_Service s) (sp_InstanceID s) (sp_Address s) [sp_RegistrationEpoch s];
          h = (case before of
                 None \<Rightarrow> fresh
               | Some b \<Rightarrow>
                   if eh_Service b = '''' \<or> endpointAddressChanged b (sp_Address s) \<or>
                      endpointRegistrationEpochChanged b (sp_RegistrationEpoch s)
                   then fresh else b);
          h = (if sp_Address s \<noteq> '''' then h\<lparr>eh_Address := sp_Address s\<rparr> else h);
          h = (if sp_RegistrationEpoch s \<noteq> '''' then h\<lparr>eh_RegistrationEpoch := sp_RegistrationEpoch s\<rparr> else h);
          score = (case map_of scores (ScoreKey (sp_Service s) (sp_InstanceID s)) of
                     Some sc \<Rightarrow> sc_Score sc | None \<Rightarrow> fzero)
      in Apply (machine (eh_Service h)) clock h
           \<lparr>in_Now = now, in_SlowScore = score, in_SuccessRate = successRate s\<rparr>)"

definition update_sample ::
    "gotime \<Rightarrow> gotime \<Rightarrow> (string \<Rightarrow> StateMachineConfig) \<Rightarrow> scores \<Rightarrow> EndpointSample
      \<Rightarrow> health_map \<times> string list \<Rightarrow> health_map \<times> string list" where
  "update_sample now clock machine scores s acc =
     (if \<not> usable_sample s then acc
      else
        (case acc of (health, changed) \<Rightarrow>
           (let key = ScoreKey (sp_Service s) (sp_InstanceID s);
                before = map_of health key;
                h = sampled_health now clock machine scores s before
            in if (case before of None \<Rightarrow> True | Some b \<Rightarrow> \<not> endpointHealthEqualIgnoringUpdatedAt b h)
               then (AList.update key (h\<lparr>eh_UpdatedAt := now\<rparr>) health, sp_Service s # changed)
               else (AList.update key h health, changed))))"

definition Update ::
    "(grouped \<Rightarrow> grouped) \<Rightarrow> (EndpointSample list \<Rightarrow> EndpointSample list) \<Rightarrow> gotime \<Rightarrow> gotime \<Rightarrow> EndpointSample list
      \<Rightarrow> HealthManager \<Rightarrow> EndpointHealth list \<times> HealthManager" where
  "Update perm_services perm now clock samples m =
     (let scores = Calculate perm_services perm (hm_calculator m) samples;
          (health, changedServices) =
            fold (update_sample now clock (stateMachineForLocked m) scores) samples (hm_health m, []);
          m = bumpIfChangedLocked changedServices (m\<lparr>hm_health := health\<rparr>)
      in (listLocked '''' m, m))"

definition tick_entry :: "gotime \<Rightarrow> gotime \<Rightarrow> (string \<Rightarrow> StateMachineConfig) \<Rightarrow> EndpointHealth \<Rightarrow> EndpointHealth" where
  "tick_entry now clock machine h =
     Apply (machine (eh_Service h)) clock h \<lparr>in_Now = now, in_SlowScore = eh_SlowScore h, in_SuccessRate = of_rat64 1\<rparr>"

definition Tick :: "gotime \<Rightarrow> gotime \<Rightarrow> HealthManager \<Rightarrow> EndpointHealth list \<times> HealthManager" where
  "Tick now clock m =
     (let tick = tick_entry now clock (stateMachineForLocked m);
          changedServices = map (\<lambda>(key, h). eh_Service (tick h)) (filter (\<lambda>(key, h). \<not> health_eq h (tick h)) (hm_health m));
          health = map (\<lambda>(key, h). (key, if health_eq h (tick h) then tick h else (tick h)\<lparr>eh_UpdatedAt := now\<rparr>)) (hm_health m);
          m = bumpIfChangedLocked changedServices (m\<lparr>hm_health := health\<rparr>)
      in (listLocked '''' m, m))"

definition Get :: "string \<Rightarrow> string \<Rightarrow> HealthManager \<Rightarrow> EndpointHealth option" where
  "Get service instanceID m = map_of (hm_health m) (ScoreKey service instanceID)"

definition HealthState :: "string \<Rightarrow> string \<Rightarrow> HealthManager \<Rightarrow> Code option" where
  "HealthState service instanceID m = map_option eh_State (Get service instanceID m)"

definition normalised_record :: "gotime \<Rightarrow> EndpointHealth \<Rightarrow> EndpointHealth" where
  "normalised_record now h =
     (let h = (if eh_State h = Unspecified then h\<lparr>eh_State := Healthy\<rparr> else h)
      in if IsZero (eh_UpdatedAt h) then h\<lparr>eh_UpdatedAt := now\<rparr> else h)"

definition merge_record :: "gotime \<Rightarrow> EndpointHealth \<Rightarrow> health_map \<times> string list \<Rightarrow> health_map \<times> string list" where
  "merge_record now h acc =
     (if eh_Service h = '''' \<or> eh_InstanceID h = '''' then acc
      else
        (case acc of (health, changed) \<Rightarrow>
           (let h = normalised_record now h;
                key = ScoreKey (eh_Service h) (eh_InstanceID h)
            in case map_of health key of
                 None \<Rightarrow> (AList.update key h health, eh_Service h # changed)
               | Some cur \<Rightarrow>
                   if eh_UpdatedAt cur > eh_UpdatedAt h then (health, changed)
                   else if endpointHealthEqualIgnoringUpdatedAt cur h
                   then (if eh_UpdatedAt h > eh_UpdatedAt cur
                         then (AList.update key (cur\<lparr>eh_UpdatedAt := eh_UpdatedAt h\<rparr>) health, changed)
                         else (health, changed))
                   else (AList.update key h health, eh_Service h # changed))))"

definition MergeSnapshot :: "gotime \<Rightarrow> EndpointHealth list \<Rightarrow> HealthManager \<Rightarrow> nat \<times> HealthManager" where
  "MergeSnapshot now snapshot m =
     (let (health, changedServices) = fold (merge_record now) snapshot (hm_health m, [])
      in (length (remdups changedServices), bumpIfChangedLocked changedServices (m\<lparr>hm_health := health\<rparr>)))"

definition retained :: "(EndpointIdentity \<times> string) list \<Rightarrow> EndpointHealth \<Rightarrow> bool" where
  "retained retain h = (case retainedEndpointAddress retain h of
     Some registeredAddress \<Rightarrow> endpointAddressMatches (eh_Address h) registeredAddress
   | None \<Rightarrow> False)"

definition PruneMissing :: "(EndpointIdentity \<times> string) list option \<Rightarrow> HealthManager \<Rightarrow> nat \<times> HealthManager" where
  "PruneMissing retain m =
     (case retain of
        None \<Rightarrow> (0, m)
      | Some retain \<Rightarrow>
          (let gone = filter (\<lambda>(key, h). \<not> retained retain h) (hm_health m)
           in (length gone, bumpIfChangedLocked (map (\<lambda>(key, h). eh_Service h) gone)
                 (m\<lparr>hm_health := filter (\<lambda>(key, h). retained retain h) (hm_health m)\<rparr>))))"

section \<open>Runs\<close>

datatype hm_op =
    UpdateOp "grouped \<Rightarrow> grouped" "EndpointSample list \<Rightarrow> EndpointSample list" gotime gotime "EndpointSample list"
  | TickOp gotime gotime
  | MergeOp gotime "EndpointHealth list"
  | PruneOp "(EndpointIdentity \<times> string) list option"
  | SetConfigOp gotime string StateMachineConfig
  | ReplaceConfigsOp gotime "(string \<times> StateMachineConfig) list"

fun run_hm_op :: "hm_op \<Rightarrow> HealthManager \<Rightarrow> HealthManager" where
  "run_hm_op (UpdateOp ps p now clock samples) m = snd (Update ps p now clock samples m)"
| "run_hm_op (TickOp now clock) m = snd (Tick now clock m)"
| "run_hm_op (MergeOp now snapshot) m = snd (MergeSnapshot now snapshot m)"
| "run_hm_op (PruneOp retain) m = snd (PruneMissing retain m)"
| "run_hm_op (SetConfigOp now service cfg) m = snd (SetServiceStateMachineConfig now service cfg m)"
| "run_hm_op (ReplaceConfigsOp now configs) m = snd (ReplaceServiceStateMachineConfigs now configs m)"

text \<open>Service names without a slash, so that the key of a record determines its service.\<close>

definition plain :: "string \<Rightarrow> bool" where
  "plain s \<longleftrightarrow> CHR ''/'' \<notin> set s"

fun plain_op :: "hm_op \<Rightarrow> bool" where
  "plain_op (UpdateOp ps p now clock samples) \<longleftrightarrow> (\<forall>s\<in>set samples. plain (sp_Service s))"
| "plain_op (MergeOp now snapshot) \<longleftrightarrow> (\<forall>h\<in>set snapshot. plain (eh_Service h))"
| "plain_op _ \<longleftrightarrow> True"

inductive hm_reach :: "nat \<Rightarrow> HealthManager \<Rightarrow> bool" where
  start: "hm_reach 0 (NewHealthManager weights slo sm services)"
| step: "hm_reach n m \<Longrightarrow> plain_op op \<Longrightarrow> hm_reach (Suc n) (run_hm_op op m)"


section \<open>Keys\<close>

lemma ScoreKey_inject:
  assumes "plain s" "plain t" "ScoreKey s i = ScoreKey t j"
  shows "s = t \<and> i = j"
proof -
  have "takeWhile (\<lambda>c. c \<noteq> CHR ''/'') (ScoreKey s i) = s" if "plain s" for s i
    using that unfolding ScoreKey_def plain_def by (induction s) auto
  then have "s = t"
    using assms by metis
  then show ?thesis
    using assms(3) by (simp add: ScoreKey_def)
qed

lemma Apply_identity [simp]:
  "eh_Service (Apply m clock h i) = eh_Service h" "eh_InstanceID (Apply m clock h i) = eh_InstanceID h"
  by (simp_all add: Apply_def Let_def transition_def count_window_def)

definition key_ok :: "string \<times> EndpointHealth \<Rightarrow> bool" where
  "key_ok e \<longleftrightarrow> fst e = ScoreKey (eh_Service (snd e)) (eh_InstanceID (snd e)) \<and> plain (eh_Service (snd e))"

definition keys_ok :: "health_map \<Rightarrow> bool" where
  "keys_ok h \<longleftrightarrow> distinct (map fst h) \<and> (\<forall>e\<in>set h. key_ok e)"

lemma keys_ok_lookup:
  assumes "keys_ok h" "map_of h (ScoreKey s i) = Some b" "plain s"
  shows "eh_Service b = s" "eh_InstanceID b = i"
  using assms ScoreKey_inject [of "eh_Service b" s "eh_InstanceID b" i]
  by (auto simp: keys_ok_def key_ok_def dest!: map_of_SomeD)

lemma keys_ok_update:
  assumes "keys_ok h" "key_ok (k, v)"
  shows "keys_ok (AList.update k v h)"
proof -
  have "set (AList.update k v h) \<subseteq> insert (k, v) (set h)"
    by (induction h) auto
  then show ?thesis
    using assms distinct_update [of h k v] by (auto simp: keys_ok_def)
qed

lemma keys_ok_map:
  assumes "keys_ok h" "\<And>v. eh_Service (f v) = eh_Service v \<and> eh_InstanceID (f v) = eh_InstanceID v"
  shows "keys_ok (map (\<lambda>(k, v). (k, f v)) h)"
  using assms by (auto simp: keys_ok_def key_ok_def comp_def case_prod_beta)

lemma keys_ok_filter: "keys_ok h \<Longrightarrow> keys_ok (filter P h)"
  by (auto simp: keys_ok_def distinct_map_filter)


section \<open>Changes that are flagged\<close>

definition unchanged :: "EndpointHealth \<Rightarrow> EndpointHealth \<Rightarrow> bool" where
  "unchanged a b \<longleftrightarrow> a = b \<or> endpointHealthEqualIgnoringUpdatedAt a b"

definition same_service :: "string \<Rightarrow> health_map \<Rightarrow> health_map \<Rightarrow> bool" where
  "same_service s h h' \<longleftrightarrow> (\<forall>i. rel_option unchanged (map_of h (ScoreKey s i)) (map_of h' (ScoreKey s i)))"

text \<open>Every plain service whose records differ between \<open>h\<close> and \<open>h'\<close> is among \<open>changed\<close>.\<close>

definition flagged :: "string list \<Rightarrow> health_map \<Rightarrow> health_map \<Rightarrow> bool" where
  "flagged changed h h' \<longleftrightarrow> (\<forall>s. plain s \<longrightarrow> s \<notin> set changed \<longrightarrow> same_service s h h')"

lemma feq_trans: "feq a b \<Longrightarrow> feq b c \<Longrightarrow> feq a c"
  by (cases a; cases b; cases c) (auto split: if_splits)

lemma unchanged_trans: "unchanged a b \<Longrightarrow> unchanged b c \<Longrightarrow> unchanged a c"
  by (auto simp: unchanged_def endpointHealthEqualIgnoringUpdatedAt_def health_eq_def dest: feq_trans)

lemma unchanged_refl [simp]: "unchanged a a"
  by (simp add: unchanged_def)

lemma same_service_refl [simp]: "same_service s h h"
  by (simp add: same_service_def option.rel_refl)

lemma same_service_trans:
  assumes "same_service s a b" "same_service s b c"
  shows "same_service s a c"
proof -
  have "transp unchanged"
    by (auto intro: transpI unchanged_trans)
  then have "transp (rel_option unchanged)"
    by (rule option.rel_transp)
  then show ?thesis
    using assms by (auto simp: same_service_def dest: transpD)
qed

lemma flagged_refl [simp]: "flagged changed h h"
  by (simp add: flagged_def)

lemma flagged_trans:
  assumes "flagged c a b" "flagged d b e" "set c \<subseteq> set d"
  shows "flagged d a e"
  using assms same_service_trans by (auto simp: flagged_def)

lemma flagged_update:
  assumes "plain t" "t \<notin> set changed \<Longrightarrow> rel_option unchanged (map_of h (ScoreKey t i)) (Some v)"
  shows "flagged changed h (AList.update (ScoreKey t i) v h)"
proof -
  have "rel_option unchanged (map_of h (ScoreKey s j)) (map_of (AList.update (ScoreKey t i) v h) (ScoreKey s j))"
    if "plain s" "s \<notin> set changed" for s j
  proof (cases "ScoreKey s j = ScoreKey t i")
    case True
    then have "s = t \<and> j = i"
      using ScoreKey_inject [OF that(1) assms(1)] by blast
    then show ?thesis
      using assms(2) that(2) by (simp add: update_conv')
  next
    case False
    then show ?thesis
      by (simp add: update_conv' option.rel_refl)
  qed
  then show ?thesis
    by (simp add: flagged_def same_service_def)
qed

lemma flagged_map:
  assumes "keys_ok h" "\<And>v. unchanged v (f v) \<or> (\<forall>k. (k, v) \<in> set h \<longrightarrow> eh_Service v \<in> set changed)"
  shows "flagged changed h (map (\<lambda>(k, v). (k, f v)) h)"
proof -
  have "rel_option unchanged (map_of h (ScoreKey s j)) (map_option f (map_of h (ScoreKey s j)))"
    if "plain s" "s \<notin> set changed" for s j
  proof (cases "map_of h (ScoreKey s j)")
    case (Some v)
    then have "eh_Service v = s" "(ScoreKey s j, v) \<in> set h"
      using keys_ok_lookup [OF assms(1) Some that(1)] by (auto dest: map_of_SomeD)
    then show ?thesis
      using assms(2) [of v] that(2) Some by auto
  qed simp
  then show ?thesis
    by (simp add: flagged_def same_service_def map_of_map)
qed

lemma flagged_filter:
  assumes "keys_ok h" "\<And>k v. (k, v) \<in> set h \<Longrightarrow> \<not> P (k, v) \<Longrightarrow> eh_Service v \<in> set changed"
  shows "flagged changed h (filter P h)"
proof -
  have "map_of (filter P h) (ScoreKey s j) = map_of h (ScoreKey s j)" if "plain s" "s \<notin> set changed" for s j
  proof (cases "map_of h (ScoreKey s j)")
    case None
    then have "map_of (filter P h) (ScoreKey s j) = None"
      unfolding map_of_eq_None_iff by auto
    then show ?thesis
      using None by simp
  next
    case (Some v)
    then have v: "eh_Service v = s" "(ScoreKey s j, v) \<in> set h"
      using keys_ok_lookup [OF assms(1) Some that(1)] by (auto dest: map_of_SomeD)
    then have "(ScoreKey s j, v) \<in> set (filter P h)"
      using assms(2) that(2) by auto
    moreover have "distinct (map fst (filter P h))"
      using assms(1) by (simp add: keys_ok_def distinct_map_filter)
    ultimately show ?thesis
      using Some by simp
  qed
  then show ?thesis
    by (simp add: flagged_def same_service_def option.rel_refl)
qed

section \<open>Every operation flags what it changes\<close>

definition step_ok :: "health_map \<times> string list \<Rightarrow> health_map \<times> string list \<Rightarrow> bool" where
  "step_ok acc acc' \<longleftrightarrow> keys_ok (fst acc') \<and> flagged (snd acc') (fst acc) (fst acc') \<and> set (snd acc) \<subseteq> set (snd acc')"

lemma step_ok_refl: "keys_ok (fst acc) \<Longrightarrow> step_ok acc acc"
  by (simp add: step_ok_def)

lemma step_ok_fold:
  assumes "\<And>x acc. x \<in> set xs \<Longrightarrow> keys_ok (fst acc) \<Longrightarrow> step_ok acc (f x acc)" "keys_ok (fst acc)"
  shows "step_ok acc (fold f xs acc)"
  using assms
proof (induction xs arbitrary: acc)
  case (Cons x xs)
  have one: "step_ok acc (f x acc)"
    using Cons.prems by simp
  then have "keys_ok (fst (f x acc))"
    by (simp add: step_ok_def)
  then have "step_ok (f x acc) (fold f xs (f x acc))"
    using Cons by simp
  then show ?case
    using one flagged_trans by (auto simp: step_ok_def)
qed (simp add: step_ok_refl)

lemma step_ok_insert:
  assumes "keys_ok h" "plain t" "key_ok (ScoreKey t i, v)"
  shows "step_ok (h, changed) (AList.update (ScoreKey t i) v h, t # changed)"
  using assms keys_ok_update flagged_update [of t "t # changed"] by (auto simp: step_ok_def)

lemma step_ok_quiet:
  assumes "keys_ok h" "plain t" "key_ok (ScoreKey t i, v)" "map_of h (ScoreKey t i) = Some b" "unchanged b v"
  shows "step_ok (h, changed) (AList.update (ScoreKey t i) v h, changed)"
  using assms keys_ok_update flagged_update [of t changed h i v] by (auto simp: step_ok_def)

lemma sampled_health_identity:
  "eh_Service (sampled_health now clock machine scores s before) =
     (case before of None \<Rightarrow> sp_Service s | Some b \<Rightarrow> if eh_Service b = '''' \<or> endpointAddressChanged b (sp_Address s) \<or>
        endpointRegistrationEpochChanged b (sp_RegistrationEpoch s) then sp_Service s else eh_Service b)"
  "eh_InstanceID (sampled_health now clock machine scores s before) =
     (case before of None \<Rightarrow> sp_InstanceID s | Some b \<Rightarrow> if eh_Service b = '''' \<or> endpointAddressChanged b (sp_Address s) \<or>
        endpointRegistrationEpochChanged b (sp_RegistrationEpoch s) then sp_InstanceID s else eh_InstanceID b)"
  by (cases before; cases "sp_Address s = ''''"; cases "sp_RegistrationEpoch s = ''''";
      simp add: sampled_health_def Let_def NewEndpointHealth_def)+

lemma update_sample_ok:
  assumes "plain (sp_Service s)" "keys_ok (fst acc)"
  shows "step_ok acc (update_sample now clock machine scores s acc)"
proof (cases "usable_sample s")
  case True
  obtain h changed where acc: "acc = (h, changed)"
    by fastforce
  let ?t = "sp_Service s" and ?i = "sp_InstanceID s"
  define v where "v = sampled_health now clock machine scores s (map_of h (ScoreKey ?t ?i))"
  have "eh_Service v = ?t \<and> eh_InstanceID v = ?i"
  proof (cases "map_of h (ScoreKey ?t ?i)")
    case (Some b)
    then have "eh_Service b = ?t" "eh_InstanceID b = ?i"
      using keys_ok_lookup [OF _ Some assms(1)] assms(2) acc by simp_all
    then show ?thesis
      using Some unfolding v_def by (simp add: sampled_health_identity)
  qed (simp add: v_def sampled_health_identity)
  moreover have "update_sample now clock machine scores s acc =
      (if (case map_of h (ScoreKey ?t ?i) of None \<Rightarrow> True | Some b \<Rightarrow> \<not> endpointHealthEqualIgnoringUpdatedAt b v)
       then (AList.update (ScoreKey ?t ?i) (v\<lparr>eh_UpdatedAt := now\<rparr>) h, ?t # changed)
       else (AList.update (ScoreKey ?t ?i) v h, changed))"
    using True unfolding v_def by (simp add: update_sample_def acc Let_def)
  ultimately have v: "eh_Service v = ?t" "eh_InstanceID v = ?i"
    "update_sample now clock machine scores s acc =
      (if (case map_of h (ScoreKey ?t ?i) of None \<Rightarrow> True | Some b \<Rightarrow> \<not> endpointHealthEqualIgnoringUpdatedAt b v)
       then (AList.update (ScoreKey ?t ?i) (v\<lparr>eh_UpdatedAt := now\<rparr>) h, ?t # changed)
       else (AList.update (ScoreKey ?t ?i) v h, changed))"
    by simp_all
  have keys: "key_ok (ScoreKey ?t ?i, v)" "key_ok (ScoreKey ?t ?i, v\<lparr>eh_UpdatedAt := now\<rparr>)"
    using v(1, 2) assms(1) by (simp_all add: key_ok_def)
  show ?thesis
  proof (cases "map_of h (ScoreKey ?t ?i)")
    case None
    then show ?thesis
      using v(3) acc keys assms step_ok_insert by simp
  next
    case (Some b)
    then show ?thesis
      using v(3) acc keys assms step_ok_insert step_ok_quiet [of h ?t ?i v b changed] by (simp add: unchanged_def)
  qed
qed (use assms in \<open>simp add: update_sample_def step_ok_refl\<close>)

lemma merge_record_ok:
  assumes "plain (eh_Service r)" "keys_ok (fst acc)"
  shows "step_ok acc (merge_record now r acc)"
proof (cases "eh_Service r = '''' \<or> eh_InstanceID r = ''''")
  case False
  obtain h changed where acc: "acc = (h, changed)"
    by fastforce
  let ?t = "eh_Service r" and ?i = "eh_InstanceID r"
  define v where "v = normalised_record now r"
  have v: "eh_Service v = ?t" "eh_InstanceID v = ?i"
    by (simp_all add: v_def normalised_record_def Let_def)

  then have key: "key_ok (ScoreKey ?t ?i, v)"
    using assms(1) by (simp add: key_ok_def)
  have merge: "merge_record now r acc =
      (case map_of h (ScoreKey ?t ?i) of
         None \<Rightarrow> (AList.update (ScoreKey ?t ?i) v h, ?t # changed)
       | Some cur \<Rightarrow>
           if eh_UpdatedAt cur > eh_UpdatedAt v then (h, changed)
           else if endpointHealthEqualIgnoringUpdatedAt cur v
           then (if eh_UpdatedAt v > eh_UpdatedAt cur
                 then (AList.update (ScoreKey ?t ?i) (cur\<lparr>eh_UpdatedAt := eh_UpdatedAt v\<rparr>) h, changed)
                 else (h, changed))
           else (AList.update (ScoreKey ?t ?i) v h, ?t # changed))"
    using False v by (simp add: merge_record_def acc Let_def split: option.split flip: v_def)
  show ?thesis
  proof (cases "map_of h (ScoreKey ?t ?i)")
    case None
    then show ?thesis
      using merge acc key assms step_ok_insert by simp
  next
    case (Some b)
    have b: "eh_Service b = ?t" "eh_InstanceID b = ?i"
      using keys_ok_lookup [OF _ Some assms(1)] assms(2) acc by simp_all
    have "endpointHealthEqualIgnoringUpdatedAt b v \<Longrightarrow> unchanged b (b\<lparr>eh_UpdatedAt := eh_UpdatedAt v\<rparr>)"
      by (cases "eh_SlowScore b"; cases "eh_SlowScore v")
        (auto simp: unchanged_def endpointHealthEqualIgnoringUpdatedAt_def health_eq_def)
    moreover have "key_ok (ScoreKey ?t ?i, b\<lparr>eh_UpdatedAt := eh_UpdatedAt v\<rparr>)"
      using b assms(1) by (simp add: key_ok_def)
    moreover have "step_ok (h, changed) (AList.update (ScoreKey ?t ?i) v h, ?t # changed)"
      using step_ok_insert key assms acc by simp
    ultimately show ?thesis
      using merge acc assms Some step_ok_refl [of acc]
        step_ok_quiet [of h ?t ?i "b\<lparr>eh_UpdatedAt := eh_UpdatedAt v\<rparr>" b changed] by simp
  qed
qed (use assms in \<open>simp add: merge_record_def step_ok_refl\<close>)

text \<open>The revisions recorded for services do not exceed the manager's.\<close>

definition revisions_ok :: "int \<Rightarrow> (string \<times> int) list \<Rightarrow> bool" where
  "revisions_ok n rs \<longleftrightarrow> 0 \<le> n \<and> (\<forall>s v. map_of rs s = Some v \<longrightarrow> v \<le> n)"

definition hm_inv :: "HealthManager \<Rightarrow> bool" where
  "hm_inv m \<longleftrightarrow> keys_ok (hm_health m) \<and> revisions_ok (hm_revision m) (hm_serviceRevisions m)"

lemma fold_update_lookup:
  "map_of (fold (\<lambda>s. AList.update s r) cs rs) s = (if s \<in> set cs then Some r else map_of rs s)"
  by (induction cs arbitrary: rs) (auto simp: update_conv')

lemma bump_fields [simp]:
  "hm_health (bumpIfChangedLocked cs m) = hm_health m"
  by (simp add: bumpIfChangedLocked_def Let_def)

definition tracked :: "HealthManager \<Rightarrow> HealthManager \<Rightarrow> bool" where
  "tracked m m' \<longleftrightarrow> hm_inv m' \<and> hm_revision m \<le> hm_revision m' \<and> hm_revision m' \<le> hm_revision m + 1 \<and>
     (\<forall>s. s \<noteq> '''' \<longrightarrow> plain s \<longrightarrow> healthVersionLocked s m \<le> healthVersionLocked s m' \<and>
       (healthVersionLocked s m' = healthVersionLocked s m \<longrightarrow> same_service s (hm_health m) (hm_health m')))"

lemma bump_tracked:
  assumes "hm_inv m" "hm_revision m < max_int64" "keys_ok (hm_health m1)" "flagged cs (hm_health m) (hm_health m1)"
    and "hm_revision m1 = hm_revision m" "hm_serviceRevisions m1 = hm_serviceRevisions m"
  shows "tracked m (bumpIfChangedLocked cs m1)"
proof (cases "cs = []")
  case True
  then show ?thesis
    using assms by (simp add: bumpIfChangedLocked_def tracked_def hm_inv_def healthVersionLocked_def flagged_def)
next
  case False
  let ?m = "bumpIfChangedLocked cs m1"
  have r0: "0 \<le> hm_revision m"
    using assms(1) by (simp add: hm_inv_def revisions_ok_def)
  then have wrap: "wrap64 (hm_revision m + 1) = hm_revision m + 1"
    using assms(2) by (intro wrap64_id) (simp_all add: min_int64_def)
  have m': "hm_revision ?m = hm_revision m + 1" "hm_health ?m = hm_health m1"
    "\<And>s. map_of (hm_serviceRevisions ?m) s = (if s \<in> set cs then Some (hm_revision m + 1) else map_of (hm_serviceRevisions m) s)"
    using False assms(5, 6) wrap by (simp_all add: bumpIfChangedLocked_def Let_def fold_update_lookup)
  have old: "map_of (hm_serviceRevisions m) s = Some v \<Longrightarrow> v \<le> hm_revision m" for s v
    using assms(1) by (simp add: hm_inv_def revisions_ok_def)
  have "hm_inv ?m"
    using assms(3) m' r0 old by (fastforce simp: hm_inv_def revisions_ok_def split: if_splits)
  moreover have "healthVersionLocked s m \<le> healthVersionLocked s ?m \<and>
      (healthVersionLocked s ?m = healthVersionLocked s m \<longrightarrow> same_service s (hm_health m) (hm_health m1))"
    if "s \<noteq> ''''" "plain s" for s
  proof (cases "s \<in> set cs")
    case True
    then have "healthVersionLocked s ?m = hm_revision m + 1" "healthVersionLocked s m \<le> hm_revision m"
      using that(1) m'(3) r0 old by (auto simp: healthVersionLocked_def split: option.splits)
    then show ?thesis
      by simp
  next
    case False
    then show ?thesis
      using that m'(3) assms(4) by (simp add: healthVersionLocked_def flagged_def)
  qed
  ultimately show ?thesis
    using m' by (simp add: tracked_def)
qed

definition reset_entry :: "gotime \<Rightarrow> string \<Rightarrow> EndpointHealth \<Rightarrow> EndpointHealth" where
  "reset_entry now service h =
     (if eh_Service h \<noteq> service then h
      else if eh_ConsecutiveSlowWindows h = 0 \<and> eh_ConsecutiveEjectWindows h = 0 then h
      else h\<lparr>eh_ConsecutiveSlowWindows := 0, eh_ConsecutiveEjectWindows := 0, eh_UpdatedAt := now\<rparr>)"

lemma reset_eq:
  "resetStateMachineCountersLocked now service m = m\<lparr>hm_health := map (\<lambda>(k, h). (k, reset_entry now service h)) (hm_health m)\<rparr>"
  by (simp add: resetStateMachineCountersLocked_def reset_entry_def)

lemma reset_step:
  assumes "keys_ok h" "service \<in> set cs"
  shows "keys_ok (map (\<lambda>(k, h). (k, reset_entry now service h)) h) \<and> flagged cs h (map (\<lambda>(k, h). (k, reset_entry now service h)) h)"
  using keys_ok_map [OF assms(1), of "reset_entry now service"] flagged_map [OF assms(1), of "reset_entry now service" cs] assms(2)
  by (auto simp: reset_entry_def)

lemma fold_reset:
  fixes now :: gotime
  assumes "keys_ok (hm_health m)" "set xs \<subseteq> set cs"
  defines "m' \<equiv> fold (resetStateMachineCountersLocked now) xs m"
  shows "keys_ok (hm_health m') \<and> flagged cs (hm_health m) (hm_health m') \<and> hm_revision m' = hm_revision m \<and>
    hm_serviceRevisions m' = hm_serviceRevisions m"
  using assms(1, 2) unfolding m'_def
proof (induction xs arbitrary: m)
  case (Cons x xs)
  let ?m = "resetStateMachineCountersLocked now x m"
  have "keys_ok (hm_health ?m)" "flagged cs (hm_health m) (hm_health ?m)"
    using reset_step [of "hm_health m" x cs now] Cons.prems by (simp_all add: reset_eq)
  then show ?case
    using Cons.IH [of ?m] Cons.prems(2) flagged_trans [of cs "hm_health m" "hm_health ?m" cs] by (auto simp: reset_eq)
qed simp

lemma config_ops_tracked:
  assumes "hm_inv m" "hm_revision m < max_int64"
  shows "tracked m (snd (SetServiceStateMachineConfig now service cfg m))"
    "tracked m (snd (ReplaceServiceStateMachineConfigs now configs m))"
proof -
  have keys: "keys_ok (hm_health m)"
    using assms(1) by (simp add: hm_inv_def)
  have quiet: "tracked m m1" if "hm_health m1 = hm_health m" "hm_revision m1 = hm_revision m" "hm_serviceRevisions m1 = hm_serviceRevisions m" for m1
    using bump_tracked [OF assms, of m1 "[]"] that keys by (simp add: bumpIfChangedLocked_def)
  let ?m1 = "m\<lparr>hm_serviceStateMachines := AList.update service cfg (hm_serviceStateMachines m)\<rparr>"
  have "tracked m (bumpIfChangedLocked [service] (resetStateMachineCountersLocked now service ?m1))"
    using reset_step [OF keys, of service "[service]" now] by (intro bump_tracked [OF assms]) (simp_all add: reset_eq)
  then show "tracked m (snd (SetServiceStateMachineConfig now service cfg m))"
    using quiet [of ?m1] quiet [of m] by (simp add: SetServiceStateMachineConfig_def Let_def)
  let ?cs = "changed_configs (cloneStateMachineConfigs configs) m"
  let ?m2 = "m\<lparr>hm_serviceStateMachines := cloneStateMachineConfigs configs\<rparr>"
  show "tracked m (snd (ReplaceServiceStateMachineConfigs now configs m))"
    using fold_reset [of ?m2 ?cs ?cs now] keys
    by (auto simp: ReplaceServiceStateMachineConfigs_def Let_def intro!: bump_tracked [OF assms])
qed

lemma health_eq_ignoring: "health_eq a b \<Longrightarrow> endpointHealthEqualIgnoringUpdatedAt a b"
  by (cases a; cases b) (simp add: endpointHealthEqualIgnoringUpdatedAt_def health_eq_def)

lemma Tick_tracked:
  assumes "hm_inv m" "hm_revision m < max_int64"
  shows "tracked m (snd (Tick now clock m))"
proof -
  let ?t = "tick_entry now clock (stateMachineForLocked m)"
  let ?f = "\<lambda>h. if health_eq h (?t h) then ?t h else (?t h)\<lparr>eh_UpdatedAt := now\<rparr>"
  let ?cs = "map (\<lambda>(key, h). eh_Service (?t h)) (filter (\<lambda>(key, h). \<not> health_eq h (?t h)) (hm_health m))"
  have keys: "keys_ok (hm_health m)"
    using assms(1) by (simp add: hm_inv_def)
  have id: "eh_Service (?f h) = eh_Service h \<and> eh_InstanceID (?f h) = eh_InstanceID h" for h
    by (simp add: tick_entry_def)
  have "unchanged h (?f h) \<or> (\<forall>k. (k, h) \<in> set (hm_health m) \<longrightarrow> eh_Service h \<in> set ?cs)" for h
  proof (cases "health_eq h (?t h)")
    case True
    then show ?thesis
      using health_eq_ignoring by (simp add: unchanged_def)
  next
    case False
    then show ?thesis
      by (auto simp: tick_entry_def image_iff)
  qed
  then have "flagged ?cs (hm_health m) (map (\<lambda>(k, h). (k, ?f h)) (hm_health m))"
    by (rule flagged_map [OF keys])
  then show ?thesis
    unfolding Tick_def Let_def snd_conv
    using keys_ok_map [OF keys id] by (intro bump_tracked [OF assms]) simp_all
qed

lemma Prune_tracked:
  assumes "hm_inv m" "hm_revision m < max_int64"
  shows "tracked m (snd (PruneMissing retain m))"
proof (cases retain)
  case None
  then show ?thesis
    using bump_tracked [OF assms, of m "[]"] assms(1)
    by (simp add: PruneMissing_def bumpIfChangedLocked_def hm_inv_def)
next
  case (Some r)
  have keys: "keys_ok (hm_health m)"
    using assms(1) by (simp add: hm_inv_def)
  have "flagged (map (\<lambda>(key, h). eh_Service h) (filter (\<lambda>(key, h). \<not> retained r h) (hm_health m))) (hm_health m)
      (filter (\<lambda>(key, h). retained r h) (hm_health m))"
    by (rule flagged_filter [OF keys]) (auto simp: image_iff)
  then show ?thesis
    unfolding PruneMissing_def Some option.case Let_def snd_conv
    using keys_ok_filter [OF keys] by (intro bump_tracked [OF assms]) simp_all
qed

lemma fold_tracked:
  assumes "hm_inv m" "hm_revision m < max_int64" "step_ok (hm_health m, []) (h, cs)"
  shows "tracked m (bumpIfChangedLocked cs (m\<lparr>hm_health := h\<rparr>))"
  using assms by (intro bump_tracked) (simp_all add: step_ok_def)

lemma run_hm_op_tracked:
  assumes "hm_inv m" "hm_revision m < max_int64" "plain_op op"
  shows "tracked m (run_hm_op op m)"
proof -
  have keys: "keys_ok (hm_health m)"
    using assms(1) by (simp add: hm_inv_def)
  show ?thesis
  proof (cases op)
    case (UpdateOp ps p now clock samples)
    have "step_ok (hm_health m, []) (fold (update_sample now clock (stateMachineForLocked m) scores) samples (hm_health m, []))" for scores
      using assms(3) keys UpdateOp by (intro step_ok_fold update_sample_ok) simp_all
    then show ?thesis
      using UpdateOp fold_tracked [OF assms(1, 2)] by (simp add: Update_def Let_def case_prod_beta)
  next
    case (MergeOp now snapshot)
    have "step_ok (hm_health m, []) (fold (merge_record now) snapshot (hm_health m, []))"
      using assms(3) keys MergeOp by (intro step_ok_fold merge_record_ok) simp_all
    then show ?thesis
      using MergeOp fold_tracked [OF assms(1, 2)] by (simp add: MergeSnapshot_def Let_def case_prod_beta)
  qed (use assms config_ops_tracked Tick_tracked Prune_tracked in simp_all)
qed

lemma NewHealthManager_inv: "hm_inv (NewHealthManager weights slo sm services)"
  by (simp add: NewHealthManager_def hm_inv_def keys_ok_def revisions_ok_def Let_def)

lemma hm_reach_inv:
  assumes "hm_reach n m" "int n \<le> max_int64"
  shows "hm_inv m \<and> hm_revision m \<le> int n"
  using assms
proof induction
  case start
  show ?case
    using NewHealthManager_inv by (simp add: NewHealthManager_def Let_def)
next
  case (step n m op)
  then show ?case
    using run_hm_op_tracked [of m op] by (simp add: tracked_def)
qed

text \<open>
  C10: a watcher that compares revisions misses nothing. Whatever the operation, the revision of a service
  never goes back, and when it stays the same every health record of the service is what it was, but for
  the time of its last update. The services are named without a slash, since a slash makes the keys of
  different services collide.
\<close>

theorem version_tracks_health:
  assumes "hm_reach n m" "int n < max_int64" "plain_op op" "plain s" "s \<noteq> ''''"
  shows "healthVersionLocked s m \<le> healthVersionLocked s (run_hm_op op m) \<and>
    (healthVersionLocked s (run_hm_op op m) = healthVersionLocked s m \<longrightarrow>
       (\<forall>i. rel_option unchanged (Get s i m) (Get s i (run_hm_op op m))))"
proof -
  have "tracked m (run_hm_op op m)"
    using hm_reach_inv [OF assms(1)] assms(2, 3) by (intro run_hm_op_tracked) auto
  then show ?thesis
    using assms(4, 5) by (simp add: tracked_def same_service_def Get_def)
qed


section \<open>Ticks without samples\<close>

lemma Tick_lookup:
  "Get s i (snd (Tick now clock m)) =
     map_option (\<lambda>h. let t = tick_entry now clock (stateMachineForLocked m) h
                     in if health_eq h t then t else t\<lparr>eh_UpdatedAt := now\<rparr>) (Get s i m)"
  by (simp add: Get_def Tick_def Let_def map_of_map)

lemma Tick_machines [simp]: "stateMachineForLocked (snd (Tick now clock m)) = stateMachineForLocked m"
  by (rule ext) (simp add: Tick_def Let_def bumpIfChangedLocked_def stateMachineForLocked_def stateMachineConfigLocked_def)

text \<open>
  C36: the probe of an endpoint does not wait for traffic. A tick applies the state machine to the score
  that is stored, so an endpoint whose last score is at the degraded threshold goes from EJECTED to
  PROBING on the tick after its ejection ends, and back to EJECTED for a whole period on the next tick,
  unless a sample arrived between the two.
\<close>

theorem tick_ejects_unprobed:
  assumes "Get s i m = Some h" "eh_State h = Ejected" "\<not> IsZero (eh_EjectedAt h)" "\<not> IsZero now" "\<not> IsZero later"
    and "time_sub now (eh_EjectedAt h) \<ge> sm_EjectionDuration (stateMachineForLocked m (eh_Service h))"
    and "fle (sm_DegradedThreshold (stateMachineForLocked m (eh_Service h))) (eh_SlowScore h)"
  shows "HealthState s i (snd (Tick now clock m)) = Some Probing \<and>
    map_option (\<lambda>h. (eh_State h, eh_EjectedAt h)) (Get s i (snd (Tick later clock (snd (Tick now clock m))))) =
      Some (Ejected, later)"
proof -
  let ?m = "stateMachineForLocked m" and ?t = "\<lambda>now. tick_entry now clock (stateMachineForLocked m)"
  define h1 where "h1 = (?t now h)\<lparr>eh_UpdatedAt := now\<rparr>"
  have one: "eh_State (?t now h) = Probing" "eh_SlowScore (?t now h) = eh_SlowScore h"
    using assms(2-4, 6) by (simp_all add: tick_entry_def Apply_def Let_def transition_def)
  then have "\<not> health_eq h (?t now h)"
    using assms(2) by (cases h; cases "?t now h") (auto simp: health_eq_def)
  then have get1: "Get s i (snd (Tick now clock m)) = Some h1"
    using assms(1) by (simp add: Tick_lookup Let_def h1_def)
  have h1: "eh_State h1 = Probing" "eh_SlowScore h1 = eh_SlowScore h" "eh_Service h1 = eh_Service h"
    using one by (simp_all add: h1_def) (simp add: tick_entry_def)
  have two: "eh_State (?t later h1) = Ejected \<and> eh_EjectedAt (?t later h1) = later"
    using h1 assms(5, 7) by (simp add: tick_entry_def Apply_def Let_def transition_def)
  show ?thesis
    using get1 h1(1) two Tick_lookup [of s i later clock "snd (Tick now clock m)"]
    by (simp add: HealthState_def Let_def)
qed

section \<open>Recovery\<close>

text \<open>
  Reports and ticks, where the reports under a key are from the owner at an address and of an epoch, or do
  not say from which: another owner starts with a fresh record.
\<close>

fun owner_op :: "string \<Rightarrow> string \<Rightarrow> string \<Rightarrow> hm_op \<Rightarrow> bool" where
  "owner_op key address epoch (UpdateOp ps p now clock samples) \<longleftrightarrow>
     (\<forall>s\<in>set samples. ScoreKey (sp_Service s) (sp_InstanceID s) = key \<longrightarrow>
        sp_Address s \<in> {'''', address} \<and> sp_RegistrationEpoch s \<in> {'''', epoch})"
| "owner_op key address epoch (TickOp now clock) \<longleftrightarrow> True"
| "owner_op key address epoch _ \<longleftrightarrow> False"

definition score_under :: "string \<Rightarrow> scores \<Rightarrow> float64" where
  "score_under key scores = (case map_of scores key of Some sc \<Rightarrow> sc_Score sc | None \<Rightarrow> fzero)"

text \<open>A report with a sample under the key, whose score is at most a limit.\<close>

fun low_report :: "ScoreCalculator \<Rightarrow> string \<Rightarrow> float64 \<Rightarrow> hm_op \<Rightarrow> bool" where
  "low_report c key limit (UpdateOp ps p now clock samples) \<longleftrightarrow>
     (\<exists>s\<in>set samples. usable_sample s \<and> ScoreKey (sp_Service s) (sp_InstanceID s) = key) \<and>
     fle (score_under key (Calculate ps p c samples)) limit"
| "low_report c key limit _ \<longleftrightarrow> False"

definition held_out :: "string \<Rightarrow> string \<Rightarrow> string \<Rightarrow> float64 \<Rightarrow> EndpointHealth \<Rightarrow> bool" where
  "held_out service address epoch limit h \<longleftrightarrow> eh_State h \<in> {Ejected, Probing} \<and> \<not> fle (eh_SlowScore h) limit \<and>
     eh_Service h = service \<and> eh_Address h = address \<and> eh_RegistrationEpoch h = epoch"

lemma Apply_held_out:
  assumes "held_out service address epoch limit h" "\<not> fle (in_SlowScore i) limit" "sm_RecoveryThreshold m = limit"
  shows "held_out service address epoch limit (Apply m clock h i)"
  using assms by (auto simp: held_out_def Apply_def Let_def transition_def)

lemma held_out_updated [simp]: "held_out service address epoch limit (h\<lparr>eh_UpdatedAt := t\<rparr>) = held_out service address epoch limit h"
  by (simp add: held_out_def)

text \<open>A sample of the owner that a record has is applied to the record.\<close>

lemma sampled_same_owner:
  assumes "eh_Service h \<noteq> ''''" "sp_Address s \<in> {'''', eh_Address h}" "sp_RegistrationEpoch s \<in> {'''', eh_RegistrationEpoch h}"
  shows "sampled_health now clock machine scores s (Some h) = Apply (machine (eh_Service h)) clock h
      \<lparr>in_Now = now, in_SlowScore = score_under (ScoreKey (sp_Service s) (sp_InstanceID s)) scores, in_SuccessRate = successRate s\<rparr>"
proof -
  have "\<not> (eh_Service h = '''' \<or> endpointAddressChanged h (sp_Address s) \<or> endpointRegistrationEpochChanged h (sp_RegistrationEpoch s))"
    using assms by (auto simp: endpointAddressChanged_def endpointRegistrationEpochChanged_def)
  moreover have "h\<lparr>eh_Address := eh_Address h\<rparr> = h" "h\<lparr>eh_RegistrationEpoch := eh_RegistrationEpoch h\<rparr> = h"
    by simp_all
  ultimately show ?thesis
    using assms(2, 3) by (auto simp: sampled_health_def Let_def score_under_def)
qed

lemma sampled_held_out:
  assumes "held_out service address epoch limit h" "service \<noteq> ''''" "sm_RecoveryThreshold (machine service) = limit"
    and "sp_Address s \<in> {'''', address}" "sp_RegistrationEpoch s \<in> {'''', epoch}"
    and "\<not> fle (score_under (ScoreKey (sp_Service s) (sp_InstanceID s)) scores) limit"
  shows "held_out service address epoch limit (sampled_health now clock machine scores s (Some h))"
proof -
  have "eh_Service h = service" "eh_Address h = address" "eh_RegistrationEpoch h = epoch"
    using assms(1) by (simp_all add: held_out_def)
  then show ?thesis
    using sampled_same_owner [of h s now clock machine scores] Apply_held_out [OF assms(1) _ assms(3)] assms(2, 4-6) by simp
qed

lemma update_sample_held_out:
  assumes "map_of (fst acc) key = Some h" "held_out service address epoch limit h" "service \<noteq> ''''"
    and "sm_RecoveryThreshold (machine service) = limit"
    and "usable_sample s \<Longrightarrow> ScoreKey (sp_Service s) (sp_InstanceID s) = key \<Longrightarrow>
      sp_Address s \<in> {'''', address} \<and> sp_RegistrationEpoch s \<in> {'''', epoch} \<and> \<not> fle (score_under key scores) limit"
  shows "\<exists>h'. map_of (fst (update_sample now clock machine scores s acc)) key = Some h' \<and> held_out service address epoch limit h'"
proof (cases "usable_sample s \<and> ScoreKey (sp_Service s) (sp_InstanceID s) = key")
  case True
  obtain health changed where acc: "acc = (health, changed)"
    by fastforce
  have "held_out service address epoch limit (sampled_health now clock machine scores s (Some h))"
    using assms(5) True by (intro sampled_held_out assms(2-4)) simp_all
  then show ?thesis
    using True assms(1) by (simp add: acc update_sample_def Let_def update_conv')
next
  case False
  then show ?thesis
    using assms(1, 2) by (auto simp: update_sample_def Let_def update_conv' split: prod.splits)
qed

definition held_back :: "HealthManager \<Rightarrow> string \<Rightarrow> string \<Rightarrow> string \<Rightarrow> string \<Rightarrow> HealthManager \<Rightarrow> bool" where
  "held_back m0 service inst address epoch m \<longleftrightarrow>
     hm_calculator m = hm_calculator m0 \<and> stateMachineForLocked m = stateMachineForLocked m0 \<and>
     (\<exists>h. Get service inst m = Some h \<and>
        held_out service address epoch (sm_RecoveryThreshold (stateMachineForLocked m0 service)) h)"

lemma Update_fields [simp]:
  "hm_calculator (snd (Update ps p now clock samples m)) = hm_calculator m"
  "stateMachineForLocked (snd (Update ps p now clock samples m)) = stateMachineForLocked m"
  by (simp_all add: Update_def Let_def case_prod_beta bumpIfChangedLocked_def fun_eq_iff stateMachineForLocked_def stateMachineConfigLocked_def)

lemma Update_held_back:
  assumes "held_back m0 service inst address epoch m" "service \<noteq> ''''"
    and op: "op = UpdateOp ps p now clock samples" "owner_op (ScoreKey service inst) address epoch op"
    and "\<not> low_report (hm_calculator m0) (ScoreKey service inst) (sm_RecoveryThreshold (stateMachineForLocked m0 service)) op"
  shows "held_back m0 service inst address epoch (run_hm_op op m)"
proof -
  let ?key = "ScoreKey service inst" and ?limit = "sm_RecoveryThreshold (stateMachineForLocked m0 service)"
  let ?scores = "Calculate ps p (hm_calculator m) samples"
  have m: "hm_calculator m = hm_calculator m0" "stateMachineForLocked m = stateMachineForLocked m0"
    using assms(1) by (simp_all add: held_back_def)
  have ok: "sp_Address s \<in> {'''', address} \<and> sp_RegistrationEpoch s \<in> {'''', epoch} \<and> \<not> fle (score_under ?key ?scores) ?limit"
    if "s \<in> set samples" "usable_sample s" "ScoreKey (sp_Service s) (sp_InstanceID s) = ?key" for s
    using assms(4, 5) that by (auto simp: op(1) m)
  have "\<exists>h. map_of (fst (fold (update_sample now clock (stateMachineForLocked m) ?scores) ts (hm_health m, []))) ?key = Some h \<and>
      held_out service address epoch ?limit h" if "set ts \<subseteq> set samples" for ts
    using that
  proof (induction ts rule: rev_induct)
    case Nil
    then show ?case
      using assms(1) by (simp add: held_back_def Get_def)
  next
    case (snoc s ts)
    then obtain h where "map_of (fst (fold (update_sample now clock (stateMachineForLocked m) ?scores) ts (hm_health m, []))) ?key = Some h"
      "held_out service address epoch ?limit h"
      by auto
    then show ?case
      using update_sample_held_out [of _ ?key h service address epoch ?limit "stateMachineForLocked m" s ?scores now clock]
        assms(2) ok [of s] snoc.prems m(2) by simp
  qed
  from this [OF order_refl] show ?thesis
    using m by (simp add: op(1) held_back_def) (simp add: Update_def Let_def case_prod_beta Get_def bumpIfChangedLocked_def)
qed

lemma Tick_held_back:
  assumes "held_back m0 service inst address epoch m"
  shows "held_back m0 service inst address epoch (snd (Tick now clock m))"
proof -
  obtain h where h: "Get service inst m = Some h"
    "held_out service address epoch (sm_RecoveryThreshold (stateMachineForLocked m0 service)) h"
    and m: "hm_calculator m = hm_calculator m0" "stateMachineForLocked m = stateMachineForLocked m0"
    using assms by (auto simp: held_back_def)
  have "eh_Service h = service" "\<not> fle (eh_SlowScore h) (sm_RecoveryThreshold (stateMachineForLocked m0 service))"
    using h(2) by (simp_all add: held_out_def)
  then have "held_out service address epoch (sm_RecoveryThreshold (stateMachineForLocked m0 service))
      (tick_entry now clock (stateMachineForLocked m) h)"
    unfolding tick_entry_def m(2) by (intro Apply_held_out [OF h(2)]) simp_all
  moreover have "hm_calculator (snd (Tick now clock m)) = hm_calculator m"
    by (simp add: Tick_def Let_def bumpIfChangedLocked_def)
  ultimately show ?thesis
    using h(1) m by (simp add: held_back_def Tick_lookup Let_def)
qed

text \<open>
  C26: ticks alone never bring a slow endpoint back. After an ejection with a score above the recovery
  threshold, whatever reports of its owner and ticks follow, the endpoint leaves EJECTED and PROBING only if one
  of these reports had a sample of the endpoint with a score at most the recovery threshold: a tick in
  PROBING counts as a success, but it repeats the score that was last reported. PROBING is a routable state,
  so this is about leaving the probing cycle, not about the traffic that probes it.
\<close>

theorem recovery_needs_report:
  assumes "Get service inst m = Some h" "eh_State h = Ejected" "eh_Service h = service" "service \<noteq> ''''"
    and "\<not> fle (eh_SlowScore h) (sm_RecoveryThreshold (stateMachineForLocked m service))"
    and "list_all (owner_op (ScoreKey service inst) (eh_Address h) (eh_RegistrationEpoch h)) ops"
    and "HealthState service inst (fold run_hm_op ops m) \<notin> {Some Ejected, Some Probing}"
  shows "\<exists>op\<in>set ops. low_report (hm_calculator m) (ScoreKey service inst) (sm_RecoveryThreshold (stateMachineForLocked m service)) op"
proof (rule ccontr)
  assume none: "\<not> ?thesis"
  have "held_back m service inst (eh_Address h) (eh_RegistrationEpoch h) (fold run_hm_op ops' m)" if "set ops' \<subseteq> set ops" for ops'
    using that
  proof (induction ops' rule: rev_induct)
    case Nil
    then show ?case
      using assms(1-3, 5) by (simp add: held_back_def held_out_def)
  next
    case (snoc op ops')
    then have op: "owner_op (ScoreKey service inst) (eh_Address h) (eh_RegistrationEpoch h) op"
      "\<not> low_report (hm_calculator m) (ScoreKey service inst) (sm_RecoveryThreshold (stateMachineForLocked m service)) op"
      using none assms(6) by (auto simp: list_all_iff)
    show ?case
      using snoc op by (cases op) (auto simp: Tick_held_back simp del: run_hm_op.simps(1) intro!: Update_held_back [OF _ assms(4) refl])
  qed
  from this [OF order_refl] show False
    using assms(7) by (auto simp: held_back_def held_out_def HealthState_def)
qed

text \<open>
  The converse boundary: a score that is low already is enough for two ticks, so that an endpoint ejected again
  for a failed probe with a low score recovers without any further report.
\<close>

theorem tick_recovers_unprobed:
  assumes "Get s i m = Some h" "eh_State h = Ejected" "\<not> IsZero (eh_EjectedAt h)" "\<not> IsZero now" "\<not> IsZero later"
    and "machine = stateMachineForLocked m (eh_Service h)" "time_sub now (eh_EjectedAt h) \<ge> sm_EjectionDuration machine"
    and "\<not> flt (of_rat64 1) (sm_ProbeSuccessThreshold machine)"
    and "\<not> fle (sm_DegradedThreshold machine) (eh_SlowScore h)" "fle (eh_SlowScore h) (sm_RecoveryThreshold machine)"
  shows "HealthState s i (snd (Tick later clock (snd (Tick now clock m)))) = Some Healthy"
proof -
  let ?t = "\<lambda>now. tick_entry now clock (stateMachineForLocked m)"
  define h1 where "h1 = (?t now h)\<lparr>eh_UpdatedAt := now\<rparr>"
  have one: "eh_State (?t now h) = Probing" "eh_SlowScore (?t now h) = eh_SlowScore h" "eh_Service (?t now h) = eh_Service h"
    using assms(2-4, 6, 7) by (simp_all add: tick_entry_def Apply_def Let_def transition_def)
  then have "\<not> health_eq h (?t now h)"
    using assms(2) by (cases h; cases "?t now h") (auto simp: health_eq_def)
  then have get1: "Get s i (snd (Tick now clock m)) = Some h1"
    using assms(1) by (simp add: Tick_lookup Let_def h1_def)
  have "eh_State (?t later h1) = Healthy"
    using one assms(5, 6, 8-10) by (simp add: h1_def tick_entry_def Apply_probing(1))
  then show ?thesis
    using get1 Tick_lookup [of s i later clock "snd (Tick now clock m)"] by (simp add: HealthState_def Let_def)
qed

section \<open>The default machine\<close>

definition default_machine :: StateMachineConfig where
  "default_machine = NewStateMachine (resolveStateMachineConfig (defaultStateMachineConfig zero_config) zero_config)"

lemma default_machine_fields:
  "sm_DegradedThreshold default_machine = Fin False (3 / 2)" "sm_EjectThreshold default_machine = Fin False (5 / 2)"
  "sm_ConsecutiveWindows default_machine = 3" "sm_EjectionDuration default_machine = 30000000000"
proof -
  have "of_rat64 (3 / 2) = Fin False (3 / 2)" "of_rat64 (5 / 2) = Fin False (5 / 2)"
    by (rule of_rat64_exact [of _ 3 "- 1"] of_rat64_exact [of _ 5 "- 1"]; simp add: pow2_def)+
  then show "sm_DegradedThreshold default_machine = Fin False (3 / 2)" "sm_EjectThreshold default_machine = Fin False (5 / 2)"
    "sm_ConsecutiveWindows default_machine = 3" "sm_EjectionDuration default_machine = 30000000000"
    by (simp_all add: default_machine_def NewStateMachine_def resolveStateMachineConfig_def defaultStateMachineConfig_def
        DefaultStateMachineConfig_def zero_config_def or_default_def override_with_def Let_def fle_def)
qed

section \<open>A manager with one record\<close>

definition demo_record :: EndpointHealth where
  "demo_record = (NewEndpointHealth ''svc'' ''a'' ''10.0.0.1:80'' [])\<lparr>eh_State := Ejected, eh_SlowScore := Fin False 3,
     eh_EjectedAt := 7, eh_UpdatedAt := 7\<rparr>"

definition demo_manager :: HealthManager where
  "demo_manager = run_hm_op (MergeOp 8 [demo_record])
     (NewHealthManager \<lparr>sw_LatencyWeight = fzero, sw_ErrorWeight = fzero, sw_InflightWeight = fzero, sw_RetransmitWeight = fzero\<rparr>
        0 zero_config [])"

lemma demo_manager_health: "hm_health demo_manager = [(ScoreKey ''svc'' ''a'', demo_record)]"
  by (simp add: demo_manager_def MergeSnapshot_def merge_record_def normalised_record_def NewHealthManager_def Let_def
      demo_record_def NewEndpointHealth_def bumpIfChangedLocked_def IsZero_def zero_time_def)

lemma demo_manager_machine: "stateMachineForLocked demo_manager s = default_machine"
  by (simp add: demo_manager_def MergeSnapshot_def merge_record_def normalised_record_def NewHealthManager_def Let_def
      demo_record_def NewEndpointHealth_def bumpIfChangedLocked_def IsZero_def zero_time_def stateMachineForLocked_def
      stateMachineConfigLocked_def cloneStateMachineConfigs_def default_machine_def)

theorem version_tracks_health_witness:
  "healthVersionLocked ''svc'' (run_hm_op (MergeOp 9 [demo_record]) demo_manager) = healthVersionLocked ''svc'' demo_manager \<and>
   rel_option unchanged (Get ''svc'' ''a'' demo_manager) (Get ''svc'' ''a'' (run_hm_op (MergeOp 9 [demo_record]) demo_manager))"
proof -
  have "hm_reach 1 demo_manager"
    unfolding demo_manager_def One_nat_def
    by (intro hm_reach.intros) (simp add: demo_record_def NewEndpointHealth_def plain_def)
  moreover have "run_hm_op (MergeOp 9 [demo_record]) demo_manager = demo_manager"
    using demo_manager_health
    by (simp add: MergeSnapshot_def merge_record_def normalised_record_def demo_record_def NewEndpointHealth_def Let_def
        IsZero_def zero_time_def bumpIfChangedLocked_def endpointHealthEqualIgnoringUpdatedAt_def health_eq_def)
  ultimately show ?thesis
    using version_tracks_health [of 1 demo_manager "MergeOp 9 [demo_record]" "''svc''"]
    by (simp add: max_int64_def plain_def demo_record_def NewEndpointHealth_def)
qed

theorem tick_ejects_unprobed_witness:
  "HealthState ''svc'' ''a'' (snd (Tick 30000000007 1 demo_manager)) = Some Probing \<and>
   map_option (\<lambda>h. (eh_State h, eh_EjectedAt h))
     (Get ''svc'' ''a'' (snd (Tick 30000000008 1 (snd (Tick 30000000007 1 demo_manager))))) = Some (Ejected, 30000000008)"
proof (rule tick_ejects_unprobed)
  show "Get ''svc'' ''a'' demo_manager = Some demo_record"
    by (simp add: Get_def demo_manager_health)
qed (simp_all add: demo_record_def NewEndpointHealth_def IsZero_def zero_time_def demo_manager_machine default_machine_fields
    time_sub_def max_int64_def min_int64_def fle_def)

text \<open>A report without requests: its score is that of the latency term, at most half of the threshold.\<close>

definition demo_recovery_report :: EndpointSample where
  "demo_recovery_report = \<lparr>sp_Service = ''svc'', sp_InstanceID = ''a'', sp_Address = ''10.0.0.1:80'', sp_RegistrationEpoch = '''',
     sp_Method = '''', sp_RequestCount = 0, sp_ErrorCount = 0, sp_TimeoutCount = 0, sp_Inflight = 0, sp_Capacity = 100,
     sp_LatencyEWMA = 0, sp_LatencyP95 = 0, sp_TCPRetransmit = 0, sp_ConnectError = 0\<rparr>"

lemma demo_calculator: "cal_weights (hm_calculator demo_manager) = DefaultScoreWeights" "cal_latencySLO (hm_calculator demo_manager) = 0"
proof -
  have c: "hm_calculator demo_manager = hm_calculator (NewHealthManager
      \<lparr>sw_LatencyWeight = fzero, sw_ErrorWeight = fzero, sw_InflightWeight = fzero, sw_RetransmitWeight = fzero\<rparr> 0 zero_config [])"
    by (simp add: demo_manager_def MergeSnapshot_def Let_def case_prod_beta bumpIfChangedLocked_def)
  show "cal_weights (hm_calculator demo_manager) = DefaultScoreWeights" "cal_latencySLO (hm_calculator demo_manager) = 0"
    unfolding c by (simp_all add: NewHealthManager_def NewScoreCalculatorWithConfig_def Let_def fle_def)
qed

lemma demo_recovery_report_formula:
  defines "c \<equiv> hm_calculator demo_manager" and "b \<equiv> service_baseline [demo_recovery_report]"
  shows "score_under (ScoreKey ''svc'' ''a'') (Calculate (\<lambda>x. x) (\<lambda>x. x) c [demo_recovery_report]) =
    fadd (fadd (fadd
      (fmul (of_rat64 (45 / 100)) (math_Max (fdiv (math_Max fzero (fsub (Seconds 0) (bl_medianLatency b))) (math_Max (bl_madLatency b) (of_rat64 (1 / 1000)))) fzero))
      (fmul (of_rat64 (25 / 100)) fzero)) (fmul (of_rat64 (20 / 100)) (fdiv (of_int64 0) (of_int64 100)))) (fmul (of_rat64 (10 / 100)) fzero)"
proof -
  have "score_under (ScoreKey ''svc'' ''a'') (Calculate (\<lambda>x. x) (\<lambda>x. x) c [demo_recovery_report]) = sc_Score (score_sample c ''svc'' b demo_recovery_report)"
    by (simp add: score_under_def Calculate_def calculateService_def Let_def group_sample_def aggregateEndpointSample_def
        usable_sample_def demo_recovery_report_def b_def)
  then show ?thesis
    using demo_calculator
    by (simp add: score_sample_def Let_def absoluteLatencyScore_def DefaultScoreWeights_def demo_recovery_report_def network_events_def wrap64_def
        capacity_def c_def)
qed

lemma demo_recovery_report_score:
  obtains v where "isf (score_under (ScoreKey ''svc'' ''a'') (Calculate (\<lambda>x. x) (\<lambda>x. x) (hm_calculator demo_manager) [demo_recovery_report])) v"
    "v \<le> 701 / 1024"
proof -
  let ?b = "service_baseline [demo_recovery_report]"
  let ?rel = "fdiv (math_Max fzero (fsub (Seconds 0) (bl_medianLatency ?b))) (math_Max (bl_madLatency ?b) (of_rat64 (1 / 1000)))"
  let ?load = "fdiv (of_int64 0) (of_int64 100)"
  obtain w1 w2 w3 w4 where w: "isf (of_rat64 (45 / 100)) w1" "w1 \<le> 29 / 64" "isf (of_rat64 (25 / 100)) w2" "w2 \<le> 1 / 4"
    "isf (of_rat64 (20 / 100)) w3" "w3 \<le> 13 / 64" "isf (of_rat64 (10 / 100)) w4" "w4 \<le> 7 / 64"
    using default_weights by blast
  have ex: "round_mag (493 / 1024) = 493 / 1024" "round_mag (13 / 64) = 13 / 64" "round_mag (701 / 1024) = 701 / 1024"
    using round_mag_exact [of 493 "- 10"] round_mag_exact [of 13 "- 6"] round_mag_exact [of 701 "- 10"] by (simp_all add: pow2_def)
  have "within_capacity demo_recovery_report"
    by (simp add: within_capacity_def demo_recovery_report_def capacity_def max_int64_def)
  then obtain r where r: "isf ?rel r" "r \<le> 17 / 16"
    using latency_term [of "[demo_recovery_report]" demo_recovery_report] by (auto simp: demo_recovery_report_def)
  have "isf (math_Max ?rel fzero) (max r 0)"
    by (rule isf_math_Max [OF r(1)]) simp
  then have lat: "\<exists>v. isf (fmul (of_rat64 (45 / 100)) (math_Max ?rel fzero)) v \<and> v \<le> 493 / 1024"
    using r(2) isf_nonneg [OF r(1)] by (intro fmul_below [OF w(1, 2) _ _ _ ex(1), of _ r "17 / 16"]) simp_all
  have zero: "\<exists>v. isf (fmul (of_rat64 (25 / 100)) fzero) v \<and> v \<le> 0" "\<exists>v. isf (fmul (of_rat64 (10 / 100)) fzero) v \<and> v \<le> 0"
    using fmul_below [OF w(3, 4), of fzero 0 0 0] fmul_below [OF w(7, 8), of fzero 0 0 0] by simp_all
  obtain u where u: "isf ?load u" "u \<le> 1"
    using load_share [of 0 100] by (auto simp: max_int64_def)
  have load: "\<exists>v. isf (fmul (of_rat64 (20 / 100)) ?load) v \<and> v \<le> 13 / 64"
    by (rule fmul_below [OF w(5, 6) u _ ex(2)]) simp_all
  have "\<exists>v. isf (fadd (fmul (of_rat64 (45 / 100)) (math_Max ?rel fzero)) (fmul (of_rat64 (25 / 100)) fzero)) v \<and> v \<le> 493 / 1024"
    by (rule fadd_below [OF lat zero(1) _ ex(1)]) simp_all
  from fadd_below [OF this load _ ex(3)] have "\<exists>v. isf (fadd (fadd (fmul (of_rat64 (45 / 100)) (math_Max ?rel fzero)) (fmul (of_rat64 (25 / 100)) fzero))
      (fmul (of_rat64 (20 / 100)) ?load)) v \<and> v \<le> 701 / 1024"
    by simp
  from fadd_below [OF this zero(2) _ ex(3)] show thesis
    using that unfolding demo_recovery_report_formula by auto
qed

lemma default_recovery: "sm_RecoveryThreshold default_machine = of_rat64 1" "sm_ProbeSuccessThreshold default_machine = of_rat64 (95 / 100)"
  by (simp_all add: default_machine_def NewStateMachine_def resolveStateMachineConfig_def defaultStateMachineConfig_def
      DefaultStateMachineConfig_def zero_config_def or_default_def override_with_def Let_def fle_def)

lemma one64: "isf (of_rat64 1) 1"
  using isf_of_rat64 [of 1] small_le_pow2 [of 1] round_mag_pow2 [of 0] by (simp add: pow2_def)

lemma demo_tick:
  obtains h where "Get ''svc'' ''a'' (snd (Tick 30000000007 1 demo_manager)) = Some h" "eh_State h = Probing"
    "eh_Service h = ''svc''" "eh_Address h = ''10.0.0.1:80''" "eh_RegistrationEpoch h = ''''"
proof -
  have "Get ''svc'' ''a'' demo_manager = Some demo_record"
    by (simp add: Get_def demo_manager_health)
  then show thesis
    using that by (simp add: Tick_lookup Let_def tick_entry_def demo_manager_machine demo_record_def NewEndpointHealth_def Apply_def
        transition_def IsZero_def zero_time_def default_machine_fields time_sub_def max_int64_def min_int64_def)
qed

lemma demo_recovers:
  "HealthState ''svc'' ''a'' (fold run_hm_op [TickOp 30000000007 1, UpdateOp (\<lambda>x. x) (\<lambda>x. x) 30000000008 1 [demo_recovery_report]] demo_manager) =
     Some Healthy"
proof -
  let ?m = "snd (Tick 30000000007 1 demo_manager)"
  let ?scores = "Calculate (\<lambda>x. x) (\<lambda>x. x) (hm_calculator demo_manager) [demo_recovery_report]"
  have m: "hm_calculator ?m = hm_calculator demo_manager"
    by (simp add: Tick_def Let_def bumpIfChangedLocked_def)
  obtain h where h: "Get ''svc'' ''a'' ?m = Some h" "eh_State h = Probing" "eh_Service h = ''svc''" "eh_Address h = ''10.0.0.1:80''"
    "eh_RegistrationEpoch h = ''''"
    by (rule demo_tick)
  obtain v where v: "isf (score_under (ScoreKey ''svc'' ''a'') ?scores) v" "v \<le> 701 / 1024"
    by (rule demo_recovery_report_score)
  have "fle (score_under (ScoreKey ''svc'' ''a'') ?scores) (of_rat64 1)" "\<not> fle (Fin False (3 / 2)) (score_under (ScoreKey ''svc'' ''a'') ?scores)"
    using v(2) isf_fle [OF v(1) one64] isf_fle [OF _ v(1), of "Fin False (3 / 2)" "3 / 2"] by auto
  moreover have "round_mag (95 / 100) \<le> 1"
    using round_mag_mono [of "95 / 100" 1] round_mag_pow2 [of 0] by (simp add: pow2_def)
  then have "\<not> flt (of_rat64 1) (of_rat64 (95 / 100))"
    using isf_flt [OF one64 isf_of_rat64 [of "95 / 100"]] small_le_pow2 [of "95 / 100"] by simp
  moreover have s: "sp_Service demo_recovery_report = ''svc''" "sp_InstanceID demo_recovery_report = ''a''" "successRate demo_recovery_report = of_rat64 1"
    "usable_sample demo_recovery_report"
    by (simp_all add: demo_recovery_report_def successRate_def usable_sample_def)
  moreover have "sampled_health 30000000008 1 (stateMachineForLocked ?m) ?scores demo_recovery_report (Some h) = Apply default_machine 1 h
      \<lparr>in_Now = 30000000008, in_SlowScore = score_under (ScoreKey ''svc'' ''a'') ?scores, in_SuccessRate = of_rat64 1\<rparr>"
    using sampled_same_owner [of h demo_recovery_report 30000000008 1 "stateMachineForLocked ?m" ?scores] h(3-5) s
    by (simp add: demo_manager_machine demo_recovery_report_def)
  ultimately have "eh_State (sampled_health 30000000008 1 (stateMachineForLocked ?m) ?scores demo_recovery_report (Some h)) = Healthy"
    by (simp add: Apply_probing(1) [OF h(2)] default_recovery default_machine_fields)
  then show ?thesis
    using h(1) s by (simp add: HealthState_def Get_def Update_def Let_def case_prod_beta update_sample_def bumpIfChangedLocked_def update_conv' m)
qed

theorem recovery_needs_report_witness:
  "\<exists>op\<in>{TickOp 30000000007 1, UpdateOp (\<lambda>x. x) (\<lambda>x. x) 30000000008 1 [demo_recovery_report]}.
     low_report (hm_calculator demo_manager) (ScoreKey ''svc'' ''a'') (of_rat64 1) op"
proof -
  have get: "Get ''svc'' ''a'' demo_manager = Some demo_record"
    by (simp add: Get_def demo_manager_health)
  have "\<not> fle (Fin False 3) (of_rat64 1)"
    using isf_fle [OF _ one64, of "Fin False 3" 3] by simp
  then show ?thesis
    using recovery_needs_report [OF get, of "[TickOp 30000000007 1, UpdateOp (\<lambda>x. x) (\<lambda>x. x) 30000000008 1 [demo_recovery_report]]"] demo_recovers
    by (simp add: demo_record_def NewEndpointHealth_def demo_manager_machine default_recovery demo_recovery_report_def)
qed

end
