(* ===== verification/Controller_Services.thy ===== *)
theory Controller_Services
  imports Security_Auth Registry_Leases Health_Manager Endpoint_Key
begin

text \<open>
  The unary calls of the controller: \<open>src/pkg/controller/registry_service.go\<close> and \<open>telemetry_service.go\<close> on
  the memory registry and the health manager, behind the interceptor of \<open>Security_Auth\<close>. Each access to the
  registry or the manager is atomic, and a handler is a sequence of them; the readings of the clock, the
  random epochs and tokens and the iteration orders of Go maps are parameters. Metrics and the storing of
  health records are not part of the model, and a view of instances reads the health of all of them at once.
\<close>

section \<open>Messages\<close>

record wire_health =
  wh_Service :: string
  wh_InstanceId :: string
  wh_EndpointAddress :: string
  wh_RegistrationEpoch :: string
  wh_State :: string
  wh_SlowScore :: float64
  wh_ConsecutiveSlowWindows :: int
  wh_ConsecutiveEjectWindows :: int

datatype response =
    RegisterInstanceResponse wire_instance string
  | HeartbeatResponse wire_instance
  | ListInstancesResponse "wire_instance list" int
  | ReportEndpointStatsResponse "wire_health list"
  | ListEndpointHealthResponse "wire_health list"

record controller =
  co_registry :: MemoryRegistry
  co_health :: HealthManager

definition statusFromRegistryError :: "registry_error \<Rightarrow> status_error" where
  "statusFromRegistryError e =
     (case e of
        ErrInvalidInstance \<Rightarrow> StatusError InvalidArgument ''invalid service instance''
      | ErrInstanceNotFound \<Rightarrow> StatusError NotFound ''service instance not found''
      | ErrRegistrationEpochMismatch \<Rightarrow> StatusError FailedPrecondition ''registration epoch mismatch''
      | ContextError \<Rightarrow> StatusError Internal ''context'')"

definition instanceFromProto :: "wire_instance \<Rightarrow> Instance" where
  "instanceFromProto inst =
     \<lparr>ri_ID = wi_Id inst, ri_Service = wi_Service inst, ri_Address = wi_Address inst,
      ri_Status = (if Parse (wi_Status inst) = Unspecified then Healthy else Parse (wi_Status inst)),
      ri_Labels = wi_Labels inst, ri_LastSeen = zero_time, ri_RegistrationEpoch = '''', ri_OwnerToken = ''''\<rparr>"

definition instanceToProto :: "Instance \<Rightarrow> wire_instance" where
  "instanceToProto inst =
     \<lparr>wi_Id = ri_ID inst, wi_Service = ri_Service inst, wi_Address = ri_Address inst, wi_Status = Code_String (ri_Status inst),
      wi_Labels = ri_Labels inst, wi_LastSeenUnixMillis = UnixMilli (ri_LastSeen inst), wi_SlowScore = fzero,
      wi_RegistrationEpoch = ri_RegistrationEpoch inst\<rparr>"

definition leaseTTL :: "duration \<Rightarrow> int \<Rightarrow> duration" where
  "leaseTTL defaultLease seconds = (if seconds \<le> 0 then defaultLease else wrap64 (seconds * 1000000000))"


section \<open>The registry service\<close>

text \<open>
  A registration is stored, and then read back from a listing of the service; other calls may run in
  between. The message of an error of the context is not modelled.
\<close>

definition register_store ::
    "duration \<Rightarrow> call_context \<Rightarrow> bool \<Rightarrow> string \<Rightarrow> string \<Rightarrow> gotime \<Rightarrow> request \<Rightarrow> controller \<Rightarrow> (status_error + Instance) \<times> controller" where
  "register_store defaultLease ctx cancelled epoch token now req s =
     (case AuthorizeControllerPrincipal ctx RegisterInstance_Method req of
        Some e \<Rightarrow> (Inl e, s)
      | None \<Rightarrow>
          (case req of
             RegisterInstanceReq (Some wire) seconds \<Rightarrow>
               (let inst = instanceFromProto wire;
                    (err, r) = Register cancelled epoch token inst (leaseTTL defaultLease seconds) now (co_registry s)
                in (case err of Some e \<Rightarrow> Inl (statusFromRegistryError e) | None \<Rightarrow> Inr inst, s\<lparr>co_registry := r\<rparr>))
           | _ \<Rightarrow> (Inl (StatusError InvalidArgument ''instance is required''), s)))"

definition list_and_find ::
    "(nat \<Rightarrow> bool) \<Rightarrow> gotime \<Rightarrow> string \<Rightarrow> string \<Rightarrow> status_error \<Rightarrow> controller \<Rightarrow> (status_error + Instance) \<times> controller" where
  "list_and_find cancelled now service iid missing s =
     (case registry_List cancelled service now (co_registry s) of
        (Inl e, r) \<Rightarrow> (Inl (statusFromRegistryError e), s\<lparr>co_registry := r\<rparr>)
      | (Inr instances, r) \<Rightarrow>
          (case find (\<lambda>i. ri_ID i = iid) instances of
             Some i \<Rightarrow> Inr i
           | None \<Rightarrow> Inl missing, s\<lparr>co_registry := r\<rparr>))"

definition register_reply ::
    "(nat \<Rightarrow> bool) \<Rightarrow> gotime \<Rightarrow> Instance \<Rightarrow> controller \<Rightarrow> (status_error + response) \<times> controller" where
  "register_reply cancelled now inst s =
     (case list_and_find cancelled now (ri_Service inst) (ri_ID inst)
             (StatusError Internal ''registered instance was not visible'') s of
        (Inl e, s) \<Rightarrow> (Inl e, s)
      | (Inr registered, s) \<Rightarrow> (Inr (RegisterInstanceResponse (instanceToProto registered) (ri_OwnerToken registered)), s))"

text \<open>What a call reads from outside: the clock, random values, the state of its context and orders.\<close>

record call_env =
  ce_defaultLease :: duration
  ce_cancelled :: "nat \<Rightarrow> bool"
  ce_epoch :: string
  ce_token :: string
  ce_now :: "nat \<Rightarrow> gotime"
  ce_clock :: gotime
  ce_services_order :: "grouped \<Rightarrow> grouped"
  ce_samples_order :: "EndpointSample list \<Rightarrow> EndpointSample list"
  ce_address_order :: "(string \<times> Instance) list \<Rightarrow> (string \<times> Instance) list"

definition RegisterInstance :: "call_env \<Rightarrow> call_context \<Rightarrow> request \<Rightarrow> controller \<Rightarrow> (status_error + response) \<times> controller" where
  "RegisterInstance env ctx req s =
     (case register_store (ce_defaultLease env) ctx (ce_cancelled env 0) (ce_epoch env) (ce_token env) (ce_now env 0) req s of
        (Inl e, s) \<Rightarrow> (Inl e, s)
      | (Inr inst, s) \<Rightarrow> register_reply (\<lambda>k. ce_cancelled env (k + 1)) (ce_now env 1) inst s)"

definition service_Heartbeat :: "call_env \<Rightarrow> call_context \<Rightarrow> request \<Rightarrow> controller \<Rightarrow> (status_error + response) \<times> controller" where
  "service_Heartbeat env ctx req s =
     (case AuthorizeControllerPrincipal ctx Heartbeat_Method req of
        Some e \<Rightarrow> (Inl e, s)
      | None \<Rightarrow>
          (case req of
             HeartbeatReq h \<Rightarrow>
               if hb_RegistrationEpoch h = '''' \<or> hb_OwnerToken h = ''''
               then (Inl (StatusError InvalidArgument ''registration epoch and owner token are required''), s)
               else
                 (case HeartbeatWithOwner (ce_cancelled env 0) (hb_Service h) (hb_InstanceId h) (hb_RegistrationEpoch h)
                         (hb_OwnerToken h) (leaseTTL (ce_defaultLease env) (hb_LeaseTtlSeconds h)) (ce_now env 0) (co_registry s) of
                    (Some e, r) \<Rightarrow> (Inl (statusFromRegistryError e), s\<lparr>co_registry := r\<rparr>)
                  | (None, r) \<Rightarrow>
                      (case list_and_find (\<lambda>k. ce_cancelled env (k + 1)) (ce_now env 1) (hb_Service h) (hb_InstanceId h)
                              (StatusError NotFound ''instance not found'') (s\<lparr>co_registry := r\<rparr>) of
                         (Inl e, s) \<Rightarrow> (Inl e, s)
                       | (Inr inst, s) \<Rightarrow> (Inr (HeartbeatResponse (instanceToProto inst)), s)))
           | _ \<Rightarrow> (Inl (StatusError InvalidArgument ''heartbeat request is required''), s)))"

definition healthMatchesInstanceAddress :: "string \<Rightarrow> string \<Rightarrow> bool" where
  "healthMatchesInstanceAddress healthAddress instanceAddress \<longleftrightarrow>
     healthAddress = '''' \<or> instanceAddress = '''' \<or> healthAddress = instanceAddress"

definition healthMatchesInstanceRegistrationEpoch :: "string \<Rightarrow> string \<Rightarrow> bool" where
  "healthMatchesInstanceRegistrationEpoch healthEpoch instanceEpoch \<longleftrightarrow>
     healthEpoch = '''' \<or> instanceEpoch = '''' \<or> healthEpoch = instanceEpoch"

definition healthMatchesInstance :: "EndpointHealth \<Rightarrow> Instance \<Rightarrow> bool" where
  "healthMatchesInstance h inst \<longleftrightarrow> healthMatchesInstanceAddress (eh_Address h) (ri_Address inst) \<and>
     healthMatchesInstanceRegistrationEpoch (eh_RegistrationEpoch h) (ri_RegistrationEpoch inst)"

definition overlayHealth :: "HealthManager \<Rightarrow> Instance \<Rightarrow> Instance \<times> float64" where
  "overlayHealth m inst =
     (case Get (ri_Service inst) (ri_ID inst) m of
        Some h \<Rightarrow> if healthMatchesInstance h inst then (inst\<lparr>ri_Status := eh_State h\<rparr>, eh_SlowScore h) else (inst, fzero)
      | None \<Rightarrow> (inst, fzero))"

primrec fnv64_rounds :: "nat \<Rightarrow> u64 \<Rightarrow> u64 \<Rightarrow> u64" where
  "fnv64_rounds 0 hash v = hash"
| "fnv64_rounds (Suc n) hash v = fnv64_rounds n ((hash XOR (v AND 0xff)) * 1099511628211) (drop_bit 8 v)"

definition fnv64Mix :: "u64 \<Rightarrow> u64 \<Rightarrow> u64" where
  "fnv64Mix hash v = fnv64_rounds 8 hash v"

definition combineInstancesVersion :: "int \<Rightarrow> int \<Rightarrow> int" where
  "combineInstancesVersion registryVersion healthVersion =
     (let version = fnv64Mix 1469598103934665603 (word_of_int registryVersion);
          version = fnv64Mix version (word_of_int healthVersion);
          version = version AND 0x7fffffffffffffff
      in if version = 0 then 1 else uint version)"

definition instancesView ::
    "(nat \<Rightarrow> bool) \<Rightarrow> gotime \<Rightarrow> string \<Rightarrow> controller \<Rightarrow> (status_error + (wire_instance list \<times> int) \<times> int \<times> int) \<times> controller" where
  "instancesView cancelled now service s =
     (case registry_Snapshot cancelled service now (co_registry s) of
        (Inl e, r) \<Rightarrow> (Inl (statusFromRegistryError e), s\<lparr>co_registry := r\<rparr>)
      | (Inr snapshot, r) \<Rightarrow>
          (let healthVersion = healthVersionLocked service (co_health s);
               out = map (\<lambda>inst. case overlayHealth (co_health s) inst of
                       (inst, slowScore) \<Rightarrow> (instanceToProto inst)\<lparr>wi_SlowScore := slowScore\<rparr>) (sn_Instances snapshot)
           in (Inr ((out, combineInstancesVersion (sn_Version snapshot) healthVersion), sn_Version snapshot, healthVersion),
               s\<lparr>co_registry := r\<rparr>)))"

definition ListInstances :: "call_env \<Rightarrow> call_context \<Rightarrow> request \<Rightarrow> controller \<Rightarrow> (status_error + response) \<times> controller" where
  "ListInstances env ctx req s =
     (case AuthorizeControllerPrincipal ctx ListInstances_Method req of
        Some e \<Rightarrow> (Inl e, s)
      | None \<Rightarrow>
          (case req of
             ListInstancesReq service \<Rightarrow>
               if service = '''' then (Inl (StatusError InvalidArgument ''service is required''), s)
               else
                 (case instancesView (ce_cancelled env) (ce_now env 0) service s of
                    (Inl e, s) \<Rightarrow> (Inl e, s)
                  | (Inr ((instances, version), _), s) \<Rightarrow> (Inr (ListInstancesResponse instances version), s))
           | _ \<Rightarrow> (Inl (StatusError InvalidArgument ''service is required''), s)))"

section \<open>The telemetry service\<close>

record telemetryServiceInstances =
  ti_byAddress :: "(string \<times> Instance) list"
  ti_byID :: "(string \<times> Instance) list"

definition index_instances :: "Instance list \<Rightarrow> telemetryServiceInstances" where
  "index_instances listed =
     \<lparr>ti_byAddress = fold (\<lambda>i m. if ri_Address i \<noteq> '''' then AList.update (ri_Address i) i m else m) listed [],
      ti_byID = fold (\<lambda>i m. if ri_ID i \<noteq> '''' then AList.update (ri_ID i) i m else m) listed []\<rparr>"

type_synonym instance_cache = "(string \<times> telemetryServiceInstances) list"

text \<open>The service of a sample is not empty where this is called. The clock is read once for each listing.\<close>

definition telemetryInstances ::
    "call_env \<Rightarrow> string \<Rightarrow> instance_cache \<times> MemoryRegistry \<Rightarrow> (status_error + telemetryServiceInstances) \<times> instance_cache \<times> MemoryRegistry" where
  "telemetryInstances env service acc =
     (case acc of (cache, r) \<Rightarrow>
        (case map_of cache service of
           Some instances \<Rightarrow> (Inr instances, cache, r)
         | None \<Rightarrow>
             (case registry_List (\<lambda>k. ce_cancelled env (2 * length cache + k)) service (ce_now env (length cache)) r of
                (Inl e, r) \<Rightarrow> (Inl (statusFromRegistryError e), cache, r)
              | (Inr listed, r) \<Rightarrow> (Inr (index_instances listed), (service, index_instances listed) # cache, r))))"

text \<open>The loop of \<open>resolveInstanceByUniquePort\<close>; the match so far is the zero instance at first.\<close>

definition zero_Instance :: Instance where
  "zero_Instance = \<lparr>ri_ID = '''', ri_Service = '''', ri_Address = '''', ri_Status = Unspecified, ri_Labels = None,
     ri_LastSeen = zero_time, ri_RegistrationEpoch = '''', ri_OwnerToken = ''''\<rparr>"

fun unique_port :: "string \<Rightarrow> (string \<times> Instance) list \<Rightarrow> Instance \<Rightarrow> Instance option" where
  "unique_port port [] match = (if ri_ID match = '''' then None else Some match)"
| "unique_port port ((registeredAddress, inst) # rest) match =
     (case SplitHostPort registeredAddress of
        None \<Rightarrow> unique_port port rest match
      | Some (_, registeredPort) \<Rightarrow>
          if registeredPort \<noteq> port then unique_port port rest match
          else if ri_ID match \<noteq> '''' \<and> ri_ID match \<noteq> ri_ID inst then None
          else unique_port port rest inst)"

definition resolveInstanceByUniquePort :: "(string \<times> Instance) list \<Rightarrow> string \<Rightarrow> Instance option" where
  "resolveInstanceByUniquePort byAddress observedAddress =
     (case SplitHostPort observedAddress of
        None \<Rightarrow> None
      | Some (_, observedPort) \<Rightarrow> if observedPort = '''' then None else unique_port observedPort byAddress zero_Instance)"

definition resolve_in :: "call_env \<Rightarrow> telemetryServiceInstances \<Rightarrow> wire_sample \<Rightarrow> Instance option" where
  "resolve_in env instances sample =
     (if ws_InstanceId sample \<noteq> '''' then
        (case map_of (ti_byID instances) (ws_InstanceId sample) of
           None \<Rightarrow> None
         | Some inst \<Rightarrow>
             if ws_EndpointAddress sample \<noteq> '''' \<and> \<not> healthMatchesInstanceAddress (ws_EndpointAddress sample) (ri_Address inst)
             then None else Some inst)
      else if ws_EndpointAddress sample = '''' then None
      else
        (case map_of (ti_byAddress instances) (ws_EndpointAddress sample) of
           Some inst \<Rightarrow> Some inst
         | None \<Rightarrow> resolveInstanceByUniquePort (ce_address_order env (ti_byAddress instances)) (ws_EndpointAddress sample)))"

definition resolveTelemetryInstance ::
    "call_env \<Rightarrow> wire_sample \<Rightarrow> instance_cache \<times> MemoryRegistry \<Rightarrow> (status_error + Instance option) \<times> instance_cache \<times> MemoryRegistry" where
  "resolveTelemetryInstance env sample acc =
     (case telemetryInstances env (ws_Service sample) acc of
        (Inl e, acc) \<Rightarrow> (Inl e, acc)
      | (Inr instances, acc) \<Rightarrow> (Inr (resolve_in env instances sample), acc))"

definition secondsToDuration :: "float64 \<Rightarrow> duration" where
  "secondsToDuration seconds = (if fle seconds fzero then 0 else to_int64 (fmul seconds (of_int64 1000000000)))"

definition bound_sample :: "wire_sample \<Rightarrow> Instance \<Rightarrow> EndpointSample" where
  "bound_sample s inst =
     \<lparr>sp_Service = ws_Service s, sp_InstanceID = ri_ID inst,
      sp_Address = (if ws_EndpointAddress s = '''' then ri_Address inst else ws_EndpointAddress s),
      sp_RegistrationEpoch = (if ws_RegistrationEpoch s = '''' then ri_RegistrationEpoch inst else ws_RegistrationEpoch s),
      sp_Method = ws_Method s, sp_RequestCount = ws_RequestCount s, sp_ErrorCount = ws_ErrorCount s,
      sp_TimeoutCount = ws_TimeoutCount s, sp_Inflight = ws_Inflight s, sp_Capacity = ws_Capacity s,
      sp_LatencyEWMA = secondsToDuration (ws_LatencyEwmaSeconds s), sp_LatencyP95 = secondsToDuration (ws_LatencyP95Seconds s),
      sp_TCPRetransmit = ws_TcpRetransmit s, sp_ConnectError = ws_ConnectError s\<rparr>"

definition stale_sample :: "wire_sample \<Rightarrow> Instance \<Rightarrow> bool" where
  "stale_sample s inst \<longleftrightarrow> ws_RegistrationEpoch s \<noteq> '''' \<and> ri_RegistrationEpoch inst \<noteq> '''' \<and>
     ws_RegistrationEpoch s \<noteq> ri_RegistrationEpoch inst"

fun samplesFromProto ::
    "call_env \<Rightarrow> wire_sample option list \<Rightarrow> EndpointSample list \<Rightarrow> instance_cache \<times> MemoryRegistry
      \<Rightarrow> (status_error + EndpointSample list) \<times> MemoryRegistry" where
  "samplesFromProto env [] samples acc = (Inr samples, snd acc)"
| "samplesFromProto env (protoSample # rest) samples acc =
     (case protoSample of
        None \<Rightarrow> samplesFromProto env rest samples acc
      | Some s \<Rightarrow>
          if ws_Service s = '''' then samplesFromProto env rest samples acc
          else
            (case resolveTelemetryInstance env s acc of
               (Inl e, acc) \<Rightarrow> (Inl e, snd acc)
             | (Inr None, acc) \<Rightarrow> samplesFromProto env rest samples acc
             | (Inr (Some inst), acc) \<Rightarrow>
                 if stale_sample s inst then samplesFromProto env rest samples acc
                 else samplesFromProto env rest (samples @ [bound_sample s inst]) acc))"

definition healthToProto :: "EndpointHealth list \<Rightarrow> wire_health list" where
  "healthToProto health = map (\<lambda>h.
     \<lparr>wh_Service = eh_Service h, wh_InstanceId = eh_InstanceID h, wh_EndpointAddress = eh_Address h,
      wh_RegistrationEpoch = eh_RegistrationEpoch h, wh_State = Code_String (eh_State h), wh_SlowScore = eh_SlowScore h,
      wh_ConsecutiveSlowWindows = eh_ConsecutiveSlowWindows h, wh_ConsecutiveEjectWindows = eh_ConsecutiveEjectWindows h\<rparr>) health"

text \<open>The health manager reads its clock after the listings of the registry.\<close>

definition ReportEndpointStats :: "call_env \<Rightarrow> call_context \<Rightarrow> request \<Rightarrow> controller \<Rightarrow> (status_error + response) \<times> controller" where
  "ReportEndpointStats env ctx req s =
     (case AuthorizeControllerPrincipal ctx ReportEndpointStats_Method req of
        Some e \<Rightarrow> (Inl e, s)
      | None \<Rightarrow>
          (case req of
             ReportEndpointStatsReq protoSamples \<Rightarrow>
               (case samplesFromProto env protoSamples [] ([], co_registry s) of
                  (Inl e, r) \<Rightarrow> (Inl e, s\<lparr>co_registry := r\<rparr>)
                | (Inr samples, r) \<Rightarrow>
                    (case Update (ce_services_order env) (ce_samples_order env) (ce_now env (length protoSamples)) (ce_clock env)
                            samples (co_health s) of
                       (health, m) \<Rightarrow>
                         (Inr (ReportEndpointStatsResponse (healthToProto health)), s\<lparr>co_registry := r, co_health := m\<rparr>)))
           | _ \<Rightarrow> (Inl (StatusError InvalidArgument ''telemetry request is required''), s)))"

definition ListEndpointHealth :: "call_env \<Rightarrow> call_context \<Rightarrow> request \<Rightarrow> controller \<Rightarrow> (status_error + response) \<times> controller" where
  "ListEndpointHealth env ctx req s =
     (case AuthorizeControllerPrincipal ctx ListEndpointHealth_Method req of
        Some e \<Rightarrow> (Inl e, s)
      | None \<Rightarrow>
          (let service = (case req of ListEndpointHealthReq service \<Rightarrow> service | _ \<Rightarrow> '''')
           in (Inr (ListEndpointHealthResponse (healthToProto (listLocked service (co_health s)))), s)))"


section \<open>The server\<close>

text \<open>
  A request of one of the five unary calls goes through the interceptor to its handler.
\<close>

definition handler_of ::
    "call_env \<Rightarrow> request \<Rightarrow> (rpc_method \<times> (call_context \<Rightarrow> request \<Rightarrow> controller \<Rightarrow> (status_error + response) \<times> controller)) option" where
  "handler_of env req =
     (case req of
        RegisterInstanceReq _ _ \<Rightarrow> Some (RegisterInstance_Method, RegisterInstance env)
      | HeartbeatReq _ \<Rightarrow> Some (Heartbeat_Method, service_Heartbeat env)
      | ListInstancesReq _ \<Rightarrow> Some (ListInstances_Method, ListInstances env)
      | ReportEndpointStatsReq _ \<Rightarrow> Some (ReportEndpointStats_Method, ReportEndpointStats env)
      | ListEndpointHealthReq _ \<Rightarrow> Some (ListEndpointHealth_Method, ListEndpointHealth env)
      | _ \<Rightarrow> None)"

definition serve ::
    "TokenAuthenticator \<Rightarrow> call_env \<Rightarrow> call_context \<Rightarrow> request \<Rightarrow> controller \<Rightarrow> ((status_error + response) \<times> controller) option" where
  "serve a env ctx req s =
     map_option (\<lambda>(mthd, handler). UnaryServerInterceptor a handler ctx mthd req s) (handler_of env req)"


section \<open>An example\<close>

definition demo_call_env :: "string \<Rightarrow> string \<Rightarrow> gotime \<Rightarrow> call_env" where
  "demo_call_env epoch token now = \<lparr>ce_defaultLease = 30000000000, ce_cancelled = \<lambda>_. False, ce_epoch = epoch, ce_token = token,
     ce_now = \<lambda>_. now, ce_clock = now, ce_services_order = \<lambda>x. x, ce_samples_order = \<lambda>x. x, ce_address_order = \<lambda>x. x\<rparr>"

definition demo_wire :: wire_instance where
  "demo_wire = \<lparr>wi_Id = ''o1'', wi_Service = ''orders'', wi_Address = ''10.0.0.1:80'', wi_Status = '''', wi_Labels = None,
     wi_LastSeenUnixMillis = 0, wi_SlowScore = fzero, wi_RegistrationEpoch = ''''\<rparr>"

definition demo_wire_sample :: wire_sample where
  "demo_wire_sample = \<lparr>ws_Source = '''', ws_Service = ''orders'', ws_InstanceId = ''o1'', ws_EndpointAddress = '''',
     ws_Method = '''', ws_RequestCount = 1, ws_ErrorCount = 0, ws_TimeoutCount = 0, ws_RetryCount = 0, ws_Inflight = 0,
     ws_LatencyEwmaSeconds = fzero, ws_LatencyP95Seconds = fzero, ws_TcpRetransmit = 0, ws_Capacity = 0,
     ws_WindowStartUnixMillis = 0, ws_WindowEndUnixMillis = 0, ws_ConnectError = 0, ws_RegistrationEpoch = ''''\<rparr>"

end
