(* ===== verification/Controller_Access.thy ===== *)
theory Controller_Access
  imports Controller_Services
begin

text \<open>
  What the calls of the controller may touch: a principal with a list of services changes nothing of any
  other service, but the answer to a report shows it the health of all.
\<close>

section \<open>One service of the registry\<close>

lemma snapshot_other: "t \<noteq> service \<Longrightarrow> mr_services (snd (registry_Snapshot c service now r)) t = mr_services r t"
  by (simp add: registry_Snapshot_def Let_def split: option.split)

lemma list_other: "t \<noteq> service \<Longrightarrow> mr_services (snd (registry_List c service now r)) t = mr_services r t"
  using snapshot_other [of t service c now r]
  by (auto simp: registry_List_def split: prod.splits sum.splits)

lemma store_lease_other: "t \<noteq> service \<Longrightarrow> mr_services (store_lease service iid now l r) t = mr_services r t"
  by (simp add: store_lease_def Let_def)

lemma register_other: "t \<noteq> ri_Service inst \<Longrightarrow> mr_services (snd (Register c epoch token inst ttl now r)) t = mr_services r t"
  by (simp add: Register_def registerAt_def Let_def store_lease_other)

lemma heartbeat_other:
  "t \<noteq> service \<Longrightarrow> mr_services (snd (HeartbeatWithOwner c service iid epoch token ttl now r)) t = mr_services r t"
  by (simp add: HeartbeatWithOwner_def heartbeatAtWithOwner_def Let_def store_lease_other split: option.split)

lemma list_and_find_other:
  "t \<noteq> service \<Longrightarrow> mr_services (co_registry (snd (list_and_find c now service iid missing s))) t = mr_services (co_registry s) t"
  "co_health (snd (list_and_find c now service iid missing s)) = co_health s"
  using list_other [of t service c now "co_registry s"]
  by (auto simp: list_and_find_def split: prod.splits sum.splits)


section \<open>One service of the health manager\<close>

lemma update_sample_other:
  assumes "sp_Service x \<noteq> t" "plain (sp_Service x)" "plain t"
  shows "map_of (fst (update_sample now clock machine scores x acc)) (ScoreKey t i) = map_of (fst acc) (ScoreKey t i)"
    and "t \<in> set (snd (update_sample now clock machine scores x acc)) \<longleftrightarrow> t \<in> set (snd acc)"
proof -
  have "ScoreKey (sp_Service x) (sp_InstanceID x) \<noteq> ScoreKey t i"
    using ScoreKey_inject [OF assms(2, 3)] assms(1) by blast
  then show "map_of (fst (update_sample now clock machine scores x acc)) (ScoreKey t i) = map_of (fst acc) (ScoreKey t i)"
    by (simp add: update_sample_def Let_def update_conv' split: prod.split)
  show "t \<in> set (snd (update_sample now clock machine scores x acc)) \<longleftrightarrow> t \<in> set (snd acc)"
    using assms(1) by (auto simp: update_sample_def Let_def split: prod.split)
qed

lemma update_samples_other:
  assumes "\<forall>x\<in>set samples. sp_Service x \<noteq> t \<and> plain (sp_Service x)" "plain t"
  shows "map_of (fst (fold (update_sample now clock machine scores) samples acc)) (ScoreKey t i) = map_of (fst acc) (ScoreKey t i) \<and>
    (t \<in> set (snd (fold (update_sample now clock machine scores) samples acc)) \<longleftrightarrow> t \<in> set (snd acc))"
  using assms by (induction samples arbitrary: acc) (simp_all add: update_sample_other)

lemma bump_other:
  "hm_health (bumpIfChangedLocked changed m) = hm_health m"
  "t \<notin> set changed \<Longrightarrow> map_of (hm_serviceRevisions (bumpIfChangedLocked changed m)) t = map_of (hm_serviceRevisions m) t"
proof -
  have "map_of (fold (\<lambda>s. AList.update s v) changed xs) t = map_of xs t" if "t \<notin> set changed" for xs :: "(string \<times> int) list" and v
    using that by (induction changed arbitrary: xs) (auto simp: update_conv')
  then show "t \<notin> set changed \<Longrightarrow> map_of (hm_serviceRevisions (bumpIfChangedLocked changed m)) t = map_of (hm_serviceRevisions m) t"
    by (simp add: bumpIfChangedLocked_def Let_def)
qed (simp add: bumpIfChangedLocked_def Let_def)

lemma Update_other:
  assumes "\<forall>x\<in>set samples. sp_Service x \<noteq> t \<and> plain (sp_Service x)" "plain t" "t \<noteq> ''''"
  shows "Get t i (snd (Update ps p now clock samples m)) = Get t i m"
    and "healthVersionLocked t (snd (Update ps p now clock samples m)) = healthVersionLocked t m"
proof -
  obtain health changed where acc: "fold (update_sample now clock (stateMachineForLocked m) (Calculate ps p (hm_calculator m) samples))
      samples (hm_health m, []) = (health, changed)"
    by fastforce
  have "map_of health (ScoreKey t i) = map_of (hm_health m) (ScoreKey t i)" "t \<notin> set changed" for i
    using update_samples_other [OF assms(1, 2), of now clock "stateMachineForLocked m"
        "Calculate ps p (hm_calculator m) samples" "(hm_health m, [])" i] acc by simp_all
  then show "Get t i (snd (Update ps p now clock samples m)) = Get t i m"
    "healthVersionLocked t (snd (Update ps p now clock samples m)) = healthVersionLocked t m"
    using assms(3) by (simp_all add: Update_def acc Get_def healthVersionLocked_def bump_other Let_def)
qed

section \<open>The services a call names\<close>

text \<open>Whatever a request asks about, read off its fields.\<close>

fun request_services :: "request \<Rightarrow> string set" where
  "request_services (RegisterInstanceReq inst seconds) = wi_Service ` set_option inst"
| "request_services (HeartbeatReq h) = {hb_Service h}"
| "request_services (ListInstancesReq service) = {service}"
| "request_services (WatchInstancesReq service version) = {service}"
| "request_services (GetPolicyReq service) = {service}"
| "request_services (WatchPolicyReq service) = {service}"
| "request_services (ReportEndpointStatsReq samples) = {ws_Service x | x. Some x \<in> set samples \<and> ws_Service x \<noteq> ''''}"
| "request_services (ListEndpointHealthReq service) = {service}"
| "request_services NilRequest = {}"

definition nameless :: "wire_sample option \<Rightarrow> bool" where
  "nameless x \<longleftrightarrow> (case x of None \<Rightarrow> True | Some y \<Rightarrow> ws_Service y = '''')"

lemma nameless_skipped:
  assumes "nameless x"
  shows "report_services (x # xs) seen = report_services xs seen"
    "samplesFromProto env (x # xs) samples acc = samplesFromProto env xs samples acc"
    "request_services (ReportEndpointStatsReq (x # xs)) = request_services (ReportEndpointStatsReq xs)"
  using assms by (auto simp: nameless_def split: option.splits)

lemma named_services:
  assumes "\<not> nameless x"
  obtains y where "x = Some y" "ws_Service y \<noteq> ''''"
    "request_services (ReportEndpointStatsReq (x # xs)) = insert (ws_Service y) (request_services (ReportEndpointStatsReq xs))"
  using assms by (auto simp: nameless_def split: option.splits)

declare request_services.simps(7) [simp del]

lemma report_services_exact:
  assumes "\<not> rs_globalOnly (report_services samples seen)" "seen \<noteq> Some ''''"
  shows "set (rs_services (report_services samples seen)) = request_services (ReportEndpointStatsReq samples) \<union> set_option seen"
  using assms
proof (induction samples arbitrary: seen)
  case Nil
  then show ?case
    by (auto simp: singleServiceScope_def empty_scope_def request_services.simps(7) split: option.split)
next
  case (Cons x samples)
  show ?case
  proof (cases "nameless x")
    case True
    then show ?thesis
      using Cons unfolding nameless_skipped [OF True] by blast
  next
    case False
    then obtain y where y: "x = Some y" "ws_Service y \<noteq> ''''"
      "request_services (ReportEndpointStatsReq (x # samples)) = insert (ws_Service y) (request_services (ReportEndpointStatsReq samples))"
      by (rule named_services)
    then have seen: "seen = None \<or> seen = Some (ws_Service y)"
      "report_services (x # samples) seen = report_services samples (Some (ws_Service y))"
      using Cons.prems(1) by (auto split: if_splits)
    then show ?thesis
      using Cons.IH [of "Some (ws_Service y)"] Cons.prems(1) y(2, 3) by auto
  qed
qed

lemma scope_names_services:
  assumes "authorizePrincipalScope p mthd req = None" "\<not> Principal_Global p" "handler_of env req = Some (mthd, handler)"
  shows "request_services req \<subseteq> set (pr_Services p)"
proof -
  obtain scope where scope: "requestServiceScopeFor mthd req = Some scope" "\<not> rs_globalOnly scope" "rs_services scope \<noteq> []"
    "\<forall>service\<in>set (rs_services scope). allowsService p service"
    using assms(1, 2) by (auto simp: authorizePrincipalScope_def list_ex_iff split: option.splits if_splits)
  have "request_services req = set (rs_services scope)"
    using assms(3) scope(1-3) report_services_exact [of _ None]
    by (cases req) (auto simp: handler_of_def requestServiceScopeFor_def singleServiceScope_def empty_scope_def telemetryReportScope_def
        split: option.splits if_splits)
  moreover have "set (rs_services scope) \<subseteq> set (pr_Services p)"
    using scope(4) assms(2) by (auto simp: allowsService_def list_ex_iff split: if_splits)
  ultimately show ?thesis
    by simp
qed

lemma found_principal_enabled: "principalFromContext a ctx = Inr p \<Longrightarrow> auth_Enabled a"
  by (auto simp: principalFromContext_def auth_Enabled_def mtlsPrincipalFromContext_def split: prod.splits if_splits)

lemma authorized_principal:
  assumes "principalFromContext a ctx = Inr p" "pr_Role p \<noteq> RoleAdmin" "authorize a ctx mthd req = Inr q"
  shows "q = p \<and> authorizePrincipalScope p mthd req = None"
  using assms found_principal_enabled [OF assms(1)] by (auto simp: authorize_def split: if_splits option.splits)


section \<open>Calls keep to the services they name\<close>

definition untouched :: "string \<Rightarrow> controller \<Rightarrow> controller \<Rightarrow> bool" where
  "untouched t s s' \<longleftrightarrow> mr_services (co_registry s') t = mr_services (co_registry s) t \<and>
     (\<forall>i. Get t i (co_health s') = Get t i (co_health s)) \<and> healthVersionLocked t (co_health s') = healthVersionLocked t (co_health s)"

lemma untouched_refl [simp]: "untouched t s s"
  by (simp add: untouched_def)

lemma telemetryInstances_other:
  "t \<noteq> service \<Longrightarrow> mr_services (snd (snd (telemetryInstances env service acc))) t = mr_services (snd acc) t"
  using list_other [of t service] by (auto simp: telemetryInstances_def split: prod.splits option.splits sum.splits; metis snd_conv)

lemma samplesFromProto_other:
  assumes "samplesFromProto env protos samples acc = (result, r)" "t \<notin> request_services (ReportEndpointStatsReq protos)"
  shows "mr_services r t = mr_services (snd acc) t"
  using assms
proof (induction protos arbitrary: samples acc)
  case (Cons x protos)
  show ?case
  proof (cases "nameless x")
    case True
    then show ?thesis
      using Cons unfolding nameless_skipped [OF True] by blast
  next
    case False
    then obtain y where y: "x = Some y" "ws_Service y \<noteq> ''''"
      "request_services (ReportEndpointStatsReq (x # protos)) = insert (ws_Service y) (request_services (ReportEndpointStatsReq protos))"
      by (rule named_services)
    obtain res acc1 where res: "resolveTelemetryInstance env y acc = (res, acc1)"
      by (rule prod.exhaust)
    have t: "t \<noteq> ws_Service y" "t \<notin> request_services (ReportEndpointStatsReq protos)"
      using Cons.prems(2) y(3) by auto
    then have "mr_services (snd acc1) t = mr_services (snd acc) t"
      using telemetryInstances_other [of t "ws_Service y" env acc] res
      by (auto simp: resolveTelemetryInstance_def split: prod.splits sum.splits)
    moreover have "\<exists>samples1. samplesFromProto env protos samples1 acc1 = (result, r) \<or> r = snd acc1"
      using Cons.prems(1) y(1, 2) res by (auto split: sum.splits option.splits if_splits)
    ultimately show ?thesis
      using Cons.IH t(2) by metis
  qed
qed simp

lemma samplesFromProto_services:
  assumes "samplesFromProto env protos samples acc = (Inr out, r)"
  shows "sp_Service ` set out \<subseteq> request_services (ReportEndpointStatsReq protos) \<union> sp_Service ` set samples"
  using assms
proof (induction protos arbitrary: samples acc)
  case (Cons x protos)
  show ?case
  proof (cases "nameless x")
    case True
    then show ?thesis
      using Cons unfolding nameless_skipped [OF True] by blast
  next
    case False
    then obtain y where y: "x = Some y" "ws_Service y \<noteq> ''''"
      "request_services (ReportEndpointStatsReq (x # protos)) = insert (ws_Service y) (request_services (ReportEndpointStatsReq protos))"
      by (rule named_services)
    obtain res acc1 where res: "resolveTelemetryInstance env y acc = (res, acc1)"
      by (rule prod.exhaust)
    obtain samples1 where "samplesFromProto env protos samples1 acc1 = (Inr out, r)"
        "sp_Service ` set samples1 \<subseteq> insert (ws_Service y) (sp_Service ` set samples)"
      using Cons.prems y(1, 2) res by (auto simp: bound_sample_def split: sum.splits option.splits if_splits)
    then show ?thesis
      using Cons.IH [of samples1 acc1] y(3) by blast
  qed
qed simp

lemma untouched_trans: "untouched t s s1 \<Longrightarrow> untouched t s1 s2 \<Longrightarrow> untouched t s s2"
  by (simp add: untouched_def)

lemma untouched_registry: "untouched t s (s\<lparr>co_registry := r\<rparr>) \<longleftrightarrow> mr_services r t = mr_services (co_registry s) t"
  by (simp add: untouched_def)

lemma list_and_find_untouched: "t \<noteq> service \<Longrightarrow> untouched t s (snd (list_and_find c now service iid missing s))"
  using list_and_find_other by (simp add: untouched_def)

lemma from_proto [simp]:
  "ri_Service (instanceFromProto wire) = wi_Service wire" "ri_ID (instanceFromProto wire) = wi_Id wire"
  "ri_Address (instanceFromProto wire) = wi_Address wire"
  by (simp_all add: instanceFromProto_def)

lemma register_store_untouched:
  assumes "register_store d ctx c epoch token now req s = (result, s1)" "t \<notin> request_services req"
  shows "untouched t s s1" "result = Inr inst \<Longrightarrow> ri_Service inst \<in> request_services req"
proof -
  have "untouched t s s1 \<and> (result = Inr inst \<longrightarrow> ri_Service inst \<in> request_services req)"
  proof (cases "AuthorizeControllerPrincipal ctx RegisterInstance_Method req = None \<and> (\<exists>wire seconds. req = RegisterInstanceReq (Some wire) seconds)")
    case True
    then obtain wire seconds where req: "req = RegisterInstanceReq (Some wire) seconds"
      by blast
    obtain err r where reg: "Register c epoch token (instanceFromProto wire) (leaseTTL d seconds) now (co_registry s) = (err, r)"
      by (rule prod.exhaust)
    have "t \<noteq> ri_Service (instanceFromProto wire)"
      using assms(2) req by simp
    from register_other [OF this] have "mr_services r t = mr_services (co_registry s) t"
      using reg by (metis snd_conv)
    then show ?thesis
      using assms(1) True req reg by (auto simp: register_store_def untouched_registry Let_def split: option.splits)
  next
    case False
    then show ?thesis
      using assms(1) by (auto simp: register_store_def split: option.splits request.splits)
  qed
  then show "untouched t s s1" "result = Inr inst \<Longrightarrow> ri_Service inst \<in> request_services req"
    by simp_all
qed

lemma RegisterInstance_untouched:
  assumes "t \<notin> request_services req"
  shows "untouched t s (snd (RegisterInstance env ctx req s))"
proof -
  obtain result s1 where store: "register_store (ce_defaultLease env) ctx (ce_cancelled env 0) (ce_epoch env) (ce_token env) (ce_now env 0) req s = (result, s1)"
    by (rule prod.exhaust)
  note stored = register_store_untouched [OF store assms]
  show ?thesis
  proof (cases result)
    case (Inl e)
    then show ?thesis
      using stored(1) store by (simp add: RegisterInstance_def)
  next
    case (Inr inst)
    then have "t \<noteq> ri_Service inst"
      using stored(2) assms by blast
    from list_and_find_untouched [OF this]
    have "untouched t s1 (snd (register_reply c now inst s1))" for c now
      unfolding register_reply_def by (auto split: prod.splits sum.splits; metis snd_conv)
    then show ?thesis
      using store Inr untouched_trans [OF stored(1)] by (simp add: RegisterInstance_def)
  qed
qed

lemma Heartbeat_untouched:
  assumes "t \<notin> request_services req"
  shows "untouched t s (snd (service_Heartbeat env ctx req s))"
proof (cases req)
  case (HeartbeatReq h)
  then have t: "t \<noteq> hb_Service h"
    using assms by simp
  obtain err r where beat: "HeartbeatWithOwner (ce_cancelled env 0) (hb_Service h) (hb_InstanceId h) (hb_RegistrationEpoch h)
      (hb_OwnerToken h) (leaseTTL (ce_defaultLease env) (hb_LeaseTtlSeconds h)) (ce_now env 0) (co_registry s) = (err, r)"
    by (rule prod.exhaust)
  have "mr_services r t = mr_services (co_registry s) t"
    using heartbeat_other [OF t] beat by (metis snd_conv)
  then have "untouched t s (s\<lparr>co_registry := r\<rparr>)"
    by (simp add: untouched_registry)
  moreover from untouched_trans [OF this list_and_find_untouched [OF t]]
  have "untouched t s s2" if "list_and_find c now (hb_Service h) iid missing (s\<lparr>co_registry := r\<rparr>) = (res, s2)" for c now iid missing res s2
    using that by (metis snd_conv)
  ultimately show ?thesis
    using HeartbeatReq beat by (auto simp: service_Heartbeat_def split: option.splits prod.splits sum.splits)
qed (auto simp: service_Heartbeat_def split: option.splits)

lemma ListInstances_untouched:
  assumes "t \<notin> request_services req"
  shows "untouched t s (snd (ListInstances env ctx req s))"
proof (cases req)
  case (ListInstancesReq service)
  then have "t \<noteq> service"
    using assms by simp
  from snapshot_other [OF this] have "untouched t s s2" if "instancesView c now service s = (res, s2)" for c now res s2
    using that by (auto simp: instancesView_def untouched_registry Let_def split: prod.splits sum.splits; metis snd_conv)
  then show ?thesis
    using ListInstancesReq by (auto simp: ListInstances_def split: option.splits prod.splits sum.splits)
qed (auto simp: ListInstances_def split: option.splits)

lemma ReportEndpointStats_untouched:
  assumes "t \<notin> request_services req" "\<forall>u\<in>request_services req. plain u" "plain t" "t \<noteq> ''''"
  shows "untouched t s (snd (ReportEndpointStats env ctx req s))"
proof (cases req)
  case (ReportEndpointStatsReq protos)
  obtain result r where samples: "samplesFromProto env protos [] ([], co_registry s) = (result, r)"
    by (rule prod.exhaust)
  have r: "mr_services r t = mr_services (co_registry s) t"
    using samplesFromProto_other [OF samples] assms(1) ReportEndpointStatsReq by simp
  show ?thesis
  proof (cases "AuthorizeControllerPrincipal ctx ReportEndpointStats_Method req = None \<and> isl result = False")
    case True
    then obtain out where out: "result = Inr out"
      by (auto simp: isl_def split: sum.splits) (metis sum.exhaust)
    then have "\<forall>x\<in>set out. sp_Service x \<in> request_services req"
      using samplesFromProto_services [OF samples [unfolded out]] ReportEndpointStatsReq by auto
    then have "\<forall>x\<in>set out. sp_Service x \<noteq> t \<and> plain (sp_Service x)"
      using assms(1, 2) by auto
    from Update_other [OF this assms(3, 4)] show ?thesis
      using True r ReportEndpointStatsReq samples out
      by (auto simp: ReportEndpointStats_def untouched_def split: prod.splits) (metis snd_conv)+
  next
    case False
    then show ?thesis
      using r ReportEndpointStatsReq samples
      by (auto simp: ReportEndpointStats_def untouched_registry split: option.splits sum.splits)
  qed
qed (auto simp: ReportEndpointStats_def split: option.splits)

lemma handler_untouched:
  assumes "handler_of env req = Some (mthd, handler)" "t \<notin> request_services req" "\<forall>u\<in>request_services req. plain u" "plain t" "t \<noteq> ''''"
  shows "untouched t s (snd (handler ctx req s))"
proof -
  have "handler = RegisterInstance env \<or> handler = service_Heartbeat env \<or> handler = ListInstances env \<or>
      handler = ReportEndpointStats env \<or> handler = ListEndpointHealth env"
    using assms(1) by (simp add: handler_of_def split: request.splits)
  moreover have "snd (ListEndpointHealth env ctx req s) = s"
    by (simp add: ListEndpointHealth_def Let_def split: option.split)
  ultimately show ?thesis
    using RegisterInstance_untouched [OF assms(2)] Heartbeat_untouched [OF assms(2)] ListInstances_untouched [OF assms(2)]
      ReportEndpointStats_untouched [OF assms(2-5)] by (elim disjE) simp_all
qed

lemma serve_cases:
  assumes "serve a env ctx req s = Some (result, s')"
  obtains mthd handler where "handler_of env req = Some (mthd, handler)" "UnaryServerInterceptor a handler ctx mthd req s = (result, s')"
  using assms by (auto simp: serve_def split: prod.splits)

lemma serve_total: "handler_of env req = Some h \<Longrightarrow> \<exists>result s'. serve a env ctx req s = Some (result, s')"
  by (cases "UnaryServerInterceptor a (snd h) ctx (fst h) req s") (simp add: serve_def case_prod_beta)

lemma scoped_call_untouched:
  assumes "principalFromContext a ctx = Inr p" "pr_Role p \<noteq> RoleAdmin" "\<not> Principal_Global p"
    and "\<forall>u\<in>set (pr_Services p). plain u" "plain t" "t \<noteq> ''''" "t \<notin> set (pr_Services p)"
    and "serve a env ctx req s = Some (result, s')"
  shows "untouched t s s'"
proof -
  obtain mthd handler where h: "handler_of env req = Some (mthd, handler)" "UnaryServerInterceptor a handler ctx mthd req s = (result, s')"
    using assms(8) by (rule serve_cases)
  show ?thesis
  proof (cases "authorize a ctx mthd req")
    case (Inl e)
    have "(Inl e, s) = (result, s')"
      using h(2) unfolding UnaryServerInterceptor_def Inl sum.case .
    then show ?thesis
      by (elim Pair_inject) simp
  next
    case (Inr q)
    from authorized_principal [OF assms(1, 2) Inr] have sub: "request_services req \<subseteq> set (pr_Services p)"
      by (intro scope_names_services [OF _ assms(3) h(1)]) (rule conjunct2)
    have "t \<notin> request_services req" "\<forall>u\<in>request_services req. plain u"
      using sub assms(4, 7) by blast+
    from handler_untouched [OF h(1) this assms(5, 6)]
    have "untouched t s (snd (handler (if pr_Role q \<noteq> '''' then ctx\<lparr>cx_principal := Some q\<rparr> else ctx) req s))" .
    moreover have "handler (if pr_Role q \<noteq> '''' then ctx\<lparr>cx_principal := Some q\<rparr> else ctx) req s = (result, s')"
      using h(2) unfolding UnaryServerInterceptor_def Inr sum.case .
    ultimately show ?thesis
      by (simp only: snd_conv)
  qed
qed

text \<open>
  C11: a call by a principal with a list of services, one that is not an administrator, leaves every service
  outside the list as it was: its leases, snapshot and version in the registry, its health records, and the
  version of its health. This holds for every unary call of the registry and the telemetry service,
  whatever it contains, for service names without a slash, the separator in the keys of health records.
\<close>

theorem scoped_calls_confined:
  assumes "principalFromContext a ctx = Inr p" "pr_Role p \<noteq> RoleAdmin" "\<not> Principal_Global p"
    and "\<forall>u\<in>set (pr_Services p). plain u" "plain t" "t \<noteq> ''''" "t \<notin> set (pr_Services p)"
    and "serve a env ctx req s = Some (result, s')"
  shows "mr_services (co_registry s') t = mr_services (co_registry s) t \<and>
    (\<forall>i. Get t i (co_health s') = Get t i (co_health s)) \<and>
    healthVersionLocked t (co_health s') = healthVersionLocked t (co_health s)"
  using scoped_call_untouched [OF assms] by (simp add: untouched_def)

definition demo_caller :: "Role \<Rightarrow> TokenAuthenticator \<times> call_context" where
  "demo_caller role =
     (NewPrincipalTokenAuthenticatorWithMTLS [(''t1'', \<lparr>pr_Role = role, pr_Services = [''orders'']\<rparr>)] [] DefaultControllerMethodRoles,
      \<lparr>cx_metadata = Some [(''authorization'', [''Bearer t1''])], cx_identities = [], cx_principal = None\<rparr>)"

lemma demo_principal:
  "principalFromContext (fst (demo_caller role)) (snd (demo_caller role)) = Inr \<lparr>pr_Role = role, pr_Services = [''orders'']\<rparr>"
proof -
  have "lower_byte CHR ''B'' = CHR ''b''"
    by code_simp
  then have "bearerToken ''Bearer t1'' = Some ''t1''"
    by (simp add: bearerToken_def TrimSpace_id printable_def strings_EqualFold_def Let_def) (simp add: lower_byte_def)
  then show ?thesis
    by (simp add: demo_caller_def principalFromContext_def tokenFromContext_def md_Get_def first_token_def map_filter_simps
        NewPrincipalTokenAuthenticatorWithMTLS_def)
qed

text \<open>A controller that has seen telemetry of one instance of the payment service.\<close>

definition demo_controller :: controller where
  "demo_controller = \<lparr>co_registry = NewMemoryRegistry,
     co_health = (NewHealthManager DefaultScoreWeights 0 zero_config [])
       \<lparr>hm_health := [(ScoreKey ''payments'' ''p1'', NewEndpointHealth ''payments'' ''p1'' ''10.0.0.9:80'' [''e9''])]\<rparr>\<rparr>"

theorem scoped_calls_confined_witness:
  "\<exists>result s'. serve (fst (demo_caller RoleRegistry)) (demo_call_env ''e1'' ''k1'' 5) (snd (demo_caller RoleRegistry))
       (RegisterInstanceReq (Some demo_wire) 30) demo_controller = Some (result, s') \<and>
     (\<forall>i. Get ''payments'' i (co_health s') = Get ''payments'' i (co_health demo_controller))"
proof -
  obtain result s' where "serve (fst (demo_caller RoleRegistry)) (demo_call_env ''e1'' ''k1'' 5) (snd (demo_caller RoleRegistry))
      (RegisterInstanceReq (Some demo_wire) 30) demo_controller = Some (result, s')"
    using serve_total by (force simp: handler_of_def)
  moreover from scoped_calls_confined [OF demo_principal _ _ _ _ _ _ this, of "''payments''"]
  have "\<forall>i. Get ''payments'' i (co_health s') = Get ''payments'' i (co_health demo_controller)"
    by (simp add: Principal_Global_def plain_def)
  ultimately show ?thesis
    by blast
qed


section \<open>What an answer shows\<close>

lemma listLocked_all: "Get t i m = Some h \<Longrightarrow> h \<in> set (listLocked '''' m)"
  by (auto simp: Get_def listLocked_def dest!: map_of_SomeD intro: rev_image_eqI)

lemma report_answer:
  assumes "serve a env ctx (ReportEndpointStatsReq samples) s = Some (Inr (ReportEndpointStatsResponse endpoints), s')"
  shows "endpoints = healthToProto (listLocked '''' (co_health s'))"
proof -
  obtain ctx' where "ReportEndpointStats env ctx' (ReportEndpointStatsReq samples) s = (Inr (ReportEndpointStatsResponse endpoints), s')"
    using assms by (auto simp: serve_def handler_of_def UnaryServerInterceptor_def split: sum.splits)
  then show ?thesis
    by (auto simp: ReportEndpointStats_def Update_def Let_def split: option.splits prod.splits sum.splits)
qed

lemma denied_health:
  assumes "principalFromContext a ctx = Inr p" "pr_Role p \<noteq> RoleAdmin" "\<not> Principal_Global p" "t \<notin> set (pr_Services p)"
  shows "\<exists>msg. serve a env ctx (ListEndpointHealthReq t) s = Some (Inl (StatusError PermissionDenied msg), s)"
proof -
  have "authorizePrincipalScope p ListEndpointHealth_Method (ListEndpointHealthReq t) \<noteq> None"
    using scope_names_services [of p ListEndpointHealth_Method "ListEndpointHealthReq t" env "ListEndpointHealth env"] assms(3, 4)
    by (auto simp: handler_of_def)
  moreover have "\<exists>msg. e = StatusError PermissionDenied msg"
    if "authorizePrincipalScope p ListEndpointHealth_Method (ListEndpointHealthReq t) = Some e" for e
    using that assms(3) by (auto simp: authorizePrincipalScope_def requestServiceScopeFor_def split: if_splits)
  ultimately have "\<exists>msg. authorize a ctx ListEndpointHealth_Method (ListEndpointHealthReq t) = Inl (StatusError PermissionDenied msg)"
    using assms(1, 2) found_principal_enabled [OF assms(1)] by (auto simp: authorize_def)
  then show ?thesis
    by (auto simp: serve_def handler_of_def UnaryServerInterceptor_def)
qed

text \<open>
  C12: the answer to a report shows the health of every service. If a principal with a list of services
  may report at all, the answer contains the address, state and score of every instance of every other
  service that the controller knows, although the call that lists the health of such a service, or of all
  services, is denied to the same principal.
\<close>

theorem report_reveals_other_services:
  assumes "principalFromContext a ctx = Inr p" "pr_Role p \<noteq> RoleAdmin" "\<not> Principal_Global p"
    and "\<forall>u\<in>set (pr_Services p). plain u" "plain t" "t \<noteq> ''''" "t \<notin> set (pr_Services p)" "'''' \<notin> set (pr_Services p)"
    and "serve a env ctx (ReportEndpointStatsReq samples) s = Some (Inr (ReportEndpointStatsResponse endpoints), s')"
    and "Get t i (co_health s) = Some h"
  shows "set (healthToProto [h]) \<subseteq> set endpoints \<and>
    (\<forall>u\<in>{t, ''''}. \<exists>msg. serve a env ctx (ListEndpointHealthReq u) s' = Some (Inl (StatusError PermissionDenied msg), s'))"
proof -
  have "Get t i (co_health s') = Some h"
    using scoped_call_untouched [OF assms(1-7, 9)] assms(10) by (simp add: untouched_def)
  then have "h \<in> set (listLocked '''' (co_health s'))"
    by (rule listLocked_all)
  moreover have "endpoints = healthToProto (listLocked '''' (co_health s'))"
    using assms(9) by (rule report_answer)
  ultimately show ?thesis
    using denied_health [OF assms(1-3)] assms(7, 8) by (auto simp: healthToProto_def)
qed

definition demo_report :: request where
  "demo_report = ReportEndpointStatsReq [Some demo_wire_sample]"

lemma demo_report_scope:
  "authorizePrincipalScope \<lparr>pr_Role = role, pr_Services = [''orders'']\<rparr> ReportEndpointStats_Method demo_report = None"
  by (simp add: authorizePrincipalScope_def Principal_Global_def requestServiceScopeFor_def demo_report_def demo_wire_sample_def telemetryReportScope_def
      singleServiceScope_def allowsService_def)

lemma demo_report_answer:
  "\<exists>endpoints s'. serve (fst (demo_caller RoleSDK)) (demo_call_env ''e1'' ''k1'' 5) (snd (demo_caller RoleSDK)) demo_report demo_controller =
     Some (Inr (ReportEndpointStatsResponse endpoints), s')"
proof -
  let ?p = "\<lparr>pr_Role = RoleSDK, pr_Services = [''orders'']\<rparr>"
  have "ta_rules (fst (demo_caller RoleSDK)) = DefaultControllerMethodRoles"
    by (simp add: demo_caller_def NewPrincipalTokenAuthenticatorWithMTLS_def)
  then have auth: "authorize (fst (demo_caller RoleSDK)) (snd (demo_caller RoleSDK)) ReportEndpointStats_Method demo_report = Inr ?p"
    using found_principal_enabled [OF demo_principal]
    by (simp add: authorize_def demo_principal demo_report_scope roleAllowed_def method_roles_def DefaultControllerMethodRoles_def)
  have "AuthorizeControllerPrincipal (ctx\<lparr>cx_principal := Some ?p\<rparr>) ReportEndpointStats_Method demo_report = None" for ctx
    by (simp add: AuthorizeControllerPrincipal_def demo_report_scope roleAllowed_def method_roles_def DefaultControllerMethodRoles_def)
  then show ?thesis
    using auth unfolding serve_def
    by (simp add: handler_of_def UnaryServerInterceptor_def ReportEndpointStats_def demo_report_def demo_wire_sample_def demo_controller_def demo_call_env_def
        resolveTelemetryInstance_def telemetryInstances_def registry_List_def registry_Snapshot_def NewMemoryRegistry_def
        index_instances_def resolve_in_def Update_def Let_def split: prod.split)
qed

theorem report_reveals_other_services_witness:
  "\<exists>endpoints s'. serve (fst (demo_caller RoleSDK)) (demo_call_env ''e1'' ''k1'' 5) (snd (demo_caller RoleSDK)) demo_report demo_controller =
       Some (Inr (ReportEndpointStatsResponse endpoints), s') \<and>
     set (healthToProto [NewEndpointHealth ''payments'' ''p1'' ''10.0.0.9:80'' [''e9'']]) \<subseteq> set endpoints"
proof -
  obtain endpoints s' where report: "serve (fst (demo_caller RoleSDK)) (demo_call_env ''e1'' ''k1'' 5) (snd (demo_caller RoleSDK))
      demo_report demo_controller = Some (Inr (ReportEndpointStatsResponse endpoints), s')"
    using demo_report_answer by blast
  have "Get ''payments'' ''p1'' (co_health demo_controller) = Some (NewEndpointHealth ''payments'' ''p1'' ''10.0.0.9:80'' [''e9''])"
    by (simp add: Get_def demo_controller_def)
  from report_reveals_other_services [OF demo_principal _ _ _ _ _ _ _ report [unfolded demo_report_def] this]
  show ?thesis
    using report by (auto simp: Principal_Global_def plain_def)
qed

end
