(* ===== verification/Controller_Leases.thy ===== *)
theory Controller_Leases
  imports Controller_Services
begin

text \<open>
  What a registration gives to its owner, how two of them get in each other's way, and which samples of a
  report count.
\<close>

section \<open>Listings\<close>

lemma find_unique:
  assumes "y \<in> set xs" "P y" "\<And>z. z \<in> set xs \<Longrightarrow> P z \<Longrightarrow> z = y"
  shows "find P xs = Some y"
proof (cases "find P xs")
  case None
  then show ?thesis
    using assms(1, 2) by (simp add: find_None_iff)
next
  case (Some z)
  then have "z \<in> set xs" "P z"
    by (auto simp: find_Some_iff)
  from assms(3) [OF this] show ?thesis
    using Some by (simp only:)
qed

lemma leases_of_member:
  assumes "records_ok r"
  shows "(i, l) \<in> set (leases_of r service) \<longleftrightarrow> lease_at r service i = Some l"
  using assms by (auto simp: leases_of_def lease_at_def records_ok_def keys_distinct_def split: option.split dest: map_of_SomeD)

lemma listing:
  assumes "reg_inv n t r" "t \<le> now" "service \<noteq> ''''"
  obtains instances r' where "registry_List (\<lambda>_. False) service now r = (Inr instances, r')"
    "\<And>inst. inst \<in> set instances \<longleftrightarrow> (\<exists>i l. lease_at r service i = Some l \<and> now < rc_expiresAt l \<and> inst = rc_instance l)"
proof -
  have "records_ok r"
    using assms(1) by (simp add: reg_inv_def)
  note member = leases_of_member [OF this]
  obtain snapshot where snapshot: "fst (registry_Snapshot (\<lambda>_. False) service now r) = Inr snapshot"
    "sn_Instances snapshot = sort_key ri_ID (map rc_instance (live_leases now (leases_of r service)))"
    using snapshot_of_inv [OF assms] by blast
  have live: "l \<in> set (live_leases now (leases_of r service)) \<longleftrightarrow> now < rc_expiresAt l \<and> (\<exists>i. lease_at r service i = Some l)" for l
    by (auto simp: live_leases_def simp flip: member intro: rev_image_eqI)
  have member_iff: "inst \<in> set (sn_Instances snapshot) \<longleftrightarrow> (\<exists>i l. lease_at r service i = Some l \<and> now < rc_expiresAt l \<and> inst = rc_instance l)" for inst
    unfolding snapshot(2) set_sort set_map image_iff Bex_def live by blast
  have "registry_List (\<lambda>_. False) service now r = (Inr (sn_Instances snapshot), snd (registry_Snapshot (\<lambda>_. False) service now r))"
    using snapshot(1) by (auto simp: registry_List_def split: prod.splits)
  then show thesis
    using member_iff by (rule that)
qed

lemma listing_finds:
  assumes "reg_inv n t r" "t \<le> now" "lease_at r service i = Some l" "now < rc_expiresAt l"
  obtains instances r' where "registry_List (\<lambda>_. False) service now r = (Inr instances, r')"
    "find (\<lambda>x. ri_ID x = i) instances = Some (rc_instance l)"
proof -
  have ok: "stored_ok service j k" if "lease_at r service j = Some k" for j k
    using assms(1) that by (simp add: reg_inv_def records_ok_def)
  then have "service \<noteq> ''''" "ri_ID (rc_instance l) = i"
    using assms(3) by (auto simp: stored_ok_def)
  obtain instances r' where list: "registry_List (\<lambda>_. False) service now r = (Inr instances, r')"
    "\<And>inst. inst \<in> set instances \<longleftrightarrow> (\<exists>i l. lease_at r service i = Some l \<and> now < rc_expiresAt l \<and> inst = rc_instance l)"
    using listing [OF assms(1, 2) \<open>service \<noteq> ''''\<close>] by blast
  have "find (\<lambda>x. ri_ID x = i) instances = Some (rc_instance l)"
  proof (rule find_unique)
    fix x
    assume "x \<in> set instances" "ri_ID x = i"
    then obtain j k where "lease_at r service j = Some k" "x = rc_instance k"
      using list(2) by blast
    then show "x = rc_instance l"
      using ok [of j k] \<open>ri_ID x = i\<close> assms(3) by (simp add: stored_ok_def)
  qed (use list(2) assms(3, 4) \<open>ri_ID (rc_instance l) = i\<close> in auto)
  with list(1) show thesis
    by (rule that)
qed

lemma list_lease_at:
  assumes "reg_inv n t r" "t \<le> now"
  shows "lease_at (snd (registry_List c service now r)) u i = Some l \<Longrightarrow> lease_at r u i = Some l"
    and "lease_at r u i = Some l \<Longrightarrow> now < rc_expiresAt l \<Longrightarrow> lease_at (snd (registry_List c service now r)) u i = Some l"
proof -
  have dist: "distinct (map fst (ss_records st))" if "mr_services r u = Some st" for u st
    using assms(1) that by (simp add: reg_inv_def records_ok_def keys_distinct_def)
  have swept: "ss_records (snd (sweepExpiredForService cancelled s st now)) =
      (if cancelled then ss_records st else filter (\<lambda>(i, l). now < rc_expiresAt l) (ss_records st))" for cancelled s st
    by (simp add: sweepExpiredForService_def Let_def rebuildSnapshotLocked_def)
  have list: "snd (registry_List c service now r) = snd (registry_Snapshot c service now r)"
    by (auto simp: registry_List_def split: prod.splits sum.splits)
  show "lease_at (snd (registry_List c service now r)) u i = Some l \<Longrightarrow> lease_at r u i = Some l"
    unfolding list using dist
    by (auto simp: registry_Snapshot_def lease_at_update swept lease_at_def Let_def split: option.splits if_splits dest!: map_of_SomeD)
  show "lease_at (snd (registry_List c service now r)) u i = Some l" if live: "lease_at r u i = Some l" "now < rc_expiresAt l"
  proof -
    obtain st where st: "mr_services r u = Some st" "map_of (ss_records st) i = Some l"
      using live(1) by (auto simp: lease_at_def split: option.splits)
    have "map_of (filter (\<lambda>(i, l). now < rc_expiresAt l) (ss_records st)) i = Some l"
      using live(2) map_of_SomeD [OF st(2)] dist [OF st(1)] by (intro map_of_is_SomeI) (simp_all add: distinct_map_filter)
    then show ?thesis
      unfolding list using st by (auto simp: registry_Snapshot_def lease_at_update swept lease_at_def Let_def split: option.split)
  qed
qed

section \<open>Registrations\<close>

lemma registerAt_lease:
  assumes "registerAt False epoch token inst ttl now r = (None, r')"
  shows "\<exists>l. lease_at r' (ri_Service inst) (ri_ID inst) = Some l \<and> rc_expiresAt l = now + ttl \<and>
    ri_RegistrationEpoch (rc_instance l) = epoch \<and> ri_OwnerToken (rc_instance l) = token"
  using assms by (auto simp: registerAt_def Let_def store_lease_at split: if_splits)

lemma register_store_stores:
  assumes "AuthorizeControllerPrincipal ctx RegisterInstance_Method (RegisterInstanceReq (Some wire) seconds) = None"
    and "wi_Id wire \<noteq> ''''" "wi_Service wire \<noteq> ''''" "wi_Address wire \<noteq> ''''" "0 < leaseTTL d seconds"
  shows "\<exists>s'. register_store d ctx False epoch token now (RegisterInstanceReq (Some wire) seconds) s = (Inr (instanceFromProto wire), s')"
  using assms by (simp add: register_store_def Register_def registerAt_def instanceFromProto_def Let_def)

lemma register_store_registers:
  assumes "reg_inv n t (co_registry s)" "n + 1 < 2 ^ 64" "t \<le> now" "zero_time \<le> now"
    and "register_store d ctx False epoch token now (RegisterInstanceReq (Some wire) seconds) s = (Inr inst, s1)"
  obtains l where "inst = instanceFromProto wire" "reg_inv (Suc n) now (co_registry s1)"
    "lease_at (co_registry s1) (wi_Service wire) (wi_Id wire) = Some l" "rc_expiresAt l = now + leaseTTL d seconds"
    "ri_RegistrationEpoch (rc_instance l) = epoch" "ri_OwnerToken (rc_instance l) = token"
proof -
  let ?inst = "instanceFromProto wire"
  obtain r where r: "registerAt False epoch token ?inst (leaseTTL d seconds) now (co_registry s) = (None, r)" "inst = ?inst"
    "co_registry s1 = r"
    using assms(5) by (auto simp: register_store_def Register_def Let_def split: option.splits prod.splits)
  have inv: "reg_inv (Suc n) now (co_registry s1)"
    using run_reg_op_inv [OF assms(1-4), of "RegisterOp False epoch token ?inst (leaseTTL d seconds)"] r by simp
  obtain l where "lease_at r (wi_Service wire) (wi_Id wire) = Some l" "rc_expiresAt l = now + leaseTTL d seconds"
    "ri_RegistrationEpoch (rc_instance l) = epoch" "ri_OwnerToken (rc_instance l) = token"
    using registerAt_lease [OF r(1)] by (auto simp: instanceFromProto_def)
  then show thesis
    using r(2, 3) inv by (intro that) simp_all
qed

lemma list_and_find_lease:
  assumes "reg_inv n t (co_registry s)" "t \<le> now" "zero_time \<le> now" "lease_at (co_registry s) service i = Some l" "now < rc_expiresAt l"
  obtains s' where "list_and_find (\<lambda>_. False) now service i missing s = (Inr (rc_instance l), s')"
    "reg_inv n now (co_registry s')" "lease_at (co_registry s') service i = Some l"
proof -
  obtain instances r' where list: "registry_List (\<lambda>_. False) service now (co_registry s) = (Inr instances, r')"
    "find (\<lambda>x. ri_ID x = i) instances = Some (rc_instance l)"
    using assms(1, 2, 4, 5) by (rule listing_finds)
  moreover have "lease_at r' service i = Some l"
    using list_lease_at(2) [OF assms(1, 2, 4, 5), of "\<lambda>_. False" service] list(1) by simp
  moreover have "snd (registry_Snapshot (\<lambda>_. False) service now (co_registry s)) = r'"
    using list(1) by (auto simp: registry_List_def split: prod.splits sum.splits)
  then have "reg_inv n now r'"
    using snapshot_inv(1) [OF assms(1-3), of "\<lambda>_. False" service] by simp
  ultimately show thesis
    by (intro that [of "s\<lparr>co_registry := r'\<rparr>"]) (simp_all add: list_and_find_def)
qed

lemma register_reply_lease:
  assumes "reg_inv n t (co_registry s)" "t \<le> now" "zero_time \<le> now"
    and "lease_at (co_registry s) (wi_Service wire) (wi_Id wire) = Some l" "now < rc_expiresAt l"
  obtains s' where "register_reply (\<lambda>_. False) now (instanceFromProto wire) s =
      (Inr (RegisterInstanceResponse (instanceToProto (rc_instance l)) (ri_OwnerToken (rc_instance l))), s')"
    "reg_inv n now (co_registry s')" "lease_at (co_registry s') (wi_Service wire) (wi_Id wire) = Some l"
proof -
  obtain s' where "list_and_find (\<lambda>_. False) now (wi_Service wire) (wi_Id wire)
      (StatusError Internal ''registered instance was not visible'') s = (Inr (rc_instance l), s')"
    "reg_inv n now (co_registry s')" "lease_at (co_registry s') (wi_Service wire) (wi_Id wire) = Some l"
    using assms by (rule list_and_find_lease)
  then show thesis
    by (intro that [of s']) (simp_all add: register_reply_def instanceFromProto_def)
qed

lemma owner_heartbeat:
  assumes "lease_at r service i = Some l" "stored_ok service i l" "ri_RegistrationEpoch (rc_instance l) = epoch"
    "ri_OwnerToken (rc_instance l) = token" "epoch \<noteq> ''''" "token \<noteq> ''''" "0 < ttl"
  obtains r' l' where "HeartbeatWithOwner False service i epoch token ttl now r = (None, r')"
    "lease_at r' service i = Some l'" "rc_expiresAt l' = now + ttl" "ri_RegistrationEpoch (rc_instance l') = epoch"
proof -
  obtain st where st: "mr_services r service = Some st" "map_of (ss_records st) i = Some l"
    using assms(1) by (auto simp: lease_at_def split: option.splits)
  have "service \<noteq> ''''" "i \<noteq> ''''"
    using assms(2) by (simp_all add: stored_ok_def)
  then have "\<exists>r' l'. HeartbeatWithOwner False service i epoch token ttl now r = (None, r') \<and> lease_at r' service i = Some l' \<and>
      rc_expiresAt l' = now + ttl \<and> ri_RegistrationEpoch (rc_instance l') = epoch"
    using st assms(3-7) by (auto simp: HeartbeatWithOwner_def heartbeatAtWithOwner_def fence_error_def Let_def store_lease_at)
  then show thesis
    using that by blast
qed

text \<open>
  C13: two registrations of the same instance at the same time can both end with the owner token of the
  later one. If the second is stored before the first call reads its registration back, the first caller is
  given the epoch and the token of the second, and with them renews the lease that is not its own: the
  token no longer tells the two owners apart.
\<close>

theorem register_returns_foreign_token:
  assumes "history ops now1" "length ops < 2 ^ 64 - 2" "co_registry s = reg_run ops" "now1 \<le> now2" "now2 \<le> now3"
    and "register_store d ctx1 False epoch1 token1 now1 (RegisterInstanceReq (Some wire1) seconds1) s = (Inr inst1, s1)"
    and "register_store d ctx2 False epoch2 token2 now2 (RegisterInstanceReq (Some wire2) seconds2) s1 = (Inr inst2, s2)"
    and "wi_Service wire2 = wi_Service wire1" "wi_Id wire2 = wi_Id wire1" "now3 < now2 + leaseTTL d seconds2"
    and "epoch2 \<noteq> ''''" "token2 \<noteq> ''''"
  shows "\<exists>wire s3. register_reply (\<lambda>_. False) now3 inst1 s2 = (Inr (RegisterInstanceResponse wire token2), s3) \<and>
    wi_RegistrationEpoch wire = epoch2 \<and>
    (\<forall>ttl>0. fst (HeartbeatWithOwner False (wi_Service wire1) (wi_Id wire1) epoch2 token2 ttl now3 (co_registry s3)) = None)"
proof -
  have start: "reg_inv (length ops) now1 (co_registry s)" "zero_time \<le> now1" "zero_time \<le> now2" "zero_time \<le> now3"
    using reg_run_inv [OF assms(1)] assms(1, 3-5) by (auto simp: history_def)
  have small: "length ops + 1 < 2 ^ 64" "Suc (length ops) + 1 < 2 ^ 64"
    using assms(2) by simp_all
  obtain l1 where one: "inst1 = instanceFromProto wire1" "reg_inv (Suc (length ops)) now1 (co_registry s1)"
    "lease_at (co_registry s1) (wi_Service wire1) (wi_Id wire1) = Some l1" "rc_expiresAt l1 = now1 + leaseTTL d seconds1"
    "ri_RegistrationEpoch (rc_instance l1) = epoch1" "ri_OwnerToken (rc_instance l1) = token1"
    by (rule register_store_registers [OF start(1) small(1) order_refl start(2) assms(6)])
  obtain l where two: "inst2 = instanceFromProto wire2" "reg_inv (Suc (Suc (length ops))) now2 (co_registry s2)"
    "lease_at (co_registry s2) (wi_Service wire2) (wi_Id wire2) = Some l" "rc_expiresAt l = now2 + leaseTTL d seconds2"
    "ri_RegistrationEpoch (rc_instance l) = epoch2" "ri_OwnerToken (rc_instance l) = token2"
    by (rule register_store_registers [OF one(2) small(2) assms(4) start(3) assms(7)])
  have lease: "lease_at (co_registry s2) (wi_Service wire1) (wi_Id wire1) = Some l" "now3 < rc_expiresAt l"
    using two(3, 4) assms(8-10) by simp_all
  obtain s3 where reply: "register_reply (\<lambda>_. False) now3 (instanceFromProto wire1) s2 =
      (Inr (RegisterInstanceResponse (instanceToProto (rc_instance l)) (ri_OwnerToken (rc_instance l))), s3)"
    "reg_inv (Suc (Suc (length ops))) now3 (co_registry s3)" "lease_at (co_registry s3) (wi_Service wire1) (wi_Id wire1) = Some l"
    by (rule register_reply_lease [OF two(2) assms(5) start(4) lease])
  have "fst (HeartbeatWithOwner False (wi_Service wire1) (wi_Id wire1) epoch2 token2 ttl now3 (co_registry s3)) = None" if ttl: "0 < ttl" for ttl
  proof -
    have ok: "stored_ok (wi_Service wire1) (wi_Id wire1) l"
      using two(2) lease(1) by (simp add: reg_inv_def records_ok_def)
    obtain r' l' where "HeartbeatWithOwner False (wi_Service wire1) (wi_Id wire1) epoch2 token2 ttl now3 (co_registry s3) = (None, r')"
      "lease_at r' (wi_Service wire1) (wi_Id wire1) = Some l'" "rc_expiresAt l' = now3 + ttl" "ri_RegistrationEpoch (rc_instance l') = epoch2"
      by (rule owner_heartbeat [OF reply(3) ok two(5, 6) assms(11, 12) ttl])
    then show ?thesis
      by simp
  qed
  then show ?thesis
    using reply(1) one(1) two(5, 6) by (intro exI [of _ "instanceToProto (rc_instance l)"] exI [of _ s3]) (simp add: instanceToProto_def)
qed

text \<open>A call of a trusted client, on a controller that has just started.\<close>

definition demo_ctx :: call_context where
  "demo_ctx = \<lparr>cx_metadata = None, cx_identities = [], cx_principal = None\<rparr>"

definition demo_start :: controller where
  "demo_start = \<lparr>co_registry = NewMemoryRegistry, co_health = NewHealthManager DefaultScoreWeights 0 zero_config []\<rparr>"

lemma demo_trusted: "AuthorizeControllerPrincipal demo_ctx mthd req = None"
  by (simp add: AuthorizeControllerPrincipal_def demo_ctx_def)

lemma demo_ttl: "leaseTTL d 30 = 30000000000"
  by (simp add: leaseTTL_def wrap64_def)

lemma demo_start_history: "zero_time \<le> now \<Longrightarrow> history [] now" "co_registry demo_start = reg_run []" "zero_time \<le> 1" "zero_time \<le> 5"
  by (simp_all add: history_def demo_start_def reg_run_def zero_time_def)

theorem register_returns_foreign_token_witness:
  "\<exists>inst s1 s2 wire s3. register_store 0 demo_ctx False ''e1'' ''k1'' 1 (RegisterInstanceReq (Some demo_wire) 30) demo_start = (Inr inst, s1) \<and>
     register_store 0 demo_ctx False ''e2'' ''k2'' 2 (RegisterInstanceReq (Some demo_wire) 30) s1 = (Inr inst, s2) \<and>
     register_reply (\<lambda>_. False) 3 inst s2 = (Inr (RegisterInstanceResponse wire ''k2''), s3)"
proof -
  have fields: "wi_Id demo_wire \<noteq> ''''" "wi_Service demo_wire \<noteq> ''''" "wi_Address demo_wire \<noteq> ''''" "0 < leaseTTL 0 30"
    by (simp_all add: demo_wire_def demo_ttl)
  note stores = register_store_stores [OF demo_trusted fields]
  obtain s1 where one: "register_store 0 demo_ctx False ''e1'' ''k1'' 1 (RegisterInstanceReq (Some demo_wire) 30) demo_start =
      (Inr (instanceFromProto demo_wire), s1)"
    using stores by blast
  obtain s2 where two: "register_store 0 demo_ctx False ''e2'' ''k2'' 2 (RegisterInstanceReq (Some demo_wire) 30) s1 =
      (Inr (instanceFromProto demo_wire), s2)"
    using stores by blast
  have "\<exists>wire s3. register_reply (\<lambda>_. False) 3 (instanceFromProto demo_wire) s2 = (Inr (RegisterInstanceResponse wire ''k2''), s3)"
    using register_returns_foreign_token [OF demo_start_history(1) [OF demo_start_history(3)] _ demo_start_history(2) _ _ one two, of 3]
    by (auto simp: demo_ttl)
  then show ?thesis
    using one two by blast
qed

lemma RegisterInstance_succeeds:
  assumes "reg_inv n t (co_registry s)" "n + 1 < 2 ^ 64" "t \<le> ce_now env 0" "zero_time \<le> ce_now env 0"
    and "AuthorizeControllerPrincipal ctx RegisterInstance_Method (RegisterInstanceReq (Some wire) seconds) = None"
    and "wi_Id wire \<noteq> ''''" "wi_Service wire \<noteq> ''''" "wi_Address wire \<noteq> ''''" "ce_cancelled env = (\<lambda>_. False)"
    and "ce_now env 0 \<le> ce_now env 1" "ce_now env 1 < ce_now env 0 + leaseTTL (ce_defaultLease env) seconds"
  obtains s1 l where "RegisterInstance env ctx (RegisterInstanceReq (Some wire) seconds) s =
      (Inr (RegisterInstanceResponse (instanceToProto (rc_instance l)) (ce_token env)), s1)"
    "reg_inv (Suc n) (ce_now env 1) (co_registry s1)" "lease_at (co_registry s1) (wi_Service wire) (wi_Id wire) = Some l"
    "ri_RegistrationEpoch (rc_instance l) = ce_epoch env" "ri_OwnerToken (rc_instance l) = ce_token env"
proof -
  obtain s0 where store: "register_store (ce_defaultLease env) ctx False (ce_epoch env) (ce_token env) (ce_now env 0)
      (RegisterInstanceReq (Some wire) seconds) s = (Inr (instanceFromProto wire), s0)"
    using register_store_stores [OF assms(5-8)] assms(10, 11) by fastforce
  obtain l where l: "instanceFromProto wire = instanceFromProto wire" "reg_inv (Suc n) (ce_now env 0) (co_registry s0)"
    "lease_at (co_registry s0) (wi_Service wire) (wi_Id wire) = Some l"
    "rc_expiresAt l = ce_now env 0 + leaseTTL (ce_defaultLease env) seconds"
    "ri_RegistrationEpoch (rc_instance l) = ce_epoch env" "ri_OwnerToken (rc_instance l) = ce_token env"
    by (rule register_store_registers [OF assms(1-4) store])
  have later: "zero_time \<le> ce_now env 1" "ce_now env 1 < rc_expiresAt l"
    using assms(4, 10, 11) l(4) by simp_all
  obtain s1 where "register_reply (\<lambda>_. False) (ce_now env 1) (instanceFromProto wire) s0 =
      (Inr (RegisterInstanceResponse (instanceToProto (rc_instance l)) (ri_OwnerToken (rc_instance l))), s1)"
    "reg_inv (Suc n) (ce_now env 1) (co_registry s1)" "lease_at (co_registry s1) (wi_Service wire) (wi_Id wire) = Some l"
    by (rule register_reply_lease [OF l(2) assms(10) later(1) l(3) later(2)])
  then show thesis
    using store l(5, 6) assms(9) by (intro that [of l s1]) (simp_all add: RegisterInstance_def)
qed

lemma Heartbeat_succeeds:
  assumes "reg_inv n t (co_registry s)" "n + 1 < 2 ^ 64" "t \<le> ce_now env 0" "zero_time \<le> ce_now env 0"
    and "AuthorizeControllerPrincipal ctx Heartbeat_Method (HeartbeatReq beat) = None"
    and "lease_at (co_registry s) (hb_Service beat) (hb_InstanceId beat) = Some l"
    and "ri_RegistrationEpoch (rc_instance l) = hb_RegistrationEpoch beat" "ri_OwnerToken (rc_instance l) = hb_OwnerToken beat"
    and "hb_RegistrationEpoch beat \<noteq> ''''" "hb_OwnerToken beat \<noteq> ''''" "ce_cancelled env = (\<lambda>_. False)"
    and "ce_now env 0 \<le> ce_now env 1" "ce_now env 1 < ce_now env 0 + leaseTTL (ce_defaultLease env) (hb_LeaseTtlSeconds beat)"
  obtains s' l' where "service_Heartbeat env ctx (HeartbeatReq beat) s = (Inr (HeartbeatResponse (instanceToProto (rc_instance l'))), s')"
    "lease_at (co_registry s') (hb_Service beat) (hb_InstanceId beat) = Some l'"
    "ri_RegistrationEpoch (rc_instance l') = hb_RegistrationEpoch beat"
    "rc_expiresAt l' = ce_now env 0 + leaseTTL (ce_defaultLease env) (hb_LeaseTtlSeconds beat)"
proof -
  let ?ttl = "leaseTTL (ce_defaultLease env) (hb_LeaseTtlSeconds beat)"
  have ok: "stored_ok (hb_Service beat) (hb_InstanceId beat) l" and ttl: "0 < ?ttl"
    using assms(1, 6, 12, 13) by (simp_all add: reg_inv_def records_ok_def)
  obtain r' l' where beaten: "HeartbeatWithOwner False (hb_Service beat) (hb_InstanceId beat) (hb_RegistrationEpoch beat) (hb_OwnerToken beat)
      ?ttl (ce_now env 0) (co_registry s) = (None, r')"
    "lease_at r' (hb_Service beat) (hb_InstanceId beat) = Some l'" "rc_expiresAt l' = ce_now env 0 + ?ttl"
    "ri_RegistrationEpoch (rc_instance l') = hb_RegistrationEpoch beat"
    by (rule owner_heartbeat [OF assms(6) ok assms(7-10) ttl])
  have inv: "reg_inv (Suc n) (ce_now env 0) (co_registry (s\<lparr>co_registry := r'\<rparr>))"
    using run_reg_op_inv [OF assms(1-4), of "HeartbeatOp False (hb_Service beat) (hb_InstanceId beat) (hb_RegistrationEpoch beat)
        (hb_OwnerToken beat) ?ttl True True"] beaten(1) assms(9, 10) by (simp add: HeartbeatWithOwner_def)
  have later: "zero_time \<le> ce_now env 1" "ce_now env 1 < rc_expiresAt l'"
    "lease_at (co_registry (s\<lparr>co_registry := r'\<rparr>)) (hb_Service beat) (hb_InstanceId beat) = Some l'"
    using assms(4, 12, 13) beaten(2, 3) by simp_all
  obtain s' where "list_and_find (\<lambda>_. False) (ce_now env 1) (hb_Service beat) (hb_InstanceId beat)
      (StatusError NotFound ''instance not found'') (s\<lparr>co_registry := r'\<rparr>) = (Inr (rc_instance l'), s')"
    "reg_inv (Suc n) (ce_now env 1) (co_registry s')" "lease_at (co_registry s') (hb_Service beat) (hb_InstanceId beat) = Some l'"
    by (rule list_and_find_lease [OF inv assms(12) later(1, 3, 2)])
  then show thesis
    using beaten assms(5, 9-11) by (intro that [of l' s']) (simp_all add: service_Heartbeat_def)
qed

text \<open>
  C14: a registration that nobody interferes with gives its caller what it needs to keep the lease. The call
  answers with the instance, the epoch and the owner token it was registered with, provided it reads them
  back within the lease; a heartbeat with them at any later time succeeds, keeps the epoch, and lets the
  lease run from that time on.
\<close>

theorem registered_owner_renews:
  assumes "history ops (ce_now env 0)" "length ops < 2 ^ 64 - 2" "co_registry s = reg_run ops"
    and "AuthorizeControllerPrincipal ctx RegisterInstance_Method (RegisterInstanceReq (Some wire) seconds) = None"
    and "wi_Id wire \<noteq> ''''" "wi_Service wire \<noteq> ''''" "wi_Address wire \<noteq> ''''" "ce_epoch env \<noteq> ''''" "ce_token env \<noteq> ''''"
    and "ce_cancelled env = (\<lambda>_. False)" "ce_now env 0 \<le> ce_now env 1" "ce_now env 1 < ce_now env 0 + leaseTTL (ce_defaultLease env) seconds"
    and "AuthorizeControllerPrincipal ctx' Heartbeat_Method (HeartbeatReq beat) = None"
    and "beat = \<lparr>hb_Service = wi_Service wire, hb_InstanceId = wi_Id wire, hb_LeaseTtlSeconds = seconds',
      hb_RegistrationEpoch = ce_epoch env, hb_OwnerToken = ce_token env\<rparr>"
    and "ce_cancelled env' = (\<lambda>_. False)" "ce_now env 1 \<le> ce_now env' 0" "ce_now env' 0 \<le> ce_now env' 1"
    and "ce_now env' 1 < ce_now env' 0 + leaseTTL (ce_defaultLease env') seconds'"
  shows "\<exists>w w' s1 s2 l. RegisterInstance env ctx (RegisterInstanceReq (Some wire) seconds) s = (Inr (RegisterInstanceResponse w (ce_token env)), s1) \<and>
    wi_Id w = wi_Id wire \<and> wi_Service w = wi_Service wire \<and> wi_RegistrationEpoch w = ce_epoch env \<and>
    service_Heartbeat env' ctx' (HeartbeatReq beat) s1 = (Inr (HeartbeatResponse w'), s2) \<and> wi_RegistrationEpoch w' = ce_epoch env \<and>
    lease_at (co_registry s2) (wi_Service wire) (wi_Id wire) = Some l \<and>
    rc_expiresAt l = ce_now env' 0 + leaseTTL (ce_defaultLease env') seconds'"
proof -
  have start: "reg_inv (length ops) (ce_now env 0) (co_registry s)" "zero_time \<le> ce_now env 0"
    using reg_run_inv [OF assms(1)] assms(1, 3) by (auto simp: history_def)
  have small: "length ops + 1 < 2 ^ 64" "Suc (length ops) + 1 < 2 ^ 64"
    using assms(2) by simp_all
  obtain s1 l where reg: "RegisterInstance env ctx (RegisterInstanceReq (Some wire) seconds) s =
      (Inr (RegisterInstanceResponse (instanceToProto (rc_instance l)) (ce_token env)), s1)"
    "reg_inv (Suc (length ops)) (ce_now env 1) (co_registry s1)" "lease_at (co_registry s1) (wi_Service wire) (wi_Id wire) = Some l"
    "ri_RegistrationEpoch (rc_instance l) = ce_epoch env" "ri_OwnerToken (rc_instance l) = ce_token env"
    by (rule RegisterInstance_succeeds [OF start(1) small(1) order_refl start(2) assms(4-7, 10-12)])
  have "stored_ok (wi_Service wire) (wi_Id wire) l"
    using reg(2, 3) by (simp add: reg_inv_def records_ok_def)
  then have w: "wi_Id (instanceToProto (rc_instance l)) = wi_Id wire" "wi_Service (instanceToProto (rc_instance l)) = wi_Service wire"
    by (simp_all add: instanceToProto_def stored_ok_def)
  have beat: "lease_at (co_registry s1) (hb_Service beat) (hb_InstanceId beat) = Some l" "zero_time \<le> ce_now env' 0"
    "ri_RegistrationEpoch (rc_instance l) = hb_RegistrationEpoch beat" "ri_OwnerToken (rc_instance l) = hb_OwnerToken beat"
    "hb_RegistrationEpoch beat \<noteq> ''''" "hb_OwnerToken beat \<noteq> ''''"
    "ce_now env' 1 < ce_now env' 0 + leaseTTL (ce_defaultLease env') (hb_LeaseTtlSeconds beat)"
    using reg(3-5) assms(8, 9, 11, 14, 16, 18) start(2) by simp_all
  obtain s2 l' where "service_Heartbeat env' ctx' (HeartbeatReq beat) s1 = (Inr (HeartbeatResponse (instanceToProto (rc_instance l'))), s2)"
    "lease_at (co_registry s2) (hb_Service beat) (hb_InstanceId beat) = Some l'"
    "ri_RegistrationEpoch (rc_instance l') = hb_RegistrationEpoch beat"
    "rc_expiresAt l' = ce_now env' 0 + leaseTTL (ce_defaultLease env') (hb_LeaseTtlSeconds beat)"
    by (rule Heartbeat_succeeds [OF reg(2) small(2) assms(16) beat(2) assms(13) beat(1, 3-6) assms(15, 17) beat(7)])
  then show ?thesis
    using reg(1, 4) w assms(14)
    by (intro exI [of _ "instanceToProto (rc_instance l)"] exI [of _ "instanceToProto (rc_instance l')"] exI [of _ s1] exI [of _ s2]
        exI [of _ l']) (simp add: instanceToProto_def)
qed

theorem registered_owner_renews_witness:
  "\<exists>w s1. RegisterInstance (demo_call_env ''e1'' ''k1'' 5) demo_ctx (RegisterInstanceReq (Some demo_wire) 30) demo_start =
     (Inr (RegisterInstanceResponse w ''k1''), s1)"
  using registered_owner_renews [OF _ _ demo_start_history(2) demo_trusted [of RegisterInstance_Method] _ _ _ _ _ _ _ _
      demo_trusted [of Heartbeat_Method] refl, of "demo_call_env ''e1'' ''k1'' 5" demo_wire 30 "demo_call_env '''' '''' 6" 30]
    demo_start_history(1) [OF demo_start_history(4)] by (auto simp: demo_call_env_def demo_wire_def demo_ttl)


section \<open>Samples and leases\<close>

lemma set_update_subset: "set (AList.update k v al) \<subseteq> insert (k, v) (set al)"
  by (induction al) auto

lemma indexed_member:
  "(k, inst) \<in> set (fold (\<lambda>i m. if f i \<noteq> '''' then AList.update (f i) i m else m) listed al)
    \<Longrightarrow> (k, inst) \<in> set al \<or> inst \<in> set listed \<and> f inst = k"
proof (induction listed arbitrary: al)
  case (Cons i listed)
  then show ?case
    using set_update_subset [of "f i" i al] by (fastforce split: if_splits)
qed simp

lemma index_instances_member:
  "(k, inst) \<in> set (ti_byID (index_instances listed)) \<Longrightarrow> inst \<in> set listed \<and> ri_ID inst = k"
  "(k, inst) \<in> set (ti_byAddress (index_instances listed)) \<Longrightarrow> inst \<in> set listed"
  using indexed_member [of k inst ri_ID listed "[]"] indexed_member [of k inst ri_Address listed "[]"]
  by (auto simp: index_instances_def)

lemma unique_port_member: "unique_port port xs m = Some inst \<Longrightarrow> inst \<in> snd ` set xs \<or> inst = m \<and> ri_ID m \<noteq> ''''"
  by (induction port xs m rule: unique_port.induct) (force split: option.splits prod.splits if_splits)+

lemma resolve_in_member:
  assumes "resolve_in env (index_instances listed) y = Some inst" "\<forall>xs. set (ce_address_order env xs) = set xs"
  shows "inst \<in> set listed \<and> (ws_InstanceId y \<noteq> '''' \<longrightarrow> ri_ID inst = ws_InstanceId y)"
proof (cases "ws_InstanceId y = ''''")
  case False
  then have "map_of (ti_byID (index_instances listed)) (ws_InstanceId y) = Some inst"
    using assms(1) by (auto simp: resolve_in_def split: option.splits if_splits)
  then show ?thesis
    using index_instances_member(1) map_of_SomeD by fastforce
next
  case True
  have "inst \<in> snd ` set (ti_byAddress (index_instances listed))"
    if "resolveInstanceByUniquePort (ce_address_order env (ti_byAddress (index_instances listed))) a = Some inst" for a
    using that unique_port_member [of _ "ce_address_order env (ti_byAddress (index_instances listed))" zero_Instance inst] assms(2)
    by (auto simp: resolveInstanceByUniquePort_def zero_Instance_def split: option.splits if_splits)
  then have "inst \<in> snd ` set (ti_byAddress (index_instances listed))"
    using assms(1) True by (force simp: resolve_in_def split: option.splits if_splits dest: map_of_SomeD)
  then show ?thesis
    using True index_instances_member(2) by fastforce
qed

definition live_instance :: "MemoryRegistry \<Rightarrow> call_env \<Rightarrow> string \<Rightarrow> Instance \<Rightarrow> bool" where
  "live_instance r env service inst \<longleftrightarrow>
     (\<exists>l k. lease_at r service (ri_ID inst) = Some l \<and> ce_now env k < rc_expiresAt l \<and> inst = rc_instance l)"

definition cache_inv :: "nat \<Rightarrow> MemoryRegistry \<Rightarrow> call_env \<Rightarrow> instance_cache \<times> MemoryRegistry \<Rightarrow> bool" where
  "cache_inv n r0 env acc \<longleftrightarrow>
     (\<exists>t. reg_inv n t (snd acc) \<and> zero_time \<le> t \<and> t \<le> ce_now env (length (fst acc))) \<and>
     (\<forall>u i l. lease_at (snd acc) u i = Some l \<longrightarrow> lease_at r0 u i = Some l) \<and>
     (\<forall>(service, instances)\<in>set (fst acc). \<exists>listed. instances = index_instances listed \<and> list_all (live_instance r0 env service) listed)"

lemma telemetryInstances_inv:
  assumes "cache_inv n r0 env acc" "service \<noteq> ''''" "ce_cancelled env = (\<lambda>_. False)" "mono (ce_now env)"
    and "telemetryInstances env service acc = (result, acc')"
  shows "cache_inv n r0 env acc' \<and> (\<exists>listed. result = Inr (index_instances listed) \<and> list_all (live_instance r0 env service) listed)"
proof -
  obtain cache r where acc: "acc = (cache, r)"
    by (cases acc)
  show ?thesis
  proof (cases "map_of cache service")
    case (Some instances)
    then have "(service, instances) \<in> set cache"
      by (rule map_of_SomeD)
    then show ?thesis
      using Some assms(1, 5) by (auto simp: acc telemetryInstances_def cache_inv_def)
  next
    case None
    let ?now = "ce_now env (length cache)"
    obtain t where t: "reg_inv n t r" "zero_time \<le> t" "t \<le> ?now"
      and old: "\<And>u i l. lease_at r u i = Some l \<Longrightarrow> lease_at r0 u i = Some l"
      using assms(1) by (auto simp: acc cache_inv_def)
    obtain listed r' where list: "registry_List (\<lambda>_. False) service ?now r = (Inr listed, r')"
      "\<And>inst. inst \<in> set listed \<longleftrightarrow> (\<exists>i l. lease_at r service i = Some l \<and> ?now < rc_expiresAt l \<and> inst = rc_instance l)"
      using listing [OF t(1, 3) assms(2)] by metis
    have "live_instance r0 env service inst" if member: "inst \<in> set listed" for inst
    proof -
      obtain i l where l: "lease_at r service i = Some l" "?now < rc_expiresAt l" "inst = rc_instance l"
        using list(2) member by blast
      then have "stored_ok service i l"
        using t(1) by (simp add: reg_inv_def records_ok_def)
      then have "lease_at r0 service (ri_ID inst) = Some l"
        using old l(1, 3) by (simp add: stored_ok_def)
      then show ?thesis
        using l(2, 3) unfolding live_instance_def by blast
    qed
    then have live: "list_all (live_instance r0 env service) listed"
      by (simp add: list_all_iff)
    have "snd (registry_Snapshot (\<lambda>_. False) service ?now r) = r'"
      using list(1) by (auto simp: registry_List_def split: prod.splits sum.splits)
    then have inv: "reg_inv n ?now r'"
      using snapshot_inv(1) [OF t(1, 3), of "\<lambda>_. False" service] t(2, 3) by auto
    have kept: "lease_at r0 u i = Some l" if "lease_at r' u i = Some l" for u i l
      using list_lease_at(1) [OF t(1, 3), of "\<lambda>_. False" service u i l] list(1) that old by simp
    have "?now \<le> ce_now env (Suc (length cache))"
      using assms(4) by (simp add: monoD)
    then have "cache_inv n r0 env ((service, index_instances listed) # cache, r')"
      using assms(1) inv t(2, 3) kept live unfolding cache_inv_def acc by (auto intro!: exI [of _ ?now] exI [of _ listed])
    then show ?thesis
      using assms(3, 5) None list(1) live by (auto simp: acc telemetryInstances_def)
  qed
qed

lemma samplesFromProto_live:
  assumes "cache_inv n r0 env acc" "ce_cancelled env = (\<lambda>_. False)" "mono (ce_now env)" "\<forall>xs. set (ce_address_order env xs) = set xs"
    and "samplesFromProto env protos samples acc = (Inr out, r)" "x \<in> set out"
  shows "x \<in> set samples \<or> (\<exists>y inst. Some y \<in> set protos \<and> x = bound_sample y inst \<and> \<not> stale_sample y inst \<and>
    live_instance r0 env (ws_Service y) inst \<and> (ws_InstanceId y \<noteq> '''' \<longrightarrow> ri_ID inst = ws_InstanceId y))"
  using assms(1, 5)
proof (induction protos arbitrary: samples acc)
  case Nil
  then show ?case
    using assms(6) by simp
next
  case (Cons p protos)
  show ?case
  proof (cases "\<exists>y. p = Some y \<and> ws_Service y \<noteq> ''''")
    case False
    then have "samplesFromProto env protos samples acc = (Inr out, r)"
      using Cons.prems(2) by (auto split: option.splits if_splits)
    from Cons.IH [OF Cons.prems(1) this] show ?thesis
      by auto
  next
    case True
    then obtain y where y: "p = Some y" "ws_Service y \<noteq> ''''"
      by blast
    obtain result acc1 where get: "telemetryInstances env (ws_Service y) acc = (result, acc1)"
      by (rule prod.exhaust)
    obtain listed where inv: "cache_inv n r0 env acc1" "result = Inr (index_instances listed)"
      "list_all (live_instance r0 env (ws_Service y)) listed"
      using telemetryInstances_inv [OF Cons.prems(1) y(2) assms(2, 3) get] by blast
    let ?res = "resolve_in env (index_instances listed) y"
    have resolved: "resolveTelemetryInstance env y acc = (Inr ?res, acc1)"
      by (simp add: resolveTelemetryInstance_def get inv(2))
    show ?thesis
    proof (cases "\<exists>inst. ?res = Some inst \<and> \<not> stale_sample y inst")
      case False
      then have "samplesFromProto env protos samples acc1 = (Inr out, r)"
        using Cons.prems(2) y resolved by (auto split: option.splits if_splits)
      from Cons.IH [OF inv(1) this] show ?thesis
        by auto
    next
      case True
      then obtain inst where inst: "?res = Some inst" "\<not> stale_sample y inst"
        by blast
      then have "samplesFromProto env protos (samples @ [bound_sample y inst]) acc1 = (Inr out, r)"
        using Cons.prems(2) y resolved by simp
      note rest = Cons.IH [OF inv(1) this]
      have "live_instance r0 env (ws_Service y) inst" "ws_InstanceId y \<noteq> '''' \<longrightarrow> ri_ID inst = ws_InstanceId y"
        using resolve_in_member [OF inst(1) assms(4)] inv(3) by (auto simp: list_all_iff)
      then show ?thesis
        using rest inst(2) y(1) by auto
    qed
  qed
qed

lemma bound_sample_instance: "sp_InstanceID (bound_sample y inst) = ri_ID inst"
  by (simp add: bound_sample_def)

lemma fresh_sample_epoch:
  "\<not> stale_sample y inst \<Longrightarrow> ri_RegistrationEpoch inst \<noteq> '''' \<Longrightarrow> sp_RegistrationEpoch (bound_sample y inst) = ri_RegistrationEpoch inst"
  by (cases "ws_RegistrationEpoch y = ''''") (simp_all add: bound_sample_def stale_sample_def)

text \<open>
  C15: telemetry counts only for instances that are registered. Every sample that a report contributes is
  one of its samples, bound to an instance of the service it names whose lease had not run out when the
  registry was asked, and to the instance it names if it names one; its epoch is that of the lease, so that
  samples about an owner that has been replaced do not count for the new one.
\<close>

theorem telemetry_binds_to_leases:
  assumes "history ops t" "co_registry s = reg_run ops" "t \<le> ce_now env 0" "mono (ce_now env)" "ce_cancelled env = (\<lambda>_. False)"
    and "\<forall>xs. set (ce_address_order env xs) = set xs"
    and "samplesFromProto env protos [] ([], co_registry s) = (Inr samples, r)" "x \<in> set samples"
  shows "\<exists>y l k. Some y \<in> set protos \<and> x = bound_sample y (rc_instance l) \<and>
    lease_at (co_registry s) (ws_Service y) (sp_InstanceID x) = Some l \<and> ce_now env k < rc_expiresAt l \<and>
    (ws_InstanceId y \<noteq> '''' \<longrightarrow> sp_InstanceID x = ws_InstanceId y) \<and>
    (ri_RegistrationEpoch (rc_instance l) \<noteq> '''' \<longrightarrow> sp_RegistrationEpoch x = ri_RegistrationEpoch (rc_instance l))"
proof -
  have "reg_inv (length ops) t (co_registry s)" "zero_time \<le> t"
    using reg_run_inv [OF assms(1)] assms(1, 2) by (auto simp: history_def)
  then have "cache_inv (length ops) (co_registry s) env ([], co_registry s)"
    using assms(3) by (auto simp: cache_inv_def)
  from samplesFromProto_live [OF this assms(5, 4, 6-8)] obtain y inst where y: "Some y \<in> set protos" "x = bound_sample y inst"
    "\<not> stale_sample y inst" "live_instance (co_registry s) env (ws_Service y) inst" "ws_InstanceId y \<noteq> '''' \<longrightarrow> ri_ID inst = ws_InstanceId y"
    by auto
  then obtain l k where "lease_at (co_registry s) (ws_Service y) (ri_ID inst) = Some l" "ce_now env k < rc_expiresAt l" "inst = rc_instance l"
    by (auto simp: live_instance_def)
  then show ?thesis
    using y by (intro exI [of _ y] exI [of _ l] exI [of _ k]) (simp add: bound_sample_instance fresh_sample_epoch)
qed

definition demo_registered :: controller where
  "demo_registered = demo_start\<lparr>co_registry := reg_run [(1, RegisterOp False ''e1'' ''k1'' (instanceFromProto demo_wire) 30000000000)]\<rparr>"

lemma demo_samples:
  "\<exists>x r. samplesFromProto (demo_call_env '''' '''' 5) [Some demo_wire_sample] [] ([], co_registry demo_registered) =
     (Inr [x], r)"
  by (simp add: demo_registered_def demo_wire_sample_def demo_call_env_def demo_wire_def reg_run_def registerAt_def instanceFromProto_def Let_def
      store_lease_def resolveTelemetryInstance_def telemetryInstances_def registry_List_def registry_Snapshot_def get_serviceState_def
      NewMemoryRegistry_def newServiceState_def rebuildSnapshotLocked_def snapshotNeedsExpiry_def live_leases_def earlier_expiry_def
      IsZero_def zero_time_def index_instances_def resolve_in_def stale_sample_def)

theorem telemetry_binds_to_leases_witness:
  "\<exists>x r l. samplesFromProto (demo_call_env '''' '''' 5) [Some demo_wire_sample] [] ([], co_registry demo_registered) = (Inr [x], r) \<and>
     lease_at (co_registry demo_registered) ''orders'' ''o1'' = Some l \<and> 5 < rc_expiresAt l"
proof -
  obtain x r where samples: "samplesFromProto (demo_call_env '''' '''' 5) [Some demo_wire_sample] [] ([], co_registry demo_registered) = (Inr [x], r)"
    using demo_samples by blast
  have "history [(1, RegisterOp False ''e1'' ''k1'' (instanceFromProto demo_wire) 30000000000)] 5"
    by (simp add: history_def zero_time_def)
  from telemetry_binds_to_leases [OF this _ _ _ _ _ samples, of x]
  have "\<exists>l. lease_at (co_registry demo_registered) ''orders'' ''o1'' = Some l \<and> 5 < rc_expiresAt l"
    by (auto simp: demo_registered_def demo_call_env_def demo_wire_sample_def monoI)
  then show ?thesis
    using samples by blast
qed

end
