(* ===== verification/Kernel_Tcp.thy ===== *)
theory Kernel_Tcp
  imports Kernel_Sock
begin

text \<open>
  Types of the kernel header \<open>src/agent/ebpf/bpf/vmlinux.h\<close>:
  the objects behind the socket pointer of the probes:
  \<open>struct tcp_sock\<close> and the smaller sockets that share \<open>struct sock_common\<close> with it
  (\<open>tcp_request_sock\<close>, \<open>tcp_timewait_sock\<close>), and \<open>struct sk_buff\<close>, the second
  argument of the probed \<open>tcp_retransmit_skb\<close>.
  One definition per declaration, member by member in the order of the header, and one lemma per
  definition with what the layout of \<open>CLayout\<close> computes for it; small declarations that
  are used in few places are abbreviations.
\<close>

abbreviation typedef___s16 :: ctype where
  "typedef___s16 \<equiv> CInt 2 True"

definition struct_inet_cork :: ctype where
  "struct_inet_cork = CStruct False [
     Member ''flags'' (CInt 4 False) None,
     Member ''addr'' typedef___be32 None,
     Member ''opt'' (CPtr ''struct ip_options'') None,
     Member ''fragsize'' (CInt 4 False) None,
     Member ''length'' (CInt 4 True) None,
     Member ''dst'' (CPtr ''struct dst_entry'') None,
     Member ''tx_flags'' typedef_u8 None,
     Member ''ttl'' typedef___u8 None,
     Member ''tos'' typedef___s16 None,
     Member ''priority'' (CInt 1 True) None,
     Member ''gso_size'' typedef___u16 None,
     Member ''transmit_time'' typedef_u64 None,
     Member ''mark'' typedef_u32 None]"

lemma struct_inet_cork_layout [ksize]:
  "sizeof struct_inet_cork = 56" "alignof struct_inet_cork = 8" "wf_ctype struct_inet_cork" "unpacked struct_inet_cork"
  by (simp_all add: struct_inet_cork_def layout_eval ksize)

abbreviation typedef___be64 :: ctype where
  "typedef___be64 \<equiv> typedef___u64"

abbreviation struct_flowi_tunnel :: ctype where
  "struct_flowi_tunnel \<equiv> CStruct False [
     Member ''tun_id'' typedef___be64 None]"

definition struct_flowi_common :: ctype where
  "struct_flowi_common = CStruct False [
     Member ''flowic_oif'' (CInt 4 True) None,
     Member ''flowic_iif'' (CInt 4 True) None,
     Member ''flowic_l3mdev'' (CInt 4 True) None,
     Member ''flowic_mark'' typedef___u32 None,
     Member ''flowic_tos'' typedef___u8 None,
     Member ''flowic_scope'' typedef___u8 None,
     Member ''flowic_proto'' typedef___u8 None,
     Member ''flowic_flags'' typedef___u8 None,
     Member ''flowic_secid'' typedef___u32 None,
     Member ''flowic_uid'' typedef_kuid_t None,
     Member ''flowic_multipath_hash'' typedef___u32 None,
     Member ''flowic_tun_key'' struct_flowi_tunnel None]"

lemma struct_flowi_common_layout [ksize]:
  "sizeof struct_flowi_common = 40" "alignof struct_flowi_common = 8" "wf_ctype struct_flowi_common" "unpacked struct_flowi_common"
  by (simp_all add: struct_flowi_common_def layout_eval ksize)

definition union_flowi_uli :: ctype where
  "union_flowi_uli = CUnion False [
     Member ''ports'' (CStruct False [
       Member ''dport'' typedef___be16 None,
       Member ''sport'' typedef___be16 None]) None,
     Member ''icmpt'' (CStruct False [
       Member ''type'' typedef___u8 None,
       Member ''code'' typedef___u8 None]) None,
     Member ''gre_key'' typedef___be32 None,
     Member ''mht'' (CStruct False [
       Member ''type'' typedef___u8 None]) None]"

lemma union_flowi_uli_layout [ksize]:
  "sizeof union_flowi_uli = 4" "alignof union_flowi_uli = 4" "wf_ctype union_flowi_uli" "unpacked union_flowi_uli"
  by (simp_all add: union_flowi_uli_def layout_eval ksize)

abbreviation struct_flowi4 :: ctype where
  "struct_flowi4 \<equiv> CStruct False [
     Member ''__fl_common'' struct_flowi_common None,
     Member ''saddr'' typedef___be32 None,
     Member ''daddr'' typedef___be32 None,
     Member ''uli'' union_flowi_uli None]"

definition struct_flowi6 :: ctype where
  "struct_flowi6 = CStruct False [
     Member ''__fl_common'' struct_flowi_common None,
     Member ''daddr'' struct_in6_addr None,
     Member ''saddr'' struct_in6_addr None,
     Member ''flowlabel'' typedef___be32 None,
     Member ''uli'' union_flowi_uli None,
     Member ''mp_hash'' typedef___u32 None]"

lemma struct_flowi6_layout [ksize]:
  "sizeof struct_flowi6 = 88" "alignof struct_flowi6 = 8" "wf_ctype struct_flowi6" "unpacked struct_flowi6"
  by (simp_all add: struct_flowi6_def layout_eval ksize)

definition struct_flowi :: ctype where
  "struct_flowi = CStruct False [
     Member ''u'' (CUnion False [
       Member ''__fl_common'' struct_flowi_common None,
       Member ''ip4'' struct_flowi4 None,
       Member ''ip6'' struct_flowi6 None]) None]"

lemma struct_flowi_layout [ksize]:
  "sizeof struct_flowi = 88" "alignof struct_flowi = 8" "wf_ctype struct_flowi" "unpacked struct_flowi"
  by (simp_all add: struct_flowi_def layout_eval ksize)

abbreviation struct_inet_cork_full :: ctype where
  "struct_inet_cork_full \<equiv> CStruct False [
     Member ''base'' struct_inet_cork None,
     Member ''fl'' struct_flowi None]"

definition struct_inet_sock :: ctype where
  "struct_inet_sock = CStruct False [
     Member ''sk'' struct_sock None,
     Member ''pinet6'' (CPtr ''struct ipv6_pinfo'') None,
     Member ''inet_flags'' (CInt 8 False) None,
     Member ''inet_saddr'' typedef___be32 None,
     Member ''uc_ttl'' typedef___s16 None,
     Member ''inet_sport'' typedef___be16 None,
     Member ''inet_opt'' (CPtr ''struct ip_options_rcu'') None,
     Member ''inet_id'' typedef_atomic_t None,
     Member ''tos'' typedef___u8 None,
     Member ''min_ttl'' typedef___u8 None,
     Member ''mc_ttl'' typedef___u8 None,
     Member ''pmtudisc'' typedef___u8 None,
     Member ''rcv_tos'' typedef___u8 None,
     Member ''convert_csum'' typedef___u8 None,
     Member ''uc_index'' (CInt 4 True) None,
     Member ''mc_index'' (CInt 4 True) None,
     Member ''mc_addr'' typedef___be32 None,
     Member ''local_port_range'' typedef_u32 None,
     Member ''mc_list'' (CPtr ''struct ip_mc_socklist'') None,
     Member ''cork'' struct_inet_cork_full None]"

lemma struct_inet_sock_layout [ksize]:
  "sizeof struct_inet_sock = 976" "alignof struct_inet_sock = 8" "wf_ctype struct_inet_sock" "unpacked struct_inet_sock"
  by (simp_all add: struct_inet_sock_def layout_eval ksize)

definition struct_fastopen_queue :: ctype where
  "struct_fastopen_queue = CStruct False [
     Member ''rskq_rst_head'' (CPtr ''struct request_sock'') None,
     Member ''rskq_rst_tail'' (CPtr ''struct request_sock'') None,
     Member ''lock'' typedef_spinlock_t None,
     Member ''qlen'' (CInt 4 True) None,
     Member ''max_qlen'' (CInt 4 True) None,
     Member ''ctx'' (CPtr ''struct tcp_fastopen_context'') None]"

lemma struct_fastopen_queue_layout [ksize]:
  "sizeof struct_fastopen_queue = 40" "alignof struct_fastopen_queue = 8" "wf_ctype struct_fastopen_queue" "unpacked struct_fastopen_queue"
  by (simp_all add: struct_fastopen_queue_def layout_eval ksize)

definition struct_request_sock_queue :: ctype where
  "struct_request_sock_queue = CStruct False [
     Member ''rskq_lock'' typedef_spinlock_t None,
     Member ''rskq_defer_accept'' typedef_u8 None,
     Member ''synflood_warned'' typedef_u32 None,
     Member ''qlen'' typedef_atomic_t None,
     Member ''young'' typedef_atomic_t None,
     Member ''rskq_accept_head'' (CPtr ''struct request_sock'') None,
     Member ''rskq_accept_tail'' (CPtr ''struct request_sock'') None,
     Member ''fastopenq'' struct_fastopen_queue None]"

lemma struct_request_sock_queue_layout [ksize]:
  "sizeof struct_request_sock_queue = 80" "alignof struct_request_sock_queue = 8" "wf_ctype struct_request_sock_queue" "unpacked struct_request_sock_queue"
  by (simp_all add: struct_request_sock_queue_def layout_eval ksize)

definition struct_inet_connection_sock :: ctype where
  "struct_inet_connection_sock = CStruct False [
     Member ''icsk_inet'' struct_inet_sock None,
     Member ''icsk_accept_queue'' struct_request_sock_queue None,
     Member ''icsk_bind_hash'' (CPtr ''struct inet_bind_bucket'') None,
     Member ''icsk_bind2_hash'' (CPtr ''struct inet_bind2_bucket'') None,
     Member ''icsk_timeout'' (CInt 8 False) None,
     Member ''icsk_retransmit_timer'' struct_timer_list None,
     Member ''icsk_delack_timer'' struct_timer_list None,
     Member ''icsk_rto'' typedef___u32 None,
     Member ''icsk_rto_min'' typedef___u32 None,
     Member ''icsk_delack_max'' typedef___u32 None,
     Member ''icsk_pmtu_cookie'' typedef___u32 None,
     Member ''icsk_ca_ops'' (CPtr ''struct tcp_congestion_ops'') None,
     Member ''icsk_af_ops'' (CPtr ''struct inet_connection_sock_af_ops'') None,
     Member ''icsk_ulp_ops'' (CPtr ''struct tcp_ulp_ops'') None,
     Member ''icsk_ulp_data'' (CPtr ''void'') None,
     Member ''icsk_clean_acked'' (CPtr ''fn'') None,
     Member ''icsk_sync_mss'' (CPtr ''fn'') None,
     Member ''icsk_ca_state'' typedef___u8 (Some 5),
     Member ''icsk_ca_initialized'' typedef___u8 (Some 1),
     Member ''icsk_ca_setsockopt'' typedef___u8 (Some 1),
     Member ''icsk_ca_dst_locked'' typedef___u8 (Some 1),
     Member ''icsk_retransmits'' typedef___u8 None,
     Member ''icsk_pending'' typedef___u8 None,
     Member ''icsk_backoff'' typedef___u8 None,
     Member ''icsk_syn_retries'' typedef___u8 None,
     Member ''icsk_probes_out'' typedef___u8 None,
     Member ''icsk_ext_hdr_len'' typedef___u16 None,
     Member ''icsk_ack'' (CStruct False [
       Member ''pending'' typedef___u8 None,
       Member ''quick'' typedef___u8 None,
       Member ''pingpong'' typedef___u8 None,
       Member ''retry'' typedef___u8 None,
       Member ''ato'' typedef___u32 (Some 8),
       Member ''lrcv_flowlabel'' typedef___u32 (Some 20),
       Member ''unused'' typedef___u32 (Some 4),
       Member ''timeout'' (CInt 8 False) None,
       Member ''lrcvtime'' typedef___u32 None,
       Member ''last_seg_size'' typedef___u16 None,
       Member ''rcv_mss'' typedef___u16 None]) None,
     Member ''icsk_mtup'' (CStruct False [
       Member ''search_high'' (CInt 4 True) None,
       Member ''search_low'' (CInt 4 True) None,
       Member ''probe_size'' typedef_u32 (Some 31),
       Member ''enabled'' typedef_u32 (Some 1),
       Member ''probe_timestamp'' typedef_u32 None]) None,
     Member ''icsk_probes_tstamp'' typedef_u32 None,
     Member ''icsk_user_timeout'' typedef_u32 None,
     Member ''icsk_ca_priv'' (CArray typedef_u64 13) None]"

lemma struct_inet_connection_sock_layout [ksize]:
  "sizeof struct_inet_connection_sock = 1384" "alignof struct_inet_connection_sock = 8" "wf_ctype struct_inet_connection_sock" "unpacked struct_inet_connection_sock"
  by (simp_all add: struct_inet_connection_sock_def layout_eval ksize)

abbreviation struct_minmax_sample :: ctype where
  "struct_minmax_sample \<equiv> CStruct False [
     Member ''t'' typedef_u32 None,
     Member ''v'' typedef_u32 None]"

abbreviation struct_minmax :: ctype where
  "struct_minmax \<equiv> CStruct False [
     Member ''s'' (CArray struct_minmax_sample 3) None]"

definition struct_tcp_options_received :: ctype where
  "struct_tcp_options_received = CStruct False [
     Member ''ts_recent_stamp'' (CInt 4 True) None,
     Member ''ts_recent'' typedef_u32 None,
     Member ''rcv_tsval'' typedef_u32 None,
     Member ''rcv_tsecr'' typedef_u32 None,
     Member ''saw_tstamp'' typedef_u16 (Some 1),
     Member ''tstamp_ok'' typedef_u16 (Some 1),
     Member ''dsack'' typedef_u16 (Some 1),
     Member ''wscale_ok'' typedef_u16 (Some 1),
     Member ''sack_ok'' typedef_u16 (Some 3),
     Member ''smc_ok'' typedef_u16 (Some 1),
     Member ''snd_wscale'' typedef_u16 (Some 4),
     Member ''rcv_wscale'' typedef_u16 (Some 4),
     Member ''saw_unknown'' typedef_u8 (Some 1),
     Member ''unused'' typedef_u8 (Some 7),
     Member ''num_sacks'' typedef_u8 None,
     Member ''user_mss'' typedef_u16 None,
     Member ''mss_clamp'' typedef_u16 None]"

lemma struct_tcp_options_received_layout [ksize]:
  "sizeof struct_tcp_options_received = 24" "alignof struct_tcp_options_received = 4" "wf_ctype struct_tcp_options_received" "unpacked struct_tcp_options_received"
  by (simp_all add: struct_tcp_options_received_def layout_eval ksize)

definition struct_tcp_rack :: ctype where
  "struct_tcp_rack = CStruct False [
     Member ''mstamp'' typedef_u64 None,
     Member ''rtt_us'' typedef_u32 None,
     Member ''end_seq'' typedef_u32 None,
     Member ''last_delivered'' typedef_u32 None,
     Member ''reo_wnd_steps'' typedef_u8 None,
     Member ''reo_wnd_persist'' typedef_u8 (Some 5),
     Member ''dsack_seen'' typedef_u8 (Some 1),
     Member ''advanced'' typedef_u8 (Some 1)]"

lemma struct_tcp_rack_layout [ksize]:
  "sizeof struct_tcp_rack = 24" "alignof struct_tcp_rack = 8" "wf_ctype struct_tcp_rack" "unpacked struct_tcp_rack"
  by (simp_all add: struct_tcp_rack_def layout_eval ksize)

definition struct_rb_node :: ctype where
  "struct_rb_node = CStruct False [
     Member ''__rb_parent_color'' (CInt 8 False) None,
     Member ''rb_right'' (CPtr ''struct rb_node'') None,
     Member ''rb_left'' (CPtr ''struct rb_node'') None]"

lemma struct_rb_node_layout [ksize]:
  "sizeof struct_rb_node = 24" "alignof struct_rb_node = 8" "wf_ctype struct_rb_node" "unpacked struct_rb_node"
  by (simp_all add: struct_rb_node_def layout_eval ksize)

abbreviation struct_timerqueue_node :: ctype where
  "struct_timerqueue_node \<equiv> CStruct False [
     Member ''node'' struct_rb_node None,
     Member ''expires'' typedef_ktime_t None]"

definition struct_hrtimer :: ctype where
  "struct_hrtimer = CStruct False [
     Member ''node'' struct_timerqueue_node None,
     Member ''_softexpires'' typedef_ktime_t None,
     Member ''function'' (CPtr ''fn'') None,
     Member ''base'' (CPtr ''struct hrtimer_clock_base'') None,
     Member ''state'' typedef_u8 None,
     Member ''is_rel'' typedef_u8 None,
     Member ''is_soft'' typedef_u8 None,
     Member ''is_hard'' typedef_u8 None]"

lemma struct_hrtimer_layout [ksize]:
  "sizeof struct_hrtimer = 64" "alignof struct_hrtimer = 8" "wf_ctype struct_hrtimer" "unpacked struct_hrtimer"
  by (simp_all add: struct_hrtimer_def layout_eval ksize)

definition struct_tcp_sack_block :: ctype where
  "struct_tcp_sack_block = CStruct False [
     Member ''start_seq'' typedef_u32 None,
     Member ''end_seq'' typedef_u32 None]"

lemma struct_tcp_sack_block_layout [ksize]:
  "sizeof struct_tcp_sack_block = 8" "alignof struct_tcp_sack_block = 4" "wf_ctype struct_tcp_sack_block" "unpacked struct_tcp_sack_block"
  by (simp_all add: struct_tcp_sack_block_def layout_eval ksize)

definition struct_tcp_sock :: ctype where
  "struct_tcp_sock = CStruct False [
     Member ''inet_conn'' struct_inet_connection_sock None,
     Member ''__cacheline_group_begin__tcp_sock_read_tx'' (CArray typedef___u8 0) None,
     Member ''max_window'' typedef_u32 None,
     Member ''rcv_ssthresh'' typedef_u32 None,
     Member ''reordering'' typedef_u32 None,
     Member ''notsent_lowat'' typedef_u32 None,
     Member ''gso_segs'' typedef_u16 None,
     Member ''lost_skb_hint'' (CPtr ''struct sk_buff'') None,
     Member ''retransmit_skb_hint'' (CPtr ''struct sk_buff'') None,
     Member ''__cacheline_group_end__tcp_sock_read_tx'' (CArray typedef___u8 0) None,
     Member ''__cacheline_group_begin__tcp_sock_read_txrx'' (CArray typedef___u8 0) None,
     Member ''tsoffset'' typedef_u32 None,
     Member ''snd_wnd'' typedef_u32 None,
     Member ''mss_cache'' typedef_u32 None,
     Member ''snd_cwnd'' typedef_u32 None,
     Member ''prr_out'' typedef_u32 None,
     Member ''lost_out'' typedef_u32 None,
     Member ''sacked_out'' typedef_u32 None,
     Member ''tcp_header_len'' typedef_u16 None,
     Member ''scaling_ratio'' typedef_u8 None,
     Member ''chrono_type'' typedef_u8 (Some 2),
     Member ''repair'' typedef_u8 (Some 1),
     Member ''tcp_usec_ts'' typedef_u8 (Some 1),
     Member ''is_sack_reneg'' typedef_u8 (Some 1),
     Member ''is_cwnd_limited'' typedef_u8 (Some 1),
     Member ''__cacheline_group_end__tcp_sock_read_txrx'' (CArray typedef___u8 0) None,
     Member ''__cacheline_group_begin__tcp_sock_read_rx'' (CArray typedef___u8 0) None,
     Member ''copied_seq'' typedef_u32 None,
     Member ''rcv_tstamp'' typedef_u32 None,
     Member ''snd_wl1'' typedef_u32 None,
     Member ''tlp_high_seq'' typedef_u32 None,
     Member ''rttvar_us'' typedef_u32 None,
     Member ''retrans_out'' typedef_u32 None,
     Member ''advmss'' typedef_u16 None,
     Member ''urg_data'' typedef_u16 None,
     Member ''lost'' typedef_u32 None,
     Member ''rtt_min'' struct_minmax None,
     Member ''out_of_order_queue'' struct_rb_root None,
     Member ''snd_ssthresh'' typedef_u32 None,
     Member ''__cacheline_group_end__tcp_sock_read_rx'' (CArray typedef___u8 0) None,
     Member '''' (CInt 8 True) (Some 64),
     Member ''__cacheline_group_begin__tcp_sock_write_tx'' (CArray typedef___u8 0) None,
     Member ''segs_out'' typedef_u32 None,
     Member ''data_segs_out'' typedef_u32 None,
     Member ''bytes_sent'' typedef_u64 None,
     Member ''snd_sml'' typedef_u32 None,
     Member ''chrono_start'' typedef_u32 None,
     Member ''chrono_stat'' (CArray typedef_u32 3) None,
     Member ''write_seq'' typedef_u32 None,
     Member ''pushed_seq'' typedef_u32 None,
     Member ''lsndtime'' typedef_u32 None,
     Member ''mdev_us'' typedef_u32 None,
     Member ''tcp_wstamp_ns'' typedef_u64 None,
     Member ''tcp_clock_cache'' typedef_u64 None,
     Member ''tcp_mstamp'' typedef_u64 None,
     Member ''rtt_seq'' typedef_u32 None,
     Member ''tsorted_sent_queue'' struct_list_head None,
     Member ''highest_sack'' (CPtr ''struct sk_buff'') None,
     Member ''ecn_flags'' typedef_u8 None,
     Member ''__cacheline_group_end__tcp_sock_write_tx'' (CArray typedef___u8 0) None,
     Member ''__cacheline_group_begin__tcp_sock_write_txrx'' (CArray typedef___u8 0) None,
     Member ''pred_flags'' typedef___be32 None,
     Member ''rcv_nxt'' typedef_u32 None,
     Member ''snd_nxt'' typedef_u32 None,
     Member ''snd_una'' typedef_u32 None,
     Member ''window_clamp'' typedef_u32 None,
     Member ''srtt_us'' typedef_u32 None,
     Member ''packets_out'' typedef_u32 None,
     Member ''snd_up'' typedef_u32 None,
     Member ''delivered'' typedef_u32 None,
     Member ''delivered_ce'' typedef_u32 None,
     Member ''app_limited'' typedef_u32 None,
     Member ''rcv_wnd'' typedef_u32 None,
     Member ''rx_opt'' struct_tcp_options_received None,
     Member ''nonagle'' typedef_u8 (Some 4),
     Member ''rate_app_limited'' typedef_u8 (Some 1),
     Member ''__cacheline_group_end__tcp_sock_write_txrx'' (CArray typedef___u8 0) None,
     Member ''__cacheline_group_begin__tcp_sock_write_rx'' (CArray typedef___u8 0) None,
     Member ''bytes_received'' typedef_u64 None,
     Member ''segs_in'' typedef_u32 None,
     Member ''data_segs_in'' typedef_u32 None,
     Member ''rcv_wup'' typedef_u32 None,
     Member ''max_packets_out'' typedef_u32 None,
     Member ''cwnd_usage_seq'' typedef_u32 None,
     Member ''rate_delivered'' typedef_u32 None,
     Member ''rate_interval_us'' typedef_u32 None,
     Member ''rcv_rtt_last_tsecr'' typedef_u32 None,
     Member ''first_tx_mstamp'' typedef_u64 None,
     Member ''delivered_mstamp'' typedef_u64 None,
     Member ''bytes_acked'' typedef_u64 None,
     Member ''rcv_rtt_est'' (CStruct False [
       Member ''rtt_us'' typedef_u32 None,
       Member ''seq'' typedef_u32 None,
       Member ''time'' typedef_u64 None]) None,
     Member ''rcvq_space'' (CStruct False [
       Member ''space'' (CInt 4 True) None,
       Member ''seq'' typedef_u32 None,
       Member ''time'' typedef_u64 None]) None,
     Member ''__cacheline_group_end__tcp_sock_write_rx'' (CArray typedef___u8 0) None,
     Member ''dsack_dups'' typedef_u32 None,
     Member ''last_oow_ack_time'' typedef_u32 None,
     Member ''compressed_ack_rcv_nxt'' typedef_u32 None,
     Member ''tsq_node'' struct_list_head None,
     Member ''rack'' struct_tcp_rack None,
     Member ''compressed_ack'' typedef_u8 None,
     Member ''dup_ack_counter'' typedef_u8 (Some 2),
     Member ''tlp_retrans'' typedef_u8 (Some 1),
     Member ''unused'' typedef_u8 (Some 5),
     Member ''thin_lto'' typedef_u8 (Some 1),
     Member ''recvmsg_inq'' typedef_u8 (Some 1),
     Member ''fastopen_connect'' typedef_u8 (Some 1),
     Member ''fastopen_no_cookie'' typedef_u8 (Some 1),
     Member ''fastopen_client_fail'' typedef_u8 (Some 2),
     Member ''frto'' typedef_u8 (Some 1),
     Member ''repair_queue'' typedef_u8 None,
     Member ''save_syn'' typedef_u8 (Some 2),
     Member ''syn_data'' typedef_u8 (Some 1),
     Member ''syn_fastopen'' typedef_u8 (Some 1),
     Member ''syn_fastopen_exp'' typedef_u8 (Some 1),
     Member ''syn_fastopen_ch'' typedef_u8 (Some 1),
     Member ''syn_data_acked'' typedef_u8 (Some 1),
     Member ''tcp_tx_delay'' typedef_u32 None,
     Member ''mdev_max_us'' typedef_u32 None,
     Member ''keepalive_probes'' typedef_u8 None,
     Member ''reord_seen'' typedef_u32 None,
     Member ''snd_cwnd_cnt'' typedef_u32 None,
     Member ''snd_cwnd_clamp'' typedef_u32 None,
     Member ''snd_cwnd_used'' typedef_u32 None,
     Member ''snd_cwnd_stamp'' typedef_u32 None,
     Member ''prior_cwnd'' typedef_u32 None,
     Member ''prr_delivered'' typedef_u32 None,
     Member ''pacing_timer'' struct_hrtimer None,
     Member ''compressed_ack_timer'' struct_hrtimer None,
     Member ''ooo_last_skb'' (CPtr ''struct sk_buff'') None,
     Member ''duplicate_sack'' (CArray struct_tcp_sack_block 1) None,
     Member ''selective_acks'' (CArray struct_tcp_sack_block 4) None,
     Member ''recv_sack_cache'' (CArray struct_tcp_sack_block 4) None,
     Member ''lost_cnt_hint'' (CInt 4 True) None,
     Member ''prior_ssthresh'' typedef_u32 None,
     Member ''high_seq'' typedef_u32 None,
     Member ''retrans_stamp'' typedef_u32 None,
     Member ''undo_marker'' typedef_u32 None,
     Member ''undo_retrans'' (CInt 4 True) None,
     Member ''bytes_retrans'' typedef_u64 None,
     Member ''total_retrans'' typedef_u32 None,
     Member ''rto_stamp'' typedef_u32 None,
     Member ''total_rto'' typedef_u16 None,
     Member ''total_rto_recoveries'' typedef_u16 None,
     Member ''total_rto_time'' typedef_u32 None,
     Member ''urg_seq'' typedef_u32 None,
     Member ''keepalive_time'' (CInt 4 False) None,
     Member ''keepalive_intvl'' (CInt 4 False) None,
     Member ''linger2'' (CInt 4 True) None,
     Member ''bpf_sock_ops_cb_flags'' typedef_u8 None,
     Member ''bpf_chg_cc_inprogress'' typedef_u8 (Some 1),
     Member ''timeout_rehash'' typedef_u16 None,
     Member ''rcv_ooopack'' typedef_u32 None,
     Member ''mtu_probe'' (CStruct False [
       Member ''probe_seq_start'' typedef_u32 None,
       Member ''probe_seq_end'' typedef_u32 None]) None,
     Member ''plb_rehash'' typedef_u32 None,
     Member ''mtu_info'' typedef_u32 None,
     Member ''is_mptcp'' typedef_bool None,
     Member ''smc_hs_congested'' (CPtr ''fn'') None,
     Member ''syn_smc'' typedef_bool None,
     Member ''af_specific'' (CPtr ''struct tcp_sock_af_ops'') None,
     Member ''md5sig_info'' (CPtr ''struct tcp_md5sig_info'') None,
     Member ''ao_info'' (CPtr ''struct tcp_ao_info'') None,
     Member ''fastopen_req'' (CPtr ''struct tcp_fastopen_request'') None,
     Member ''fastopen_rsk'' (CPtr ''struct request_sock'') None,
     Member ''saved_syn'' (CPtr ''struct saved_syn'') None,
     Member '''' (CInt 8 True) (Some 64)]"

lemma struct_tcp_sock_layout [ksize]:
  "sizeof struct_tcp_sock = 2304" "alignof struct_tcp_sock = 8" "wf_ctype struct_tcp_sock" "unpacked struct_tcp_sock"
  by (simp_all add: struct_tcp_sock_def layout_eval ksize)

definition struct_request_sock :: ctype where
  "struct_request_sock = CStruct False [
     Member ''__req_common'' struct_sock_common None,
     Member ''dl_next'' (CPtr ''struct request_sock'') None,
     Member ''mss'' typedef_u16 None,
     Member ''num_retrans'' typedef_u8 None,
     Member ''syncookie'' typedef_u8 (Some 1),
     Member ''num_timeout'' typedef_u8 (Some 7),
     Member ''ts_recent'' typedef_u32 None,
     Member ''rsk_timer'' struct_timer_list None,
     Member ''rsk_ops'' (CPtr ''struct request_sock_ops'') None,
     Member ''sk'' (CPtr ''struct sock'') None,
     Member ''saved_syn'' (CPtr ''struct saved_syn'') None,
     Member ''secid'' typedef_u32 None,
     Member ''peer_secid'' typedef_u32 None,
     Member ''timeout'' typedef_u32 None]"

lemma struct_request_sock_layout [ksize]:
  "sizeof struct_request_sock = 232" "alignof struct_request_sock = 8" "wf_ctype struct_request_sock" "unpacked struct_request_sock"
  by (simp_all add: struct_request_sock_def layout_eval ksize)

definition struct_inet_request_sock :: ctype where
  "struct_inet_request_sock = CStruct False [
     Member ''req'' struct_request_sock None,
     Member ''snd_wscale'' typedef_u16 (Some 4),
     Member ''rcv_wscale'' typedef_u16 (Some 4),
     Member ''tstamp_ok'' typedef_u16 (Some 1),
     Member ''sack_ok'' typedef_u16 (Some 1),
     Member ''wscale_ok'' typedef_u16 (Some 1),
     Member ''ecn_ok'' typedef_u16 (Some 1),
     Member ''acked'' typedef_u16 (Some 1),
     Member ''no_srccheck'' typedef_u16 (Some 1),
     Member ''smc_ok'' typedef_u16 (Some 1),
     Member ''ir_mark'' typedef_u32 None,
     Member '''' (CUnion False [
       Member ''ireq_opt'' (CPtr ''struct ip_options_rcu'') None,
       Member '''' (CStruct False [
         Member ''ipv6_opt'' (CPtr ''struct ipv6_txoptions'') None,
         Member ''pktopts'' (CPtr ''struct sk_buff'') None]) None]) None]"

lemma struct_inet_request_sock_layout [ksize]:
  "sizeof struct_inet_request_sock = 256" "alignof struct_inet_request_sock = 8" "wf_ctype struct_inet_request_sock" "unpacked struct_inet_request_sock"
  by (simp_all add: struct_inet_request_sock_def layout_eval ksize)

definition struct_tcp_request_sock :: ctype where
  "struct_tcp_request_sock = CStruct False [
     Member ''req'' struct_inet_request_sock None,
     Member ''af_specific'' (CPtr ''struct tcp_request_sock_ops'') None,
     Member ''snt_synack'' typedef_u64 None,
     Member ''tfo_listener'' typedef_bool None,
     Member ''is_mptcp'' typedef_bool None,
     Member ''req_usec_ts'' typedef_bool None,
     Member ''drop_req'' typedef_bool None,
     Member ''txhash'' typedef_u32 None,
     Member ''rcv_isn'' typedef_u32 None,
     Member ''snt_isn'' typedef_u32 None,
     Member ''ts_off'' typedef_u32 None,
     Member ''last_oow_ack_time'' typedef_u32 None,
     Member ''rcv_nxt'' typedef_u32 None,
     Member ''syn_tos'' typedef_u8 None,
     Member ''ao_keyid'' typedef_u8 None,
     Member ''ao_rcv_next'' typedef_u8 None,
     Member ''used_tcp_ao'' typedef_bool None]"

lemma struct_tcp_request_sock_layout [ksize]:
  "sizeof struct_tcp_request_sock = 304" "alignof struct_tcp_request_sock = 8" "wf_ctype struct_tcp_request_sock" "unpacked struct_tcp_request_sock"
  by (simp_all add: struct_tcp_request_sock_def layout_eval ksize)

definition struct_inet_timewait_sock :: ctype where
  "struct_inet_timewait_sock = CStruct False [
     Member ''__tw_common'' struct_sock_common None,
     Member ''tw_mark'' typedef___u32 None,
     Member ''tw_substate'' (CInt 1 False) None,
     Member ''tw_rcv_wscale'' (CInt 1 False) None,
     Member ''tw_sport'' typedef___be16 None,
     Member ''tw_transparent'' (CInt 4 False) (Some 1),
     Member ''tw_flowlabel'' (CInt 4 False) (Some 20),
     Member ''tw_usec_ts'' (CInt 4 False) (Some 1),
     Member ''tw_pad'' (CInt 4 False) (Some 2),
     Member ''tw_tos'' (CInt 4 False) (Some 8),
     Member ''tw_txhash'' typedef_u32 None,
     Member ''tw_priority'' typedef_u32 None,
     Member ''tw_timer'' struct_timer_list None,
     Member ''tw_tb'' (CPtr ''struct inet_bind_bucket'') None,
     Member ''tw_tb2'' (CPtr ''struct inet_bind2_bucket'') None]"

lemma struct_inet_timewait_sock_layout [ksize]:
  "sizeof struct_inet_timewait_sock = 216" "alignof struct_inet_timewait_sock = 8" "wf_ctype struct_inet_timewait_sock" "unpacked struct_inet_timewait_sock"
  by (simp_all add: struct_inet_timewait_sock_def layout_eval ksize)

definition struct_tcp_timewait_sock :: ctype where
  "struct_tcp_timewait_sock = CStruct False [
     Member ''tw_sk'' struct_inet_timewait_sock None,
     Member ''tw_rcv_wnd'' typedef_u32 None,
     Member ''tw_ts_offset'' typedef_u32 None,
     Member ''tw_ts_recent'' typedef_u32 None,
     Member ''tw_last_oow_ack_time'' typedef_u32 None,
     Member ''tw_ts_recent_stamp'' (CInt 4 True) None,
     Member ''tw_tx_delay'' typedef_u32 None,
     Member ''tw_md5_key'' (CPtr ''struct tcp_md5sig_key'') None,
     Member ''ao_info'' (CPtr ''struct tcp_ao_info'') None]"

lemma struct_tcp_timewait_sock_layout [ksize]:
  "sizeof struct_tcp_timewait_sock = 256" "alignof struct_tcp_timewait_sock = 8" "wf_ctype struct_tcp_timewait_sock" "unpacked struct_tcp_timewait_sock"
  by (simp_all add: struct_tcp_timewait_sock_def layout_eval ksize)

definition struct_llist_node :: ctype where
  "struct_llist_node = CStruct False [
     Member ''next'' (CPtr ''struct llist_node'') None]"

lemma struct_llist_node_layout [ksize]:
  "sizeof struct_llist_node = 8" "alignof struct_llist_node = 8" "wf_ctype struct_llist_node" "unpacked struct_llist_node"
  by (simp_all add: struct_llist_node_def layout_eval ksize)

abbreviation typedef___wsum :: ctype where
  "typedef___wsum \<equiv> typedef___u32"

abbreviation typedef_sk_buff_data_t :: ctype where
  "typedef_sk_buff_data_t \<equiv> CInt 4 False"

definition struct_sk_buff :: ctype where
  "struct_sk_buff = CStruct False [
     Member '''' (CUnion False [
       Member '''' (CStruct False [
         Member ''next'' (CPtr ''struct sk_buff'') None,
         Member ''prev'' (CPtr ''struct sk_buff'') None,
         Member '''' (CUnion False [
           Member ''dev'' (CPtr ''struct net_device'') None,
           Member ''dev_scratch'' (CInt 8 False) None]) None]) None,
       Member ''rbnode'' struct_rb_node None,
       Member ''list'' struct_list_head None,
       Member ''ll_node'' struct_llist_node None]) None,
     Member ''sk'' (CPtr ''struct sock'') None,
     Member '''' (CUnion False [
       Member ''tstamp'' typedef_ktime_t None,
       Member ''skb_mstamp_ns'' typedef_u64 None]) None,
     Member ''cb'' (CArray (CInt 1 True) 48) None,
     Member '''' (CUnion False [
       Member '''' (CStruct False [
         Member ''_skb_refdst'' (CInt 8 False) None,
         Member ''destructor'' (CPtr ''fn'') None]) None,
       Member ''tcp_tsorted_anchor'' struct_list_head None,
       Member ''_sk_redir'' (CInt 8 False) None]) None,
     Member ''_nfct'' (CInt 8 False) None,
     Member ''len'' (CInt 4 False) None,
     Member ''data_len'' (CInt 4 False) None,
     Member ''mac_len'' typedef___u16 None,
     Member ''hdr_len'' typedef___u16 None,
     Member ''queue_mapping'' typedef___u16 None,
     Member ''__cloned_offset'' (CArray typedef___u8 0) None,
     Member ''cloned'' typedef___u8 (Some 1),
     Member ''nohdr'' typedef___u8 (Some 1),
     Member ''fclone'' typedef___u8 (Some 2),
     Member ''peeked'' typedef___u8 (Some 1),
     Member ''head_frag'' typedef___u8 (Some 1),
     Member ''pfmemalloc'' typedef___u8 (Some 1),
     Member ''pp_recycle'' typedef___u8 (Some 1),
     Member ''active_extensions'' typedef___u8 None,
     Member '''' (CUnion False [
       Member '''' (CStruct False [
         Member ''__pkt_type_offset'' (CArray typedef___u8 0) None,
         Member ''pkt_type'' typedef___u8 (Some 3),
         Member ''ignore_df'' typedef___u8 (Some 1),
         Member ''dst_pending_confirm'' typedef___u8 (Some 1),
         Member ''ip_summed'' typedef___u8 (Some 2),
         Member ''ooo_okay'' typedef___u8 (Some 1),
         Member ''__mono_tc_offset'' (CArray typedef___u8 0) None,
         Member ''tstamp_type'' typedef___u8 (Some 1),
         Member ''tc_at_ingress'' typedef___u8 (Some 1),
         Member ''tc_skip_classify'' typedef___u8 (Some 1),
         Member ''remcsum_offload'' typedef___u8 (Some 1),
         Member ''csum_complete_sw'' typedef___u8 (Some 1),
         Member ''csum_level'' typedef___u8 (Some 2),
         Member ''inner_protocol_type'' typedef___u8 (Some 1),
         Member ''l4_hash'' typedef___u8 (Some 1),
         Member ''sw_hash'' typedef___u8 (Some 1),
         Member ''wifi_acked_valid'' typedef___u8 (Some 1),
         Member ''wifi_acked'' typedef___u8 (Some 1),
         Member ''no_fcs'' typedef___u8 (Some 1),
         Member ''encapsulation'' typedef___u8 (Some 1),
         Member ''encap_hdr_csum'' typedef___u8 (Some 1),
         Member ''csum_valid'' typedef___u8 (Some 1),
         Member ''ndisc_nodetype'' typedef___u8 (Some 2),
         Member ''ipvs_property'' typedef___u8 (Some 1),
         Member ''nf_trace'' typedef___u8 (Some 1),
         Member ''offload_fwd_mark'' typedef___u8 (Some 1),
         Member ''offload_l3_fwd_mark'' typedef___u8 (Some 1),
         Member ''redirected'' typedef___u8 (Some 1),
         Member ''from_ingress'' typedef___u8 (Some 1),
         Member ''nf_skip_egress'' typedef___u8 (Some 1),
         Member ''decrypted'' typedef___u8 (Some 1),
         Member ''slow_gro'' typedef___u8 (Some 1),
         Member ''csum_not_inet'' typedef___u8 (Some 1),
         Member ''tc_index'' typedef___u16 None,
         Member ''alloc_cpu'' typedef_u16 None,
         Member '''' (CUnion False [
           Member ''csum'' typedef___wsum None,
           Member '''' (CStruct False [
             Member ''csum_start'' typedef___u16 None,
             Member ''csum_offset'' typedef___u16 None]) None]) None,
         Member ''priority'' typedef___u32 None,
         Member ''skb_iif'' (CInt 4 True) None,
         Member ''hash'' typedef___u32 None,
         Member '''' (CUnion False [
           Member ''vlan_all'' typedef_u32 None,
           Member '''' (CStruct False [
             Member ''vlan_proto'' typedef___be16 None,
             Member ''vlan_tci'' typedef___u16 None]) None]) None,
         Member '''' (CUnion False [
           Member ''napi_id'' (CInt 4 False) None,
           Member ''sender_cpu'' (CInt 4 False) None]) None,
         Member ''secmark'' typedef___u32 None,
         Member '''' (CUnion False [
           Member ''mark'' typedef___u32 None,
           Member ''reserved_tailroom'' typedef___u32 None]) None,
         Member '''' (CUnion False [
           Member ''inner_protocol'' typedef___be16 None,
           Member ''inner_ipproto'' typedef___u8 None]) None,
         Member ''inner_transport_header'' typedef___u16 None,
         Member ''inner_network_header'' typedef___u16 None,
         Member ''inner_mac_header'' typedef___u16 None,
         Member ''protocol'' typedef___be16 None,
         Member ''transport_header'' typedef___u16 None,
         Member ''network_header'' typedef___u16 None,
         Member ''mac_header'' typedef___u16 None]) None,
       Member ''headers'' (CStruct False [
         Member ''__pkt_type_offset'' (CArray typedef___u8 0) None,
         Member ''pkt_type'' typedef___u8 (Some 3),
         Member ''ignore_df'' typedef___u8 (Some 1),
         Member ''dst_pending_confirm'' typedef___u8 (Some 1),
         Member ''ip_summed'' typedef___u8 (Some 2),
         Member ''ooo_okay'' typedef___u8 (Some 1),
         Member ''__mono_tc_offset'' (CArray typedef___u8 0) None,
         Member ''tstamp_type'' typedef___u8 (Some 1),
         Member ''tc_at_ingress'' typedef___u8 (Some 1),
         Member ''tc_skip_classify'' typedef___u8 (Some 1),
         Member ''remcsum_offload'' typedef___u8 (Some 1),
         Member ''csum_complete_sw'' typedef___u8 (Some 1),
         Member ''csum_level'' typedef___u8 (Some 2),
         Member ''inner_protocol_type'' typedef___u8 (Some 1),
         Member ''l4_hash'' typedef___u8 (Some 1),
         Member ''sw_hash'' typedef___u8 (Some 1),
         Member ''wifi_acked_valid'' typedef___u8 (Some 1),
         Member ''wifi_acked'' typedef___u8 (Some 1),
         Member ''no_fcs'' typedef___u8 (Some 1),
         Member ''encapsulation'' typedef___u8 (Some 1),
         Member ''encap_hdr_csum'' typedef___u8 (Some 1),
         Member ''csum_valid'' typedef___u8 (Some 1),
         Member ''ndisc_nodetype'' typedef___u8 (Some 2),
         Member ''ipvs_property'' typedef___u8 (Some 1),
         Member ''nf_trace'' typedef___u8 (Some 1),
         Member ''offload_fwd_mark'' typedef___u8 (Some 1),
         Member ''offload_l3_fwd_mark'' typedef___u8 (Some 1),
         Member ''redirected'' typedef___u8 (Some 1),
         Member ''from_ingress'' typedef___u8 (Some 1),
         Member ''nf_skip_egress'' typedef___u8 (Some 1),
         Member ''decrypted'' typedef___u8 (Some 1),
         Member ''slow_gro'' typedef___u8 (Some 1),
         Member ''csum_not_inet'' typedef___u8 (Some 1),
         Member ''tc_index'' typedef___u16 None,
         Member ''alloc_cpu'' typedef_u16 None,
         Member '''' (CUnion False [
           Member ''csum'' typedef___wsum None,
           Member '''' (CStruct False [
             Member ''csum_start'' typedef___u16 None,
             Member ''csum_offset'' typedef___u16 None]) None]) None,
         Member ''priority'' typedef___u32 None,
         Member ''skb_iif'' (CInt 4 True) None,
         Member ''hash'' typedef___u32 None,
         Member '''' (CUnion False [
           Member ''vlan_all'' typedef_u32 None,
           Member '''' (CStruct False [
             Member ''vlan_proto'' typedef___be16 None,
             Member ''vlan_tci'' typedef___u16 None]) None]) None,
         Member '''' (CUnion False [
           Member ''napi_id'' (CInt 4 False) None,
           Member ''sender_cpu'' (CInt 4 False) None]) None,
         Member ''secmark'' typedef___u32 None,
         Member '''' (CUnion False [
           Member ''mark'' typedef___u32 None,
           Member ''reserved_tailroom'' typedef___u32 None]) None,
         Member '''' (CUnion False [
           Member ''inner_protocol'' typedef___be16 None,
           Member ''inner_ipproto'' typedef___u8 None]) None,
         Member ''inner_transport_header'' typedef___u16 None,
         Member ''inner_network_header'' typedef___u16 None,
         Member ''inner_mac_header'' typedef___u16 None,
         Member ''protocol'' typedef___be16 None,
         Member ''transport_header'' typedef___u16 None,
         Member ''network_header'' typedef___u16 None,
         Member ''mac_header'' typedef___u16 None]) None]) None,
     Member ''tail'' typedef_sk_buff_data_t None,
     Member ''end'' typedef_sk_buff_data_t None,
     Member ''head'' (CPtr ''unsigned char'') None,
     Member ''data'' (CPtr ''unsigned char'') None,
     Member ''truesize'' (CInt 4 False) None,
     Member ''users'' typedef_refcount_t None,
     Member ''extensions'' (CPtr ''struct skb_ext'') None]"

lemma struct_sk_buff_layout [ksize]:
  "sizeof struct_sk_buff = 232" "alignof struct_sk_buff = 8" "wf_ctype struct_sk_buff" "unpacked struct_sk_buff"
  by (simp_all add: struct_sk_buff_def layout_eval ksize)

end
