(* ===== verification/Kernel_Refs.thy ===== *)
theory Kernel_Refs
  imports Kernel_Tcp
begin

text \<open>
  Types of the kernel header \<open>src/agent/ebpf/bpf/vmlinux.h\<close>:
  what the members of \<open>struct sock\<close> point to, except for
  the network namespace.
  One definition per declaration, member by member in the order of the header, and one lemma per
  definition with what the layout of \<open>CLayout\<close> computes for it; small declarations that
  are used in few places are abbreviations.
\<close>

abbreviation typedef_rcuref_t :: ctype where
  "typedef_rcuref_t \<equiv> CStruct False [
     Member ''refcnt'' typedef_atomic_t None]"

definition typedef_netdevice_tracker :: ctype where
  "typedef_netdevice_tracker = CStruct False []"

lemma typedef_netdevice_tracker_layout [ksize]:
  "sizeof typedef_netdevice_tracker = 0" "alignof typedef_netdevice_tracker = 1" "wf_ctype typedef_netdevice_tracker" "unpacked typedef_netdevice_tracker"
  by (simp_all add: typedef_netdevice_tracker_def layout_eval ksize)

definition struct_dst_entry :: ctype where
  "struct_dst_entry = CStruct False [
     Member ''dev'' (CPtr ''struct net_device'') None,
     Member ''ops'' (CPtr ''struct dst_ops'') None,
     Member ''_metrics'' (CInt 8 False) None,
     Member ''expires'' (CInt 8 False) None,
     Member ''xfrm'' (CPtr ''struct xfrm_state'') None,
     Member ''input'' (CPtr ''fn'') None,
     Member ''output'' (CPtr ''fn'') None,
     Member ''flags'' (CInt 2 False) None,
     Member ''obsolete'' (CInt 2 True) None,
     Member ''header_len'' (CInt 2 False) None,
     Member ''trailer_len'' (CInt 2 False) None,
     Member ''__rcuref'' typedef_rcuref_t None,
     Member ''__use'' (CInt 4 True) None,
     Member ''lastuse'' (CInt 8 False) None,
     Member ''callback_head'' struct_callback_head None,
     Member ''error'' (CInt 2 True) None,
     Member ''__pad'' (CInt 2 True) None,
     Member ''tclassid'' typedef___u32 None,
     Member ''dev_tracker'' typedef_netdevice_tracker None,
     Member ''rt_uncached'' struct_list_head None,
     Member ''rt_uncached_list'' (CPtr ''struct uncached_list'') None,
     Member ''lwtstate'' (CPtr ''struct lwtunnel_state'') None]"

lemma struct_dst_entry_layout [ksize]:
  "sizeof struct_dst_entry = 136" "alignof struct_dst_entry = 8" "wf_ctype struct_dst_entry" "unpacked struct_dst_entry"
  by (simp_all add: struct_dst_entry_def layout_eval ksize)

definition struct_sk_filter :: ctype where
  "struct_sk_filter = CStruct False [
     Member ''refcnt'' typedef_refcount_t None,
     Member ''rcu'' struct_callback_head None,
     Member ''prog'' (CPtr ''struct bpf_prog'') None]"

lemma struct_sk_filter_layout [ksize]:
  "sizeof struct_sk_filter = 32" "alignof struct_sk_filter = 8" "wf_ctype struct_sk_filter" "unpacked struct_sk_filter"
  by (simp_all add: struct_sk_filter_def layout_eval ksize)

abbreviation struct_socket_wq :: ctype where
  "struct_socket_wq \<equiv> CStruct False [
     Member ''wait'' typedef_wait_queue_head_t None,
     Member ''fasync_list'' (CPtr ''struct fasync_struct'') None,
     Member ''flags'' (CInt 8 False) None,
     Member ''rcu'' struct_callback_head None,
     Member '''' (CInt 8 True) (Some 64)]"

definition struct_hlist_head :: ctype where
  "struct_hlist_head = CStruct False [
     Member ''first'' (CPtr ''struct hlist_node'') None]"

lemma struct_hlist_head_layout [ksize]:
  "sizeof struct_hlist_head = 8" "alignof struct_hlist_head = 8" "wf_ctype struct_hlist_head" "unpacked struct_hlist_head"
  by (simp_all add: struct_hlist_head_def layout_eval ksize)

abbreviation struct_xfrm_mark :: ctype where
  "struct_xfrm_mark \<equiv> CStruct False [
     Member ''v'' typedef___u32 None,
     Member ''m'' typedef___u32 None]"

definition typedef_xfrm_address_t :: ctype where
  "typedef_xfrm_address_t = CUnion False [
     Member ''a4'' typedef___be32 None,
     Member ''a6'' (CArray typedef___be32 4) None,
     Member ''in6'' struct_in6_addr None]"

lemma typedef_xfrm_address_t_layout [ksize]:
  "sizeof typedef_xfrm_address_t = 16" "alignof typedef_xfrm_address_t = 4" "wf_ctype typedef_xfrm_address_t" "unpacked typedef_xfrm_address_t"
  by (simp_all add: typedef_xfrm_address_t_def layout_eval ksize)

definition struct_xfrm_selector :: ctype where
  "struct_xfrm_selector = CStruct False [
     Member ''daddr'' typedef_xfrm_address_t None,
     Member ''saddr'' typedef_xfrm_address_t None,
     Member ''dport'' typedef___be16 None,
     Member ''dport_mask'' typedef___be16 None,
     Member ''sport'' typedef___be16 None,
     Member ''sport_mask'' typedef___be16 None,
     Member ''family'' typedef___u16 None,
     Member ''prefixlen_d'' typedef___u8 None,
     Member ''prefixlen_s'' typedef___u8 None,
     Member ''proto'' typedef___u8 None,
     Member ''ifindex'' (CInt 4 True) None,
     Member ''user'' typedef___kernel_uid32_t None]"

lemma struct_xfrm_selector_layout [ksize]:
  "sizeof struct_xfrm_selector = 56" "alignof struct_xfrm_selector = 4" "wf_ctype struct_xfrm_selector" "unpacked struct_xfrm_selector"
  by (simp_all add: struct_xfrm_selector_def layout_eval ksize)

definition struct_xfrm_lifetime_cfg :: ctype where
  "struct_xfrm_lifetime_cfg = CStruct False [
     Member ''soft_byte_limit'' typedef___u64 None,
     Member ''hard_byte_limit'' typedef___u64 None,
     Member ''soft_packet_limit'' typedef___u64 None,
     Member ''hard_packet_limit'' typedef___u64 None,
     Member ''soft_add_expires_seconds'' typedef___u64 None,
     Member ''hard_add_expires_seconds'' typedef___u64 None,
     Member ''soft_use_expires_seconds'' typedef___u64 None,
     Member ''hard_use_expires_seconds'' typedef___u64 None]"

lemma struct_xfrm_lifetime_cfg_layout [ksize]:
  "sizeof struct_xfrm_lifetime_cfg = 64" "alignof struct_xfrm_lifetime_cfg = 8" "wf_ctype struct_xfrm_lifetime_cfg" "unpacked struct_xfrm_lifetime_cfg"
  by (simp_all add: struct_xfrm_lifetime_cfg_def layout_eval ksize)

abbreviation struct_xfrm_lifetime_cur :: ctype where
  "struct_xfrm_lifetime_cur \<equiv> CStruct False [
     Member ''bytes'' typedef___u64 None,
     Member ''packets'' typedef___u64 None,
     Member ''add_time'' typedef___u64 None,
     Member ''use_time'' typedef___u64 None]"

abbreviation struct_xfrm_policy_walk_entry :: ctype where
  "struct_xfrm_policy_walk_entry \<equiv> CStruct False [
     Member ''all'' struct_list_head None,
     Member ''dead'' typedef_u8 None]"

abbreviation struct_xfrm_policy_queue :: ctype where
  "struct_xfrm_policy_queue \<equiv> CStruct False [
     Member ''hold_queue'' struct_sk_buff_head None,
     Member ''hold_timer'' struct_timer_list None,
     Member ''timeout'' (CInt 8 False) None]"

abbreviation struct_xfrm_id :: ctype where
  "struct_xfrm_id \<equiv> CStruct False [
     Member ''daddr'' typedef_xfrm_address_t None,
     Member ''spi'' typedef___be32 None,
     Member ''proto'' typedef___u8 None]"

definition struct_xfrm_tmpl :: ctype where
  "struct_xfrm_tmpl = CStruct False [
     Member ''id'' struct_xfrm_id None,
     Member ''saddr'' typedef_xfrm_address_t None,
     Member ''encap_family'' (CInt 2 False) None,
     Member ''reqid'' typedef_u32 None,
     Member ''mode'' typedef_u8 None,
     Member ''share'' typedef_u8 None,
     Member ''optional'' typedef_u8 None,
     Member ''allalgs'' typedef_u8 None,
     Member ''aalgos'' typedef_u32 None,
     Member ''ealgos'' typedef_u32 None,
     Member ''calgos'' typedef_u32 None]"

lemma struct_xfrm_tmpl_layout [ksize]:
  "sizeof struct_xfrm_tmpl = 64" "alignof struct_xfrm_tmpl = 4" "wf_ctype struct_xfrm_tmpl" "unpacked struct_xfrm_tmpl"
  by (simp_all add: struct_xfrm_tmpl_def layout_eval ksize)

definition struct_xfrm_dev_offload :: ctype where
  "struct_xfrm_dev_offload = CStruct False [
     Member ''dev'' (CPtr ''struct net_device'') None,
     Member ''dev_tracker'' typedef_netdevice_tracker None,
     Member ''real_dev'' (CPtr ''struct net_device'') None,
     Member ''offload_handle'' (CInt 8 False) None,
     Member ''dir'' typedef_u8 (Some 2),
     Member ''type'' typedef_u8 (Some 2),
     Member ''flags'' typedef_u8 (Some 2)]"

lemma struct_xfrm_dev_offload_layout [ksize]:
  "sizeof struct_xfrm_dev_offload = 32" "alignof struct_xfrm_dev_offload = 8" "wf_ctype struct_xfrm_dev_offload" "unpacked struct_xfrm_dev_offload"
  by (simp_all add: struct_xfrm_dev_offload_def layout_eval ksize)

definition struct_xfrm_policy :: ctype where
  "struct_xfrm_policy = CStruct False [
     Member ''xp_net'' typedef_possible_net_t None,
     Member ''bydst'' struct_hlist_node None,
     Member ''byidx'' struct_hlist_node None,
     Member ''state_cache_list'' struct_hlist_head None,
     Member ''lock'' typedef_rwlock_t None,
     Member ''refcnt'' typedef_refcount_t None,
     Member ''pos'' typedef_u32 None,
     Member ''timer'' struct_timer_list None,
     Member ''genid'' typedef_atomic_t None,
     Member ''priority'' typedef_u32 None,
     Member ''index'' typedef_u32 None,
     Member ''if_id'' typedef_u32 None,
     Member ''mark'' struct_xfrm_mark None,
     Member ''selector'' struct_xfrm_selector None,
     Member ''lft'' struct_xfrm_lifetime_cfg None,
     Member ''curlft'' struct_xfrm_lifetime_cur None,
     Member ''walk'' struct_xfrm_policy_walk_entry None,
     Member ''polq'' struct_xfrm_policy_queue None,
     Member ''bydst_reinsert'' typedef_bool None,
     Member ''type'' typedef_u8 None,
     Member ''action'' typedef_u8 None,
     Member ''flags'' typedef_u8 None,
     Member ''xfrm_nr'' typedef_u8 None,
     Member ''family'' typedef_u16 None,
     Member ''security'' (CPtr ''struct xfrm_sec_ctx'') None,
     Member ''xfrm_vec'' (CArray struct_xfrm_tmpl 6) None,
     Member ''bydst_inexact_list'' struct_hlist_node None,
     Member ''rcu'' struct_callback_head None,
     Member ''xdo'' struct_xfrm_dev_offload None]"

lemma struct_xfrm_policy_layout [ksize]:
  "sizeof struct_xfrm_policy = 840" "alignof struct_xfrm_policy = 8" "wf_ctype struct_xfrm_policy" "unpacked struct_xfrm_policy"
  by (simp_all add: struct_xfrm_policy_def layout_eval ksize)

abbreviation typedef_slab_flags_t :: ctype where
  "typedef_slab_flags_t \<equiv> CInt 4 False"

definition struct_proto :: ctype where
  "struct_proto = CStruct False [
     Member ''close'' (CPtr ''fn'') None,
     Member ''pre_connect'' (CPtr ''fn'') None,
     Member ''connect'' (CPtr ''fn'') None,
     Member ''disconnect'' (CPtr ''fn'') None,
     Member ''accept'' (CPtr ''fn'') None,
     Member ''ioctl'' (CPtr ''fn'') None,
     Member ''init'' (CPtr ''fn'') None,
     Member ''destroy'' (CPtr ''fn'') None,
     Member ''shutdown'' (CPtr ''fn'') None,
     Member ''setsockopt'' (CPtr ''fn'') None,
     Member ''getsockopt'' (CPtr ''fn'') None,
     Member ''keepalive'' (CPtr ''fn'') None,
     Member ''compat_ioctl'' (CPtr ''fn'') None,
     Member ''sendmsg'' (CPtr ''fn'') None,
     Member ''recvmsg'' (CPtr ''fn'') None,
     Member ''splice_eof'' (CPtr ''fn'') None,
     Member ''bind'' (CPtr ''fn'') None,
     Member ''bind_add'' (CPtr ''fn'') None,
     Member ''backlog_rcv'' (CPtr ''fn'') None,
     Member ''bpf_bypass_getsockopt'' (CPtr ''fn'') None,
     Member ''release_cb'' (CPtr ''fn'') None,
     Member ''hash'' (CPtr ''fn'') None,
     Member ''unhash'' (CPtr ''fn'') None,
     Member ''rehash'' (CPtr ''fn'') None,
     Member ''get_port'' (CPtr ''fn'') None,
     Member ''put_port'' (CPtr ''fn'') None,
     Member ''psock_update_sk_prot'' (CPtr ''fn'') None,
     Member ''inuse_idx'' (CInt 4 False) None,
     Member ''forward_alloc_get'' (CPtr ''fn'') None,
     Member ''stream_memory_free'' (CPtr ''fn'') None,
     Member ''sock_is_readable'' (CPtr ''fn'') None,
     Member ''enter_memory_pressure'' (CPtr ''fn'') None,
     Member ''leave_memory_pressure'' (CPtr ''fn'') None,
     Member ''memory_allocated'' (CPtr ''atomic_long_t'') None,
     Member ''per_cpu_fw_alloc'' (CPtr ''int'') None,
     Member ''sockets_allocated'' (CPtr ''struct percpu_counter'') None,
     Member ''memory_pressure'' (CPtr ''long unsigned int'') None,
     Member ''sysctl_mem'' (CPtr ''long int'') None,
     Member ''sysctl_wmem'' (CPtr ''int'') None,
     Member ''sysctl_rmem'' (CPtr ''int'') None,
     Member ''sysctl_wmem_offset'' typedef_u32 None,
     Member ''sysctl_rmem_offset'' typedef_u32 None,
     Member ''max_header'' (CInt 4 True) None,
     Member ''no_autobind'' typedef_bool None,
     Member ''slab'' (CPtr ''struct kmem_cache'') None,
     Member ''obj_size'' (CInt 4 False) None,
     Member ''ipv6_pinfo_offset'' (CInt 4 False) None,
     Member ''slab_flags'' typedef_slab_flags_t None,
     Member ''useroffset'' (CInt 4 False) None,
     Member ''usersize'' (CInt 4 False) None,
     Member ''orphan_count'' (CPtr ''unsigned int'') None,
     Member ''rsk_prot'' (CPtr ''struct request_sock_ops'') None,
     Member ''twsk_prot'' (CPtr ''struct timewait_sock_ops'') None,
     Member ''h'' (CUnion False [
       Member ''hashinfo'' (CPtr ''struct inet_hashinfo'') None,
       Member ''udp_table'' (CPtr ''struct udp_table'') None,
       Member ''raw_hash'' (CPtr ''struct raw_hashinfo'') None,
       Member ''smc_hash'' (CPtr ''struct smc_hashinfo'') None]) None,
     Member ''owner'' (CPtr ''struct module'') None,
     Member ''name'' (CArray (CInt 1 True) 32) None,
     Member ''node'' struct_list_head None,
     Member ''diag_destroy'' (CPtr ''fn'') None]"

lemma struct_proto_layout [ksize]:
  "sizeof struct_proto = 464" "alignof struct_proto = 8" "wf_ctype struct_proto" "unpacked struct_proto"
  by (simp_all add: struct_proto_def layout_eval ksize)

abbreviation struct_upid :: ctype where
  "struct_upid \<equiv> CStruct False [
     Member ''nr'' (CInt 4 True) None,
     Member ''ns'' (CPtr ''struct pid_namespace'') None]"

definition struct_pid :: ctype where
  "struct_pid = CStruct False [
     Member ''count'' typedef_refcount_t None,
     Member ''level'' (CInt 4 False) None,
     Member ''lock'' typedef_spinlock_t None,
     Member ''tasks'' (CArray struct_hlist_head 4) None,
     Member ''inodes'' struct_hlist_head None,
     Member ''wait_pidfd'' typedef_wait_queue_head_t None,
     Member ''rcu'' struct_callback_head None,
     Member ''numbers'' (CArray struct_upid 0) None]"

lemma struct_pid_layout [ksize]:
  "sizeof struct_pid = 96" "alignof struct_pid = 8" "wf_ctype struct_pid" "unpacked struct_pid"
  by (simp_all add: struct_pid_def layout_eval ksize)

abbreviation typedef_atomic_long_t :: ctype where
  "typedef_atomic_long_t \<equiv> typedef_atomic64_t"

abbreviation typedef___kernel_gid32_t :: ctype where
  "typedef___kernel_gid32_t \<equiv> CInt 4 False"

abbreviation typedef_gid_t :: ctype where
  "typedef_gid_t \<equiv> typedef___kernel_gid32_t"

abbreviation typedef_kgid_t :: ctype where
  "typedef_kgid_t \<equiv> CStruct False [
     Member ''val'' typedef_gid_t None]"

abbreviation typedef_kernel_cap_t :: ctype where
  "typedef_kernel_cap_t \<equiv> CStruct False [
     Member ''val'' typedef_u64 None]"

definition struct_cred :: ctype where
  "struct_cred = CStruct False [
     Member ''usage'' typedef_atomic_long_t None,
     Member ''uid'' typedef_kuid_t None,
     Member ''gid'' typedef_kgid_t None,
     Member ''suid'' typedef_kuid_t None,
     Member ''sgid'' typedef_kgid_t None,
     Member ''euid'' typedef_kuid_t None,
     Member ''egid'' typedef_kgid_t None,
     Member ''fsuid'' typedef_kuid_t None,
     Member ''fsgid'' typedef_kgid_t None,
     Member ''securebits'' (CInt 4 False) None,
     Member ''cap_inheritable'' typedef_kernel_cap_t None,
     Member ''cap_permitted'' typedef_kernel_cap_t None,
     Member ''cap_effective'' typedef_kernel_cap_t None,
     Member ''cap_bset'' typedef_kernel_cap_t None,
     Member ''cap_ambient'' typedef_kernel_cap_t None,
     Member ''jit_keyring'' (CInt 1 False) None,
     Member ''session_keyring'' (CPtr ''struct key'') None,
     Member ''process_keyring'' (CPtr ''struct key'') None,
     Member ''thread_keyring'' (CPtr ''struct key'') None,
     Member ''request_key_auth'' (CPtr ''struct key'') None,
     Member ''security'' (CPtr ''void'') None,
     Member ''user'' (CPtr ''struct user_struct'') None,
     Member ''user_ns'' (CPtr ''struct user_namespace'') None,
     Member ''ucounts'' (CPtr ''struct ucounts'') None,
     Member ''group_info'' (CPtr ''struct group_info'') None,
     Member '''' (CUnion False [
       Member ''non_rcu'' (CInt 4 True) None,
       Member ''rcu'' struct_callback_head None]) None]"

lemma struct_cred_layout [ksize]:
  "sizeof struct_cred = 184" "alignof struct_cred = 8" "wf_ctype struct_cred" "unpacked struct_cred"
  by (simp_all add: struct_cred_def layout_eval ksize)

abbreviation typedef_socket_state :: ctype where
  "typedef_socket_state \<equiv> CEnum"

definition struct_socket :: ctype where
  "struct_socket = CStruct False [
     Member ''state'' typedef_socket_state None,
     Member ''type'' (CInt 2 True) None,
     Member ''flags'' (CInt 8 False) None,
     Member ''file'' (CPtr ''struct file'') None,
     Member ''sk'' (CPtr ''struct sock'') None,
     Member ''ops'' (CPtr ''struct proto_ops'') None,
     Member '''' (CInt 8 True) (Some 64),
     Member '''' (CInt 8 True) (Some 64),
     Member '''' (CInt 8 True) (Some 64),
     Member ''wq'' struct_socket_wq None]"

lemma struct_socket_layout [ksize]:
  "sizeof struct_socket = 128" "alignof struct_socket = 8" "wf_ctype struct_socket" "unpacked struct_socket"
  by (simp_all add: struct_socket_def layout_eval ksize)

abbreviation struct_percpu_ref :: ctype where
  "struct_percpu_ref \<equiv> CStruct False [
     Member ''percpu_count_ptr'' (CInt 8 False) None,
     Member ''data'' (CPtr ''struct percpu_ref_data'') None]"

abbreviation typedef_work_func_t :: ctype where
  "typedef_work_func_t \<equiv> CPtr ''fn''"

definition struct_work_struct :: ctype where
  "struct_work_struct = CStruct False [
     Member ''data'' typedef_atomic_long_t None,
     Member ''entry'' struct_list_head None,
     Member ''func'' typedef_work_func_t None]"

lemma struct_work_struct_layout [ksize]:
  "sizeof struct_work_struct = 32" "alignof struct_work_struct = 8" "wf_ctype struct_work_struct" "unpacked struct_work_struct"
  by (simp_all add: struct_work_struct_def layout_eval ksize)

abbreviation struct_rcu_work :: ctype where
  "struct_rcu_work \<equiv> CStruct False [
     Member ''work'' struct_work_struct None,
     Member ''rcu'' struct_callback_head None,
     Member ''wq'' (CPtr ''struct workqueue_struct'') None]"

definition struct_cgroup_subsys_state :: ctype where
  "struct_cgroup_subsys_state = CStruct False [
     Member ''cgroup'' (CPtr ''struct cgroup'') None,
     Member ''ss'' (CPtr ''struct cgroup_subsys'') None,
     Member ''refcnt'' struct_percpu_ref None,
     Member ''sibling'' struct_list_head None,
     Member ''children'' struct_list_head None,
     Member ''rstat_css_node'' struct_list_head None,
     Member ''id'' (CInt 4 True) None,
     Member ''flags'' (CInt 4 False) None,
     Member ''serial_nr'' typedef_u64 None,
     Member ''online_cnt'' typedef_atomic_t None,
     Member ''destroy_work'' struct_work_struct None,
     Member ''destroy_rwork'' struct_rcu_work None,
     Member ''parent'' (CPtr ''struct cgroup_subsys_state'') None]"

lemma struct_cgroup_subsys_state_layout [ksize]:
  "sizeof struct_cgroup_subsys_state = 200" "alignof struct_cgroup_subsys_state = 8" "wf_ctype struct_cgroup_subsys_state" "unpacked struct_cgroup_subsys_state"
  by (simp_all add: struct_cgroup_subsys_state_def layout_eval ksize)

abbreviation struct_mem_cgroup_id :: ctype where
  "struct_mem_cgroup_id \<equiv> CStruct False [
     Member ''id'' (CInt 4 True) None,
     Member ''ref'' typedef_refcount_t None]"

abbreviation struct_cacheline_padding :: ctype where
  "struct_cacheline_padding \<equiv> CStruct False [
     Member ''x'' (CArray (CInt 1 True) 0) None]"

definition struct_page_counter :: ctype where
  "struct_page_counter = CStruct False [
     Member ''usage'' typedef_atomic_long_t None,
     Member '''' (CInt 8 True) (Some 64),
     Member '''' (CInt 8 True) (Some 64),
     Member '''' (CInt 8 True) (Some 64),
     Member '''' (CInt 8 True) (Some 64),
     Member '''' (CInt 8 True) (Some 64),
     Member '''' (CInt 8 True) (Some 64),
     Member '''' (CInt 8 True) (Some 64),
     Member ''_pad1_'' struct_cacheline_padding None,
     Member ''emin'' (CInt 8 False) None,
     Member ''min_usage'' typedef_atomic_long_t None,
     Member ''children_min_usage'' typedef_atomic_long_t None,
     Member ''elow'' (CInt 8 False) None,
     Member ''low_usage'' typedef_atomic_long_t None,
     Member ''children_low_usage'' typedef_atomic_long_t None,
     Member ''watermark'' (CInt 8 False) None,
     Member ''failcnt'' (CInt 8 False) None,
     Member ''_pad2_'' struct_cacheline_padding None,
     Member ''min'' (CInt 8 False) None,
     Member ''low'' (CInt 8 False) None,
     Member ''high'' (CInt 8 False) None,
     Member ''max'' (CInt 8 False) None,
     Member ''parent'' (CPtr ''struct page_counter'') None,
     Member '''' (CInt 8 True) (Some 64),
     Member '''' (CInt 8 True) (Some 64),
     Member '''' (CInt 8 True) (Some 64)]"

lemma struct_page_counter_layout [ksize]:
  "sizeof struct_page_counter = 192" "alignof struct_page_counter = 8" "wf_ctype struct_page_counter" "unpacked struct_page_counter"
  by (simp_all add: struct_page_counter_def layout_eval ksize)

abbreviation typedef_raw_spinlock_t :: ctype where
  "typedef_raw_spinlock_t \<equiv> struct_raw_spinlock"

abbreviation struct_optimistic_spin_queue :: ctype where
  "struct_optimistic_spin_queue \<equiv> CStruct False [
     Member ''tail'' typedef_atomic_t None]"

definition struct_mutex :: ctype where
  "struct_mutex = CStruct False [
     Member ''owner'' typedef_atomic_long_t None,
     Member ''wait_lock'' typedef_raw_spinlock_t None,
     Member ''osq'' struct_optimistic_spin_queue None,
     Member ''wait_list'' struct_list_head None]"

lemma struct_mutex_layout [ksize]:
  "sizeof struct_mutex = 32" "alignof struct_mutex = 8" "wf_ctype struct_mutex" "unpacked struct_mutex"
  by (simp_all add: struct_mutex_def layout_eval ksize)

definition struct_vmpressure :: ctype where
  "struct_vmpressure = CStruct False [
     Member ''scanned'' (CInt 8 False) None,
     Member ''reclaimed'' (CInt 8 False) None,
     Member ''tree_scanned'' (CInt 8 False) None,
     Member ''tree_reclaimed'' (CInt 8 False) None,
     Member ''sr_lock'' typedef_spinlock_t None,
     Member ''events'' struct_list_head None,
     Member ''events_lock'' struct_mutex None,
     Member ''work'' struct_work_struct None]"

lemma struct_vmpressure_layout [ksize]:
  "sizeof struct_vmpressure = 120" "alignof struct_vmpressure = 8" "wf_ctype struct_vmpressure" "unpacked struct_vmpressure"
  by (simp_all add: struct_vmpressure_def layout_eval ksize)

definition struct_cgroup_file :: ctype where
  "struct_cgroup_file = CStruct False [
     Member ''kn'' (CPtr ''struct kernfs_node'') None,
     Member ''notified_at'' (CInt 8 False) None,
     Member ''notify_timer'' struct_timer_list None]"

lemma struct_cgroup_file_layout [ksize]:
  "sizeof struct_cgroup_file = 56" "alignof struct_cgroup_file = 8" "wf_ctype struct_cgroup_file" "unpacked struct_cgroup_file"
  by (simp_all add: struct_cgroup_file_def layout_eval ksize)

abbreviation struct_mem_cgroup_thresholds :: ctype where
  "struct_mem_cgroup_thresholds \<equiv> CStruct False [
     Member ''primary'' (CPtr ''struct mem_cgroup_threshold_ary'') None,
     Member ''spare'' (CPtr ''struct mem_cgroup_threshold_ary'') None]"

definition struct_percpu_counter :: ctype where
  "struct_percpu_counter = CStruct False [
     Member ''lock'' typedef_raw_spinlock_t None,
     Member ''count'' typedef_s64 None,
     Member ''list'' struct_list_head None,
     Member ''counters'' (CPtr ''s32'') None]"

lemma struct_percpu_counter_layout [ksize]:
  "sizeof struct_percpu_counter = 40" "alignof struct_percpu_counter = 8" "wf_ctype struct_percpu_counter" "unpacked struct_percpu_counter"
  by (simp_all add: struct_percpu_counter_def layout_eval ksize)

abbreviation struct_seqcount :: ctype where
  "struct_seqcount \<equiv> CStruct False [
     Member ''sequence'' (CInt 4 False) None]"

abbreviation typedef_seqcount_t :: ctype where
  "typedef_seqcount_t \<equiv> struct_seqcount"

abbreviation struct_fprop_global :: ctype where
  "struct_fprop_global \<equiv> CStruct False [
     Member ''events'' struct_percpu_counter None,
     Member ''period'' (CInt 4 False) None,
     Member ''sequence'' typedef_seqcount_t None]"

definition struct_wb_domain :: ctype where
  "struct_wb_domain = CStruct False [
     Member ''lock'' typedef_spinlock_t None,
     Member ''completions'' struct_fprop_global None,
     Member ''period_timer'' struct_timer_list None,
     Member ''period_time'' (CInt 8 False) None,
     Member ''dirty_limit_tstamp'' (CInt 8 False) None,
     Member ''dirty_limit'' (CInt 8 False) None]"

lemma struct_wb_domain_layout [ksize]:
  "sizeof struct_wb_domain = 120" "alignof struct_wb_domain = 8" "wf_ctype struct_wb_domain" "unpacked struct_wb_domain"
  by (simp_all add: struct_wb_domain_def layout_eval ksize)

abbreviation struct_wb_completion :: ctype where
  "struct_wb_completion \<equiv> CStruct False [
     Member ''cnt'' typedef_atomic_t None,
     Member ''waitq'' (CPtr ''wait_queue_head_t'') None]"

abbreviation struct_memcg_cgwb_frn :: ctype where
  "struct_memcg_cgwb_frn \<equiv> CStruct False [
     Member ''bdi_id'' typedef_u64 None,
     Member ''memcg_id'' (CInt 4 True) None,
     Member ''at'' typedef_u64 None,
     Member ''done'' struct_wb_completion None]"

abbreviation struct_deferred_split :: ctype where
  "struct_deferred_split \<equiv> CStruct False [
     Member ''split_queue_lock'' typedef_spinlock_t None,
     Member ''split_queue'' struct_list_head None,
     Member ''split_queue_len'' (CInt 8 False) None]"

abbreviation struct_lru_gen_mm_list :: ctype where
  "struct_lru_gen_mm_list \<equiv> CStruct False [
     Member ''fifo'' struct_list_head None,
     Member ''lock'' typedef_spinlock_t None]"

definition struct_mem_cgroup :: ctype where
  "struct_mem_cgroup = CStruct False [
     Member ''css'' struct_cgroup_subsys_state None,
     Member ''id'' struct_mem_cgroup_id None,
     Member '''' (CInt 8 True) (Some 64),
     Member '''' (CInt 8 True) (Some 64),
     Member '''' (CInt 8 True) (Some 64),
     Member '''' (CInt 8 True) (Some 64),
     Member '''' (CInt 8 True) (Some 64),
     Member '''' (CInt 8 True) (Some 64),
     Member ''memory'' struct_page_counter None,
     Member '''' (CUnion False [
       Member ''swap'' struct_page_counter None,
       Member ''memsw'' struct_page_counter None]) None,
     Member ''kmem'' struct_page_counter None,
     Member ''tcpmem'' struct_page_counter None,
     Member ''high_work'' struct_work_struct None,
     Member ''zswap_max'' (CInt 8 False) None,
     Member ''zswap_writeback'' typedef_bool None,
     Member ''soft_limit'' (CInt 8 False) None,
     Member ''vmpressure'' struct_vmpressure None,
     Member ''oom_group'' typedef_bool None,
     Member ''oom_lock'' typedef_bool None,
     Member ''under_oom'' (CInt 4 True) None,
     Member ''swappiness'' (CInt 4 True) None,
     Member ''oom_kill_disable'' (CInt 4 True) None,
     Member ''events_file'' struct_cgroup_file None,
     Member ''events_local_file'' struct_cgroup_file None,
     Member ''swap_events_file'' struct_cgroup_file None,
     Member ''thresholds_lock'' struct_mutex None,
     Member ''thresholds'' struct_mem_cgroup_thresholds None,
     Member ''memsw_thresholds'' struct_mem_cgroup_thresholds None,
     Member ''oom_notify'' struct_list_head None,
     Member ''move_charge_at_immigrate'' (CInt 8 False) None,
     Member ''move_lock'' typedef_spinlock_t None,
     Member ''move_lock_flags'' (CInt 8 False) None,
     Member '''' (CInt 8 True) (Some 64),
     Member '''' (CInt 8 True) (Some 64),
     Member '''' (CInt 8 True) (Some 64),
     Member '''' (CInt 8 True) (Some 64),
     Member '''' (CInt 8 True) (Some 64),
     Member '''' (CInt 8 True) (Some 64),
     Member ''_pad1_'' struct_cacheline_padding None,
     Member ''vmstats'' (CPtr ''struct memcg_vmstats'') None,
     Member ''memory_events'' (CArray typedef_atomic_long_t 9) None,
     Member ''memory_events_local'' (CArray typedef_atomic_long_t 9) None,
     Member ''socket_pressure'' (CInt 8 False) None,
     Member ''tcpmem_active'' typedef_bool None,
     Member ''tcpmem_pressure'' (CInt 4 True) None,
     Member ''kmemcg_id'' (CInt 4 True) None,
     Member ''objcg'' (CPtr ''struct obj_cgroup'') None,
     Member ''orig_objcg'' (CPtr ''struct obj_cgroup'') None,
     Member ''objcg_list'' struct_list_head None,
     Member '''' (CInt 8 True) (Some 64),
     Member '''' (CInt 8 True) (Some 64),
     Member '''' (CInt 8 True) (Some 64),
     Member '''' (CInt 8 True) (Some 64),
     Member '''' (CInt 8 True) (Some 64),
     Member '''' (CInt 8 True) (Some 64),
     Member ''_pad2_'' struct_cacheline_padding None,
     Member ''moving_account'' typedef_atomic_t None,
     Member ''move_lock_task'' (CPtr ''struct task_struct'') None,
     Member ''vmstats_percpu'' (CPtr ''struct memcg_vmstats_percpu'') None,
     Member ''cgwb_list'' struct_list_head None,
     Member ''cgwb_domain'' struct_wb_domain None,
     Member ''cgwb_frn'' (CArray struct_memcg_cgwb_frn 4) None,
     Member ''event_list'' struct_list_head None,
     Member ''event_list_lock'' typedef_spinlock_t None,
     Member ''deferred_split_queue'' struct_deferred_split None,
     Member ''mm_list'' struct_lru_gen_mm_list None,
     Member ''nodeinfo'' (CArray (CPtr ''struct mem_cgroup_per_node'') 0) None,
     Member '''' (CInt 8 True) (Some 64),
     Member '''' (CInt 8 True) (Some 64),
     Member '''' (CInt 8 True) (Some 64),
     Member '''' (CInt 8 True) (Some 64),
     Member '''' (CInt 8 True) (Some 64),
     Member '''' (CInt 8 True) (Some 64)]"

lemma struct_mem_cgroup_layout [ksize]:
  "sizeof struct_mem_cgroup = 2240" "alignof struct_mem_cgroup = 8" "wf_ctype struct_mem_cgroup" "unpacked struct_mem_cgroup"
  by (simp_all add: struct_mem_cgroup_def layout_eval ksize)

definition struct_sock_reuseport :: ctype where
  "struct_sock_reuseport = CStruct False [
     Member ''rcu'' struct_callback_head None,
     Member ''max_socks'' typedef_u16 None,
     Member ''num_socks'' typedef_u16 None,
     Member ''num_closed_socks'' typedef_u16 None,
     Member ''incoming_cpu'' typedef_u16 None,
     Member ''synq_overflow_ts'' (CInt 4 False) None,
     Member ''reuseport_id'' (CInt 4 False) None,
     Member ''bind_inany'' (CInt 4 False) (Some 1),
     Member ''has_conns'' (CInt 4 False) (Some 1),
     Member ''prog'' (CPtr ''struct bpf_prog'') None,
     Member ''socks'' (CArray (CPtr ''struct sock'') 0) None]"

lemma struct_sock_reuseport_layout [ksize]:
  "sizeof struct_sock_reuseport = 48" "alignof struct_sock_reuseport = 8" "wf_ctype struct_sock_reuseport" "unpacked struct_sock_reuseport"
  by (simp_all add: struct_sock_reuseport_def layout_eval ksize)

definition struct_bpf_local_storage :: ctype where
  "struct_bpf_local_storage = CStruct False [
     Member ''cache'' (CArray (CPtr ''struct bpf_local_storage_data'') 16) None,
     Member ''smap'' (CPtr ''struct bpf_local_storage_map'') None,
     Member ''list'' struct_hlist_head None,
     Member ''owner'' (CPtr ''void'') None,
     Member ''rcu'' struct_callback_head None,
     Member ''lock'' typedef_raw_spinlock_t None]"

lemma struct_bpf_local_storage_layout [ksize]:
  "sizeof struct_bpf_local_storage = 176" "alignof struct_bpf_local_storage = 8" "wf_ctype struct_bpf_local_storage" "unpacked struct_bpf_local_storage"
  by (simp_all add: struct_bpf_local_storage_def layout_eval ksize)

end
