(* ===== verification/Kernel_Task.thy ===== *)
theory Kernel_Task
  imports Kernel_Refs
begin

text \<open>
  Types of the kernel header \<open>src/agent/ebpf/bpf/vmlinux.h\<close>:
  \<open>struct task_struct\<close>, the object that the helpers
  \<open>bpf_get_current_pid_tgid\<close> and \<open>bpf_get_current_comm\<close> read, and everything it holds by value.
  One definition per declaration, member by member in the order of the header, and one lemma per
  definition with what the layout of \<open>CLayout\<close> computes for it; small declarations that
  are used in few places are abbreviations.
\<close>

abbreviation struct_thread_info :: ctype where
  "struct_thread_info \<equiv> CStruct False [
     Member ''flags'' (CInt 8 False) None,
     Member ''syscall_work'' (CInt 8 False) None,
     Member ''status'' typedef_u32 None,
     Member ''cpu'' typedef_u32 None]"

definition struct___call_single_node :: ctype where
  "struct___call_single_node = CStruct False [
     Member ''llist'' struct_llist_node None,
     Member '''' (CUnion False [
       Member ''u_flags'' (CInt 4 False) None,
       Member ''a_flags'' typedef_atomic_t None]) None,
     Member ''src'' typedef_u16 None,
     Member ''dst'' typedef_u16 None]"

lemma struct___call_single_node_layout [ksize]:
  "sizeof struct___call_single_node = 16" "alignof struct___call_single_node = 8" "wf_ctype struct___call_single_node" "unpacked struct___call_single_node"
  by (simp_all add: struct___call_single_node_def layout_eval ksize)

abbreviation struct_load_weight :: ctype where
  "struct_load_weight \<equiv> CStruct False [
     Member ''weight'' (CInt 8 False) None,
     Member ''inv_weight'' typedef_u32 None]"

definition struct_sched_avg :: ctype where
  "struct_sched_avg = CStruct False [
     Member ''last_update_time'' typedef_u64 None,
     Member ''load_sum'' typedef_u64 None,
     Member ''runnable_sum'' typedef_u64 None,
     Member ''util_sum'' typedef_u32 None,
     Member ''period_contrib'' typedef_u32 None,
     Member ''load_avg'' (CInt 8 False) None,
     Member ''runnable_avg'' (CInt 8 False) None,
     Member ''util_avg'' (CInt 8 False) None,
     Member ''util_est'' (CInt 4 False) None]"

lemma struct_sched_avg_layout [ksize]:
  "sizeof struct_sched_avg = 64" "alignof struct_sched_avg = 8" "wf_ctype struct_sched_avg" "unpacked struct_sched_avg"
  by (simp_all add: struct_sched_avg_def layout_eval ksize)

definition struct_sched_entity :: ctype where
  "struct_sched_entity = CStruct False [
     Member ''load'' struct_load_weight None,
     Member ''run_node'' struct_rb_node None,
     Member ''deadline'' typedef_u64 None,
     Member ''min_vruntime'' typedef_u64 None,
     Member ''group_node'' struct_list_head None,
     Member ''on_rq'' (CInt 4 False) None,
     Member ''exec_start'' typedef_u64 None,
     Member ''sum_exec_runtime'' typedef_u64 None,
     Member ''prev_sum_exec_runtime'' typedef_u64 None,
     Member ''vruntime'' typedef_u64 None,
     Member ''vlag'' typedef_s64 None,
     Member ''slice'' typedef_u64 None,
     Member ''nr_migrations'' typedef_u64 None,
     Member ''depth'' (CInt 4 True) None,
     Member ''parent'' (CPtr ''struct sched_entity'') None,
     Member ''cfs_rq'' (CPtr ''struct cfs_rq'') None,
     Member ''my_q'' (CPtr ''struct cfs_rq'') None,
     Member ''runnable_weight'' (CInt 8 False) None,
     Member '''' (CInt 8 True) (Some 64),
     Member '''' (CInt 8 True) (Some 64),
     Member ''avg'' struct_sched_avg None]"

lemma struct_sched_entity_layout [ksize]:
  "sizeof struct_sched_entity = 256" "alignof struct_sched_entity = 8" "wf_ctype struct_sched_entity" "unpacked struct_sched_entity"
  by (simp_all add: struct_sched_entity_def layout_eval ksize)

definition struct_sched_rt_entity :: ctype where
  "struct_sched_rt_entity = CStruct False [
     Member ''run_list'' struct_list_head None,
     Member ''timeout'' (CInt 8 False) None,
     Member ''watchdog_stamp'' (CInt 8 False) None,
     Member ''time_slice'' (CInt 4 False) None,
     Member ''on_rq'' (CInt 2 False) None,
     Member ''on_list'' (CInt 2 False) None,
     Member ''back'' (CPtr ''struct sched_rt_entity'') None]"

lemma struct_sched_rt_entity_layout [ksize]:
  "sizeof struct_sched_rt_entity = 48" "alignof struct_sched_rt_entity = 8" "wf_ctype struct_sched_rt_entity" "unpacked struct_sched_rt_entity"
  by (simp_all add: struct_sched_rt_entity_def layout_eval ksize)

abbreviation typedef_dl_server_has_tasks_f :: ctype where
  "typedef_dl_server_has_tasks_f \<equiv> CPtr ''fn''"

abbreviation typedef_dl_server_pick_f :: ctype where
  "typedef_dl_server_pick_f \<equiv> CPtr ''fn''"

definition struct_sched_dl_entity :: ctype where
  "struct_sched_dl_entity = CStruct False [
     Member ''rb_node'' struct_rb_node None,
     Member ''dl_runtime'' typedef_u64 None,
     Member ''dl_deadline'' typedef_u64 None,
     Member ''dl_period'' typedef_u64 None,
     Member ''dl_bw'' typedef_u64 None,
     Member ''dl_density'' typedef_u64 None,
     Member ''runtime'' typedef_s64 None,
     Member ''deadline'' typedef_u64 None,
     Member ''flags'' (CInt 4 False) None,
     Member ''dl_throttled'' (CInt 4 False) (Some 1),
     Member ''dl_yielded'' (CInt 4 False) (Some 1),
     Member ''dl_non_contending'' (CInt 4 False) (Some 1),
     Member ''dl_overrun'' (CInt 4 False) (Some 1),
     Member ''dl_server'' (CInt 4 False) (Some 1),
     Member ''dl_timer'' struct_hrtimer None,
     Member ''inactive_timer'' struct_hrtimer None,
     Member ''rq'' (CPtr ''struct rq'') None,
     Member ''server_has_tasks'' typedef_dl_server_has_tasks_f None,
     Member ''server_pick'' typedef_dl_server_pick_f None,
     Member ''pi_se'' (CPtr ''struct sched_dl_entity'') None]"

lemma struct_sched_dl_entity_layout [ksize]:
  "sizeof struct_sched_dl_entity = 248" "alignof struct_sched_dl_entity = 8" "wf_ctype struct_sched_dl_entity" "unpacked struct_sched_dl_entity"
  by (simp_all add: struct_sched_dl_entity_def layout_eval ksize)

definition struct_uclamp_se :: ctype where
  "struct_uclamp_se = CStruct False [
     Member ''value'' (CInt 4 False) (Some 11),
     Member ''bucket_id'' (CInt 4 False) (Some 3),
     Member ''active'' (CInt 4 False) (Some 1),
     Member ''user_defined'' (CInt 4 False) (Some 1)]"

lemma struct_uclamp_se_layout [ksize]:
  "sizeof struct_uclamp_se = 4" "alignof struct_uclamp_se = 4" "wf_ctype struct_uclamp_se" "unpacked struct_uclamp_se"
  by (simp_all add: struct_uclamp_se_def layout_eval ksize)

definition struct_sched_statistics :: ctype where
  "struct_sched_statistics = CStruct False [
     Member ''wait_start'' typedef_u64 None,
     Member ''wait_max'' typedef_u64 None,
     Member ''wait_count'' typedef_u64 None,
     Member ''wait_sum'' typedef_u64 None,
     Member ''iowait_count'' typedef_u64 None,
     Member ''iowait_sum'' typedef_u64 None,
     Member ''sleep_start'' typedef_u64 None,
     Member ''sleep_max'' typedef_u64 None,
     Member ''sum_sleep_runtime'' typedef_s64 None,
     Member ''block_start'' typedef_u64 None,
     Member ''block_max'' typedef_u64 None,
     Member ''sum_block_runtime'' typedef_s64 None,
     Member ''exec_max'' typedef_s64 None,
     Member ''slice_max'' typedef_u64 None,
     Member ''nr_migrations_cold'' typedef_u64 None,
     Member ''nr_failed_migrations_affine'' typedef_u64 None,
     Member ''nr_failed_migrations_running'' typedef_u64 None,
     Member ''nr_failed_migrations_hot'' typedef_u64 None,
     Member ''nr_forced_migrations'' typedef_u64 None,
     Member ''nr_wakeups'' typedef_u64 None,
     Member ''nr_wakeups_sync'' typedef_u64 None,
     Member ''nr_wakeups_migrate'' typedef_u64 None,
     Member ''nr_wakeups_local'' typedef_u64 None,
     Member ''nr_wakeups_remote'' typedef_u64 None,
     Member ''nr_wakeups_affine'' typedef_u64 None,
     Member ''nr_wakeups_affine_attempts'' typedef_u64 None,
     Member ''nr_wakeups_passive'' typedef_u64 None,
     Member ''nr_wakeups_idle'' typedef_u64 None,
     Member ''core_forceidle_sum'' typedef_u64 None,
     Member '''' (CInt 8 True) (Some 64),
     Member '''' (CInt 8 True) (Some 64),
     Member '''' (CInt 8 True) (Some 64)]"

lemma struct_sched_statistics_layout [ksize]:
  "sizeof struct_sched_statistics = 256" "alignof struct_sched_statistics = 8" "wf_ctype struct_sched_statistics" "unpacked struct_sched_statistics"
  by (simp_all add: struct_sched_statistics_def layout_eval ksize)

abbreviation struct_cpumask :: ctype where
  "struct_cpumask \<equiv> CStruct False [
     Member ''bits'' (CArray (CInt 8 False) 128) None]"

abbreviation typedef_cpumask_t :: ctype where
  "typedef_cpumask_t \<equiv> struct_cpumask"

definition union_rcu_special :: ctype where
  "union_rcu_special = CUnion False [
     Member ''b'' (CStruct False [
       Member ''blocked'' typedef_u8 None,
       Member ''need_qs'' typedef_u8 None,
       Member ''exp_hint'' typedef_u8 None,
       Member ''need_mb'' typedef_u8 None]) None,
     Member ''s'' typedef_u32 None]"

lemma union_rcu_special_layout [ksize]:
  "sizeof union_rcu_special = 4" "alignof union_rcu_special = 4" "wf_ctype union_rcu_special" "unpacked union_rcu_special"
  by (simp_all add: union_rcu_special_def layout_eval ksize)

abbreviation struct_sched_info :: ctype where
  "struct_sched_info \<equiv> CStruct False [
     Member ''pcount'' (CInt 8 False) None,
     Member ''run_delay'' (CInt 8 False) None,
     Member ''last_arrival'' (CInt 8 False) None,
     Member ''last_queued'' (CInt 8 False) None]"

abbreviation struct_plist_node :: ctype where
  "struct_plist_node \<equiv> CStruct False [
     Member ''prio'' (CInt 4 True) None,
     Member ''prio_list'' struct_list_head None,
     Member ''node_list'' struct_list_head None]"

abbreviation typedef___kernel_clockid_t :: ctype where
  "typedef___kernel_clockid_t \<equiv> CInt 4 True"

abbreviation typedef_clockid_t :: ctype where
  "typedef_clockid_t \<equiv> typedef___kernel_clockid_t"

definition struct_restart_block :: ctype where
  "struct_restart_block = CStruct False [
     Member ''arch_data'' (CInt 8 False) None,
     Member ''fn'' (CPtr ''fn'') None,
     Member '''' (CUnion False [
       Member ''futex'' (CStruct False [
         Member ''uaddr'' (CPtr ''u32'') None,
         Member ''val'' typedef_u32 None,
         Member ''flags'' typedef_u32 None,
         Member ''bitset'' typedef_u32 None,
         Member ''time'' typedef_u64 None,
         Member ''uaddr2'' (CPtr ''u32'') None]) None,
       Member ''nanosleep'' (CStruct False [
         Member ''clockid'' typedef_clockid_t None,
         Member ''type'' CEnum None,
         Member '''' (CUnion False [
           Member ''rmtp'' (CPtr ''struct __kernel_timespec'') None,
           Member ''compat_rmtp'' (CPtr ''struct old_timespec32'') None]) None,
         Member ''expires'' typedef_u64 None]) None,
       Member ''poll'' (CStruct False [
         Member ''ufds'' (CPtr ''struct pollfd'') None,
         Member ''nfds'' (CInt 4 True) None,
         Member ''has_timeout'' (CInt 4 True) None,
         Member ''tv_sec'' (CInt 8 False) None,
         Member ''tv_nsec'' (CInt 8 False) None]) None]) None]"

lemma struct_restart_block_layout [ksize]:
  "sizeof struct_restart_block = 56" "alignof struct_restart_block = 8" "wf_ctype struct_restart_block" "unpacked struct_restart_block"
  by (simp_all add: struct_restart_block_def layout_eval ksize)

abbreviation typedef___kernel_pid_t :: ctype where
  "typedef___kernel_pid_t \<equiv> CInt 4 True"

abbreviation typedef_pid_t :: ctype where
  "typedef_pid_t \<equiv> typedef___kernel_pid_t"

abbreviation struct_prev_cputime :: ctype where
  "struct_prev_cputime \<equiv> CStruct False [
     Member ''utime'' typedef_u64 None,
     Member ''stime'' typedef_u64 None,
     Member ''lock'' typedef_raw_spinlock_t None]"

definition struct_vtime :: ctype where
  "struct_vtime = CStruct False [
     Member ''seqcount'' typedef_seqcount_t None,
     Member ''starttime'' (CInt 8 False) None,
     Member ''state'' CEnum None,
     Member ''cpu'' (CInt 4 False) None,
     Member ''utime'' typedef_u64 None,
     Member ''stime'' typedef_u64 None,
     Member ''gtime'' typedef_u64 None]"

lemma struct_vtime_layout [ksize]:
  "sizeof struct_vtime = 48" "alignof struct_vtime = 8" "wf_ctype struct_vtime" "unpacked struct_vtime"
  by (simp_all add: struct_vtime_def layout_eval ksize)

abbreviation struct_rb_root_cached :: ctype where
  "struct_rb_root_cached \<equiv> CStruct False [
     Member ''rb_root'' struct_rb_root None,
     Member ''rb_leftmost'' (CPtr ''struct rb_node'') None]"

abbreviation struct_timerqueue_head :: ctype where
  "struct_timerqueue_head \<equiv> CStruct False [
     Member ''rb_root'' struct_rb_root_cached None]"

abbreviation struct_posix_cputimer_base :: ctype where
  "struct_posix_cputimer_base \<equiv> CStruct False [
     Member ''nextevt'' typedef_u64 None,
     Member ''tqhead'' struct_timerqueue_head None]"

abbreviation struct_posix_cputimers :: ctype where
  "struct_posix_cputimers \<equiv> CStruct False [
     Member ''bases'' (CArray struct_posix_cputimer_base 3) None,
     Member ''timers_active'' (CInt 4 False) None,
     Member ''expiry_active'' (CInt 4 False) None]"

abbreviation struct_posix_cputimers_work :: ctype where
  "struct_posix_cputimers_work \<equiv> CStruct False [
     Member ''work'' struct_callback_head None,
     Member ''mutex'' struct_mutex None,
     Member ''scheduled'' (CInt 4 False) None]"

abbreviation struct_sysv_sem :: ctype where
  "struct_sysv_sem \<equiv> CStruct False [
     Member ''undo_list'' (CPtr ''struct sem_undo_list'') None]"

abbreviation struct_sysv_shm :: ctype where
  "struct_sysv_shm \<equiv> CStruct False [
     Member ''shm_clist'' struct_list_head None]"

definition typedef_sigset_t :: ctype where
  "typedef_sigset_t = CStruct False [
     Member ''sig'' (CArray (CInt 8 False) 1) None]"

lemma typedef_sigset_t_layout [ksize]:
  "sizeof typedef_sigset_t = 8" "alignof typedef_sigset_t = 8" "wf_ctype typedef_sigset_t" "unpacked typedef_sigset_t"
  by (simp_all add: typedef_sigset_t_def layout_eval ksize)

abbreviation struct_sigpending :: ctype where
  "struct_sigpending \<equiv> CStruct False [
     Member ''list'' struct_list_head None,
     Member ''signal'' typedef_sigset_t None]"

abbreviation typedef___kernel_ulong_t :: ctype where
  "typedef___kernel_ulong_t \<equiv> CInt 8 False"

abbreviation typedef___kernel_size_t :: ctype where
  "typedef___kernel_size_t \<equiv> typedef___kernel_ulong_t"

abbreviation typedef_size_t :: ctype where
  "typedef_size_t \<equiv> typedef___kernel_size_t"

abbreviation struct_seccomp :: ctype where
  "struct_seccomp \<equiv> CStruct False [
     Member ''mode'' (CInt 4 True) None,
     Member ''filter_count'' typedef_atomic_t None,
     Member ''filter'' (CPtr ''struct seccomp_filter'') None]"

abbreviation struct_syscall_user_dispatch :: ctype where
  "struct_syscall_user_dispatch \<equiv> CStruct False [
     Member ''selector'' (CPtr ''char'') None,
     Member ''offset'' (CInt 8 False) None,
     Member ''len'' (CInt 8 False) None,
     Member ''on_dispatch'' typedef_bool None]"

abbreviation struct_wake_q_node :: ctype where
  "struct_wake_q_node \<equiv> CStruct False [
     Member ''next'' (CPtr ''struct wake_q_node'') None]"

definition struct_task_io_accounting :: ctype where
  "struct_task_io_accounting = CStruct False [
     Member ''rchar'' typedef_u64 None,
     Member ''wchar'' typedef_u64 None,
     Member ''syscr'' typedef_u64 None,
     Member ''syscw'' typedef_u64 None,
     Member ''read_bytes'' typedef_u64 None,
     Member ''write_bytes'' typedef_u64 None,
     Member ''cancelled_write_bytes'' typedef_u64 None]"

lemma struct_task_io_accounting_layout [ksize]:
  "sizeof struct_task_io_accounting = 56" "alignof struct_task_io_accounting = 8" "wf_ctype struct_task_io_accounting" "unpacked struct_task_io_accounting"
  by (simp_all add: struct_task_io_accounting_def layout_eval ksize)

abbreviation typedef_nodemask_t :: ctype where
  "typedef_nodemask_t \<equiv> CStruct False [
     Member ''bits'' (CArray (CInt 8 False) 16) None]"

abbreviation struct_seqcount_spinlock :: ctype where
  "struct_seqcount_spinlock \<equiv> CStruct False [
     Member ''seqcount'' typedef_seqcount_t None]"

abbreviation typedef_seqcount_spinlock_t :: ctype where
  "typedef_seqcount_spinlock_t \<equiv> struct_seqcount_spinlock"

abbreviation struct_arch_tlbflush_unmap_batch :: ctype where
  "struct_arch_tlbflush_unmap_batch \<equiv> CStruct False [
     Member ''cpumask'' struct_cpumask None]"

abbreviation struct_tlbflush_unmap_batch :: ctype where
  "struct_tlbflush_unmap_batch \<equiv> CStruct False [
     Member ''arch'' struct_arch_tlbflush_unmap_batch None,
     Member ''flush_required'' typedef_bool None,
     Member ''writable'' typedef_bool None]"

abbreviation struct_latency_record :: ctype where
  "struct_latency_record \<equiv> CStruct False [
     Member ''backtrace'' (CArray (CInt 8 False) 12) None,
     Member ''count'' (CInt 4 False) None,
     Member ''time'' (CInt 8 False) None,
     Member ''max'' (CInt 8 False) None]"

definition struct_kmap_ctrl :: ctype where
  "struct_kmap_ctrl = CStruct False []"

lemma struct_kmap_ctrl_layout [ksize]:
  "sizeof struct_kmap_ctrl = 0" "alignof struct_kmap_ctrl = 1" "wf_ctype struct_kmap_ctrl" "unpacked struct_kmap_ctrl"
  by (simp_all add: struct_kmap_ctrl_def layout_eval ksize)

abbreviation struct_llist_head :: ctype where
  "struct_llist_head \<equiv> CStruct False [
     Member ''first'' (CPtr ''struct llist_node'') None]"

abbreviation struct_da_monitor :: ctype where
  "struct_da_monitor \<equiv> CStruct False [
     Member ''monitoring'' typedef_bool None,
     Member ''curr_state'' (CInt 4 False) None]"

abbreviation union_rv_task_monitor :: ctype where
  "union_rv_task_monitor \<equiv> CUnion False [
     Member ''da_mon'' struct_da_monitor None]"

definition struct_desc_struct :: ctype where
  "struct_desc_struct = CStruct False [
     Member ''limit0'' typedef_u16 None,
     Member ''base0'' typedef_u16 None,
     Member ''base1'' typedef_u16 (Some 8),
     Member ''type'' typedef_u16 (Some 4),
     Member ''s'' typedef_u16 (Some 1),
     Member ''dpl'' typedef_u16 (Some 2),
     Member ''p'' typedef_u16 (Some 1),
     Member ''limit1'' typedef_u16 (Some 4),
     Member ''avl'' typedef_u16 (Some 1),
     Member ''l'' typedef_u16 (Some 1),
     Member ''d'' typedef_u16 (Some 1),
     Member ''g'' typedef_u16 (Some 1),
     Member ''base2'' typedef_u16 (Some 8)]"

lemma struct_desc_struct_layout [ksize]:
  "sizeof struct_desc_struct = 8" "alignof struct_desc_struct = 2" "wf_ctype struct_desc_struct" "unpacked struct_desc_struct"
  by (simp_all add: struct_desc_struct_def layout_eval ksize)

abbreviation struct_thread_shstk :: ctype where
  "struct_thread_shstk \<equiv> CStruct False [
     Member ''base'' typedef_u64 None,
     Member ''size'' typedef_u64 None]"

abbreviation struct_fpu_state_perm :: ctype where
  "struct_fpu_state_perm \<equiv> CStruct False [
     Member ''__state_perm'' typedef_u64 None,
     Member ''__state_size'' (CInt 4 False) None,
     Member ''__user_state_size'' (CInt 4 False) None]"

definition struct_fregs_state :: ctype where
  "struct_fregs_state = CStruct False [
     Member ''cwd'' typedef_u32 None,
     Member ''swd'' typedef_u32 None,
     Member ''twd'' typedef_u32 None,
     Member ''fip'' typedef_u32 None,
     Member ''fcs'' typedef_u32 None,
     Member ''foo'' typedef_u32 None,
     Member ''fos'' typedef_u32 None,
     Member ''st_space'' (CArray typedef_u32 20) None,
     Member ''status'' typedef_u32 None]"

lemma struct_fregs_state_layout [ksize]:
  "sizeof struct_fregs_state = 112" "alignof struct_fregs_state = 4" "wf_ctype struct_fregs_state" "unpacked struct_fregs_state"
  by (simp_all add: struct_fregs_state_def layout_eval ksize)

definition struct_fxregs_state :: ctype where
  "struct_fxregs_state = CStruct False [
     Member ''cwd'' typedef_u16 None,
     Member ''swd'' typedef_u16 None,
     Member ''twd'' typedef_u16 None,
     Member ''fop'' typedef_u16 None,
     Member '''' (CUnion False [
       Member '''' (CStruct False [
         Member ''rip'' typedef_u64 None,
         Member ''rdp'' typedef_u64 None]) None,
       Member '''' (CStruct False [
         Member ''fip'' typedef_u32 None,
         Member ''fcs'' typedef_u32 None,
         Member ''foo'' typedef_u32 None,
         Member ''fos'' typedef_u32 None]) None]) None,
     Member ''mxcsr'' typedef_u32 None,
     Member ''mxcsr_mask'' typedef_u32 None,
     Member ''st_space'' (CArray typedef_u32 32) None,
     Member ''xmm_space'' (CArray typedef_u32 64) None,
     Member ''padding'' (CArray typedef_u32 12) None,
     Member '''' (CUnion False [
       Member ''padding1'' (CArray typedef_u32 12) None,
       Member ''sw_reserved'' (CArray typedef_u32 12) None]) None]"

lemma struct_fxregs_state_layout [ksize]:
  "sizeof struct_fxregs_state = 512" "alignof struct_fxregs_state = 8" "wf_ctype struct_fxregs_state" "unpacked struct_fxregs_state"
  by (simp_all add: struct_fxregs_state_def layout_eval ksize)

definition struct_swregs_state :: ctype where
  "struct_swregs_state = CStruct False [
     Member ''cwd'' typedef_u32 None,
     Member ''swd'' typedef_u32 None,
     Member ''twd'' typedef_u32 None,
     Member ''fip'' typedef_u32 None,
     Member ''fcs'' typedef_u32 None,
     Member ''foo'' typedef_u32 None,
     Member ''fos'' typedef_u32 None,
     Member ''st_space'' (CArray typedef_u32 20) None,
     Member ''ftop'' typedef_u8 None,
     Member ''changed'' typedef_u8 None,
     Member ''lookahead'' typedef_u8 None,
     Member ''no_update'' typedef_u8 None,
     Member ''rm'' typedef_u8 None,
     Member ''alimit'' typedef_u8 None,
     Member ''info'' (CPtr ''struct math_emu_info'') None,
     Member ''entry_eip'' typedef_u32 None]"

lemma struct_swregs_state_layout [ksize]:
  "sizeof struct_swregs_state = 136" "alignof struct_swregs_state = 8" "wf_ctype struct_swregs_state" "unpacked struct_swregs_state"
  by (simp_all add: struct_swregs_state_def layout_eval ksize)

abbreviation struct_xstate_header :: ctype where
  "struct_xstate_header \<equiv> CStruct False [
     Member ''xfeatures'' typedef_u64 None,
     Member ''xcomp_bv'' typedef_u64 None,
     Member ''reserved'' (CArray typedef_u64 6) None]"

abbreviation struct_xregs_state :: ctype where
  "struct_xregs_state \<equiv> CStruct False [
     Member ''i387'' struct_fxregs_state None,
     Member ''header'' struct_xstate_header None,
     Member ''extended_state_area'' (CArray typedef_u8 0) None]"

abbreviation union_fpregs_state :: ctype where
  "union_fpregs_state \<equiv> CUnion False [
     Member ''fsave'' struct_fregs_state None,
     Member ''fxsave'' struct_fxregs_state None,
     Member ''soft'' struct_swregs_state None,
     Member ''xsave'' struct_xregs_state None,
     Member ''__padding'' (CArray typedef_u8 4096) None]"

definition struct_fpstate :: ctype where
  "struct_fpstate = CStruct False [
     Member ''size'' (CInt 4 False) None,
     Member ''user_size'' (CInt 4 False) None,
     Member ''xfeatures'' typedef_u64 None,
     Member ''user_xfeatures'' typedef_u64 None,
     Member ''xfd'' typedef_u64 None,
     Member ''is_valloc'' (CInt 4 False) (Some 1),
     Member ''is_guest'' (CInt 4 False) (Some 1),
     Member ''is_confidential'' (CInt 4 False) (Some 1),
     Member ''in_use'' (CInt 4 False) (Some 1),
     Member '''' (CInt 8 True) (Some 64),
     Member '''' (CInt 8 True) (Some 64),
     Member '''' (CInt 8 True) (Some 64),
     Member ''regs'' union_fpregs_state None]"

lemma struct_fpstate_layout [ksize]:
  "sizeof struct_fpstate = 4160" "alignof struct_fpstate = 8" "wf_ctype struct_fpstate" "unpacked struct_fpstate"
  by (simp_all add: struct_fpstate_def layout_eval ksize)

definition struct_fpu :: ctype where
  "struct_fpu = CStruct False [
     Member ''last_cpu'' (CInt 4 False) None,
     Member ''avx512_timestamp'' (CInt 8 False) None,
     Member ''fpstate'' (CPtr ''struct fpstate'') None,
     Member ''__task_fpstate'' (CPtr ''struct fpstate'') None,
     Member ''perm'' struct_fpu_state_perm None,
     Member ''guest_perm'' struct_fpu_state_perm None,
     Member ''__fpstate'' struct_fpstate None]"

lemma struct_fpu_layout [ksize]:
  "sizeof struct_fpu = 4224" "alignof struct_fpu = 8" "wf_ctype struct_fpu" "unpacked struct_fpu"
  by (simp_all add: struct_fpu_def layout_eval ksize)

definition struct_thread_struct :: ctype where
  "struct_thread_struct = CStruct False [
     Member ''tls_array'' (CArray struct_desc_struct 3) None,
     Member ''sp'' (CInt 8 False) None,
     Member ''es'' (CInt 2 False) None,
     Member ''ds'' (CInt 2 False) None,
     Member ''fsindex'' (CInt 2 False) None,
     Member ''gsindex'' (CInt 2 False) None,
     Member ''fsbase'' (CInt 8 False) None,
     Member ''gsbase'' (CInt 8 False) None,
     Member ''ptrace_bps'' (CArray (CPtr ''struct perf_event'') 4) None,
     Member ''virtual_dr6'' (CInt 8 False) None,
     Member ''ptrace_dr7'' (CInt 8 False) None,
     Member ''cr2'' (CInt 8 False) None,
     Member ''trap_nr'' (CInt 8 False) None,
     Member ''error_code'' (CInt 8 False) None,
     Member ''io_bitmap'' (CPtr ''struct io_bitmap'') None,
     Member ''iopl_emul'' (CInt 8 False) None,
     Member ''iopl_warn'' (CInt 4 False) (Some 1),
     Member ''pkru'' typedef_u32 None,
     Member ''features'' (CInt 8 False) None,
     Member ''features_locked'' (CInt 8 False) None,
     Member ''shstk'' struct_thread_shstk None,
     Member '''' (CInt 8 True) (Some 64),
     Member ''fpu'' struct_fpu None]"

lemma struct_thread_struct_layout [ksize]:
  "sizeof struct_thread_struct = 4416" "alignof struct_thread_struct = 8" "wf_ctype struct_thread_struct" "unpacked struct_thread_struct"
  by (simp_all add: struct_thread_struct_def layout_eval ksize)

definition struct_task_struct :: ctype where
  "struct_task_struct = CStruct False [
     Member ''thread_info'' struct_thread_info None,
     Member ''__state'' (CInt 4 False) None,
     Member ''saved_state'' (CInt 4 False) None,
     Member ''stack'' (CPtr ''void'') None,
     Member ''usage'' typedef_refcount_t None,
     Member ''flags'' (CInt 4 False) None,
     Member ''ptrace'' (CInt 4 False) None,
     Member ''on_cpu'' (CInt 4 True) None,
     Member ''wake_entry'' struct___call_single_node None,
     Member ''wakee_flips'' (CInt 4 False) None,
     Member ''wakee_flip_decay_ts'' (CInt 8 False) None,
     Member ''last_wakee'' (CPtr ''struct task_struct'') None,
     Member ''recent_used_cpu'' (CInt 4 True) None,
     Member ''wake_cpu'' (CInt 4 True) None,
     Member ''on_rq'' (CInt 4 True) None,
     Member ''prio'' (CInt 4 True) None,
     Member ''static_prio'' (CInt 4 True) None,
     Member ''normal_prio'' (CInt 4 True) None,
     Member ''rt_priority'' (CInt 4 False) None,
     Member ''se'' struct_sched_entity None,
     Member ''rt'' struct_sched_rt_entity None,
     Member ''dl'' struct_sched_dl_entity None,
     Member ''dl_server'' (CPtr ''struct sched_dl_entity'') None,
     Member ''sched_class'' (CPtr ''struct sched_class'') None,
     Member ''core_node'' struct_rb_node None,
     Member ''core_cookie'' (CInt 8 False) None,
     Member ''core_occupation'' (CInt 4 False) None,
     Member ''sched_task_group'' (CPtr ''struct task_group'') None,
     Member ''uclamp_req'' (CArray struct_uclamp_se 2) None,
     Member ''uclamp'' (CArray struct_uclamp_se 2) None,
     Member '''' (CInt 8 True) (Some 64),
     Member ''stats'' struct_sched_statistics None,
     Member ''preempt_notifiers'' struct_hlist_head None,
     Member ''btrace_seq'' (CInt 4 False) None,
     Member ''policy'' (CInt 4 False) None,
     Member ''nr_cpus_allowed'' (CInt 4 True) None,
     Member ''cpus_ptr'' (CPtr ''cpumask_t'') None,
     Member ''user_cpus_ptr'' (CPtr ''cpumask_t'') None,
     Member ''cpus_mask'' typedef_cpumask_t None,
     Member ''migration_pending'' (CPtr ''void'') None,
     Member ''migration_disabled'' (CInt 2 False) None,
     Member ''migration_flags'' (CInt 2 False) None,
     Member ''rcu_read_lock_nesting'' (CInt 4 True) None,
     Member ''rcu_read_unlock_special'' union_rcu_special None,
     Member ''rcu_node_entry'' struct_list_head None,
     Member ''rcu_blocked_node'' (CPtr ''struct rcu_node'') None,
     Member ''rcu_tasks_nvcsw'' (CInt 8 False) None,
     Member ''rcu_tasks_holdout'' typedef_u8 None,
     Member ''rcu_tasks_idx'' typedef_u8 None,
     Member ''rcu_tasks_idle_cpu'' (CInt 4 True) None,
     Member ''rcu_tasks_holdout_list'' struct_list_head None,
     Member ''rcu_tasks_exit_cpu'' (CInt 4 True) None,
     Member ''rcu_tasks_exit_list'' struct_list_head None,
     Member ''trc_reader_nesting'' (CInt 4 True) None,
     Member ''trc_ipi_to_cpu'' (CInt 4 True) None,
     Member ''trc_reader_special'' union_rcu_special None,
     Member ''trc_holdout_list'' struct_list_head None,
     Member ''trc_blkd_node'' struct_list_head None,
     Member ''trc_blkd_cpu'' (CInt 4 True) None,
     Member ''sched_info'' struct_sched_info None,
     Member ''tasks'' struct_list_head None,
     Member ''pushable_tasks'' struct_plist_node None,
     Member ''pushable_dl_tasks'' struct_rb_node None,
     Member ''mm'' (CPtr ''struct mm_struct'') None,
     Member ''active_mm'' (CPtr ''struct mm_struct'') None,
     Member ''faults_disabled_mapping'' (CPtr ''struct address_space'') None,
     Member ''exit_state'' (CInt 4 True) None,
     Member ''exit_code'' (CInt 4 True) None,
     Member ''exit_signal'' (CInt 4 True) None,
     Member ''pdeath_signal'' (CInt 4 True) None,
     Member ''jobctl'' (CInt 8 False) None,
     Member ''personality'' (CInt 4 False) None,
     Member ''sched_reset_on_fork'' (CInt 4 False) (Some 1),
     Member ''sched_contributes_to_load'' (CInt 4 False) (Some 1),
     Member ''sched_migrated'' (CInt 4 False) (Some 1),
     Member ''sched_task_hot'' (CInt 4 False) (Some 1),
     Member '''' (CInt 8 True) (Some 28),
     Member ''sched_remote_wakeup'' (CInt 4 False) (Some 1),
     Member ''sched_rt_mutex'' (CInt 4 False) (Some 1),
     Member ''in_execve'' (CInt 4 False) (Some 1),
     Member ''in_iowait'' (CInt 4 False) (Some 1),
     Member ''restore_sigmask'' (CInt 4 False) (Some 1),
     Member ''in_user_fault'' (CInt 4 False) (Some 1),
     Member ''in_lru_fault'' (CInt 4 False) (Some 1),
     Member ''no_cgroup_migration'' (CInt 4 False) (Some 1),
     Member ''frozen'' (CInt 4 False) (Some 1),
     Member ''use_memdelay'' (CInt 4 False) (Some 1),
     Member ''in_memstall'' (CInt 4 False) (Some 1),
     Member ''in_eventfd'' (CInt 4 False) (Some 1),
     Member ''pasid_activated'' (CInt 4 False) (Some 1),
     Member ''reported_split_lock'' (CInt 4 False) (Some 1),
     Member ''in_thrashing'' (CInt 4 False) (Some 1),
     Member ''atomic_flags'' (CInt 8 False) None,
     Member ''restart_block'' struct_restart_block None,
     Member ''pid'' typedef_pid_t None,
     Member ''tgid'' typedef_pid_t None,
     Member ''stack_canary'' (CInt 8 False) None,
     Member ''real_parent'' (CPtr ''struct task_struct'') None,
     Member ''parent'' (CPtr ''struct task_struct'') None,
     Member ''children'' struct_list_head None,
     Member ''sibling'' struct_list_head None,
     Member ''group_leader'' (CPtr ''struct task_struct'') None,
     Member ''ptraced'' struct_list_head None,
     Member ''ptrace_entry'' struct_list_head None,
     Member ''thread_pid'' (CPtr ''struct pid'') None,
     Member ''pid_links'' (CArray struct_hlist_node 4) None,
     Member ''thread_node'' struct_list_head None,
     Member ''vfork_done'' (CPtr ''struct completion'') None,
     Member ''set_child_tid'' (CPtr ''int'') None,
     Member ''clear_child_tid'' (CPtr ''int'') None,
     Member ''worker_private'' (CPtr ''void'') None,
     Member ''utime'' typedef_u64 None,
     Member ''stime'' typedef_u64 None,
     Member ''gtime'' typedef_u64 None,
     Member ''prev_cputime'' struct_prev_cputime None,
     Member ''vtime'' struct_vtime None,
     Member ''tick_dep_mask'' typedef_atomic_t None,
     Member ''nvcsw'' (CInt 8 False) None,
     Member ''nivcsw'' (CInt 8 False) None,
     Member ''start_time'' typedef_u64 None,
     Member ''start_boottime'' typedef_u64 None,
     Member ''min_flt'' (CInt 8 False) None,
     Member ''maj_flt'' (CInt 8 False) None,
     Member ''posix_cputimers'' struct_posix_cputimers None,
     Member ''posix_cputimers_work'' struct_posix_cputimers_work None,
     Member ''ptracer_cred'' (CPtr ''struct cred'') None,
     Member ''real_cred'' (CPtr ''struct cred'') None,
     Member ''cred'' (CPtr ''struct cred'') None,
     Member ''cached_requested_key'' (CPtr ''struct key'') None,
     Member ''comm'' (CArray (CInt 1 True) 16) None,
     Member ''nameidata'' (CPtr ''struct nameidata'') None,
     Member ''sysvsem'' struct_sysv_sem None,
     Member ''sysvshm'' struct_sysv_shm None,
     Member ''last_switch_count'' (CInt 8 False) None,
     Member ''last_switch_time'' (CInt 8 False) None,
     Member ''fs'' (CPtr ''struct fs_struct'') None,
     Member ''files'' (CPtr ''struct files_struct'') None,
     Member ''io_uring'' (CPtr ''struct io_uring_task'') None,
     Member ''nsproxy'' (CPtr ''struct nsproxy'') None,
     Member ''signal'' (CPtr ''struct signal_struct'') None,
     Member ''sighand'' (CPtr ''struct sighand_struct'') None,
     Member ''blocked'' typedef_sigset_t None,
     Member ''real_blocked'' typedef_sigset_t None,
     Member ''saved_sigmask'' typedef_sigset_t None,
     Member ''pending'' struct_sigpending None,
     Member ''sas_ss_sp'' (CInt 8 False) None,
     Member ''sas_ss_size'' typedef_size_t None,
     Member ''sas_ss_flags'' (CInt 4 False) None,
     Member ''task_works'' (CPtr ''struct callback_head'') None,
     Member ''audit_context'' (CPtr ''struct audit_context'') None,
     Member ''loginuid'' typedef_kuid_t None,
     Member ''sessionid'' (CInt 4 False) None,
     Member ''seccomp'' struct_seccomp None,
     Member ''syscall_dispatch'' struct_syscall_user_dispatch None,
     Member ''parent_exec_id'' typedef_u64 None,
     Member ''self_exec_id'' typedef_u64 None,
     Member ''alloc_lock'' typedef_spinlock_t None,
     Member ''pi_lock'' typedef_raw_spinlock_t None,
     Member ''wake_q'' struct_wake_q_node None,
     Member ''pi_waiters'' struct_rb_root_cached None,
     Member ''pi_top_task'' (CPtr ''struct task_struct'') None,
     Member ''pi_blocked_on'' (CPtr ''struct rt_mutex_waiter'') None,
     Member ''in_ubsan'' (CInt 4 False) None,
     Member ''journal_info'' (CPtr ''void'') None,
     Member ''bio_list'' (CPtr ''struct bio_list'') None,
     Member ''plug'' (CPtr ''struct blk_plug'') None,
     Member ''reclaim_state'' (CPtr ''struct reclaim_state'') None,
     Member ''io_context'' (CPtr ''struct io_context'') None,
     Member ''capture_control'' (CPtr ''struct capture_control'') None,
     Member ''ptrace_message'' (CInt 8 False) None,
     Member ''last_siginfo'' (CPtr ''kernel_siginfo_t'') None,
     Member ''ioac'' struct_task_io_accounting None,
     Member ''psi_flags'' (CInt 4 False) None,
     Member ''acct_rss_mem1'' typedef_u64 None,
     Member ''acct_vm_mem1'' typedef_u64 None,
     Member ''acct_timexpd'' typedef_u64 None,
     Member ''mems_allowed'' typedef_nodemask_t None,
     Member ''mems_allowed_seq'' typedef_seqcount_spinlock_t None,
     Member ''cpuset_mem_spread_rotor'' (CInt 4 True) None,
     Member ''cpuset_slab_spread_rotor'' (CInt 4 True) None,
     Member ''cgroups'' (CPtr ''struct css_set'') None,
     Member ''cg_list'' struct_list_head None,
     Member ''closid'' typedef_u32 None,
     Member ''rmid'' typedef_u32 None,
     Member ''robust_list'' (CPtr ''struct robust_list_head'') None,
     Member ''compat_robust_list'' (CPtr ''struct compat_robust_list_head'') None,
     Member ''pi_state_list'' struct_list_head None,
     Member ''pi_state_cache'' (CPtr ''struct futex_pi_state'') None,
     Member ''futex_exit_mutex'' struct_mutex None,
     Member ''futex_state'' (CInt 4 False) None,
     Member ''perf_event_ctxp'' (CPtr ''struct perf_event_context'') None,
     Member ''perf_event_mutex'' struct_mutex None,
     Member ''perf_event_list'' struct_list_head None,
     Member ''mempolicy'' (CPtr ''struct mempolicy'') None,
     Member ''il_prev'' (CInt 2 True) None,
     Member ''pref_node_fork'' (CInt 2 True) None,
     Member ''numa_scan_seq'' (CInt 4 True) None,
     Member ''numa_scan_period'' (CInt 4 False) None,
     Member ''numa_scan_period_max'' (CInt 4 False) None,
     Member ''numa_preferred_nid'' (CInt 4 True) None,
     Member ''numa_migrate_retry'' (CInt 8 False) None,
     Member ''node_stamp'' typedef_u64 None,
     Member ''last_task_numa_placement'' typedef_u64 None,
     Member ''last_sum_exec_runtime'' typedef_u64 None,
     Member ''numa_work'' struct_callback_head None,
     Member ''numa_group'' (CPtr ''struct numa_group'') None,
     Member ''numa_faults'' (CPtr ''long unsigned int'') None,
     Member ''total_numa_faults'' (CInt 8 False) None,
     Member ''numa_faults_locality'' (CArray (CInt 8 False) 3) None,
     Member ''numa_pages_migrated'' (CInt 8 False) None,
     Member ''rseq'' (CPtr ''struct rseq'') None,
     Member ''rseq_len'' typedef_u32 None,
     Member ''rseq_sig'' typedef_u32 None,
     Member ''rseq_event_mask'' (CInt 8 False) None,
     Member ''mm_cid'' (CInt 4 True) None,
     Member ''last_mm_cid'' (CInt 4 True) None,
     Member ''migrate_from_cpu'' (CInt 4 True) None,
     Member ''mm_cid_active'' (CInt 4 True) None,
     Member ''cid_work'' struct_callback_head None,
     Member ''tlb_ubc'' struct_tlbflush_unmap_batch None,
     Member ''splice_pipe'' (CPtr ''struct pipe_inode_info'') None,
     Member ''task_frag'' struct_page_frag None,
     Member ''delays'' (CPtr ''struct task_delay_info'') None,
     Member ''nr_dirtied'' (CInt 4 True) None,
     Member ''nr_dirtied_pause'' (CInt 4 True) None,
     Member ''dirty_paused_when'' (CInt 8 False) None,
     Member ''latency_record_count'' (CInt 4 True) None,
     Member ''latency_record'' (CArray struct_latency_record 32) None,
     Member ''timer_slack_ns'' typedef_u64 None,
     Member ''default_timer_slack_ns'' typedef_u64 None,
     Member ''curr_ret_stack'' (CInt 4 True) None,
     Member ''curr_ret_depth'' (CInt 4 True) None,
     Member ''ret_stack'' (CPtr ''struct ftrace_ret_stack'') None,
     Member ''ftrace_timestamp'' (CInt 8 False) None,
     Member ''trace_overrun'' typedef_atomic_t None,
     Member ''tracing_graph_pause'' typedef_atomic_t None,
     Member ''trace_recursion'' (CInt 8 False) None,
     Member ''memcg_in_oom'' (CPtr ''struct mem_cgroup'') None,
     Member ''memcg_oom_gfp_mask'' typedef_gfp_t None,
     Member ''memcg_oom_order'' (CInt 4 True) None,
     Member ''memcg_nr_pages_over_high'' (CInt 4 False) None,
     Member ''active_memcg'' (CPtr ''struct mem_cgroup'') None,
     Member ''objcg'' (CPtr ''struct obj_cgroup'') None,
     Member ''throttle_disk'' (CPtr ''struct gendisk'') None,
     Member ''utask'' (CPtr ''struct uprobe_task'') None,
     Member ''sequential_io'' (CInt 4 False) None,
     Member ''sequential_io_avg'' (CInt 4 False) None,
     Member ''kmap_ctrl'' struct_kmap_ctrl None,
     Member ''rcu'' struct_callback_head None,
     Member ''rcu_users'' typedef_refcount_t None,
     Member ''pagefault_disabled'' (CInt 4 True) None,
     Member ''oom_reaper_list'' (CPtr ''struct task_struct'') None,
     Member ''oom_reaper_timer'' struct_timer_list None,
     Member ''stack_vm_area'' (CPtr ''struct vm_struct'') None,
     Member ''stack_refcount'' typedef_refcount_t None,
     Member ''patch_state'' (CInt 4 True) None,
     Member ''security'' (CPtr ''void'') None,
     Member ''bpf_storage'' (CPtr ''struct bpf_local_storage'') None,
     Member ''bpf_ctx'' (CPtr ''struct bpf_run_ctx'') None,
     Member ''mce_vaddr'' (CPtr ''void'') None,
     Member ''mce_kflags'' typedef___u64 None,
     Member ''mce_addr'' typedef_u64 None,
     Member ''mce_ripv'' typedef___u64 (Some 1),
     Member ''mce_whole_page'' typedef___u64 (Some 1),
     Member ''__mce_reserved'' typedef___u64 (Some 62),
     Member ''mce_kill_me'' struct_callback_head None,
     Member ''mce_count'' (CInt 4 True) None,
     Member ''kretprobe_instances'' struct_llist_head None,
     Member ''rethooks'' struct_llist_head None,
     Member ''l1d_flush_kill'' struct_callback_head None,
     Member ''rv'' (CArray union_rv_task_monitor 1) None,
     Member ''user_event_mm'' (CPtr ''struct user_event_mm'') None,
     Member ''thread'' struct_thread_struct None]"

lemma struct_task_struct_layout [ksize]:
  "sizeof struct_task_struct = 13696" "alignof struct_task_struct = 8" "wf_ctype struct_task_struct" "unpacked struct_task_struct"
  by (simp_all add: struct_task_struct_def layout_eval ksize)

end
