(* ===== verification/Kernel_Net.thy ===== *)
theory Kernel_Net
  imports Kernel_Task
begin

text \<open>
  Types of the kernel header \<open>src/agent/ebpf/bpf/vmlinux.h\<close>:
  the network namespace \<open>struct net\<close> that \<open>skc_net\<close> points to,
  \<open>struct inet_timewait_death_row\<close> and \<open>struct net_device\<close>.
  One definition per declaration, member by member in the order of the header, and one lemma per
  definition with what the layout of \<open>CLayout\<close> computes for it; small declarations that
  are used in few places are abbreviations.
\<close>

abbreviation struct_xarray :: ctype where
  "struct_xarray \<equiv> CStruct False [
     Member ''xa_lock'' typedef_spinlock_t None,
     Member ''xa_flags'' typedef_gfp_t None,
     Member ''xa_head'' (CPtr ''void'') None]"

abbreviation struct_idr :: ctype where
  "struct_idr \<equiv> CStruct False [
     Member ''idr_rt'' struct_xarray None,
     Member ''idr_base'' (CInt 4 False) None,
     Member ''idr_next'' (CInt 4 False) None]"

abbreviation struct_ns_common :: ctype where
  "struct_ns_common \<equiv> CStruct False [
     Member ''stashed'' typedef_atomic_long_t None,
     Member ''ops'' (CPtr ''struct proc_ns_operations'') None,
     Member ''inum'' (CInt 4 False) None,
     Member ''count'' typedef_refcount_t None]"

definition struct_ref_tracker_dir :: ctype where
  "struct_ref_tracker_dir = CStruct False []"

lemma struct_ref_tracker_dir_layout [ksize]:
  "sizeof struct_ref_tracker_dir = 0" "alignof struct_ref_tracker_dir = 1" "wf_ctype struct_ref_tracker_dir" "unpacked struct_ref_tracker_dir"
  by (simp_all add: struct_ref_tracker_dir_def layout_eval ksize)

definition struct_ctl_table_header :: ctype where
  "struct_ctl_table_header = CStruct False [
     Member '''' (CUnion False [
       Member '''' (CStruct False [
         Member ''ctl_table'' (CPtr ''struct ctl_table'') None,
         Member ''ctl_table_size'' (CInt 4 True) None,
         Member ''used'' (CInt 4 True) None,
         Member ''count'' (CInt 4 True) None,
         Member ''nreg'' (CInt 4 True) None]) None,
       Member ''rcu'' struct_callback_head None]) None,
     Member ''unregistering'' (CPtr ''struct completion'') None,
     Member ''ctl_table_arg'' (CPtr ''struct ctl_table'') None,
     Member ''root'' (CPtr ''struct ctl_table_root'') None,
     Member ''set'' (CPtr ''struct ctl_table_set'') None,
     Member ''parent'' (CPtr ''struct ctl_dir'') None,
     Member ''node'' (CPtr ''struct ctl_node'') None,
     Member ''inodes'' struct_hlist_head None]"

lemma struct_ctl_table_header_layout [ksize]:
  "sizeof struct_ctl_table_header = 80" "alignof struct_ctl_table_header = 8" "wf_ctype struct_ctl_table_header" "unpacked struct_ctl_table_header"
  by (simp_all add: struct_ctl_table_header_def layout_eval ksize)

abbreviation struct_ctl_dir :: ctype where
  "struct_ctl_dir \<equiv> CStruct False [
     Member ''header'' struct_ctl_table_header None,
     Member ''root'' struct_rb_root None]"

abbreviation struct_ctl_table_set :: ctype where
  "struct_ctl_table_set \<equiv> CStruct False [
     Member ''is_seen'' (CPtr ''fn'') None,
     Member ''dir'' struct_ctl_dir None]"

abbreviation struct_raw_notifier_head :: ctype where
  "struct_raw_notifier_head \<equiv> CStruct False [
     Member ''head'' (CPtr ''struct notifier_block'') None]"

definition struct_netns_core :: ctype where
  "struct_netns_core = CStruct False [
     Member ''sysctl_hdr'' (CPtr ''struct ctl_table_header'') None,
     Member ''sysctl_somaxconn'' (CInt 4 True) None,
     Member ''sysctl_optmem_max'' (CInt 4 True) None,
     Member ''sysctl_txrehash'' typedef_u8 None,
     Member ''prot_inuse'' (CPtr ''struct prot_inuse'') None,
     Member ''rps_default_mask'' (CPtr ''struct cpumask'') None]"

lemma struct_netns_core_layout [ksize]:
  "sizeof struct_netns_core = 40" "alignof struct_netns_core = 8" "wf_ctype struct_netns_core" "unpacked struct_netns_core"
  by (simp_all add: struct_netns_core_def layout_eval ksize)

definition struct_netns_mib :: ctype where
  "struct_netns_mib = CStruct False [
     Member ''ip_statistics'' (CPtr ''struct ipstats_mib'') None,
     Member ''ipv6_statistics'' (CPtr ''struct ipstats_mib'') None,
     Member ''tcp_statistics'' (CPtr ''struct tcp_mib'') None,
     Member ''net_statistics'' (CPtr ''struct linux_mib'') None,
     Member ''udp_statistics'' (CPtr ''struct udp_mib'') None,
     Member ''udp_stats_in6'' (CPtr ''struct udp_mib'') None,
     Member ''xfrm_statistics'' (CPtr ''struct linux_xfrm_mib'') None,
     Member ''tls_statistics'' (CPtr ''struct linux_tls_mib'') None,
     Member ''mptcp_statistics'' (CPtr ''struct mptcp_mib'') None,
     Member ''udplite_statistics'' (CPtr ''struct udp_mib'') None,
     Member ''udplite_stats_in6'' (CPtr ''struct udp_mib'') None,
     Member ''icmp_statistics'' (CPtr ''struct icmp_mib'') None,
     Member ''icmpmsg_statistics'' (CPtr ''struct icmpmsg_mib'') None,
     Member ''icmpv6_statistics'' (CPtr ''struct icmpv6_mib'') None,
     Member ''icmpv6msg_statistics'' (CPtr ''struct icmpv6msg_mib'') None,
     Member ''proc_net_devsnmp6'' (CPtr ''struct proc_dir_entry'') None]"

lemma struct_netns_mib_layout [ksize]:
  "sizeof struct_netns_mib = 128" "alignof struct_netns_mib = 8" "wf_ctype struct_netns_mib" "unpacked struct_netns_mib"
  by (simp_all add: struct_netns_mib_def layout_eval ksize)

abbreviation struct_netns_packet :: ctype where
  "struct_netns_packet \<equiv> CStruct False [
     Member ''sklist_lock'' struct_mutex None,
     Member ''sklist'' struct_hlist_head None]"

abbreviation struct_unix_table :: ctype where
  "struct_unix_table \<equiv> CStruct False [
     Member ''locks'' (CPtr ''spinlock_t'') None,
     Member ''buckets'' (CPtr ''struct hlist_head'') None]"

abbreviation struct_netns_unix :: ctype where
  "struct_netns_unix \<equiv> CStruct False [
     Member ''table'' struct_unix_table None,
     Member ''sysctl_max_dgram_qlen'' (CInt 4 True) None,
     Member ''ctl'' (CPtr ''struct ctl_table_header'') None]"

abbreviation struct_rw_semaphore :: ctype where
  "struct_rw_semaphore \<equiv> CStruct False [
     Member ''count'' typedef_atomic_long_t None,
     Member ''owner'' typedef_atomic_long_t None,
     Member ''osq'' struct_optimistic_spin_queue None,
     Member ''wait_lock'' typedef_raw_spinlock_t None,
     Member ''wait_list'' struct_list_head None]"

abbreviation struct_blocking_notifier_head :: ctype where
  "struct_blocking_notifier_head \<equiv> CStruct False [
     Member ''rwsem'' struct_rw_semaphore None,
     Member ''head'' (CPtr ''struct notifier_block'') None]"

abbreviation struct_netns_nexthop :: ctype where
  "struct_netns_nexthop \<equiv> CStruct False [
     Member ''rb_root'' struct_rb_root None,
     Member ''devhash'' (CPtr ''struct hlist_head'') None,
     Member ''seq'' (CInt 4 False) None,
     Member ''last_id_allocated'' typedef_u32 None,
     Member ''notifier_chain'' struct_blocking_notifier_head None]"

definition struct_inet_timewait_death_row :: ctype where
  "struct_inet_timewait_death_row = CStruct False [
     Member ''tw_refcount'' typedef_refcount_t None,
     Member '''' (CInt 8 True) (Some 64),
     Member '''' (CInt 8 True) (Some 64),
     Member '''' (CInt 8 True) (Some 64),
     Member '''' (CInt 8 True) (Some 64),
     Member '''' (CInt 8 True) (Some 64),
     Member '''' (CInt 8 True) (Some 64),
     Member '''' (CInt 8 True) (Some 64),
     Member ''hashinfo'' (CPtr ''struct inet_hashinfo'') None,
     Member ''sysctl_max_tw_buckets'' (CInt 4 True) None,
     Member '''' (CInt 8 True) (Some 64),
     Member '''' (CInt 8 True) (Some 64),
     Member '''' (CInt 8 True) (Some 64),
     Member '''' (CInt 8 True) (Some 64),
     Member '''' (CInt 8 True) (Some 64),
     Member '''' (CInt 8 True) (Some 64)]"

lemma struct_inet_timewait_death_row_layout [ksize]:
  "sizeof struct_inet_timewait_death_row = 128" "alignof struct_inet_timewait_death_row = 8" "wf_ctype struct_inet_timewait_death_row" "unpacked struct_inet_timewait_death_row"
  by (simp_all add: struct_inet_timewait_death_row_def layout_eval ksize)

abbreviation struct_local_ports :: ctype where
  "struct_local_ports \<equiv> CStruct False [
     Member ''range'' typedef_u32 None,
     Member ''warned'' typedef_bool None]"

abbreviation typedef_seqlock_t :: ctype where
  "typedef_seqlock_t \<equiv> CStruct False [
     Member ''seqcount'' typedef_seqcount_spinlock_t None,
     Member ''lock'' typedef_spinlock_t None]"

abbreviation struct_ping_group_range :: ctype where
  "struct_ping_group_range \<equiv> CStruct False [
     Member ''lock'' typedef_seqlock_t None,
     Member ''range'' (CArray typedef_kgid_t 2) None]"

abbreviation typedef_siphash_key_t :: ctype where
  "typedef_siphash_key_t \<equiv> CStruct False [
     Member ''key'' (CArray typedef_u64 2) None]"

definition struct_netns_ipv4 :: ctype where
  "struct_netns_ipv4 = CStruct False [
     Member ''__cacheline_group_begin__netns_ipv4_read_tx'' (CArray typedef___u8 0) None,
     Member ''sysctl_tcp_early_retrans'' typedef_u8 None,
     Member ''sysctl_tcp_tso_win_divisor'' typedef_u8 None,
     Member ''sysctl_tcp_tso_rtt_log'' typedef_u8 None,
     Member ''sysctl_tcp_autocorking'' typedef_u8 None,
     Member ''sysctl_tcp_min_snd_mss'' (CInt 4 True) None,
     Member ''sysctl_tcp_notsent_lowat'' (CInt 4 False) None,
     Member ''sysctl_tcp_limit_output_bytes'' (CInt 4 True) None,
     Member ''sysctl_tcp_min_rtt_wlen'' (CInt 4 True) None,
     Member ''sysctl_tcp_wmem'' (CArray (CInt 4 True) 3) None,
     Member ''sysctl_ip_fwd_use_pmtu'' typedef_u8 None,
     Member ''__cacheline_group_end__netns_ipv4_read_tx'' (CArray typedef___u8 0) None,
     Member ''__cacheline_group_begin__netns_ipv4_read_txrx'' (CArray typedef___u8 0) None,
     Member ''sysctl_tcp_moderate_rcvbuf'' typedef_u8 None,
     Member ''__cacheline_group_end__netns_ipv4_read_txrx'' (CArray typedef___u8 0) None,
     Member ''__cacheline_group_begin__netns_ipv4_read_rx'' (CArray typedef___u8 0) None,
     Member ''sysctl_ip_early_demux'' typedef_u8 None,
     Member ''sysctl_tcp_early_demux'' typedef_u8 None,
     Member ''sysctl_tcp_reordering'' (CInt 4 True) None,
     Member ''sysctl_tcp_rmem'' (CArray (CInt 4 True) 3) None,
     Member ''__cacheline_group_end__netns_ipv4_read_rx'' (CArray typedef___u8 0) None,
     Member '''' (CInt 8 True) (Some 64),
     Member ''tcp_death_row'' struct_inet_timewait_death_row None,
     Member ''udp_table'' (CPtr ''struct udp_table'') None,
     Member ''forw_hdr'' (CPtr ''struct ctl_table_header'') None,
     Member ''frags_hdr'' (CPtr ''struct ctl_table_header'') None,
     Member ''ipv4_hdr'' (CPtr ''struct ctl_table_header'') None,
     Member ''route_hdr'' (CPtr ''struct ctl_table_header'') None,
     Member ''xfrm4_hdr'' (CPtr ''struct ctl_table_header'') None,
     Member ''devconf_all'' (CPtr ''struct ipv4_devconf'') None,
     Member ''devconf_dflt'' (CPtr ''struct ipv4_devconf'') None,
     Member ''ra_chain'' (CPtr ''struct ip_ra_chain'') None,
     Member ''ra_mutex'' struct_mutex None,
     Member ''rules_ops'' (CPtr ''struct fib_rules_ops'') None,
     Member ''fib_main'' (CPtr ''struct fib_table'') None,
     Member ''fib_default'' (CPtr ''struct fib_table'') None,
     Member ''fib_rules_require_fldissect'' (CInt 4 False) None,
     Member ''fib_has_custom_rules'' typedef_bool None,
     Member ''fib_has_custom_local_routes'' typedef_bool None,
     Member ''fib_offload_disabled'' typedef_bool None,
     Member ''sysctl_tcp_shrink_window'' typedef_u8 None,
     Member ''fib_num_tclassid_users'' typedef_atomic_t None,
     Member ''fib_table_hash'' (CPtr ''struct hlist_head'') None,
     Member ''fibnl'' (CPtr ''struct sock'') None,
     Member ''mc_autojoin_sk'' (CPtr ''struct sock'') None,
     Member ''peers'' (CPtr ''struct inet_peer_base'') None,
     Member ''fqdir'' (CPtr ''struct fqdir'') None,
     Member ''sysctl_icmp_echo_ignore_all'' typedef_u8 None,
     Member ''sysctl_icmp_echo_enable_probe'' typedef_u8 None,
     Member ''sysctl_icmp_echo_ignore_broadcasts'' typedef_u8 None,
     Member ''sysctl_icmp_ignore_bogus_error_responses'' typedef_u8 None,
     Member ''sysctl_icmp_errors_use_inbound_ifaddr'' typedef_u8 None,
     Member ''sysctl_icmp_ratelimit'' (CInt 4 True) None,
     Member ''sysctl_icmp_ratemask'' (CInt 4 True) None,
     Member ''ip_rt_min_pmtu'' typedef_u32 None,
     Member ''ip_rt_mtu_expires'' (CInt 4 True) None,
     Member ''ip_rt_min_advmss'' (CInt 4 True) None,
     Member ''ip_local_ports'' struct_local_ports None,
     Member ''sysctl_tcp_ecn'' typedef_u8 None,
     Member ''sysctl_tcp_ecn_fallback'' typedef_u8 None,
     Member ''sysctl_ip_default_ttl'' typedef_u8 None,
     Member ''sysctl_ip_no_pmtu_disc'' typedef_u8 None,
     Member ''sysctl_ip_fwd_update_priority'' typedef_u8 None,
     Member ''sysctl_ip_nonlocal_bind'' typedef_u8 None,
     Member ''sysctl_ip_autobind_reuse'' typedef_u8 None,
     Member ''sysctl_ip_dynaddr'' typedef_u8 None,
     Member ''sysctl_raw_l3mdev_accept'' typedef_u8 None,
     Member ''sysctl_udp_early_demux'' typedef_u8 None,
     Member ''sysctl_nexthop_compat_mode'' typedef_u8 None,
     Member ''sysctl_fwmark_reflect'' typedef_u8 None,
     Member ''sysctl_tcp_fwmark_accept'' typedef_u8 None,
     Member ''sysctl_tcp_l3mdev_accept'' typedef_u8 None,
     Member ''sysctl_tcp_mtu_probing'' typedef_u8 None,
     Member ''sysctl_tcp_mtu_probe_floor'' (CInt 4 True) None,
     Member ''sysctl_tcp_base_mss'' (CInt 4 True) None,
     Member ''sysctl_tcp_probe_threshold'' (CInt 4 True) None,
     Member ''sysctl_tcp_probe_interval'' typedef_u32 None,
     Member ''sysctl_tcp_keepalive_time'' (CInt 4 True) None,
     Member ''sysctl_tcp_keepalive_intvl'' (CInt 4 True) None,
     Member ''sysctl_tcp_keepalive_probes'' typedef_u8 None,
     Member ''sysctl_tcp_syn_retries'' typedef_u8 None,
     Member ''sysctl_tcp_synack_retries'' typedef_u8 None,
     Member ''sysctl_tcp_syncookies'' typedef_u8 None,
     Member ''sysctl_tcp_migrate_req'' typedef_u8 None,
     Member ''sysctl_tcp_comp_sack_nr'' typedef_u8 None,
     Member ''sysctl_tcp_backlog_ack_defer'' typedef_u8 None,
     Member ''sysctl_tcp_pingpong_thresh'' typedef_u8 None,
     Member ''sysctl_tcp_retries1'' typedef_u8 None,
     Member ''sysctl_tcp_retries2'' typedef_u8 None,
     Member ''sysctl_tcp_orphan_retries'' typedef_u8 None,
     Member ''sysctl_tcp_tw_reuse'' typedef_u8 None,
     Member ''sysctl_tcp_fin_timeout'' (CInt 4 True) None,
     Member ''sysctl_tcp_sack'' typedef_u8 None,
     Member ''sysctl_tcp_window_scaling'' typedef_u8 None,
     Member ''sysctl_tcp_timestamps'' typedef_u8 None,
     Member ''sysctl_tcp_recovery'' typedef_u8 None,
     Member ''sysctl_tcp_thin_linear_timeouts'' typedef_u8 None,
     Member ''sysctl_tcp_slow_start_after_idle'' typedef_u8 None,
     Member ''sysctl_tcp_retrans_collapse'' typedef_u8 None,
     Member ''sysctl_tcp_stdurg'' typedef_u8 None,
     Member ''sysctl_tcp_rfc1337'' typedef_u8 None,
     Member ''sysctl_tcp_abort_on_overflow'' typedef_u8 None,
     Member ''sysctl_tcp_fack'' typedef_u8 None,
     Member ''sysctl_tcp_max_reordering'' (CInt 4 True) None,
     Member ''sysctl_tcp_adv_win_scale'' (CInt 4 True) None,
     Member ''sysctl_tcp_dsack'' typedef_u8 None,
     Member ''sysctl_tcp_app_win'' typedef_u8 None,
     Member ''sysctl_tcp_frto'' typedef_u8 None,
     Member ''sysctl_tcp_nometrics_save'' typedef_u8 None,
     Member ''sysctl_tcp_no_ssthresh_metrics_save'' typedef_u8 None,
     Member ''sysctl_tcp_workaround_signed_windows'' typedef_u8 None,
     Member ''sysctl_tcp_challenge_ack_limit'' (CInt 4 True) None,
     Member ''sysctl_tcp_min_tso_segs'' typedef_u8 None,
     Member ''sysctl_tcp_reflect_tos'' typedef_u8 None,
     Member ''sysctl_tcp_invalid_ratelimit'' (CInt 4 True) None,
     Member ''sysctl_tcp_pacing_ss_ratio'' (CInt 4 True) None,
     Member ''sysctl_tcp_pacing_ca_ratio'' (CInt 4 True) None,
     Member ''sysctl_tcp_child_ehash_entries'' (CInt 4 False) None,
     Member ''sysctl_tcp_comp_sack_delay_ns'' (CInt 8 False) None,
     Member ''sysctl_tcp_comp_sack_slack_ns'' (CInt 8 False) None,
     Member ''sysctl_max_syn_backlog'' (CInt 4 True) None,
     Member ''sysctl_tcp_fastopen'' (CInt 4 True) None,
     Member ''tcp_congestion_control'' (CPtr ''struct tcp_congestion_ops'') None,
     Member ''tcp_fastopen_ctx'' (CPtr ''struct tcp_fastopen_context'') None,
     Member ''sysctl_tcp_fastopen_blackhole_timeout'' (CInt 4 False) None,
     Member ''tfo_active_disable_times'' typedef_atomic_t None,
     Member ''tfo_active_disable_stamp'' (CInt 8 False) None,
     Member ''tcp_challenge_timestamp'' typedef_u32 None,
     Member ''tcp_challenge_count'' typedef_u32 None,
     Member ''sysctl_tcp_plb_enabled'' typedef_u8 None,
     Member ''sysctl_tcp_plb_idle_rehash_rounds'' typedef_u8 None,
     Member ''sysctl_tcp_plb_rehash_rounds'' typedef_u8 None,
     Member ''sysctl_tcp_plb_suspend_rto_sec'' typedef_u8 None,
     Member ''sysctl_tcp_plb_cong_thresh'' (CInt 4 True) None,
     Member ''sysctl_udp_wmem_min'' (CInt 4 True) None,
     Member ''sysctl_udp_rmem_min'' (CInt 4 True) None,
     Member ''sysctl_fib_notify_on_flag_change'' typedef_u8 None,
     Member ''sysctl_tcp_syn_linear_timeouts'' typedef_u8 None,
     Member ''sysctl_udp_l3mdev_accept'' typedef_u8 None,
     Member ''sysctl_igmp_llm_reports'' typedef_u8 None,
     Member ''sysctl_igmp_max_memberships'' (CInt 4 True) None,
     Member ''sysctl_igmp_max_msf'' (CInt 4 True) None,
     Member ''sysctl_igmp_qrv'' (CInt 4 True) None,
     Member ''ping_group_range'' struct_ping_group_range None,
     Member ''dev_addr_genid'' typedef_atomic_t None,
     Member ''sysctl_udp_child_hash_entries'' (CInt 4 False) None,
     Member ''sysctl_local_reserved_ports'' (CPtr ''long unsigned int'') None,
     Member ''sysctl_ip_prot_sock'' (CInt 4 True) None,
     Member ''mr_tables'' struct_list_head None,
     Member ''mr_rules_ops'' (CPtr ''struct fib_rules_ops'') None,
     Member ''sysctl_fib_multipath_hash_fields'' typedef_u32 None,
     Member ''sysctl_fib_multipath_use_neigh'' typedef_u8 None,
     Member ''sysctl_fib_multipath_hash_policy'' typedef_u8 None,
     Member ''notifier_ops'' (CPtr ''struct fib_notifier_ops'') None,
     Member ''fib_seq'' (CInt 4 False) None,
     Member ''ipmr_notifier_ops'' (CPtr ''struct fib_notifier_ops'') None,
     Member ''ipmr_seq'' (CInt 4 False) None,
     Member ''rt_genid'' typedef_atomic_t None,
     Member ''ip_id_key'' typedef_siphash_key_t None,
     Member '''' (CInt 8 True) (Some 64),
     Member '''' (CInt 8 True) (Some 64),
     Member '''' (CInt 8 True) (Some 64),
     Member '''' (CInt 8 True) (Some 64)]"

lemma struct_netns_ipv4_layout [ksize]:
  "sizeof struct_netns_ipv4 = 768" "alignof struct_netns_ipv4 = 8" "wf_ctype struct_netns_ipv4" "unpacked struct_netns_ipv4"
  by (simp_all add: struct_netns_ipv4_def layout_eval ksize)

definition struct_dst_ops :: ctype where
  "struct_dst_ops = CStruct False [
     Member ''family'' (CInt 2 False) None,
     Member ''gc_thresh'' (CInt 4 False) None,
     Member ''gc'' (CPtr ''fn'') None,
     Member ''check'' (CPtr ''fn'') None,
     Member ''default_advmss'' (CPtr ''fn'') None,
     Member ''mtu'' (CPtr ''fn'') None,
     Member ''cow_metrics'' (CPtr ''fn'') None,
     Member ''destroy'' (CPtr ''fn'') None,
     Member ''ifdown'' (CPtr ''fn'') None,
     Member ''negative_advice'' (CPtr ''fn'') None,
     Member ''link_failure'' (CPtr ''fn'') None,
     Member ''update_pmtu'' (CPtr ''fn'') None,
     Member ''redirect'' (CPtr ''fn'') None,
     Member ''local_out'' (CPtr ''fn'') None,
     Member ''neigh_lookup'' (CPtr ''fn'') None,
     Member ''confirm_neigh'' (CPtr ''fn'') None,
     Member ''kmem_cachep'' (CPtr ''struct kmem_cache'') None,
     Member ''pcpuc_entries'' struct_percpu_counter None,
     Member '''' (CInt 8 True) (Some 64),
     Member '''' (CInt 8 True) (Some 64),
     Member '''' (CInt 8 True) (Some 64)]"

lemma struct_dst_ops_layout [ksize]:
  "sizeof struct_dst_ops = 192" "alignof struct_dst_ops = 8" "wf_ctype struct_dst_ops" "unpacked struct_dst_ops"
  by (simp_all add: struct_dst_ops_def layout_eval ksize)

definition struct_netns_sysctl_ipv6 :: ctype where
  "struct_netns_sysctl_ipv6 = CStruct False [
     Member ''hdr'' (CPtr ''struct ctl_table_header'') None,
     Member ''route_hdr'' (CPtr ''struct ctl_table_header'') None,
     Member ''icmp_hdr'' (CPtr ''struct ctl_table_header'') None,
     Member ''frags_hdr'' (CPtr ''struct ctl_table_header'') None,
     Member ''xfrm6_hdr'' (CPtr ''struct ctl_table_header'') None,
     Member ''flush_delay'' (CInt 4 True) None,
     Member ''ip6_rt_max_size'' (CInt 4 True) None,
     Member ''ip6_rt_gc_min_interval'' (CInt 4 True) None,
     Member ''ip6_rt_gc_timeout'' (CInt 4 True) None,
     Member ''ip6_rt_gc_interval'' (CInt 4 True) None,
     Member ''ip6_rt_gc_elasticity'' (CInt 4 True) None,
     Member ''ip6_rt_mtu_expires'' (CInt 4 True) None,
     Member ''ip6_rt_min_advmss'' (CInt 4 True) None,
     Member ''multipath_hash_fields'' typedef_u32 None,
     Member ''multipath_hash_policy'' typedef_u8 None,
     Member ''bindv6only'' typedef_u8 None,
     Member ''flowlabel_consistency'' typedef_u8 None,
     Member ''auto_flowlabels'' typedef_u8 None,
     Member ''icmpv6_time'' (CInt 4 True) None,
     Member ''icmpv6_echo_ignore_all'' typedef_u8 None,
     Member ''icmpv6_echo_ignore_multicast'' typedef_u8 None,
     Member ''icmpv6_echo_ignore_anycast'' typedef_u8 None,
     Member ''icmpv6_ratemask'' (CArray (CInt 8 False) 4) None,
     Member ''icmpv6_ratemask_ptr'' (CPtr ''long unsigned int'') None,
     Member ''anycast_src_echo_reply'' typedef_u8 None,
     Member ''ip_nonlocal_bind'' typedef_u8 None,
     Member ''fwmark_reflect'' typedef_u8 None,
     Member ''flowlabel_state_ranges'' typedef_u8 None,
     Member ''idgen_retries'' (CInt 4 True) None,
     Member ''idgen_delay'' (CInt 4 True) None,
     Member ''flowlabel_reflect'' (CInt 4 True) None,
     Member ''max_dst_opts_cnt'' (CInt 4 True) None,
     Member ''max_hbh_opts_cnt'' (CInt 4 True) None,
     Member ''max_dst_opts_len'' (CInt 4 True) None,
     Member ''max_hbh_opts_len'' (CInt 4 True) None,
     Member ''seg6_flowlabel'' (CInt 4 True) None,
     Member ''ioam6_id'' typedef_u32 None,
     Member ''ioam6_id_wide'' typedef_u64 None,
     Member ''skip_notify_on_dev_down'' typedef_u8 None,
     Member ''fib_notify_on_flag_change'' typedef_u8 None,
     Member ''icmpv6_error_anycast_as_unicast'' typedef_u8 None]"

lemma struct_netns_sysctl_ipv6_layout [ksize]:
  "sizeof struct_netns_sysctl_ipv6 = 184" "alignof struct_netns_sysctl_ipv6 = 8" "wf_ctype struct_netns_sysctl_ipv6" "unpacked struct_netns_sysctl_ipv6"
  by (simp_all add: struct_netns_sysctl_ipv6_def layout_eval ksize)

abbreviation struct_delayed_work :: ctype where
  "struct_delayed_work \<equiv> CStruct False [
     Member ''work'' struct_work_struct None,
     Member ''timer'' struct_timer_list None,
     Member ''wq'' (CPtr ''struct workqueue_struct'') None,
     Member ''cpu'' (CInt 4 True) None]"

definition struct_netns_ipv6 :: ctype where
  "struct_netns_ipv6 = CStruct False [
     Member ''ip6_dst_ops'' struct_dst_ops None,
     Member ''sysctl'' struct_netns_sysctl_ipv6 None,
     Member ''devconf_all'' (CPtr ''struct ipv6_devconf'') None,
     Member ''devconf_dflt'' (CPtr ''struct ipv6_devconf'') None,
     Member ''peers'' (CPtr ''struct inet_peer_base'') None,
     Member ''fqdir'' (CPtr ''struct fqdir'') None,
     Member ''fib6_null_entry'' (CPtr ''struct fib6_info'') None,
     Member ''ip6_null_entry'' (CPtr ''struct rt6_info'') None,
     Member ''rt6_stats'' (CPtr ''struct rt6_statistics'') None,
     Member ''ip6_fib_timer'' struct_timer_list None,
     Member ''fib_table_hash'' (CPtr ''struct hlist_head'') None,
     Member ''fib6_main_tbl'' (CPtr ''struct fib6_table'') None,
     Member ''fib6_walkers'' struct_list_head None,
     Member ''fib6_walker_lock'' typedef_rwlock_t None,
     Member ''fib6_gc_lock'' typedef_spinlock_t None,
     Member ''ip6_rt_gc_expire'' typedef_atomic_t None,
     Member ''ip6_rt_last_gc'' (CInt 8 False) None,
     Member ''flowlabel_has_excl'' (CInt 1 False) None,
     Member ''fib6_has_custom_rules'' typedef_bool None,
     Member ''fib6_rules_require_fldissect'' (CInt 4 False) None,
     Member ''fib6_routes_require_src'' (CInt 4 False) None,
     Member ''ip6_prohibit_entry'' (CPtr ''struct rt6_info'') None,
     Member ''ip6_blk_hole_entry'' (CPtr ''struct rt6_info'') None,
     Member ''fib6_local_tbl'' (CPtr ''struct fib6_table'') None,
     Member ''fib6_rules_ops'' (CPtr ''struct fib_rules_ops'') None,
     Member ''ndisc_sk'' (CPtr ''struct sock'') None,
     Member ''tcp_sk'' (CPtr ''struct sock'') None,
     Member ''igmp_sk'' (CPtr ''struct sock'') None,
     Member ''mc_autojoin_sk'' (CPtr ''struct sock'') None,
     Member ''inet6_addr_lst'' (CPtr ''struct hlist_head'') None,
     Member ''addrconf_hash_lock'' typedef_spinlock_t None,
     Member ''addr_chk_work'' struct_delayed_work None,
     Member ''mr6_tables'' struct_list_head None,
     Member ''mr6_rules_ops'' (CPtr ''struct fib_rules_ops'') None,
     Member ''dev_addr_genid'' typedef_atomic_t None,
     Member ''fib6_sernum'' typedef_atomic_t None,
     Member ''seg6_data'' (CPtr ''struct seg6_pernet_data'') None,
     Member ''notifier_ops'' (CPtr ''struct fib_notifier_ops'') None,
     Member ''ip6mr_notifier_ops'' (CPtr ''struct fib_notifier_ops'') None,
     Member ''ipmr_seq'' (CInt 4 False) None,
     Member ''ip6addrlbl_table'' (CStruct False [
       Member ''head'' struct_hlist_head None,
       Member ''lock'' typedef_spinlock_t None,
       Member ''seq'' typedef_u32 None]) None,
     Member ''ioam6_data'' (CPtr ''struct ioam6_pernet_data'') None,
     Member '''' (CInt 8 True) (Some 64),
     Member '''' (CInt 8 True) (Some 64),
     Member '''' (CInt 8 True) (Some 64),
     Member '''' (CInt 8 True) (Some 64)]"

lemma struct_netns_ipv6_layout [ksize]:
  "sizeof struct_netns_ipv6 = 832" "alignof struct_netns_ipv6 = 8" "wf_ctype struct_netns_ipv6" "unpacked struct_netns_ipv6"
  by (simp_all add: struct_netns_ipv6_def layout_eval ksize)

abbreviation struct_netns_sysctl_lowpan :: ctype where
  "struct_netns_sysctl_lowpan \<equiv> CStruct False [
     Member ''frags_hdr'' (CPtr ''struct ctl_table_header'') None]"

abbreviation struct_netns_ieee802154_lowpan :: ctype where
  "struct_netns_ieee802154_lowpan \<equiv> CStruct False [
     Member ''sysctl'' struct_netns_sysctl_lowpan None,
     Member ''fqdir'' (CPtr ''struct fqdir'') None]"

definition struct_netns_sctp :: ctype where
  "struct_netns_sctp = CStruct False [
     Member ''sctp_statistics'' (CPtr ''struct sctp_mib'') None,
     Member ''proc_net_sctp'' (CPtr ''struct proc_dir_entry'') None,
     Member ''sysctl_header'' (CPtr ''struct ctl_table_header'') None,
     Member ''ctl_sock'' (CPtr ''struct sock'') None,
     Member ''udp4_sock'' (CPtr ''struct sock'') None,
     Member ''udp6_sock'' (CPtr ''struct sock'') None,
     Member ''udp_port'' (CInt 4 True) None,
     Member ''encap_port'' (CInt 4 True) None,
     Member ''local_addr_list'' struct_list_head None,
     Member ''addr_waitq'' struct_list_head None,
     Member ''addr_wq_timer'' struct_timer_list None,
     Member ''auto_asconf_splist'' struct_list_head None,
     Member ''addr_wq_lock'' typedef_spinlock_t None,
     Member ''local_addr_lock'' typedef_spinlock_t None,
     Member ''rto_initial'' (CInt 4 False) None,
     Member ''rto_min'' (CInt 4 False) None,
     Member ''rto_max'' (CInt 4 False) None,
     Member ''rto_alpha'' (CInt 4 True) None,
     Member ''rto_beta'' (CInt 4 True) None,
     Member ''max_burst'' (CInt 4 True) None,
     Member ''cookie_preserve_enable'' (CInt 4 True) None,
     Member ''sctp_hmac_alg'' (CPtr ''char'') None,
     Member ''valid_cookie_life'' (CInt 4 False) None,
     Member ''sack_timeout'' (CInt 4 False) None,
     Member ''hb_interval'' (CInt 4 False) None,
     Member ''probe_interval'' (CInt 4 False) None,
     Member ''max_retrans_association'' (CInt 4 True) None,
     Member ''max_retrans_path'' (CInt 4 True) None,
     Member ''max_retrans_init'' (CInt 4 True) None,
     Member ''pf_retrans'' (CInt 4 True) None,
     Member ''ps_retrans'' (CInt 4 True) None,
     Member ''pf_enable'' (CInt 4 True) None,
     Member ''pf_expose'' (CInt 4 True) None,
     Member ''sndbuf_policy'' (CInt 4 True) None,
     Member ''rcvbuf_policy'' (CInt 4 True) None,
     Member ''default_auto_asconf'' (CInt 4 True) None,
     Member ''addip_enable'' (CInt 4 True) None,
     Member ''addip_noauth'' (CInt 4 True) None,
     Member ''prsctp_enable'' (CInt 4 True) None,
     Member ''reconf_enable'' (CInt 4 True) None,
     Member ''auth_enable'' (CInt 4 True) None,
     Member ''intl_enable'' (CInt 4 True) None,
     Member ''ecn_enable'' (CInt 4 True) None,
     Member ''scope_policy'' (CInt 4 True) None,
     Member ''rwnd_upd_shift'' (CInt 4 True) None,
     Member ''max_autoclose'' (CInt 8 False) None,
     Member ''l3mdev_accept'' (CInt 4 True) None]"

lemma struct_netns_sctp_layout [ksize]:
  "sizeof struct_netns_sctp = 304" "alignof struct_netns_sctp = 8" "wf_ctype struct_netns_sctp" "unpacked struct_netns_sctp"
  by (simp_all add: struct_netns_sctp_def layout_eval ksize)

definition struct_netns_nf :: ctype where
  "struct_netns_nf = CStruct False [
     Member ''proc_netfilter'' (CPtr ''struct proc_dir_entry'') None,
     Member ''nf_loggers'' (CArray (CPtr ''struct nf_logger'') 11) None,
     Member ''nf_log_dir_header'' (CPtr ''struct ctl_table_header'') None,
     Member ''nf_lwtnl_dir_header'' (CPtr ''struct ctl_table_header'') None,
     Member ''hooks_ipv4'' (CArray (CPtr ''struct nf_hook_entries'') 5) None,
     Member ''hooks_ipv6'' (CArray (CPtr ''struct nf_hook_entries'') 5) None,
     Member ''hooks_arp'' (CArray (CPtr ''struct nf_hook_entries'') 3) None,
     Member ''hooks_bridge'' (CArray (CPtr ''struct nf_hook_entries'') 5) None,
     Member ''defrag_ipv4_users'' (CInt 4 False) None,
     Member ''defrag_ipv6_users'' (CInt 4 False) None]"

lemma struct_netns_nf_layout [ksize]:
  "sizeof struct_netns_nf = 264" "alignof struct_netns_nf = 8" "wf_ctype struct_netns_nf" "unpacked struct_netns_nf"
  by (simp_all add: struct_netns_nf_def layout_eval ksize)

abbreviation struct_nf_generic_net :: ctype where
  "struct_nf_generic_net \<equiv> CStruct False [
     Member ''timeout'' (CInt 4 False) None]"

definition struct_nf_tcp_net :: ctype where
  "struct_nf_tcp_net = CStruct False [
     Member ''timeouts'' (CArray (CInt 4 False) 14) None,
     Member ''tcp_loose'' typedef_u8 None,
     Member ''tcp_be_liberal'' typedef_u8 None,
     Member ''tcp_max_retrans'' typedef_u8 None,
     Member ''tcp_ignore_invalid_rst'' typedef_u8 None,
     Member ''offload_timeout'' (CInt 4 False) None]"

lemma struct_nf_tcp_net_layout [ksize]:
  "sizeof struct_nf_tcp_net = 64" "alignof struct_nf_tcp_net = 4" "wf_ctype struct_nf_tcp_net" "unpacked struct_nf_tcp_net"
  by (simp_all add: struct_nf_tcp_net_def layout_eval ksize)

abbreviation struct_nf_udp_net :: ctype where
  "struct_nf_udp_net \<equiv> CStruct False [
     Member ''timeouts'' (CArray (CInt 4 False) 2) None,
     Member ''offload_timeout'' (CInt 4 False) None]"

abbreviation struct_nf_icmp_net :: ctype where
  "struct_nf_icmp_net \<equiv> CStruct False [
     Member ''timeout'' (CInt 4 False) None]"

abbreviation struct_nf_dccp_net :: ctype where
  "struct_nf_dccp_net \<equiv> CStruct False [
     Member ''dccp_loose'' typedef_u8 None,
     Member ''dccp_timeout'' (CArray (CInt 4 False) 10) None]"

abbreviation struct_nf_sctp_net :: ctype where
  "struct_nf_sctp_net \<equiv> CStruct False [
     Member ''timeouts'' (CArray (CInt 4 False) 10) None]"

abbreviation struct_nf_gre_net :: ctype where
  "struct_nf_gre_net \<equiv> CStruct False [
     Member ''keymap_list'' struct_list_head None,
     Member ''timeouts'' (CArray (CInt 4 False) 2) None]"

definition struct_nf_ip_net :: ctype where
  "struct_nf_ip_net = CStruct False [
     Member ''generic'' struct_nf_generic_net None,
     Member ''tcp'' struct_nf_tcp_net None,
     Member ''udp'' struct_nf_udp_net None,
     Member ''icmp'' struct_nf_icmp_net None,
     Member ''icmpv6'' struct_nf_icmp_net None,
     Member ''dccp'' struct_nf_dccp_net None,
     Member ''sctp'' struct_nf_sctp_net None,
     Member ''gre'' struct_nf_gre_net None]"

lemma struct_nf_ip_net_layout [ksize]:
  "sizeof struct_nf_ip_net = 200" "alignof struct_nf_ip_net = 8" "wf_ctype struct_nf_ip_net" "unpacked struct_nf_ip_net"
  by (simp_all add: struct_nf_ip_net_def layout_eval ksize)

definition struct_netns_ct :: ctype where
  "struct_netns_ct = CStruct False [
     Member ''ecache_dwork_pending'' typedef_bool None,
     Member ''sysctl_log_invalid'' typedef_u8 None,
     Member ''sysctl_events'' typedef_u8 None,
     Member ''sysctl_acct'' typedef_u8 None,
     Member ''sysctl_tstamp'' typedef_u8 None,
     Member ''sysctl_checksum'' typedef_u8 None,
     Member ''stat'' (CPtr ''struct ip_conntrack_stat'') None,
     Member ''nf_conntrack_event_cb'' (CPtr ''struct nf_ct_event_notifier'') None,
     Member ''nf_ct_proto'' struct_nf_ip_net None,
     Member ''labels_used'' typedef_atomic_t None]"

lemma struct_netns_ct_layout [ksize]:
  "sizeof struct_netns_ct = 232" "alignof struct_netns_ct = 8" "wf_ctype struct_netns_ct" "unpacked struct_netns_ct"
  by (simp_all add: struct_netns_ct_def layout_eval ksize)

abbreviation struct_netns_nftables :: ctype where
  "struct_netns_nftables \<equiv> CStruct False [
     Member ''base_seq'' (CInt 4 False) None,
     Member ''gencursor'' typedef_u8 None]"

abbreviation struct_netns_ft :: ctype where
  "struct_netns_ft \<equiv> CStruct False [
     Member ''stat'' (CPtr ''struct nf_flow_table_stat'') None]"

abbreviation struct_netns_bpf :: ctype where
  "struct_netns_bpf \<equiv> CStruct False [
     Member ''run_array'' (CArray (CPtr ''struct bpf_prog_array'') 2) None,
     Member ''progs'' (CArray (CPtr ''struct bpf_prog'') 2) None,
     Member ''links'' (CArray struct_list_head 2) None]"

definition struct_xfrm_policy_hash :: ctype where
  "struct_xfrm_policy_hash = CStruct False [
     Member ''table'' (CPtr ''struct hlist_head'') None,
     Member ''hmask'' (CInt 4 False) None,
     Member ''dbits4'' typedef_u8 None,
     Member ''sbits4'' typedef_u8 None,
     Member ''dbits6'' typedef_u8 None,
     Member ''sbits6'' typedef_u8 None]"

lemma struct_xfrm_policy_hash_layout [ksize]:
  "sizeof struct_xfrm_policy_hash = 16" "alignof struct_xfrm_policy_hash = 8" "wf_ctype struct_xfrm_policy_hash" "unpacked struct_xfrm_policy_hash"
  by (simp_all add: struct_xfrm_policy_hash_def layout_eval ksize)

definition struct_xfrm_policy_hthresh :: ctype where
  "struct_xfrm_policy_hthresh = CStruct False [
     Member ''work'' struct_work_struct None,
     Member ''lock'' typedef_seqlock_t None,
     Member ''lbits4'' typedef_u8 None,
     Member ''rbits4'' typedef_u8 None,
     Member ''lbits6'' typedef_u8 None,
     Member ''rbits6'' typedef_u8 None]"

lemma struct_xfrm_policy_hthresh_layout [ksize]:
  "sizeof struct_xfrm_policy_hthresh = 48" "alignof struct_xfrm_policy_hthresh = 8" "wf_ctype struct_xfrm_policy_hthresh" "unpacked struct_xfrm_policy_hthresh"
  by (simp_all add: struct_xfrm_policy_hthresh_def layout_eval ksize)

definition struct_netns_xfrm :: ctype where
  "struct_netns_xfrm = CStruct False [
     Member ''state_all'' struct_list_head None,
     Member ''state_bydst'' (CPtr ''struct hlist_head'') None,
     Member ''state_bysrc'' (CPtr ''struct hlist_head'') None,
     Member ''state_byspi'' (CPtr ''struct hlist_head'') None,
     Member ''state_byseq'' (CPtr ''struct hlist_head'') None,
     Member ''state_cache_input'' (CPtr ''struct hlist_head'') None,
     Member ''state_hmask'' (CInt 4 False) None,
     Member ''state_num'' (CInt 4 False) None,
     Member ''state_hash_work'' struct_work_struct None,
     Member ''policy_all'' struct_list_head None,
     Member ''policy_byidx'' (CPtr ''struct hlist_head'') None,
     Member ''policy_idx_hmask'' (CInt 4 False) None,
     Member ''idx_generator'' (CInt 4 False) None,
     Member ''policy_inexact'' (CArray struct_hlist_head 3) None,
     Member ''policy_bydst'' (CArray struct_xfrm_policy_hash 3) None,
     Member ''policy_count'' (CArray (CInt 4 False) 6) None,
     Member ''policy_hash_work'' struct_work_struct None,
     Member ''policy_hthresh'' struct_xfrm_policy_hthresh None,
     Member ''inexact_bins'' struct_list_head None,
     Member ''nlsk'' (CPtr ''struct sock'') None,
     Member ''nlsk_stash'' (CPtr ''struct sock'') None,
     Member ''sysctl_aevent_etime'' typedef_u32 None,
     Member ''sysctl_aevent_rseqth'' typedef_u32 None,
     Member ''sysctl_larval_drop'' (CInt 4 True) None,
     Member ''sysctl_acq_expires'' typedef_u32 None,
     Member ''policy_default'' (CArray typedef_u8 3) None,
     Member ''sysctl_hdr'' (CPtr ''struct ctl_table_header'') None,
     Member '''' (CInt 8 True) (Some 64),
     Member '''' (CInt 8 True) (Some 64),
     Member ''xfrm4_dst_ops'' struct_dst_ops None,
     Member ''xfrm6_dst_ops'' struct_dst_ops None,
     Member ''xfrm_state_lock'' typedef_spinlock_t None,
     Member ''xfrm_state_hash_generation'' typedef_seqcount_spinlock_t None,
     Member ''xfrm_policy_hash_generation'' typedef_seqcount_spinlock_t None,
     Member ''xfrm_policy_lock'' typedef_spinlock_t None,
     Member ''xfrm_cfg_mutex'' struct_mutex None,
     Member '''' (CInt 8 True) (Some 64),
     Member '''' (CInt 8 True) (Some 64)]"

lemma struct_netns_xfrm_layout [ksize]:
  "sizeof struct_netns_xfrm = 832" "alignof struct_netns_xfrm = 8" "wf_ctype struct_netns_xfrm" "unpacked struct_netns_xfrm"
  by (simp_all add: struct_netns_xfrm_def layout_eval ksize)

abbreviation struct_netns_mpls :: ctype where
  "struct_netns_mpls \<equiv> CStruct False [
     Member ''ip_ttl_propagate'' (CInt 4 True) None,
     Member ''default_ttl'' (CInt 4 True) None,
     Member ''platform_labels'' typedef_size_t None,
     Member ''platform_label'' (CPtr ''struct mpls_route *'') None,
     Member ''ctl'' (CPtr ''struct ctl_table_header'') None]"

definition struct_netns_can :: ctype where
  "struct_netns_can = CStruct False [
     Member ''proc_dir'' (CPtr ''struct proc_dir_entry'') None,
     Member ''pde_stats'' (CPtr ''struct proc_dir_entry'') None,
     Member ''pde_reset_stats'' (CPtr ''struct proc_dir_entry'') None,
     Member ''pde_rcvlist_all'' (CPtr ''struct proc_dir_entry'') None,
     Member ''pde_rcvlist_fil'' (CPtr ''struct proc_dir_entry'') None,
     Member ''pde_rcvlist_inv'' (CPtr ''struct proc_dir_entry'') None,
     Member ''pde_rcvlist_sff'' (CPtr ''struct proc_dir_entry'') None,
     Member ''pde_rcvlist_eff'' (CPtr ''struct proc_dir_entry'') None,
     Member ''pde_rcvlist_err'' (CPtr ''struct proc_dir_entry'') None,
     Member ''bcmproc_dir'' (CPtr ''struct proc_dir_entry'') None,
     Member ''rx_alldev_list'' (CPtr ''struct can_dev_rcv_lists'') None,
     Member ''rcvlists_lock'' typedef_spinlock_t None,
     Member ''stattimer'' struct_timer_list None,
     Member ''pkg_stats'' (CPtr ''struct can_pkg_stats'') None,
     Member ''rcv_lists_stats'' (CPtr ''struct can_rcv_lists_stats'') None,
     Member ''cgw_list'' struct_hlist_head None]"

lemma struct_netns_can_layout [ksize]:
  "sizeof struct_netns_can = 160" "alignof struct_netns_can = 8" "wf_ctype struct_netns_can" "unpacked struct_netns_can"
  by (simp_all add: struct_netns_can_def layout_eval ksize)

abbreviation struct_netns_xdp :: ctype where
  "struct_netns_xdp \<equiv> CStruct False [
     Member ''lock'' struct_mutex None,
     Member ''list'' struct_hlist_head None]"

definition struct_netns_mctp :: ctype where
  "struct_netns_mctp = CStruct False [
     Member ''routes'' struct_list_head None,
     Member ''bind_lock'' struct_mutex None,
     Member ''binds'' struct_hlist_head None,
     Member ''keys_lock'' typedef_spinlock_t None,
     Member ''keys'' struct_hlist_head None,
     Member ''default_net'' (CInt 4 False) None,
     Member ''neigh_lock'' struct_mutex None,
     Member ''neighbours'' struct_list_head None]"

lemma struct_netns_mctp_layout [ksize]:
  "sizeof struct_netns_mctp = 128" "alignof struct_netns_mctp = 8" "wf_ctype struct_netns_mctp" "unpacked struct_netns_mctp"
  by (simp_all add: struct_netns_mctp_def layout_eval ksize)

definition struct_netns_smc :: ctype where
  "struct_netns_smc = CStruct False [
     Member ''smc_stats'' (CPtr ''struct smc_stats'') None,
     Member ''mutex_fback_rsn'' struct_mutex None,
     Member ''fback_rsn'' (CPtr ''struct smc_stats_rsn'') None,
     Member ''limit_smc_hs'' typedef_bool None,
     Member ''smc_hdr'' (CPtr ''struct ctl_table_header'') None,
     Member ''sysctl_autocorking_size'' (CInt 4 False) None,
     Member ''sysctl_smcr_buf_type'' (CInt 4 False) None,
     Member ''sysctl_smcr_testlink_time'' (CInt 4 True) None,
     Member ''sysctl_wmem'' (CInt 4 True) None,
     Member ''sysctl_rmem'' (CInt 4 True) None,
     Member ''sysctl_max_links_per_lgr'' (CInt 4 True) None,
     Member ''sysctl_max_conns_per_lgr'' (CInt 4 True) None]"

lemma struct_netns_smc_layout [ksize]:
  "sizeof struct_netns_smc = 96" "alignof struct_netns_smc = 8" "wf_ctype struct_netns_smc" "unpacked struct_netns_smc"
  by (simp_all add: struct_netns_smc_def layout_eval ksize)

definition struct_net :: ctype where
  "struct_net = CStruct False [
     Member ''passive'' typedef_refcount_t None,
     Member ''rules_mod_lock'' typedef_spinlock_t None,
     Member ''dev_unreg_count'' typedef_atomic_t None,
     Member ''dev_base_seq'' (CInt 4 False) None,
     Member ''ifindex'' typedef_u32 None,
     Member ''nsid_lock'' typedef_spinlock_t None,
     Member ''fnhe_genid'' typedef_atomic_t None,
     Member ''list'' struct_list_head None,
     Member ''exit_list'' struct_list_head None,
     Member ''defer_free_list'' struct_llist_node None,
     Member ''cleanup_list'' struct_llist_node None,
     Member ''key_domain'' (CPtr ''struct key_tag'') None,
     Member ''user_ns'' (CPtr ''struct user_namespace'') None,
     Member ''ucounts'' (CPtr ''struct ucounts'') None,
     Member ''netns_ids'' struct_idr None,
     Member ''ns'' struct_ns_common None,
     Member ''refcnt_tracker'' struct_ref_tracker_dir None,
     Member ''notrefcnt_tracker'' struct_ref_tracker_dir None,
     Member ''dev_base_head'' struct_list_head None,
     Member ''proc_net'' (CPtr ''struct proc_dir_entry'') None,
     Member ''proc_net_stat'' (CPtr ''struct proc_dir_entry'') None,
     Member ''sysctls'' struct_ctl_table_set None,
     Member ''rtnl'' (CPtr ''struct sock'') None,
     Member ''genl_sock'' (CPtr ''struct sock'') None,
     Member ''uevent_sock'' (CPtr ''struct uevent_sock'') None,
     Member ''dev_name_head'' (CPtr ''struct hlist_head'') None,
     Member ''dev_index_head'' (CPtr ''struct hlist_head'') None,
     Member ''dev_by_index'' struct_xarray None,
     Member ''netdev_chain'' struct_raw_notifier_head None,
     Member ''hash_mix'' typedef_u32 None,
     Member ''loopback_dev'' (CPtr ''struct net_device'') None,
     Member ''rules_ops'' struct_list_head None,
     Member ''core'' struct_netns_core None,
     Member ''mib'' struct_netns_mib None,
     Member ''packet'' struct_netns_packet None,
     Member ''unx'' struct_netns_unix None,
     Member ''nexthop'' struct_netns_nexthop None,
     Member '''' (CInt 8 True) (Some 64),
     Member '''' (CInt 8 True) (Some 64),
     Member ''ipv4'' struct_netns_ipv4 None,
     Member ''ipv6'' struct_netns_ipv6 None,
     Member ''ieee802154_lowpan'' struct_netns_ieee802154_lowpan None,
     Member ''sctp'' struct_netns_sctp None,
     Member ''nf'' struct_netns_nf None,
     Member ''ct'' struct_netns_ct None,
     Member ''nft'' struct_netns_nftables None,
     Member ''ft'' struct_netns_ft None,
     Member ''wext_nlevents'' struct_sk_buff_head None,
     Member ''gen'' (CPtr ''struct net_generic'') None,
     Member ''bpf'' struct_netns_bpf None,
     Member '''' (CInt 8 True) (Some 64),
     Member '''' (CInt 8 True) (Some 64),
     Member '''' (CInt 8 True) (Some 64),
     Member '''' (CInt 8 True) (Some 64),
     Member ''xfrm'' struct_netns_xfrm None,
     Member ''net_cookie'' typedef_u64 None,
     Member ''ipvs'' (CPtr ''struct netns_ipvs'') None,
     Member ''mpls'' struct_netns_mpls None,
     Member ''can'' struct_netns_can None,
     Member ''xdp'' struct_netns_xdp None,
     Member ''mctp'' struct_netns_mctp None,
     Member ''crypto_nlsk'' (CPtr ''struct sock'') None,
     Member ''diag_nlsk'' (CPtr ''struct sock'') None,
     Member ''smc'' struct_netns_smc None,
     Member '''' (CInt 8 True) (Some 64),
     Member '''' (CInt 8 True) (Some 64),
     Member '''' (CInt 8 True) (Some 64)]"

lemma struct_net_layout [ksize]:
  "sizeof struct_net = 4608" "alignof struct_net = 8" "wf_ctype struct_net" "unpacked struct_net"
  by (simp_all add: struct_net_def layout_eval ksize)

abbreviation typedef_s16 :: ctype where
  "typedef_s16 \<equiv> typedef___s16"

abbreviation struct_netdev_tc_txq :: ctype where
  "struct_netdev_tc_txq \<equiv> CStruct False [
     Member ''count'' typedef_u16 None,
     Member ''offset'' typedef_u16 None]"

abbreviation typedef_xdp_features_t :: ctype where
  "typedef_xdp_features_t \<equiv> typedef_u32"

definition struct_net_device_stats :: ctype where
  "struct_net_device_stats = CStruct False [
     Member '''' (CUnion False [
       Member ''rx_packets'' (CInt 8 False) None,
       Member ''__rx_packets'' typedef_atomic_long_t None]) None,
     Member '''' (CUnion False [
       Member ''tx_packets'' (CInt 8 False) None,
       Member ''__tx_packets'' typedef_atomic_long_t None]) None,
     Member '''' (CUnion False [
       Member ''rx_bytes'' (CInt 8 False) None,
       Member ''__rx_bytes'' typedef_atomic_long_t None]) None,
     Member '''' (CUnion False [
       Member ''tx_bytes'' (CInt 8 False) None,
       Member ''__tx_bytes'' typedef_atomic_long_t None]) None,
     Member '''' (CUnion False [
       Member ''rx_errors'' (CInt 8 False) None,
       Member ''__rx_errors'' typedef_atomic_long_t None]) None,
     Member '''' (CUnion False [
       Member ''tx_errors'' (CInt 8 False) None,
       Member ''__tx_errors'' typedef_atomic_long_t None]) None,
     Member '''' (CUnion False [
       Member ''rx_dropped'' (CInt 8 False) None,
       Member ''__rx_dropped'' typedef_atomic_long_t None]) None,
     Member '''' (CUnion False [
       Member ''tx_dropped'' (CInt 8 False) None,
       Member ''__tx_dropped'' typedef_atomic_long_t None]) None,
     Member '''' (CUnion False [
       Member ''multicast'' (CInt 8 False) None,
       Member ''__multicast'' typedef_atomic_long_t None]) None,
     Member '''' (CUnion False [
       Member ''collisions'' (CInt 8 False) None,
       Member ''__collisions'' typedef_atomic_long_t None]) None,
     Member '''' (CUnion False [
       Member ''rx_length_errors'' (CInt 8 False) None,
       Member ''__rx_length_errors'' typedef_atomic_long_t None]) None,
     Member '''' (CUnion False [
       Member ''rx_over_errors'' (CInt 8 False) None,
       Member ''__rx_over_errors'' typedef_atomic_long_t None]) None,
     Member '''' (CUnion False [
       Member ''rx_crc_errors'' (CInt 8 False) None,
       Member ''__rx_crc_errors'' typedef_atomic_long_t None]) None,
     Member '''' (CUnion False [
       Member ''rx_frame_errors'' (CInt 8 False) None,
       Member ''__rx_frame_errors'' typedef_atomic_long_t None]) None,
     Member '''' (CUnion False [
       Member ''rx_fifo_errors'' (CInt 8 False) None,
       Member ''__rx_fifo_errors'' typedef_atomic_long_t None]) None,
     Member '''' (CUnion False [
       Member ''rx_missed_errors'' (CInt 8 False) None,
       Member ''__rx_missed_errors'' typedef_atomic_long_t None]) None,
     Member '''' (CUnion False [
       Member ''tx_aborted_errors'' (CInt 8 False) None,
       Member ''__tx_aborted_errors'' typedef_atomic_long_t None]) None,
     Member '''' (CUnion False [
       Member ''tx_carrier_errors'' (CInt 8 False) None,
       Member ''__tx_carrier_errors'' typedef_atomic_long_t None]) None,
     Member '''' (CUnion False [
       Member ''tx_fifo_errors'' (CInt 8 False) None,
       Member ''__tx_fifo_errors'' typedef_atomic_long_t None]) None,
     Member '''' (CUnion False [
       Member ''tx_heartbeat_errors'' (CInt 8 False) None,
       Member ''__tx_heartbeat_errors'' typedef_atomic_long_t None]) None,
     Member '''' (CUnion False [
       Member ''tx_window_errors'' (CInt 8 False) None,
       Member ''__tx_window_errors'' typedef_atomic_long_t None]) None,
     Member '''' (CUnion False [
       Member ''rx_compressed'' (CInt 8 False) None,
       Member ''__rx_compressed'' typedef_atomic_long_t None]) None,
     Member '''' (CUnion False [
       Member ''tx_compressed'' (CInt 8 False) None,
       Member ''__tx_compressed'' typedef_atomic_long_t None]) None]"

lemma struct_net_device_stats_layout [ksize]:
  "sizeof struct_net_device_stats = 184" "alignof struct_net_device_stats = 8" "wf_ctype struct_net_device_stats" "unpacked struct_net_device_stats"
  by (simp_all add: struct_net_device_stats_def layout_eval ksize)

definition struct_netdev_hw_addr_list :: ctype where
  "struct_netdev_hw_addr_list = CStruct False [
     Member ''list'' struct_list_head None,
     Member ''count'' (CInt 4 True) None,
     Member ''tree'' struct_rb_root None]"

lemma struct_netdev_hw_addr_list_layout [ksize]:
  "sizeof struct_netdev_hw_addr_list = 32" "alignof struct_netdev_hw_addr_list = 8" "wf_ctype struct_netdev_hw_addr_list" "unpacked struct_netdev_hw_addr_list"
  by (simp_all add: struct_netdev_hw_addr_list_def layout_eval ksize)

abbreviation struct_kref :: ctype where
  "struct_kref \<equiv> CStruct False [
     Member ''refcount'' typedef_refcount_t None]"

definition struct_kobject :: ctype where
  "struct_kobject = CStruct False [
     Member ''name'' (CPtr ''char'') None,
     Member ''entry'' struct_list_head None,
     Member ''parent'' (CPtr ''struct kobject'') None,
     Member ''kset'' (CPtr ''struct kset'') None,
     Member ''ktype'' (CPtr ''struct kobj_type'') None,
     Member ''sd'' (CPtr ''struct kernfs_node'') None,
     Member ''kref'' struct_kref None,
     Member ''state_initialized'' (CInt 4 False) (Some 1),
     Member ''state_in_sysfs'' (CInt 4 False) (Some 1),
     Member ''state_add_uevent_sent'' (CInt 4 False) (Some 1),
     Member ''state_remove_uevent_sent'' (CInt 4 False) (Some 1),
     Member ''uevent_suppress'' (CInt 4 False) (Some 1)]"

lemma struct_kobject_layout [ksize]:
  "sizeof struct_kobject = 64" "alignof struct_kobject = 8" "wf_ctype struct_kobject" "unpacked struct_kobject"
  by (simp_all add: struct_kobject_def layout_eval ksize)

abbreviation struct_dev_links_info :: ctype where
  "struct_dev_links_info \<equiv> CStruct False [
     Member ''suppliers'' struct_list_head None,
     Member ''consumers'' struct_list_head None,
     Member ''defer_sync'' struct_list_head None,
     Member ''status'' CEnum None]"

abbreviation struct_pm_message :: ctype where
  "struct_pm_message \<equiv> CStruct False [
     Member ''event'' (CInt 4 True) None]"

abbreviation typedef_pm_message_t :: ctype where
  "typedef_pm_message_t \<equiv> struct_pm_message"

abbreviation struct_swait_queue_head :: ctype where
  "struct_swait_queue_head \<equiv> CStruct False [
     Member ''lock'' typedef_raw_spinlock_t None,
     Member ''task_list'' struct_list_head None]"

abbreviation struct_completion :: ctype where
  "struct_completion \<equiv> CStruct False [
     Member ''done'' (CInt 4 False) None,
     Member ''wait'' struct_swait_queue_head None]"

definition struct_dev_pm_info :: ctype where
  "struct_dev_pm_info = CStruct False [
     Member ''power_state'' typedef_pm_message_t None,
     Member ''can_wakeup'' (CInt 4 False) (Some 1),
     Member ''async_suspend'' (CInt 4 False) (Some 1),
     Member ''in_dpm_list'' typedef_bool (Some 1),
     Member ''is_prepared'' typedef_bool (Some 1),
     Member ''is_suspended'' typedef_bool (Some 1),
     Member ''is_noirq_suspended'' typedef_bool (Some 1),
     Member ''is_late_suspended'' typedef_bool (Some 1),
     Member ''no_pm'' typedef_bool (Some 1),
     Member ''early_init'' typedef_bool (Some 1),
     Member ''direct_complete'' typedef_bool (Some 1),
     Member ''driver_flags'' typedef_u32 None,
     Member ''lock'' typedef_spinlock_t None,
     Member ''entry'' struct_list_head None,
     Member ''completion'' struct_completion None,
     Member ''wakeup'' (CPtr ''struct wakeup_source'') None,
     Member ''wakeup_path'' typedef_bool (Some 1),
     Member ''syscore'' typedef_bool (Some 1),
     Member ''no_pm_callbacks'' typedef_bool (Some 1),
     Member ''async_in_progress'' typedef_bool (Some 1),
     Member ''must_resume'' (CInt 4 False) (Some 1),
     Member ''may_skip_resume'' (CInt 4 False) (Some 1),
     Member ''suspend_timer'' struct_hrtimer None,
     Member ''timer_expires'' typedef_u64 None,
     Member ''work'' struct_work_struct None,
     Member ''wait_queue'' typedef_wait_queue_head_t None,
     Member ''wakeirq'' (CPtr ''struct wake_irq'') None,
     Member ''usage_count'' typedef_atomic_t None,
     Member ''child_count'' typedef_atomic_t None,
     Member ''disable_depth'' (CInt 4 False) (Some 3),
     Member ''idle_notification'' (CInt 4 False) (Some 1),
     Member ''request_pending'' (CInt 4 False) (Some 1),
     Member ''deferred_resume'' (CInt 4 False) (Some 1),
     Member ''needs_force_resume'' (CInt 4 False) (Some 1),
     Member ''runtime_auto'' (CInt 4 False) (Some 1),
     Member ''ignore_children'' typedef_bool (Some 1),
     Member ''no_callbacks'' (CInt 4 False) (Some 1),
     Member ''irq_safe'' (CInt 4 False) (Some 1),
     Member ''use_autosuspend'' (CInt 4 False) (Some 1),
     Member ''timer_autosuspends'' (CInt 4 False) (Some 1),
     Member ''memalloc_noio'' (CInt 4 False) (Some 1),
     Member ''links_count'' (CInt 4 False) None,
     Member ''request'' CEnum None,
     Member ''runtime_status'' CEnum None,
     Member ''last_status'' CEnum None,
     Member ''runtime_error'' (CInt 4 True) None,
     Member ''autosuspend_delay'' (CInt 4 True) None,
     Member ''last_busy'' typedef_u64 None,
     Member ''active_time'' typedef_u64 None,
     Member ''suspended_time'' typedef_u64 None,
     Member ''accounting_timestamp'' typedef_u64 None,
     Member ''subsys_data'' (CPtr ''struct pm_subsys_data'') None,
     Member ''set_latency_tolerance'' (CPtr ''fn'') None,
     Member ''qos'' (CPtr ''struct dev_pm_qos'') None]"

lemma struct_dev_pm_info_layout [ksize]:
  "sizeof struct_dev_pm_info = 312" "alignof struct_dev_pm_info = 8" "wf_ctype struct_dev_pm_info" "unpacked struct_dev_pm_info"
  by (simp_all add: struct_dev_pm_info_def layout_eval ksize)

abbreviation struct_dev_msi_info :: ctype where
  "struct_dev_msi_info \<equiv> CStruct False [
     Member ''domain'' (CPtr ''struct irq_domain'') None,
     Member ''data'' (CPtr ''struct msi_device_data'') None]"

definition struct_dev_archdata :: ctype where
  "struct_dev_archdata = CStruct False []"

lemma struct_dev_archdata_layout [ksize]:
  "sizeof struct_dev_archdata = 0" "alignof struct_dev_archdata = 1" "wf_ctype struct_dev_archdata" "unpacked struct_dev_archdata"
  by (simp_all add: struct_dev_archdata_def layout_eval ksize)

abbreviation typedef___kernel_dev_t :: ctype where
  "typedef___kernel_dev_t \<equiv> typedef_u32"

abbreviation typedef_dev_t :: ctype where
  "typedef_dev_t \<equiv> typedef___kernel_dev_t"

definition struct_device :: ctype where
  "struct_device = CStruct False [
     Member ''kobj'' struct_kobject None,
     Member ''parent'' (CPtr ''struct device'') None,
     Member ''p'' (CPtr ''struct device_private'') None,
     Member ''init_name'' (CPtr ''char'') None,
     Member ''type'' (CPtr ''struct device_type'') None,
     Member ''bus'' (CPtr ''struct bus_type'') None,
     Member ''driver'' (CPtr ''struct device_driver'') None,
     Member ''platform_data'' (CPtr ''void'') None,
     Member ''driver_data'' (CPtr ''void'') None,
     Member ''mutex'' struct_mutex None,
     Member ''links'' struct_dev_links_info None,
     Member ''power'' struct_dev_pm_info None,
     Member ''pm_domain'' (CPtr ''struct dev_pm_domain'') None,
     Member ''em_pd'' (CPtr ''struct em_perf_domain'') None,
     Member ''pins'' (CPtr ''struct dev_pin_info'') None,
     Member ''msi'' struct_dev_msi_info None,
     Member ''dma_ops'' (CPtr ''struct dma_map_ops'') None,
     Member ''dma_mask'' (CPtr ''u64'') None,
     Member ''coherent_dma_mask'' typedef_u64 None,
     Member ''bus_dma_limit'' typedef_u64 None,
     Member ''dma_range_map'' (CPtr ''struct bus_dma_region'') None,
     Member ''dma_parms'' (CPtr ''struct device_dma_parameters'') None,
     Member ''dma_pools'' struct_list_head None,
     Member ''dma_io_tlb_mem'' (CPtr ''struct io_tlb_mem'') None,
     Member ''dma_io_tlb_pools'' struct_list_head None,
     Member ''dma_io_tlb_lock'' typedef_spinlock_t None,
     Member ''dma_uses_io_tlb'' typedef_bool None,
     Member ''archdata'' struct_dev_archdata None,
     Member ''of_node'' (CPtr ''struct device_node'') None,
     Member ''fwnode'' (CPtr ''struct fwnode_handle'') None,
     Member ''numa_node'' (CInt 4 True) None,
     Member ''devt'' typedef_dev_t None,
     Member ''id'' typedef_u32 None,
     Member ''devres_lock'' typedef_spinlock_t None,
     Member ''devres_head'' struct_list_head None,
     Member ''class'' (CPtr ''struct class'') None,
     Member ''groups'' (CPtr ''struct attribute_group *'') None,
     Member ''release'' (CPtr ''fn'') None,
     Member ''iommu_group'' (CPtr ''struct iommu_group'') None,
     Member ''iommu'' (CPtr ''struct dev_iommu'') None,
     Member ''physical_location'' (CPtr ''struct device_physical_location'') None,
     Member ''removable'' CEnum None,
     Member ''offline_disabled'' typedef_bool (Some 1),
     Member ''offline'' typedef_bool (Some 1),
     Member ''of_node_reused'' typedef_bool (Some 1),
     Member ''state_synced'' typedef_bool (Some 1),
     Member ''can_match'' typedef_bool (Some 1)]"

lemma struct_device_layout [ksize]:
  "sizeof struct_device = 768" "alignof struct_device = 8" "wf_ctype struct_device" "unpacked struct_device"
  by (simp_all add: struct_device_def layout_eval ksize)

abbreviation struct_bpf_xdp_entity :: ctype where
  "struct_bpf_xdp_entity \<equiv> CStruct False [
     Member ''prog'' (CPtr ''struct bpf_prog'') None,
     Member ''link'' (CPtr ''struct bpf_xdp_link'') None]"

definition struct_net_device :: ctype where
  "struct_net_device = CStruct False [
     Member ''__cacheline_group_begin__net_device_read_tx'' (CArray typedef___u8 0) None,
     Member ''priv_flags'' (CInt 8 False) None,
     Member ''netdev_ops'' (CPtr ''struct net_device_ops'') None,
     Member ''header_ops'' (CPtr ''struct header_ops'') None,
     Member ''_tx'' (CPtr ''struct netdev_queue'') None,
     Member ''gso_partial_features'' typedef_netdev_features_t None,
     Member ''real_num_tx_queues'' (CInt 4 False) None,
     Member ''gso_max_size'' (CInt 4 False) None,
     Member ''gso_ipv4_max_size'' (CInt 4 False) None,
     Member ''gso_max_segs'' typedef_u16 None,
     Member ''num_tc'' typedef_s16 None,
     Member ''mtu'' (CInt 4 False) None,
     Member ''needed_headroom'' (CInt 2 False) None,
     Member ''tc_to_txq'' (CArray struct_netdev_tc_txq 16) None,
     Member ''xps_maps'' (CArray (CPtr ''struct xps_dev_maps'') 2) None,
     Member ''nf_hooks_egress'' (CPtr ''struct nf_hook_entries'') None,
     Member ''tcx_egress'' (CPtr ''struct bpf_mprog_entry'') None,
     Member ''__cacheline_group_end__net_device_read_tx'' (CArray typedef___u8 0) None,
     Member ''__cacheline_group_begin__net_device_read_txrx'' (CArray typedef___u8 0) None,
     Member '''' (CUnion False [
       Member ''lstats'' (CPtr ''struct pcpu_lstats'') None,
       Member ''tstats'' (CPtr ''struct pcpu_sw_netstats'') None,
       Member ''dstats'' (CPtr ''struct pcpu_dstats'') None]) None,
     Member ''state'' (CInt 8 False) None,
     Member ''flags'' (CInt 4 False) None,
     Member ''hard_header_len'' (CInt 2 False) None,
     Member ''features'' typedef_netdev_features_t None,
     Member ''ip6_ptr'' (CPtr ''struct inet6_dev'') None,
     Member ''__cacheline_group_end__net_device_read_txrx'' (CArray typedef___u8 0) None,
     Member ''__cacheline_group_begin__net_device_read_rx'' (CArray typedef___u8 0) None,
     Member ''xdp_prog'' (CPtr ''struct bpf_prog'') None,
     Member ''ptype_specific'' struct_list_head None,
     Member ''ifindex'' (CInt 4 True) None,
     Member ''real_num_rx_queues'' (CInt 4 False) None,
     Member ''_rx'' (CPtr ''struct netdev_rx_queue'') None,
     Member ''gro_flush_timeout'' (CInt 8 False) None,
     Member ''napi_defer_hard_irqs'' typedef_u32 None,
     Member ''gro_max_size'' (CInt 4 False) None,
     Member ''gro_ipv4_max_size'' (CInt 4 False) None,
     Member ''rx_handler'' (CPtr ''rx_handler_func_t'') None,
     Member ''rx_handler_data'' (CPtr ''void'') None,
     Member ''nd_net'' typedef_possible_net_t None,
     Member ''npinfo'' (CPtr ''struct netpoll_info'') None,
     Member ''tcx_ingress'' (CPtr ''struct bpf_mprog_entry'') None,
     Member ''__cacheline_group_end__net_device_read_rx'' (CArray typedef___u8 0) None,
     Member ''name'' (CArray (CInt 1 True) 16) None,
     Member ''name_node'' (CPtr ''struct netdev_name_node'') None,
     Member ''ifalias'' (CPtr ''struct dev_ifalias'') None,
     Member ''mem_end'' (CInt 8 False) None,
     Member ''mem_start'' (CInt 8 False) None,
     Member ''base_addr'' (CInt 8 False) None,
     Member ''dev_list'' struct_list_head None,
     Member ''napi_list'' struct_list_head None,
     Member ''unreg_list'' struct_list_head None,
     Member ''close_list'' struct_list_head None,
     Member ''ptype_all'' struct_list_head None,
     Member ''adj_list'' (CStruct False [
       Member ''upper'' struct_list_head None,
       Member ''lower'' struct_list_head None]) None,
     Member ''xdp_features'' typedef_xdp_features_t None,
     Member ''xdp_metadata_ops'' (CPtr ''struct xdp_metadata_ops'') None,
     Member ''xsk_tx_metadata_ops'' (CPtr ''struct xsk_tx_metadata_ops'') None,
     Member ''gflags'' (CInt 2 False) None,
     Member ''needed_tailroom'' (CInt 2 False) None,
     Member ''hw_features'' typedef_netdev_features_t None,
     Member ''wanted_features'' typedef_netdev_features_t None,
     Member ''vlan_features'' typedef_netdev_features_t None,
     Member ''hw_enc_features'' typedef_netdev_features_t None,
     Member ''mpls_features'' typedef_netdev_features_t None,
     Member ''min_mtu'' (CInt 4 False) None,
     Member ''max_mtu'' (CInt 4 False) None,
     Member ''type'' (CInt 2 False) None,
     Member ''min_header_len'' (CInt 1 False) None,
     Member ''name_assign_type'' (CInt 1 False) None,
     Member ''group'' (CInt 4 True) None,
     Member ''stats'' struct_net_device_stats None,
     Member ''core_stats'' (CPtr ''struct net_device_core_stats'') None,
     Member ''carrier_up_count'' typedef_atomic_t None,
     Member ''carrier_down_count'' typedef_atomic_t None,
     Member ''wireless_handlers'' (CPtr ''struct iw_handler_def'') None,
     Member ''wireless_data'' (CPtr ''struct iw_public_data'') None,
     Member ''ethtool_ops'' (CPtr ''struct ethtool_ops'') None,
     Member ''l3mdev_ops'' (CPtr ''struct l3mdev_ops'') None,
     Member ''ndisc_ops'' (CPtr ''struct ndisc_ops'') None,
     Member ''xfrmdev_ops'' (CPtr ''struct xfrmdev_ops'') None,
     Member ''tlsdev_ops'' (CPtr ''struct tlsdev_ops'') None,
     Member ''operstate'' (CInt 1 False) None,
     Member ''link_mode'' (CInt 1 False) None,
     Member ''if_port'' (CInt 1 False) None,
     Member ''dma'' (CInt 1 False) None,
     Member ''perm_addr'' (CArray (CInt 1 False) 32) None,
     Member ''addr_assign_type'' (CInt 1 False) None,
     Member ''addr_len'' (CInt 1 False) None,
     Member ''upper_level'' (CInt 1 False) None,
     Member ''lower_level'' (CInt 1 False) None,
     Member ''neigh_priv_len'' (CInt 2 False) None,
     Member ''dev_id'' (CInt 2 False) None,
     Member ''dev_port'' (CInt 2 False) None,
     Member ''padded'' (CInt 2 False) None,
     Member ''addr_list_lock'' typedef_spinlock_t None,
     Member ''irq'' (CInt 4 True) None,
     Member ''uc'' struct_netdev_hw_addr_list None,
     Member ''mc'' struct_netdev_hw_addr_list None,
     Member ''dev_addrs'' struct_netdev_hw_addr_list None,
     Member ''queues_kset'' (CPtr ''struct kset'') None,
     Member ''promiscuity'' (CInt 4 False) None,
     Member ''allmulti'' (CInt 4 False) None,
     Member ''uc_promisc'' typedef_bool None,
     Member ''ip_ptr'' (CPtr ''struct in_device'') None,
     Member ''vlan_info'' (CPtr ''struct vlan_info'') None,
     Member ''dsa_ptr'' (CPtr ''struct dsa_port'') None,
     Member ''tipc_ptr'' (CPtr ''struct tipc_bearer'') None,
     Member ''atalk_ptr'' (CPtr ''void'') None,
     Member ''ax25_ptr'' (CPtr ''struct ax25_dev'') None,
     Member ''ieee80211_ptr'' (CPtr ''struct wireless_dev'') None,
     Member ''ieee802154_ptr'' (CPtr ''struct wpan_dev'') None,
     Member ''mpls_ptr'' (CPtr ''struct mpls_dev'') None,
     Member ''mctp_ptr'' (CPtr ''struct mctp_dev'') None,
     Member ''dev_addr'' (CPtr ''unsigned char'') None,
     Member ''num_rx_queues'' (CInt 4 False) None,
     Member ''xdp_zc_max_segs'' (CInt 4 False) None,
     Member ''ingress_queue'' (CPtr ''struct netdev_queue'') None,
     Member ''nf_hooks_ingress'' (CPtr ''struct nf_hook_entries'') None,
     Member ''broadcast'' (CArray (CInt 1 False) 32) None,
     Member ''rx_cpu_rmap'' (CPtr ''struct cpu_rmap'') None,
     Member ''index_hlist'' struct_hlist_node None,
     Member ''num_tx_queues'' (CInt 4 False) None,
     Member ''qdisc'' (CPtr ''struct Qdisc'') None,
     Member ''tx_queue_len'' (CInt 4 False) None,
     Member ''tx_global_lock'' typedef_spinlock_t None,
     Member ''xdp_bulkq'' (CPtr ''struct xdp_dev_bulk_queue'') None,
     Member ''qdisc_hash'' (CArray struct_hlist_head 16) None,
     Member ''watchdog_timer'' struct_timer_list None,
     Member ''watchdog_timeo'' (CInt 4 True) None,
     Member ''proto_down_reason'' typedef_u32 None,
     Member ''todo_list'' struct_list_head None,
     Member ''pcpu_refcnt'' (CPtr ''int'') None,
     Member ''refcnt_tracker'' struct_ref_tracker_dir None,
     Member ''link_watch_list'' struct_list_head None,
     Member ''reg_state'' CEnum (Some 8),
     Member ''dismantle'' typedef_bool None,
     Member ''rtnl_link_state'' CEnum (Some 16),
     Member ''needs_free_netdev'' typedef_bool None,
     Member ''priv_destructor'' (CPtr ''fn'') None,
     Member ''ml_priv'' (CPtr ''void'') None,
     Member ''ml_priv_type'' CEnum None,
     Member ''pcpu_stat_type'' CEnum (Some 8),
     Member ''garp_port'' (CPtr ''struct garp_port'') None,
     Member ''mrp_port'' (CPtr ''struct mrp_port'') None,
     Member ''dm_private'' (CPtr ''struct dm_hw_stat_delta'') None,
     Member ''dev'' struct_device None,
     Member ''sysfs_groups'' (CArray (CPtr ''struct attribute_group'') 4) None,
     Member ''sysfs_rx_queue_group'' (CPtr ''struct attribute_group'') None,
     Member ''rtnl_link_ops'' (CPtr ''struct rtnl_link_ops'') None,
     Member ''tso_max_size'' (CInt 4 False) None,
     Member ''tso_max_segs'' typedef_u16 None,
     Member ''dcbnl_ops'' (CPtr ''struct dcbnl_rtnl_ops'') None,
     Member ''prio_tc_map'' (CArray typedef_u8 16) None,
     Member ''fcoe_ddp_xid'' (CInt 4 False) None,
     Member ''priomap'' (CPtr ''struct netprio_map'') None,
     Member ''phydev'' (CPtr ''struct phy_device'') None,
     Member ''sfp_bus'' (CPtr ''struct sfp_bus'') None,
     Member ''qdisc_tx_busylock'' (CPtr ''struct lock_class_key'') None,
     Member ''proto_down'' typedef_bool None,
     Member ''wol_enabled'' (CInt 4 False) (Some 1),
     Member ''threaded'' (CInt 4 False) (Some 1),
     Member ''net_notifier_list'' struct_list_head None,
     Member ''macsec_ops'' (CPtr ''struct macsec_ops'') None,
     Member ''udp_tunnel_nic_info'' (CPtr ''struct udp_tunnel_nic_info'') None,
     Member ''udp_tunnel_nic'' (CPtr ''struct udp_tunnel_nic'') None,
     Member ''xdp_state'' (CArray struct_bpf_xdp_entity 3) None,
     Member ''dev_addr_shadow'' (CArray typedef_u8 32) None,
     Member ''linkwatch_dev_tracker'' typedef_netdevice_tracker None,
     Member ''watchdog_dev_tracker'' typedef_netdevice_tracker None,
     Member ''dev_registered_tracker'' typedef_netdevice_tracker None,
     Member ''offload_xstats_l3'' (CPtr ''struct rtnl_hw_stats64'') None,
     Member ''devlink_port'' (CPtr ''struct devlink_port'') None,
     Member ''dpll_pin'' (CPtr ''struct dpll_pin'') None,
     Member ''page_pools'' struct_hlist_head None]"

lemma struct_net_device_layout [ksize]:
  "sizeof struct_net_device = 2512" "alignof struct_net_device = 8" "wf_ctype struct_net_device" "unpacked struct_net_device"
  by (simp_all add: struct_net_device_def layout_eval ksize)

end
