(* ===== verification/Kernel_Bpf.thy ===== *)
theory Kernel_Bpf
  imports Kernel_Net
begin

text \<open>
  Types of the kernel header \<open>src/agent/ebpf/bpf/vmlinux.h\<close>:
  the kernel objects behind the two maps of
  \<open>tcp_metrics.bpf.c\<close> (\<open>bpf_ringbuf_map\<close> for \<open>events\<close>, \<open>bpf_htab\<close> for
  \<open>connect_starts\<close>) and behind its loaded and attached programs (\<open>bpf_prog\<close>,
  \<open>kprobe\<close>, \<open>kretprobe\<close>).
  One definition per declaration, member by member in the order of the header, and one lemma per
  definition with what the layout of \<open>CLayout\<close> computes for it; small declarations that
  are used in few places are abbreviations.
\<close>

abbreviation struct_rcuwait :: ctype where
  "struct_rcuwait \<equiv> CStruct False [
     Member ''task'' (CPtr ''struct task_struct'') None]"

abbreviation struct_irq_work :: ctype where
  "struct_irq_work \<equiv> CStruct False [
     Member ''node'' struct___call_single_node None,
     Member ''func'' (CPtr ''fn'') None,
     Member ''irqwait'' struct_rcuwait None]"

definition struct_bpf_ringbuf :: ctype where
  "struct_bpf_ringbuf = CStruct False [
     Member ''waitq'' typedef_wait_queue_head_t None,
     Member ''work'' struct_irq_work None,
     Member ''mask'' typedef_u64 None,
     Member ''pages'' (CPtr ''struct page *'') None,
     Member ''nr_pages'' (CInt 4 True) None,
     Member '''' (CInt 8 True) (Some 64),
     Member '''' (CInt 8 True) (Some 64),
     Member '''' (CInt 8 True) (Some 64),
     Member '''' (CInt 8 True) (Some 64),
     Member '''' (CInt 8 True) (Some 64),
     Member '''' (CInt 8 True) (Some 64),
     Member ''spinlock'' typedef_raw_spinlock_t None,
     Member '''' (CInt 8 True) (Some 64),
     Member '''' (CInt 8 True) (Some 64),
     Member '''' (CInt 8 True) (Some 64),
     Member '''' (CInt 8 True) (Some 64),
     Member '''' (CInt 8 True) (Some 64),
     Member '''' (CInt 8 True) (Some 64),
     Member '''' (CInt 8 True) (Some 64),
     Member ''busy'' typedef_atomic_t None,
     Member '''' (CInt 8 True) (Some 64),
     Member '''' (CInt 8 True) (Some 64),
     Member '''' (CInt 8 True) (Some 64),
     Member '''' (CInt 8 True) (Some 64),
     Member '''' (CInt 8 True) (Some 64),
     Member '''' (CInt 8 True) (Some 64),
     Member '''' (CInt 8 True) (Some 64),
     Member '''' (CInt 8 True) (Some 64),
     Member '''' (CInt 8 True) (Some 64),
     Member '''' (CInt 8 True) (Some 64),
     Member '''' (CInt 8 True) (Some 64),
     Member '''' (CInt 8 True) (Some 64),
     Member '''' (CInt 8 True) (Some 64),
     Member '''' (CInt 8 True) (Some 64),
     Member '''' (CInt 8 True) (Some 64),
     Member '''' (CInt 8 True) (Some 64),
     Member '''' (CInt 8 True) (Some 64),
     Member '''' (CInt 8 True) (Some 64),
     Member '''' (CInt 8 True) (Some 64),
     Member '''' (CInt 8 True) (Some 64),
     Member '''' (CInt 8 True) (Some 64),
     Member '''' (CInt 8 True) (Some 64),
     Member '''' (CInt 8 True) (Some 64),
     Member '''' (CInt 8 True) (Some 64),
     Member '''' (CInt 8 True) (Some 64),
     Member '''' (CInt 8 True) (Some 64),
     Member '''' (CInt 8 True) (Some 64),
     Member '''' (CInt 8 True) (Some 64),
     Member '''' (CInt 8 True) (Some 64),
     Member '''' (CInt 8 True) (Some 64),
     Member '''' (CInt 8 True) (Some 64),
     Member '''' (CInt 8 True) (Some 64),
     Member '''' (CInt 8 True) (Some 64),
     Member '''' (CInt 8 True) (Some 64),
     Member '''' (CInt 8 True) (Some 64),
     Member '''' (CInt 8 True) (Some 64),
     Member '''' (CInt 8 True) (Some 64),
     Member '''' (CInt 8 True) (Some 64),
     Member '''' (CInt 8 True) (Some 64),
     Member '''' (CInt 8 True) (Some 64),
     Member '''' (CInt 8 True) (Some 64),
     Member '''' (CInt 8 True) (Some 64),
     Member '''' (CInt 8 True) (Some 64),
     Member '''' (CInt 8 True) (Some 64),
     Member '''' (CInt 8 True) (Some 64),
     Member '''' (CInt 8 True) (Some 64),
     Member '''' (CInt 8 True) (Some 64),
     Member '''' (CInt 8 True) (Some 64),
     Member '''' (CInt 8 True) (Some 64),
     Member '''' (CInt 8 True) (Some 64),
     Member '''' (CInt 8 True) (Some 64),
     Member '''' (CInt 8 True) (Some 64),
     Member '''' (CInt 8 True) (Some 64),
     Member '''' (CInt 8 True) (Some 64),
     Member '''' (CInt 8 True) (Some 64),
     Member '''' (CInt 8 True) (Some 64),
     Member '''' (CInt 8 True) (Some 64),
     Member '''' (CInt 8 True) (Some 64),
     Member '''' (CInt 8 True) (Some 64),
     Member '''' (CInt 8 True) (Some 64),
     Member '''' (CInt 8 True) (Some 64),
     Member '''' (CInt 8 True) (Some 64),
     Member '''' (CInt 8 True) (Some 64),
     Member '''' (CInt 8 True) (Some 64),
     Member '''' (CInt 8 True) (Some 64),
     Member '''' (CInt 8 True) (Some 64),
     Member '''' (CInt 8 True) (Some 64),
     Member '''' (CInt 8 True) (Some 64),
     Member '''' (CInt 8 True) (Some 64),
     Member '''' (CInt 8 True) (Some 64),
     Member '''' (CInt 8 True) (Some 64),
     Member '''' (CInt 8 True) (Some 64),
     Member '''' (CInt 8 True) (Some 64),
     Member '''' (CInt 8 True) (Some 64),
     Member '''' (CInt 8 True) (Some 64),
     Member '''' (CInt 8 True) (Some 64),
     Member '''' (CInt 8 True) (Some 64),
     Member '''' (CInt 8 True) (Some 64),
     Member '''' (CInt 8 True) (Some 64),
     Member '''' (CInt 8 True) (Some 64),
     Member '''' (CInt 8 True) (Some 64),
     Member '''' (CInt 8 True) (Some 64),
     Member '''' (CInt 8 True) (Some 64),
     Member '''' (CInt 8 True) (Some 64),
     Member '''' (CInt 8 True) (Some 64),
     Member '''' (CInt 8 True) (Some 64),
     Member '''' (CInt 8 True) (Some 64),
     Member '''' (CInt 8 True) (Some 64),
     Member '''' (CInt 8 True) (Some 64),
     Member '''' (CInt 8 True) (Some 64),
     Member '''' (CInt 8 True) (Some 64),
     Member '''' (CInt 8 True) (Some 64),
     Member '''' (CInt 8 True) (Some 64),
     Member '''' (CInt 8 True) (Some 64),
     Member '''' (CInt 8 True) (Some 64),
     Member '''' (CInt 8 True) (Some 64),
     Member '''' (CInt 8 True) (Some 64),
     Member '''' (CInt 8 True) (Some 64),
     Member '''' (CInt 8 True) (Some 64),
     Member '''' (CInt 8 True) (Some 64),
     Member '''' (CInt 8 True) (Some 64),
     Member '''' (CInt 8 True) (Some 64),
     Member '''' (CInt 8 True) (Some 64),
     Member '''' (CInt 8 True) (Some 64),
     Member '''' (CInt 8 True) (Some 64),
     Member '''' (CInt 8 True) (Some 64),
     Member '''' (CInt 8 True) (Some 64),
     Member '''' (CInt 8 True) (Some 64),
     Member '''' (CInt 8 True) (Some 64),
     Member '''' (CInt 8 True) (Some 64),
     Member '''' (CInt 8 True) (Some 64),
     Member '''' (CInt 8 True) (Some 64),
     Member '''' (CInt 8 True) (Some 64),
     Member '''' (CInt 8 True) (Some 64),
     Member '''' (CInt 8 True) (Some 64),
     Member '''' (CInt 8 True) (Some 64),
     Member '''' (CInt 8 True) (Some 64),
     Member '''' (CInt 8 True) (Some 64),
     Member '''' (CInt 8 True) (Some 64),
     Member '''' (CInt 8 True) (Some 64),
     Member '''' (CInt 8 True) (Some 64),
     Member '''' (CInt 8 True) (Some 64),
     Member '''' (CInt 8 True) (Some 64),
     Member '''' (CInt 8 True) (Some 64),
     Member '''' (CInt 8 True) (Some 64),
     Member '''' (CInt 8 True) (Some 64),
     Member '''' (CInt 8 True) (Some 64),
     Member '''' (CInt 8 True) (Some 64),
     Member '''' (CInt 8 True) (Some 64),
     Member '''' (CInt 8 True) (Some 64),
     Member '''' (CInt 8 True) (Some 64),
     Member '''' (CInt 8 True) (Some 64),
     Member '''' (CInt 8 True) (Some 64),
     Member '''' (CInt 8 True) (Some 64),
     Member '''' (CInt 8 True) (Some 64),
     Member '''' (CInt 8 True) (Some 64),
     Member '''' (CInt 8 True) (Some 64),
     Member '''' (CInt 8 True) (Some 64),
     Member '''' (CInt 8 True) (Some 64),
     Member '''' (CInt 8 True) (Some 64),
     Member '''' (CInt 8 True) (Some 64),
     Member '''' (CInt 8 True) (Some 64),
     Member '''' (CInt 8 True) (Some 64),
     Member '''' (CInt 8 True) (Some 64),
     Member '''' (CInt 8 True) (Some 64),
     Member '''' (CInt 8 True) (Some 64),
     Member '''' (CInt 8 True) (Some 64),
     Member '''' (CInt 8 True) (Some 64),
     Member '''' (CInt 8 True) (Some 64),
     Member '''' (CInt 8 True) (Some 64),
     Member '''' (CInt 8 True) (Some 64),
     Member '''' (CInt 8 True) (Some 64),
     Member '''' (CInt 8 True) (Some 64),
     Member '''' (CInt 8 True) (Some 64),
     Member '''' (CInt 8 True) (Some 64),
     Member '''' (CInt 8 True) (Some 64),
     Member '''' (CInt 8 True) (Some 64),
     Member '''' (CInt 8 True) (Some 64),
     Member '''' (CInt 8 True) (Some 64),
     Member '''' (CInt 8 True) (Some 64),
     Member '''' (CInt 8 True) (Some 64),
     Member '''' (CInt 8 True) (Some 64),
     Member '''' (CInt 8 True) (Some 64),
     Member '''' (CInt 8 True) (Some 64),
     Member '''' (CInt 8 True) (Some 64),
     Member '''' (CInt 8 True) (Some 64),
     Member '''' (CInt 8 True) (Some 64),
     Member '''' (CInt 8 True) (Some 64),
     Member '''' (CInt 8 True) (Some 64),
     Member '''' (CInt 8 True) (Some 64),
     Member '''' (CInt 8 True) (Some 64),
     Member '''' (CInt 8 True) (Some 64),
     Member '''' (CInt 8 True) (Some 64),
     Member '''' (CInt 8 True) (Some 64),
     Member '''' (CInt 8 True) (Some 64),
     Member '''' (CInt 8 True) (Some 64),
     Member '''' (CInt 8 True) (Some 64),
     Member '''' (CInt 8 True) (Some 64),
     Member '''' (CInt 8 True) (Some 64),
     Member '''' (CInt 8 True) (Some 64),
     Member '''' (CInt 8 True) (Some 64),
     Member '''' (CInt 8 True) (Some 64),
     Member '''' (CInt 8 True) (Some 64),
     Member '''' (CInt 8 True) (Some 64),
     Member '''' (CInt 8 True) (Some 64),
     Member '''' (CInt 8 True) (Some 64),
     Member '''' (CInt 8 True) (Some 64),
     Member '''' (CInt 8 True) (Some 64),
     Member '''' (CInt 8 True) (Some 64),
     Member '''' (CInt 8 True) (Some 64),
     Member '''' (CInt 8 True) (Some 64),
     Member '''' (CInt 8 True) (Some 64),
     Member '''' (CInt 8 True) (Some 64),
     Member '''' (CInt 8 True) (Some 64),
     Member '''' (CInt 8 True) (Some 64),
     Member '''' (CInt 8 True) (Some 64),
     Member '''' (CInt 8 True) (Some 64),
     Member '''' (CInt 8 True) (Some 64),
     Member '''' (CInt 8 True) (Some 64),
     Member '''' (CInt 8 True) (Some 64),
     Member '''' (CInt 8 True) (Some 64),
     Member '''' (CInt 8 True) (Some 64),
     Member '''' (CInt 8 True) (Some 64),
     Member '''' (CInt 8 True) (Some 64),
     Member '''' (CInt 8 True) (Some 64),
     Member '''' (CInt 8 True) (Some 64),
     Member '''' (CInt 8 True) (Some 64),
     Member '''' (CInt 8 True) (Some 64),
     Member '''' (CInt 8 True) (Some 64),
     Member '''' (CInt 8 True) (Some 64),
     Member '''' (CInt 8 True) (Some 64),
     Member '''' (CInt 8 True) (Some 64),
     Member '''' (CInt 8 True) (Some 64),
     Member '''' (CInt 8 True) (Some 64),
     Member '''' (CInt 8 True) (Some 64),
     Member '''' (CInt 8 True) (Some 64),
     Member '''' (CInt 8 True) (Some 64),
     Member '''' (CInt 8 True) (Some 64),
     Member '''' (CInt 8 True) (Some 64),
     Member '''' (CInt 8 True) (Some 64),
     Member '''' (CInt 8 True) (Some 64),
     Member '''' (CInt 8 True) (Some 64),
     Member '''' (CInt 8 True) (Some 64),
     Member '''' (CInt 8 True) (Some 64),
     Member '''' (CInt 8 True) (Some 64),
     Member '''' (CInt 8 True) (Some 64),
     Member '''' (CInt 8 True) (Some 64),
     Member '''' (CInt 8 True) (Some 64),
     Member '''' (CInt 8 True) (Some 64),
     Member '''' (CInt 8 True) (Some 64),
     Member '''' (CInt 8 True) (Some 64),
     Member '''' (CInt 8 True) (Some 64),
     Member '''' (CInt 8 True) (Some 64),
     Member '''' (CInt 8 True) (Some 64),
     Member '''' (CInt 8 True) (Some 64),
     Member '''' (CInt 8 True) (Some 64),
     Member '''' (CInt 8 True) (Some 64),
     Member '''' (CInt 8 True) (Some 64),
     Member '''' (CInt 8 True) (Some 64),
     Member '''' (CInt 8 True) (Some 64),
     Member '''' (CInt 8 True) (Some 64),
     Member '''' (CInt 8 True) (Some 64),
     Member '''' (CInt 8 True) (Some 64),
     Member '''' (CInt 8 True) (Some 64),
     Member '''' (CInt 8 True) (Some 64),
     Member '''' (CInt 8 True) (Some 64),
     Member '''' (CInt 8 True) (Some 64),
     Member '''' (CInt 8 True) (Some 64),
     Member '''' (CInt 8 True) (Some 64),
     Member '''' (CInt 8 True) (Some 64),
     Member '''' (CInt 8 True) (Some 64),
     Member '''' (CInt 8 True) (Some 64),
     Member '''' (CInt 8 True) (Some 64),
     Member '''' (CInt 8 True) (Some 64),
     Member '''' (CInt 8 True) (Some 64),
     Member '''' (CInt 8 True) (Some 64),
     Member '''' (CInt 8 True) (Some 64),
     Member '''' (CInt 8 True) (Some 64),
     Member '''' (CInt 8 True) (Some 64),
     Member '''' (CInt 8 True) (Some 64),
     Member '''' (CInt 8 True) (Some 64),
     Member '''' (CInt 8 True) (Some 64),
     Member '''' (CInt 8 True) (Some 64),
     Member '''' (CInt 8 True) (Some 64),
     Member '''' (CInt 8 True) (Some 64),
     Member '''' (CInt 8 True) (Some 64),
     Member '''' (CInt 8 True) (Some 64),
     Member '''' (CInt 8 True) (Some 64),
     Member '''' (CInt 8 True) (Some 64),
     Member '''' (CInt 8 True) (Some 64),
     Member '''' (CInt 8 True) (Some 64),
     Member '''' (CInt 8 True) (Some 64),
     Member '''' (CInt 8 True) (Some 64),
     Member '''' (CInt 8 True) (Some 64),
     Member '''' (CInt 8 True) (Some 64),
     Member '''' (CInt 8 True) (Some 64),
     Member '''' (CInt 8 True) (Some 64),
     Member '''' (CInt 8 True) (Some 64),
     Member '''' (CInt 8 True) (Some 64),
     Member '''' (CInt 8 True) (Some 64),
     Member '''' (CInt 8 True) (Some 64),
     Member '''' (CInt 8 True) (Some 64),
     Member '''' (CInt 8 True) (Some 64),
     Member '''' (CInt 8 True) (Some 64),
     Member '''' (CInt 8 True) (Some 64),
     Member '''' (CInt 8 True) (Some 64),
     Member '''' (CInt 8 True) (Some 64),
     Member '''' (CInt 8 True) (Some 64),
     Member '''' (CInt 8 True) (Some 64),
     Member '''' (CInt 8 True) (Some 64),
     Member '''' (CInt 8 True) (Some 64),
     Member '''' (CInt 8 True) (Some 64),
     Member '''' (CInt 8 True) (Some 64),
     Member '''' (CInt 8 True) (Some 64),
     Member '''' (CInt 8 True) (Some 64),
     Member '''' (CInt 8 True) (Some 64),
     Member '''' (CInt 8 True) (Some 64),
     Member '''' (CInt 8 True) (Some 64),
     Member '''' (CInt 8 True) (Some 64),
     Member '''' (CInt 8 True) (Some 64),
     Member '''' (CInt 8 True) (Some 64),
     Member '''' (CInt 8 True) (Some 64),
     Member '''' (CInt 8 True) (Some 64),
     Member '''' (CInt 8 True) (Some 64),
     Member '''' (CInt 8 True) (Some 64),
     Member '''' (CInt 8 True) (Some 64),
     Member '''' (CInt 8 True) (Some 64),
     Member '''' (CInt 8 True) (Some 64),
     Member '''' (CInt 8 True) (Some 64),
     Member '''' (CInt 8 True) (Some 64),
     Member '''' (CInt 8 True) (Some 64),
     Member '''' (CInt 8 True) (Some 64),
     Member '''' (CInt 8 True) (Some 64),
     Member '''' (CInt 8 True) (Some 64),
     Member '''' (CInt 8 True) (Some 64),
     Member '''' (CInt 8 True) (Some 64),
     Member '''' (CInt 8 True) (Some 64),
     Member '''' (CInt 8 True) (Some 64),
     Member '''' (CInt 8 True) (Some 64),
     Member '''' (CInt 8 True) (Some 64),
     Member '''' (CInt 8 True) (Some 64),
     Member '''' (CInt 8 True) (Some 64),
     Member '''' (CInt 8 True) (Some 64),
     Member '''' (CInt 8 True) (Some 64),
     Member '''' (CInt 8 True) (Some 64),
     Member '''' (CInt 8 True) (Some 64),
     Member '''' (CInt 8 True) (Some 64),
     Member '''' (CInt 8 True) (Some 64),
     Member '''' (CInt 8 True) (Some 64),
     Member '''' (CInt 8 True) (Some 64),
     Member '''' (CInt 8 True) (Some 64),
     Member '''' (CInt 8 True) (Some 64),
     Member '''' (CInt 8 True) (Some 64),
     Member '''' (CInt 8 True) (Some 64),
     Member '''' (CInt 8 True) (Some 64),
     Member '''' (CInt 8 True) (Some 64),
     Member '''' (CInt 8 True) (Some 64),
     Member '''' (CInt 8 True) (Some 64),
     Member '''' (CInt 8 True) (Some 64),
     Member '''' (CInt 8 True) (Some 64),
     Member '''' (CInt 8 True) (Some 64),
     Member '''' (CInt 8 True) (Some 64),
     Member '''' (CInt 8 True) (Some 64),
     Member '''' (CInt 8 True) (Some 64),
     Member '''' (CInt 8 True) (Some 64),
     Member '''' (CInt 8 True) (Some 64),
     Member '''' (CInt 8 True) (Some 64),
     Member '''' (CInt 8 True) (Some 64),
     Member '''' (CInt 8 True) (Some 64),
     Member '''' (CInt 8 True) (Some 64),
     Member '''' (CInt 8 True) (Some 64),
     Member '''' (CInt 8 True) (Some 64),
     Member '''' (CInt 8 True) (Some 64),
     Member '''' (CInt 8 True) (Some 64),
     Member '''' (CInt 8 True) (Some 64),
     Member '''' (CInt 8 True) (Some 64),
     Member '''' (CInt 8 True) (Some 64),
     Member '''' (CInt 8 True) (Some 64),
     Member '''' (CInt 8 True) (Some 64),
     Member '''' (CInt 8 True) (Some 64),
     Member '''' (CInt 8 True) (Some 64),
     Member '''' (CInt 8 True) (Some 64),
     Member '''' (CInt 8 True) (Some 64),
     Member '''' (CInt 8 True) (Some 64),
     Member '''' (CInt 8 True) (Some 64),
     Member '''' (CInt 8 True) (Some 64),
     Member '''' (CInt 8 True) (Some 64),
     Member '''' (CInt 8 True) (Some 64),
     Member '''' (CInt 8 True) (Some 64),
     Member '''' (CInt 8 True) (Some 64),
     Member '''' (CInt 8 True) (Some 64),
     Member '''' (CInt 8 True) (Some 64),
     Member '''' (CInt 8 True) (Some 64),
     Member '''' (CInt 8 True) (Some 64),
     Member '''' (CInt 8 True) (Some 64),
     Member '''' (CInt 8 True) (Some 64),
     Member '''' (CInt 8 True) (Some 64),
     Member '''' (CInt 8 True) (Some 64),
     Member '''' (CInt 8 True) (Some 64),
     Member '''' (CInt 8 True) (Some 64),
     Member '''' (CInt 8 True) (Some 64),
     Member '''' (CInt 8 True) (Some 64),
     Member '''' (CInt 8 True) (Some 64),
     Member '''' (CInt 8 True) (Some 64),
     Member '''' (CInt 8 True) (Some 64),
     Member '''' (CInt 8 True) (Some 64),
     Member '''' (CInt 8 True) (Some 64),
     Member '''' (CInt 8 True) (Some 64),
     Member '''' (CInt 8 True) (Some 64),
     Member '''' (CInt 8 True) (Some 64),
     Member '''' (CInt 8 True) (Some 64),
     Member '''' (CInt 8 True) (Some 64),
     Member '''' (CInt 8 True) (Some 64),
     Member '''' (CInt 8 True) (Some 64),
     Member '''' (CInt 8 True) (Some 64),
     Member '''' (CInt 8 True) (Some 64),
     Member '''' (CInt 8 True) (Some 64),
     Member '''' (CInt 8 True) (Some 64),
     Member '''' (CInt 8 True) (Some 64),
     Member '''' (CInt 8 True) (Some 64),
     Member '''' (CInt 8 True) (Some 64),
     Member '''' (CInt 8 True) (Some 64),
     Member '''' (CInt 8 True) (Some 64),
     Member '''' (CInt 8 True) (Some 64),
     Member '''' (CInt 8 True) (Some 64),
     Member '''' (CInt 8 True) (Some 64),
     Member '''' (CInt 8 True) (Some 64),
     Member '''' (CInt 8 True) (Some 64),
     Member '''' (CInt 8 True) (Some 64),
     Member '''' (CInt 8 True) (Some 64),
     Member '''' (CInt 8 True) (Some 64),
     Member '''' (CInt 8 True) (Some 64),
     Member '''' (CInt 8 True) (Some 64),
     Member '''' (CInt 8 True) (Some 64),
     Member '''' (CInt 8 True) (Some 64),
     Member '''' (CInt 8 True) (Some 64),
     Member '''' (CInt 8 True) (Some 64),
     Member '''' (CInt 8 True) (Some 64),
     Member '''' (CInt 8 True) (Some 64),
     Member '''' (CInt 8 True) (Some 64),
     Member '''' (CInt 8 True) (Some 64),
     Member '''' (CInt 8 True) (Some 64),
     Member '''' (CInt 8 True) (Some 64),
     Member '''' (CInt 8 True) (Some 64),
     Member '''' (CInt 8 True) (Some 64),
     Member '''' (CInt 8 True) (Some 64),
     Member '''' (CInt 8 True) (Some 64),
     Member '''' (CInt 8 True) (Some 64),
     Member '''' (CInt 8 True) (Some 64),
     Member '''' (CInt 8 True) (Some 64),
     Member '''' (CInt 8 True) (Some 64),
     Member '''' (CInt 8 True) (Some 64),
     Member '''' (CInt 8 True) (Some 64),
     Member '''' (CInt 8 True) (Some 64),
     Member '''' (CInt 8 True) (Some 64),
     Member '''' (CInt 8 True) (Some 64),
     Member '''' (CInt 8 True) (Some 64),
     Member '''' (CInt 8 True) (Some 64),
     Member '''' (CInt 8 True) (Some 64),
     Member '''' (CInt 8 True) (Some 64),
     Member '''' (CInt 8 True) (Some 64),
     Member '''' (CInt 8 True) (Some 64),
     Member '''' (CInt 8 True) (Some 64),
     Member '''' (CInt 8 True) (Some 64),
     Member '''' (CInt 8 True) (Some 64),
     Member '''' (CInt 8 True) (Some 64),
     Member '''' (CInt 8 True) (Some 64),
     Member '''' (CInt 8 True) (Some 64),
     Member '''' (CInt 8 True) (Some 64),
     Member '''' (CInt 8 True) (Some 64),
     Member '''' (CInt 8 True) (Some 64),
     Member '''' (CInt 8 True) (Some 64),
     Member '''' (CInt 8 True) (Some 64),
     Member '''' (CInt 8 True) (Some 64),
     Member '''' (CInt 8 True) (Some 64),
     Member '''' (CInt 8 True) (Some 64),
     Member '''' (CInt 8 True) (Some 64),
     Member '''' (CInt 8 True) (Some 64),
     Member '''' (CInt 8 True) (Some 64),
     Member '''' (CInt 8 True) (Some 64),
     Member '''' (CInt 8 True) (Some 64),
     Member '''' (CInt 8 True) (Some 64),
     Member '''' (CInt 8 True) (Some 64),
     Member '''' (CInt 8 True) (Some 64),
     Member '''' (CInt 8 True) (Some 64),
     Member '''' (CInt 8 True) (Some 64),
     Member '''' (CInt 8 True) (Some 64),
     Member '''' (CInt 8 True) (Some 64),
     Member '''' (CInt 8 True) (Some 64),
     Member '''' (CInt 8 True) (Some 64),
     Member '''' (CInt 8 True) (Some 64),
     Member '''' (CInt 8 True) (Some 64),
     Member '''' (CInt 8 True) (Some 64),
     Member '''' (CInt 8 True) (Some 64),
     Member '''' (CInt 8 True) (Some 64),
     Member '''' (CInt 8 True) (Some 64),
     Member '''' (CInt 8 True) (Some 64),
     Member '''' (CInt 8 True) (Some 64),
     Member '''' (CInt 8 True) (Some 64),
     Member '''' (CInt 8 True) (Some 64),
     Member '''' (CInt 8 True) (Some 64),
     Member '''' (CInt 8 True) (Some 64),
     Member '''' (CInt 8 True) (Some 64),
     Member '''' (CInt 8 True) (Some 64),
     Member '''' (CInt 8 True) (Some 64),
     Member '''' (CInt 8 True) (Some 64),
     Member '''' (CInt 8 True) (Some 64),
     Member ''consumer_pos'' (CInt 8 False) None,
     Member '''' (CInt 8 True) (Some 64),
     Member '''' (CInt 8 True) (Some 64),
     Member '''' (CInt 8 True) (Some 64),
     Member '''' (CInt 8 True) (Some 64),
     Member '''' (CInt 8 True) (Some 64),
     Member '''' (CInt 8 True) (Some 64),
     Member '''' (CInt 8 True) (Some 64),
     Member '''' (CInt 8 True) (Some 64),
     Member '''' (CInt 8 True) (Some 64),
     Member '''' (CInt 8 True) (Some 64),
     Member '''' (CInt 8 True) (Some 64),
     Member '''' (CInt 8 True) (Some 64),
     Member '''' (CInt 8 True) (Some 64),
     Member '''' (CInt 8 True) (Some 64),
     Member '''' (CInt 8 True) (Some 64),
     Member '''' (CInt 8 True) (Some 64),
     Member '''' (CInt 8 True) (Some 64),
     Member '''' (CInt 8 True) (Some 64),
     Member '''' (CInt 8 True) (Some 64),
     Member '''' (CInt 8 True) (Some 64),
     Member '''' (CInt 8 True) (Some 64),
     Member '''' (CInt 8 True) (Some 64),
     Member '''' (CInt 8 True) (Some 64),
     Member '''' (CInt 8 True) (Some 64),
     Member '''' (CInt 8 True) (Some 64),
     Member '''' (CInt 8 True) (Some 64),
     Member '''' (CInt 8 True) (Some 64),
     Member '''' (CInt 8 True) (Some 64),
     Member '''' (CInt 8 True) (Some 64),
     Member '''' (CInt 8 True) (Some 64),
     Member '''' (CInt 8 True) (Some 64),
     Member '''' (CInt 8 True) (Some 64),
     Member '''' (CInt 8 True) (Some 64),
     Member '''' (CInt 8 True) (Some 64),
     Member '''' (CInt 8 True) (Some 64),
     Member '''' (CInt 8 True) (Some 64),
     Member '''' (CInt 8 True) (Some 64),
     Member '''' (CInt 8 True) (Some 64),
     Member '''' (CInt 8 True) (Some 64),
     Member '''' (CInt 8 True) (Some 64),
     Member '''' (CInt 8 True) (Some 64),
     Member '''' (CInt 8 True) (Some 64),
     Member '''' (CInt 8 True) (Some 64),
     Member '''' (CInt 8 True) (Some 64),
     Member '''' (CInt 8 True) (Some 64),
     Member '''' (CInt 8 True) (Some 64),
     Member '''' (CInt 8 True) (Some 64),
     Member '''' (CInt 8 True) (Some 64),
     Member '''' (CInt 8 True) (Some 64),
     Member '''' (CInt 8 True) (Some 64),
     Member '''' (CInt 8 True) (Some 64),
     Member '''' (CInt 8 True) (Some 64),
     Member '''' (CInt 8 True) (Some 64),
     Member '''' (CInt 8 True) (Some 64),
     Member '''' (CInt 8 True) (Some 64),
     Member '''' (CInt 8 True) (Some 64),
     Member '''' (CInt 8 True) (Some 64),
     Member '''' (CInt 8 True) (Some 64),
     Member '''' (CInt 8 True) (Some 64),
     Member '''' (CInt 8 True) (Some 64),
     Member '''' (CInt 8 True) (Some 64),
     Member '''' (CInt 8 True) (Some 64),
     Member '''' (CInt 8 True) (Some 64),
     Member '''' (CInt 8 True) (Some 64),
     Member '''' (CInt 8 True) (Some 64),
     Member '''' (CInt 8 True) (Some 64),
     Member '''' (CInt 8 True) (Some 64),
     Member '''' (CInt 8 True) (Some 64),
     Member '''' (CInt 8 True) (Some 64),
     Member '''' (CInt 8 True) (Some 64),
     Member '''' (CInt 8 True) (Some 64),
     Member '''' (CInt 8 True) (Some 64),
     Member '''' (CInt 8 True) (Some 64),
     Member '''' (CInt 8 True) (Some 64),
     Member '''' (CInt 8 True) (Some 64),
     Member '''' (CInt 8 True) (Some 64),
     Member '''' (CInt 8 True) (Some 64),
     Member '''' (CInt 8 True) (Some 64),
     Member '''' (CInt 8 True) (Some 64),
     Member '''' (CInt 8 True) (Some 64),
     Member '''' (CInt 8 True) (Some 64),
     Member '''' (CInt 8 True) (Some 64),
     Member '''' (CInt 8 True) (Some 64),
     Member '''' (CInt 8 True) (Some 64),
     Member '''' (CInt 8 True) (Some 64),
     Member '''' (CInt 8 True) (Some 64),
     Member '''' (CInt 8 True) (Some 64),
     Member '''' (CInt 8 True) (Some 64),
     Member '''' (CInt 8 True) (Some 64),
     Member '''' (CInt 8 True) (Some 64),
     Member '''' (CInt 8 True) (Some 64),
     Member '''' (CInt 8 True) (Some 64),
     Member '''' (CInt 8 True) (Some 64),
     Member '''' (CInt 8 True) (Some 64),
     Member '''' (CInt 8 True) (Some 64),
     Member '''' (CInt 8 True) (Some 64),
     Member '''' (CInt 8 True) (Some 64),
     Member '''' (CInt 8 True) (Some 64),
     Member '''' (CInt 8 True) (Some 64),
     Member '''' (CInt 8 True) (Some 64),
     Member '''' (CInt 8 True) (Some 64),
     Member '''' (CInt 8 True) (Some 64),
     Member '''' (CInt 8 True) (Some 64),
     Member '''' (CInt 8 True) (Some 64),
     Member '''' (CInt 8 True) (Some 64),
     Member '''' (CInt 8 True) (Some 64),
     Member '''' (CInt 8 True) (Some 64),
     Member '''' (CInt 8 True) (Some 64),
     Member '''' (CInt 8 True) (Some 64),
     Member '''' (CInt 8 True) (Some 64),
     Member '''' (CInt 8 True) (Some 64),
     Member '''' (CInt 8 True) (Some 64),
     Member '''' (CInt 8 True) (Some 64),
     Member '''' (CInt 8 True) (Some 64),
     Member '''' (CInt 8 True) (Some 64),
     Member '''' (CInt 8 True) (Some 64),
     Member '''' (CInt 8 True) (Some 64),
     Member '''' (CInt 8 True) (Some 64),
     Member '''' (CInt 8 True) (Some 64),
     Member '''' (CInt 8 True) (Some 64),
     Member '''' (CInt 8 True) (Some 64),
     Member '''' (CInt 8 True) (Some 64),
     Member '''' (CInt 8 True) (Some 64),
     Member '''' (CInt 8 True) (Some 64),
     Member '''' (CInt 8 True) (Some 64),
     Member '''' (CInt 8 True) (Some 64),
     Member '''' (CInt 8 True) (Some 64),
     Member '''' (CInt 8 True) (Some 64),
     Member '''' (CInt 8 True) (Some 64),
     Member '''' (CInt 8 True) (Some 64),
     Member '''' (CInt 8 True) (Some 64),
     Member '''' (CInt 8 True) (Some 64),
     Member '''' (CInt 8 True) (Some 64),
     Member '''' (CInt 8 True) (Some 64),
     Member '''' (CInt 8 True) (Some 64),
     Member '''' (CInt 8 True) (Some 64),
     Member '''' (CInt 8 True) (Some 64),
     Member '''' (CInt 8 True) (Some 64),
     Member '''' (CInt 8 True) (Some 64),
     Member '''' (CInt 8 True) (Some 64),
     Member '''' (CInt 8 True) (Some 64),
     Member '''' (CInt 8 True) (Some 64),
     Member '''' (CInt 8 True) (Some 64),
     Member '''' (CInt 8 True) (Some 64),
     Member '''' (CInt 8 True) (Some 64),
     Member '''' (CInt 8 True) (Some 64),
     Member '''' (CInt 8 True) (Some 64),
     Member '''' (CInt 8 True) (Some 64),
     Member '''' (CInt 8 True) (Some 64),
     Member '''' (CInt 8 True) (Some 64),
     Member '''' (CInt 8 True) (Some 64),
     Member '''' (CInt 8 True) (Some 64),
     Member '''' (CInt 8 True) (Some 64),
     Member '''' (CInt 8 True) (Some 64),
     Member '''' (CInt 8 True) (Some 64),
     Member '''' (CInt 8 True) (Some 64),
     Member '''' (CInt 8 True) (Some 64),
     Member '''' (CInt 8 True) (Some 64),
     Member '''' (CInt 8 True) (Some 64),
     Member '''' (CInt 8 True) (Some 64),
     Member '''' (CInt 8 True) (Some 64),
     Member '''' (CInt 8 True) (Some 64),
     Member '''' (CInt 8 True) (Some 64),
     Member '''' (CInt 8 True) (Some 64),
     Member '''' (CInt 8 True) (Some 64),
     Member '''' (CInt 8 True) (Some 64),
     Member '''' (CInt 8 True) (Some 64),
     Member '''' (CInt 8 True) (Some 64),
     Member '''' (CInt 8 True) (Some 64),
     Member '''' (CInt 8 True) (Some 64),
     Member '''' (CInt 8 True) (Some 64),
     Member '''' (CInt 8 True) (Some 64),
     Member '''' (CInt 8 True) (Some 64),
     Member '''' (CInt 8 True) (Some 64),
     Member '''' (CInt 8 True) (Some 64),
     Member '''' (CInt 8 True) (Some 64),
     Member '''' (CInt 8 True) (Some 64),
     Member '''' (CInt 8 True) (Some 64),
     Member '''' (CInt 8 True) (Some 64),
     Member '''' (CInt 8 True) (Some 64),
     Member '''' (CInt 8 True) (Some 64),
     Member '''' (CInt 8 True) (Some 64),
     Member '''' (CInt 8 True) (Some 64),
     Member '''' (CInt 8 True) (Some 64),
     Member '''' (CInt 8 True) (Some 64),
     Member '''' (CInt 8 True) (Some 64),
     Member '''' (CInt 8 True) (Some 64),
     Member '''' (CInt 8 True) (Some 64),
     Member '''' (CInt 8 True) (Some 64),
     Member '''' (CInt 8 True) (Some 64),
     Member '''' (CInt 8 True) (Some 64),
     Member '''' (CInt 8 True) (Some 64),
     Member '''' (CInt 8 True) (Some 64),
     Member '''' (CInt 8 True) (Some 64),
     Member '''' (CInt 8 True) (Some 64),
     Member '''' (CInt 8 True) (Some 64),
     Member '''' (CInt 8 True) (Some 64),
     Member '''' (CInt 8 True) (Some 64),
     Member '''' (CInt 8 True) (Some 64),
     Member '''' (CInt 8 True) (Some 64),
     Member '''' (CInt 8 True) (Some 64),
     Member '''' (CInt 8 True) (Some 64),
     Member '''' (CInt 8 True) (Some 64),
     Member '''' (CInt 8 True) (Some 64),
     Member '''' (CInt 8 True) (Some 64),
     Member '''' (CInt 8 True) (Some 64),
     Member '''' (CInt 8 True) (Some 64),
     Member '''' (CInt 8 True) (Some 64),
     Member '''' (CInt 8 True) (Some 64),
     Member '''' (CInt 8 True) (Some 64),
     Member '''' (CInt 8 True) (Some 64),
     Member '''' (CInt 8 True) (Some 64),
     Member '''' (CInt 8 True) (Some 64),
     Member '''' (CInt 8 True) (Some 64),
     Member '''' (CInt 8 True) (Some 64),
     Member '''' (CInt 8 True) (Some 64),
     Member '''' (CInt 8 True) (Some 64),
     Member '''' (CInt 8 True) (Some 64),
     Member '''' (CInt 8 True) (Some 64),
     Member '''' (CInt 8 True) (Some 64),
     Member '''' (CInt 8 True) (Some 64),
     Member '''' (CInt 8 True) (Some 64),
     Member '''' (CInt 8 True) (Some 64),
     Member '''' (CInt 8 True) (Some 64),
     Member '''' (CInt 8 True) (Some 64),
     Member '''' (CInt 8 True) (Some 64),
     Member '''' (CInt 8 True) (Some 64),
     Member '''' (CInt 8 True) (Some 64),
     Member '''' (CInt 8 True) (Some 64),
     Member '''' (CInt 8 True) (Some 64),
     Member '''' (CInt 8 True) (Some 64),
     Member '''' (CInt 8 True) (Some 64),
     Member '''' (CInt 8 True) (Some 64),
     Member '''' (CInt 8 True) (Some 64),
     Member '''' (CInt 8 True) (Some 64),
     Member '''' (CInt 8 True) (Some 64),
     Member '''' (CInt 8 True) (Some 64),
     Member '''' (CInt 8 True) (Some 64),
     Member '''' (CInt 8 True) (Some 64),
     Member '''' (CInt 8 True) (Some 64),
     Member '''' (CInt 8 True) (Some 64),
     Member '''' (CInt 8 True) (Some 64),
     Member '''' (CInt 8 True) (Some 64),
     Member '''' (CInt 8 True) (Some 64),
     Member '''' (CInt 8 True) (Some 64),
     Member '''' (CInt 8 True) (Some 64),
     Member '''' (CInt 8 True) (Some 64),
     Member '''' (CInt 8 True) (Some 64),
     Member '''' (CInt 8 True) (Some 64),
     Member '''' (CInt 8 True) (Some 64),
     Member '''' (CInt 8 True) (Some 64),
     Member '''' (CInt 8 True) (Some 64),
     Member '''' (CInt 8 True) (Some 64),
     Member '''' (CInt 8 True) (Some 64),
     Member '''' (CInt 8 True) (Some 64),
     Member '''' (CInt 8 True) (Some 64),
     Member '''' (CInt 8 True) (Some 64),
     Member '''' (CInt 8 True) (Some 64),
     Member '''' (CInt 8 True) (Some 64),
     Member '''' (CInt 8 True) (Some 64),
     Member '''' (CInt 8 True) (Some 64),
     Member '''' (CInt 8 True) (Some 64),
     Member '''' (CInt 8 True) (Some 64),
     Member '''' (CInt 8 True) (Some 64),
     Member '''' (CInt 8 True) (Some 64),
     Member '''' (CInt 8 True) (Some 64),
     Member '''' (CInt 8 True) (Some 64),
     Member '''' (CInt 8 True) (Some 64),
     Member '''' (CInt 8 True) (Some 64),
     Member '''' (CInt 8 True) (Some 64),
     Member '''' (CInt 8 True) (Some 64),
     Member '''' (CInt 8 True) (Some 64),
     Member '''' (CInt 8 True) (Some 64),
     Member '''' (CInt 8 True) (Some 64),
     Member '''' (CInt 8 True) (Some 64),
     Member '''' (CInt 8 True) (Some 64),
     Member '''' (CInt 8 True) (Some 64),
     Member '''' (CInt 8 True) (Some 64),
     Member '''' (CInt 8 True) (Some 64),
     Member '''' (CInt 8 True) (Some 64),
     Member '''' (CInt 8 True) (Some 64),
     Member '''' (CInt 8 True) (Some 64),
     Member '''' (CInt 8 True) (Some 64),
     Member '''' (CInt 8 True) (Some 64),
     Member '''' (CInt 8 True) (Some 64),
     Member '''' (CInt 8 True) (Some 64),
     Member '''' (CInt 8 True) (Some 64),
     Member '''' (CInt 8 True) (Some 64),
     Member '''' (CInt 8 True) (Some 64),
     Member '''' (CInt 8 True) (Some 64),
     Member '''' (CInt 8 True) (Some 64),
     Member '''' (CInt 8 True) (Some 64),
     Member '''' (CInt 8 True) (Some 64),
     Member '''' (CInt 8 True) (Some 64),
     Member '''' (CInt 8 True) (Some 64),
     Member '''' (CInt 8 True) (Some 64),
     Member '''' (CInt 8 True) (Some 64),
     Member '''' (CInt 8 True) (Some 64),
     Member '''' (CInt 8 True) (Some 64),
     Member '''' (CInt 8 True) (Some 64),
     Member '''' (CInt 8 True) (Some 64),
     Member '''' (CInt 8 True) (Some 64),
     Member '''' (CInt 8 True) (Some 64),
     Member '''' (CInt 8 True) (Some 64),
     Member '''' (CInt 8 True) (Some 64),
     Member '''' (CInt 8 True) (Some 64),
     Member '''' (CInt 8 True) (Some 64),
     Member '''' (CInt 8 True) (Some 64),
     Member '''' (CInt 8 True) (Some 64),
     Member '''' (CInt 8 True) (Some 64),
     Member '''' (CInt 8 True) (Some 64),
     Member '''' (CInt 8 True) (Some 64),
     Member '''' (CInt 8 True) (Some 64),
     Member '''' (CInt 8 True) (Some 64),
     Member '''' (CInt 8 True) (Some 64),
     Member '''' (CInt 8 True) (Some 64),
     Member '''' (CInt 8 True) (Some 64),
     Member '''' (CInt 8 True) (Some 64),
     Member '''' (CInt 8 True) (Some 64),
     Member '''' (CInt 8 True) (Some 64),
     Member '''' (CInt 8 True) (Some 64),
     Member '''' (CInt 8 True) (Some 64),
     Member '''' (CInt 8 True) (Some 64),
     Member '''' (CInt 8 True) (Some 64),
     Member '''' (CInt 8 True) (Some 64),
     Member '''' (CInt 8 True) (Some 64),
     Member '''' (CInt 8 True) (Some 64),
     Member '''' (CInt 8 True) (Some 64),
     Member '''' (CInt 8 True) (Some 64),
     Member '''' (CInt 8 True) (Some 64),
     Member '''' (CInt 8 True) (Some 64),
     Member '''' (CInt 8 True) (Some 64),
     Member '''' (CInt 8 True) (Some 64),
     Member '''' (CInt 8 True) (Some 64),
     Member '''' (CInt 8 True) (Some 64),
     Member '''' (CInt 8 True) (Some 64),
     Member '''' (CInt 8 True) (Some 64),
     Member '''' (CInt 8 True) (Some 64),
     Member '''' (CInt 8 True) (Some 64),
     Member '''' (CInt 8 True) (Some 64),
     Member '''' (CInt 8 True) (Some 64),
     Member '''' (CInt 8 True) (Some 64),
     Member '''' (CInt 8 True) (Some 64),
     Member '''' (CInt 8 True) (Some 64),
     Member '''' (CInt 8 True) (Some 64),
     Member '''' (CInt 8 True) (Some 64),
     Member '''' (CInt 8 True) (Some 64),
     Member '''' (CInt 8 True) (Some 64),
     Member '''' (CInt 8 True) (Some 64),
     Member '''' (CInt 8 True) (Some 64),
     Member '''' (CInt 8 True) (Some 64),
     Member '''' (CInt 8 True) (Some 64),
     Member '''' (CInt 8 True) (Some 64),
     Member '''' (CInt 8 True) (Some 64),
     Member '''' (CInt 8 True) (Some 64),
     Member '''' (CInt 8 True) (Some 64),
     Member '''' (CInt 8 True) (Some 64),
     Member '''' (CInt 8 True) (Some 64),
     Member '''' (CInt 8 True) (Some 64),
     Member '''' (CInt 8 True) (Some 64),
     Member '''' (CInt 8 True) (Some 64),
     Member '''' (CInt 8 True) (Some 64),
     Member '''' (CInt 8 True) (Some 64),
     Member '''' (CInt 8 True) (Some 64),
     Member '''' (CInt 8 True) (Some 64),
     Member '''' (CInt 8 True) (Some 64),
     Member '''' (CInt 8 True) (Some 64),
     Member '''' (CInt 8 True) (Some 64),
     Member '''' (CInt 8 True) (Some 64),
     Member '''' (CInt 8 True) (Some 64),
     Member '''' (CInt 8 True) (Some 64),
     Member '''' (CInt 8 True) (Some 64),
     Member '''' (CInt 8 True) (Some 64),
     Member '''' (CInt 8 True) (Some 64),
     Member '''' (CInt 8 True) (Some 64),
     Member '''' (CInt 8 True) (Some 64),
     Member '''' (CInt 8 True) (Some 64),
     Member '''' (CInt 8 True) (Some 64),
     Member '''' (CInt 8 True) (Some 64),
     Member '''' (CInt 8 True) (Some 64),
     Member '''' (CInt 8 True) (Some 64),
     Member '''' (CInt 8 True) (Some 64),
     Member '''' (CInt 8 True) (Some 64),
     Member '''' (CInt 8 True) (Some 64),
     Member '''' (CInt 8 True) (Some 64),
     Member '''' (CInt 8 True) (Some 64),
     Member '''' (CInt 8 True) (Some 64),
     Member '''' (CInt 8 True) (Some 64),
     Member '''' (CInt 8 True) (Some 64),
     Member '''' (CInt 8 True) (Some 64),
     Member '''' (CInt 8 True) (Some 64),
     Member '''' (CInt 8 True) (Some 64),
     Member '''' (CInt 8 True) (Some 64),
     Member '''' (CInt 8 True) (Some 64),
     Member '''' (CInt 8 True) (Some 64),
     Member '''' (CInt 8 True) (Some 64),
     Member '''' (CInt 8 True) (Some 64),
     Member '''' (CInt 8 True) (Some 64),
     Member '''' (CInt 8 True) (Some 64),
     Member '''' (CInt 8 True) (Some 64),
     Member '''' (CInt 8 True) (Some 64),
     Member '''' (CInt 8 True) (Some 64),
     Member '''' (CInt 8 True) (Some 64),
     Member '''' (CInt 8 True) (Some 64),
     Member '''' (CInt 8 True) (Some 64),
     Member '''' (CInt 8 True) (Some 64),
     Member '''' (CInt 8 True) (Some 64),
     Member '''' (CInt 8 True) (Some 64),
     Member '''' (CInt 8 True) (Some 64),
     Member '''' (CInt 8 True) (Some 64),
     Member '''' (CInt 8 True) (Some 64),
     Member '''' (CInt 8 True) (Some 64),
     Member '''' (CInt 8 True) (Some 64),
     Member '''' (CInt 8 True) (Some 64),
     Member '''' (CInt 8 True) (Some 64),
     Member '''' (CInt 8 True) (Some 64),
     Member '''' (CInt 8 True) (Some 64),
     Member '''' (CInt 8 True) (Some 64),
     Member '''' (CInt 8 True) (Some 64),
     Member '''' (CInt 8 True) (Some 64),
     Member '''' (CInt 8 True) (Some 64),
     Member '''' (CInt 8 True) (Some 64),
     Member '''' (CInt 8 True) (Some 64),
     Member '''' (CInt 8 True) (Some 64),
     Member '''' (CInt 8 True) (Some 64),
     Member '''' (CInt 8 True) (Some 64),
     Member '''' (CInt 8 True) (Some 64),
     Member '''' (CInt 8 True) (Some 64),
     Member '''' (CInt 8 True) (Some 64),
     Member '''' (CInt 8 True) (Some 64),
     Member '''' (CInt 8 True) (Some 64),
     Member '''' (CInt 8 True) (Some 64),
     Member '''' (CInt 8 True) (Some 64),
     Member '''' (CInt 8 True) (Some 64),
     Member '''' (CInt 8 True) (Some 64),
     Member '''' (CInt 8 True) (Some 64),
     Member '''' (CInt 8 True) (Some 64),
     Member '''' (CInt 8 True) (Some 64),
     Member '''' (CInt 8 True) (Some 64),
     Member '''' (CInt 8 True) (Some 64),
     Member '''' (CInt 8 True) (Some 64),
     Member '''' (CInt 8 True) (Some 64),
     Member '''' (CInt 8 True) (Some 64),
     Member '''' (CInt 8 True) (Some 64),
     Member '''' (CInt 8 True) (Some 64),
     Member '''' (CInt 8 True) (Some 64),
     Member '''' (CInt 8 True) (Some 64),
     Member '''' (CInt 8 True) (Some 64),
     Member '''' (CInt 8 True) (Some 64),
     Member '''' (CInt 8 True) (Some 64),
     Member '''' (CInt 8 True) (Some 64),
     Member '''' (CInt 8 True) (Some 64),
     Member '''' (CInt 8 True) (Some 64),
     Member '''' (CInt 8 True) (Some 64),
     Member '''' (CInt 8 True) (Some 64),
     Member '''' (CInt 8 True) (Some 64),
     Member '''' (CInt 8 True) (Some 64),
     Member '''' (CInt 8 True) (Some 64),
     Member '''' (CInt 8 True) (Some 64),
     Member '''' (CInt 8 True) (Some 64),
     Member '''' (CInt 8 True) (Some 64),
     Member '''' (CInt 8 True) (Some 64),
     Member '''' (CInt 8 True) (Some 64),
     Member '''' (CInt 8 True) (Some 64),
     Member '''' (CInt 8 True) (Some 64),
     Member '''' (CInt 8 True) (Some 64),
     Member '''' (CInt 8 True) (Some 64),
     Member '''' (CInt 8 True) (Some 64),
     Member '''' (CInt 8 True) (Some 64),
     Member '''' (CInt 8 True) (Some 64),
     Member '''' (CInt 8 True) (Some 64),
     Member '''' (CInt 8 True) (Some 64),
     Member '''' (CInt 8 True) (Some 64),
     Member '''' (CInt 8 True) (Some 64),
     Member '''' (CInt 8 True) (Some 64),
     Member '''' (CInt 8 True) (Some 64),
     Member '''' (CInt 8 True) (Some 64),
     Member '''' (CInt 8 True) (Some 64),
     Member '''' (CInt 8 True) (Some 64),
     Member '''' (CInt 8 True) (Some 64),
     Member '''' (CInt 8 True) (Some 64),
     Member '''' (CInt 8 True) (Some 64),
     Member '''' (CInt 8 True) (Some 64),
     Member '''' (CInt 8 True) (Some 64),
     Member '''' (CInt 8 True) (Some 64),
     Member '''' (CInt 8 True) (Some 64),
     Member '''' (CInt 8 True) (Some 64),
     Member '''' (CInt 8 True) (Some 64),
     Member '''' (CInt 8 True) (Some 64),
     Member '''' (CInt 8 True) (Some 64),
     Member '''' (CInt 8 True) (Some 64),
     Member '''' (CInt 8 True) (Some 64),
     Member '''' (CInt 8 True) (Some 64),
     Member '''' (CInt 8 True) (Some 64),
     Member '''' (CInt 8 True) (Some 64),
     Member '''' (CInt 8 True) (Some 64),
     Member '''' (CInt 8 True) (Some 64),
     Member '''' (CInt 8 True) (Some 64),
     Member '''' (CInt 8 True) (Some 64),
     Member '''' (CInt 8 True) (Some 64),
     Member '''' (CInt 8 True) (Some 64),
     Member '''' (CInt 8 True) (Some 64),
     Member '''' (CInt 8 True) (Some 64),
     Member '''' (CInt 8 True) (Some 64),
     Member '''' (CInt 8 True) (Some 64),
     Member '''' (CInt 8 True) (Some 64),
     Member '''' (CInt 8 True) (Some 64),
     Member '''' (CInt 8 True) (Some 64),
     Member '''' (CInt 8 True) (Some 64),
     Member '''' (CInt 8 True) (Some 64),
     Member '''' (CInt 8 True) (Some 64),
     Member ''producer_pos'' (CInt 8 False) None,
     Member ''pending_pos'' (CInt 8 False) None,
     Member '''' (CInt 8 True) (Some 64),
     Member '''' (CInt 8 True) (Some 64),
     Member '''' (CInt 8 True) (Some 64),
     Member '''' (CInt 8 True) (Some 64),
     Member '''' (CInt 8 True) (Some 64),
     Member '''' (CInt 8 True) (Some 64),
     Member '''' (CInt 8 True) (Some 64),
     Member '''' (CInt 8 True) (Some 64),
     Member '''' (CInt 8 True) (Some 64),
     Member '''' (CInt 8 True) (Some 64),
     Member '''' (CInt 8 True) (Some 64),
     Member '''' (CInt 8 True) (Some 64),
     Member '''' (CInt 8 True) (Some 64),
     Member '''' (CInt 8 True) (Some 64),
     Member '''' (CInt 8 True) (Some 64),
     Member '''' (CInt 8 True) (Some 64),
     Member '''' (CInt 8 True) (Some 64),
     Member '''' (CInt 8 True) (Some 64),
     Member '''' (CInt 8 True) (Some 64),
     Member '''' (CInt 8 True) (Some 64),
     Member '''' (CInt 8 True) (Some 64),
     Member '''' (CInt 8 True) (Some 64),
     Member '''' (CInt 8 True) (Some 64),
     Member '''' (CInt 8 True) (Some 64),
     Member '''' (CInt 8 True) (Some 64),
     Member '''' (CInt 8 True) (Some 64),
     Member '''' (CInt 8 True) (Some 64),
     Member '''' (CInt 8 True) (Some 64),
     Member '''' (CInt 8 True) (Some 64),
     Member '''' (CInt 8 True) (Some 64),
     Member '''' (CInt 8 True) (Some 64),
     Member '''' (CInt 8 True) (Some 64),
     Member '''' (CInt 8 True) (Some 64),
     Member '''' (CInt 8 True) (Some 64),
     Member '''' (CInt 8 True) (Some 64),
     Member '''' (CInt 8 True) (Some 64),
     Member '''' (CInt 8 True) (Some 64),
     Member '''' (CInt 8 True) (Some 64),
     Member '''' (CInt 8 True) (Some 64),
     Member '''' (CInt 8 True) (Some 64),
     Member '''' (CInt 8 True) (Some 64),
     Member '''' (CInt 8 True) (Some 64),
     Member '''' (CInt 8 True) (Some 64),
     Member '''' (CInt 8 True) (Some 64),
     Member '''' (CInt 8 True) (Some 64),
     Member '''' (CInt 8 True) (Some 64),
     Member '''' (CInt 8 True) (Some 64),
     Member '''' (CInt 8 True) (Some 64),
     Member '''' (CInt 8 True) (Some 64),
     Member '''' (CInt 8 True) (Some 64),
     Member '''' (CInt 8 True) (Some 64),
     Member '''' (CInt 8 True) (Some 64),
     Member '''' (CInt 8 True) (Some 64),
     Member '''' (CInt 8 True) (Some 64),
     Member '''' (CInt 8 True) (Some 64),
     Member '''' (CInt 8 True) (Some 64),
     Member '''' (CInt 8 True) (Some 64),
     Member '''' (CInt 8 True) (Some 64),
     Member '''' (CInt 8 True) (Some 64),
     Member '''' (CInt 8 True) (Some 64),
     Member '''' (CInt 8 True) (Some 64),
     Member '''' (CInt 8 True) (Some 64),
     Member '''' (CInt 8 True) (Some 64),
     Member '''' (CInt 8 True) (Some 64),
     Member '''' (CInt 8 True) (Some 64),
     Member '''' (CInt 8 True) (Some 64),
     Member '''' (CInt 8 True) (Some 64),
     Member '''' (CInt 8 True) (Some 64),
     Member '''' (CInt 8 True) (Some 64),
     Member '''' (CInt 8 True) (Some 64),
     Member '''' (CInt 8 True) (Some 64),
     Member '''' (CInt 8 True) (Some 64),
     Member '''' (CInt 8 True) (Some 64),
     Member '''' (CInt 8 True) (Some 64),
     Member '''' (CInt 8 True) (Some 64),
     Member '''' (CInt 8 True) (Some 64),
     Member '''' (CInt 8 True) (Some 64),
     Member '''' (CInt 8 True) (Some 64),
     Member '''' (CInt 8 True) (Some 64),
     Member '''' (CInt 8 True) (Some 64),
     Member '''' (CInt 8 True) (Some 64),
     Member '''' (CInt 8 True) (Some 64),
     Member '''' (CInt 8 True) (Some 64),
     Member '''' (CInt 8 True) (Some 64),
     Member '''' (CInt 8 True) (Some 64),
     Member '''' (CInt 8 True) (Some 64),
     Member '''' (CInt 8 True) (Some 64),
     Member '''' (CInt 8 True) (Some 64),
     Member '''' (CInt 8 True) (Some 64),
     Member '''' (CInt 8 True) (Some 64),
     Member '''' (CInt 8 True) (Some 64),
     Member '''' (CInt 8 True) (Some 64),
     Member '''' (CInt 8 True) (Some 64),
     Member '''' (CInt 8 True) (Some 64),
     Member '''' (CInt 8 True) (Some 64),
     Member '''' (CInt 8 True) (Some 64),
     Member '''' (CInt 8 True) (Some 64),
     Member '''' (CInt 8 True) (Some 64),
     Member '''' (CInt 8 True) (Some 64),
     Member '''' (CInt 8 True) (Some 64),
     Member '''' (CInt 8 True) (Some 64),
     Member '''' (CInt 8 True) (Some 64),
     Member '''' (CInt 8 True) (Some 64),
     Member '''' (CInt 8 True) (Some 64),
     Member '''' (CInt 8 True) (Some 64),
     Member '''' (CInt 8 True) (Some 64),
     Member '''' (CInt 8 True) (Some 64),
     Member '''' (CInt 8 True) (Some 64),
     Member '''' (CInt 8 True) (Some 64),
     Member '''' (CInt 8 True) (Some 64),
     Member '''' (CInt 8 True) (Some 64),
     Member '''' (CInt 8 True) (Some 64),
     Member '''' (CInt 8 True) (Some 64),
     Member '''' (CInt 8 True) (Some 64),
     Member '''' (CInt 8 True) (Some 64),
     Member '''' (CInt 8 True) (Some 64),
     Member '''' (CInt 8 True) (Some 64),
     Member '''' (CInt 8 True) (Some 64),
     Member '''' (CInt 8 True) (Some 64),
     Member '''' (CInt 8 True) (Some 64),
     Member '''' (CInt 8 True) (Some 64),
     Member '''' (CInt 8 True) (Some 64),
     Member '''' (CInt 8 True) (Some 64),
     Member '''' (CInt 8 True) (Some 64),
     Member '''' (CInt 8 True) (Some 64),
     Member '''' (CInt 8 True) (Some 64),
     Member '''' (CInt 8 True) (Some 64),
     Member '''' (CInt 8 True) (Some 64),
     Member '''' (CInt 8 True) (Some 64),
     Member '''' (CInt 8 True) (Some 64),
     Member '''' (CInt 8 True) (Some 64),
     Member '''' (CInt 8 True) (Some 64),
     Member '''' (CInt 8 True) (Some 64),
     Member '''' (CInt 8 True) (Some 64),
     Member '''' (CInt 8 True) (Some 64),
     Member '''' (CInt 8 True) (Some 64),
     Member '''' (CInt 8 True) (Some 64),
     Member '''' (CInt 8 True) (Some 64),
     Member '''' (CInt 8 True) (Some 64),
     Member '''' (CInt 8 True) (Some 64),
     Member '''' (CInt 8 True) (Some 64),
     Member '''' (CInt 8 True) (Some 64),
     Member '''' (CInt 8 True) (Some 64),
     Member '''' (CInt 8 True) (Some 64),
     Member '''' (CInt 8 True) (Some 64),
     Member '''' (CInt 8 True) (Some 64),
     Member '''' (CInt 8 True) (Some 64),
     Member '''' (CInt 8 True) (Some 64),
     Member '''' (CInt 8 True) (Some 64),
     Member '''' (CInt 8 True) (Some 64),
     Member '''' (CInt 8 True) (Some 64),
     Member '''' (CInt 8 True) (Some 64),
     Member '''' (CInt 8 True) (Some 64),
     Member '''' (CInt 8 True) (Some 64),
     Member '''' (CInt 8 True) (Some 64),
     Member '''' (CInt 8 True) (Some 64),
     Member '''' (CInt 8 True) (Some 64),
     Member '''' (CInt 8 True) (Some 64),
     Member '''' (CInt 8 True) (Some 64),
     Member '''' (CInt 8 True) (Some 64),
     Member '''' (CInt 8 True) (Some 64),
     Member '''' (CInt 8 True) (Some 64),
     Member '''' (CInt 8 True) (Some 64),
     Member '''' (CInt 8 True) (Some 64),
     Member '''' (CInt 8 True) (Some 64),
     Member '''' (CInt 8 True) (Some 64),
     Member '''' (CInt 8 True) (Some 64),
     Member '''' (CInt 8 True) (Some 64),
     Member '''' (CInt 8 True) (Some 64),
     Member '''' (CInt 8 True) (Some 64),
     Member '''' (CInt 8 True) (Some 64),
     Member '''' (CInt 8 True) (Some 64),
     Member '''' (CInt 8 True) (Some 64),
     Member '''' (CInt 8 True) (Some 64),
     Member '''' (CInt 8 True) (Some 64),
     Member '''' (CInt 8 True) (Some 64),
     Member '''' (CInt 8 True) (Some 64),
     Member '''' (CInt 8 True) (Some 64),
     Member '''' (CInt 8 True) (Some 64),
     Member '''' (CInt 8 True) (Some 64),
     Member '''' (CInt 8 True) (Some 64),
     Member '''' (CInt 8 True) (Some 64),
     Member '''' (CInt 8 True) (Some 64),
     Member '''' (CInt 8 True) (Some 64),
     Member '''' (CInt 8 True) (Some 64),
     Member '''' (CInt 8 True) (Some 64),
     Member '''' (CInt 8 True) (Some 64),
     Member '''' (CInt 8 True) (Some 64),
     Member '''' (CInt 8 True) (Some 64),
     Member '''' (CInt 8 True) (Some 64),
     Member '''' (CInt 8 True) (Some 64),
     Member '''' (CInt 8 True) (Some 64),
     Member '''' (CInt 8 True) (Some 64),
     Member '''' (CInt 8 True) (Some 64),
     Member '''' (CInt 8 True) (Some 64),
     Member '''' (CInt 8 True) (Some 64),
     Member '''' (CInt 8 True) (Some 64),
     Member '''' (CInt 8 True) (Some 64),
     Member '''' (CInt 8 True) (Some 64),
     Member '''' (CInt 8 True) (Some 64),
     Member '''' (CInt 8 True) (Some 64),
     Member '''' (CInt 8 True) (Some 64),
     Member '''' (CInt 8 True) (Some 64),
     Member '''' (CInt 8 True) (Some 64),
     Member '''' (CInt 8 True) (Some 64),
     Member '''' (CInt 8 True) (Some 64),
     Member '''' (CInt 8 True) (Some 64),
     Member '''' (CInt 8 True) (Some 64),
     Member '''' (CInt 8 True) (Some 64),
     Member '''' (CInt 8 True) (Some 64),
     Member '''' (CInt 8 True) (Some 64),
     Member '''' (CInt 8 True) (Some 64),
     Member '''' (CInt 8 True) (Some 64),
     Member '''' (CInt 8 True) (Some 64),
     Member '''' (CInt 8 True) (Some 64),
     Member '''' (CInt 8 True) (Some 64),
     Member '''' (CInt 8 True) (Some 64),
     Member '''' (CInt 8 True) (Some 64),
     Member '''' (CInt 8 True) (Some 64),
     Member '''' (CInt 8 True) (Some 64),
     Member '''' (CInt 8 True) (Some 64),
     Member '''' (CInt 8 True) (Some 64),
     Member '''' (CInt 8 True) (Some 64),
     Member '''' (CInt 8 True) (Some 64),
     Member '''' (CInt 8 True) (Some 64),
     Member '''' (CInt 8 True) (Some 64),
     Member '''' (CInt 8 True) (Some 64),
     Member '''' (CInt 8 True) (Some 64),
     Member '''' (CInt 8 True) (Some 64),
     Member '''' (CInt 8 True) (Some 64),
     Member '''' (CInt 8 True) (Some 64),
     Member '''' (CInt 8 True) (Some 64),
     Member '''' (CInt 8 True) (Some 64),
     Member '''' (CInt 8 True) (Some 64),
     Member '''' (CInt 8 True) (Some 64),
     Member '''' (CInt 8 True) (Some 64),
     Member '''' (CInt 8 True) (Some 64),
     Member '''' (CInt 8 True) (Some 64),
     Member '''' (CInt 8 True) (Some 64),
     Member '''' (CInt 8 True) (Some 64),
     Member '''' (CInt 8 True) (Some 64),
     Member '''' (CInt 8 True) (Some 64),
     Member '''' (CInt 8 True) (Some 64),
     Member '''' (CInt 8 True) (Some 64),
     Member '''' (CInt 8 True) (Some 64),
     Member '''' (CInt 8 True) (Some 64),
     Member '''' (CInt 8 True) (Some 64),
     Member '''' (CInt 8 True) (Some 64),
     Member '''' (CInt 8 True) (Some 64),
     Member '''' (CInt 8 True) (Some 64),
     Member '''' (CInt 8 True) (Some 64),
     Member '''' (CInt 8 True) (Some 64),
     Member '''' (CInt 8 True) (Some 64),
     Member '''' (CInt 8 True) (Some 64),
     Member '''' (CInt 8 True) (Some 64),
     Member '''' (CInt 8 True) (Some 64),
     Member '''' (CInt 8 True) (Some 64),
     Member '''' (CInt 8 True) (Some 64),
     Member '''' (CInt 8 True) (Some 64),
     Member '''' (CInt 8 True) (Some 64),
     Member '''' (CInt 8 True) (Some 64),
     Member '''' (CInt 8 True) (Some 64),
     Member '''' (CInt 8 True) (Some 64),
     Member '''' (CInt 8 True) (Some 64),
     Member '''' (CInt 8 True) (Some 64),
     Member '''' (CInt 8 True) (Some 64),
     Member '''' (CInt 8 True) (Some 64),
     Member '''' (CInt 8 True) (Some 64),
     Member '''' (CInt 8 True) (Some 64),
     Member '''' (CInt 8 True) (Some 64),
     Member '''' (CInt 8 True) (Some 64),
     Member '''' (CInt 8 True) (Some 64),
     Member '''' (CInt 8 True) (Some 64),
     Member '''' (CInt 8 True) (Some 64),
     Member '''' (CInt 8 True) (Some 64),
     Member '''' (CInt 8 True) (Some 64),
     Member '''' (CInt 8 True) (Some 64),
     Member '''' (CInt 8 True) (Some 64),
     Member '''' (CInt 8 True) (Some 64),
     Member '''' (CInt 8 True) (Some 64),
     Member '''' (CInt 8 True) (Some 64),
     Member '''' (CInt 8 True) (Some 64),
     Member '''' (CInt 8 True) (Some 64),
     Member '''' (CInt 8 True) (Some 64),
     Member '''' (CInt 8 True) (Some 64),
     Member '''' (CInt 8 True) (Some 64),
     Member '''' (CInt 8 True) (Some 64),
     Member '''' (CInt 8 True) (Some 64),
     Member '''' (CInt 8 True) (Some 64),
     Member '''' (CInt 8 True) (Some 64),
     Member '''' (CInt 8 True) (Some 64),
     Member '''' (CInt 8 True) (Some 64),
     Member '''' (CInt 8 True) (Some 64),
     Member '''' (CInt 8 True) (Some 64),
     Member '''' (CInt 8 True) (Some 64),
     Member '''' (CInt 8 True) (Some 64),
     Member '''' (CInt 8 True) (Some 64),
     Member '''' (CInt 8 True) (Some 64),
     Member '''' (CInt 8 True) (Some 64),
     Member '''' (CInt 8 True) (Some 64),
     Member '''' (CInt 8 True) (Some 64),
     Member '''' (CInt 8 True) (Some 64),
     Member '''' (CInt 8 True) (Some 64),
     Member '''' (CInt 8 True) (Some 64),
     Member '''' (CInt 8 True) (Some 64),
     Member '''' (CInt 8 True) (Some 64),
     Member '''' (CInt 8 True) (Some 64),
     Member '''' (CInt 8 True) (Some 64),
     Member '''' (CInt 8 True) (Some 64),
     Member '''' (CInt 8 True) (Some 64),
     Member '''' (CInt 8 True) (Some 64),
     Member '''' (CInt 8 True) (Some 64),
     Member '''' (CInt 8 True) (Some 64),
     Member '''' (CInt 8 True) (Some 64),
     Member '''' (CInt 8 True) (Some 64),
     Member '''' (CInt 8 True) (Some 64),
     Member '''' (CInt 8 True) (Some 64),
     Member '''' (CInt 8 True) (Some 64),
     Member '''' (CInt 8 True) (Some 64),
     Member '''' (CInt 8 True) (Some 64),
     Member '''' (CInt 8 True) (Some 64),
     Member '''' (CInt 8 True) (Some 64),
     Member '''' (CInt 8 True) (Some 64),
     Member '''' (CInt 8 True) (Some 64),
     Member '''' (CInt 8 True) (Some 64),
     Member '''' (CInt 8 True) (Some 64),
     Member '''' (CInt 8 True) (Some 64),
     Member '''' (CInt 8 True) (Some 64),
     Member '''' (CInt 8 True) (Some 64),
     Member '''' (CInt 8 True) (Some 64),
     Member '''' (CInt 8 True) (Some 64),
     Member '''' (CInt 8 True) (Some 64),
     Member '''' (CInt 8 True) (Some 64),
     Member '''' (CInt 8 True) (Some 64),
     Member '''' (CInt 8 True) (Some 64),
     Member '''' (CInt 8 True) (Some 64),
     Member '''' (CInt 8 True) (Some 64),
     Member '''' (CInt 8 True) (Some 64),
     Member '''' (CInt 8 True) (Some 64),
     Member '''' (CInt 8 True) (Some 64),
     Member '''' (CInt 8 True) (Some 64),
     Member '''' (CInt 8 True) (Some 64),
     Member '''' (CInt 8 True) (Some 64),
     Member '''' (CInt 8 True) (Some 64),
     Member '''' (CInt 8 True) (Some 64),
     Member '''' (CInt 8 True) (Some 64),
     Member '''' (CInt 8 True) (Some 64),
     Member '''' (CInt 8 True) (Some 64),
     Member '''' (CInt 8 True) (Some 64),
     Member '''' (CInt 8 True) (Some 64),
     Member '''' (CInt 8 True) (Some 64),
     Member '''' (CInt 8 True) (Some 64),
     Member '''' (CInt 8 True) (Some 64),
     Member '''' (CInt 8 True) (Some 64),
     Member '''' (CInt 8 True) (Some 64),
     Member '''' (CInt 8 True) (Some 64),
     Member '''' (CInt 8 True) (Some 64),
     Member '''' (CInt 8 True) (Some 64),
     Member '''' (CInt 8 True) (Some 64),
     Member '''' (CInt 8 True) (Some 64),
     Member '''' (CInt 8 True) (Some 64),
     Member '''' (CInt 8 True) (Some 64),
     Member '''' (CInt 8 True) (Some 64),
     Member '''' (CInt 8 True) (Some 64),
     Member '''' (CInt 8 True) (Some 64),
     Member '''' (CInt 8 True) (Some 64),
     Member '''' (CInt 8 True) (Some 64),
     Member '''' (CInt 8 True) (Some 64),
     Member '''' (CInt 8 True) (Some 64),
     Member '''' (CInt 8 True) (Some 64),
     Member '''' (CInt 8 True) (Some 64),
     Member '''' (CInt 8 True) (Some 64),
     Member '''' (CInt 8 True) (Some 64),
     Member '''' (CInt 8 True) (Some 64),
     Member '''' (CInt 8 True) (Some 64),
     Member '''' (CInt 8 True) (Some 64),
     Member '''' (CInt 8 True) (Some 64),
     Member '''' (CInt 8 True) (Some 64),
     Member '''' (CInt 8 True) (Some 64),
     Member '''' (CInt 8 True) (Some 64),
     Member '''' (CInt 8 True) (Some 64),
     Member '''' (CInt 8 True) (Some 64),
     Member '''' (CInt 8 True) (Some 64),
     Member '''' (CInt 8 True) (Some 64),
     Member '''' (CInt 8 True) (Some 64),
     Member '''' (CInt 8 True) (Some 64),
     Member '''' (CInt 8 True) (Some 64),
     Member '''' (CInt 8 True) (Some 64),
     Member '''' (CInt 8 True) (Some 64),
     Member '''' (CInt 8 True) (Some 64),
     Member '''' (CInt 8 True) (Some 64),
     Member '''' (CInt 8 True) (Some 64),
     Member '''' (CInt 8 True) (Some 64),
     Member '''' (CInt 8 True) (Some 64),
     Member '''' (CInt 8 True) (Some 64),
     Member '''' (CInt 8 True) (Some 64),
     Member '''' (CInt 8 True) (Some 64),
     Member '''' (CInt 8 True) (Some 64),
     Member '''' (CInt 8 True) (Some 64),
     Member '''' (CInt 8 True) (Some 64),
     Member '''' (CInt 8 True) (Some 64),
     Member '''' (CInt 8 True) (Some 64),
     Member '''' (CInt 8 True) (Some 64),
     Member '''' (CInt 8 True) (Some 64),
     Member '''' (CInt 8 True) (Some 64),
     Member '''' (CInt 8 True) (Some 64),
     Member '''' (CInt 8 True) (Some 64),
     Member '''' (CInt 8 True) (Some 64),
     Member '''' (CInt 8 True) (Some 64),
     Member '''' (CInt 8 True) (Some 64),
     Member '''' (CInt 8 True) (Some 64),
     Member '''' (CInt 8 True) (Some 64),
     Member '''' (CInt 8 True) (Some 64),
     Member '''' (CInt 8 True) (Some 64),
     Member '''' (CInt 8 True) (Some 64),
     Member '''' (CInt 8 True) (Some 64),
     Member '''' (CInt 8 True) (Some 64),
     Member '''' (CInt 8 True) (Some 64),
     Member '''' (CInt 8 True) (Some 64),
     Member '''' (CInt 8 True) (Some 64),
     Member '''' (CInt 8 True) (Some 64),
     Member '''' (CInt 8 True) (Some 64),
     Member '''' (CInt 8 True) (Some 64),
     Member '''' (CInt 8 True) (Some 64),
     Member '''' (CInt 8 True) (Some 64),
     Member '''' (CInt 8 True) (Some 64),
     Member '''' (CInt 8 True) (Some 64),
     Member '''' (CInt 8 True) (Some 64),
     Member '''' (CInt 8 True) (Some 64),
     Member '''' (CInt 8 True) (Some 64),
     Member '''' (CInt 8 True) (Some 64),
     Member '''' (CInt 8 True) (Some 64),
     Member '''' (CInt 8 True) (Some 64),
     Member '''' (CInt 8 True) (Some 64),
     Member '''' (CInt 8 True) (Some 64),
     Member '''' (CInt 8 True) (Some 64),
     Member '''' (CInt 8 True) (Some 64),
     Member '''' (CInt 8 True) (Some 64),
     Member '''' (CInt 8 True) (Some 64),
     Member '''' (CInt 8 True) (Some 64),
     Member '''' (CInt 8 True) (Some 64),
     Member '''' (CInt 8 True) (Some 64),
     Member '''' (CInt 8 True) (Some 64),
     Member '''' (CInt 8 True) (Some 64),
     Member '''' (CInt 8 True) (Some 64),
     Member '''' (CInt 8 True) (Some 64),
     Member '''' (CInt 8 True) (Some 64),
     Member '''' (CInt 8 True) (Some 64),
     Member '''' (CInt 8 True) (Some 64),
     Member '''' (CInt 8 True) (Some 64),
     Member '''' (CInt 8 True) (Some 64),
     Member '''' (CInt 8 True) (Some 64),
     Member '''' (CInt 8 True) (Some 64),
     Member '''' (CInt 8 True) (Some 64),
     Member '''' (CInt 8 True) (Some 64),
     Member '''' (CInt 8 True) (Some 64),
     Member '''' (CInt 8 True) (Some 64),
     Member '''' (CInt 8 True) (Some 64),
     Member '''' (CInt 8 True) (Some 64),
     Member '''' (CInt 8 True) (Some 64),
     Member '''' (CInt 8 True) (Some 64),
     Member '''' (CInt 8 True) (Some 64),
     Member '''' (CInt 8 True) (Some 64),
     Member '''' (CInt 8 True) (Some 64),
     Member '''' (CInt 8 True) (Some 64),
     Member '''' (CInt 8 True) (Some 64),
     Member '''' (CInt 8 True) (Some 64),
     Member '''' (CInt 8 True) (Some 64),
     Member '''' (CInt 8 True) (Some 64),
     Member '''' (CInt 8 True) (Some 64),
     Member '''' (CInt 8 True) (Some 64),
     Member '''' (CInt 8 True) (Some 64),
     Member '''' (CInt 8 True) (Some 64),
     Member '''' (CInt 8 True) (Some 64),
     Member '''' (CInt 8 True) (Some 64),
     Member '''' (CInt 8 True) (Some 64),
     Member '''' (CInt 8 True) (Some 64),
     Member '''' (CInt 8 True) (Some 64),
     Member '''' (CInt 8 True) (Some 64),
     Member '''' (CInt 8 True) (Some 64),
     Member '''' (CInt 8 True) (Some 64),
     Member '''' (CInt 8 True) (Some 64),
     Member '''' (CInt 8 True) (Some 64),
     Member '''' (CInt 8 True) (Some 64),
     Member '''' (CInt 8 True) (Some 64),
     Member '''' (CInt 8 True) (Some 64),
     Member '''' (CInt 8 True) (Some 64),
     Member '''' (CInt 8 True) (Some 64),
     Member '''' (CInt 8 True) (Some 64),
     Member '''' (CInt 8 True) (Some 64),
     Member '''' (CInt 8 True) (Some 64),
     Member '''' (CInt 8 True) (Some 64),
     Member '''' (CInt 8 True) (Some 64),
     Member '''' (CInt 8 True) (Some 64),
     Member '''' (CInt 8 True) (Some 64),
     Member '''' (CInt 8 True) (Some 64),
     Member '''' (CInt 8 True) (Some 64),
     Member '''' (CInt 8 True) (Some 64),
     Member '''' (CInt 8 True) (Some 64),
     Member '''' (CInt 8 True) (Some 64),
     Member '''' (CInt 8 True) (Some 64),
     Member '''' (CInt 8 True) (Some 64),
     Member '''' (CInt 8 True) (Some 64),
     Member '''' (CInt 8 True) (Some 64),
     Member '''' (CInt 8 True) (Some 64),
     Member '''' (CInt 8 True) (Some 64),
     Member '''' (CInt 8 True) (Some 64),
     Member '''' (CInt 8 True) (Some 64),
     Member '''' (CInt 8 True) (Some 64),
     Member '''' (CInt 8 True) (Some 64),
     Member ''data'' (CArray (CInt 1 True) 0) None]"

lemma struct_bpf_ringbuf_layout [ksize]:
  "sizeof struct_bpf_ringbuf = 12288" "alignof struct_bpf_ringbuf = 8" "wf_ctype struct_bpf_ringbuf" "unpacked struct_bpf_ringbuf"
  by (simp_all add: struct_bpf_ringbuf_def layout_eval ksize)

definition struct_bpf_map :: ctype where
  "struct_bpf_map = CStruct False [
     Member ''ops'' (CPtr ''struct bpf_map_ops'') None,
     Member ''inner_map_meta'' (CPtr ''struct bpf_map'') None,
     Member ''security'' (CPtr ''void'') None,
     Member ''map_type'' CEnum None,
     Member ''key_size'' typedef_u32 None,
     Member ''value_size'' typedef_u32 None,
     Member ''max_entries'' typedef_u32 None,
     Member ''map_extra'' typedef_u64 None,
     Member ''map_flags'' typedef_u32 None,
     Member ''id'' typedef_u32 None,
     Member ''record'' (CPtr ''struct btf_record'') None,
     Member ''numa_node'' (CInt 4 True) None,
     Member ''btf_key_type_id'' typedef_u32 None,
     Member ''btf_value_type_id'' typedef_u32 None,
     Member ''btf_vmlinux_value_type_id'' typedef_u32 None,
     Member ''btf'' (CPtr ''struct btf'') None,
     Member ''objcg'' (CPtr ''struct obj_cgroup'') None,
     Member ''name'' (CArray (CInt 1 True) 16) None,
     Member '''' (CInt 8 True) (Some 64),
     Member '''' (CInt 8 True) (Some 64),
     Member ''refcnt'' typedef_atomic64_t None,
     Member ''usercnt'' typedef_atomic64_t None,
     Member '''' (CUnion False [
       Member ''work'' struct_work_struct None,
       Member ''rcu'' struct_callback_head None]) None,
     Member ''freeze_mutex'' struct_mutex None,
     Member ''writecnt'' typedef_atomic64_t None,
     Member ''owner_lock'' typedef_spinlock_t None,
     Member ''owner'' (CPtr ''struct bpf_map_owner'') None,
     Member ''bypass_spec_v1'' typedef_bool None,
     Member ''frozen'' typedef_bool None,
     Member ''free_after_mult_rcu_gp'' typedef_bool None,
     Member ''free_after_rcu_gp'' typedef_bool None,
     Member ''sleepable_refcnt'' typedef_atomic64_t None,
     Member ''elem_count'' (CPtr ''s64'') None,
     Member ''cookie'' typedef_u64 None,
     Member '''' (CInt 8 True) (Some 64),
     Member '''' (CInt 8 True) (Some 64),
     Member '''' (CInt 8 True) (Some 64),
     Member '''' (CInt 8 True) (Some 64),
     Member '''' (CInt 8 True) (Some 64),
     Member '''' (CInt 8 True) (Some 64),
     Member '''' (CInt 8 True) (Some 64)]"

lemma struct_bpf_map_layout [ksize]:
  "sizeof struct_bpf_map = 320" "alignof struct_bpf_map = 8" "wf_ctype struct_bpf_map" "unpacked struct_bpf_map"
  by (simp_all add: struct_bpf_map_def layout_eval ksize)

definition struct_bpf_ringbuf_map :: ctype where
  "struct_bpf_ringbuf_map = CStruct False [
     Member ''map'' struct_bpf_map None,
     Member ''rb'' (CPtr ''struct bpf_ringbuf'') None,
     Member '''' (CInt 8 True) (Some 64),
     Member '''' (CInt 8 True) (Some 64),
     Member '''' (CInt 8 True) (Some 64),
     Member '''' (CInt 8 True) (Some 64),
     Member '''' (CInt 8 True) (Some 64),
     Member '''' (CInt 8 True) (Some 64),
     Member '''' (CInt 8 True) (Some 64)]"

lemma struct_bpf_ringbuf_map_layout [ksize]:
  "sizeof struct_bpf_ringbuf_map = 384" "alignof struct_bpf_ringbuf_map = 8" "wf_ctype struct_bpf_ringbuf_map" "unpacked struct_bpf_ringbuf_map"
  by (simp_all add: struct_bpf_ringbuf_map_def layout_eval ksize)

definition struct_bpf_mem_alloc :: ctype where
  "struct_bpf_mem_alloc = CStruct False [
     Member ''caches'' (CPtr ''struct bpf_mem_caches'') None,
     Member ''cache'' (CPtr ''struct bpf_mem_cache'') None,
     Member ''objcg'' (CPtr ''struct obj_cgroup'') None,
     Member ''percpu'' typedef_bool None,
     Member ''work'' struct_work_struct None]"

lemma struct_bpf_mem_alloc_layout [ksize]:
  "sizeof struct_bpf_mem_alloc = 64" "alignof struct_bpf_mem_alloc = 8" "wf_ctype struct_bpf_mem_alloc" "unpacked struct_bpf_mem_alloc"
  by (simp_all add: struct_bpf_mem_alloc_def layout_eval ksize)

abbreviation struct_pcpu_freelist_head :: ctype where
  "struct_pcpu_freelist_head \<equiv> CStruct False [
     Member ''first'' (CPtr ''struct pcpu_freelist_node'') None,
     Member ''lock'' typedef_raw_spinlock_t None]"

abbreviation struct_pcpu_freelist :: ctype where
  "struct_pcpu_freelist \<equiv> CStruct False [
     Member ''freelist'' (CPtr ''struct pcpu_freelist_head'') None,
     Member ''extralist'' struct_pcpu_freelist_head None]"

definition struct_bpf_lru_list :: ctype where
  "struct_bpf_lru_list = CStruct False [
     Member ''lists'' (CArray struct_list_head 3) None,
     Member ''counts'' (CArray (CInt 4 False) 2) None,
     Member ''next_inactive_rotation'' (CPtr ''struct list_head'') None,
     Member ''lock'' typedef_raw_spinlock_t None,
     Member '''' (CInt 8 True) (Some 64),
     Member '''' (CInt 8 True) (Some 64),
     Member '''' (CInt 8 True) (Some 64),
     Member '''' (CInt 8 True) (Some 64),
     Member '''' (CInt 8 True) (Some 64),
     Member '''' (CInt 8 True) (Some 64),
     Member '''' (CInt 8 True) (Some 64)]"

lemma struct_bpf_lru_list_layout [ksize]:
  "sizeof struct_bpf_lru_list = 128" "alignof struct_bpf_lru_list = 8" "wf_ctype struct_bpf_lru_list" "unpacked struct_bpf_lru_list"
  by (simp_all add: struct_bpf_lru_list_def layout_eval ksize)

definition struct_bpf_common_lru :: ctype where
  "struct_bpf_common_lru = CStruct False [
     Member ''lru_list'' struct_bpf_lru_list None,
     Member ''local_list'' (CPtr ''struct bpf_lru_locallist'') None,
     Member '''' (CInt 8 True) (Some 64),
     Member '''' (CInt 8 True) (Some 64),
     Member '''' (CInt 8 True) (Some 64),
     Member '''' (CInt 8 True) (Some 64),
     Member '''' (CInt 8 True) (Some 64),
     Member '''' (CInt 8 True) (Some 64),
     Member '''' (CInt 8 True) (Some 64)]"

lemma struct_bpf_common_lru_layout [ksize]:
  "sizeof struct_bpf_common_lru = 192" "alignof struct_bpf_common_lru = 8" "wf_ctype struct_bpf_common_lru" "unpacked struct_bpf_common_lru"
  by (simp_all add: struct_bpf_common_lru_def layout_eval ksize)

abbreviation typedef_del_from_htab_func :: ctype where
  "typedef_del_from_htab_func \<equiv> CPtr ''fn''"

definition struct_bpf_lru :: ctype where
  "struct_bpf_lru = CStruct False [
     Member '''' (CUnion False [
       Member ''common_lru'' struct_bpf_common_lru None,
       Member ''percpu_lru'' (CPtr ''struct bpf_lru_list'') None]) None,
     Member ''del_from_htab'' typedef_del_from_htab_func None,
     Member ''del_arg'' (CPtr ''void'') None,
     Member ''hash_offset'' (CInt 4 False) None,
     Member ''target_free'' (CInt 4 False) None,
     Member ''nr_scans'' (CInt 4 False) None,
     Member ''percpu'' typedef_bool None,
     Member '''' (CInt 8 True) (Some 64),
     Member '''' (CInt 8 True) (Some 64),
     Member '''' (CInt 8 True) (Some 64),
     Member '''' (CInt 8 True) (Some 64)]"

lemma struct_bpf_lru_layout [ksize]:
  "sizeof struct_bpf_lru = 256" "alignof struct_bpf_lru = 8" "wf_ctype struct_bpf_lru" "unpacked struct_bpf_lru"
  by (simp_all add: struct_bpf_lru_def layout_eval ksize)

definition struct_lock_class_key :: ctype where
  "struct_lock_class_key = CStruct False []"

lemma struct_lock_class_key_layout [ksize]:
  "sizeof struct_lock_class_key = 0" "alignof struct_lock_class_key = 1" "wf_ctype struct_lock_class_key" "unpacked struct_lock_class_key"
  by (simp_all add: struct_lock_class_key_def layout_eval ksize)

definition struct_bpf_htab :: ctype where
  "struct_bpf_htab = CStruct False [
     Member ''map'' struct_bpf_map None,
     Member ''ma'' struct_bpf_mem_alloc None,
     Member ''pcpu_ma'' struct_bpf_mem_alloc None,
     Member ''buckets'' (CPtr ''struct bucket'') None,
     Member ''elems'' (CPtr ''void'') None,
     Member '''' (CInt 8 True) (Some 64),
     Member '''' (CInt 8 True) (Some 64),
     Member '''' (CInt 8 True) (Some 64),
     Member '''' (CInt 8 True) (Some 64),
     Member '''' (CInt 8 True) (Some 64),
     Member '''' (CInt 8 True) (Some 64),
     Member '''' (CUnion False [
       Member ''freelist'' struct_pcpu_freelist None,
       Member ''lru'' struct_bpf_lru None]) None,
     Member ''extra_elems'' (CPtr ''struct htab_elem *'') None,
     Member ''pcount'' struct_percpu_counter None,
     Member ''count'' typedef_atomic_t None,
     Member ''use_percpu_counter'' typedef_bool None,
     Member ''n_buckets'' typedef_u32 None,
     Member ''elem_size'' typedef_u32 None,
     Member ''hashrnd'' typedef_u32 None,
     Member ''lockdep_key'' struct_lock_class_key None,
     Member ''map_locked'' (CArray (CPtr ''int'') 8) None,
     Member '''' (CInt 8 True) (Some 64),
     Member '''' (CInt 8 True) (Some 64),
     Member '''' (CInt 8 True) (Some 64),
     Member '''' (CInt 8 True) (Some 64),
     Member '''' (CInt 8 True) (Some 64),
     Member '''' (CInt 8 True) (Some 64),
     Member '''' (CInt 8 True) (Some 64)]"

lemma struct_bpf_htab_layout [ksize]:
  "sizeof struct_bpf_htab = 960" "alignof struct_bpf_htab = 8" "wf_ctype struct_bpf_htab" "unpacked struct_bpf_htab"
  by (simp_all add: struct_bpf_htab_def layout_eval ksize)

abbreviation typedef_kprobe_pre_handler_t :: ctype where
  "typedef_kprobe_pre_handler_t \<equiv> CPtr ''fn''"

abbreviation typedef_kprobe_post_handler_t :: ctype where
  "typedef_kprobe_post_handler_t \<equiv> CPtr ''fn''"

abbreviation typedef_kprobe_opcode_t :: ctype where
  "typedef_kprobe_opcode_t \<equiv> typedef_u8"

abbreviation typedef_s32 :: ctype where
  "typedef_s32 \<equiv> typedef___s32"

definition struct_arch_specific_insn :: ctype where
  "struct_arch_specific_insn = CStruct False [
     Member ''insn'' (CPtr ''kprobe_opcode_t'') None,
     Member ''boostable'' (CInt 4 False) (Some 1),
     Member ''size'' (CInt 1 False) None,
     Member '''' (CUnion False [
       Member ''opcode'' (CInt 1 False) None,
       Member ''jcc'' (CStruct False [
         Member ''type'' (CInt 1 False) None]) None,
       Member ''loop'' (CStruct False [
         Member ''type'' (CInt 1 False) None,
         Member ''asize'' (CInt 1 False) None]) None,
       Member ''indirect'' (CStruct False [
         Member ''reg'' (CInt 1 False) None]) None]) None,
     Member ''rel32'' typedef_s32 None,
     Member ''emulate_op'' (CPtr ''fn'') None,
     Member ''tp_len'' (CInt 4 True) None]"

lemma struct_arch_specific_insn_layout [ksize]:
  "sizeof struct_arch_specific_insn = 32" "alignof struct_arch_specific_insn = 8" "wf_ctype struct_arch_specific_insn" "unpacked struct_arch_specific_insn"
  by (simp_all add: struct_arch_specific_insn_def layout_eval ksize)

definition struct_kprobe :: ctype where
  "struct_kprobe = CStruct False [
     Member ''hlist'' struct_hlist_node None,
     Member ''list'' struct_list_head None,
     Member ''nmissed'' (CInt 8 False) None,
     Member ''addr'' (CPtr ''kprobe_opcode_t'') None,
     Member ''symbol_name'' (CPtr ''char'') None,
     Member ''offset'' (CInt 4 False) None,
     Member ''pre_handler'' typedef_kprobe_pre_handler_t None,
     Member ''post_handler'' typedef_kprobe_post_handler_t None,
     Member ''opcode'' typedef_kprobe_opcode_t None,
     Member ''ainsn'' struct_arch_specific_insn None,
     Member ''flags'' typedef_u32 None]"

lemma struct_kprobe_layout [ksize]:
  "sizeof struct_kprobe = 128" "alignof struct_kprobe = 8" "wf_ctype struct_kprobe" "unpacked struct_kprobe"
  by (simp_all add: struct_kprobe_def layout_eval ksize)

abbreviation typedef_kretprobe_handler_t :: ctype where
  "typedef_kretprobe_handler_t \<equiv> CPtr ''fn''"

definition struct_kretprobe :: ctype where
  "struct_kretprobe = CStruct False [
     Member ''kp'' struct_kprobe None,
     Member ''handler'' typedef_kretprobe_handler_t None,
     Member ''entry_handler'' typedef_kretprobe_handler_t None,
     Member ''maxactive'' (CInt 4 True) None,
     Member ''nmissed'' (CInt 4 True) None,
     Member ''data_size'' typedef_size_t None,
     Member ''rh'' (CPtr ''struct rethook'') None]"

lemma struct_kretprobe_layout [ksize]:
  "sizeof struct_kretprobe = 168" "alignof struct_kretprobe = 8" "wf_ctype struct_kretprobe" "unpacked struct_kretprobe"
  by (simp_all add: struct_kretprobe_def layout_eval ksize)

abbreviation struct_sock_filter :: ctype where
  "struct_sock_filter \<equiv> CStruct False [
     Member ''code'' typedef___u16 None,
     Member ''jt'' typedef___u8 None,
     Member ''jf'' typedef___u8 None,
     Member ''k'' typedef___u32 None]"

abbreviation struct_bpf_insn :: ctype where
  "struct_bpf_insn \<equiv> CStruct False [
     Member ''code'' typedef___u8 None,
     Member ''dst_reg'' typedef___u8 (Some 4),
     Member ''src_reg'' typedef___u8 (Some 4),
     Member ''off'' typedef___s16 None,
     Member ''imm'' typedef___s32 None]"

definition struct_bpf_prog :: ctype where
  "struct_bpf_prog = CStruct False [
     Member ''pages'' typedef_u16 None,
     Member ''jited'' typedef_u16 (Some 1),
     Member ''jit_requested'' typedef_u16 (Some 1),
     Member ''gpl_compatible'' typedef_u16 (Some 1),
     Member ''cb_access'' typedef_u16 (Some 1),
     Member ''dst_needed'' typedef_u16 (Some 1),
     Member ''blinding_requested'' typedef_u16 (Some 1),
     Member ''blinded'' typedef_u16 (Some 1),
     Member ''is_func'' typedef_u16 (Some 1),
     Member ''kprobe_override'' typedef_u16 (Some 1),
     Member ''has_callchain_buf'' typedef_u16 (Some 1),
     Member ''enforce_expected_attach_type'' typedef_u16 (Some 1),
     Member ''call_get_stack'' typedef_u16 (Some 1),
     Member ''call_get_func_ip'' typedef_u16 (Some 1),
     Member ''tstamp_type_access'' typedef_u16 (Some 1),
     Member ''type'' CEnum None,
     Member ''expected_attach_type'' CEnum None,
     Member ''len'' typedef_u32 None,
     Member ''jited_len'' typedef_u32 None,
     Member ''tag'' (CArray typedef_u8 8) None,
     Member ''stats'' (CPtr ''struct bpf_prog_stats'') None,
     Member ''active'' (CPtr ''int'') None,
     Member ''bpf_func'' (CPtr ''fn'') None,
     Member ''aux'' (CPtr ''struct bpf_prog_aux'') None,
     Member ''orig_prog'' (CPtr ''struct sock_fprog_kern'') None,
     Member '''' (CUnion False [
       Member '''' (CStruct False [
         Member ''__empty_insns'' (CStruct False []) None,
         Member ''insns'' (CArray struct_sock_filter 0) None]) None,
       Member '''' (CStruct False [
         Member ''__empty_insnsi'' (CStruct False []) None,
         Member ''insnsi'' (CArray struct_bpf_insn 0) None]) None]) None]"

lemma struct_bpf_prog_layout [ksize]:
  "sizeof struct_bpf_prog = 72" "alignof struct_bpf_prog = 8" "wf_ctype struct_bpf_prog" "unpacked struct_bpf_prog"
  by (simp_all add: struct_bpf_prog_def layout_eval ksize)

abbreviation struct_latch_tree_node :: ctype where
  "struct_latch_tree_node \<equiv> CStruct False [
     Member ''node'' (CArray struct_rb_node 2) None]"

definition struct_bpf_ksym :: ctype where
  "struct_bpf_ksym = CStruct False [
     Member ''start'' (CInt 8 False) None,
     Member ''end'' (CInt 8 False) None,
     Member ''name'' (CArray (CInt 1 True) 512) None,
     Member ''lnode'' struct_list_head None,
     Member ''tnode'' struct_latch_tree_node None,
     Member ''prog'' typedef_bool None]"

lemma struct_bpf_ksym_layout [ksize]:
  "sizeof struct_bpf_ksym = 600" "alignof struct_bpf_ksym = 8" "wf_ctype struct_bpf_ksym" "unpacked struct_bpf_ksym"
  by (simp_all add: struct_bpf_ksym_def layout_eval ksize)

definition struct_bpf_prog_aux :: ctype where
  "struct_bpf_prog_aux = CStruct False [
     Member ''refcnt'' typedef_atomic64_t None,
     Member ''used_map_cnt'' typedef_u32 None,
     Member ''used_btf_cnt'' typedef_u32 None,
     Member ''max_ctx_offset'' typedef_u32 None,
     Member ''max_pkt_offset'' typedef_u32 None,
     Member ''max_tp_access'' typedef_u32 None,
     Member ''stack_depth'' typedef_u32 None,
     Member ''id'' typedef_u32 None,
     Member ''func_cnt'' typedef_u32 None,
     Member ''real_func_cnt'' typedef_u32 None,
     Member ''func_idx'' typedef_u32 None,
     Member ''attach_btf_id'' typedef_u32 None,
     Member ''ctx_arg_info_size'' typedef_u32 None,
     Member ''max_rdonly_access'' typedef_u32 None,
     Member ''max_rdwr_access'' typedef_u32 None,
     Member ''attach_btf'' (CPtr ''struct btf'') None,
     Member ''ctx_arg_info'' (CPtr ''struct bpf_ctx_arg_aux'') None,
     Member ''dst_mutex'' struct_mutex None,
     Member ''dst_prog'' (CPtr ''struct bpf_prog'') None,
     Member ''dst_trampoline'' (CPtr ''struct bpf_trampoline'') None,
     Member ''saved_dst_prog_type'' CEnum None,
     Member ''saved_dst_attach_type'' CEnum None,
     Member ''verifier_zext'' typedef_bool None,
     Member ''dev_bound'' typedef_bool None,
     Member ''offload_requested'' typedef_bool None,
     Member ''attach_btf_trace'' typedef_bool None,
     Member ''attach_tracing_prog'' typedef_bool None,
     Member ''func_proto_unreliable'' typedef_bool None,
     Member ''sleepable'' typedef_bool None,
     Member ''tail_call_reachable'' typedef_bool None,
     Member ''xdp_has_frags'' typedef_bool None,
     Member ''exception_cb'' typedef_bool None,
     Member ''exception_boundary'' typedef_bool None,
     Member ''is_extended'' typedef_bool None,
     Member ''prog_array_member_cnt'' typedef_u64 None,
     Member ''ext_mutex'' struct_mutex None,
     Member ''attach_func_proto'' (CPtr ''struct btf_type'') None,
     Member ''attach_func_name'' (CPtr ''char'') None,
     Member ''func'' (CPtr ''struct bpf_prog *'') None,
     Member ''jit_data'' (CPtr ''void'') None,
     Member ''poke_tab'' (CPtr ''struct bpf_jit_poke_descriptor'') None,
     Member ''kfunc_tab'' (CPtr ''struct bpf_kfunc_desc_tab'') None,
     Member ''kfunc_btf_tab'' (CPtr ''struct bpf_kfunc_btf_tab'') None,
     Member ''size_poke_tab'' typedef_u32 None,
     Member ''ksym'' struct_bpf_ksym None,
     Member ''ops'' (CPtr ''struct bpf_prog_ops'') None,
     Member ''used_maps'' (CPtr ''struct bpf_map *'') None,
     Member ''used_maps_mutex'' struct_mutex None,
     Member ''used_btfs'' (CPtr ''struct btf_mod_pair'') None,
     Member ''prog'' (CPtr ''struct bpf_prog'') None,
     Member ''user'' (CPtr ''struct user_struct'') None,
     Member ''load_time'' typedef_u64 None,
     Member ''verified_insns'' typedef_u32 None,
     Member ''cgroup_atype'' (CInt 4 True) None,
     Member ''cgroup_storage'' (CArray (CPtr ''struct bpf_map'') 2) None,
     Member ''name'' (CArray (CInt 1 True) 16) None,
     Member ''bpf_exception_cb'' (CPtr ''fn'') None,
     Member ''security'' (CPtr ''void'') None,
     Member ''offload'' (CPtr ''struct bpf_prog_offload'') None,
     Member ''btf'' (CPtr ''struct btf'') None,
     Member ''func_info'' (CPtr ''struct bpf_func_info'') None,
     Member ''func_info_aux'' (CPtr ''struct bpf_func_info_aux'') None,
     Member ''linfo'' (CPtr ''struct bpf_line_info'') None,
     Member ''jited_linfo'' (CPtr ''void *'') None,
     Member ''func_info_cnt'' typedef_u32 None,
     Member ''nr_linfo'' typedef_u32 None,
     Member ''linfo_idx'' typedef_u32 None,
     Member ''mod'' (CPtr ''struct module'') None,
     Member ''num_exentries'' typedef_u32 None,
     Member ''extable'' (CPtr ''struct exception_table_entry'') None,
     Member '''' (CUnion False [
       Member ''work'' struct_work_struct None,
       Member ''rcu'' struct_callback_head None]) None]"

lemma struct_bpf_prog_aux_layout [ksize]:
  "sizeof struct_bpf_prog_aux = 1112" "alignof struct_bpf_prog_aux = 8" "wf_ctype struct_bpf_prog_aux" "unpacked struct_bpf_prog_aux"
  by (simp_all add: struct_bpf_prog_aux_def layout_eval ksize)

end
