(* ===== verification/Breaker.thy ===== *)
theory Breaker
  imports Prelude "HOL-Library.Multiset" "HOL-Library.AList"
begin

text \<open>
  \<open>src/pkg/circuitbreaker/breaker.go\<close>: the in-flight limiter of an endpoint and the breaker that keeps
  one limiter per endpoint. The limiter is modelled twice: as functions on its state, the effect of a
  call that runs alone, and as a step relation on the atomic loads, stores and compare-and-swaps of
  any number of concurrent calls.
\<close>

section \<open>The limiter\<close>

definition defaultMaxInflightPerEndpoint :: int where
  "defaultMaxInflightPerEndpoint = 128"

definition normalizeMaxInflight :: "int \<Rightarrow> int" where
  "normalizeMaxInflight limit = (if limit \<le> 0 then defaultMaxInflightPerEndpoint else limit)"

definition normalizeEndpoint :: "string \<Rightarrow> string" where
  "normalizeEndpoint endpoint = (if endpoint = '''' then ''unknown'' else endpoint)"

definition MaxInflight_Set :: "int \<Rightarrow> int option \<Rightarrow> int option" where
  "MaxInflight_Set limit m = map_option (\<lambda>_. normalizeMaxInflight limit) m"

definition MaxInflight_Load :: "int option \<Rightarrow> int" where
  "MaxInflight_Load m =
     (case m of None \<Rightarrow> defaultMaxInflightPerEndpoint | Some v \<Rightarrow> normalizeMaxInflight v)"

definition NewMaxInflight :: "int \<Rightarrow> int option" where
  "NewMaxInflight limit = MaxInflight_Set limit (Some 0)"

text \<open>A limiter is its in-flight count; the limit is shared and passed along.\<close>

definition Release :: "int \<Rightarrow> int" where
  "Release current = (if current \<le> 0 then current else current - 1)"

definition TryAcquire :: "int option \<Rightarrow> int \<Rightarrow> bool \<times> int" where
  "TryAcquire m current =
     (if current \<ge> MaxInflight_Load m then (False, current)
      else if wrap64 (current + 1) \<le> MaxInflight_Load m then (True, wrap64 (current + 1))
      else (False, Release (wrap64 (current + 1))))"


section \<open>Concurrent calls\<close>

text \<open>
  Where a call stands: before the load of the loop, after the load, after the first comparison with
  the limit, after the swap and before the second comparison; \<open>Granted\<close> is a caller that was admitted
  and has not called \<open>Release\<close>; and the two points of the loop of \<open>Release\<close>. The flag says whether
  the release is the caller's or the roll-back of a refused admission.
\<close>

datatype call =
    AcqLoad
  | AcqLimit int
  | AcqSwap int
  | AcqRecheck int
  | Granted
  | RelLoad bool
  | RelSwap bool int

record limiter =
  lm_inflight :: int
  lm_max :: int
  lm_calls :: "call multiset"

inductive limiter_step :: "limiter \<Rightarrow> limiter \<Rightarrow> bool" where
  acquire_call:
    "limiter_step l (l\<lparr>lm_calls := add_mset AcqLoad (lm_calls l)\<rparr>)"
| acquire_load:
    "lm_calls l = add_mset AcqLoad cs \<Longrightarrow>
     limiter_step l (l\<lparr>lm_calls := add_mset (AcqLimit (lm_inflight l)) cs\<rparr>)"
| acquire_full:
    "lm_calls l = add_mset (AcqLimit c) cs \<Longrightarrow> c \<ge> lm_max l \<Longrightarrow>
     limiter_step l (l\<lparr>lm_calls := cs\<rparr>)"
| acquire_room:
    "lm_calls l = add_mset (AcqLimit c) cs \<Longrightarrow> c < lm_max l \<Longrightarrow>
     limiter_step l (l\<lparr>lm_calls := add_mset (AcqSwap c) cs\<rparr>)"
| acquire_swap:
    "lm_calls l = add_mset (AcqSwap c) cs \<Longrightarrow> lm_inflight l = c \<Longrightarrow>
     limiter_step l (l\<lparr>lm_inflight := wrap64 (c + 1), lm_calls := add_mset (AcqRecheck c) cs\<rparr>)"
| acquire_retry:
    "lm_calls l = add_mset (AcqSwap c) cs \<Longrightarrow> lm_inflight l \<noteq> c \<Longrightarrow>
     limiter_step l (l\<lparr>lm_calls := add_mset AcqLoad cs\<rparr>)"
| acquire_granted:
    "lm_calls l = add_mset (AcqRecheck c) cs \<Longrightarrow> wrap64 (c + 1) \<le> lm_max l \<Longrightarrow>
     limiter_step l (l\<lparr>lm_calls := add_mset Granted cs\<rparr>)"
| acquire_undo:
    "lm_calls l = add_mset (AcqRecheck c) cs \<Longrightarrow> \<not> wrap64 (c + 1) \<le> lm_max l \<Longrightarrow>
     limiter_step l (l\<lparr>lm_calls := add_mset (RelLoad False) cs\<rparr>)"
| release_call:
    "lm_calls l = add_mset Granted cs \<Longrightarrow>
     limiter_step l (l\<lparr>lm_calls := add_mset (RelLoad True) cs\<rparr>)"
| release_load:
    "lm_calls l = add_mset (RelLoad b) cs \<Longrightarrow>
     limiter_step l (l\<lparr>lm_calls := add_mset (RelSwap b (lm_inflight l)) cs\<rparr>)"
| release_none:
    "lm_calls l = add_mset (RelSwap b c) cs \<Longrightarrow> c \<le> 0 \<Longrightarrow>
     limiter_step l (l\<lparr>lm_calls := cs\<rparr>)"
| release_swap:
    "lm_calls l = add_mset (RelSwap b c) cs \<Longrightarrow> c > 0 \<Longrightarrow> lm_inflight l = c \<Longrightarrow>
     limiter_step l (l\<lparr>lm_inflight := c - 1, lm_calls := cs\<rparr>)"
| release_retry:
    "lm_calls l = add_mset (RelSwap b c) cs \<Longrightarrow> c > 0 \<Longrightarrow> lm_inflight l \<noteq> c \<Longrightarrow>
     limiter_step l (l\<lparr>lm_calls := add_mset (RelLoad b) cs\<rparr>)"
| set_max:
    "limiter_step l (l\<lparr>lm_max := normalizeMaxInflight v\<rparr>)"

fun occupying :: "call \<Rightarrow> bool" where
  "occupying (AcqRecheck c) = True"
| "occupying Granted = True"
| "occupying (RelLoad b) = True"
| "occupying (RelSwap b c) = True"
| "occupying _ = False"

definition occupants :: "limiter \<Rightarrow> nat" where
  "occupants l = size (filter_mset occupying (lm_calls l))"

definition limiter_inv :: "int \<Rightarrow> limiter \<Rightarrow> bool" where
  "limiter_inv M l \<longleftrightarrow>
     lm_inflight l = int (occupants l) \<and> lm_inflight l \<le> M \<and> lm_max l \<le> M \<and> M \<le> max_int64 \<and>
     (\<forall>c. AcqSwap c \<in># lm_calls l \<longrightarrow> c < M) \<and> (\<forall>b c. RelSwap b c \<in># lm_calls l \<longrightarrow> 0 < c)"

lemma wrap64_Suc: "0 \<le> c \<Longrightarrow> c < M \<Longrightarrow> M \<le> max_int64 \<Longrightarrow> wrap64 (c + 1) = c + 1"
  by (rule wrap64_id) (auto simp: min_int64_def)

lemma limiter_inv_step:
  assumes "limiter_step l l'" "limiter_inv M l" "lm_max l' \<le> M"
  shows "limiter_inv M l'"
  using assms
proof (cases rule: limiter_step.cases)
  case (acquire_swap c cs)
  then have "wrap64 (c + 1) = c + 1" "c + 1 \<le> M"
    using assms(2) by (auto simp: limiter_inv_def intro!: wrap64_Suc)
  then show ?thesis
    using acquire_swap assms(2) by (auto simp: limiter_inv_def occupants_def)
qed (auto simp: limiter_inv_def occupants_def)

inductive limiter_reach :: "int \<Rightarrow> limiter \<Rightarrow> bool" for M where
  start: "normalizeMaxInflight v \<le> M \<Longrightarrow>
    limiter_reach M \<lparr>lm_inflight = 0, lm_max = normalizeMaxInflight v, lm_calls = {#}\<rparr>"
| step: "limiter_reach M l \<Longrightarrow> limiter_step l l' \<Longrightarrow> lm_max l' \<le> M \<Longrightarrow> limiter_reach M l'"

lemma limiter_reach_inv:
  assumes "limiter_reach M l" "M \<le> max_int64"
  shows "limiter_inv M l"
  using assms
proof induction
  case (start v)
  then show ?case
    by (auto simp: limiter_inv_def occupants_def normalizeMaxInflight_def defaultMaxInflightPerEndpoint_def
        split: if_splits)
next
  case (step l l')
  then show ?case
    using limiter_inv_step by blast
qed

text \<open>
  C27: under every interleaving of concurrent admissions, releases and changes of the limit, the
  in-flight count is the number of calls that occupy a slot (admitted callers, calls about to re-check
  the limit, releases not yet done), and is never more than the largest limit that was in force; so
  there are never more admitted callers than that. No slot leaks: a release in progress always finds a
  positive count to take back.
\<close>

theorem limiter_never_exceeds:
  assumes "limiter_reach M l" "M \<le> max_int64"
  shows "int (count (lm_calls l) Granted) \<le> lm_inflight l \<and> lm_inflight l \<le> M \<and>
     lm_inflight l = int (occupants l) \<and> (\<forall>b c. RelSwap b c \<in># lm_calls l \<longrightarrow> 0 < c)"
proof -
  have inv: "limiter_inv M l"
    using limiter_reach_inv assms by blast
  have "count (lm_calls l) Granted = count (filter_mset occupying (lm_calls l)) Granted"
    by simp
  also have "\<dots> \<le> occupants l"
    unfolding occupants_def by (rule count_le_size)
  finally show ?thesis
    using inv by (simp add: limiter_inv_def)
qed

lemma demo_granted: "limiter_reach 128 \<lparr>lm_inflight = 1, lm_max = 128, lm_calls = {#Granted#}\<rparr>"
proof -
  define st where "st = (\<lambda>n c. \<lparr>lm_inflight = n, lm_max = 128, lm_calls = c\<rparr>)"
  have "limiter_reach 128 (st 0 {#})"
    using limiter_reach.start [of 0 128]
    by (simp add: st_def normalizeMaxInflight_def defaultMaxInflightPerEndpoint_def)
  then have "limiter_reach 128 (st 0 {#AcqLoad#})"
    by (rule limiter_reach.step) (use limiter_step.acquire_call in \<open>auto simp: st_def dest: meta_spec [of _ "st 0 {#}"]\<close>)
  then have "limiter_reach 128 (st 0 {#AcqLimit 0#})"
    by (rule limiter_reach.step) (use limiter_step.acquire_load [of "st 0 {#AcqLoad#}" "{#}"] in \<open>simp_all add: st_def\<close>)
  then have "limiter_reach 128 (st 0 {#AcqSwap 0#})"
    by (rule limiter_reach.step) (use limiter_step.acquire_room [of "st 0 {#AcqLimit 0#}" 0 "{#}"] in \<open>simp_all add: st_def\<close>)
  then have "limiter_reach 128 (st 1 {#AcqRecheck 0#})"
    by (rule limiter_reach.step) (use limiter_step.acquire_swap [of "st 0 {#AcqSwap 0#}" 0 "{#}"] in \<open>simp_all add: st_def wrap64_def\<close>)
  then have "limiter_reach 128 (st 1 {#Granted#})"
    by (rule limiter_reach.step) (use limiter_step.acquire_granted [of "st 1 {#AcqRecheck 0#}" 0 "{#}"] in \<open>simp_all add: st_def wrap64_def\<close>)
  then show ?thesis
    by (simp add: st_def)
qed

theorem limiter_never_exceeds_witness:
  "int (count {#Granted#} Granted) \<le> 1 \<and> (1 :: int) \<le> 128 \<and>
   1 = int (occupants \<lparr>lm_inflight = 1, lm_max = 128, lm_calls = {#Granted#}\<rparr>)"
  using limiter_never_exceeds [OF demo_granted] by (simp add: max_int64_def)


section \<open>The breaker\<close>

text \<open>
  One in-flight count per endpoint under a shared limit. \<open>Acquire\<close> returns a release function that
  closes over the limiter and a flag; the released flags of the functions handed out are part of the
  state, and a function is named by its position.
\<close>

record Breaker =
  br_max :: "int option"
  br_limiters :: "(string \<times> int) list"
  br_handles :: "(string \<times> bool) list"

datatype breaker_error = ErrOpen

definition NewBreaker :: "int \<Rightarrow> Breaker" where
  "NewBreaker limit = \<lparr>br_max = NewMaxInflight limit, br_limiters = [], br_handles = []\<rparr>"

definition breaker_limiter :: "string \<Rightarrow> Breaker \<Rightarrow> Breaker" where
  "breaker_limiter endpoint b =
     (let endpoint = normalizeEndpoint endpoint
      in if map_of (br_limiters b) endpoint \<noteq> None then b
         else b\<lparr>br_limiters := AList.update endpoint 0 (br_limiters b)\<rparr>)"

definition count_of :: "string \<Rightarrow> Breaker \<Rightarrow> int" where
  "count_of endpoint b = (case map_of (br_limiters b) (normalizeEndpoint endpoint) of Some n \<Rightarrow> n | None \<Rightarrow> 0)"

definition set_count :: "string \<Rightarrow> int \<Rightarrow> Breaker \<Rightarrow> Breaker" where
  "set_count endpoint n b =
     b\<lparr>br_limiters := AList.update (normalizeEndpoint endpoint) n (br_limiters b)\<rparr>"

definition Breaker_TryAcquire :: "string \<Rightarrow> Breaker \<Rightarrow> breaker_error option \<times> Breaker" where
  "Breaker_TryAcquire endpoint b =
     (let b = breaker_limiter endpoint b;
          (ok, n) = TryAcquire (br_max b) (count_of endpoint b)
      in (if ok then None else Some ErrOpen, set_count endpoint n b))"

definition Breaker_Acquire :: "string \<Rightarrow> Breaker \<Rightarrow> (breaker_error + nat) \<times> Breaker" where
  "Breaker_Acquire endpoint b =
     (let endpoint = normalizeEndpoint endpoint;
          b = breaker_limiter endpoint b;
          (ok, n) = TryAcquire (br_max b) (count_of endpoint b);
          b = set_count endpoint n b
      in if \<not> ok then (Inl ErrOpen, b)
         else (Inr (length (br_handles b)), b\<lparr>br_handles := br_handles b @ [(endpoint, False)]\<rparr>))"

definition Breaker_Release :: "string \<Rightarrow> Breaker \<Rightarrow> Breaker" where
  "Breaker_Release endpoint b =
     (if map_of (br_limiters b) (normalizeEndpoint endpoint) = None then b
      else set_count endpoint (Release (count_of endpoint b)) b)"

definition call_release :: "nat \<Rightarrow> Breaker \<Rightarrow> Breaker" where
  "call_release i b =
     (if i < length (br_handles b) \<and> \<not> snd (br_handles b ! i)
      then let endpoint = fst (br_handles b ! i)
           in Breaker_Release endpoint (b\<lparr>br_handles := (br_handles b)[i := (endpoint, True)]\<rparr>)
      else b)"

definition SetMaxInflightPerEndpoint :: "int \<Rightarrow> Breaker \<Rightarrow> Breaker" where
  "SetMaxInflightPerEndpoint limit b = b\<lparr>br_max := MaxInflight_Set limit (br_max b)\<rparr>"

definition MaxInflightPerEndpoint :: "Breaker \<Rightarrow> int" where
  "MaxInflightPerEndpoint b = (case br_max b of None \<Rightarrow> 0 | m \<Rightarrow> MaxInflight_Load m)"

definition Breaker_Inflight :: "string \<Rightarrow> Breaker \<Rightarrow> int" where
  "Breaker_Inflight endpoint b = count_of endpoint b"

datatype breaker_op = AcquireOp string | ReleaseFn nat | SetMaxOp int

fun run_breaker_op :: "breaker_op \<Rightarrow> Breaker \<Rightarrow> Breaker" where
  "run_breaker_op (AcquireOp e) b = snd (Breaker_Acquire e b)"
| "run_breaker_op (ReleaseFn i) b = call_release i b"
| "run_breaker_op (SetMaxOp v) b = SetMaxInflightPerEndpoint v b"

fun op_in_range :: "breaker_op \<Rightarrow> bool" where
  "op_in_range (SetMaxOp v) \<longleftrightarrow> v \<le> max_int64"
| "op_in_range _ \<longleftrightarrow> True"

text \<open>The release functions of an endpoint that have not been called yet.\<close>

definition open_handles :: "string \<Rightarrow> Breaker \<Rightarrow> nat" where
  "open_handles endpoint b = count (mset (br_handles b)) (normalizeEndpoint endpoint, False)"

definition breaker_inv :: "Breaker \<Rightarrow> bool" where
  "breaker_inv b \<longleftrightarrow> (\<forall>e. count_of e b = int (open_handles e b)) \<and>
     (\<forall>h\<in>set (br_handles b). normalizeEndpoint (fst h) = fst h \<and>
        map_of (br_limiters b) (fst h) \<noteq> None) \<and>
     MaxInflight_Load (br_max b) \<le> max_int64"

lemma normalizeEndpoint_idem [simp]: "normalizeEndpoint (normalizeEndpoint e) = normalizeEndpoint e"
  by (simp add: normalizeEndpoint_def)

lemma count_of_limiter [simp]: "count_of f (breaker_limiter e b) = count_of f b"
  by (auto simp: count_of_def breaker_limiter_def Let_def update_conv' split: option.splits)

lemma breaker_limiter_fields [simp]:
  "br_max (breaker_limiter e b) = br_max b" "br_handles (breaker_limiter e b) = br_handles b"
  by (simp_all add: breaker_limiter_def Let_def)

lemma set_count_fields [simp]:
  "count_of f (set_count e n b) = (if normalizeEndpoint f = normalizeEndpoint e then n else count_of f b)"
  "br_max (set_count e n b) = br_max b" "br_handles (set_count e n b) = br_handles b"
  "map_of (br_limiters (set_count e n b)) k =
     (if k = normalizeEndpoint e then Some n else map_of (br_limiters b) k)"
  by (simp_all add: count_of_def set_count_def update_conv')

lemma limiter_kept: "map_of (br_limiters b) k \<noteq> None \<Longrightarrow> map_of (br_limiters (breaker_limiter e b)) k \<noteq> None"
  by (simp add: breaker_limiter_def Let_def update_conv')

lemma count_of_handles [simp]: "count_of e (b\<lparr>br_handles := hs\<rparr>) = count_of e b"
  by (simp add: count_of_def)

lemma count_of_normalize [simp]: "count_of (normalizeEndpoint e) b = count_of e b"
  by (simp add: count_of_def)

lemma count_of_cong: "normalizeEndpoint e = normalizeEndpoint f \<Longrightarrow> count_of e b = count_of f b"
  by (simp add: count_of_def)

lemma TryAcquire_eq:
  assumes "0 \<le> c" "MaxInflight_Load m \<le> max_int64"
  shows "TryAcquire m c = (if c < MaxInflight_Load m then (True, c + 1) else (False, c))"
  using assms wrap64_Suc [of c "MaxInflight_Load m"] by (simp add: TryAcquire_def)

lemma acquire_inv:
  assumes inv: "breaker_inv b"
  shows "breaker_inv (snd (Breaker_Acquire e b))"
    and "fst (Breaker_Acquire e b) =
      (if count_of e b < MaxInflight_Load (br_max b) then Inr (length (br_handles b)) else Inl ErrOpen)"
proof -
  have adm: "TryAcquire (br_max b) (count_of e b) =
      (if count_of e b < MaxInflight_Load (br_max b) then (True, count_of e b + 1) else (False, count_of e b))"
    using inv by (intro TryAcquire_eq) (simp_all add: breaker_inv_def)
  show "fst (Breaker_Acquire e b) =
      (if count_of e b < MaxInflight_Load (br_max b) then Inr (length (br_handles b)) else Inl ErrOpen)"
    by (simp add: Breaker_Acquire_def Let_def adm)
  have counts: "count_of f b = int (open_handles f b)" for f
    using inv by (simp add: breaker_inv_def)
  have kept: "\<forall>h\<in>set (br_handles b). normalizeEndpoint (fst h) = fst h \<and>
      map_of (br_limiters (breaker_limiter (normalizeEndpoint e) b)) (fst h) \<noteq> None"
    using inv limiter_kept by (auto simp: breaker_inv_def)
  show "breaker_inv (snd (Breaker_Acquire e b))"
  proof (cases "count_of e b < MaxInflight_Load (br_max b)")
    case True
    then have "snd (Breaker_Acquire e b) = (set_count (normalizeEndpoint e) (count_of e b + 1)
        (breaker_limiter (normalizeEndpoint e) b))\<lparr>br_handles := br_handles b @ [(normalizeEndpoint e, False)]\<rparr>"
      by (simp add: Breaker_Acquire_def Let_def adm)
    then show ?thesis
      using inv kept by (auto simp: breaker_inv_def open_handles_def counts)
  next
    case False
    then have "snd (Breaker_Acquire e b) =
        set_count (normalizeEndpoint e) (count_of e b) (breaker_limiter (normalizeEndpoint e) b)"
      by (simp add: Breaker_Acquire_def Let_def adm)
    then show ?thesis
      using inv kept by (auto simp: breaker_inv_def open_handles_def counts)
  qed
qed

lemma call_release_inv:
  assumes inv: "breaker_inv b"
  shows "breaker_inv (call_release i b)"
proof (cases "i < length (br_handles b) \<and> \<not> snd (br_handles b ! i)")
  case True
  then obtain e where e: "br_handles b ! i = (e, False)" "i < length (br_handles b)"
    by (cases "br_handles b ! i") auto
  then have mem: "(e, False) \<in> set (br_handles b)"
    by (metis nth_mem)
  then have norm: "normalizeEndpoint e = e" "map_of (br_limiters b) e \<noteq> None"
    using inv by (auto simp: breaker_inv_def)
  have pos: "0 < count_of e b"
    using inv mem norm by (simp add: breaker_inv_def open_handles_def)
  have handles: "mset ((br_handles b)[i := (e, True)]) = add_mset (e, True) (mset (br_handles b) - {#(e, False)#})"
    using e by (simp add: mset_update)
  have sub: "set ((br_handles b)[i := (e, True)]) \<subseteq> insert (e, True) (set (br_handles b))"
    by (rule set_update_subset_insert)
  have call: "call_release i b =
      set_count e (count_of e b - 1) (b\<lparr>br_handles := (br_handles b)[i := (e, True)]\<rparr>)"
    using e norm pos by (auto simp: call_release_def Breaker_Release_def Release_def)
  have "count_of f (call_release i b) = int (open_handles f (call_release i b))" for f
    using inv norm pos mem handles by (auto simp: call breaker_inv_def open_handles_def of_nat_diff)
  moreover have "\<forall>h\<in>set (br_handles (call_release i b)). normalizeEndpoint (fst h) = fst h \<and>
      map_of (br_limiters (call_release i b)) (fst h) \<noteq> None"
    using inv norm sub by (auto simp: call breaker_inv_def)
  moreover have "br_max (call_release i b) = br_max b"
    by (simp add: call)
  ultimately show ?thesis
    using inv by (simp add: breaker_inv_def)
qed (use inv in \<open>auto simp: call_release_def\<close>)

lemma run_breaker_inv:
  assumes "breaker_inv b" "\<forall>op\<in>set ops. op_in_range op"
  shows "breaker_inv (fold run_breaker_op ops b)"
  using assms
proof (induction ops arbitrary: b)
  case (Cons op ops)
  have "breaker_inv (run_breaker_op op b)"
  proof (cases op)
    case (SetMaxOp v)
    then have "normalizeMaxInflight v \<le> max_int64"
      using Cons.prems by (simp add: normalizeMaxInflight_def defaultMaxInflightPerEndpoint_def max_int64_def)
    then show ?thesis
      using SetMaxOp Cons.prems(1)
      by (cases "br_max b")
        (auto simp: SetMaxInflightPerEndpoint_def breaker_inv_def open_handles_def count_of_def MaxInflight_Set_def
          MaxInflight_Load_def normalizeMaxInflight_def defaultMaxInflightPerEndpoint_def split: if_splits)
  qed (use Cons.prems in \<open>simp_all add: acquire_inv call_release_inv\<close>)
  then show ?case
    using Cons by simp
qed simp

lemma NewBreaker_inv: "limit \<le> max_int64 \<Longrightarrow> breaker_inv (NewBreaker limit)"
  by (auto simp: breaker_inv_def NewBreaker_def open_handles_def count_of_def NewMaxInflight_def MaxInflight_Set_def
      MaxInflight_Load_def normalizeMaxInflight_def defaultMaxInflightPerEndpoint_def max_int64_def)

text \<open>
  After every sequence of admissions, calls of release functions (each as often as one likes) and
  changes of the limit, the in-flight count of an endpoint is the number of its release functions not
  called yet, and the next \<open>Acquire\<close> is admitted exactly when that number is below the limit. Endpoints
  do not affect each other, and calling a release function again has no effect.
\<close>

theorem breaker_counts_open_handles:
  assumes "limit \<le> max_int64" "\<forall>op\<in>set ops. op_in_range op"
    and "b = fold run_breaker_op ops (NewBreaker limit)"
  shows "Breaker_Inflight e b = int (open_handles e b) \<and>
     (fst (Breaker_Acquire e b) = Inr (length (br_handles b)) \<longleftrightarrow>
        int (open_handles e b) < MaxInflight_Load (br_max b)) \<and>
     call_release i (call_release i b) = call_release i b"
proof -
  have inv: "breaker_inv b"
    using run_breaker_inv NewBreaker_inv assms by blast
  have "snd (br_handles (call_release i b) ! i)" if "i < length (br_handles b)"
    using that by (auto simp: call_release_def Breaker_Release_def Let_def)
  moreover have "length (br_handles (call_release i b)) = length (br_handles b)"
    by (simp add: call_release_def Breaker_Release_def Let_def)
  ultimately have "call_release i (call_release i b) = call_release i b"
    by (subst call_release_def) auto
  then show ?thesis
    using inv acquire_inv(2) [OF inv, of e] by (simp add: breaker_inv_def Breaker_Inflight_def)
qed

theorem breaker_counts_open_handles_witness:
  "let b = fold run_breaker_op [AcquireOp ''a'', AcquireOp ''a'', ReleaseFn 0, ReleaseFn 0] (NewBreaker 2)
   in Breaker_Inflight ''a'' b = 1 \<and> open_handles ''a'' b = 1"
  using breaker_counts_open_handles [OF _ _ refl, where limit = 2 and e = "''a''"
      and ops = "[AcquireOp ''a'', AcquireOp ''a'', ReleaseFn 0, ReleaseFn 0]"]
  by (simp add: max_int64_def) code_simp

end
