(* ===== verification/Retry_Budget.thy ===== *)
theory Retry_Budget
  imports Prelude Go_Float "HOL-Library.Multiset"
begin

text \<open>
  \<open>src/pkg/retry/budget.go\<close>: the retry budget of a rolling window. The operations are given as functions
  of the budget and of the clock readings they make; \<open>TryAcquireRetry\<close> is also given as steps of
  concurrent calls, under the read lock that excludes the reset of the window.
\<close>

section \<open>The budget\<close>

record Budget =
  bg_BudgetRatio :: float64
  bg_MinBudget :: int
  bg_Window :: duration
  bg_windowStart :: gotime
  bg_originalRequests :: int
  bg_retryRequests :: int

definition NewBudget :: "float64 \<Rightarrow> int \<Rightarrow> duration \<Rightarrow> gotime \<Rightarrow> Budget" where
  "NewBudget ratio min_budget window now = \<lparr>
     bg_BudgetRatio = (if flt ratio (Fin False 0) \<or> IsNaN ratio then Fin False 0 else ratio),
     bg_MinBudget = (if min_budget < 0 then 0 else min_budget),
     bg_Window = (if window \<le> 0 then 10 * 1000000000 else window),
     bg_windowStart = now, bg_originalRequests = 0, bg_retryRequests = 0\<rparr>"

text \<open>\<open>now1\<close> is read before the lock, \<open>now2\<close> under the write lock.\<close>

definition lockCurrentWindow :: "gotime \<Rightarrow> gotime \<Rightarrow> Budget \<Rightarrow> Budget" where
  "lockCurrentWindow now1 now2 b =
     (if time_sub now1 (bg_windowStart b) < bg_Window b then b
      else if time_sub now2 (bg_windowStart b) \<ge> bg_Window b
      then b\<lparr>bg_windowStart := now2, bg_originalRequests := 0, bg_retryRequests := 0\<rparr>
      else b)"

definition allowedRetriesFor :: "Budget \<Rightarrow> int \<Rightarrow> int" where
  "allowedRetriesFor b originalRequests =
     (let ratioBudget = to_int64 (math_Floor (fadd (fmul (of_int64 originalRequests) (bg_BudgetRatio b))
            (of_rat64 (1 / 1000000000))))
      in if ratioBudget < bg_MinBudget b then bg_MinBudget b else ratioBudget)"

definition allowedRetries :: "Budget \<Rightarrow> int" where
  "allowedRetries b = allowedRetriesFor b (bg_originalRequests b)"

definition RecordOriginal :: "gotime \<Rightarrow> gotime \<Rightarrow> Budget \<Rightarrow> Budget" where
  "RecordOriginal now1 now2 b0 =
     (let b = lockCurrentWindow now1 now2 b0
      in b\<lparr>bg_originalRequests := wrap64 (bg_originalRequests b + 1)\<rparr>)"

definition AllowRetry :: "gotime \<Rightarrow> gotime \<Rightarrow> Budget \<Rightarrow> bool \<times> Budget" where
  "AllowRetry now1 now2 b0 =
     (let b = lockCurrentWindow now1 now2 b0 in (bg_retryRequests b < allowedRetries b, b))"

definition TryAcquireRetry :: "gotime \<Rightarrow> gotime \<Rightarrow> Budget \<Rightarrow> bool \<times> Budget" where
  "TryAcquireRetry now1 now2 b0 =
     (let b = lockCurrentWindow now1 now2 b0;
          allowed = allowedRetries b
      in if allowed \<le> 0 then (False, b)
         else let retries = wrap64 (bg_retryRequests b + 1)
              in if retries \<le> allowed then (True, b\<lparr>bg_retryRequests := retries\<rparr>)
                 else (False, b\<lparr>bg_retryRequests := wrap64 (retries - 1)\<rparr>))"

definition RecordRetry :: "gotime \<Rightarrow> gotime \<Rightarrow> Budget \<Rightarrow> Budget" where
  "RecordRetry now1 now2 b0 =
     (let b = lockCurrentWindow now1 now2 b0
      in b\<lparr>bg_retryRequests := wrap64 (bg_retryRequests b + 1)\<rparr>)"

record Snapshot =
  sn_OriginalRequests :: int
  sn_RetryRequests :: int
  sn_AllowedRetries :: int
  sn_WindowStart :: gotime
  sn_WindowEnd :: gotime

definition Budget_Snapshot :: "gotime \<Rightarrow> gotime \<Rightarrow> gotime \<Rightarrow> Budget \<Rightarrow> Snapshot \<times> Budget" where
  "Budget_Snapshot now1 now2 now3 b0 =
     (let b = lockCurrentWindow now1 now2 b0
      in (\<lparr>sn_OriginalRequests = bg_originalRequests b, sn_RetryRequests = bg_retryRequests b,
           sn_AllowedRetries = allowedRetriesFor b (bg_originalRequests b),
           sn_WindowStart = bg_windowStart b, sn_WindowEnd = now3\<rparr>, b))"


section \<open>The number of allowed retries\<close>

text \<open>
  The conversion to an integer is exact as long as the product stays below \<open>2^63\<close>; then the allowance
  grows with the number of original requests.
\<close>

definition ratio_budget :: "Budget \<Rightarrow> int \<Rightarrow> float64" where
  "ratio_budget b n = fadd (fmul (of_int64 n) (bg_BudgetRatio b)) (of_rat64 (1 / 1000000000))"

definition budget_in_range :: "Budget \<Rightarrow> int \<Rightarrow> bool" where
  "budget_in_range b N \<longleftrightarrow> nonneg (bg_BudgetRatio b) \<and> bg_BudgetRatio b \<noteq> Infinity False \<and>
     flt (ratio_budget b N) (of_rat64 9223372036854775808)"

lemma allowedRetriesFor_eq:
  "allowedRetriesFor b n = max (bg_MinBudget b) (to_int64 (math_Floor (ratio_budget b n)))"
  by (simp add: allowedRetriesFor_def ratio_budget_def Let_def)

lemma epsilon_nonneg [simp]: "nonneg (of_rat64 (1 / 1000000000))"
  by (simp add: of_rat64_def)

lemma budget_in_range_finite:
  assumes "budget_in_range b N" "0 \<le> n" "n \<le> N"
  shows "of_int64 n \<noteq> Infinity False"
proof
  assume "of_int64 n = Infinity False"
  then have "of_int64 N = Infinity False"
    using of_int64_mono [OF assms(2, 3)] by (cases "of_int64 N") (auto simp: fle_def)
  moreover have "flt (ratio_budget b N) (of_rat64 9223372036854775808)"
    using assms(1) by (simp add: budget_in_range_def)
  ultimately show False
    by (cases "bg_BudgetRatio b"; cases "of_rat64 (1 / 1000000000)")
      (use assms(1) epsilon_nonneg in \<open>auto simp: ratio_budget_def budget_in_range_def nonneg_iff split: if_splits\<close>)
qed

lemma ratio_budget_mono:
  assumes "budget_in_range b N" "0 \<le> n" "n \<le> m" "m \<le> N"
  shows "fle (ratio_budget b n) (ratio_budget b m)" "nonneg (ratio_budget b n)"
proof -
  have ratio: "nonneg (bg_BudgetRatio b)" "bg_BudgetRatio b \<noteq> Infinity False"
    using assms(1) by (simp_all add: budget_in_range_def)
  have fin: "of_int64 n \<noteq> Infinity False" "of_int64 m \<noteq> Infinity False"
    using budget_in_range_finite [OF assms(1)] assms by auto
  show "nonneg (ratio_budget b n)"
    using ratio fin assms(2) by (simp add: ratio_budget_def)
  show "fle (ratio_budget b n) (ratio_budget b m)"
    unfolding ratio_budget_def
    using ratio fin assms(2, 3) by (intro fadd_mono fmul_mono nonneg_fmul of_int64_mono) auto
qed

lemma ratio_budget_floor:
  assumes "budget_in_range b N" "0 \<le> n" "n \<le> N"
  shows "to_int64 (math_Floor (ratio_budget b n)) = \<lfloor>fval (ratio_budget b n)\<rfloor>"
    and "ratio_budget b n \<noteq> Infinity False"
proof -
  have "flt (ratio_budget b n) (of_rat64 9223372036854775808)"
    using ratio_budget_mono(1) [OF assms(1, 2, 3)] assms fle_flt_trans
    by (auto simp: budget_in_range_def)
  then show "to_int64 (math_Floor (ratio_budget b n)) = \<lfloor>fval (ratio_budget b n)\<rfloor>"
    "ratio_budget b n \<noteq> Infinity False"
    using to_int64_floor ratio_budget_mono(2) [OF assms(1, 2) order_refl assms(3)]
    by auto
qed

lemma allowed_mono:
  assumes "budget_in_range b N" "0 \<le> n" "n \<le> m" "m \<le> N"
  shows "allowedRetriesFor b n \<le> allowedRetriesFor b m"
proof -
  note mono = ratio_budget_mono [OF assms]
  have "fval (ratio_budget b n) \<le> fval (ratio_budget b m)"
    using fle_fval [OF mono(2, 1)] ratio_budget_floor(2) [of b N m] assms by auto
  then have "\<lfloor>fval (ratio_budget b n)\<rfloor> \<le> \<lfloor>fval (ratio_budget b m)\<rfloor>"
    by (rule floor_mono)
  then show ?thesis
    using ratio_budget_floor(1) [OF assms(1)] assms by (simp add: allowedRetriesFor_eq)
qed


section \<open>Concurrent admissions\<close>

text \<open>
  A call of \<open>TryAcquireRetry\<close> under the read lock: before it reads the allowance, with the allowance
  it read, after its optimistic increment (with the allowance and the incremented count), and about to
  take the increment back. The counts of retries granted and recorded in the window are history.
\<close>

datatype retry_call = RetryRead | RetryAdd int | RetryCheck int int | RetryUndo

record retry_run =
  rr_budget :: Budget
  rr_calls :: "retry_call multiset"
  rr_granted :: nat
  rr_recorded :: nat

definition set_retries :: "int \<Rightarrow> Budget \<Rightarrow> Budget" where
  "set_retries n b = b\<lparr>bg_retryRequests := wrap64 n\<rparr>"

inductive retry_step :: "retry_run \<Rightarrow> retry_run \<Rightarrow> bool" where
  record_original:
    "retry_step s (s\<lparr>rr_budget := (rr_budget s)\<lparr>
       bg_originalRequests := wrap64 (bg_originalRequests (rr_budget s) + 1)\<rparr>\<rparr>)"
| record_retry:
    "retry_step s (s\<lparr>rr_budget := set_retries (bg_retryRequests (rr_budget s) + 1) (rr_budget s),
       rr_recorded := rr_recorded s + 1\<rparr>)"
| try_call:
    "retry_step s (s\<lparr>rr_calls := add_mset RetryRead (rr_calls s)\<rparr>)"
| try_none:
    "rr_calls s = add_mset RetryRead cs \<Longrightarrow> allowedRetries (rr_budget s) \<le> 0 \<Longrightarrow>
     retry_step s (s\<lparr>rr_calls := cs\<rparr>)"
| try_read:
    "rr_calls s = add_mset RetryRead cs \<Longrightarrow> \<not> allowedRetries (rr_budget s) \<le> 0 \<Longrightarrow>
     retry_step s (s\<lparr>rr_calls := add_mset (RetryAdd (allowedRetries (rr_budget s))) cs\<rparr>)"
| try_add:
    "rr_calls s = add_mset (RetryAdd a) cs \<Longrightarrow> b = set_retries (bg_retryRequests (rr_budget s) + 1) (rr_budget s) \<Longrightarrow>
     retry_step s (s\<lparr>rr_budget := b, rr_calls := add_mset (RetryCheck a (bg_retryRequests b)) cs\<rparr>)"
| try_granted:
    "rr_calls s = add_mset (RetryCheck a v) cs \<Longrightarrow> v \<le> a \<Longrightarrow>
     retry_step s (s\<lparr>rr_calls := cs, rr_granted := rr_granted s + 1\<rparr>)"
| try_refused:
    "rr_calls s = add_mset (RetryCheck a v) cs \<Longrightarrow> \<not> v \<le> a \<Longrightarrow>
     retry_step s (s\<lparr>rr_calls := add_mset RetryUndo cs\<rparr>)"
| try_undo:
    "rr_calls s = add_mset RetryUndo cs \<Longrightarrow>
     retry_step s (s\<lparr>rr_budget := set_retries (bg_retryRequests (rr_budget s) - 1) (rr_budget s), rr_calls := cs\<rparr>)"
| new_window:
    "rr_calls s = {#} \<Longrightarrow>
     retry_step s (s\<lparr>rr_budget := (rr_budget s)\<lparr>bg_windowStart := now, bg_originalRequests := 0, bg_retryRequests := 0\<rparr>,
       rr_granted := 0, rr_recorded := 0\<rparr>)"

fun will_win :: "retry_call \<Rightarrow> bool" where
  "will_win (RetryCheck a v) \<longleftrightarrow> v \<le> a"
| "will_win _ \<longleftrightarrow> False"

fun will_undo :: "retry_call \<Rightarrow> bool" where
  "will_undo (RetryCheck a v) \<longleftrightarrow> \<not> v \<le> a"
| "will_undo RetryUndo \<longleftrightarrow> True"
| "will_undo _ \<longleftrightarrow> False"

definition winners :: "retry_run \<Rightarrow> nat" where
  "winners s = rr_granted s + size (filter_mset will_win (rr_calls s))"

text \<open>\<open>N\<close> bounds the original requests of a window.\<close>

definition retry_bounds :: "int \<Rightarrow> retry_run \<Rightarrow> bool" where
  "retry_bounds N s \<longleftrightarrow> bg_originalRequests (rr_budget s) < N \<and> bg_retryRequests (rr_budget s) < max_int64"

definition retry_inv :: "int \<Rightarrow> retry_run \<Rightarrow> bool" where
  "retry_inv N s \<longleftrightarrow>
     budget_in_range (rr_budget s) N \<and> N \<le> max_int64 \<and> 0 \<le> bg_MinBudget (rr_budget s) \<and>
     0 \<le> bg_originalRequests (rr_budget s) \<and>
     bg_retryRequests (rr_budget s) =
       int (winners s + rr_recorded s + size (filter_mset will_undo (rr_calls s))) \<and>
     int (winners s) \<le> allowedRetries (rr_budget s) \<and>
     (\<forall>a. RetryAdd a \<in># rr_calls s \<longrightarrow> a \<le> allowedRetries (rr_budget s))"

inductive retry_reach :: "int \<Rightarrow> Budget \<Rightarrow> retry_run \<Rightarrow> bool" for N b where
  start: "retry_reach N b \<lparr>rr_budget = b, rr_calls = {#}, rr_granted = 0, rr_recorded = 0\<rparr>"
| step: "retry_reach N b s \<Longrightarrow> retry_bounds N s \<Longrightarrow> retry_step s s' \<Longrightarrow> retry_reach N b s'"

lemma allowed_cong:
  "bg_BudgetRatio b = bg_BudgetRatio c \<Longrightarrow> bg_MinBudget b = bg_MinBudget c \<Longrightarrow>
   allowedRetriesFor b n = allowedRetriesFor c n"
  by (simp add: allowedRetriesFor_def Let_def)

lemma range_cong:
  "bg_BudgetRatio b = bg_BudgetRatio c \<Longrightarrow> budget_in_range b N = budget_in_range c N"
  by (simp add: budget_in_range_def ratio_budget_def)

lemma set_retries_fields [simp]:
  "bg_BudgetRatio (set_retries n b) = bg_BudgetRatio b" "bg_MinBudget (set_retries n b) = bg_MinBudget b"
  "bg_originalRequests (set_retries n b) = bg_originalRequests b"
  "bg_retryRequests (set_retries n b) = wrap64 n"
  "allowedRetries (set_retries n b) = allowedRetries b"
  "budget_in_range (set_retries n b) N = budget_in_range b N"
  by (simp_all add: set_retries_def allowedRetries_def allowed_cong [of "b\<lparr>bg_retryRequests := m\<rparr>" b for m]
      range_cong [of "b\<lparr>bg_retryRequests := m\<rparr>" b for m])

lemma allowed_nonneg: "0 \<le> bg_MinBudget b \<Longrightarrow> 0 \<le> allowedRetriesFor b n"
  by (simp add: allowedRetriesFor_eq)

lemma retry_inv_original:
  assumes inv: "retry_inv N s" and bounds: "retry_bounds N s"
  defines "b \<equiv> (rr_budget s)\<lparr>bg_originalRequests := wrap64 (bg_originalRequests (rr_budget s) + 1)\<rparr>"
  shows "retry_inv N (s\<lparr>rr_budget := b\<rparr>)"
proof -
  let ?n = "bg_originalRequests (rr_budget s)"
  have "wrap64 (?n + 1) = ?n + 1"
    using inv bounds by (intro wrap64_id) (auto simp: retry_inv_def retry_bounds_def min_int64_def)
  then have n: "bg_originalRequests b = ?n + 1"
    by (simp add: b_def)
  have same: "allowedRetriesFor b k = allowedRetriesFor (rr_budget s) k" "budget_in_range b k = budget_in_range (rr_budget s) k" for k
    by (simp_all add: b_def allowed_cong [of "(rr_budget s)\<lparr>bg_originalRequests := m\<rparr>" "rr_budget s" for m]
        range_cong [of "(rr_budget s)\<lparr>bg_originalRequests := m\<rparr>" "rr_budget s" for m])
  have grow: "allowedRetries (rr_budget s) \<le> allowedRetries b"
    using inv bounds allowed_mono [of "rr_budget s" N ?n "?n + 1"]
    by (simp add: allowedRetries_def n same retry_inv_def retry_bounds_def)
  have "bg_retryRequests b = bg_retryRequests (rr_budget s)" "bg_MinBudget b = bg_MinBudget (rr_budget s)"
    by (simp_all add: b_def)
  then show ?thesis
    using inv n same grow by (auto simp: retry_inv_def winners_def intro: order_trans)
qed

lemma retry_inv_window:
  assumes "retry_inv N s" "rr_calls s = {#}"
  shows "retry_inv N (s\<lparr>rr_budget := (rr_budget s)\<lparr>bg_windowStart := now, bg_originalRequests := 0, bg_retryRequests := 0\<rparr>,
       rr_granted := 0, rr_recorded := 0\<rparr>)"
  using assms
    range_cong [of "(rr_budget s)\<lparr>bg_windowStart := now, bg_originalRequests := 0, bg_retryRequests := 0\<rparr>" "rr_budget s" N]
  by (simp add: retry_inv_def winners_def allowedRetries_def allowed_nonneg)

lemma retry_inv_step:
  assumes "retry_step s s'" "retry_inv N s" "retry_bounds N s"
  shows "retry_inv N s'"
  using assms(1)
proof (cases rule: retry_step.cases)
  case record_original
  then show ?thesis
    using retry_inv_original [OF assms(2, 3)] by simp
next
  case (new_window now)
  then show ?thesis
    using retry_inv_window [OF assms(2)] by simp
next
  case record_retry
  have "wrap64 (bg_retryRequests (rr_budget s) + 1) = bg_retryRequests (rr_budget s) + 1"
    using assms(2, 3) by (intro wrap64_id) (auto simp: retry_inv_def retry_bounds_def min_int64_def)
  then show ?thesis
    using record_retry assms(2) by (auto simp: retry_inv_def winners_def)
next
  case (try_add a cs b)
  have "wrap64 (bg_retryRequests (rr_budget s) + 1) = bg_retryRequests (rr_budget s) + 1"
    using assms(2, 3) by (intro wrap64_id) (auto simp: retry_inv_def retry_bounds_def min_int64_def)
  then show ?thesis
    using try_add assms(2) by (auto simp: retry_inv_def winners_def)
next
  case (try_undo cs)
  then have "wrap64 (bg_retryRequests (rr_budget s) - 1) = bg_retryRequests (rr_budget s) - 1"
    using assms(2, 3) by (intro wrap64_id) (auto simp: retry_inv_def retry_bounds_def min_int64_def)
  then show ?thesis
    using try_undo assms(2) by (auto simp: retry_inv_def winners_def)
qed (use assms(2) in \<open>auto simp: retry_inv_def winners_def\<close>)

lemma retry_reach_inv:
  assumes "retry_reach N b s" "budget_in_range b N" "N \<le> max_int64" "0 \<le> bg_MinBudget b"
    and "bg_originalRequests b = 0" "bg_retryRequests b = 0"
  shows "retry_inv N s"
  using assms
proof induction
  case start
  then show ?case
    by (simp add: retry_inv_def winners_def allowedRetries_def allowed_nonneg)
next
  case (step s s')
  then show ?case
    using retry_inv_step by blast
qed

text \<open>
  C28: the retry budget holds under concurrency. Whatever the interleaving of admissions, of recorded
  originals and retries and of window changes, the retries granted in the current window are at most
  the allowance of the original requests counted in it; the optimistic increments of refused calls are
  all taken back, so that between calls the counter is exactly the retries granted and recorded.
\<close>

theorem retry_budget_never_exceeded:
  assumes "b = NewBudget ratio min_budget window now" "budget_in_range b N" "N \<le> max_int64"
    and "retry_reach N b s"
  shows "int (rr_granted s) \<le> allowedRetries (rr_budget s) \<and>
     (rr_calls s = {#} \<longrightarrow> bg_retryRequests (rr_budget s) = int (rr_granted s + rr_recorded s))"
proof -
  have "retry_inv N s"
    using retry_reach_inv [OF assms(4, 2, 3)] by (simp add: assms(1) NewBudget_def)
  then show ?thesis
    by (auto simp: retry_inv_def winners_def)
qed


section \<open>The default budget\<close>

text \<open>
  The defaults of the client, 15 per cent and at least ten retries per ten seconds. The rounding
  errors of the product and of the sum are far below the added \<open>1e-9\<close>, which itself never reaches the
  next integer.
\<close>

definition default_budget :: "gotime \<Rightarrow> Budget" where
  "default_budget now = NewBudget (of_rat64 (15 / 100)) 10 (10 * 1000000000) now"

lemma default_ratio:
  obtains r where "bg_BudgetRatio (default_budget now) = Fin False r"
    "\<bar>r - 15 / 100\<bar> \<le> 15 / 100 * (1 / 9007199254740992)"
proof -
  have "of_rat64 (15 / 100) = Fin False (round_mag (15 / 100))"
    unfolding of_rat64_def using fround_finite [of "15 / 100" 0 False] by (simp add: pow2_numerals)
  moreover from this have "bg_BudgetRatio (default_budget now) = of_rat64 (15 / 100)"
    by (simp add: default_budget_def NewBudget_def IsNaN_def not_less)
  ultimately show thesis
    using round_error_small [of "15 / 100"] by (intro that [of "round_mag (15 / 100)"]) simp_all
qed

lemma default_epsilon:
  obtains e where "of_rat64 (1 / 1000000000) = Fin False e"
    "\<bar>e - 1 / 1000000000\<bar> \<le> 1 / 1000000000 * (1 / 9007199254740992)"
proof -
  have "of_rat64 (1 / 1000000000) = Fin False (round_mag (1 / 1000000000))"
    unfolding of_rat64_def using fround_finite [of "1 / 1000000000" 0 False] by (simp add: pow2_numerals)
  then show thesis
    using round_error_small [of "1 / 1000000000"] by (intro that [of "round_mag (1 / 1000000000)"]) simp_all
qed

lemma default_product:
  assumes "0 < n" "n \<le> 1000000"
  obtains p where "fmul (of_int64 n) (bg_BudgetRatio (default_budget now)) = Fin False p"
    "\<bar>p - of_int n * (15 / 100)\<bar> \<le> 1 / 10000000000"
proof -
  obtain r where r: "bg_BudgetRatio (default_budget now) = Fin False r"
    "\<bar>r - 15 / 100\<bar> \<le> 15 / 100 * (1 / 9007199254740992)"
    by (rule default_ratio)
  define x where "x = rat_of_int n * (15 / 100)"
  define y where "y = rat_of_int n * r"
  have x: "15 / 100 \<le> x" "x \<le> 150000"
    using assms by (simp_all add: x_def)
  have "y - x = rat_of_int n * (r - 15 / 100)"
    by (simp add: x_def y_def right_diff_distrib)
  then have "\<bar>y - x\<bar> = rat_of_int n * \<bar>r - 15 / 100\<bar>"
    using assms by (simp only: abs_mult)
  also have "\<dots> \<le> rat_of_int n * (15 / 100 * (1 / 9007199254740992))"
    using assms r(2) by (intro mult_left_mono) simp_all
  finally have y: "\<bar>y - x\<bar> \<le> x * (1 / 9007199254740992)"
    by (simp add: x_def)
  have bounds: "1 / 1073741824 \<le> y" "y \<le> pow2 20"
    using x y unfolding pow2_numerals by linarith+
  have p: "\<bar>round_mag y - y\<bar> \<le> y * (1 / 9007199254740992)"
    by (rule round_error_small [OF bounds(1)])
  have "of_int64 n = Fin False (of_int n)"
    by (rule of_int64_exact) (use assms in simp_all)
  then have "fmul (of_int64 n) (bg_BudgetRatio (default_budget now)) = Fin False (round_mag y)"
    using r(1) fround_finite [OF bounds(2), of False] by (simp add: y_def)
  moreover have "\<bar>round_mag y - x\<bar> \<le> 1 / 10000000000"
    using x y p by linarith
  ultimately show thesis
    using that by (simp add: x_def)
qed

lemma default_ratio_budget:
  assumes "0 \<le> n" "n \<le> 1000000"
  obtains s where "ratio_budget (default_budget now) n = Fin False s"
    "of_int n * (15 / 100) < s" "s < of_int n * (15 / 100) + 1 / 100" "s \<le> 150001"
proof -
  obtain r where r: "bg_BudgetRatio (default_budget now) = Fin False r"
    by (rule default_ratio)
  obtain e where e: "of_rat64 (1 / 1000000000) = Fin False e"
    "\<bar>e - 1 / 1000000000\<bar> \<le> 1 / 1000000000 * (1 / 9007199254740992)"
    by (rule default_epsilon)
  define x where "x = rat_of_int n * (15 / 100)"
  have x: "0 \<le> x" "x \<le> 150000"
    using assms by (simp_all add: x_def)
  obtain p where p: "fmul (of_int64 n) (bg_BudgetRatio (default_budget now)) = Fin False p"
    "\<bar>p - x\<bar> \<le> 1 / 10000000000"
  proof (cases "n = 0")
    case True
    then show thesis
      using that [of 0] r by (simp add: x_def of_int64_exact)
  next
    case False
    then show thesis
      using that assms default_product [of n now] by (auto simp: x_def)
  qed
  have v: "1 / 1073741824 * (1 / 2) \<le> p + e" "0 < p + e" "p + e \<le> pow2 20"
    using x p(2) e(2) unfolding pow2_numerals by linarith+
  have "pow2 (- 1022) \<le> pow2 (- 31)"
    by (rule pow2_mono) simp
  then have s: "\<bar>round_mag (p + e) - (p + e)\<bar> \<le> (p + e) * (1 / 9007199254740992)"
    using round_mag_error [of "p + e"] v(1) by (simp add: pow2_def)
  note near = abs_le_D1 [OF p(2)] abs_le_D2 [OF p(2)] abs_le_D1 [OF e(2)] abs_le_D2 [OF e(2)]
    abs_le_D1 [OF s] abs_le_D2 [OF s]
  have "ratio_budget (default_budget now) n = Fin False (round_mag (p + e))"
    using v(2) fround_finite [OF v(3), of False] by (simp add: ratio_budget_def p(1) e(1) Let_def)
  moreover have "x < round_mag (p + e)"
    using x near by (simp add: field_simps)
  moreover have "round_mag (p + e) < x + 1 / 100"
    using x near by (simp add: field_simps)
  moreover have "round_mag (p + e) \<le> 150001"
    using x near by (simp add: field_simps)
  ultimately show thesis
    using that by (simp add: x_def)
qed

lemma two_63: "of_rat64 9223372036854775808 = Fin False 9223372036854775808"
  using of_rat64_exact [of 9223372036854775808 1 63] by (simp add: pow2_def)

lemma default_in_range: "budget_in_range (default_budget now) 1000000"
proof -
  obtain s where "ratio_budget (default_budget now) 1000000 = Fin False s" "s \<le> 150001"
    by (rule default_ratio_budget [of 1000000 now]) simp_all
  then have "flt (ratio_budget (default_budget now) 1000000) (of_rat64 9223372036854775808)"
    by (simp add: two_63)
  moreover have ratio: "bg_BudgetRatio (default_budget now) = of_rat64 (15 / 100)"
    using nonneg_fround [of "15 / 100"] nonneg_not_NaN [OF nonneg_fround [of "15 / 100"]]
    by (auto simp: default_budget_def NewBudget_def IsNaN_def of_rat64_def nonneg_def fle_total [symmetric])
  moreover have "nonneg (of_rat64 (15 / 100))"
    by (simp add: of_rat64_def)
  moreover have "bg_BudgetRatio (default_budget now) \<noteq> Infinity False"
    by (rule default_ratio [of now]) simp
  ultimately show ?thesis
    unfolding budget_in_range_def by (simp only: simp_thms)
qed

lemma default_allowance:
  assumes "0 \<le> n" "n \<le> 1000000"
  shows "allowedRetriesFor (default_budget now) n = max 10 (15 * n div 100)"
proof -
  obtain s where s: "ratio_budget (default_budget now) n = Fin False s"
    "of_int n * (15 / 100) < s" "s < of_int n * (15 / 100) + 1 / 100"
    by (rule default_ratio_budget [OF assms])
  let ?q = "15 * n div 100"
  have "15 * n = 100 * ?q + 15 * n mod 100"
    by (rule mult_div_mod_eq [symmetric])
  moreover have "15 * n mod 100 < 100" "0 \<le> 15 * n mod 100"
    by (rule pos_mod_bound pos_mod_sign, simp)+
  ultimately
  have q: "100 * ?q \<le> 15 * n" "15 * n \<le> 100 * ?q + 99"
    by linarith+
  then have "rat_of_int (100 * ?q) \<le> rat_of_int (15 * n)" "rat_of_int (15 * n) \<le> rat_of_int (100 * ?q + 99)"
    by (simp_all only: of_int_le_iff)
  then have "\<lfloor>s\<rfloor> = ?q"
    using s(2, 3) by (intro floor_unique) (simp_all add: field_simps)
  then show ?thesis
    using ratio_budget_floor(1) [OF default_in_range assms, of now] s(1)
    by (simp add: allowedRetriesFor_eq default_budget_def NewBudget_def)
qed

text \<open>
  The default allowance is exact. For up to a million original requests in a window, the
  floating-point computation allows exactly the larger of ten and 15 per cent of the originals,
  rounded down.
\<close>

theorem default_allowance_exact:
  assumes "0 \<le> n" "n \<le> 1000000"
  shows "allowedRetriesFor (default_budget now) n = max 10 (15 * n div 100)"
  using assms by (rule default_allowance)

theorem default_allowance_exact_witness:
  "allowedRetriesFor (default_budget 0) 200 = 30 \<and> allowedRetriesFor (default_budget 0) 20 = 10"
  using default_allowance_exact [of 200 0] default_allowance_exact [of 20 0] by simp

lemma demo_retry_reach:
  "retry_reach 1000000 (default_budget 0) \<lparr>rr_budget = set_retries 1 (default_budget 0), rr_calls = {#},
     rr_granted = 1, rr_recorded = 0\<rparr>"
proof -
  let ?b = "default_budget 0"
  let ?N = "1000000 :: int"
  define st where "st = (\<lambda>b cs g. \<lparr>rr_budget = b, rr_calls = cs, rr_granted = g, rr_recorded = 0\<rparr>)"
  have bounds: "retry_bounds ?N (st ?b cs g)" "retry_bounds ?N (st (set_retries 1 ?b) cs g)" for cs g
    by (simp_all add: retry_bounds_def st_def default_budget_def NewBudget_def max_int64_def wrap64_def)
  have ten: "allowedRetries ?b = 10"
    using default_allowance [of 0 0]
    by (simp add: allowedRetries_def default_budget_def NewBudget_def)
  have one: "bg_retryRequests ?b = 0"
    by (simp add: default_budget_def NewBudget_def)
  have "retry_reach ?N ?b (st ?b {#} 0)"
    unfolding st_def by (rule retry_reach.start)
  then have "retry_reach ?N ?b (st ?b {#RetryRead#} 0)"
    by (rule retry_reach.step [OF _ bounds(1)]) (use retry_step.try_call [of "st ?b {#} 0"] in \<open>simp add: st_def\<close>)
  then have "retry_reach ?N ?b (st ?b {#RetryAdd 10#} 0)"
    by (rule retry_reach.step [OF _ bounds(1)])
      (use retry_step.try_read [of "st ?b {#RetryRead#} 0" "{#}"] in \<open>simp add: st_def ten\<close>)
  then have "retry_reach ?N ?b (st (set_retries 1 ?b) {#RetryCheck 10 1#} 0)"
    by (rule retry_reach.step [OF _ bounds(1)])
      (use retry_step.try_add [of "st ?b {#RetryAdd 10#} 0" 10 "{#}" "set_retries 1 ?b"] in
        \<open>simp add: st_def one wrap64_def\<close>)
  then have "retry_reach ?N ?b (st (set_retries 1 ?b) {#} 1)"
    by (rule retry_reach.step [OF _ bounds(2)])
      (use retry_step.try_granted [of "st (set_retries 1 ?b) {#RetryCheck 10 1#} 0" 10 1 "{#}"] in
        \<open>simp add: st_def\<close>)
  then show ?thesis
    by (simp add: st_def)
qed

theorem retry_budget_never_exceeded_witness:
  "int 1 \<le> allowedRetries (set_retries 1 (default_budget 0)) \<and>
   bg_retryRequests (set_retries 1 (default_budget 0)) = int (1 + 0)"
  using retry_budget_never_exceeded [OF default_budget_def default_in_range _ demo_retry_reach]
  by (simp add: max_int64_def)

end
