(* ===== verification/Sdk_Random.thy ===== *)
theory Sdk_Random
  imports Routing
begin

text \<open>
  The random source of the SDK's picker, \<open>adaptiveAtomicRandomSource\<close> in
  \<open>src/sdk/go/aegisgrpc/adaptive_balancer.go\<close>: a 64-bit counter that advances by a constant, and a
  mixing function on it. The source keeps the contract of \<open>Intn\<close> that the pickers rely on.
\<close>

unbundle bit_operations_syntax

definition adaptiveRandomIncrement :: u64 where
  "adaptiveRandomIncrement = 0x9e3779b97f4a7c15"

definition newAdaptiveAtomicRandomSource :: "u64 \<Rightarrow> u64" where
  "newAdaptiveAtomicRandomSource seed = (if seed = 0 then adaptiveRandomIncrement else seed)"

definition adaptive_mix :: "u64 \<Rightarrow> u64" where
  "adaptive_mix z =
     (let z = (z XOR drop_bit 30 z) * 0xbf58476d1ce4e5b9;
          z = (z XOR drop_bit 27 z) * 0x94d049bb133111eb
      in z XOR drop_bit 31 z)"

definition adaptive_next :: "u64 \<Rightarrow> u64 \<times> u64" where
  "adaptive_next state =
     (let state = state + adaptiveRandomIncrement in (adaptive_mix state, state))"

definition adaptive_Intn :: "u64 \<Rightarrow> nat \<Rightarrow> nat \<times> u64" where
  "adaptive_Intn state n =
     (if n = 0 then (0, state)
      else case adaptive_next state of (z, state) \<Rightarrow> (unat (z mod of_nat n), state))"

primrec adaptive_draws :: "nat \<Rightarrow> u64 \<Rightarrow> u64 list" where
  "adaptive_draws 0 state = []"
| "adaptive_draws (Suc k) state =
     (case adaptive_next state of (z, state) \<Rightarrow> z # adaptive_draws k state)"


section \<open>The contract of \<open>Intn\<close>\<close>

lemma adaptive_Intn_less:
  assumes "0 < n"
  shows "fst (adaptive_Intn state n) < n"
proof (cases "n < 2 ^ 64")
  case True
  then have "unat (of_nat n :: u64) = n"
    by (simp add: unat_of_nat take_bit_eq_mod)
  then show ?thesis
    using assms by (simp add: adaptive_Intn_def unat_mod_distrib case_prod_beta)
next
  case False
  have "unat (z :: u64) < 2 ^ 64" for z
    using unsigned_less [of z] by simp
  then show ?thesis
    using False assms by (auto simp: adaptive_Intn_def case_prod_beta not_less intro: less_le_trans)
qed

interpretation sdk_random: random_source adaptive_Intn
  by unfold_locales (rule adaptive_Intn_less)


section \<open>The mixing function is injective\<close>

lemma xorshift_inj:
  assumes "0 < k" "z XOR drop_bit k z = w XOR drop_bit k w"
  shows "z = (w :: u64)"
proof -
  let ?d = "z XOR w"
  have "?d = drop_bit k ?d"
    using assms(2) by (metis (no_types, lifting) drop_bit_xor xor.assoc xor.commute xor.left_commute xor_self_eq bit.xor_left_self)
  then have "unat ?d = unat ?d div 2 ^ k"
    by (metis unat_drop_bit_eq drop_bit_eq_div)
  then have "unat ?d = 0"
    using assms(1) by (metis div_less_dividend gr0I one_less_numeral_iff one_less_power semiring_norm(76) less_irrefl)
  then have "?d = 0"
    by (simp add: unsigned_eq_0_iff)
  moreover have "z = ?d XOR w"
    by (simp add: xor.assoc)
  ultimately show ?thesis
    by simp
qed

lemma odd_mult_inj:
  assumes "a * b = (1 :: u64)" "z * a = w * a"
  shows "z = w"
proof -
  have "z = z * a * b" "w = w * a * b"
    using assms(1) by (simp_all only: mult.assoc mult_1_right)
  then show ?thesis
    using assms(2) by simp
qed

lemma adaptive_mix_inj:
  assumes "adaptive_mix z = adaptive_mix w"
  shows "z = w"
proof -
  let ?a = "\<lambda>z. (z XOR drop_bit 30 z) * 0xbf58476d1ce4e5b9 :: u64"
  let ?b = "\<lambda>z. (z XOR drop_bit 27 z) * 0x94d049bb133111eb :: u64"
  have "?b (?a z) = ?b (?a w)"
    using assms unfolding adaptive_mix_def Let_def by (rule xorshift_inj [rotated]) simp
  then have "?a z XOR drop_bit 27 (?a z) = ?a w XOR drop_bit 27 (?a w)"
    by (rule odd_mult_inj [of _ 3573116690164977347, rotated]) simp
  then have "?a z = ?a w"
    by (rule xorshift_inj [rotated]) simp
  then have "z XOR drop_bit 30 z = w XOR drop_bit 30 w"
    by (rule odd_mult_inj [of _ 10871156337175269513, rotated]) simp
  then show ?thesis
    by (rule xorshift_inj [rotated]) simp
qed

lemma adaptive_draws_eq:
  "adaptive_draws k state = map (\<lambda>i. adaptive_mix (state + of_nat (Suc i) * adaptiveRandomIncrement)) [0..<k]"
proof (induction k arbitrary: state)
  case (Suc k)
  have "[0..<Suc k] = 0 # map Suc [0..<k]"
    by (simp add: map_Suc_upt upt_conv_Cons del: upt_Suc)
  then show ?case
    using Suc by (simp add: adaptive_next_def Let_def algebra_simps del: upt_Suc)
qed simp

text \<open>
  From any seed, the first \<open>2 ^ 64\<close> values that the source produces are pairwise different: the
  counter takes every 64-bit value before it repeats, and mixing loses nothing.
\<close>

theorem adaptive_draws_distinct:
  assumes "k \<le> 2 ^ 64"
  shows "distinct (adaptive_draws k (newAdaptiveAtomicRandomSource seed))"
proof -
  let ?s = "newAdaptiveAtomicRandomSource seed"
  have "i = j" if "i < k" "j < k"
    and "adaptive_mix (?s + of_nat (Suc i) * adaptiveRandomIncrement) =
         adaptive_mix (?s + of_nat (Suc j) * adaptiveRandomIncrement)" for i j
  proof -
    have "of_nat (Suc i) * adaptiveRandomIncrement = of_nat (Suc j) * adaptiveRandomIncrement"
      using adaptive_mix_inj [OF that(3)] by simp
    then have "of_nat (Suc i) = (of_nat (Suc j) :: u64)"
      by (rule odd_mult_inj [of _ 17428512612931826493, rotated]) (simp add: adaptiveRandomIncrement_def)
    then have "(of_nat i :: u64) = of_nat j"
      by simp
    then show ?thesis
      using that(1, 2) assms by (simp add: word_of_nat_eq_iff take_bit_eq_mod)
  qed
  then show ?thesis
    unfolding adaptive_draws_eq by (auto simp: distinct_map inj_on_def)
qed

theorem adaptive_draws_distinct_witness:
  "distinct (adaptive_draws 3 (newAdaptiveAtomicRandomSource 0))"
  by (rule adaptive_draws_distinct) simp

end
