(* ===== verification/Sdk_Resolver.thy ===== *)
theory Sdk_Resolver
  imports Prelude Go_Float Status "HOL-Library.AList"
begin

text \<open>
  \<open>src/sdk/go/aegisgrpc/resolver.go\<close>: the addresses and attributes that the resolver hands to gRPC, the
  version check on responses, and the loop that watches the controller, backs off and falls back to
  polling. What the controller answers and whether gRPC accepts an update are inputs; the loop ends when
  the inputs do, which stands for the cancelled context. Parsing the target URL, dialling and the
  process-local handle tables are not part of the model.
\<close>

section \<open>Addresses and attributes\<close>

record ServiceInstance =
  si_Id :: string
  si_Address :: string
  si_Status :: string
  si_SlowScore :: float64
  si_RegistrationEpoch :: string

record endpointIdentity =
  ei_instanceID :: string
  ei_registrationEpoch :: string

datatype status_value = StatusCode Code | StatusText string | NoStatus

text \<open>A limiter pool is named by its index in the pools of the process.\<close>

record attributes =
  at_instanceID :: "string option"
  at_registrationEpoch :: "string option"
  at_status :: status_value
  at_slowScore :: "float64 option"
  at_limiterPool :: "nat option"

record Address =
  ra_Addr :: string
  ra_ServerName :: string
  ra_Attributes :: "attributes option"

definition addressAttributesWithLimiterPoolAndEpoch ::
    "string \<Rightarrow> string \<Rightarrow> Code \<Rightarrow> float64 \<Rightarrow> nat option \<Rightarrow> attributes option" where
  "addressAttributesWithLimiterPoolAndEpoch instanceID registrationEpoch statusCode slowScore limiterPool =
     Some \<lparr>at_instanceID = Some instanceID, at_registrationEpoch = Some registrationEpoch,
           at_status = StatusCode statusCode, at_slowScore = Some slowScore, at_limiterPool = limiterPool\<rparr>"

definition addressAttributesWithLimiterPool ::
    "string \<Rightarrow> Code \<Rightarrow> float64 \<Rightarrow> nat option \<Rightarrow> attributes option" where
  "addressAttributesWithLimiterPool instanceID statusCode slowScore limiterPool =
     addressAttributesWithLimiterPoolAndEpoch instanceID '''' statusCode slowScore limiterPool"

definition addressAttributes :: "string \<Rightarrow> Code \<Rightarrow> float64 \<Rightarrow> attributes option" where
  "addressAttributes instanceID statusCode slowScore =
     addressAttributesWithLimiterPool instanceID statusCode slowScore None"

definition limiterPoolFromAttributes :: "attributes option \<Rightarrow> nat option" where
  "limiterPoolFromAttributes attrs = Option.bind attrs at_limiterPool"

definition instanceIDFromAttributes :: "attributes option \<Rightarrow> string" where
  "instanceIDFromAttributes attrs =
     (case Option.bind attrs at_instanceID of None \<Rightarrow> '''' | Some v \<Rightarrow> v)"

definition registrationEpochFromAttributes :: "attributes option \<Rightarrow> string" where
  "registrationEpochFromAttributes attrs =
     (case Option.bind attrs at_registrationEpoch of None \<Rightarrow> '''' | Some v \<Rightarrow> v)"

definition endpointStatusFromAttributes :: "attributes option \<Rightarrow> Code" where
  "endpointStatusFromAttributes attrs =
     (case attrs of
        None \<Rightarrow> Unspecified
      | Some a \<Rightarrow> (case at_status a of
            StatusCode c \<Rightarrow> c
          | StatusText t \<Rightarrow> Parse t
          | NoStatus \<Rightarrow> Unspecified))"

definition slowScoreFromAttributes :: "attributes option \<Rightarrow> float64" where
  "slowScoreFromAttributes attrs =
     (case Option.bind attrs at_slowScore of None \<Rightarrow> Fin False 0 | Some v \<Rightarrow> v)"


section \<open>Endpoint identities\<close>

type_synonym identities = "(string \<times> endpointIdentity) list"

definition rememberEndpointIdentity :: "string \<Rightarrow> string \<Rightarrow> string \<Rightarrow> identities \<Rightarrow> identities" where
  "rememberEndpointIdentity address endpointID registrationEpoch ids =
     (if address = '''' then ids
      else if endpointID = '''' then AList.delete address ids
      else AList.update address
             \<lparr>ei_instanceID = endpointID, ei_registrationEpoch = registrationEpoch\<rparr> ids)"

definition endpointIdentityForAddress :: "identities \<Rightarrow> string \<Rightarrow> endpointIdentity" where
  "endpointIdentityForAddress ids address =
     (case map_of ids address of
        Some identity \<Rightarrow> identity
      | None \<Rightarrow> \<lparr>ei_instanceID = '''', ei_registrationEpoch = ''''\<rparr>)"

definition endpointIDForAddress :: "identities \<Rightarrow> string \<Rightarrow> string" where
  "endpointIDForAddress ids address = ei_instanceID (endpointIdentityForAddress ids address)"

fun instancesToAddressesWithLimiterPool ::
    "ServiceInstance option list \<Rightarrow> nat option \<Rightarrow> identities \<Rightarrow> Address list \<times> identities" where
  "instancesToAddressesWithLimiterPool [] pool ids = ([], ids)"
| "instancesToAddressesWithLimiterPool (None # insts) pool ids =
     instancesToAddressesWithLimiterPool insts pool ids"
| "instancesToAddressesWithLimiterPool (Some inst # insts) pool ids =
     (if si_Address inst = '''' \<or> \<not> Routable (Parse (si_Status inst))
      then instancesToAddressesWithLimiterPool insts pool ids
      else
        (let ids = rememberEndpointIdentity (si_Address inst) (si_Id inst) (si_RegistrationEpoch inst) ids;
             address = \<lparr>ra_Addr = si_Address inst, ra_ServerName = si_Id inst,
               ra_Attributes = addressAttributesWithLimiterPoolAndEpoch (si_Id inst)
                 (si_RegistrationEpoch inst) (Parse (si_Status inst)) (si_SlowScore inst) pool\<rparr>;
             (addresses, ids) = instancesToAddressesWithLimiterPool insts pool ids
         in (address # addresses, ids)))"

definition instancesToAddresses ::
    "ServiceInstance option list \<Rightarrow> identities \<Rightarrow> Address list \<times> identities" where
  "instancesToAddresses insts ids = instancesToAddressesWithLimiterPool insts None ids"


section \<open>The resolver\<close>

datatype watch_error = Unimplemented | EOF | OtherError string

record ListInstancesResponse =
  lr_Instances :: "ServiceInstance option list"
  lr_Version :: int

text \<open>
  \<open>rv_updates\<close> holds the address lists passed to \<open>UpdateState\<close>, in order, and \<open>rv_reported\<close> the errors
  passed to \<open>ReportError\<close>.
\<close>

record registryResolver =
  rv_refreshInterval :: duration
  rv_lastVersion :: int
  rv_watchFailures :: int
  rv_watchBackoff :: duration
  rv_limiterPool :: nat
  rv_identities :: identities
  rv_updates :: "Address list list"
  rv_reported :: "watch_error list"

definition defaultRefreshInterval :: duration where
  "defaultRefreshInterval = 3000000000"

definition maxWatchRetryBackoff :: duration where
  "maxWatchRetryBackoff = 30000000000"

definition maxWatchFailuresBeforePoll :: int where
  "maxWatchFailuresBeforePoll = 5"

definition pollTicksBeforeWatchRetry :: nat where
  "pollTicksBeforeWatchRetry = 5"

definition new_registryResolver :: "duration \<Rightarrow> nat \<Rightarrow> identities \<Rightarrow> registryResolver" where
  "new_registryResolver refreshInterval pool ids =
     \<lparr>rv_refreshInterval = refreshInterval, rv_lastVersion = 0, rv_watchFailures = 0,
      rv_watchBackoff = refreshInterval, rv_limiterPool = pool, rv_identities = ids,
      rv_updates = [], rv_reported = []\<rparr>"

definition ReportError :: "watch_error \<Rightarrow> registryResolver \<Rightarrow> registryResolver" where
  "ReportError err r = r\<lparr>rv_reported := rv_reported r @ [err]\<rparr>"

definition applyInstancesResponse ::
    "(Address list \<Rightarrow> watch_error option) \<Rightarrow> ListInstancesResponse option \<Rightarrow> registryResolver
      \<Rightarrow> watch_error option \<times> registryResolver" where
  "applyInstancesResponse updateState resp r =
     (case resp of
        None \<Rightarrow> (None, r)
      | Some resp \<Rightarrow>
          if lr_Version resp \<noteq> 0 \<and> lr_Version resp = rv_lastVersion r then (None, r)
          else
            (let (addresses, ids) = instancesToAddressesWithLimiterPool (lr_Instances resp)
                   (Some (rv_limiterPool r)) (rv_identities r);
                 r = r\<lparr>rv_identities := ids, rv_updates := rv_updates r @ [addresses]\<rparr>
             in case updateState addresses of
                  Some err \<Rightarrow> (Some err, r)
                | None \<Rightarrow>
                    (None, if lr_Version resp \<noteq> 0 then r\<lparr>rv_lastVersion := lr_Version resp\<rparr> else r)))"

definition apply_and_report ::
    "(Address list \<Rightarrow> watch_error option) \<Rightarrow> ListInstancesResponse option \<Rightarrow> registryResolver \<Rightarrow> registryResolver" where
  "apply_and_report updateState resp r =
     (case applyInstancesResponse updateState resp r of
        (Some err, r) \<Rightarrow> ReportError err r
      | (None, r) \<Rightarrow> r)"

text \<open>The answer to \<open>ListInstances\<close> is the input of \<open>resolve\<close>.\<close>

definition resolver_resolve ::
    "(Address list \<Rightarrow> watch_error option) \<Rightarrow> watch_error + ListInstancesResponse option
      \<Rightarrow> registryResolver \<Rightarrow> registryResolver" where
  "resolver_resolve updateState answer r =
     (case answer of
        Inl err \<Rightarrow> ReportError err r
      | Inr resp \<Rightarrow> apply_and_report updateState resp r)"

definition recordWatchFailure :: "registryResolver \<Rightarrow> registryResolver" where
  "recordWatchFailure r = r\<lparr>rv_watchFailures := wrap64 (rv_watchFailures r + 1)\<rparr>"

definition resetWatchRetry :: "registryResolver \<Rightarrow> registryResolver" where
  "resetWatchRetry r = r\<lparr>rv_watchFailures := 0, rv_watchBackoff := rv_refreshInterval r\<rparr>"

definition nextWatchRetryDelay :: "registryResolver \<Rightarrow> duration \<times> registryResolver" where
  "nextWatchRetryDelay r =
     (let delay = rv_watchBackoff r;
          nxt = wrap64 (rv_watchBackoff r * 2);
          nxt = (if nxt > maxWatchRetryBackoff then maxWatchRetryBackoff else nxt)
      in (delay, r\<lparr>rv_watchBackoff := nxt\<rparr>))"

text \<open>
  One opening of the stream: \<open>WatchInstances\<close> fails, or the stream delivers responses until \<open>Recv\<close>
  fails.
\<close>

datatype stream = OpenFails watch_error | Opened "ListInstancesResponse option list" watch_error

definition watchStream ::
    "(Address list \<Rightarrow> watch_error option) \<Rightarrow> stream \<Rightarrow> registryResolver \<Rightarrow> watch_error \<times> registryResolver" where
  "watchStream updateState s r =
     (case s of
        OpenFails err \<Rightarrow> (err, r)
      | Opened resps err \<Rightarrow> (err, fold (apply_and_report updateState) resps (resetWatchRetry r)))"

fun poll_ticks ::
    "(Address list \<Rightarrow> watch_error option) \<Rightarrow> bool \<Rightarrow> nat \<Rightarrow> (watch_error + ListInstancesResponse option) list
      \<Rightarrow> registryResolver \<Rightarrow> bool \<times> registryResolver" where
  "poll_ticks updateState retryWatch polls [] r = (False, r)"
| "poll_ticks updateState retryWatch polls (answer # answers) r =
     (let r = resolver_resolve updateState answer r; polls = polls + 1
      in if retryWatch \<and> polls \<ge> pollTicksBeforeWatchRetry then (True, r)
         else poll_ticks updateState retryWatch polls answers r)"

definition pollLoop ::
    "(Address list \<Rightarrow> watch_error option) \<Rightarrow> bool \<Rightarrow> (watch_error + ListInstancesResponse option) list
      \<Rightarrow> registryResolver \<Rightarrow> bool \<times> registryResolver" where
  "pollLoop updateState retryWatch answers r =
     (case answers of
        [] \<Rightarrow> (False, r)
      | answer # answers \<Rightarrow> poll_ticks updateState retryWatch 0 answers (resolver_resolve updateState answer r))"

text \<open>
  A round of \<open>watch\<close>: the stream, the answer to the refresh after it, and the answers while polling.
  The result lists the rounds' waits, \<open>Some d\<close> for a back-off of \<open>d\<close> and \<open>None\<close> for a turn of polling.
\<close>

record watch_round =
  wr_stream :: stream
  wr_answer :: "watch_error + ListInstancesResponse option"
  wr_polls :: "(watch_error + ListInstancesResponse option) list"

fun watch ::
    "(Address list \<Rightarrow> watch_error option) \<Rightarrow> watch_round list \<Rightarrow> registryResolver
      \<Rightarrow> duration option list \<times> registryResolver" where
  "watch updateState [] r = ([], r)"
| "watch updateState (i # rest) r =
     (let (err, r) = watchStream updateState (wr_stream i) r
      in if err = Unimplemented then ([None], snd (pollLoop updateState False (wr_polls i) r))
         else
           (let r = recordWatchFailure r;
                r = (if err \<noteq> EOF then ReportError err r else r);
                r = resolver_resolve updateState (wr_answer i) r
            in if rv_watchFailures r \<ge> maxWatchFailuresBeforePoll
               then (let (go_on, r) = pollLoop updateState True (wr_polls i) r
                     in if \<not> go_on then ([None], r)
                        else (let (ws, r) = watch updateState rest (resetWatchRetry r) in (None # ws, r)))
               else (let (delay, r) = nextWatchRetryDelay r;
                         (ws, r) = watch updateState rest r
                     in (Some delay # ws, r))))"


section \<open>Retries of the watch\<close>

lemma apply_and_report_retry [simp]:
  "rv_watchFailures (apply_and_report u resp r) = rv_watchFailures r"
  "rv_watchBackoff (apply_and_report u resp r) = rv_watchBackoff r"
  "rv_refreshInterval (apply_and_report u resp r) = rv_refreshInterval r"
  by (simp_all add: apply_and_report_def applyInstancesResponse_def ReportError_def Let_def case_prod_beta
      split: option.splits)

lemma fold_apply_retry [simp]:
  "rv_watchFailures (fold (apply_and_report u) resps r) = rv_watchFailures r"
  "rv_watchBackoff (fold (apply_and_report u) resps r) = rv_watchBackoff r"
  "rv_refreshInterval (fold (apply_and_report u) resps r) = rv_refreshInterval r"
  by (induction resps arbitrary: r) simp_all

lemma resolve_retry [simp]:
  "rv_watchFailures (resolver_resolve u answer r) = rv_watchFailures r"
  "rv_watchBackoff (resolver_resolve u answer r) = rv_watchBackoff r"
  "rv_refreshInterval (resolver_resolve u answer r) = rv_refreshInterval r"
  by (simp_all add: resolver_resolve_def ReportError_def split: sum.splits)

lemma poll_ticks_retry [simp]:
  "rv_refreshInterval (snd (poll_ticks u retry polls answers r)) = rv_refreshInterval r"
  by (induction u retry polls answers r rule: poll_ticks.induct) (simp_all add: Let_def)

definition stream_error :: "stream \<Rightarrow> watch_error" where
  "stream_error s = (case s of OpenFails err \<Rightarrow> err | Opened resps err \<Rightarrow> err)"

text \<open>One round whose stream fails, below the limit of failures.\<close>

lemma watch_backs_off:
  assumes "stream_error (wr_stream i) \<noteq> Unimplemented" "watchStream u (wr_stream i) r = (err, r1)"
    and "0 \<le> rv_watchFailures r1" "rv_watchFailures r1 + 1 < maxWatchFailuresBeforePoll"
    and "0 \<le> rv_watchBackoff r1" "rv_watchBackoff r1 \<le> maxWatchRetryBackoff"
  shows "\<exists>r2. watch u (i # rest) r = (Some (rv_watchBackoff r1) # fst (watch u rest r2), snd (watch u rest r2)) \<and>
    rv_watchFailures r2 = rv_watchFailures r1 + 1 \<and> rv_refreshInterval r2 = rv_refreshInterval r1 \<and>
    rv_watchBackoff r2 = min maxWatchRetryBackoff (2 * rv_watchBackoff r1)"
proof -
  have "err \<noteq> Unimplemented"
    using assms(1, 2) by (auto simp: watchStream_def stream_error_def split: stream.splits)
  moreover have "wrap64 (rv_watchFailures r1 + 1) = rv_watchFailures r1 + 1"
    "wrap64 (rv_watchBackoff r1 * 2) = rv_watchBackoff r1 * 2"
    using assms(3-6) by (simp_all add: wrap64_id min_int64_def max_int64_def maxWatchFailuresBeforePoll_def
        maxWatchRetryBackoff_def)
  ultimately show ?thesis
    using assms(2, 4) by (auto simp: Let_def case_prod_beta recordWatchFailure_def ReportError_def nextWatchRetryDelay_def
        min_def intro!: exI)
qed

definition backoff_wait :: "duration \<Rightarrow> nat \<Rightarrow> duration" where
  "backoff_wait refresh k = min maxWatchRetryBackoff (2 ^ k * refresh)"

lemma backoff_wait_range: "0 \<le> refresh \<Longrightarrow> 0 \<le> backoff_wait refresh k \<and> backoff_wait refresh k \<le> maxWatchRetryBackoff"
  by (simp add: backoff_wait_def maxWatchRetryBackoff_def)

lemma backoff_wait_Suc:
  "0 \<le> refresh \<Longrightarrow> min maxWatchRetryBackoff (2 * backoff_wait refresh k) = backoff_wait refresh (Suc k)"
  by (simp add: backoff_wait_def maxWatchRetryBackoff_def min_def mult.commute)

definition refused_round :: "watch_round \<Rightarrow> bool" where
  "refused_round i \<longleftrightarrow> (\<exists>err. wr_stream i = OpenFails err \<and> err \<noteq> Unimplemented) \<and>
     length (wr_polls i) > pollTicksBeforeWatchRetry"

lemma poll_ticks_returns:
  assumes "polls < pollTicksBeforeWatchRetry" "pollTicksBeforeWatchRetry \<le> polls + length answers"
  shows "fst (poll_ticks u True polls answers r)"
  using assms by (induction u True polls answers r rule: poll_ticks.induct) (auto simp: Let_def)

lemma pollLoop_returns:
  assumes "length answers > pollTicksBeforeWatchRetry"
  shows "fst (pollLoop u True answers r)"
  using assms
  by (cases answers) (auto simp: pollLoop_def pollTicksBeforeWatchRetry_def intro!: poll_ticks_returns)

lemma pollLoop_refresh [simp]:
  "rv_refreshInterval (snd (pollLoop u retry answers r)) = rv_refreshInterval r"
  by (simp add: pollLoop_def split: list.splits)

lemma watch_polls:
  assumes "refused_round i" "rv_watchFailures r = 4"
  shows "\<exists>r2. watch u (i # rest) r = (None # fst (watch u rest r2), snd (watch u rest r2)) \<and>
    rv_watchFailures r2 = 0 \<and> rv_refreshInterval r2 = rv_refreshInterval r \<and>
    rv_watchBackoff r2 = rv_refreshInterval r"
proof -
  obtain err where err: "wr_stream i = OpenFails err" "err \<noteq> Unimplemented"
    using assms(1) by (auto simp: refused_round_def)
  have "fst (pollLoop u True (wr_polls i) r1)" for r1
    using pollLoop_returns assms(1) by (simp add: refused_round_def)
  moreover have "wrap64 5 = 5"
    by (simp add: wrap64_id min_int64_def max_int64_def)
  ultimately show ?thesis
    using err assms(2)
    by (auto simp: Let_def case_prod_beta watchStream_def recordWatchFailure_def ReportError_def resetWatchRetry_def
        maxWatchFailuresBeforePoll_def intro!: exI)
qed

declare watch.simps(2) [simp del]

lemma watch_cycle:
  assumes "length rounds = 5 - k" "k \<le> 4" "\<forall>i\<in>set rounds. refused_round i"
    and "rv_watchFailures r = int k" "rv_watchBackoff r = backoff_wait (rv_refreshInterval r) k" "0 \<le> rv_refreshInterval r"
  shows "\<exists>r2. watch u (rounds @ rest) r =
      (map (\<lambda>j. Some (backoff_wait (rv_refreshInterval r) j)) [k..<4] @ None # fst (watch u rest r2), snd (watch u rest r2)) \<and>
    rv_watchFailures r2 = 0 \<and> rv_refreshInterval r2 = rv_refreshInterval r \<and> rv_watchBackoff r2 = rv_refreshInterval r"
  using assms
proof (induction rounds arbitrary: k r)
  case (Cons i rounds)
  show ?case
  proof (cases "k = 4")
    case True
    then show ?thesis
      using watch_polls [of i r u "rest"] Cons.prems by simp
  next
    case False
    then have ks: "[k..<4] = k # [Suc k..<4]"
      using Cons.prems(2) by (simp add: upt_conv_Cons)
    obtain err where err: "wr_stream i = OpenFails err" "err \<noteq> Unimplemented"
      using Cons.prems(3) by (auto simp: refused_round_def)
    obtain r2 where r2: "watch u (i # rounds @ rest) r =
        (Some (rv_watchBackoff r) # fst (watch u (rounds @ rest) r2), snd (watch u (rounds @ rest) r2))"
      "rv_watchFailures r2 = int (Suc k)" "rv_refreshInterval r2 = rv_refreshInterval r"
      "rv_watchBackoff r2 = backoff_wait (rv_refreshInterval r) (Suc k)"
      using watch_backs_off [of i u r err r "rounds @ rest"] err Cons.prems False
        backoff_wait_range [of "rv_refreshInterval r" k] backoff_wait_Suc [of "rv_refreshInterval r" k]
      by (auto simp: stream_error_def watchStream_def maxWatchFailuresBeforePoll_def)
    moreover have "length rounds = 5 - Suc k" "Suc k \<le> 4" "\<forall>i\<in>set rounds. refused_round i"
      using Cons.prems False by auto
    ultimately show ?thesis
      using Cons.IH [of "Suc k" r2] Cons.prems(5, 6) ks by fastforce
  qed
qed simp

text \<open>
  While the controller refuses the watch, the resolver keeps trying for ever: it waits \<open>refresh\<close>, then
  twice, four and eight times as long, at most thirty seconds, then polls for a turn, and starts again
  from the shortest wait.
\<close>

theorem refused_watch_retries:
  assumes "length rounds = 5 * n" "\<forall>i\<in>set rounds. refused_round i"
    and "rv_watchFailures r = 0" "rv_watchBackoff r = rv_refreshInterval r"
    and "0 \<le> rv_refreshInterval r" "rv_refreshInterval r \<le> maxWatchRetryBackoff"
  shows "fst (watch u rounds r) =
    concat (replicate n (map (\<lambda>k. Some (min maxWatchRetryBackoff (2 ^ k * rv_refreshInterval r))) [0..<4] @ [None]))"
  using assms
proof (induction n arbitrary: rounds r)
  case (Suc n)
  have "backoff_wait (rv_refreshInterval r) 0 = rv_refreshInterval r"
    using Suc.prems by (simp add: backoff_wait_def)
  moreover have "set (take 5 rounds) \<subseteq> set rounds" "set (drop 5 rounds) \<subseteq> set rounds"
    by (rule set_take_subset, rule set_drop_subset)
  ultimately show ?case
    using watch_cycle [of "take 5 rounds" 0 r u "drop 5 rounds"] Suc.prems Suc.IH [of "drop 5 rounds"]
    by (fastforce simp: backoff_wait_def subset_iff)
qed simp


definition example_round :: "stream \<Rightarrow> watch_round" where
  "example_round s = \<lparr>wr_stream = s, wr_answer = Inl (OtherError ''unavailable''),
     wr_polls = replicate 6 (Inl (OtherError ''unavailable''))\<rparr>"

theorem refused_watch_retries_witness:
  "fst (watch (\<lambda>_. None) (replicate 10 (example_round (OpenFails (OtherError ''unavailable''))))
     (new_registryResolver defaultRefreshInterval 0 [])) =
   concat (replicate 2 [Some 3000000000, Some 6000000000, Some 12000000000, Some 24000000000, None])"
  using refused_watch_retries [of "replicate 10 (example_round (OpenFails (OtherError ''unavailable'')))" 2
      "new_registryResolver defaultRefreshInterval 0 []" "\<lambda>_. None"]
  by (simp add: example_round_def refused_round_def pollTicksBeforeWatchRetry_def new_registryResolver_def
      defaultRefreshInterval_def maxWatchRetryBackoff_def upt_rec [of _ 4] min_def)


end
