(* ===== verification/Sdk_Balancer.thy ===== *)
theory Sdk_Balancer
  imports Sdk_Random Sdk_Resolver Breaker
begin

text \<open>
  The gRPC balancer of the SDK, \<open>src/sdk/go/aegisgrpc/adaptive_balancer.go\<close> and
  \<open>adaptive_limiter_pool.go\<close>: pickers built from the resolver's addresses, the pick with its admission,
  and the completion that gives everything back. The state is that of the process: endpoint
  statistics, limiter pools, pickers of all generations and completion objects, which are named by their
  position. One call runs at a time; the interleavings inside an admission are those of \<open>Breaker\<close>.
\<close>

section \<open>State\<close>

record adaptiveEndpointStats =
  es_inflight :: int
  es_ewmaNanos :: u64

record adaptiveLimiterPool =
  lp_max :: "int option"
  lp_limiters :: "(string \<times> int) list"

text \<open>A limiter is an entry of a pool, or one that an item has to itself.\<close>

datatype limiter_ref = PoolLimiter nat string | OwnLimiter nat

record 'sc adaptivePickerItem =
  it_subConn :: 'sc
  it_address :: string
  it_status :: Code
  it_inflightPenalty :: float64
  it_latencyPenalty :: float64
  it_staticCost :: float64
  it_limiter :: limiter_ref

record 'sc adaptivePicker =
  ap_items :: "'sc adaptivePickerItem list"
  ap_normalIndexes :: "nat list"
  ap_probingIndexes :: "nat list"
  ap_random :: u64
  ap_probeThreshold :: int
  ap_completions :: "nat list"

record 'sc adaptiveCompletion =
  cm_picker :: "nat option"
  cm_item :: "'sc adaptivePickerItem option"
  cm_started :: gotime

record 'sc sdk =
  sd_stats :: "(string \<times> adaptiveEndpointStats) list"
  sd_pools :: "adaptiveLimiterPool list"
  sd_own :: "int list"
  sd_pickers :: "'sc adaptivePicker list"
  sd_completions :: "'sc adaptiveCompletion list"

datatype sdk_pick_error = ErrNoSubConnAvailable | UnavailableError string | ResourceExhausted


section \<open>Endpoint statistics\<close>

definition zero_stats :: adaptiveEndpointStats where
  "zero_stats = \<lparr>es_inflight = 0, es_ewmaNanos = 0\<rparr>"

definition stats_of :: "string \<Rightarrow> 'sc sdk \<Rightarrow> adaptiveEndpointStats" where
  "stats_of address sd = (case map_of (sd_stats sd) address of Some s \<Rightarrow> s | None \<Rightarrow> zero_stats)"

definition statsForEndpoint :: "string \<Rightarrow> 'sc sdk \<Rightarrow> 'sc sdk" where
  "statsForEndpoint address sd =
     (if map_of (sd_stats sd) address \<noteq> None then sd
      else sd\<lparr>sd_stats := AList.update address zero_stats (sd_stats sd)\<rparr>)"

definition IncrementInflight :: "adaptiveEndpointStats \<Rightarrow> adaptiveEndpointStats" where
  "IncrementInflight s = s\<lparr>es_inflight := wrap64 (es_inflight s + 1)\<rparr>"

definition DecrementInflight :: "adaptiveEndpointStats \<Rightarrow> adaptiveEndpointStats" where
  "DecrementInflight s = (if es_inflight s \<le> 0 then s else s\<lparr>es_inflight := es_inflight s - 1\<rparr>)"

definition LatencyEWMA :: "adaptiveEndpointStats \<Rightarrow> duration" where
  "LatencyEWMA s = sint (es_ewmaNanos s)"

definition ewma_update :: "duration \<Rightarrow> duration \<Rightarrow> duration" where
  "ewma_update sample old =
     to_int64 (fadd (fmul (of_rat64 (2 / 10)) (of_int64 sample)) (fmul (of_rat64 (8 / 10)) (of_int64 old)))"

definition ObserveLatency :: "duration \<Rightarrow> adaptiveEndpointStats \<Rightarrow> adaptiveEndpointStats" where
  "ObserveLatency sample s =
     (let sample = (if sample < 0 then 0 else sample);
          old = sint (es_ewmaNanos s);
          updated = (if old = 0 then sample else ewma_update sample old)
      in s\<lparr>es_ewmaNanos := of_int updated\<rparr>)"

definition LatencySeconds :: "adaptiveEndpointStats \<Rightarrow> float64" where
  "LatencySeconds s = Seconds (LatencyEWMA s)"


section \<open>Limiters\<close>

definition adaptiveDefaultMaxInflightPerTarget :: int where
  "adaptiveDefaultMaxInflightPerTarget = 128"

definition newAdaptiveLimiterPool :: "int \<Rightarrow> adaptiveLimiterPool" where
  "newAdaptiveLimiterPool limit = \<lparr>lp_max = NewMaxInflight limit, lp_limiters = []\<rparr>"

definition normalizeAdaptiveLimiterEndpoint :: "string \<Rightarrow> string" where
  "normalizeAdaptiveLimiterEndpoint endpoint = (if endpoint = '''' then ''unknown'' else endpoint)"

definition pool_limiter :: "string \<Rightarrow> adaptiveLimiterPool \<Rightarrow> string \<times> adaptiveLimiterPool" where
  "pool_limiter endpoint p =
     (let endpoint = normalizeAdaptiveLimiterEndpoint endpoint
      in if map_of (lp_limiters p) endpoint \<noteq> None then (endpoint, p)
         else (endpoint, p\<lparr>lp_limiters := AList.update endpoint 0 (lp_limiters p)\<rparr>))"

definition pool_SetMaxInflightPerEndpoint :: "int \<Rightarrow> adaptiveLimiterPool \<Rightarrow> adaptiveLimiterPool" where
  "pool_SetMaxInflightPerEndpoint limit p =
     (if lp_max p = None then p else p\<lparr>lp_max := MaxInflight_Set limit (lp_max p)\<rparr>)"

definition pool_MaxInflightPerEndpoint :: "adaptiveLimiterPool \<Rightarrow> int" where
  "pool_MaxInflightPerEndpoint p = (if lp_max p = None then 0 else MaxInflight_Load (lp_max p))"

fun limiter_max :: "limiter_ref \<Rightarrow> 'sc sdk \<Rightarrow> int option" where
  "limiter_max (PoolLimiter k e) sd = lp_max (sd_pools sd ! k)"
| "limiter_max (OwnLimiter n) sd = NewMaxInflight adaptiveDefaultMaxInflightPerTarget"

fun limiter_count :: "limiter_ref \<Rightarrow> 'sc sdk \<Rightarrow> int" where
  "limiter_count (PoolLimiter k e) sd =
     (case map_of (lp_limiters (sd_pools sd ! k)) e of Some n \<Rightarrow> n | None \<Rightarrow> 0)"
| "limiter_count (OwnLimiter n) sd = sd_own sd ! n"

fun set_limiter_count :: "limiter_ref \<Rightarrow> int \<Rightarrow> 'sc sdk \<Rightarrow> 'sc sdk" where
  "set_limiter_count (PoolLimiter k e) c sd =
     sd\<lparr>sd_pools := (sd_pools sd)[k := (sd_pools sd ! k)\<lparr>lp_limiters := AList.update e c (lp_limiters (sd_pools sd ! k))\<rparr>]\<rparr>"
| "set_limiter_count (OwnLimiter n) c sd = sd\<lparr>sd_own := (sd_own sd)[n := c]\<rparr>"


section \<open>Building a picker\<close>

definition adaptiveDefaultProbeThreshold :: int where
  "adaptiveDefaultProbeThreshold = 2"

text \<open>The weight is the constant 1, which passes the check that follows it in the source.\<close>

definition newAdaptivePickerItem ::
    "'sc \<Rightarrow> Address \<Rightarrow> 'sc sdk \<Rightarrow> 'sc adaptivePickerItem option \<times> 'sc sdk" where
  "newAdaptivePickerItem sc address sd =
     (let statusValue = Normalized (endpointStatusFromAttributes (ra_Attributes address))
      in if \<not> Routable statusValue then (None, sd)
         else
           (let weight = Fin False 1;
                slowScore = math_Max (Fin False 0) (slowScoreFromAttributes (ra_Attributes address));
                effectiveWeight = fdiv weight (fadd (of_rat64 1) slowScore);
                effectiveWeight = (if fle effectiveWeight (Fin False 0) then of_rat64 1 else effectiveWeight);
                staticCost = (if statusValue = Degraded then fadd slowScore (of_rat64 1) else slowScore);
                (limiter, sd) = (case limiterPoolFromAttributes (ra_Attributes address) of
                    Some k \<Rightarrow>
                      (let (e, p) = pool_limiter (ra_Addr address) (sd_pools sd ! k)
                       in (PoolLimiter k e, sd\<lparr>sd_pools := (sd_pools sd)[k := p]\<rparr>))
                  | None \<Rightarrow> (OwnLimiter (length (sd_own sd)), sd\<lparr>sd_own := sd_own sd @ [0]\<rparr>));
                sd = statsForEndpoint (ra_Addr address) sd
            in (Some \<lparr>it_subConn = sc, it_address = ra_Addr address, it_status = statusValue,
                      it_inflightPenalty = fdiv (of_rat64 1) effectiveWeight, it_latencyPenalty = of_rat64 1,
                      it_staticCost = staticCost, it_limiter = limiter\<rparr>, sd)))"

text \<open>The ready connections come in the order in which the iteration over the map yields them.\<close>

fun build_items :: "('sc \<times> Address) list \<Rightarrow> 'sc sdk \<Rightarrow> 'sc adaptivePickerItem list \<times> 'sc sdk" where
  "build_items [] sd = ([], sd)"
| "build_items ((sc, address) # ready) sd =
     (let (item, sd) = newAdaptivePickerItem sc address sd;
          (items, sd) = build_items ready sd
      in (case item of Some i \<Rightarrow> i # items | None \<Rightarrow> items, sd))"

definition indexes_where :: "('a \<Rightarrow> bool) \<Rightarrow> 'a list \<Rightarrow> nat list" where
  "indexes_where P xs = filter (\<lambda>i. P (xs ! i)) [0..<length xs]"

definition picker_Build :: "u64 \<Rightarrow> ('sc \<times> Address) list \<Rightarrow> 'sc sdk \<Rightarrow> 'sc sdk" where
  "picker_Build seed ready sd =
     (let (items, sd) = build_items ready sd
      in sd\<lparr>sd_pickers := sd_pickers sd @
           [\<lparr>ap_items = items,
             ap_normalIndexes = indexes_where (\<lambda>i. NormalTraffic (it_status i)) items,
             ap_probingIndexes = indexes_where (\<lambda>i. \<not> NormalTraffic (it_status i) \<and> IsProbing (it_status i)) items,
             ap_random = newAdaptiveAtomicRandomSource seed,
             ap_probeThreshold = adaptiveDefaultProbeThreshold,
             ap_completions = []\<rparr>]\<rparr>)"


section \<open>Picking\<close>

definition item_cost :: "'sc sdk \<Rightarrow> 'sc adaptivePickerItem \<Rightarrow> float64" where
  "item_cost sd i =
     fadd (fadd (fmul (of_int64 (maxInt64 (es_inflight (stats_of (it_address i) sd)) 0)) (it_inflightPenalty i))
                (fmul (LatencySeconds (stats_of (it_address i) sd)) (it_latencyPenalty i)))
          (it_staticCost i)"

definition pickCandidateIndexes :: "'sc adaptivePicker \<Rightarrow> nat list \<times> u64" where
  "pickCandidateIndexes p =
     (if ap_normalIndexes p = [] then (ap_probingIndexes p, ap_random p)
      else if ap_probingIndexes p = [] then (ap_normalIndexes p, ap_random p)
      else if ap_probeThreshold p > 0
           then (case adaptive_Intn (ap_random p) 100 of (d, r) \<Rightarrow>
                   (if int d < ap_probeThreshold p then ap_probingIndexes p else ap_normalIndexes p, r))
           else (ap_normalIndexes p, ap_random p))"

definition pickItem :: "'sc sdk \<Rightarrow> 'sc adaptivePicker \<Rightarrow> 'sc adaptivePickerItem option \<times> u64" where
  "pickItem sd p =
     (let (candidates, r) = pickCandidateIndexes p
      in if candidates = [] then (None, r)
         else if length candidates = 1 then (Some (ap_items p ! (candidates ! 0)), r)
         else
           (let (aPos, r) = adaptive_Intn r (length candidates);
                (bPos, r) = adaptive_Intn r (length candidates - 1);
                bPos = (if bPos \<ge> aPos then bPos + 1 else bPos);
                a = ap_items p ! (candidates ! aPos);
                b = ap_items p ! (candidates ! bPos)
            in (Some (if fle (item_cost sd a) (item_cost sd b) then a else b), r)))"

definition update_stats :: "string \<Rightarrow> (adaptiveEndpointStats \<Rightarrow> adaptiveEndpointStats) \<Rightarrow> 'sc sdk \<Rightarrow> 'sc sdk" where
  "update_stats address f sd = sd\<lparr>sd_stats := AList.update address (f (stats_of address sd)) (sd_stats sd)\<rparr>"

definition update_picker :: "nat \<Rightarrow> ('sc adaptivePicker \<Rightarrow> 'sc adaptivePicker) \<Rightarrow> 'sc sdk \<Rightarrow> 'sc sdk" where
  "update_picker k f sd = sd\<lparr>sd_pickers := (sd_pickers sd)[k := f (sd_pickers sd ! k)]\<rparr>"

text \<open>
  \<open>sync.Pool\<close> hands out an object that was put back, or a new one; which of them is an input.
\<close>

definition completions_Get :: "nat \<Rightarrow> nat option \<Rightarrow> 'sc sdk \<Rightarrow> nat \<times> 'sc sdk" where
  "completions_Get k choice sd =
     (case choice of
        Some c \<Rightarrow>
          if c \<in> set (ap_completions (sd_pickers sd ! k))
          then (c, update_picker k (\<lambda>p. p\<lparr>ap_completions := remove1 c (ap_completions p)\<rparr>) sd)
          else (length (sd_completions sd), sd\<lparr>sd_completions := sd_completions sd @
                  [\<lparr>cm_picker = None, cm_item = None, cm_started = zero_time\<rparr>]\<rparr>)
      | None \<Rightarrow> (length (sd_completions sd), sd\<lparr>sd_completions := sd_completions sd @
                  [\<lparr>cm_picker = None, cm_item = None, cm_started = zero_time\<rparr>]\<rparr>))"

definition sdk_Pick ::
    "nat \<Rightarrow> string option \<Rightarrow> nat option \<Rightarrow> gotime \<Rightarrow> 'sc sdk \<Rightarrow> (sdk_pick_error + 'sc \<times> nat) \<times> 'sc sdk" where
  "sdk_Pick k ctx_err choice now sd =
     (if ap_items (sd_pickers sd ! k) = [] then (Inl ErrNoSubConnAvailable, sd)
      else case ctx_err of
        Some err \<Rightarrow> (Inl (UnavailableError err), sd)
      | None \<Rightarrow>
          (let (item, r) = pickItem sd (sd_pickers sd ! k);
               sd = update_picker k (\<lambda>p. p\<lparr>ap_random := r\<rparr>) sd
           in case item of
                None \<Rightarrow> (Inl (UnavailableError ''no available endpoint''), sd)
              | Some item \<Rightarrow>
                  (let (ok, n) = TryAcquire (limiter_max (it_limiter item) sd) (limiter_count (it_limiter item) sd);
                       sd = set_limiter_count (it_limiter item) n sd
                   in if \<not> ok then (Inl ResourceExhausted, sd)
                      else
                        (let sd = update_stats (it_address item) IncrementInflight sd;
                             (c, sd) = completions_Get k choice sd;
                             sd = sd\<lparr>sd_completions := (sd_completions sd)[c :=
                               \<lparr>cm_picker = Some k, cm_item = Some item, cm_started = now\<rparr>]\<rparr>
                         in (Inr (it_subConn item, c), sd)))))"

definition finish :: "nat \<Rightarrow> gotime \<Rightarrow> 'sc sdk \<Rightarrow> 'sc sdk" where
  "finish c now sd =
     (case (cm_picker (sd_completions sd ! c), cm_item (sd_completions sd ! c)) of
        (Some k, Some item) \<Rightarrow>
          (let started = cm_started (sd_completions sd ! c);
               sd = sd\<lparr>sd_completions := (sd_completions sd)[c :=
                 \<lparr>cm_picker = None, cm_item = None, cm_started = zero_time\<rparr>]\<rparr>;
               sd = update_stats (it_address item) DecrementInflight sd;
               sd = update_stats (it_address item) (ObserveLatency (time_sub now started)) sd;
               sd = set_limiter_count (it_limiter item) (Release (limiter_count (it_limiter item) sd)) sd
           in update_picker k (\<lambda>p. p\<lparr>ap_completions := c # ap_completions p\<rparr>) sd)
      | _ \<Rightarrow> sd)"


section \<open>Runs\<close>

definition valid_ref :: "limiter_ref \<Rightarrow> 'sc sdk \<Rightarrow> bool" where
  "valid_ref ref sd = (case ref of PoolLimiter k e \<Rightarrow> k < length (sd_pools sd) | OwnLimiter n \<Rightarrow> n < length (sd_own sd))"

datatype 'sc sdk_op =
    NewPoolOp int
  | SetMaxOf nat int
  | BuildOp u64 "('sc \<times> Address) list"
  | PickOp nat "string option" "nat option" gotime
  | DoneOp nat gotime

fun run_sdk_op :: "'sc sdk_op \<Rightarrow> 'sc sdk \<Rightarrow> 'sc sdk" where
  "run_sdk_op (NewPoolOp limit) sd = sd\<lparr>sd_pools := sd_pools sd @ [newAdaptiveLimiterPool limit]\<rparr>"
| "run_sdk_op (SetMaxOf k limit) sd =
     sd\<lparr>sd_pools := (sd_pools sd)[k := pool_SetMaxInflightPerEndpoint limit (sd_pools sd ! k)]\<rparr>"
| "run_sdk_op (BuildOp seed ready) sd = picker_Build seed ready sd"
| "run_sdk_op (PickOp k ctx_err choice now) sd = snd (sdk_Pick k ctx_err choice now sd)"
| "run_sdk_op (DoneOp c now) sd = finish c now sd"

text \<open>The operation refers to objects that exist, and limits are 64-bit numbers.\<close>

fun sdk_op_ok :: "'sc sdk_op \<Rightarrow> 'sc sdk \<Rightarrow> bool" where
  "sdk_op_ok (NewPoolOp limit) sd \<longleftrightarrow> limit \<le> max_int64"
| "sdk_op_ok (SetMaxOf k limit) sd \<longleftrightarrow> k < length (sd_pools sd) \<and> limit \<le> max_int64"
| "sdk_op_ok (BuildOp seed ready) sd \<longleftrightarrow>
     (\<forall>(sc, a)\<in>set ready. case limiterPoolFromAttributes (ra_Attributes a) of
        Some k \<Rightarrow> k < length (sd_pools sd) | None \<Rightarrow> True)"
| "sdk_op_ok (PickOp k ctx_err choice now) sd \<longleftrightarrow> k < length (sd_pickers sd)"
| "sdk_op_ok (DoneOp c now) sd \<longleftrightarrow> c < length (sd_completions sd)"

definition empty_sdk :: "'sc sdk" where
  "empty_sdk = \<lparr>sd_stats = [], sd_pools = [], sd_own = [], sd_pickers = [], sd_completions = []\<rparr>"

inductive sdk_reach :: "nat \<Rightarrow> 'sc sdk \<Rightarrow> bool" where
  start: "sdk_reach 0 empty_sdk"
| step: "sdk_reach n sd \<Longrightarrow> sdk_op_ok op sd \<Longrightarrow> sdk_reach (Suc n) (run_sdk_op op sd)"

text \<open>Completions that were handed out and not called, with an item that satisfies \<open>P\<close>.\<close>

definition outstanding :: "('sc adaptivePickerItem \<Rightarrow> bool) \<Rightarrow> 'sc adaptiveCompletion list \<Rightarrow> nat" where
  "outstanding P cs = length (filter (\<lambda>c. case cm_item c of Some i \<Rightarrow> P i | None \<Rightarrow> False) cs)"

definition counts_ok :: "'sc sdk \<Rightarrow> bool" where
  "counts_ok sd \<longleftrightarrow>
     (\<forall>a. es_inflight (stats_of a sd) = int (outstanding (\<lambda>i. it_address i = a) (sd_completions sd))) \<and>
     (\<forall>ref. valid_ref ref sd \<longrightarrow>
        limiter_count ref sd = int (outstanding (\<lambda>i. it_limiter i = ref) (sd_completions sd)))"

definition item_ok :: "'sc sdk \<Rightarrow> 'sc adaptivePickerItem \<Rightarrow> bool" where
  "item_ok sd i \<longleftrightarrow> valid_ref (it_limiter i) sd \<and> Routable (it_status i)"

definition picker_ok :: "'sc sdk \<Rightarrow> 'sc adaptivePicker \<Rightarrow> bool" where
  "picker_ok sd p \<longleftrightarrow> (\<forall>i\<in>set (ap_items p). item_ok sd i) \<and>
     ap_normalIndexes p = indexes_where (\<lambda>i. NormalTraffic (it_status i)) (ap_items p) \<and>
     ap_probingIndexes p = indexes_where (\<lambda>i. \<not> NormalTraffic (it_status i) \<and> IsProbing (it_status i)) (ap_items p)"

definition completion_ok :: "'sc sdk \<Rightarrow> 'sc adaptiveCompletion \<Rightarrow> bool" where
  "completion_ok sd c \<longleftrightarrow> (cm_picker c = None \<longleftrightarrow> cm_item c = None) \<and>
     (\<forall>k. cm_picker c = Some k \<longrightarrow> k < length (sd_pickers sd)) \<and> (\<forall>i. cm_item c = Some i \<longrightarrow> item_ok sd i)"

definition slots_ok :: "'sc sdk \<Rightarrow> bool" where
  "slots_ok sd \<longleftrightarrow>
     (\<forall>k < length (sd_pickers sd). distinct (ap_completions (sd_pickers sd ! k)) \<and>
        (\<forall>c\<in>set (ap_completions (sd_pickers sd ! k)).
           c < length (sd_completions sd) \<and> cm_item (sd_completions sd ! c) = None) \<and>
        (\<forall>l < length (sd_pickers sd). l \<noteq> k \<longrightarrow>
           set (ap_completions (sd_pickers sd ! k)) \<inter> set (ap_completions (sd_pickers sd ! l)) = {}))"

definition sdk_inv :: "'sc sdk \<Rightarrow> bool" where
  "sdk_inv sd \<longleftrightarrow> counts_ok sd \<and> slots_ok sd \<and> (\<forall>p\<in>set (sd_pickers sd). picker_ok sd p) \<and>
     (\<forall>c\<in>set (sd_completions sd). completion_ok sd c) \<and>
     (\<forall>q\<in>set (sd_pools sd). MaxInflight_Load (lp_max q) \<le> max_int64)"


section \<open>What the updates keep\<close>

lemma length_filter_update:
  assumes "c < length cs"
  shows "length (filter Q (cs[c := v])) + (if Q (cs ! c) then 1 else 0) =
     length (filter Q cs) + (if Q v then 1 else 0)"
proof -
  have "cs = take c cs @ cs ! c # drop (Suc c) cs"
    using assms by (rule id_take_nth_drop)
  then have "filter Q cs = filter Q (take c cs) @ filter Q [cs ! c] @ filter Q (drop (Suc c) cs)"
    by (metis append_Cons append_Nil filter_append)
  moreover have "cs[c := v] = take c cs @ v # drop (Suc c) cs"
    using assms by (rule upd_conv_take_nth_drop)
  ultimately show ?thesis
    by simp
qed

lemma outstanding_append [simp]:
  "cm_item c = None \<Longrightarrow> outstanding P (cs @ [c]) = outstanding P cs"
  by (simp add: outstanding_def)

lemma outstanding_arm:
  assumes "c < length cs" "cm_item (cs ! c) = None" "cm_item v = Some i"
  shows "outstanding P (cs[c := v]) = outstanding P cs + (if P i then 1 else 0)"
  unfolding outstanding_def
  using length_filter_update [OF assms(1), of "\<lambda>c. case cm_item c of Some i \<Rightarrow> P i | None \<Rightarrow> False" v] assms(2, 3)
  by simp

lemma outstanding_disarm:
  assumes "c < length cs" "cm_item (cs ! c) = Some i" "cm_item v = None"
  shows "outstanding P cs = outstanding P (cs[c := v]) + (if P i then 1 else 0)"
  unfolding outstanding_def
  using length_filter_update [OF assms(1), of "\<lambda>c. case cm_item c of Some i \<Rightarrow> P i | None \<Rightarrow> False" v] assms(2, 3)
  by simp

lemma outstanding_le: "outstanding P cs \<le> length cs"
  by (simp add: outstanding_def)

lemma stats_of_cong: "sd_stats sd = sd_stats sd' \<Longrightarrow> stats_of a sd = stats_of a sd'"
  by (simp add: stats_of_def)

lemma update_stats_fields [simp]:
  "stats_of a (update_stats b f sd) = (if a = b then f (stats_of b sd) else stats_of a sd)"
  "sd_pools (update_stats b f sd) = sd_pools sd" "sd_own (update_stats b f sd) = sd_own sd"
  "sd_pickers (update_stats b f sd) = sd_pickers sd"
  "sd_completions (update_stats b f sd) = sd_completions sd"
  by (simp_all add: update_stats_def stats_of_def update_conv')

lemma update_picker_fields [simp]:
  "sd_stats (update_picker k f sd) = sd_stats sd" "sd_pools (update_picker k f sd) = sd_pools sd"
  "sd_own (update_picker k f sd) = sd_own sd" "sd_completions (update_picker k f sd) = sd_completions sd"
  "sd_pickers (update_picker k f sd) = (sd_pickers sd)[k := f (sd_pickers sd ! k)]"
  by (simp_all add: update_picker_def)

lemma set_limiter_count_fields [simp]:
  "sd_stats (set_limiter_count ref n sd) = sd_stats sd"
  "sd_pickers (set_limiter_count ref n sd) = sd_pickers sd"
  "sd_completions (set_limiter_count ref n sd) = sd_completions sd"
  "length (sd_pools (set_limiter_count ref n sd)) = length (sd_pools sd)"
  "length (sd_own (set_limiter_count ref n sd)) = length (sd_own sd)"
  by (cases ref; simp)+

lemma limiter_count_cong:
  "sd_pools sd = sd_pools sd' \<Longrightarrow> sd_own sd = sd_own sd' \<Longrightarrow> limiter_count ref sd = limiter_count ref sd'"
  by (cases ref) simp_all

lemma limiter_max_cong: "sd_pools sd = sd_pools sd' \<Longrightarrow> limiter_max ref sd = limiter_max ref sd'"
  by (cases ref) simp_all

lemma valid_ref_cong:
  "length (sd_pools sd) = length (sd_pools sd') \<Longrightarrow> length (sd_own sd) = length (sd_own sd') \<Longrightarrow>
   valid_ref ref sd = valid_ref ref sd'"
  by (simp add: valid_ref_def split: limiter_ref.splits)

lemma limiter_count_set:
  "valid_ref ref' sd \<Longrightarrow>
   limiter_count ref (set_limiter_count ref' n sd) = (if ref = ref' then n else limiter_count ref sd)"
  by (cases ref; cases ref') (auto simp: valid_ref_def nth_list_update update_conv' split: option.splits)

lemma map_max_set [simp]: "map lp_max (sd_pools (set_limiter_count ref n sd)) = map lp_max (sd_pools sd)"
proof (cases ref)
  case (PoolLimiter k e)
  then show ?thesis
    by (cases "k < length (sd_pools sd)") (simp_all add: map_update list_update_same_conv list_update_beyond not_less)
qed simp

lemma limiter_max_valid:
  assumes "map lp_max (sd_pools sd) = map lp_max (sd_pools sd')" "valid_ref ref sd"
  shows "limiter_max ref sd = limiter_max ref sd'"
proof (cases ref)
  case (PoolLimiter k e)
  then show ?thesis
    using arg_cong [OF assms(1), of "\<lambda>xs. xs ! k"] map_eq_imp_length_eq [OF assms(1)] assms(2)
    by (simp add: valid_ref_def)
qed simp

lemma limits_cong:
  fixes ps qs :: "adaptiveLimiterPool list"
  assumes "map lp_max ps = map lp_max qs"
  shows "(\<forall>q\<in>set ps. P (lp_max q)) = (\<forall>q\<in>set qs. P (lp_max q))"
proof -
  have all: "(\<forall>q\<in>set ps. P (lp_max q)) = (\<forall>m\<in>set (map lp_max ps). P m)" for ps :: "adaptiveLimiterPool list"
    by simp
  show ?thesis
    unfolding all [of ps] all [of qs] assms ..
qed


section \<open>Building keeps the invariant\<close>

definition grows :: "'sc sdk \<Rightarrow> 'sc sdk \<Rightarrow> bool" where
  "grows sd sd' \<longleftrightarrow> sd_pickers sd' = sd_pickers sd \<and> sd_completions sd' = sd_completions sd \<and>
     map lp_max (sd_pools sd') = map lp_max (sd_pools sd) \<and> length (sd_own sd) \<le> length (sd_own sd')"

lemma grows_refl: "grows sd sd"
  by (simp add: grows_def)

lemma grows_trans: "grows a b \<Longrightarrow> grows b c \<Longrightarrow> grows a c"
  by (simp add: grows_def)

lemma grows_valid: "grows sd sd' \<Longrightarrow> valid_ref ref sd \<Longrightarrow> valid_ref ref sd'"
  by (auto simp: grows_def valid_ref_def dest: map_eq_imp_length_eq split: limiter_ref.splits)

lemma grows_item: "grows sd sd' \<Longrightarrow> item_ok sd i \<Longrightarrow> item_ok sd' i"
  by (simp add: item_ok_def grows_valid)

lemma grows_inv:
  assumes "grows sd sd'" "sdk_inv sd" "counts_ok sd'"
  shows "sdk_inv sd'"
proof -
  have "picker_ok sd' p" if "picker_ok sd p" for p
    using that grows_item [OF assms(1)] by (auto simp: picker_ok_def)
  moreover have "completion_ok sd' c" if "completion_ok sd c" for c
    using that grows_item [OF assms(1)] assms(1)
    by (auto simp: completion_ok_def grows_def split: option.splits)
  ultimately show ?thesis
    using assms limits_cong [of "sd_pools sd'" "sd_pools sd" "\<lambda>m. MaxInflight_Load m \<le> max_int64"]
    by (simp add: sdk_inv_def grows_def slots_ok_def)
qed

lemma outstanding_zero:
  assumes "\<forall>c\<in>set cs. \<forall>i. cm_item c = Some i \<longrightarrow> \<not> P i"
  shows "outstanding P cs = 0"
  using assms by (auto simp: outstanding_def filter_empty_conv split: option.splits)

lemma outstanding_invalid:
  assumes "sdk_inv sd" "\<not> valid_ref ref sd"
  shows "outstanding (\<lambda>i. it_limiter i = ref) (sd_completions sd) = 0"
  using assms by (intro outstanding_zero) (auto simp: sdk_inv_def completion_ok_def item_ok_def split: option.splits)

lemma stats_of_ensure [simp]:
  "stats_of a (statsForEndpoint b sd) = stats_of a sd"
  "sd_pools (statsForEndpoint b sd) = sd_pools sd" "sd_own (statsForEndpoint b sd) = sd_own sd"
  "sd_pickers (statsForEndpoint b sd) = sd_pickers sd"
  "sd_completions (statsForEndpoint b sd) = sd_completions sd"
  by (auto simp: statsForEndpoint_def stats_of_def update_conv' split: option.splits)

text \<open>The limiter of a new item, with the entry it may add.\<close>

definition item_limiter :: "Address \<Rightarrow> 'sc sdk \<Rightarrow> limiter_ref \<times> 'sc sdk" where
  "item_limiter address sd = (case limiterPoolFromAttributes (ra_Attributes address) of
      Some k \<Rightarrow>
        (let (e, p) = pool_limiter (ra_Addr address) (sd_pools sd ! k)
         in (PoolLimiter k e, sd\<lparr>sd_pools := (sd_pools sd)[k := p]\<rparr>))
    | None \<Rightarrow> (OwnLimiter (length (sd_own sd)), sd\<lparr>sd_own := sd_own sd @ [0]\<rparr>))"

lemma pool_limiter_fields [simp]:
  "lp_max (snd (pool_limiter e p)) = lp_max p"
  "(case map_of (lp_limiters (snd (pool_limiter e p))) f of Some n \<Rightarrow> n | None \<Rightarrow> 0) =
   (case map_of (lp_limiters p) f of Some n \<Rightarrow> n | None \<Rightarrow> (0 :: int))"
  by (auto simp: pool_limiter_def Let_def update_conv' split: option.splits)

lemma item_limiter_ok:
  assumes "sdk_inv sd" "case limiterPoolFromAttributes (ra_Attributes a) of Some k \<Rightarrow> k < length (sd_pools sd) | None \<Rightarrow> True"
    and "item_limiter a sd = (ref, sd')"
  shows "grows sd sd' \<and> counts_ok sd' \<and> valid_ref ref sd' \<and> sd_stats sd' = sd_stats sd"
proof (cases "limiterPoolFromAttributes (ra_Attributes a)")
  case None
  then have sd': "ref = OwnLimiter (length (sd_own sd))" "sd' = sd\<lparr>sd_own := sd_own sd @ [0]\<rparr>"
    using assms(3) by (simp_all add: item_limiter_def)
  have "limiter_count r sd' = int (outstanding (\<lambda>i. it_limiter i = r) (sd_completions sd))" if "valid_ref r sd'" for r
  proof (cases "valid_ref r sd")
    case True
    then have "limiter_count r sd' = limiter_count r sd"
      using sd' by (cases r) (auto simp: valid_ref_def nth_append)
    then show ?thesis
      using True assms(1) by (simp add: sdk_inv_def counts_ok_def)
  next
    case False
    then have "r = ref"
      using that sd' by (auto simp: valid_ref_def split: limiter_ref.splits)
    then show ?thesis
      using outstanding_invalid [OF assms(1) False] sd' by simp
  qed
  moreover have "stats_of b sd' = stats_of b sd" for b
    by (rule stats_of_cong) (simp add: sd')
  ultimately show ?thesis
    using assms(1) sd' by (simp add: grows_def counts_ok_def sdk_inv_def valid_ref_def)
next
  case (Some k)
  define q where "q = pool_limiter (ra_Addr a) (sd_pools sd ! k)"
  have k: "k < length (sd_pools sd)"
    using assms(2) Some by simp
  have sd': "ref = PoolLimiter k (fst q)" "sd' = sd\<lparr>sd_pools := (sd_pools sd)[k := snd q]\<rparr>"
    using assms(3) Some by (simp_all add: item_limiter_def q_def case_prod_beta)
  have "limiter_count r sd' = limiter_count r sd" for r
    using k by (cases r) (auto simp: sd' q_def nth_list_update)
  moreover have "valid_ref r sd' = valid_ref r sd" for r
    by (rule valid_ref_cong) (simp_all add: sd')
  moreover have "stats_of b sd' = stats_of b sd" for b
    by (rule stats_of_cong) (simp add: sd')
  moreover have "map lp_max (sd_pools sd') = map lp_max (sd_pools sd)"
    using k by (simp add: sd' q_def map_update list_update_same_conv)
  ultimately show ?thesis
    using assms(1) sd' k by (simp add: grows_def counts_ok_def sdk_inv_def valid_ref_def)
qed

lemma newAdaptivePickerItem_ok:
  assumes "sdk_inv sd" "case limiterPoolFromAttributes (ra_Attributes a) of Some k \<Rightarrow> k < length (sd_pools sd) | None \<Rightarrow> True"
    and "newAdaptivePickerItem sc a sd = (item, sd')"
  shows "grows sd sd' \<and> sdk_inv sd' \<and> (\<forall>i. item = Some i \<longrightarrow> item_ok sd' i)"
proof (cases "Routable (Normalized (endpointStatusFromAttributes (ra_Attributes a)))")
  case True
  obtain ref sd1 where lim: "item_limiter a sd = (ref, sd1)"
    by fastforce
  note one = item_limiter_ok [OF assms(1, 2) lim]
  have sd': "sd' = statsForEndpoint (ra_Addr a) sd1"
    and item: "\<exists>i. item = Some i \<and> it_limiter i = ref \<and> Routable (it_status i)"
    using assms(3) True lim by (auto simp: newAdaptivePickerItem_def item_limiter_def Let_def case_prod_beta)
  have grow: "grows sd sd'"
    using one sd' by (simp add: grows_def)
  moreover have "counts_ok sd'"
    using one by (auto simp: counts_ok_def sd' valid_ref_def cong: limiter_count_cong limiter_ref.case_cong)
  moreover have "valid_ref ref sd'"
    using one valid_ref_cong [of sd' sd1] by (simp add: sd')
  ultimately show ?thesis
    using grows_inv [OF grow assms(1)] item by (auto simp: item_ok_def)
next
  case False
  then show ?thesis
    using assms(1, 3) by (auto simp: newAdaptivePickerItem_def grows_refl)
qed

lemma build_items_ok:
  assumes "sdk_inv sd" "sdk_op_ok (BuildOp seed ready) sd" "build_items ready sd = (items, sd')"
  shows "grows sd sd' \<and> sdk_inv sd' \<and> (\<forall>i\<in>set items. item_ok sd' i)"
  using assms
proof (induction ready sd arbitrary: items sd' rule: build_items.induct)
  case (2 sc a ready sd)
  obtain item sd1 where one: "newAdaptivePickerItem sc a sd = (item, sd1)"
    by fastforce
  obtain rest sd2 where "build_items ready sd1 = (rest, sd2)"
    by fastforce
  then have more: "build_items ready sd1 = (rest, sd')" "items = (case item of Some i \<Rightarrow> i # rest | None \<Rightarrow> rest)"
    using 2(4) one by (simp_all add: Let_def)
  have step: "grows sd sd1 \<and> sdk_inv sd1 \<and> (\<forall>i. item = Some i \<longrightarrow> item_ok sd1 i)"
    using newAdaptivePickerItem_ok [OF 2(2) _ one] 2(3) by auto
  then have "length (sd_pools sd1) = length (sd_pools sd)"
    by (auto simp: grows_def dest: map_eq_imp_length_eq)
  then have "sdk_op_ok (BuildOp seed ready) sd1"
    using 2(3) by (simp add: case_prod_beta cong: option.case_cong)
  then have "grows sd1 sd' \<and> sdk_inv sd' \<and> (\<forall>i\<in>set rest. item_ok sd' i)"
    using 2(1) [OF one [symmetric] refl, of rest sd'] step more(1) by auto
  then show ?case
    using step more(2) grows_trans grows_item by (fastforce split: option.splits)
qed (simp add: grows_refl)

lemma picker_Build_inv:
  assumes "sdk_inv sd" "sdk_op_ok (BuildOp seed ready) sd"
  shows "sdk_inv (picker_Build seed ready sd)"
proof -
  obtain items sd1 where b: "build_items ready sd = (items, sd1)"
    by fastforce
  note inv = build_items_ok [OF assms b]
  have ok: "item_ok (sd1\<lparr>sd_pickers := ps\<rparr>) i = item_ok sd1 i" for ps i
    by (simp add: item_ok_def valid_ref_def split: limiter_ref.splits)
  have "counts_ok (sd1\<lparr>sd_pickers := ps\<rparr>) = counts_ok sd1" for ps
    by (auto simp: counts_ok_def valid_ref_def stats_of_def cong: limiter_count_cong limiter_ref.case_cong)
  then show ?thesis
    using inv b
    by (auto simp: picker_Build_def sdk_inv_def picker_ok_def ok completion_ok_def slots_ok_def nth_append less_Suc_eq
        split: option.splits)
qed


section \<open>Picking keeps the invariant\<close>

lemma pickItem_in:
  assumes "picker_ok sd p" "pickItem sd' p = (Some item, r)"
  shows "item \<in> set (ap_items p)"
proof -
  have idx: "i < length (ap_items p)" if "i \<in> set (fst (pickCandidateIndexes p))" for i
    using that assms(1)
    by (auto simp: pickCandidateIndexes_def picker_ok_def indexes_where_def case_prod_beta split: if_splits)
  obtain cs r1 where cs: "pickCandidateIndexes p = (cs, r1)"
    by fastforce
  have pos: "ap_items p ! (cs ! j) \<in> set (ap_items p)" if "j < length cs" for j
    using idx cs that by simp
  show ?thesis
  proof (cases "length cs \<le> 1")
    case True
    then show ?thesis
      using assms(2) cs pos [of 0] by (auto simp: pickItem_def le_Suc_eq split: if_splits)
  next
    case False
    then obtain a r2 b r3 where ab: "adaptive_Intn r1 (length cs) = (a, r2)" "adaptive_Intn r2 (length cs - 1) = (b, r3)"
      by fastforce
    then have "a < length cs" "b < length cs - 1"
      using sdk_random.intn_less [of "length cs" r1] sdk_random.intn_less [of "length cs - 1" r2] False by (cases cs; simp)+
    then show ?thesis
      using assms(2) cs ab False pos by (auto simp: pickItem_def Let_def split: if_splits)
  qed
qed

lemma counts_ok_cong:
  assumes "sd_stats sd = sd_stats sd'" "sd_pools sd = sd_pools sd'" "sd_own sd = sd_own sd'"
    and "\<And>P. outstanding P (sd_completions sd) = outstanding P (sd_completions sd')"
  shows "counts_ok sd = counts_ok sd'"
  using assms by (simp add: counts_ok_def valid_ref_def stats_of_def cong: limiter_count_cong limiter_ref.case_cong)

lemma item_ok_cong:
  "length (sd_pools sd) = length (sd_pools sd') \<Longrightarrow> length (sd_own sd) = length (sd_own sd') \<Longrightarrow> item_ok sd i = item_ok sd' i"
  using valid_ref_cong [of sd sd' "it_limiter i"] by (simp add: item_ok_def)

lemma sdk_inv_update_picker:
  assumes "sdk_inv sd" "k < length (sd_pickers sd)" "slots_ok (update_picker k f sd)"
    and "\<And>p. ap_items (f p) = ap_items p \<and> ap_normalIndexes (f p) = ap_normalIndexes p \<and>
           ap_probingIndexes (f p) = ap_probingIndexes p"
  shows "sdk_inv (update_picker k f sd)" (is "sdk_inv ?sd")
proof -
  have "counts_ok ?sd = counts_ok sd"
    by (rule counts_ok_cong) simp_all
  moreover have item: "item_ok ?sd i = item_ok sd i" for i
    by (rule item_ok_cong) simp_all
  have "picker_ok ?sd p = picker_ok sd p" "picker_ok sd (f p) = picker_ok sd p" for p
    using assms(4) [of p] by (simp_all add: picker_ok_def item)
  then have "\<forall>p\<in>set (sd_pickers ?sd). picker_ok ?sd p"
    using assms(1, 2) set_update_subset_insert [of "sd_pickers sd" k "f (sd_pickers sd ! k)"]
    by (auto simp: sdk_inv_def)
  moreover have "completion_ok ?sd c = completion_ok sd c" for c
    by (simp add: completion_ok_def item)
  ultimately show ?thesis
    using assms(1, 3) by (simp add: sdk_inv_def)
qed

lemma sdk_inv_random:
  assumes "sdk_inv sd" "k < length (sd_pickers sd)"
  shows "sdk_inv (update_picker k (\<lambda>p. p\<lparr>ap_random := r\<rparr>) sd)"
proof (rule sdk_inv_update_picker [OF assms])
  let ?sd = "update_picker k (\<lambda>p. p\<lparr>ap_random := r\<rparr>) sd"
  have "ap_completions (sd_pickers ?sd ! l) = ap_completions (sd_pickers sd ! l)" for l
    using assms(2) by (cases "l = k") simp_all
  then show "slots_ok ?sd"
    using assms(1) by (simp add: slots_ok_def sdk_inv_def)
qed simp

lemma completions_Get_commute:
  "completions_Get k choice (update_stats a f (set_limiter_count ref n sd)) =
     (case completions_Get k choice sd of (c, sd) \<Rightarrow> (c, update_stats a f (set_limiter_count ref n sd)))"
  by (cases ref) (auto simp: completions_Get_def update_stats_def update_picker_def stats_of_def split: option.splits)

lemma slots_ok_shrink:
  assumes "slots_ok sd" "length (sd_pickers sd') = length (sd_pickers sd)"
    and "\<And>l. l < length (sd_pickers sd) \<Longrightarrow>
      set (ap_completions (sd_pickers sd' ! l)) \<subseteq> set (ap_completions (sd_pickers sd ! l)) \<and>
      distinct (ap_completions (sd_pickers sd' ! l))"
    and "sd_completions sd' = sd_completions sd"
  shows "slots_ok sd'"
  unfolding slots_ok_def assms(2, 4)
proof (intro allI impI conjI ballI)
  fix k
  assume k: "k < length (sd_pickers sd)"
  show "distinct (ap_completions (sd_pickers sd' ! k))"
    using assms(3) [OF k] by simp
  show "c < length (sd_completions sd)" "cm_item (sd_completions sd ! c) = None"
    if "c \<in> set (ap_completions (sd_pickers sd' ! k))" for c
    using assms(1, 3) k that unfolding slots_ok_def by blast+
  show "set (ap_completions (sd_pickers sd' ! k)) \<inter> set (ap_completions (sd_pickers sd' ! l)) = {}"
    if "l < length (sd_pickers sd)" "l \<noteq> k" for l
    using assms(1) assms(3) [OF k] assms(3) [OF that(1)] k that unfolding slots_ok_def by blast
qed

lemma completions_Get_reuse:
  assumes "sdk_inv sd" "k < length (sd_pickers sd)" "completions_Get k choice sd = (c, sd')"
    and "\<exists>c0. choice = Some c0 \<and> c0 \<in> set (ap_completions (sd_pickers sd ! k))"
  shows "sdk_inv sd' \<and> c < length (sd_completions sd') \<and> cm_item (sd_completions sd' ! c) = None \<and>
    (\<forall>l < length (sd_pickers sd'). c \<notin> set (ap_completions (sd_pickers sd' ! l))) \<and>
    sd_pools sd' = sd_pools sd \<and> sd_own sd' = sd_own sd \<and> length (sd_pickers sd') = length (sd_pickers sd) \<and>
    sd_stats sd' = sd_stats sd \<and> length (sd_completions sd') \<le> Suc (length (sd_completions sd))"
proof -
  have sd': "c \<in> set (ap_completions (sd_pickers sd ! k))"
    "sd' = update_picker k (\<lambda>p. p\<lparr>ap_completions := remove1 c (ap_completions p)\<rparr>) sd"
    using assms(3, 4) by (auto simp: completions_Get_def)
  have "slots_ok sd"
    using assms(1) by (simp add: sdk_inv_def)
  then have slots: "c < length (sd_completions sd)" "cm_item (sd_completions sd ! c) = None"
    and other: "\<And>l. l < length (sd_pickers sd) \<Longrightarrow> l \<noteq> k \<Longrightarrow> c \<notin> set (ap_completions (sd_pickers sd ! l))"
    and dist: "distinct (ap_completions (sd_pickers sd ! k))"
    using sd'(1) assms(2) unfolding slots_ok_def by blast+
  have pool: "ap_completions (sd_pickers sd' ! l) =
      (if l = k then remove1 c (ap_completions (sd_pickers sd ! k)) else ap_completions (sd_pickers sd ! l))" for l
    using assms(2) by (simp add: sd'(2))
  have len: "length (sd_pickers sd') = length (sd_pickers sd)"
    by (simp add: sd'(2))
  have free: "\<forall>l < length (sd_pickers sd'). c \<notin> set (ap_completions (sd_pickers sd' ! l))"
    using other dist len unfolding pool by simp
  have "slots_ok sd'"
    using \<open>slots_ok sd\<close> len
  proof (rule slots_ok_shrink)
    fix l
    assume "l < length (sd_pickers sd)"
    then have "distinct (ap_completions (sd_pickers sd ! l))"
      using \<open>slots_ok sd\<close> by (simp add: slots_ok_def)
    then show "set (ap_completions (sd_pickers sd' ! l)) \<subseteq> set (ap_completions (sd_pickers sd ! l)) \<and>
        distinct (ap_completions (sd_pickers sd' ! l))"
      unfolding pool using set_remove1_subset [of c "ap_completions (sd_pickers sd ! k)"] by auto
  qed (simp add: sd'(2))
  then have "sdk_inv sd'"
    unfolding sd'(2) by (intro sdk_inv_update_picker assms(1, 2)) simp_all
  then show ?thesis
    using slots free sd'(2) by simp
qed

lemma completions_Get_ok:
  assumes "sdk_inv sd" "k < length (sd_pickers sd)" "completions_Get k choice sd = (c, sd')"
  shows "sdk_inv sd' \<and> c < length (sd_completions sd') \<and> cm_item (sd_completions sd' ! c) = None \<and>
    (\<forall>l < length (sd_pickers sd'). c \<notin> set (ap_completions (sd_pickers sd' ! l))) \<and>
    sd_pools sd' = sd_pools sd \<and> sd_own sd' = sd_own sd \<and> length (sd_pickers sd') = length (sd_pickers sd) \<and>
    sd_stats sd' = sd_stats sd \<and> length (sd_completions sd') \<le> Suc (length (sd_completions sd))"
proof (cases "\<exists>c0. choice = Some c0 \<and> c0 \<in> set (ap_completions (sd_pickers sd ! k))")
  case True
  then show ?thesis
    by (rule completions_Get_reuse [OF assms])
next
  case False
  then have sd': "c = length (sd_completions sd)"
    "sd' = sd\<lparr>sd_completions := sd_completions sd @ [\<lparr>cm_picker = None, cm_item = None, cm_started = zero_time\<rparr>]\<rparr>"
    using assms(3) by (auto simp: completions_Get_def split: option.splits if_splits)
  have "counts_ok sd' = counts_ok sd"
    by (rule counts_ok_cong) (simp_all add: sd'(2))
  moreover have "item_ok sd' i = item_ok sd i" for i
    by (rule item_ok_cong) (simp_all add: sd'(2))
  moreover have "slots_ok sd"
    using assms(1) by (simp add: sdk_inv_def)
  then have "slots_ok sd'" "\<forall>l < length (sd_pickers sd). c \<notin> set (ap_completions (sd_pickers sd ! l))"
    using sd' unfolding slots_ok_def by (fastforce simp: nth_append)+
  ultimately show ?thesis
    using assms(1) sd' by (auto simp: sdk_inv_def picker_ok_def completion_ok_def split: option.splits)
qed

lemma slots_ok_arm:
  assumes "slots_ok sd" "\<forall>l < length (sd_pickers sd). c \<notin> set (ap_completions (sd_pickers sd ! l))"
    and "sd_pickers sd' = sd_pickers sd" "sd_completions sd' = (sd_completions sd)[c := v]"
  shows "slots_ok sd'"
proof -
  have "(sd_completions sd)[c := v] ! a = sd_completions sd ! a"
    if "k < length (sd_pickers sd)" "a \<in> set (ap_completions (sd_pickers sd ! k))" for k a
    using assms(2) that by (metis nth_list_update_neq)
  then show ?thesis
    using assms(1) unfolding slots_ok_def assms(3, 4) by simp
qed

lemma arm_inv:
  fixes now :: gotime
  assumes "sdk_inv sd" "item_ok sd item" "k < length (sd_pickers sd)"
    and "c < length (sd_completions sd)" "cm_item (sd_completions sd ! c) = None"
    and "\<forall>l < length (sd_pickers sd). c \<notin> set (ap_completions (sd_pickers sd ! l))"
    and "int (length (sd_completions sd)) \<le> max_int64"
  defines "v \<equiv> \<lparr>cm_picker = Some k, cm_item = Some item, cm_started = now\<rparr>"
    and "sd1 \<equiv> update_stats (it_address item) IncrementInflight
           (set_limiter_count (it_limiter item) (limiter_count (it_limiter item) sd + 1) sd)"
  shows "sdk_inv (sd1\<lparr>sd_completions := (sd_completions sd1)[c := v]\<rparr>)" (is "sdk_inv ?sd")
proof -
  have arm: "outstanding P ((sd_completions sd)[c := v]) = outstanding P (sd_completions sd) + (if P item then 1 else 0)" for P
    using assms(4, 5) by (rule outstanding_arm) (simp add: v_def)
  have bound: "int (outstanding P ((sd_completions sd)[c := v])) \<le> max_int64" for P
    using outstanding_le [of P "(sd_completions sd)[c := v]"] assms(7) by simp
  have wrap: "wrap64 (int (outstanding (\<lambda>i. it_address i = it_address item) (sd_completions sd)) + 1) =
      int (outstanding (\<lambda>i. it_address i = it_address item) (sd_completions sd)) + 1"
    using arm [of "\<lambda>i. it_address i = it_address item"] bound [of "\<lambda>i. it_address i = it_address item"]
    by (intro wrap64_id) (simp_all add: min_int64_def)
  have ref: "valid_ref r ?sd = valid_ref r sd" for r
    by (rule valid_ref_cong) (simp_all add: sd1_def)
  have counts: "counts_ok sd" and lim: "valid_ref (it_limiter item) sd"
    using assms(1, 2) by (simp_all add: sdk_inv_def item_ok_def)
  have stats: "stats_of a ?sd = (if a = it_address item then IncrementInflight (stats_of a sd) else stats_of a sd)" for a
    unfolding sd1_def by (simp add: stats_of_def update_stats_def update_conv')
  have lims: "limiter_count r ?sd = (if r = it_limiter item then limiter_count r sd + 1 else limiter_count r sd)" for r
    using limiter_count_cong [of ?sd "set_limiter_count (it_limiter item) (limiter_count (it_limiter item) sd + 1) sd" r]
      limiter_count_set [OF lim] by (simp add: sd1_def)
  have comps: "sd_completions ?sd = (sd_completions sd)[c := v]"
    by (simp add: sd1_def)
  have "counts_ok ?sd"
    using counts lim wrap unfolding counts_ok_def ref stats lims comps arm by (simp add: IncrementInflight_def)
  moreover have "item_ok ?sd i = item_ok sd i" for i
    by (simp add: item_ok_def ref)
  moreover have "slots_ok ?sd"
    using slots_ok_arm [of sd c ?sd v] assms(1, 6) comps by (simp add: sdk_inv_def sd1_def)
  moreover have "map lp_max (sd_pools ?sd) = map lp_max (sd_pools sd)"
    by (simp add: sd1_def)
  ultimately show ?thesis
    using assms(1-3) limits_cong [of "sd_pools ?sd" "sd_pools sd" "\<lambda>m. MaxInflight_Load m \<le> max_int64"]
    by (auto simp: sdk_inv_def picker_ok_def completion_ok_def sd1_def v_def dest!: set_update_subset_insert [THEN subsetD] split: option.splits)
qed

text \<open>A refused admission leaves the limiter as it was.\<close>

lemma refuse_inv:
  assumes "sdk_inv sd" "valid_ref ref sd"
  shows "sdk_inv (set_limiter_count ref (limiter_count ref sd) sd)" (is "sdk_inv ?sd")
proof (rule grows_inv [OF _ assms(1)])
  show "grows sd ?sd"
    by (simp add: grows_def)
  have "limiter_count r ?sd = limiter_count r sd" "valid_ref r ?sd = valid_ref r sd" for r
    using limiter_count_set [OF assms(2)] valid_ref_cong [of ?sd sd r] by simp_all
  then show "counts_ok ?sd"
    using assms(1) stats_of_cong [of ?sd sd] by (simp add: sdk_inv_def counts_ok_def)
qed

lemma limiter_count_nonneg: "sdk_inv sd \<Longrightarrow> valid_ref ref sd \<Longrightarrow> 0 \<le> limiter_count ref sd"
  by (simp add: sdk_inv_def counts_ok_def)

lemma limiter_max_le:
  assumes "sdk_inv sd" "valid_ref ref sd"
  shows "MaxInflight_Load (limiter_max ref sd) \<le> max_int64"
proof (cases ref)
  case (OwnLimiter n)
  then show ?thesis
    by (simp add: MaxInflight_Load_def NewMaxInflight_def MaxInflight_Set_def normalizeMaxInflight_def
        adaptiveDefaultMaxInflightPerTarget_def max_int64_def)
qed (use assms in \<open>auto simp: sdk_inv_def valid_ref_def\<close>)

lemma sdk_Pick_admits:
  assumes "sdk_inv sd" "k < length (sd_pickers sd)" "int (length (sd_completions sd)) < max_int64"
    and "ap_items (sd_pickers sd ! k) \<noteq> []" "ctx_err = None" "pickItem sd (sd_pickers sd ! k) = (Some i, r)"
    and sd1: "sd1 = update_picker k (\<lambda>p. p\<lparr>ap_random := r\<rparr>) sd"
    and ok1: "item_ok sd1 i"
    and room: "limiter_count (it_limiter i) sd1 < MaxInflight_Load (limiter_max (it_limiter i) sd1)"
  obtains c sd' where "sdk_Pick k ctx_err choice now sd = (Inr (it_subConn i, c), sd')" "sdk_inv sd'"
    "c < length (sd_completions sd')" "cm_item (sd_completions sd' ! c) = Some i"
    "limiter_count (it_limiter i) sd' = limiter_count (it_limiter i) sd1 + 1"
    "length (sd_completions sd') \<le> Suc (length (sd_completions sd))"
proof -
  let ?ref = "it_limiter i"
  let ?n = "limiter_count ?ref sd1"
  let ?slot = "\<lparr>cm_picker = Some k, cm_item = Some i, cm_started = now\<rparr>"
  have inv1: "sdk_inv sd1" and ref: "valid_ref ?ref sd1" and k: "k < length (sd_pickers sd1)"
    using sdk_inv_random [OF assms(1, 2)] ok1 assms(2) by (simp_all add: sd1 item_ok_def)
  note tryacq = TryAcquire_eq [OF limiter_count_nonneg [OF inv1 ref] limiter_max_le [OF inv1 ref]]
  obtain c sd2 where get: "completions_Get k choice sd1 = (c, sd2)"
    by fastforce
  note g = completions_Get_ok [OF inv1 k get]
  have ok2: "item_ok sd2 i"
    using ok1 g item_ok_cong [of sd2 sd1 i] by simp
  have n2: "limiter_count ?ref sd2 = ?n"
    by (rule limiter_count_cong) (use g in simp_all)
  have len: "int (length (sd_completions sd2)) \<le> max_int64" "length (sd_completions sd2) \<le> Suc (length (sd_completions sd))"
    using g assms(3) by (simp_all add: sd1)
  define sd3 where "sd3 = update_stats (it_address i) IncrementInflight (set_limiter_count ?ref (?n + 1) sd2)"
  define sd4 where "sd4 = sd3\<lparr>sd_completions := (sd_completions sd3)[c := ?slot]\<rparr>"
  have "sdk_Pick k ctx_err choice now sd = (Inr (it_subConn i, c), sd4)"
    using assms(4-6) tryacq room get
    by (simp add: sdk_Pick_def sd4_def sd3_def completions_Get_commute Let_def flip: sd1)
  moreover have "sdk_inv sd4"
    unfolding sd4_def sd3_def n2 [symmetric] using g ok2 len k by (intro arm_inv) simp_all
  moreover have "limiter_count ?ref sd4 = ?n + 1"
    using limiter_count_cong [of sd4 "set_limiter_count ?ref (?n + 1) sd2" ?ref] limiter_count_set [of ?ref sd2] ok2
    by (simp add: sd4_def sd3_def item_ok_def)
  moreover have "sd_completions sd4 = (sd_completions sd2)[c := ?slot]"
    by (simp add: sd4_def sd3_def)
  ultimately show thesis
    using g len by (intro that [of c sd4]) simp_all
qed

text \<open>The outcomes of a pick.\<close>

lemma sdk_Pick_cases:
  assumes "sdk_inv sd" "k < length (sd_pickers sd)" "int (length (sd_completions sd)) < max_int64"
  obtains (fails) "isl (fst (sdk_Pick k ctx_err choice now sd))" "sdk_inv (snd (sdk_Pick k ctx_err choice now sd))"
      "length (sd_completions (snd (sdk_Pick k ctx_err choice now sd))) = length (sd_completions sd)"
  | (picked) item c sd' where "sdk_Pick k ctx_err choice now sd = (Inr (it_subConn item, c), sd')"
      "sdk_inv sd'" "item \<in> set (ap_items (sd_pickers sd ! k))" "c < length (sd_completions sd')"
      "cm_item (sd_completions sd' ! c) = Some item"
      "limiter_count (it_limiter item) sd' = limiter_count (it_limiter item) sd + 1"
      "limiter_count (it_limiter item) sd' \<le> MaxInflight_Load (limiter_max (it_limiter item) sd)"
      "length (sd_completions sd') \<le> Suc (length (sd_completions sd))"
proof (cases "ap_items (sd_pickers sd ! k) = [] \<or> ctx_err \<noteq> None")
  case True
  then show thesis
    using assms(1) by (intro fails) (auto simp: sdk_Pick_def split: option.splits)
next
  case False
  obtain item r where pick: "pickItem sd (sd_pickers sd ! k) = (item, r)"
    by fastforce
  define sd1 where "sd1 = update_picker k (\<lambda>p. p\<lparr>ap_random := r\<rparr>) sd"
  have inv1: "sdk_inv sd1"
    unfolding sd1_def using assms(1, 2) by (rule sdk_inv_random)
  show thesis
  proof (cases item)
    case None
    then show thesis
      using False pick inv1 by (intro fails) (auto simp: sdk_Pick_def sd1_def Let_def)
  next
    case (Some i)
    have pk: "picker_ok sd (sd_pickers sd ! k)"
      using assms(1, 2) by (simp add: sdk_inv_def)
    have "i \<in> set (ap_items (sd_pickers sd ! k))"
      using pickItem_in [OF pk] pick Some by simp
    then have i: "i \<in> set (ap_items (sd_pickers sd ! k))" "item_ok sd i"
      using pk by (simp_all add: picker_ok_def)
    let ?ref = "it_limiter i"
    have ok1: "item_ok sd1 i"
      using i(2) item_ok_cong [of sd1 sd i] by (simp add: sd1_def)
    then have ref: "valid_ref ?ref sd1"
      by (simp add: item_ok_def)
    have same: "limiter_count ?ref sd1 = limiter_count ?ref sd" "limiter_max ?ref sd1 = limiter_max ?ref sd"
      by (rule limiter_count_cong limiter_max_cong; simp add: sd1_def)+
    let ?m = "limiter_max ?ref sd1" and ?n = "limiter_count ?ref sd1"
    note tryacq = TryAcquire_eq [OF limiter_count_nonneg [OF inv1 ref] limiter_max_le [OF inv1 ref]]
    show thesis
    proof (cases "?n < MaxInflight_Load ?m")
      case False
      then show thesis
        using \<open>\<not> (_ \<or> _)\<close> pick Some tryacq refuse_inv [OF inv1 ref]
        by (intro fails) (auto simp: sdk_Pick_def sd1_def Let_def)
    next
      case True
      obtain c sd' where "sdk_Pick k ctx_err choice now sd = (Inr (it_subConn i, c), sd')" "sdk_inv sd'"
        "c < length (sd_completions sd')" "cm_item (sd_completions sd' ! c) = Some i" "limiter_count ?ref sd' = ?n + 1"
        "length (sd_completions sd') \<le> Suc (length (sd_completions sd))"
        by (rule sdk_Pick_admits [OF assms _ _ pick [unfolded Some] sd1_def ok1 True]) (use \<open>\<not> (_ \<or> _)\<close> in auto)
      then show thesis
        using i True same by (intro picked [of i c sd']) simp_all
    qed
  qed
qed


section \<open>Completion keeps the invariant\<close>

lemma slots_ok_put:
  assumes "slots_ok sd" "k < length (sd_pickers sd)" "c < length (sd_completions sd)"
    and "\<forall>l < length (sd_pickers sd). c \<notin> set (ap_completions (sd_pickers sd ! l))" "cm_item (sd_completions sd ! c) = None"
  shows "slots_ok (update_picker k (\<lambda>p. p\<lparr>ap_completions := c # ap_completions p\<rparr>) sd)" (is "slots_ok ?sd")
proof -
  have pool: "ap_completions (sd_pickers ?sd ! l) =
      (if l = k then c # ap_completions (sd_pickers sd ! k) else ap_completions (sd_pickers sd ! l))" for l
    using assms(2) by simp
  have len: "length (sd_pickers ?sd) = length (sd_pickers sd)" "sd_completions ?sd = sd_completions sd"
    by simp_all
  show ?thesis
    using assms unfolding slots_ok_def pool len by simp
qed

lemma disarm_inv:
  fixes f :: "adaptiveEndpointStats \<Rightarrow> adaptiveEndpointStats"
  assumes "sdk_inv sd" "c < length (sd_completions sd)" "cm_item (sd_completions sd ! c) = Some item"
    and "\<And>s. es_inflight (f s) = es_inflight s"
  defines "v \<equiv> \<lparr>cm_picker = None, cm_item = None, cm_started = zero_time\<rparr>"
    and "sd1 \<equiv> set_limiter_count (it_limiter item) (Release (limiter_count (it_limiter item) sd))
           (update_stats (it_address item) f (update_stats (it_address item) DecrementInflight sd))"
  shows "sdk_inv (sd1\<lparr>sd_completions := (sd_completions sd1)[c := v]\<rparr>)" (is "sdk_inv ?sd")
proof -
  have dis: "outstanding P (sd_completions sd) = outstanding P ((sd_completions sd)[c := v]) + (if P item then 1 else 0)" for P
    using assms(2, 3) by (rule outstanding_disarm) (simp add: v_def)
  have counts: "counts_ok sd" and item: "item_ok sd item"
    using assms(1-3) by (auto simp: sdk_inv_def completion_ok_def)
  have ref: "valid_ref r ?sd = valid_ref r sd" for r
    by (rule valid_ref_cong) (simp_all add: sd1_def)
  have lim: "valid_ref (it_limiter item) (update_stats (it_address item) f (update_stats (it_address item) DecrementInflight sd))"
    using item valid_ref_cong [of "update_stats (it_address item) f (update_stats (it_address item) DecrementInflight sd)" sd]
    by (simp add: item_ok_def)
  have stats: "es_inflight (stats_of a ?sd) =
      (if a = it_address item then es_inflight (DecrementInflight (stats_of a sd)) else es_inflight (stats_of a sd))" for a
    using stats_of_cong [of ?sd "update_stats (it_address item) f (update_stats (it_address item) DecrementInflight sd)" a] assms(4)
    by (simp add: sd1_def)
  have lims: "limiter_count r ?sd = (if r = it_limiter item then Release (limiter_count r sd) else limiter_count r sd)" for r
    using limiter_count_cong [of ?sd sd1 r] limiter_count_set [OF lim]
      limiter_count_cong [of "update_stats (it_address item) f (update_stats (it_address item) DecrementInflight sd)" sd r]
    by (simp add: sd1_def)
  have comps: "sd_completions ?sd = (sd_completions sd)[c := v]"
    by (simp add: sd1_def)
  have "counts_ok ?sd"
    using counts item unfolding counts_ok_def ref stats lims comps dis
    by (auto simp: DecrementInflight_def Release_def item_ok_def)
  moreover have "item_ok ?sd i = item_ok sd i" for i
    by (simp add: item_ok_def ref)
  moreover have "\<forall>l < length (sd_pickers sd). c \<notin> set (ap_completions (sd_pickers sd ! l))"
    using assms(1, 3) unfolding sdk_inv_def slots_ok_def by (metis option.distinct(1))
  then have "slots_ok ?sd"
    using slots_ok_arm [of sd c ?sd v] assms(1) comps by (simp add: sdk_inv_def sd1_def)
  moreover have "map lp_max (sd_pools ?sd) = map lp_max (sd_pools sd)"
    by (simp add: sd1_def)
  ultimately show ?thesis
    using assms(1) limits_cong [of "sd_pools ?sd" "sd_pools sd" "\<lambda>m. MaxInflight_Load m \<le> max_int64"]
    by (auto simp: sdk_inv_def picker_ok_def completion_ok_def sd1_def v_def dest!: set_update_subset_insert [THEN subsetD])
qed

lemma finish_inv:
  assumes "sdk_inv sd" "c < length (sd_completions sd)"
  shows "sdk_inv (finish c now sd) \<and> length (sd_completions (finish c now sd)) = length (sd_completions sd)"
proof (cases "cm_item (sd_completions sd ! c)")
  case None
  then show ?thesis
    using assms(1) by (simp add: finish_def split: option.splits)
next
  case (Some item)
  have ok: "completion_ok sd (sd_completions sd ! c)"
    using assms by (simp add: sdk_inv_def)
  then obtain k where k: "cm_picker (sd_completions sd ! c) = Some k" "k < length (sd_pickers sd)"
    using Some by (auto simp: completion_ok_def)
  let ?a = "it_address item" and ?ref = "it_limiter item"
  let ?f = "ObserveLatency (time_sub now (cm_started (sd_completions sd ! c)))"
  let ?v = "\<lparr>cm_picker = None, cm_item = None, cm_started = zero_time\<rparr>"
  define sd1 where "sd1 = set_limiter_count ?ref (Release (limiter_count ?ref sd)) (update_stats ?a ?f (update_stats ?a DecrementInflight sd))"
  define sd2 where "sd2 = sd1\<lparr>sd_completions := (sd_completions sd1)[c := ?v]\<rparr>"
  have inv: "sdk_inv sd2"
    unfolding sd2_def sd1_def
    by (rule disarm_inv [OF assms Some]) (simp add: ObserveLatency_def Let_def)
  have "\<forall>l < length (sd_pickers sd). c \<notin> set (ap_completions (sd_pickers sd ! l))"
    using assms(1) Some unfolding sdk_inv_def slots_ok_def by (metis option.distinct(1))
  then have "slots_ok (update_picker k (\<lambda>p. p\<lparr>ap_completions := c # ap_completions p\<rparr>) sd2)"
    using inv k(2) assms(2) by (intro slots_ok_put) (simp_all add: sdk_inv_def sd2_def sd1_def)
  then have "sdk_inv (update_picker k (\<lambda>p. p\<lparr>ap_completions := c # ap_completions p\<rparr>) sd2)"
    using k(2) by (intro sdk_inv_update_picker [OF inv]) (simp_all add: sd2_def sd1_def)
  moreover have "finish c now sd = update_picker k (\<lambda>p. p\<lparr>ap_completions := c # ap_completions p\<rparr>) sd2"
    using k Some by (cases ?ref) (simp_all add: finish_def sd2_def sd1_def Let_def update_stats_def stats_of_def)
  ultimately show ?thesis
    by (simp add: sd2_def sd1_def)
qed


section \<open>Every run\<close>

lemma sdk_inv_pools:
  assumes "sdk_inv sd" "counts_ok (sd\<lparr>sd_pools := ps\<rparr>)" "length (sd_pools sd) \<le> length ps"
    and "\<forall>q\<in>set ps. MaxInflight_Load (lp_max q) \<le> max_int64"
  shows "sdk_inv (sd\<lparr>sd_pools := ps\<rparr>)" (is "sdk_inv ?sd")
proof -
  have item: "item_ok ?sd i" if "item_ok sd i" for i
    using that assms(3) by (auto simp: item_ok_def valid_ref_def split: limiter_ref.splits)
  then show ?thesis
    using assms(1, 2, 4) by (auto simp: sdk_inv_def slots_ok_def picker_ok_def completion_ok_def)
qed

lemma new_limit_le: "limit \<le> max_int64 \<Longrightarrow> MaxInflight_Load (Some (normalizeMaxInflight limit)) \<le> max_int64"
  by (simp add: MaxInflight_Load_def normalizeMaxInflight_def defaultMaxInflightPerEndpoint_def max_int64_def)

lemma new_pool_inv:
  assumes "sdk_inv sd" "limit \<le> max_int64"
  shows "sdk_inv (sd\<lparr>sd_pools := sd_pools sd @ [newAdaptiveLimiterPool limit]\<rparr>)" (is "sdk_inv ?sd")
proof (rule sdk_inv_pools [OF assms(1)])
  have "limiter_count r ?sd = int (outstanding (\<lambda>i. it_limiter i = r) (sd_completions sd))" if "valid_ref r ?sd" for r
  proof (cases "valid_ref r sd")
    case True
    then have "limiter_count r ?sd = limiter_count r sd"
      by (cases r) (auto simp: valid_ref_def nth_append)
    then show ?thesis
      using True assms(1) by (simp add: sdk_inv_def counts_ok_def)
  next
    case False
    then have "limiter_count r ?sd = 0"
      using that by (cases r) (auto simp: valid_ref_def nth_append newAdaptiveLimiterPool_def split: if_splits)
    then show ?thesis
      using outstanding_invalid [OF assms(1) False] by simp
  qed
  then show "counts_ok ?sd"
    using assms(1) stats_of_cong [of ?sd sd] by (simp add: counts_ok_def sdk_inv_def)
  show "\<forall>q\<in>set (sd_pools sd @ [newAdaptiveLimiterPool limit]). MaxInflight_Load (lp_max q) \<le> max_int64"
    using assms new_limit_le [of limit]
    by (auto simp: sdk_inv_def newAdaptiveLimiterPool_def NewMaxInflight_def MaxInflight_Set_def)
qed simp

lemma set_max_inv:
  assumes "sdk_inv sd" "k < length (sd_pools sd)" "limit \<le> max_int64"
  shows "sdk_inv (sd\<lparr>sd_pools := (sd_pools sd)[k := pool_SetMaxInflightPerEndpoint limit (sd_pools sd ! k)]\<rparr>)" (is "sdk_inv ?sd")
proof (rule sdk_inv_pools [OF assms(1)])
  have "limiter_count r ?sd = limiter_count r sd" "valid_ref r ?sd = valid_ref r sd" for r
    using assms(2) by (cases r; auto simp: valid_ref_def nth_list_update pool_SetMaxInflightPerEndpoint_def)+
  then show "counts_ok ?sd"
    using assms(1) stats_of_cong [of ?sd sd] by (simp add: counts_ok_def sdk_inv_def)
  show "\<forall>q\<in>set ((sd_pools sd)[k := pool_SetMaxInflightPerEndpoint limit (sd_pools sd ! k)]). MaxInflight_Load (lp_max q) \<le> max_int64"
    using assms new_limit_le [OF assms(3)]
    by (auto simp: sdk_inv_def pool_SetMaxInflightPerEndpoint_def MaxInflight_Set_def dest!: set_update_subset_insert [THEN subsetD])
qed simp

lemma run_sdk_op_inv:
  assumes "sdk_inv sd" "sdk_op_ok op sd" "int (length (sd_completions sd)) < max_int64"
  shows "sdk_inv (run_sdk_op op sd) \<and> length (sd_completions (run_sdk_op op sd)) \<le> Suc (length (sd_completions sd))"
proof (cases op)
  case (BuildOp seed ready)
  then show ?thesis
    using picker_Build_inv [of sd seed ready] assms(1, 2)
      build_items_ok [of sd seed ready "fst (build_items ready sd)" "snd (build_items ready sd)"]
    by (simp add: picker_Build_def grows_def case_prod_beta Let_def)
next
  case (PickOp k ctx_err choice now)
  then have "k < length (sd_pickers sd)"
    using assms(2) by simp
  then show ?thesis
    by (cases rule: sdk_Pick_cases [OF assms(1) _ assms(3), of k ctx_err choice now]) (simp_all add: PickOp)
next
  case (DoneOp c now)
  then show ?thesis
    using finish_inv [of sd c now] assms by simp
next
  case (NewPoolOp limit)
  then show ?thesis
    using new_pool_inv [OF assms(1)] assms(2) by simp
next
  case (SetMaxOf k limit)
  then show ?thesis
    using set_max_inv [OF assms(1)] assms(2) by simp
qed

lemma sdk_reach_inv:
  assumes "sdk_reach n sd" "int n \<le> max_int64"
  shows "sdk_inv sd \<and> length (sd_completions sd) \<le> n"
  using assms
proof induction
  case start
  show ?case
    by (simp add: sdk_inv_def empty_sdk_def counts_ok_def slots_ok_def stats_of_def zero_stats_def outstanding_def
        valid_ref_def split: limiter_ref.splits)
next
  case (step n sd op)
  then show ?case
    using run_sdk_op_inv [of sd op] by fastforce
qed

text \<open>
  C29: whatever sequence of resolver updates, picks, completions and limit changes, in whatever order and
  across any number of picker generations: the in-flight count of an endpoint is the number of picks of it
  whose completion has not run, and the count of every limiter is the number of such picks that it
  admitted. Nothing leaks and nothing is given back twice.
\<close>

theorem picks_are_returned:
  assumes "sdk_reach n sd" "int n \<le> max_int64"
  shows "(\<forall>a. es_inflight (stats_of a sd) = int (outstanding (\<lambda>i. it_address i = a) (sd_completions sd))) \<and>
    (\<forall>ref. valid_ref ref sd \<longrightarrow>
       limiter_count ref sd = int (outstanding (\<lambda>i. it_limiter i = ref) (sd_completions sd)))"
  using sdk_reach_inv [OF assms] by (simp add: sdk_inv_def counts_ok_def)

text \<open>
  C30: a pick that succeeds returns the connection of a routable item of its picker, arms a completion for
  that item, and was admitted by the item's limiter: the count rises by one and stays within the limit.
\<close>

theorem pick_within_limit:
  assumes "sdk_reach n sd" "int n < max_int64" "k < length (sd_pickers sd)"
    and "sdk_Pick k ctx_err choice now sd = (Inr (sc, c), sd')"
  shows "\<exists>item\<in>set (ap_items (sd_pickers sd ! k)). it_subConn item = sc \<and> Routable (it_status item) \<and>
    c < length (sd_completions sd') \<and> cm_item (sd_completions sd' ! c) = Some item \<and>
    limiter_count (it_limiter item) sd' = limiter_count (it_limiter item) sd + 1 \<and>
    limiter_count (it_limiter item) sd' \<le> MaxInflight_Load (limiter_max (it_limiter item) sd)"
proof -
  have inv: "sdk_inv sd" "int (length (sd_completions sd)) < max_int64"
    using sdk_reach_inv [OF assms(1)] assms(2) by auto
  show ?thesis
  proof (cases rule: sdk_Pick_cases [OF inv(1) assms(3) inv(2), of ctx_err choice now])
    case 1
    then show ?thesis
      using assms(4) by simp
  next
    case (2 item c' sd'')
    moreover have "Routable (it_status item)"
      using inv(1) assms(3) 2 by (auto simp: sdk_inv_def picker_ok_def item_ok_def)
    ultimately show ?thesis
      using assms(4) by auto
  qed
qed

definition example_address :: Address where
  "example_address = \<lparr>ra_Addr = ''10.0.0.1:80'', ra_ServerName = ''a'',
     ra_Attributes = addressAttributesWithLimiterPoolAndEpoch ''a'' ''e1'' Healthy (Fin False 0) (Some 0)\<rparr>"

definition example_item :: "string adaptivePickerItem" where
  "example_item = the (fst (newAdaptivePickerItem ''conn'' example_address
     (run_sdk_op (NewPoolOp 1) empty_sdk)))"

definition example_built :: "string sdk" where
  "example_built = run_sdk_op (BuildOp 7 [(''conn'', example_address)]) (run_sdk_op (NewPoolOp 1) empty_sdk)"

lemmas example_defs = example_address_def empty_sdk_def newAdaptiveLimiterPool_def newAdaptivePickerItem_def
  endpointStatusFromAttributes_def addressAttributesWithLimiterPoolAndEpoch_def limiterPoolFromAttributes_def
  Routable_def Normalized_def pool_limiter_def normalizeAdaptiveLimiterEndpoint_def statsForEndpoint_def

lemma example_item:
  "it_address example_item = ''10.0.0.1:80''" "it_limiter example_item = PoolLimiter 0 ''10.0.0.1:80''"
  "it_subConn example_item = ''conn''" "it_status example_item = Healthy"
  by (simp_all add: example_item_def example_defs Let_def case_prod_beta)

lemma example_built:
  "ap_items (sd_pickers example_built ! 0) = [example_item]"
  "ap_normalIndexes (sd_pickers example_built ! 0) = [0]" "ap_probingIndexes (sd_pickers example_built ! 0) = []"
  "length (sd_pickers example_built) = 1" "sd_completions example_built = []"
  "limiter_count (PoolLimiter 0 ''10.0.0.1:80'') example_built = 0"
  "limiter_max (PoolLimiter 0 ''10.0.0.1:80'') example_built = Some 1"
  by (simp_all add: example_built_def example_item_def picker_Build_def example_defs Let_def case_prod_beta indexes_where_def
      NormalTraffic_def NewMaxInflight_def MaxInflight_Set_def normalizeMaxInflight_def)

lemma example_reach: "sdk_reach 2 example_built"
proof -
  have "sdk_reach (Suc 0) (run_sdk_op (NewPoolOp 1) empty_sdk :: string sdk)"
    by (rule sdk_reach.step [OF sdk_reach.start]) (simp add: max_int64_def)
  then have "sdk_reach (Suc (Suc 0)) example_built"
    unfolding example_built_def by (rule sdk_reach.step) (simp add: example_defs)
  then show ?thesis
    by (simp add: numeral_2_eq_2)
qed

lemma example_pick:
  "\<exists>sd. sdk_Pick 0 None None 5 example_built = (Inr (''conn'', 0), sd) \<and>
     sd_completions sd = [\<lparr>cm_picker = Some 0, cm_item = Some example_item, cm_started = 5\<rparr>]"
  using example_built example_item
  by (simp add: sdk_Pick_def pickItem_def pickCandidateIndexes_def Let_def TryAcquire_def MaxInflight_Load_def
      normalizeMaxInflight_def wrap64_def completions_Get_def limiter_count_cong [of _ example_built]
      limiter_max_cong [of _ example_built])

theorem picks_are_returned_witness:
  "es_inflight (stats_of ''10.0.0.1:80'' (snd (sdk_Pick 0 None None 5 example_built))) = 1"
proof -
  obtain sd where sd: "sdk_Pick 0 None None 5 example_built = (Inr (''conn'', 0), sd)"
    "sd_completions sd = [\<lparr>cm_picker = Some 0, cm_item = Some example_item, cm_started = 5\<rparr>]"
    using example_pick by blast
  then have "sdk_reach (Suc 2) sd"
    using sdk_reach.step [OF example_reach, of "PickOp 0 None None 5"] example_built(4) by simp
  then show ?thesis
    using picks_are_returned [of "Suc 2" sd] sd example_item by (simp add: max_int64_def outstanding_def)
qed

theorem pick_within_limit_witness:
  "\<exists>item :: string adaptivePickerItem. it_subConn item = ''conn'' \<and> Routable (it_status item) \<and>
     limiter_count (it_limiter item) (snd (sdk_Pick 0 None None 5 example_built)) \<le>
       MaxInflight_Load (limiter_max (it_limiter item) example_built)"
proof -
  obtain sd where sd: "sdk_Pick 0 None None 5 example_built = (Inr (''conn'', 0), sd)"
    using example_pick by blast
  have "int 2 < max_int64" "0 < length (sd_pickers example_built)"
    using example_built(4) by (simp_all add: max_int64_def)
  from pick_within_limit [OF example_reach this sd] show ?thesis
    unfolding sd snd_conv by blast
qed


section \<open>The latency average\<close>

lemma round_share_bounds:
  assumes "0 \<le> s" "1 / 5 \<le> w" "w \<le> 1"
  defines "e \<equiv> pow2 (- 53)"
  shows "w * of_int s * (1 - e) ^ 2 \<le> round_mag (round_mag w * of_int s)"
    "round_mag (round_mag w * of_int s) \<le> w * of_int s * (1 + e) ^ 2"
    "s = 0 \<or> 1 / 8 \<le> round_mag (round_mag w * of_int s)"
proof -
  let ?S = "of_int s :: rat"
  have e: "e = 1 / 9007199254740992"
    by (simp add: e_def pow2_def)
  have tiny: "pow2 (- 1022) \<le> 1 / 8"
    using pow2_mono [of "- 1022" "- 3"] by (simp add: pow2_def)
  have w: "w * (1 - e) \<le> round_mag w" "round_mag w \<le> w * (1 + e)"
    using round_mag_rel [of w] tiny assms(2) by (simp_all add: e_def)
  have "1 / 8 < w * (1 - e)"
    using assms(2) by (simp add: e)
  then have w8: "1 / 8 \<le> round_mag w"
    using w(1) by linarith
  have S: "0 \<le> ?S" "s = 0 \<or> 1 \<le> ?S"
    using assms(1) by auto
  have prod: "s = 0 \<or> 1 / 8 * 1 \<le> round_mag w * ?S"
    using S(2) w8 by (metis (no_types) mult_mono zero_le_divide_1_iff zero_le_numeral zero_le_one order_trans)
  then have big: "round_mag w * ?S = 0 \<or> 1 / 8 \<le> round_mag w * ?S"
    by auto
  have R: "round_mag w * ?S * (1 - e) \<le> round_mag (round_mag w * ?S)" "round_mag (round_mag w * ?S) \<le> round_mag w * ?S * (1 + e)"
    unfolding e_def by (rule round_mag_rel; use big tiny in linarith)+
  have "w * (1 - e) * ?S * (1 - e) \<le> round_mag w * ?S * (1 - e)"
    using w(1) S(1) by (intro mult_right_mono) (simp_all add: e)
  then show "w * ?S * (1 - e) ^ 2 \<le> round_mag (round_mag w * ?S)"
    using R(1) by (simp add: power2_eq_square mult_ac)
  have "round_mag w * ?S * (1 + e) \<le> w * (1 + e) * ?S * (1 + e)"
    using w(2) S(1) by (intro mult_right_mono) (simp_all add: e)
  then show "round_mag (round_mag w * ?S) \<le> w * ?S * (1 + e) ^ 2"
    using R(2) by (simp add: power2_eq_square mult_ac)
  have "round_mag (1 / 8) = 1 / 8"
    using round_mag_pow2 [of "- 3"] by (simp add: pow2_def)
  then show "s = 0 \<or> 1 / 8 \<le> round_mag (round_mag w * ?S)"
    using round_mag_mono [of "1 / 8" "round_mag w * ?S"] prod by auto
qed

lemma ewma_sum_bounds:
  assumes "0 \<le> s" "0 \<le> t" "s < 2 ^ 50" "t < 2 ^ 50"
  defines "a \<equiv> round_mag (round_mag (1 / 5) * of_int s)" and "b \<equiv> round_mag (round_mag (4 / 5) * of_int t)"
  shows "of_int (min s t) - 1 < round_mag (a + b)" "round_mag (a + b) < of_int (max s t) + 1"
proof -
  define e where "e = pow2 (- 53)"
  have e: "e = 1 / 9007199254740992"
    by (simp add: e_def pow2_def)
  note A = round_share_bounds [OF assms(1), of "1 / 5", folded a_def e_def, simplified]
  note B = round_share_bounds [OF assms(2), of "4 / 5", folded b_def e_def, simplified]
  have "a + b = 0 \<or> 1 / 8 \<le> a + b"
    using A(3) B(3) by (auto simp: a_def b_def intro: add_increasing add_increasing2)
  moreover have "pow2 (- 1022) \<le> 1 / 8"
    using pow2_mono [of "- 1022" "- 3"] by (simp add: pow2_def)
  ultimately have "a + b = 0 \<or> pow2 (- 1022) \<le> a + b"
    by linarith
  note R = round_mag_rel [OF this, folded e_def]
  define m M :: rat where "m = of_int (min s t)" and "M = of_int (max s t)"
  have mM: "m \<le> of_int s" "m \<le> of_int t" "of_int s \<le> M" "of_int t \<le> M" "0 \<le> m" "M < 1125899906842624"
    using assms(1-4) by (auto simp: m_def M_def)
  have "m * (1 - e) ^ 2 \<le> of_int s * (1 - e) ^ 2" "m * (1 - e) ^ 2 \<le> of_int t * (1 - e) ^ 2"
    using mM by (intro mult_right_mono; simp)+
  then have "m * (1 - e) ^ 2 \<le> a + b"
    using A(1) B(1) by linarith
  then have "m * (1 - e) ^ 2 * (1 - e) \<le> (a + b) * (1 - e)"
    by (rule mult_right_mono) (simp add: e)
  moreover have "m - 1 < m * (1 - e) ^ 2 * (1 - e)"
    using mM by (simp add: e power2_eq_square)
  ultimately show "of_int (min s t) - 1 < round_mag (a + b)"
    using R(1) unfolding m_def by linarith
  have "of_int s * (1 + e) ^ 2 \<le> M * (1 + e) ^ 2" "of_int t * (1 + e) ^ 2 \<le> M * (1 + e) ^ 2"
    using mM by (intro mult_right_mono; simp)+
  then have "a + b \<le> M * (1 + e) ^ 2"
    using A(2) B(2) by linarith
  then have "(a + b) * (1 + e) \<le> M * (1 + e) ^ 2 * (1 + e)"
    by (rule mult_right_mono) (simp add: e)
  moreover have "M * (1 + e) ^ 2 * (1 + e) < M + 1"
    using mM by (simp add: e power2_eq_square)
  ultimately show "round_mag (a + b) < of_int (max s t) + 1"
    using R(2) unfolding M_def by linarith
qed

lemma fmul_share:
  assumes "0 \<le> w" "w \<le> 1" "0 \<le> s" "s < 2 ^ 50"
  shows "fmul (of_rat64 w) (of_int64 s) = Fin False (round_mag (round_mag w * of_int s))"
    "round_mag (round_mag w * of_int s) \<le> pow2 50"
proof -
  have w: "round_mag w \<le> 1"
    using round_mag_mono [OF assms(2)] round_mag_pow2 [of 0] by (simp add: pow2_def)
  have "of_rat64 w = Fin False (round_mag w)"
    using assms(1, 2) fround_finite [of w 0 False] by (simp add: of_rat64_def pow2_def)
  moreover have "of_int64 s = Fin False (of_int s)"
    using assms(3, 4) by (simp add: of_int64_exact)
  moreover have "round_mag w * of_int s \<le> 1 * pow2 50"
    using w assms(3, 4) by (intro mult_mono) (auto simp: pow2_def)
  ultimately show "fmul (of_rat64 w) (of_int64 s) = Fin False (round_mag (round_mag w * of_int s))"
    "round_mag (round_mag w * of_int s) \<le> pow2 50"
    using fround_finite [of "round_mag w * of_int s" 50 False] round_mag_mono [of "round_mag w * of_int s" "pow2 50"]
      round_mag_pow2 [of 50] by simp_all
qed

text \<open>
  One step of the latency average stays between the sample and the old value, up to one
  nanosecond of truncation below, for latencies of less than thirteen days (\<open>2 ^ 50\<close> nanoseconds), in
  spite of the rounding of the weights, of the products and of the sum.
\<close>

theorem ewma_stays_between:
  assumes "0 \<le> sample" "0 \<le> old" "sample < 2 ^ 50" "old < 2 ^ 50"
  shows "min sample old - 1 \<le> ewma_update sample old \<and> ewma_update sample old \<le> max sample old"
proof -
  define a where "a = round_mag (round_mag (1 / 5) * of_int sample)"
  define b where "b = round_mag (round_mag (4 / 5) * of_int old)"
  note R = ewma_sum_bounds [OF assms, folded a_def b_def]
  have share: "fmul (of_rat64 (2 / 10)) (of_int64 sample) = Fin False a" "a \<le> pow2 50"
    "fmul (of_rat64 (8 / 10)) (of_int64 old) = Fin False b" "b \<le> pow2 50"
    using fmul_share [of "1 / 5" sample] fmul_share [of "4 / 5" old] assms by (simp_all add: a_def b_def)
  have "a + b \<le> pow2 51" "0 \<le> a + b"
    using share by (simp_all add: pow2_def a_def b_def)
  then have "fround False (a + b) = Fin False (round_mag (a + b))" "\<lfloor>round_mag (a + b)\<rfloor> \<le> 2251799813685248"
    using fround_finite [of "a + b" 51 False] round_mag_mono [of "a + b" "pow2 51"] round_mag_pow2 [of 51]
    by (simp_all add: pow2_def floor_le_iff)
  moreover have "- 9223372036854775808 \<le> round_mag (a + b)"
    using round_mag_nonneg [of "a + b"] by linarith
  ultimately have "ewma_update sample old = \<lfloor>round_mag (a + b)\<rfloor>"
    using share(1, 3) \<open>0 \<le> a + b\<close> by (auto simp: ewma_update_def to_int64_def Let_def)
  then show ?thesis
    using R by linarith
qed

theorem ewma_stays_between_witness:
  "99 \<le> ewma_update 200 100 \<and> ewma_update 200 100 \<le> 200"
  using ewma_stays_between [of 200 100] by simp

end
