(* ===== verification/Sdk_Discovery.thy ===== *)
theory Sdk_Discovery
  imports Sdk_Balancer
begin

text \<open>
  Resolver and balancer together: what a response of the controller makes of the picker, and of the
  identities under which telemetry reports the picked addresses.
\<close>

text \<open>The instances of a response that the resolver passes on.\<close>

definition usable_instances :: "ServiceInstance option list \<Rightarrow> ServiceInstance list" where
  "usable_instances insts =
     filter (\<lambda>i. si_Address i \<noteq> '''' \<and> Routable (Parse (si_Status i))) (map the (filter (\<lambda>i. i \<noteq> None) insts))"

lemma Routable_Normalized [simp]: "Routable (Normalized c) = Routable c"
  by (simp add: Routable_def Normalized_def)

lemma newAdaptivePickerItem_resolved:
  assumes "Routable (endpointStatusFromAttributes (ra_Attributes a))"
  shows "\<exists>item. fst (newAdaptivePickerItem sc a sd) = Some item \<and> it_address item = ra_Addr a \<and>
    it_status item = Normalized (endpointStatusFromAttributes (ra_Attributes a)) \<and> it_subConn item = sc"
  using assms by (simp add: newAdaptivePickerItem_def Let_def case_prod_beta)

text \<open>The address under which the resolver passes an instance on.\<close>

definition resolved_address :: "nat option \<Rightarrow> ServiceInstance \<Rightarrow> Address" where
  "resolved_address pool i = \<lparr>ra_Addr = si_Address i, ra_ServerName = si_Id i,
     ra_Attributes = addressAttributesWithLimiterPoolAndEpoch (si_Id i) (si_RegistrationEpoch i) (Parse (si_Status i)) (si_SlowScore i) pool\<rparr>"

lemma addresses_resolved:
  "fst (instancesToAddressesWithLimiterPool insts pool ids) = map (resolved_address pool) (usable_instances insts)"
  by (induction insts pool ids rule: instancesToAddressesWithLimiterPool.induct)
    (auto simp: usable_instances_def resolved_address_def Let_def case_prod_beta)

definition item_for :: "'sc \<Rightarrow> ServiceInstance \<Rightarrow> 'sc adaptivePickerItem \<Rightarrow> bool" where
  "item_for sc i item \<longleftrightarrow> it_subConn item = sc \<and> it_address item = si_Address i \<and> it_status item = Normalized (Parse (si_Status i))"

lemma item_resolved:
  assumes "i \<in> set (usable_instances insts)"
  shows "\<exists>item. fst (newAdaptivePickerItem sc (resolved_address pool i) sd) = Some item \<and> item_for sc i item"
proof -
  have "Routable (Parse (si_Status i))"
    using assms by (simp add: usable_instances_def)
  moreover have "endpointStatusFromAttributes (ra_Attributes (resolved_address pool i)) = Parse (si_Status i)"
    "ra_Addr (resolved_address pool i) = si_Address i"
    by (simp_all add: resolved_address_def endpointStatusFromAttributes_def addressAttributesWithLimiterPoolAndEpoch_def)
  ultimately show ?thesis
    using newAdaptivePickerItem_resolved [of "resolved_address pool i" sc sd] unfolding item_for_def by metis
qed

lemma build_items_resolved:
  assumes "snd ` set ready \<subseteq> resolved_address pool ` set (usable_instances insts)"
  shows "list_all2 (\<lambda>(sc, a) item. \<exists>i\<in>set (usable_instances insts). a = resolved_address pool i \<and> item_for sc i item)
    ready (fst (build_items ready sd))"
  using assms
proof (induction ready sd rule: build_items.induct)
  case (2 sc a ready sd)
  then obtain i where i: "i \<in> set (usable_instances insts)" "a = resolved_address pool i"
    by auto
  obtain item where "fst (newAdaptivePickerItem sc a sd) = Some item" "item_for sc i item"
    using item_resolved [OF i(1), of sc pool sd] unfolding i(2) by blast
  then show ?case
    using 2(1) [OF prod.collapse] 2(2) i by (auto simp: Let_def case_prod_beta)
qed simp

lemma remember_lookup:
  "endpointIDForAddress (rememberEndpointIdentity a n e ids) b =
     (if b = a \<and> a \<noteq> '''' then n else endpointIDForAddress ids b)"
  by (auto simp: rememberEndpointIdentity_def endpointIDForAddress_def endpointIdentityForAddress_def
      update_conv' delete_conv')

lemma resolved_identity:
  "endpointIDForAddress (snd (instancesToAddressesWithLimiterPool insts pool ids)) b =
     fold (\<lambda>i n. if si_Address i = b then si_Id i else n) (usable_instances insts) (endpointIDForAddress ids b)"
proof (induction insts pool ids rule: instancesToAddressesWithLimiterPool.induct)
  case (3 inst insts pool ids)
  then show ?case
    by (auto simp: usable_instances_def Let_def case_prod_beta remember_lookup)
qed (simp_all add: usable_instances_def)

lemma fold_id:
  "fold (\<lambda>i n. if si_Address i = b then si_Id i else n) xs n =
     (if filter (\<lambda>i. si_Address i = b) xs = [] then n else si_Id (last (filter (\<lambda>i. si_Address i = b) xs)))"
  by (induction xs arbitrary: n) auto

text \<open>
  C31: what a response of the controller makes of the next picker. Whichever of the addresses of the
  response have a READY connection, and in whatever order gRPC hands these over, the picker has one item
  for each of them and no other: on its connection, under the address and the status that an instance of the
  response has, one with an address and a routable status. Telemetry reports each of these addresses under
  the id of the last instance in the response that has it, which is the only one unless instances share an
  address.
\<close>

theorem response_becomes_picker:
  assumes "instancesToAddressesWithLimiterPool insts (Some pool) ids = (addresses, ids')"
    and "snd ` set ready \<subseteq> set addresses" "next_picker = last (sd_pickers (picker_Build seed ready sd))"
  shows "list_all2 (\<lambda>(sc, a) item. \<exists>i\<in>set (usable_instances insts).
        ra_Addr a = si_Address i \<and> ra_ServerName a = si_Id i \<and> item_for sc i item) ready (ap_items next_picker) \<and>
    (\<forall>i\<in>set (usable_instances insts). endpointIDForAddress ids' (si_Address i) =
       si_Id (last (filter (\<lambda>j. si_Address j = si_Address i) (usable_instances insts))))"
proof
  have "addresses = map (resolved_address (Some pool)) (usable_instances insts)"
    using addresses_resolved [of insts "Some pool" ids] assms(1) by simp
  then have "list_all2 (\<lambda>(sc, a) item. \<exists>i\<in>set (usable_instances insts). a = resolved_address (Some pool) i \<and> item_for sc i item)
      ready (fst (build_items ready sd))"
    using assms(2) by (intro build_items_resolved) simp
  then show "list_all2 (\<lambda>(sc, a) item. \<exists>i\<in>set (usable_instances insts).
      ra_Addr a = si_Address i \<and> ra_ServerName a = si_Id i \<and> item_for sc i item) ready (ap_items next_picker)"
    unfolding assms(3) picker_Build_def
    by (auto simp: case_prod_beta resolved_address_def elim!: list_all2_mono)
  show "\<forall>i\<in>set (usable_instances insts). endpointIDForAddress ids' (si_Address i) =
      si_Id (last (filter (\<lambda>j. si_Address j = si_Address i) (usable_instances insts)))"
    using resolved_identity [of insts "Some pool" ids] assms(1) by (auto simp: fold_id filter_empty_conv)
qed

text \<open>Of three instances one is ejected and one not connected.\<close>

definition demo_response :: "ServiceInstance option list" where
  "demo_response = [Some \<lparr>si_Id = ''a'', si_Address = ''10.0.0.1:80'', si_Status = ''DEGRADED'', si_SlowScore = Fin False 1,
        si_RegistrationEpoch = ''e''\<rparr>, None,
      Some \<lparr>si_Id = ''b'', si_Address = ''10.0.0.2:80'', si_Status = ''EJECTED'', si_SlowScore = Fin False 1,
        si_RegistrationEpoch = ''e''\<rparr>,
      Some \<lparr>si_Id = ''c'', si_Address = ''10.0.0.3:80'', si_Status = ''HEALTHY'', si_SlowScore = Fin False 0,
        si_RegistrationEpoch = ''e''\<rparr>]"

lemma demo_usable: "map si_Id (usable_instances demo_response) = [''a'', ''c'']"
  "map si_Address (usable_instances demo_response) = [''10.0.0.1:80'', ''10.0.0.3:80'']"
  by (simp_all add: usable_instances_def demo_response_def Routable_def Normalized_def Parse_def)

theorem response_becomes_picker_witness:
  "map it_address (ap_items (last (sd_pickers (picker_Build 1
     [(5 :: nat, hd (fst (instancesToAddressesWithLimiterPool demo_response (Some 0) [])))] empty_sdk)))) = [''10.0.0.1:80'']"
proof -
  obtain as ids where a: "instancesToAddressesWithLimiterPool demo_response (Some 0) [] = (as, ids)"
    by fastforce
  have as: "as = map (resolved_address (Some 0)) (usable_instances demo_response)"
    using addresses_resolved [of demo_response "Some 0" "[]"] a by simp
  obtain u us where u: "usable_instances demo_response = u # us" "si_Address u = ''10.0.0.1:80''"
    using demo_usable(2) by (cases "usable_instances demo_response") simp_all
  then have hd: "ra_Addr (hd as) = ''10.0.0.1:80''"
    by (simp add: as resolved_address_def)
  have "snd ` set [(5 :: nat, hd as)] \<subseteq> set as"
    by (simp add: as u(1))
  from response_becomes_picker [OF a this refl, of 1 empty_sdk] show ?thesis
    using hd a by (auto simp: list_all2_Cons1 item_for_def)
qed

end
