(* ===== verification/Health_Detection.thy ===== *)
theory Health_Detection
  imports Health_Manager
begin

text \<open>
  What the score and the state machine detect together: the reach of relative scoring in services of at
  most two instances, with the default weights and thresholds and no latency objective.
\<close>

section \<open>The scores of few instances\<close>

definition low_scores :: "scores \<Rightarrow> bool" where
  "low_scores scores \<longleftrightarrow> list_all (\<lambda>(key, sc). flt (sc_Score sc) (of_rat64 (3 / 2))) scores"

lemma low_scores_update: "low_scores out \<Longrightarrow> flt (sc_Score sc) (of_rat64 (3 / 2)) \<Longrightarrow> low_scores (AList.update k sc out)"
  unfolding low_scores_def by (induction out) auto

lemma calculateService_low:
  assumes "low_scores out" "length ss \<le> 2" "list_all within_capacity ss"
    and "cal_weights c = DefaultScoreWeights" "cal_latencySLO c \<le> 0"
  shows "low_scores (calculateService c service ss out)"
proof -
  have "low_scores (fold (\<lambda>s. AList.update (ScoreKey service (sp_InstanceID s)) (score_sample c service (service_baseline ss) s)) ts out)"
    if "set ts \<subseteq> set ss" for ts
    using that assms(1) score_of_few [OF assms(2, 3) _ assms(4, 5)] by (induction ts arbitrary: out) (auto intro!: low_scores_update)
  then show ?thesis
    by (simp add: calculateService_def Let_def)
qed

text \<open>At most two instances of each service report, each within its capacity over all its methods.\<close>

definition few_instances :: "EndpointSample list \<Rightarrow> bool" where
  "few_instances samples \<longleftrightarrow>
     list_all (\<lambda>(service, insts). length insts \<le> 2 \<and> list_all within_capacity (map snd insts))
       (fold group_sample (filter usable_sample samples) [])"

lemma Calculate_low:
  assumes "few_instances samples" "\<forall>xs. mset (ps xs) = mset xs" "\<forall>xs. mset (p xs) = mset xs"
    and "cal_weights c = DefaultScoreWeights" "cal_latencySLO c \<le> 0"
  shows "low_scores (Calculate ps p c samples)"
proof -
  let ?g = "fold group_sample (filter usable_sample samples) []"
  have step: "low_scores (calculateService c service (p (map snd insts)) out)"
    if "low_scores out" "length insts \<le> 2 \<and> list_all within_capacity (map snd insts)" for service insts out
  proof (rule calculateService_low [OF that(1) _ _ assms(4, 5)])
    have "mset (p (map snd insts)) = mset (map snd insts)"
      using assms(3) by blast
    then show "length (p (map snd insts)) \<le> 2" "list_all within_capacity (p (map snd insts))"
      using that(2) mset_eq_length mset_eq_setD by (metis length_map, metis list_all_iff)
  qed
  have "set (ps ?g) = set ?g"
    using assms(2) mset_eq_setD by blast
  then have few: "list_all (\<lambda>(service, insts). length insts \<le> 2 \<and> list_all within_capacity (map snd insts)) (ps ?g)"
    using assms(1) by (simp add: few_instances_def list_all_iff)
  have scored: "low_scores (fold (\<lambda>(service, insts). calculateService c service (p (map snd insts))) gs out)"
    if "list_all (\<lambda>(service, insts). length insts \<le> 2 \<and> list_all within_capacity (map snd insts)) gs" "low_scores out" for gs out
    using that by (induction gs arbitrary: out) (auto simp: step)
  show ?thesis
    using scored [OF few, of "[]"] by (simp add: Calculate_def Let_def) (simp add: low_scores_def)
qed


section \<open>The machine below the threshold\<close>

definition calm :: "EndpointHealth \<Rightarrow> bool" where
  "calm h \<longleftrightarrow> eh_State h = Healthy \<and> eh_ConsecutiveSlowWindows h = 0 \<and> eh_ConsecutiveEjectWindows h = 0 \<and>
     flt (eh_SlowScore h) (of_rat64 (3 / 2))"

lemma Apply_calm:
  assumes "calm h" "flt (in_SlowScore i) (of_rat64 (3 / 2))"
  shows "calm (Apply default_machine clock h i)"
proof -
  have three: "of_rat64 (3 / 2) = Fin False (3 / 2)"
    by (rule of_rat64_exact [of _ 3 "- 1"]) (simp_all add: pow2_def)
  have "\<not> fle (Fin False (3 / 2)) (in_SlowScore i)" "\<not> fle (Fin False (5 / 2)) (in_SlowScore i)"
    using assms(2) unfolding three by (cases "in_SlowScore i"; auto simp: fle_def split: if_splits)+
  then show ?thesis
    using assms by (simp add: calm_def Apply_def Let_def count_window_def default_machine_fields)
qed

section \<open>Runs of small services\<close>

text \<open>
  Updates with samples of services with at most two instances, whatever their latencies, errors and
  network events, and ticks.
\<close>

fun few_op :: "hm_op \<Rightarrow> bool" where
  "few_op (UpdateOp ps p now clock samples) \<longleftrightarrow>
     (\<forall>xs. mset (ps xs) = mset xs) \<and> (\<forall>xs. mset (p xs) = mset xs) \<and> few_instances samples"
| "few_op (TickOp now clock) \<longleftrightarrow> True"
| "few_op _ \<longleftrightarrow> False"

definition calm_manager :: "HealthManager \<Rightarrow> bool" where
  "calm_manager m \<longleftrightarrow> cal_weights (hm_calculator m) = DefaultScoreWeights \<and> cal_latencySLO (hm_calculator m) = 0 \<and>
     hm_baseStateMachine m = defaultStateMachineConfig zero_config \<and> hm_serviceStateMachines m = [] \<and>
     list_all (\<lambda>e. calm (snd e)) (hm_health m)"

lemma calm_machine: "calm_manager m \<Longrightarrow> stateMachineForLocked m s = default_machine"
  by (simp add: calm_manager_def stateMachineForLocked_def stateMachineConfigLocked_def default_machine_def)

lemma calm_bump [simp]: "calm_manager (bumpIfChangedLocked cs m) = calm_manager m"
  by (simp add: calm_manager_def bumpIfChangedLocked_def Let_def)

lemma calm_health:
  "calm_manager m \<Longrightarrow> list_all (\<lambda>e. calm (snd e)) h \<Longrightarrow> calm_manager (m\<lparr>hm_health := h\<rparr>)"
  by (simp add: calm_manager_def)

lemma calm_new: "calm (NewEndpointHealth s i a e)"
proof -
  have "of_rat64 (3 / 2) = Fin False (3 / 2)"
    by (rule of_rat64_exact [of _ 3 "- 1"]) (simp_all add: pow2_def)
  then show ?thesis
    by (simp add: calm_def NewEndpointHealth_def)
qed

lemma calm_fields [simp]:
  "calm (h\<lparr>eh_Address := a\<rparr>) = calm h" "calm (h\<lparr>eh_RegistrationEpoch := e\<rparr>) = calm h"
  "calm (h\<lparr>eh_UpdatedAt := t\<rparr>) = calm h"
  by (simp_all add: calm_def)

lemma sampled_calm:
  assumes "case before of Some b \<Rightarrow> calm b | None \<Rightarrow> True" "\<And>x. machine x = default_machine" "low_scores scores"
  shows "calm (sampled_health now clock machine scores s before)"
proof -
  define h0 where "h0 = (case before of
      None \<Rightarrow> NewEndpointHealth (sp_Service s) (sp_InstanceID s) (sp_Address s) [sp_RegistrationEpoch s]
    | Some b \<Rightarrow> if eh_Service b = '''' \<or> endpointAddressChanged b (sp_Address s) \<or>
                    endpointRegistrationEpochChanged b (sp_RegistrationEpoch s)
                 then NewEndpointHealth (sp_Service s) (sp_InstanceID s) (sp_Address s) [sp_RegistrationEpoch s] else b)"
  have "calm h0"
    using assms(1) calm_new by (cases before) (simp_all add: h0_def)
  moreover have "flt fzero (of_rat64 (3 / 2))"
    using calm_new by (simp add: calm_def NewEndpointHealth_def)
  then have "flt (case map_of scores k of Some sc \<Rightarrow> sc_Score sc | None \<Rightarrow> fzero) (of_rat64 (3 / 2))" for k
    using assms(3) by (cases "map_of scores k") (auto simp: low_scores_def list_all_iff dest!: map_of_SomeD)
  ultimately show ?thesis
    unfolding sampled_health_def Let_def assms(2) h0_def [symmetric] by (intro Apply_calm) simp_all
qed

lemma update_sample_calm:
  assumes "list_all (\<lambda>e. calm (snd e)) (fst acc)" "\<And>x. machine x = default_machine" "low_scores scores"
  shows "list_all (\<lambda>e. calm (snd e)) (fst (update_sample now clock machine scores s acc))"
proof -
  obtain h cs where acc: "acc = (h, cs)"
    by fastforce
  have upd: "list_all (\<lambda>e. calm (snd e)) (AList.update k v h)" if "calm v" for k v
    using assms(1) that unfolding acc by (induction h) auto
  have "case map_of h k of Some b \<Rightarrow> calm b | None \<Rightarrow> True" for k
    using assms(1) by (cases "map_of h k") (auto simp: acc list_all_iff dest!: map_of_SomeD)
  then show ?thesis
    using sampled_calm [OF _ assms(2, 3)] assms(1) upd by (simp add: acc update_sample_def Let_def)
qed

lemma few_op_calm:
  assumes "calm_manager m" "few_op op"
  shows "calm_manager (run_hm_op op m)"
proof (cases op)
  case (UpdateOp ps p now clock samples)
  have cal: "cal_weights (hm_calculator m) = DefaultScoreWeights" "cal_latencySLO (hm_calculator m) \<le> 0"
    and h: "list_all (\<lambda>e. calm (snd e)) (hm_health m)"
    using assms(1) by (simp_all add: calm_manager_def)
  have low: "low_scores (Calculate ps p (hm_calculator m) samples)"
    using assms(2) UpdateOp by (intro Calculate_low cal) simp_all
  have "list_all (\<lambda>e. calm (snd e)) (fst (fold (update_sample now clock (stateMachineForLocked m)
      (Calculate ps p (hm_calculator m) samples)) ts (hm_health m, [])))" for ts
    using h calm_machine [OF assms(1)] low by (induction ts rule: rev_induct) (simp_all add: update_sample_calm)
  then show ?thesis
    using UpdateOp calm_health [OF assms(1)] by (simp add: Update_def Let_def case_prod_beta)
next
  case (TickOp now clock)
  have "calm (tick_entry now clock (stateMachineForLocked m) h)" if "calm h" for h
    unfolding tick_entry_def calm_machine [OF assms(1)] using that by (intro Apply_calm) (simp_all add: calm_def)
  then show ?thesis
    using TickOp assms(1) by (simp add: Tick_def Let_def) (rule calm_health, auto simp: list_all_iff calm_manager_def)
qed (use assms in simp_all)

text \<open>
  C35: relative scoring cannot see a bad instance among two. With the default weights and thresholds and no
  latency objective, the endpoints of services with at most two reporting instances stay HEALTHY through
  every sequence of updates and ticks, whatever the latencies, the failures and the network events of either
  instance, even if every request to one of them fails, as long as no instance has more calls in
  flight than its capacity: the deviation from the median is never more than the median deviation, and no
  rate more than twice the mean.
\<close>

theorem pair_never_degrades:
  assumes "list_all few_op ops" "weights_unset weights"
  shows "list_all (\<lambda>h. eh_State h = Healthy) (listLocked s (fold run_hm_op ops (NewHealthManager weights 0 zero_config [])))"
proof -
  have "calm_manager (NewHealthManager weights 0 zero_config [])"
    using assms(2) by (simp add: calm_manager_def NewHealthManager_def NewScoreCalculatorWithConfig_def cloneStateMachineConfigs_def Let_def)
  then have "calm_manager (fold run_hm_op ops (NewHealthManager weights 0 zero_config []))"
    using assms(1) by (induction ops rule: rev_induct) (auto simp: few_op_calm)
  then show ?thesis
    by (auto simp: calm_manager_def calm_def listLocked_def list_all_iff)
qed

definition demo_sample :: "string \<Rightarrow> int \<Rightarrow> duration \<Rightarrow> int \<Rightarrow> EndpointSample" where
  "demo_sample i errors p95 retransmits = \<lparr>sp_Service = ''svc'', sp_InstanceID = i, sp_Address = '''', sp_RegistrationEpoch = '''',
     sp_Method = ''/m'', sp_RequestCount = 100, sp_ErrorCount = errors, sp_TimeoutCount = 0, sp_Inflight = 90, sp_Capacity = 100,
     sp_LatencyEWMA = p95, sp_LatencyP95 = p95, sp_TCPRetransmit = retransmits, sp_ConnectError = 0\<rparr>"

theorem pair_never_degrades_witness:
  "list_all (\<lambda>h. eh_State h = Healthy) (listLocked ''svc''
     (fold run_hm_op
       (replicate 10 (UpdateOp (\<lambda>x. x) (\<lambda>x. x) 9 9 [demo_sample ''good'' 0 1000000 0, demo_sample ''bad'' 100 60000000000 500]) @ [TickOp 10 10])
       (NewHealthManager \<lparr>sw_LatencyWeight = fzero, sw_ErrorWeight = fzero, sw_InflightWeight = fzero, sw_RetransmitWeight = fzero\<rparr>
          0 zero_config [])))"
  by (rule pair_never_degrades)
    (simp_all add: list_all_iff few_instances_def group_sample_def aggregateEndpointSample_def demo_sample_def usable_sample_def
      within_capacity_def capacity_def max_int64_def weights_unset_def)

end
