(* ===== verification/Watch_Protocol.thy ===== *)
theory Watch_Protocol
  imports Prelude
begin

text \<open>
  What the watches of the health manager and of the registry have in common: a goroutine that reads a
  versioned source, sends what is newer through a channel of one element in which it replaces what the
  reader has not taken yet, and otherwise waits for the source to change. The source is a parameter; its
  contract is the locale \<open>versioned_source\<close>: whatever changes the value that a read gives
  replaces the notification channel. Every step is one access to shared state: a read under the lock of the source, or one
  \<open>select\<close>.
\<close>

section \<open>States\<close>

text \<open>
  Where the goroutine stands: at the top of its loop; before a sweep of the source and before the
  read of the source, where these are other places, with the time read on the way; in the \<open>select\<close> statements of the function that sends, with the value to send (the first,
  which only looks at the context, included); waiting on a notification channel, with the time at which
  its timer fires, if it has one; or returned, with the channel closed.
\<close>

datatype 'v watch_pc =
    Loading | Sweeping gotime | Reading gotime | Checking 'v | Offering 'v | Draining 'v | Resending 'v | Waiting nat "gotime option" | Returned

record ('m, 'v) watch_state =
  ws_source :: 'm
  ws_pc :: "'v watch_pc"
  ws_last :: int
  ws_updates :: "'v option"
  ws_done :: bool
  ws_received :: "'v list"

definition start_watch :: "int \<Rightarrow> 'm \<Rightarrow> ('m, 'v) watch_state" where
  "start_watch afterVersion m = \<lparr>ws_source = m, ws_pc = Loading, ws_last = afterVersion, ws_updates = None,
     ws_done = False, ws_received = []\<rparr>"

inductive send_step :: "('m, 'v) watch_state \<Rightarrow> ('m, 'v) watch_state \<Rightarrow> bool" where
  check: "ws_pc s = Checking v \<Longrightarrow> \<not> ws_done s \<Longrightarrow> send_step s (s\<lparr>ws_pc := Offering v\<rparr>)"
| offer: "ws_pc s = Offering v \<Longrightarrow> ws_updates s = None \<Longrightarrow> send_step s (s\<lparr>ws_updates := Some v, ws_pc := Loading\<rparr>)"
| full: "ws_pc s = Offering v \<Longrightarrow> ws_updates s \<noteq> None \<Longrightarrow> \<not> ws_done s \<Longrightarrow> send_step s (s\<lparr>ws_pc := Draining v\<rparr>)"
| drain: "ws_pc s = Draining v \<Longrightarrow> ws_updates s \<noteq> None \<Longrightarrow> send_step s (s\<lparr>ws_updates := None, ws_pc := Resending v\<rparr>)"
| resend: "ws_pc s = Resending v \<Longrightarrow> ws_updates s = None \<Longrightarrow> send_step s (s\<lparr>ws_updates := Some v, ws_pc := Loading\<rparr>)"
| stop: "ws_pc s \<in> {Checking v, Offering v, Draining v, Resending v} \<Longrightarrow> ws_done s \<Longrightarrow> send_step s (s\<lparr>ws_pc := Returned\<rparr>)"

text \<open>The other parties: the reader, and what changes the source.\<close>

inductive env_step :: "('m \<Rightarrow> 'm \<Rightarrow> bool) \<Rightarrow> ('m, 'v) watch_state \<Rightarrow> ('m, 'v) watch_state \<Rightarrow> bool" for change where
  receive: "ws_updates s = Some v \<Longrightarrow> env_step change s (s\<lparr>ws_updates := None, ws_received := ws_received s @ [v]\<rparr>)"
| operate: "change (ws_source s) m \<Longrightarrow> env_step change s (s\<lparr>ws_source := m\<rparr>)"


section \<open>Order\<close>

definition delivered :: "('m, 'v) watch_state \<Rightarrow> 'v list" where
  "delivered s = ws_received s @ (case ws_updates s of None \<Rightarrow> [] | Some v \<Rightarrow> [v])"

fun pending :: "'v watch_pc \<Rightarrow> 'v option" where
  "pending (Checking v) = Some v"
| "pending (Offering v) = Some v"
| "pending (Draining v) = Some v"
| "pending (Resending v) = Some v"
| "pending _ = None"

definition watch_inv ::
    "('v \<Rightarrow> int) \<Rightarrow> ('v \<Rightarrow> gotime option \<Rightarrow> bool) \<Rightarrow> ('m \<Rightarrow> 'v) \<Rightarrow> ('m \<Rightarrow> nat) \<Rightarrow> int \<Rightarrow> ('m, 'v) watch_state \<Rightarrow> bool" where
  "watch_inv ver timer load notify a s \<longleftrightarrow>
     sorted_wrt (<) (a # map ver (delivered s)) \<and> a \<le> ws_last s \<and> (\<forall>v\<in>set (delivered s). ver v \<le> ws_last s) \<and>
     (\<forall>v. pending (ws_pc s) = Some v \<longrightarrow> ver v = ws_last s \<and> a < ver v \<and> (\<forall>w\<in>set (delivered s). ver w < ver v)) \<and>
     (\<forall>n d. ws_pc s = Waiting n d \<longrightarrow> n \<le> notify (ws_source s) \<and>
        (n = notify (ws_source s) \<longrightarrow> ver (load (ws_source s)) \<le> ws_last s \<and> timer (load (ws_source s)) d))"

locale versioned_source =
  fixes load :: "'m \<Rightarrow> 'v"
    and notify :: "'m \<Rightarrow> nat"
    and change :: "'m \<Rightarrow> 'm \<Rightarrow> bool"
  assumes changes_notify: "change m m' \<Longrightarrow> notify m \<le> notify m' \<and> (notify m' = notify m \<longrightarrow> load m' = load m)"
begin

lemma inv_start: "watch_inv ver timer load notify a (start_watch a m)"
  by (simp add: watch_inv_def delivered_def start_watch_def)

lemma inv_send: "send_step s s' \<Longrightarrow> watch_inv ver timer load notify a s \<Longrightarrow> watch_inv ver timer load notify a s'"
  by (induction rule: send_step.induct) (auto simp: watch_inv_def delivered_def sorted_wrt_append)

lemma inv_env: "env_step change s s' \<Longrightarrow> watch_inv ver timer load notify a s \<Longrightarrow> watch_inv ver timer load notify a s'"
proof (induction rule: env_step.induct)
  case (operate s m)
  then show ?case
    using changes_notify [of "ws_source s" m] by (auto simp: watch_inv_def delivered_def)
qed (auto simp: watch_inv_def delivered_def sorted_wrt_append)

lemma inv_newer:
  assumes "watch_inv ver timer load notify a s" "ver v > ws_last s"
  shows "watch_inv ver timer load notify a (s\<lparr>ws_last := ver v, ws_pc := Checking v\<rparr>)"
proof -
  have "delivered (s\<lparr>ws_last := ver v, ws_pc := Checking v\<rparr>) = delivered s"
    by (simp add: delivered_def)
  then show ?thesis
    using assms by (auto simp: watch_inv_def intro: order.strict_trans1 order.strict_implies_order)
qed

lemma inv_current:
  "watch_inv ver timer load notify a s \<Longrightarrow> ver (load (ws_source s)) \<le> ws_last s \<Longrightarrow> timer (load (ws_source s)) d \<Longrightarrow>
     watch_inv ver timer load notify a (s\<lparr>ws_pc := Waiting (notify (ws_source s)) d\<rparr>)"
  by (simp add: watch_inv_def delivered_def)

lemma inv_move:
  "watch_inv ver timer load notify a s \<Longrightarrow> pc \<in> insert Loading (insert Returned (range Sweeping \<union> range Reading)) \<Longrightarrow> watch_inv ver timer load notify a (s\<lparr>ws_pc := pc\<rparr>)"
  by (auto simp: watch_inv_def delivered_def)

lemma inv_done [simp]: "watch_inv ver timer load notify a (s\<lparr>ws_done := True\<rparr>) = watch_inv ver timer load notify a s"
  by (simp add: watch_inv_def delivered_def)

lemma inv_received: "watch_inv ver timer load notify a s \<Longrightarrow> sorted_wrt (<) (a # map ver (ws_received s))"
  unfolding watch_inv_def delivered_def by (simp add: sorted_wrt_append)

lemma inv_waiting: "watch_inv ver timer load notify a s \<Longrightarrow> ws_pc s = Waiting (notify (ws_source s)) d \<Longrightarrow>
     ver (load (ws_source s)) \<le> ws_last s \<and> timer (load (ws_source s)) d"
  unfolding watch_inv_def by simp

end


section \<open>Delivery\<close>

text \<open>Left alone, the goroutine puts its value into the channel, in place of a value that is there.\<close>

lemma delivery_run:
  assumes s: "ws_pc s = Checking v" "\<not> ws_done s"
  shows "send_step\<^sup>*\<^sup>* s (s\<lparr>ws_updates := Some v, ws_pc := Loading\<rparr>)"
proof -
  let ?s1 = "s\<lparr>ws_pc := Offering v\<rparr>" and ?s2 = "s\<lparr>ws_pc := Draining v\<rparr>"
  let ?s3 = "s\<lparr>ws_updates := None, ws_pc := Resending v\<rparr>" and ?t = "s\<lparr>ws_updates := Some v, ws_pc := Loading\<rparr>"
  have first: "send_step s ?s1"
    using s by (intro send_step.check)
  show ?thesis
  proof (cases "ws_updates s")
    case None
    then have "send_step ?s1 ?t"
      using send_step.offer [of ?s1 v] by simp
    with first show ?thesis
      by (meson converse_rtranclp_into_rtranclp r_into_rtranclp)
  next
    case (Some u)
    have "send_step ?s1 ?s2"
      using send_step.full [of ?s1 v] Some s(2) by simp
    moreover have "send_step ?s2 ?s3"
      using send_step.drain [of ?s2 v] Some by simp
    moreover have "send_step ?s3 ?t"
      using send_step.resend [of ?s3 v] by simp
    ultimately show ?thesis
      using first by (meson converse_rtranclp_into_rtranclp r_into_rtranclp)
  qed
qed


section \<open>The stall\<close>

text \<open>
  The goroutine found the buffer full, the reader emptied it, and the goroutine waits to empty it itself:
  no step of the sending function and of the others changes that.
\<close>

definition stalled :: "'v \<Rightarrow> 'v list \<Rightarrow> ('m, 'v) watch_state \<Rightarrow> bool" where
  "stalled v received s \<longleftrightarrow> ws_pc s = Draining v \<and> ws_updates s = None \<and> \<not> ws_done s \<and> ws_received s = received"

lemma stalled_send: "send_step s s' \<Longrightarrow> stalled v r s \<Longrightarrow> stalled v r s'"
  by (auto simp: stalled_def elim!: send_step.cases)

lemma stalled_env: "env_step change s s' \<Longrightarrow> stalled v r s \<Longrightarrow> stalled v r s'"
  by (auto simp: stalled_def elim!: env_step.cases)

text \<open>
  The way there, for any relation that has the steps of sending and of the others: a value finds the channel
  full, and the reader takes the earlier one.
\<close>

lemma stall_run:
  assumes live: "\<And>s s'. send_step s s' \<Longrightarrow> live s s'" "\<And>s s'. env_step change s s' \<Longrightarrow> live s s'"
    and s: "ws_pc s = Checking v" "ws_updates s = Some u" "\<not> ws_done s"
  shows "live\<^sup>*\<^sup>* s (s\<lparr>ws_pc := Draining v, ws_updates := None, ws_received := ws_received s @ [u]\<rparr>)"
proof -
  let ?s1 = "s\<lparr>ws_pc := Offering v\<rparr>" and ?s2 = "s\<lparr>ws_pc := Draining v\<rparr>"
  have "live\<^sup>*\<^sup>* s ?s1"
    using s by (intro r_into_rtranclp live(1) send_step.check)
  also have "live ?s1 ?s2"
    using send_step.full [of ?s1 v] s by (intro live(1)) simp
  also have "live ?s2 (s\<lparr>ws_pc := Draining v, ws_updates := None, ws_received := ws_received s @ [u]\<rparr>)"
    using env_step.receive [of ?s2 u change] s by (intro live(2)) simp
  finally show ?thesis .
qed

end
