(* ===== verification/Health_Watch.thy ===== *)
theory Health_Watch
  imports Health_Manager Watch_Protocol
begin

text \<open>
  \<open>WatchHealth\<close> and \<open>sendLatestVersion\<close> of \<open>src/pkg/fault/manager.go\<close>: the goroutine of a watch, the
  reader of its channel, the operations of the manager and the cancellation of the context, as steps of
  one state. The values sent are versions; the function that sends them is \<open>send_step\<close>.
\<close>

section \<open>The goroutine of a watch\<close>

type_synonym health_watch = "(HealthManager, int) watch_state"

text \<open>No watch starts when the context has already ended.\<close>

definition WatchHealth :: "bool \<Rightarrow> int \<Rightarrow> HealthManager \<Rightarrow> health_watch option" where
  "WatchHealth cancelled afterVersion m = (if cancelled then None else Some (start_watch afterVersion m))"

inductive watch_step :: "string \<Rightarrow> health_watch \<Rightarrow> health_watch \<Rightarrow> bool" for service where
  newer: "ws_pc s = Loading \<Longrightarrow> v = healthVersionLocked service (ws_source s) \<Longrightarrow> v > ws_last s \<Longrightarrow>
     watch_step service s (s\<lparr>ws_last := v, ws_pc := Checking v\<rparr>)"
| current: "ws_pc s = Loading \<Longrightarrow> healthVersionLocked service (ws_source s) \<le> ws_last s \<Longrightarrow>
     watch_step service s (s\<lparr>ws_pc := Waiting (hm_notify (ws_source s)) None\<rparr>)"
| send: "send_step s s' \<Longrightarrow> watch_step service s s'"
| notified: "ws_pc s = Waiting n d \<Longrightarrow> n < hm_notify (ws_source s) \<Longrightarrow> watch_step service s (s\<lparr>ws_pc := Loading\<rparr>)"
| stopped: "ws_pc s = Waiting n d \<Longrightarrow> ws_done s \<Longrightarrow> watch_step service s (s\<lparr>ws_pc := Returned\<rparr>)"

text \<open>The other parties: the reader, the operations of the manager, the owner of the context.\<close>

definition manager_change :: "HealthManager \<Rightarrow> HealthManager \<Rightarrow> bool" where
  "manager_change m m' \<longleftrightarrow> (\<exists>op. m' = run_hm_op op m)"

inductive live_step :: "string \<Rightarrow> health_watch \<Rightarrow> health_watch \<Rightarrow> bool" for service where
  watch: "watch_step service s s' \<Longrightarrow> live_step service s s'"
| env: "env_step manager_change s s' \<Longrightarrow> live_step service s s'"

inductive watch_reach :: "string \<Rightarrow> int \<Rightarrow> health_watch \<Rightarrow> bool" for service afterVersion where
  start: "WatchHealth False afterVersion m = Some s \<Longrightarrow> watch_reach service afterVersion s"
| live: "watch_reach service afterVersion s \<Longrightarrow> live_step service s s' \<Longrightarrow> watch_reach service afterVersion s'"
| cancel: "watch_reach service afterVersion s \<Longrightarrow> watch_reach service afterVersion (s\<lparr>ws_done := True\<rparr>)"

inductive_cases live_stepE: "live_step service s s'"


section \<open>Notification\<close>

lemma bump_notify:
  "hm_notify (bumpIfChangedLocked cs m) = (if cs = [] then hm_notify m else hm_notify m + 1)"
  "cs = [] \<Longrightarrow> healthVersionLocked s (bumpIfChangedLocked cs m) = healthVersionLocked s m"
  by (simp_all add: bumpIfChangedLocked_def Let_def)

lemma reset_counters_fields [simp]:
  "hm_notify (resetStateMachineCountersLocked now s m) = hm_notify m"
  "healthVersionLocked t (resetStateMachineCountersLocked now s m) = healthVersionLocked t m"
  by (simp_all add: resetStateMachineCountersLocked_def healthVersionLocked_def)

lemma version_fields [simp]:
  "healthVersionLocked s (m\<lparr>hm_health := h\<rparr>) = healthVersionLocked s m"
  "healthVersionLocked s (m\<lparr>hm_serviceStateMachines := c\<rparr>) = healthVersionLocked s m"
  by (simp_all add: healthVersionLocked_def)

lemma fold_reset_fields [simp]:
  "hm_notify (fold (resetStateMachineCountersLocked now) cs m) = hm_notify m"
  "healthVersionLocked t (fold (resetStateMachineCountersLocked now) cs m) = healthVersionLocked t m"
  by (induction cs arbitrary: m) simp_all

text \<open>An operation that leaves the channel in place leaves every version in place.\<close>

lemma version_change_notifies:
  "hm_notify m \<le> hm_notify (run_hm_op op m) \<and>
   (hm_notify (run_hm_op op m) = hm_notify m \<longrightarrow> healthVersionLocked s (run_hm_op op m) = healthVersionLocked s m)"
  by (cases op) (simp_all add: Update_def Tick_def MergeSnapshot_def PruneMissing_def SetServiceStateMachineConfig_def
      ReplaceServiceStateMachineConfigs_def Let_def case_prod_beta bump_notify split: option.split)


interpretation health_source: versioned_source "healthVersionLocked service" hm_notify manager_change for service
  using version_change_notifies by unfold_locales (auto simp: manager_change_def)


section \<open>What the reader receives\<close>

abbreviation health_inv :: "string \<Rightarrow> int \<Rightarrow> health_watch \<Rightarrow> bool" where
  "health_inv service \<equiv> watch_inv (\<lambda>v. v) (\<lambda>_ _. True) (healthVersionLocked service) hm_notify"

lemma watch_step_inv: "watch_step service s s' \<Longrightarrow> health_inv service a s \<Longrightarrow> health_inv service a s'"
proof (induction rule: watch_step.induct)
  case (newer s v)
  then show ?case
    by (intro health_source.inv_newer)
next
  case (current s)
  then show ?case
    using health_source.inv_current by blast
next
  case (send s s')
  then show ?case
    using health_source.inv_send by blast
qed (simp_all add: health_source.inv_move)

lemma watch_reach_inv: "watch_reach service a s \<Longrightarrow> health_inv service a s"
proof (induction rule: watch_reach.induct)
  case (start m s)
  then show ?case
    using health_source.inv_start by (auto simp: WatchHealth_def)
next
  case (live s s')
  from live(2, 3) show ?case
    using watch_step_inv health_source.inv_env by (cases rule: live_step.cases) blast+
qed simp

text \<open>
  C18: what a watch delivers is in order and a watch that waits has nothing to say. In every interleaving of
  the goroutine, the reader, the operations of the manager and the cancellation, the versions received are
  strictly increasing and above the version the watch started from, and when the goroutine waits on the
  channel that is in place it has taken the current version.
\<close>

theorem watch_in_order:
  assumes "watch_reach service afterVersion s"
  shows "sorted_wrt (<) (afterVersion # ws_received s) \<and>
    (\<forall>d. ws_pc s = Waiting (hm_notify (ws_source s)) d \<longrightarrow> healthVersionLocked service (ws_source s) \<le> ws_last s)"
  using health_source.inv_received [OF watch_reach_inv [OF assms]] health_source.inv_waiting [OF watch_reach_inv [OF assms]]
  by simp


section \<open>The stall of a health watch\<close>

lemma stalled_run: "(live_step service)\<^sup>*\<^sup>* s s' \<Longrightarrow> stalled v r s \<Longrightarrow> stalled v r s'"
proof (induction rule: rtranclp_induct)
  case (step s' s'')
  from step.hyps(2) step.IH [OF step.prems] show ?case
    by (auto simp: stalled_send stalled_env elim!: live_stepE watch_step.cases) (auto simp: stalled_def)
qed

lemma reach_run: "(live_step service)\<^sup>*\<^sup>* s s' \<Longrightarrow> watch_reach service a s \<Longrightarrow> watch_reach service a s'"
  by (induction rule: rtranclp_induct) (auto intro: watch_reach.live)

definition stuck_watch :: "string \<Rightarrow> int \<Rightarrow> int list \<Rightarrow> health_watch \<Rightarrow> bool" where
  "stuck_watch service v received s \<longleftrightarrow>
     (\<forall>s'. (live_step service)\<^sup>*\<^sup>* s s' \<longrightarrow> ws_pc s' = Draining v \<and> ws_received s' = received)"

lemma health_stall_run:
  assumes "afterVersion < healthVersionLocked service m"
    and "healthVersionLocked service m < healthVersionLocked service (run_hm_op op m)"
  shows "\<exists>s. watch_reach service afterVersion s \<and> ws_source s = run_hm_op op m \<and>
    stalled (healthVersionLocked service (run_hm_op op m)) [healthVersionLocked service m] s"
proof -
  let ?v = "healthVersionLocked service m" and ?w = "healthVersionLocked service (run_hm_op op m)"
  let ?m = "run_hm_op op m" and ?R = "(live_step service)\<^sup>*\<^sup>*"
  define s0 where "s0 = (start_watch afterVersion m :: health_watch)"
  define s1 where "s1 = s0\<lparr>ws_last := ?v, ws_pc := Checking ?v\<rparr>"
  define s2 where "s2 = s1\<lparr>ws_updates := Some ?v, ws_pc := Loading\<rparr>"
  define s3 where "s3 = s2\<lparr>ws_source := ?m\<rparr>"
  define s4 where "s4 = s3\<lparr>ws_last := ?w, ws_pc := Checking ?w\<rparr>"
  define s5 where "s5 = s4\<lparr>ws_pc := Draining ?w, ws_updates := None, ws_received := ws_received s4 @ [?v]\<rparr>"
  note state = s0_def s1_def s2_def s3_def s4_def s5_def start_watch_def
  have sends: "live_step service s s'" if "send_step s s'" for s s'
    using that by (intro live_step.watch watch_step.send)
  have "?R s0 s1"
    unfolding s1_def using assms(1) by (intro r_into_rtranclp live_step.watch watch_step.newer) (simp_all add: state)
  also have "?R s1 s2"
    using delivery_run [of s1 ?v] mono_rtranclp [of send_step "live_step service"] sends by (simp add: s1_def s2_def s0_def start_watch_def)
  also have "live_step service s2 s3"
    unfolding s3_def by (intro live_step.env env_step.operate) (auto simp: manager_change_def state)
  also have "live_step service s3 s4"
    unfolding s4_def using assms(2) by (intro live_step.watch watch_step.newer) (simp_all add: state)
  also have "?R s4 s5"
    unfolding s5_def by (rule stall_run [OF sends live_step.env]) (simp_all add: state)
  finally have "?R s0 s5" .
  moreover have "watch_reach service afterVersion s0"
    by (rule watch_reach.start [of _ m]) (simp add: WatchHealth_def s0_def)
  ultimately have "watch_reach service afterVersion s5"
    by (rule reach_run)
  then show ?thesis
    by (intro exI [of _ s5]) (simp add: stalled_def state)
qed

text \<open>
  C19: a watch can stop for good. \<open>sendLatestVersion\<close> finds the previous version still in the channel, the
  reader takes it, and the goroutine then waits for a value to discard that never comes: from then on no
  operation of the manager and no read wakes it, the newer version is never delivered, and only the
  cancellation of the context ends the watch.
\<close>

theorem watch_may_stall:
  assumes "afterVersion < healthVersionLocked service m"
    and "healthVersionLocked service m < healthVersionLocked service (run_hm_op op m)"
  shows "\<exists>s. watch_reach service afterVersion s \<and> \<not> ws_done s \<and> ws_source s = run_hm_op op m \<and>
    stuck_watch service (healthVersionLocked service (run_hm_op op m)) [healthVersionLocked service m] s"
proof -
  obtain s where "watch_reach service afterVersion s" "ws_source s = run_hm_op op m"
    and stalled: "stalled (healthVersionLocked service (run_hm_op op m)) [healthVersionLocked service m] s"
    using health_stall_run [OF assms] by blast
  then show ?thesis
    using stalled_run [OF _ stalled] by (intro exI [of _ s]) (auto simp: stuck_watch_def stalled_def)
qed

definition demo_recovered :: EndpointHealth where
  "demo_recovered = demo_record\<lparr>eh_State := Healthy\<rparr>"

lemma demo_versions:
  "healthVersionLocked ''svc'' demo_manager = 1"
  "healthVersionLocked ''svc'' (run_hm_op (MergeOp 9 [demo_recovered]) demo_manager) = 2"
  by (simp_all add: demo_manager_def demo_recovered_def MergeSnapshot_def merge_record_def normalised_record_def
      NewHealthManager_def Let_def demo_record_def NewEndpointHealth_def bumpIfChangedLocked_def IsZero_def zero_time_def
      healthVersionLocked_def wrap64_def endpointHealthEqualIgnoringUpdatedAt_def health_eq_def)

theorem watch_in_order_witness:
  "\<exists>s. watch_reach ''svc'' 0 s \<and> ws_received s = [1] \<and> sorted_wrt (<) (0 # ws_received s)"
proof -
  obtain s where s: "watch_reach ''svc'' 0 s" "stalled 2 [1] s"
    using health_stall_run [of 0 "''svc''" demo_manager "MergeOp 9 [demo_recovered]"] demo_versions by auto
  then show ?thesis
    using watch_in_order [OF s(1)] by (intro exI [of _ s]) (simp add: stalled_def)
qed

theorem watch_may_stall_witness:
  "\<exists>s. watch_reach ''svc'' 0 s \<and> \<not> ws_done s \<and> ws_source s = run_hm_op (MergeOp 9 [demo_recovered]) demo_manager \<and>
     stuck_watch ''svc'' 2 [1] s"
  using watch_may_stall [of 0 "''svc''" demo_manager "MergeOp 9 [demo_recovered]"] demo_versions by simp

end
