(* ===== verification/Registry_Watch.thy ===== *)
theory Registry_Watch
  imports Registry_Leases Watch_Protocol
begin

text \<open>
  \<open>Watch\<close>, \<open>watch\<close> and \<open>sendLatestSnapshot\<close> of \<open>src/pkg/registry/registry.go\<close>: the goroutine that streams
  the snapshots of a service. It sweeps the service itself when the published snapshot has gone stale, and
  sets a timer for the next lease that runs out. The clock and the context are read at every step that
  reads them.
\<close>

section \<open>The goroutine\<close>

type_synonym registry_watch = "(MemoryRegistry, InstanceSnapshot) watch_state"

definition load_snapshot :: "string \<Rightarrow> MemoryRegistry \<Rightarrow> InstanceSnapshot" where
  "load_snapshot service r = ss_snapshot (get_serviceState r service)"

definition service_notify :: "string \<Rightarrow> MemoryRegistry \<Rightarrow> nat" where
  "service_notify service r = ss_notify (get_serviceState r service)"

definition registry_Watch ::
    "bool \<Rightarrow> string \<Rightarrow> int \<Rightarrow> MemoryRegistry \<Rightarrow> registry_error + registry_watch" where
  "registry_Watch cancelled service afterVersion r =
     (if cancelled then Inl ContextError
      else if service = '''' then Inl ErrInvalidInstance
      else Inr (start_watch afterVersion
        (r\<lparr>mr_services := (mr_services r)(service \<mapsto> get_serviceState r service)\<rparr>)))"

definition service_sweep :: "bool \<Rightarrow> string \<Rightarrow> gotime \<Rightarrow> MemoryRegistry \<Rightarrow> MemoryRegistry" where
  "service_sweep cancelled service now r = r\<lparr>mr_services := (mr_services r)(service \<mapsto>
     snd (sweepExpiredForService cancelled service (get_serviceState r service) now))\<rparr>"

inductive sendLatestSnapshot :: "registry_watch \<Rightarrow> registry_watch \<Rightarrow> bool" where
  "send_step s s' \<Longrightarrow> sendLatestSnapshot s s'"

text \<open>A step of the goroutine at a time of the clock.\<close>

inductive registry_watch_step :: "string \<Rightarrow> gotime \<Rightarrow> registry_watch \<Rightarrow> registry_watch \<Rightarrow> bool" for service now where
  cancelled: "ws_pc s = Loading \<Longrightarrow> ws_done s \<Longrightarrow> registry_watch_step service now s (s\<lparr>ws_pc := Returned\<rparr>)"
| check: "ws_pc s = Loading \<Longrightarrow> \<not> ws_done s \<Longrightarrow>
     registry_watch_step service now s
       (s\<lparr>ws_pc := (if snapshotNeedsExpiry (load_snapshot service (ws_source s)) now then Sweeping now else Reading now)\<rparr>)"
| sweep: "ws_pc s = Sweeping t \<Longrightarrow>
     registry_watch_step service now s (s\<lparr>ws_source := service_sweep (ws_done s) service t (ws_source s), ws_pc := Reading t\<rparr>)"
| newer: "ws_pc s = Reading t \<Longrightarrow> v = load_snapshot service (ws_source s) \<Longrightarrow> sn_Version v > ws_last s \<Longrightarrow>
     registry_watch_step service now s (s\<lparr>ws_last := sn_Version v, ws_pc := Checking v\<rparr>)"
| current: "ws_pc s = Reading t \<Longrightarrow> v = load_snapshot service (ws_source s) \<Longrightarrow> sn_Version v \<le> ws_last s \<Longrightarrow>
     registry_watch_step service now s
       (s\<lparr>ws_pc := Waiting (service_notify service (ws_source s)) (map_option (\<lambda>delay. t + delay) (nextExpiryTimer v t))\<rparr>)"
| send: "sendLatestSnapshot s s' \<Longrightarrow> registry_watch_step service now s s'"
| notified: "ws_pc s = Waiting n d \<Longrightarrow> n < service_notify service (ws_source s) \<Longrightarrow>
     registry_watch_step service now s (s\<lparr>ws_pc := Loading\<rparr>)"
| expiry: "ws_pc s = Waiting n (Some d) \<Longrightarrow> d \<le> now \<Longrightarrow> registry_watch_step service now s (s\<lparr>ws_pc := Loading\<rparr>)"
| stopped: "ws_pc s = Waiting n d \<Longrightarrow> ws_done s \<Longrightarrow> registry_watch_step service now s (s\<lparr>ws_pc := Returned\<rparr>)"


text \<open>The other parties: the reader, the operations of the registry and the sweeps of other watches.\<close>

definition registry_change :: "MemoryRegistry \<Rightarrow> MemoryRegistry \<Rightarrow> bool" where
  "registry_change r r' \<longleftrightarrow> (\<exists>x. r' = run_reg_op x r) \<or> (\<exists>cancelled s now. r' = service_sweep cancelled s now r)"

lemma registry_change_intros [simp]:
  "registry_change r (run_reg_op x r)" "registry_change r (service_sweep cancelled s now r)"
  unfolding registry_change_def by blast+

inductive registry_live_step :: "string \<Rightarrow> registry_watch \<Rightarrow> registry_watch \<Rightarrow> bool" for service where
  watch: "registry_watch_step service now s s' \<Longrightarrow> registry_live_step service s s'"
| env: "env_step registry_change s s' \<Longrightarrow> registry_live_step service s s'"

inductive registry_watch_reach :: "string \<Rightarrow> int \<Rightarrow> registry_watch \<Rightarrow> bool" for service afterVersion where
  start: "registry_Watch False service afterVersion r = Inr s \<Longrightarrow> registry_watch_reach service afterVersion s"
| live: "registry_watch_reach service afterVersion s \<Longrightarrow> registry_live_step service s s' \<Longrightarrow> registry_watch_reach service afterVersion s'"
| cancel: "registry_watch_reach service afterVersion s \<Longrightarrow> registry_watch_reach service afterVersion (s\<lparr>ws_done := True\<rparr>)"


section \<open>Publication and notification\<close>

text \<open>A service whose channel is in place publishes the snapshot it published before.\<close>

definition notifies :: "string \<Rightarrow> MemoryRegistry \<Rightarrow> MemoryRegistry \<Rightarrow> bool" where
  "notifies s r r' \<longleftrightarrow> service_notify s r \<le> service_notify s r' \<and>
     (service_notify s r' = service_notify s r \<longrightarrow> load_snapshot s r' = load_snapshot s r)"

lemmas service_defs = notifies_def load_snapshot_def service_notify_def get_serviceState_def

lemma rebuild_notify [simp]: "ss_notify (rebuildSnapshotLocked s t st) = ss_notify st + 1"
  by (simp add: rebuildSnapshotLocked_def Let_def)

lemma notifies_same [simp]: "mr_services r' = mr_services r \<Longrightarrow> notifies s r r'"
  by (simp add: service_defs)

lemma notifies_store: "notifies s r (store_lease t i now l (r\<lparr>mr_generation := g\<rparr>))"
  by (cases "s = t") (simp_all add: service_defs store_lease_def Let_def)

lemma notifies_sweep: "notifies s r (service_sweep cancelled t now r)"
  by (cases "s = t") (simp_all add: service_defs service_sweep_def sweepExpiredForService_def Let_def)

lemma expire_entry_publication [simp]:
  "load_snapshot s (fst (expire_entry now e (r, ex))) = load_snapshot s r"
  "service_notify s (fst (expire_entry now e (r, ex))) = service_notify s r"
  by (auto simp: service_defs expire_entry_def split: option.split)

lemma sweep_loop_publication:
  "load_snapshot s (fst (sweep_loop cancelled now k r ex)) = load_snapshot s r \<and>
   service_notify s (fst (sweep_loop cancelled now k r ex)) = service_notify s r"
proof (induction cancelled now k r ex rule: sweep_loop.induct)
  case (1 cancelled now k r ex)
  have heap: "load_snapshot s (r\<lparr>mr_expiries := h\<rparr>) = load_snapshot s r" "service_notify s (r\<lparr>mr_expiries := h\<rparr>) = service_notify s r" for h
    by (simp_all add: service_defs)
  show ?case
  proof (cases "popExpired now (mr_expiries r)")
    case (Some p)
    obtain e h where p: "p = (e, h)"
      by (cases p)
    obtain r2 ex2 where r2: "expire_entry now e (r\<lparr>mr_expiries := h\<rparr>, ex) = (r2, ex2)"
      by (cases "expire_entry now e (r\<lparr>mr_expiries := h\<rparr>, ex)")
    have "load_snapshot s r2 = load_snapshot s r" "service_notify s r2 = service_notify s r"
      using expire_entry_publication [of s now e "r\<lparr>mr_expiries := h\<rparr>" ex] by (simp_all add: r2 heap)
    then show ?thesis
      using 1 [OF Some p [symmetric] refl _ r2 [symmetric]] Some p r2 heap [of h]
      by (subst (1 2) sweep_loop.simps) (simp add: Let_def)
  qed (subst (1 2) sweep_loop.simps, simp)
qed

lemma notifies_rebuild_dirty:
  "load_snapshot s r1 = load_snapshot s r \<Longrightarrow> service_notify s r1 = service_notify s r \<Longrightarrow> notifies s r (rebuild_dirty now dirty r1)"
  by (auto simp: service_defs rebuild_dirty_def split: option.splits)

lemma notifies_run: "notifies s r (run_reg_op x r)"
proof (cases x)
  case (Pair now op)
  show ?thesis
  proof (cases op)
    case (SweepOp cancelled)
    then show ?thesis
      using sweep_loop_publication [of s cancelled now 1 r "[]"] notifies_rebuild_dirty
      by (auto simp: Pair sweepExpiredRecords_def case_prod_beta Let_def)
  next
    case (SnapshotOp cancelled t)
    have "notifies s r (r\<lparr>mr_services := (mr_services r)(t \<mapsto> snd (sweepExpiredForService (cancelled 1) t st now))\<rparr>)"
      if "mr_services r t = Some st" for st
      using notifies_sweep [of s r "cancelled 1" t now] that by (simp add: service_sweep_def get_serviceState_def)
    then show ?thesis
      by (auto simp: Pair SnapshotOp registry_Snapshot_def Let_def split: option.split)
  next
    case (DeleteOp t i)
    then show ?thesis
      by (auto simp: Pair deleteRecord_def service_defs split: option.split)
  qed (auto simp: Pair registerAt_def heartbeatAtWithOwner_def restoreRecord_def Let_def split: option.split intro!: notifies_store)
qed

interpretation registry_source: versioned_source "load_snapshot service" "service_notify service" registry_change for service
  using notifies_run notifies_sweep by unfold_locales (auto simp: registry_change_def notifies_def)

section \<open>What the reader of a registry watch receives\<close>

definition timer_set :: "InstanceSnapshot \<Rightarrow> gotime option \<Rightarrow> bool" where
  "timer_set v d \<longleftrightarrow> (d = None \<longrightarrow> IsZero (sn_nextExpiresAt v))"

lemma nextExpiryTimer_set: "timer_set v (map_option (\<lambda>delay. t + delay) (nextExpiryTimer v t))"
  by (simp add: timer_set_def nextExpiryTimer_def Let_def)

abbreviation registry_inv :: "string \<Rightarrow> int \<Rightarrow> registry_watch \<Rightarrow> bool" where
  "registry_inv service \<equiv> watch_inv sn_Version timer_set (load_snapshot service) (service_notify service)"

lemma registry_watch_step_inv:
  "registry_watch_step service now s s' \<Longrightarrow> registry_inv service a s \<Longrightarrow> registry_inv service a s'"
proof (induction rule: registry_watch_step.induct)
  case (sweep s t)
  let ?r = "service_sweep (ws_done s) service t (ws_source s)"
  have "env_step registry_change s (s\<lparr>ws_source := ?r\<rparr>)"
    by (intro env_step.operate) simp
  from registry_source.inv_move [OF registry_source.inv_env [OF this sweep(2)], of "Reading t"] show ?case
    by simp
next
  case (newer s t v)
  then show ?case
    by (intro registry_source.inv_newer)
next
  case (current s t v)
  then show ?case
    using nextExpiryTimer_set by (simp add: registry_source.inv_current)
next
  case (send s s')
  then show ?case
    using registry_source.inv_send by (auto elim: sendLatestSnapshot.cases)
qed (simp_all add: registry_source.inv_move)

lemma registry_watch_reach_inv: "registry_watch_reach service a s \<Longrightarrow> registry_inv service a s"
proof (induction rule: registry_watch_reach.induct)
  case (start r s)
  then show ?case
    using registry_source.inv_start by (auto simp: registry_Watch_def split: if_splits)
next
  case (live s s')
  from live(2, 3) show ?case
    using registry_watch_step_inv registry_source.inv_env by (cases rule: registry_live_step.cases) blast+
qed simp

text \<open>
  A registry watch delivers snapshots in the order of their versions. In every interleaving of the
  goroutine, the reader, the operations of the registry and the cancellation, the versions received are
  strictly increasing and above the version the watch started from, and when the goroutine waits on the
  channel that is in place it has taken the published version.
\<close>

theorem registry_watch_in_order:
  assumes "registry_watch_reach service afterVersion s"
  shows "sorted_wrt (<) (afterVersion # map sn_Version (ws_received s)) \<and>
    (\<forall>d. ws_pc s = Waiting (service_notify service (ws_source s)) d \<longrightarrow>
       sn_Version (load_snapshot service (ws_source s)) \<le> ws_last s)"
  using registry_source.inv_received [OF registry_watch_reach_inv [OF assms]]
    registry_source.inv_waiting [OF registry_watch_reach_inv [OF assms]] by blast


section \<open>Expiry is announced\<close>

lemma goroutine_delivers:
  assumes "ws_pc s = Checking v" "\<not> ws_done s"
  shows "(registry_watch_step service now)\<^sup>*\<^sup>* s (s\<lparr>ws_updates := Some v, ws_pc := Loading\<rparr>)"
proof -
  have "send_step \<le> registry_watch_step service now"
    by (auto intro: registry_watch_step.send sendLatestSnapshot.intros)
  then show ?thesis
    using delivery_run [OF assms] rtranclp_mono by blast
qed

text \<open>At the top of the loop, with a published snapshot that is stale or newer than the last one sent.\<close>

lemma stale_run:
  assumes s: "ws_pc s = Loading" "\<not> ws_done s" "snapshotNeedsExpiry (load_snapshot service (ws_source s)) now"
    and v: "v = load_snapshot service (service_sweep False service now (ws_source s))" "ws_last s < sn_Version v"
  shows "\<exists>s'. (registry_watch_step service now)\<^sup>*\<^sup>* s s' \<and> ws_updates s' = Some v"
proof -
  let ?R = "(registry_watch_step service now)\<^sup>*\<^sup>*"
  let ?r = "service_sweep False service now (ws_source s)"
  have "?R s (s\<lparr>ws_pc := Sweeping now\<rparr>)"
    using registry_watch_step.check [OF s(1, 2), of service now] s(3) by auto
  also have "registry_watch_step service now (s\<lparr>ws_pc := Sweeping now\<rparr>) (s\<lparr>ws_source := ?r, ws_pc := Reading now\<rparr>)"
    using registry_watch_step.sweep [of "s\<lparr>ws_pc := Sweeping now\<rparr>" now service now] s(2) by simp
  also have "registry_watch_step service now (s\<lparr>ws_source := ?r, ws_pc := Reading now\<rparr>)
      (s\<lparr>ws_source := ?r, ws_last := sn_Version v, ws_pc := Checking v\<rparr>)"
    using registry_watch_step.newer [of "s\<lparr>ws_source := ?r, ws_pc := Reading now\<rparr>" now v service now] v by simp
  also have "?R (s\<lparr>ws_source := ?r, ws_last := sn_Version v, ws_pc := Checking v\<rparr>)
      (s\<lparr>ws_source := ?r, ws_last := sn_Version v, ws_pc := Checking v, ws_updates := Some v, ws_pc := Loading\<rparr>)"
    using goroutine_delivers [of "s\<lparr>ws_source := ?r, ws_last := sn_Version v, ws_pc := Checking v\<rparr>" v] s(2) by simp
  finally show ?thesis
    by (intro exI conjI) (assumption, simp)
qed

text \<open>
  C17: a watch announces by itself that a lease has run out. When the goroutine waits, has sent what is
  published, and what is published is no longer the list of the instances that are alive, then once its
  timer is due its own steps put a snapshot into the channel that lists exactly the instances that are
  alive, with the next version. No background sweep and no call of the registry is needed, and a snapshot
  that still lies in the channel is replaced.
\<close>

theorem expiry_announced:
  assumes reach: "registry_watch_reach service afterVersion s" "\<not> ws_done s"
    and source: "ws_source s = reg_run ops" "history ops now" "mr_services (reg_run ops) service = Some st"
    and waits: "ws_pc s = Waiting (service_notify service (reg_run ops)) d" "\<forall>t. d = Some t \<longrightarrow> t \<le> now"
    and sent: "ws_last s = sn_Version (load_snapshot service (reg_run ops))" "ss_version st < 2 ^ 63 - 1" "- (2 ^ 63) \<le> ss_version st"
    and stale: "sn_Instances (load_snapshot service (reg_run ops)) \<noteq>
      sort_key ri_ID (map rc_instance (live_leases now (leases_of (reg_run ops) service)))"
  shows "\<exists>s' v. (registry_watch_step service now)\<^sup>*\<^sup>* s s' \<and> ws_updates s' = Some v \<and> sn_Version v = ws_last s + 1 \<and>
    sn_Instances v = sort_key ri_ID (map rc_instance (live_leases now (leases_of (reg_run ops) service)))"
proof -
  let ?v = "load_snapshot service (service_sweep False service now (ws_source s))"
  have pub: "published now service st"
    using reg_run_inv [OF source(2)] source(3) by (simp add: reg_inv_def all_published_def)
  have st [simp]: "load_snapshot service (reg_run ops) = ss_snapshot st" "leases_of (reg_run ops) service = ss_records st"
    by (simp_all add: load_snapshot_def get_serviceState_def leases_of_def source(3))
  have needs: "snapshotNeedsExpiry (ss_snapshot st) now"
    using fresh_snapshot [OF pub order_refl] stale by auto
  have sweep: "?v = ss_snapshot (snd (sweepExpiredForService False service st now))"
    by (simp add: source(1, 3) load_snapshot_def service_sweep_def get_serviceState_def)
  have "sn_Version ?v = ss_version st + 1"
    using sent(2, 3) by (simp add: sweep stale_sweep [OF pub needs] rebuildSnapshotLocked_def Let_def wrap64_def)
  moreover have "ws_last s = ss_version st"
    using sent(1) pub by (simp add: published_def)
  ultimately have newer: "sn_Version ?v = ws_last s + 1"
    by simp
  obtain t where d: "d = Some t" "t \<le> now"
    using registry_source.inv_waiting [OF registry_watch_reach_inv [OF reach(1)]] waits needs
    by (cases d) (auto simp: source(1) timer_set_def snapshotNeedsExpiry_def)
  have "registry_watch_step service now s (s\<lparr>ws_pc := Loading\<rparr>)"
    using registry_watch_step.expiry [of s _ t now service] waits(1) d by simp
  moreover obtain s' where "(registry_watch_step service now)\<^sup>*\<^sup>* (s\<lparr>ws_pc := Loading\<rparr>) s'" "ws_updates s' = Some ?v"
    using stale_run [of "s\<lparr>ws_pc := Loading\<rparr>" service now ?v] reach(2) needs newer by (auto simp: source(1))
  ultimately show ?thesis
    using newer stale_snapshot [OF pub needs refl] sweep
    by (intro exI [of _ s'] exI [of _ ?v]) (auto intro: converse_rtranclp_into_rtranclp)
qed

section \<open>The stall of a registry watch\<close>

lemma registry_reach_run:
  "(registry_live_step service)\<^sup>*\<^sup>* s s' \<Longrightarrow> registry_watch_reach service a s \<Longrightarrow> registry_watch_reach service a s'"
  by (induction rule: rtranclp_induct) (auto intro: registry_watch_reach.live)

lemma goroutine_live: "(registry_watch_step service now)\<^sup>*\<^sup>* s s' \<Longrightarrow> (registry_live_step service)\<^sup>*\<^sup>* s s'"
  using rtranclp_mono [of "registry_watch_step service now" "registry_live_step service"] by (auto intro: registry_live_step.watch)

text \<open>A watch of a service whose snapshot is fresh at \<open>t\<close> and newer than what the caller has.\<close>

definition announced :: "string \<Rightarrow> MemoryRegistry \<Rightarrow> registry_watch" where
  "announced service r = \<lparr>ws_source = r, ws_pc = Loading, ws_last = sn_Version (load_snapshot service r),
     ws_updates = Some (load_snapshot service r), ws_done = False, ws_received = []\<rparr>"

lemma reading_run:
  assumes "ws_pc s = Loading" "\<not> ws_done s" "\<not> snapshotNeedsExpiry (load_snapshot service (ws_source s)) t"
    and "ws_last s < sn_Version (load_snapshot service (ws_source s))"
  shows "(registry_watch_step service t)\<^sup>*\<^sup>* s (s\<lparr>ws_last := sn_Version (load_snapshot service (ws_source s)),
    ws_pc := Checking (load_snapshot service (ws_source s))\<rparr>)"
proof -
  have "registry_watch_step service t s (s\<lparr>ws_pc := Reading t\<rparr>)"
    using registry_watch_step.check [OF assms(1, 2), of service t] assms(3) by simp
  moreover have "registry_watch_step service t (s\<lparr>ws_pc := Reading t\<rparr>)
      (s\<lparr>ws_last := sn_Version (load_snapshot service (ws_source s)), ws_pc := Checking (load_snapshot service (ws_source s))\<rparr>)"
    using registry_watch_step.newer [of "s\<lparr>ws_pc := Reading t\<rparr>" t _ service t] assms(4) by simp
  ultimately show ?thesis
    by (meson converse_rtranclp_into_rtranclp r_into_rtranclp)
qed

lemma announced_reach:
  assumes "service \<noteq> ''''" "mr_services r service = Some st" "\<not> snapshotNeedsExpiry (load_snapshot service r) t"
    and "afterVersion < sn_Version (load_snapshot service r)"
  shows "registry_watch_reach service afterVersion (announced service r)"
proof -
  let ?s = "start_watch afterVersion r" and ?v = "load_snapshot service r"
  let ?c = "?s\<lparr>ws_last := sn_Version ?v, ws_pc := Checking ?v\<rparr>"
  have "registry_Watch False service afterVersion r = Inr ?s"
    using assms(1, 2) by (simp add: registry_Watch_def get_serviceState_def fun_upd_idem)
  then have "registry_watch_reach service afterVersion ?s"
    by (rule registry_watch_reach.start)
  moreover have "(registry_live_step service)\<^sup>*\<^sup>* ?s ?c"
    using reading_run [of ?s service t] assms(3, 4) by (intro goroutine_live) (simp add: start_watch_def)
  moreover have "(registry_live_step service)\<^sup>*\<^sup>* ?c (announced service r)"
    using goroutine_delivers [of ?c ?v service t] by (intro goroutine_live) (simp add: start_watch_def announced_def)
  ultimately show ?thesis
    by (meson registry_reach_run)
qed

definition stuck_registry_watch :: "string \<Rightarrow> InstanceSnapshot \<Rightarrow> InstanceSnapshot list \<Rightarrow> registry_watch \<Rightarrow> bool" where
  "stuck_registry_watch service v received s \<longleftrightarrow>
     (\<forall>s'. (registry_live_step service)\<^sup>*\<^sup>* s s' \<longrightarrow> ws_pc s' = Draining v \<and> ws_received s' = received)"

lemma registry_stalled_run: "(registry_live_step service)\<^sup>*\<^sup>* s s' \<Longrightarrow> stalled v r s \<Longrightarrow> stalled v r s'"
proof (induction rule: rtranclp_induct)
  case (step s' s'')
  from step.hyps(2) step.IH [OF step.prems] show ?case
    by (auto simp: stalled_send stalled_env elim!: registry_live_step.cases registry_watch_step.cases sendLatestSnapshot.cases)
      (auto simp: stalled_def)
qed

text \<open>
  A registry watch can stop for good, in the way of the health watch: \<open>sendLatestSnapshot\<close> finds the
  previous snapshot in the channel, the reader takes it, and from then on no change of the registry, no
  expiry and no read wakes the goroutine; the newer snapshot is never delivered.
\<close>

lemma registry_watch_may_stall:
  assumes "service \<noteq> ''''" "mr_services r service = Some st" "\<not> snapshotNeedsExpiry (load_snapshot service r) t"
    and "afterVersion < sn_Version (load_snapshot service r)" "r' = run_reg_op x r"
    and "sn_Version (load_snapshot service r) < sn_Version (load_snapshot service r')"
    and "\<not> snapshotNeedsExpiry (load_snapshot service r') t"
  shows "\<exists>s. registry_watch_reach service afterVersion s \<and> \<not> ws_done s \<and> ws_source s = r' \<and>
    stuck_registry_watch service (load_snapshot service r') [load_snapshot service r] s"
proof -
  let ?v = "load_snapshot service r" and ?w = "load_snapshot service r'" and ?R = "(registry_live_step service)\<^sup>*\<^sup>*"
  define s1 where "s1 = (announced service r)\<lparr>ws_source := r'\<rparr>"
  define s2 where "s2 = s1\<lparr>ws_last := sn_Version ?w, ws_pc := Checking ?w\<rparr>"
  define s3 where "s3 = s2\<lparr>ws_pc := Draining ?w, ws_updates := None, ws_received := ws_received s2 @ [?v]\<rparr>"
  note state = s1_def s2_def s3_def announced_def
  have "?R (announced service r) s1"
    unfolding s1_def assms(5)
    by (intro r_into_rtranclp registry_live_step.env env_step.operate) (simp add: announced_def)
  also have "?R s1 s2"
    using reading_run [of s1 service t] assms(6, 7) by (intro goroutine_live) (simp add: state)
  also have "?R s2 s3"
    unfolding s3_def
    by (rule stall_run [OF registry_live_step.watch [OF registry_watch_step.send [OF sendLatestSnapshot.intros]] registry_live_step.env])
      (simp_all add: state)
  finally have "registry_watch_reach service afterVersion s3"
    using announced_reach [OF assms(1-4)] registry_reach_run by blast
  moreover have "stalled ?w [?v] s3"
    by (simp add: stalled_def state)
  ultimately show ?thesis
    using registry_stalled_run [of service s3 _ ?w "[?v]"]
    by (intro exI [of _ s3]) (auto simp: stuck_registry_watch_def stalled_def state)
qed

section \<open>A watch of the registry with two leases\<close>

definition demo_published :: InstanceSnapshot where
  "demo_published = \<lparr>sn_Service = ''svc'', sn_Version = 3, sn_Instances =
     [rc_instance (demo_lease ''a'' 1 6 ''e1'' ''t1'' 1), rc_instance (demo_lease ''b'' 4 9 ''e2'' ''t2'' 3)], sn_nextExpiresAt = 6\<rparr>"

lemma demo_service:
  "\<exists>st. mr_services (reg_run demo_ops) ''svc'' = Some st \<and> ss_snapshot st = demo_published \<and> ss_version st = 3 \<and>
     ss_records st = [(''a'', demo_lease ''a'' 1 6 ''e1'' ''t1'' 1), (''b'', demo_lease ''b'' 4 9 ''e2'' ''t2'' 3)]"
  by (simp add: reg_run_def demo_ops_def registerAt_def heartbeatAtWithOwner_def fence_error_def store_lease_def
      get_serviceState_def newServiceState_def rebuildSnapshotLocked_def demo_instance_def demo_lease_def demo_published_def
      Let_def NewMemoryRegistry_def live_leases_def earlier_expiry_def IsZero_def zero_time_def wrap64_def)

lemma demo_fresh:
  "load_snapshot ''svc'' (reg_run demo_ops) = demo_published"
  "t < 6 \<Longrightarrow> \<not> snapshotNeedsExpiry (load_snapshot ''svc'' (reg_run demo_ops)) t"
  using demo_service by (auto simp: load_snapshot_def get_serviceState_def demo_published_def snapshotNeedsExpiry_def)

lemma demo_announced: "registry_watch_reach ''svc'' 0 (announced ''svc'' (reg_run demo_ops))"
proof -
  obtain st where "mr_services (reg_run demo_ops) ''svc'' = Some st"
    using demo_service by blast
  from announced_reach [OF _ this demo_fresh(2) [of 4]] show ?thesis
    by (simp add: demo_fresh(1) demo_published_def)
qed

definition demo_waiting :: registry_watch where
  "demo_waiting = (announced ''svc'' (reg_run demo_ops))\<lparr>ws_pc := Waiting (service_notify ''svc'' (reg_run demo_ops)) (Some 6)\<rparr>"

lemma demo_waits: "registry_watch_reach ''svc'' 0 demo_waiting"
proof -
  let ?s = "announced ''svc'' (reg_run demo_ops)"
  have "registry_watch_step ''svc'' 4 ?s (?s\<lparr>ws_pc := Reading 4\<rparr>)"
    using registry_watch_step.check [of ?s "''svc''" 4] demo_fresh(2) [of 4] by (simp add: announced_def)
  moreover have "registry_watch_step ''svc'' 4 (?s\<lparr>ws_pc := Reading 4\<rparr>) demo_waiting"
    using registry_watch_step.current [of "?s\<lparr>ws_pc := Reading 4\<rparr>" 4 demo_published "''svc''" 4]
    by (simp add: demo_waiting_def announced_def demo_fresh(1) nextExpiryTimer_def demo_published_def IsZero_def zero_time_def
        time_sub_def max_int64_def min_int64_def)
  ultimately show ?thesis
    using demo_announced by (meson registry_live_step.watch registry_watch_reach.live)
qed

theorem registry_watch_in_order_witness:
  "\<exists>s. registry_watch_reach ''svc'' 0 s \<and> map sn_Version (ws_received s) = [3] \<and> sorted_wrt (<) (0 # map sn_Version (ws_received s))"
proof -
  let ?s = "announced ''svc'' (reg_run demo_ops)"
  let ?t = "?s\<lparr>ws_updates := None, ws_received := ws_received ?s @ [demo_published]\<rparr>"
  have "env_step registry_change ?s ?t"
    by (intro env_step.receive) (simp add: announced_def demo_fresh(1))
  then have reach: "registry_watch_reach ''svc'' 0 ?t"
    using demo_announced by (meson registry_live_step.env registry_watch_reach.live)
  show ?thesis
    using registry_watch_in_order [OF reach] reach by (intro exI [of _ ?t]) (simp add: announced_def demo_published_def)
qed

theorem expiry_announced_witness:
  "\<exists>s' v. (registry_watch_step ''svc'' 7)\<^sup>*\<^sup>* demo_waiting s' \<and> ws_updates s' = Some v \<and> sn_Version v = 4 \<and>
     sn_Instances v = [rc_instance (demo_lease ''b'' 4 9 ''e2'' ''t2'' 3)]"
proof -
  obtain st where st: "mr_services (reg_run demo_ops) ''svc'' = Some st" "ss_version st = 3"
    using demo_service by blast
  have live: "sort_key ri_ID (map rc_instance (live_leases 7 (leases_of (reg_run demo_ops) ''svc''))) =
      [rc_instance (demo_lease ''b'' 4 9 ''e2'' ''t2'' 3)]"
    by (simp add: demo_leases(3) live_leases_def demo_lease_def)
  have state: "\<not> ws_done demo_waiting" "ws_source demo_waiting = reg_run demo_ops" "ws_last demo_waiting = 3"
    "ws_pc demo_waiting = Waiting (service_notify ''svc'' (reg_run demo_ops)) (Some 6)"
    by (simp_all add: demo_waiting_def announced_def demo_fresh(1) demo_published_def)
  show ?thesis
    using expiry_announced [OF demo_waits state(1, 2) demo_history(1) st(1) state(4)] st(2) live
    by (simp add: state(3) demo_fresh(1) demo_published_def)
qed

end
