(* ===== verification/Spec2Isabelle.thy ===== *)
theory Spec2Isabelle
  imports Collector Recorder_Race Controller_Access Controller_Leases Kernel_Bpf State_Machine Breaker Retry_Budget Sdk_Discovery Health_Detection Health_Watch Registry_Watch
begin

text \<open>
  \<^bold>\<open>AegisMesh.\<close> An adaptive service mesh: a controller keeps the leases and the health of service
  instances, a client SDK turns them into routing decisions, and an agent reports TCP trouble that a BPF
  program sees in the kernel. This development models the parts that decide something and proves what
  they promise to one another. All paths are under \<open>src/\<close>.

  \<^bold>\<open>The agent\<close> (\<open>agent/ebpf\<close>).
  \<^item> \<open>CLayout\<close> is a layout engine for C types (sizes, alignments, bit fields, member paths) and
    \<open>Kernel_Sock\<close>, \<open>Kernel_Tcp\<close>, \<open>Kernel_Refs\<close>, \<open>Kernel_Task\<close>, \<open>Kernel_Net\<close> and \<open>Kernel_Bpf\<close> hold the types of
    \<open>bpf/vmlinux.h\<close> that the probed structures contain or point to, one definition per declaration, with
    the layout computed for each; a \<open>typedef\<close> that only renames and small structures that are used in
    few places are abbreviations.
  \<^item> \<open>Tcp_Metrics\<close> is \<open>bpf/tcp_metrics.bpf.c\<close>: the two structures, the maps, the CO-RE reads and the three
    probes, as functions on the ring buffer and the table of connect attempts. The kernel helpers are
    parameters (\<open>kenv\<close>), and so are the offsets that the loader patches in (\<open>core_relocs\<close>), of which
    \<open>core_patched\<close> says that they are those of the running kernel's types. The BPF hash map is the interface
    \<open>bpf_hash\<close>, with a capacity \<open>bounded_bpf_hash\<close>, both interpreted on a bounded table. Whole runs of probes
    are runs of an abstract telemetry contract, which speaks of the members of the kernel objects in memory
    and says when an event or an attempt may be lost; attempts are reported to their threads with the
    elapsed time; each read returns its member on any layout, and the layout of the header is one of these.
  \<^item> \<open>Endpoint_Key\<close> (\<open>endpoint.go\<close>) packs, prints and parses endpoints; \<open>Tcp_Event\<close> (\<open>event.go\<close>) decodes the
    bytes of the ring buffer; \<open>Collector\<close> (\<open>collector_linux.go\<close>) is the read loop with its channel of 1024
    events; \<open>Net_Aggregator\<close> (\<open>aggregator.go\<close>, \<open>telemetry.go\<close>, \<open>reporter.go\<close>) sums windows and uploads them. The
    decoder agrees with the layout of the C structure except for the connect latency and the command
    name, which it reads four bytes too early.

  \<^bold>\<open>The controller\<close> (\<open>pkg/registry\<close>, \<open>pkg/fault\<close>, \<open>pkg/status\<close>, \<open>pkg/security\<close>, \<open>pkg/controller\<close>).
  \<^item> \<open>Expiry_Heap\<close> and \<open>Registry\<close> are the memory registry of \<open>registry.go\<close>: the array heap of deadlines with
    \<open>container/heap\<close>, which meets the contract \<open>expiry_queue\<close>, and registration, heartbeats, restoration,
    deletion, sweeps and snapshots as functions on services, heap and generation counter. \<open>Registry_Leases\<close>
    proves the invariant of every history of operations, that a sweep removes exactly the leases that have
    run out, that a snapshot lists exactly the others, that a replaced owner is fenced off, and that a
    sweep that is cut short hides a lease from every later sweep of the registry, until a read of its
    service is due or its instance is operated on.
  \<^item> \<open>Watch_Protocol\<close> is what the two watches of the controller share: the state of a goroutine that reads a
    versioned source, the sending function with its channel of one element, the reader, and the contract
    \<open>versioned_source\<close> (whatever changes the value read replaces the notification channel) under which what
    is delivered is in order. \<open>Registry_Watch\<close> interprets it on the registry and adds the goroutine of
    \<open>watch\<close> with its sweep and its timer: snapshots arrive in order, and a lease that runs out is announced
    by the watch itself.
  \<^item> \<open>Status\<close> (\<open>status.go\<close>), \<open>State_Machine\<close> (\<open>state_machine.go\<close>), \<open>Slow_Score\<close> (\<open>slow_score.go\<close>) and
    \<open>Health_Manager\<close> (\<open>manager.go\<close>) are the health pipeline: scores in IEEE arithmetic, the transitions of an
    endpoint, and the manager that applies them to samples, ticks, snapshots and configuration changes.
    Proved are when endpoints are ejected, how long, and that ticks alone bring none back whose score was
    above the recovery threshold, although they count as successful probes; that revisions change with
    every visible change; \<open>Health_Detection\<close> proves what relative scoring cannot see in services of at most
    two instances that keep within their capacity; \<open>Health_Watch\<close> interprets \<open>versioned_source\<close> on the manager and has the goroutine of
    \<open>WatchHealth\<close>: what it delivers is in order, and it can stop for good.
  \<^item> \<open>Security_Auth\<close> (\<open>auth.go\<close>) has principals, roles, scopes and tokens, the interceptor and the check of the
    handlers, and the parser of static tokens, which never widens a scope. \<open>Controller_Services\<close>
    (\<open>registry_service.go\<close>, \<open>telemetry_service.go\<close>) has the five unary calls on the registry and the health
    manager. \<open>Controller_Access\<close> proves that a principal with a list of services changes nothing outside
    it, but is shown the health of all services; \<open>Controller_Leases\<close> that a registration lets its owner renew
    the lease, that two at the same time can end with one token, and that telemetry counts only for
    instances with a lease. \<open>Go_Strings\<close> has the functions of Go's \<open>strings\<close> that these and the client use.

  \<^bold>\<open>The client\<close> (\<open>pkg/routing\<close>, \<open>pkg/circuitbreaker\<close>, \<open>pkg/retry\<close>, \<open>pkg/telemetry\<close>, \<open>sdk/go/aegisgrpc\<close>).
  \<^item> \<open>Routing\<close> (\<open>round_robin.go\<close>) has the two pickers, with the interfaces \<open>picker\<close> and \<open>random_source\<close>;
    \<open>Sdk_Random\<close> interprets the latter on the SDK's own generator.
  \<^item> \<open>Breaker\<close> (\<open>breaker.go\<close>) and \<open>Retry_Budget\<close> (\<open>budget.go\<close>) have the operations as functions and the
    compare-and-swap loops of concurrent calls as step relations, whose invariants bound what is admitted.
  \<^item> \<open>Sdk_Resolver\<close> (\<open>resolver.go\<close>), \<open>Sdk_Balancer\<close> (\<open>adaptive_balancer.go\<close>, \<open>adaptive_limiter_pool.go\<close>) and
    \<open>Sdk_Discovery\<close> follow a response of the controller to the picker that gRPC has built from those of its addresses that
    are connected, the picks and their completions, and the loop that keeps the watch alive.
  \<^item> \<open>Latency_Histogram\<close> (\<open>latency_histogram.go\<close> and the bucket table of \<open>recorder.go\<close>) has the sharded and the
    plain histogram, which meet the contract \<open>histogram\<close>: they answer alike, and within one seventh of the
    exact percentile as long as it is below 17.785 seconds, above which they answer one hour.
    \<open>Telemetry_Recorder\<close> (\<open>recorder.go\<close>, \<open>ewma.go\<close>) has keys, rows, shards and the operations;
    \<open>Recorder_Windows\<close> proves that the windows of every sequence of operations are exact, and
    \<open>Recorder_Race\<close> has the atomic accesses to the counters of one row by concurrent calls and a snapshot:
    nothing is reported twice, but a request can be lost.

  \<^bold>\<open>How the parts meet.\<close> The agent's telemetry and the SDK's samples feed the health manager; its states
  and the registry's instances are what the resolver receives; the balancer picks among them within the
  limits of the breaker, and the retry budget bounds what is tried again. The theorem at the end of this
  theory runs the agent as a whole, from the bytes of a socket to the sample that is uploaded.

  \<^bold>\<open>Conventions.\<close> Go integers are \<open>int\<close> with \<open>wrap64\<close> written out where they are computed with, or words
  where bits matter; times and durations are nanoseconds (\<open>gotime\<close>, \<open>duration\<close>), with the zero time of
  Go; \<open>float64\<close> is the datatype of \<open>Go_Float\<close>, rationals rounded to nearest even with infinities and NaN.
  A Go map is an association list or a map, and an iteration order over it is a parameter that permutes.
  Errors are values of sum or option types. Code under a lock is one step. Where several goroutines race on
  shared state without one and the outcome depends on it (the limiter, the retry budget, the counters of a
  recorder row, the watches), the model is a step relation and the theorem is about all interleavings. A
  pick of the SDK balancer and its completion are one step each, although their atomic counters and
  limiters may be accessed by others in between; the interleavings of the limiter itself are those of \<open>Breaker\<close>.
  Clocks, random numbers, kernel helpers, libraries and the network are parameters.

  \<^bold>\<open>Bounds.\<close> No definition has fuel: loops are structural, or have a measure (the heap operations by
  position, the sweep by the length of the queue). \<open>registry_well_formed\<close> and what follows from it hold for
  fewer than \<open>2^64 - 1\<close> operations, since generations are 64-bit, and \<open>version_tracks_health\<close> for fewer than
  \<open>2^63 - 1\<close>; \<open>window_exact\<close> is for fewer than \<open>2^63 - 1\<close> operations and \<open>p95_near_percentile\<close> for a million
  samples, for which rounding cannot move the rank; the theorems of \<open>Controller_Leases\<close> are for registries with
  fewer than \<open>2^64 - 2\<close> operations; the pipeline theorem is for windows of at most 1024 events, the size of the channel, beyond
  which events are dropped (\<open>readLoop_full\<close>).

  \<^bold>\<open>Not modelled.\<close> Of \<open>vmlinux.h\<close> the many declarations that the probed structures do not reach. Loading
  and attaching of BPF programs and everything else that is a call into a library: gRPC interceptors and
  connection set-up, TLS, etcd, YAML and JSON, Prometheus. The persistent registries, the
  policy store and its service, which wrap I/O around the parts above; the stream of instances with its
  fallback timer, the interceptor of streams and the names in certificates; the recorder's metrics sinks and
  the pool its slices come from. Registry operations are whole steps: the short time
  between storing a lease and pushing its deadline is not visible in the model. Commands, demo services,
  experiments and dashboards.
\<close>

section \<open>From the kernel to the telemetry upload\<close>

text \<open>
  C2: what happens on the wire is what the controller is told. For a reporting window of at most 1024
  retransmissions, on sockets whose objects are readable, the BPF probe, the ring buffer, the decoder, the
  channel of the collector and the aggregator together lose and invent nothing: for every configured
  endpoint with retransmissions, the upload has a sample with its service, instance and address whose
  count is the number of the probed sockets connected to that endpoint, and nothing is dropped.
\<close>

theorem retransmissions_reach_telemetry:
  assumes relocs: "core_patched struct_sock struct_sockaddr_in r"
    and runs: "ring s = []" "list_all readable runs" "length runs \<le> eventBufferSize"
    and c: "c = readLoop (map RawSample (ring (run_retransmissions r runs s))) NewCollector"
    and order: "\<forall>rows. mset (order rows) = mset rows"
    and k: "map_of (ag_endpoints (NewAggregator parse6 endpoints)) k = Some ref" "k \<noteq> 0" "\<exists>run\<in>set runs. remote_of run = k"
  shows "lc_dropped c = 0 \<and>
    (\<exists>sample \<in> set (NetworkSamplesToTelemetrySamples
        (fst (SnapshotAndReset order (fold (Observe parse6) (lc_events c) (NewAggregator parse6 endpoints))))).
       es_Service sample = er_Service ref \<and> es_InstanceId sample = er_InstanceID ref \<and> es_EndpointAddress sample = er_Address ref \<and>
       es_TcpRetransmit sample = int (length (filter (\<lambda>run. remote_of run = k) runs)) \<and> es_ConnectError sample = 0)"
proof -
  let ?a = "NewAggregator parse6 endpoints" and ?n = "length (filter (\<lambda>run. remote_of run = k) runs)"
  let ?sample = "\<lambda>events. telemetry_sample (window_sample parse6 (ag_endpoints ?a) events k)"
  obtain samples events where ev: "ring (run_retransmissions r runs s) = samples"
    "list_all2 (\<lambda>bytes event. DecodeRawTCPEvent bytes = Inr event) samples events"
    "list_all2 (\<lambda>run event. is_retransmission (remote_of run) event) runs events"
    using retransmissions_decode [OF relocs runs(2), of s] runs(1) by auto
  have len: "length events \<le> eventBufferSize"
    using list_all2_lengthD [OF ev(3)] runs(3) by simp
  have events: "lc_events c = events" "lc_dropped c = 0"
    using readLoop_room [OF ev(2), of NewCollector] len by (simp_all add: c ev(1) NewCollector_def)
  note counted = retransmissions_counted [OF ev(3), of parse6 k]
  have "window_inv parse6 events (fold (Observe parse6) events ?a)"
    using observe_all_inv [OF window_inv_Nil, of ?a parse6 events] by (simp add: NewAggregator_def)
  from snapshot_of_window(1) [OF this order]
  have out: "set (fst (SnapshotAndReset order (fold (Observe parse6) events ?a))) =
      window_sample parse6 (ag_endpoints ?a) events ` active_keys parse6 events"
    by (metis finite_active_keys finite_set_mset_mset_set observe_all_endpoints set_image_mset set_mset_mset)
  have "k \<in> active_keys parse6 events"
    using counted k(2, 3) by (simp add: active_keys_def)
  moreover have "?n \<le> 1024"
    using order_trans [OF length_filter_le runs(3)] by (simp add: eventBufferSize_def)
  then have "wrap64 (int ?n) = int ?n"
    by (intro wrap64_id) (simp_all add: max_int64_def min_int64_def)
  moreover have "wrap64 0 = 0"
    by (simp add: wrap64_def)
  ultimately have "?sample events \<in> telemetry_sample ` window_sample parse6 (ag_endpoints ?a) events ` active_keys parse6 events"
    "es_Service (?sample events) = er_Service ref" "es_InstanceId (?sample events) = er_InstanceID ref" "es_EndpointAddress (?sample events) = er_Address ref"
    "es_TcpRetransmit (?sample events) = int ?n" "es_ConnectError (?sample events) = 0"
    using counted k(1) by (blast, simp_all add: telemetry_sample_def window_sample_def sample_of_row_def window_row_def ref_for_def)
  then show ?thesis
    unfolding events NetworkSamplesToTelemetrySamples_def set_map out by blast
qed

theorem retransmissions_reach_telemetry_witness:
  "\<exists>sample \<in> set (NetworkSamplesToTelemetrySamples
      (fst (SnapshotAndReset rev (fold (Observe (\<lambda>s. None))
        (lc_events (readLoop (map RawSample (ring (run_retransmissions demo_relocs [demo_run, demo_run] demo_state))) NewCollector))
        (NewAggregator (\<lambda>s. None) [(''127.0.0.1:8080'', demo_ref)]))))).
     es_Service sample = ''pay'' \<and> es_TcpRetransmit sample = 2"
proof -
  note demo_relocs_patched
  moreover have "map_of (ag_endpoints (NewAggregator (\<lambda>s. None) [(''127.0.0.1:8080'', demo_ref)])) (packEndpoint 0x0100007F 8080) = Some demo_ref"
    by (simp add: NewAggregator_def demo_parse demo_ref_def)
  moreover have "packEndpoint 0x0100007F 8080 \<noteq> 0"
    by code_simp
  ultimately show ?thesis
    using retransmissions_reach_telemetry [of demo_relocs demo_state "[demo_run, demo_run]" _ rev "\<lambda>s. None"
        "[(''127.0.0.1:8080'', demo_ref)]" "packEndpoint 0x0100007F 8080" demo_ref]
    by (auto simp: demo_run_readable demo_run_remote demo_state_def eventBufferSize_def demo_ref_def)
qed

end
